(* ===== verification/Prelude.thy ===== *)
theory Prelude
  imports
    Main
    "HOL-Library.State_Monad"
    "HOL-Library.Product_Lexorder"
    "HOL-Library.List_Lexorder"
    "HOL-Library.Char_ord"
begin

text \<open>
  Shared foundation of the development: the shape of a Go function that may fail, the state
  monad it runs in, a weakest-precondition calculus for it, the relational contract every
  handler of the server is checked against, and generic facts on association-free row lists.

  A Go function \<^verbatim>\<open>func f(...) (T, error)\<close> that touches the server's state is a value of type
  \<open>('s, 'e + 't) state\<close>: \<open>Inl e\<close> is \<^verbatim>\<open>return nil, err\<close>, \<open>Inr x\<close> is \<^verbatim>\<open>return x, nil\<close>.
\<close>

subsection \<open>Collections of facts\<close>

named_theorems wp_simps \<open>weakest preconditions of the monad's operations\<close>
named_theorems distinct_names \<open>distinctness of the source's string constants\<close>

subsection \<open>Monad abbreviations\<close>

abbreviation ret :: "'a \<Rightarrow> ('s, 'a) state" where
  "ret \<equiv> State_Monad.return"

abbreviation ok :: "'a \<Rightarrow> ('s, 'e + 'a) state" where
  "ok x \<equiv> State_Monad.return (Inr x)"

abbreviation err :: "'e \<Rightarrow> ('s, 'e + 'a) state" where
  "err e \<equiv> State_Monad.return (Inl e)"

text \<open>\<open>guard_ok m k\<close> is \<^verbatim>\<open>x, err := m; if err != nil { return err }; k(x)\<close>.\<close>

definition guard_ok :: "('s, 'e + 'a) state \<Rightarrow> ('a \<Rightarrow> ('s, 'e + 'b) state) \<Rightarrow> ('s, 'e + 'b) state" where
  "guard_ok m k = do { r \<leftarrow> m; (case r of Inl e \<Rightarrow> err e | Inr x \<Rightarrow> k x) }"

text \<open>Rewriting the error of a call: \<^verbatim>\<open>if errors.Is(err, E) { return E' }\<close>.\<close>

definition map_err :: "('e \<Rightarrow> 'e) \<Rightarrow> ('s, 'e + 'a) state \<Rightarrow> ('s, 'e + 'a) state" where
  "map_err f m = do { r \<leftarrow> m; ret (case r of Inl e \<Rightarrow> Inl (f e) | Inr x \<Rightarrow> Inr x) }"

text \<open>A call whose error is only logged.\<close>

definition ignore_err :: "('s, 'e + 'a) state \<Rightarrow> ('s, unit) state" where
  "ignore_err m = do { _ \<leftarrow> m; ret () }"

text \<open>A \<^verbatim>\<open>for\<close> loop over a slice whose body only has effects.\<close>

primrec for_each :: "('a \<Rightarrow> ('s, unit) state) \<Rightarrow> 'a list \<Rightarrow> ('s, unit) state" where
  "for_each f [] = ret ()"
| "for_each f (x # xs) = do { _ \<leftarrow> f x; for_each f xs }"

subsection \<open>Weakest preconditions\<close>

definition wp :: "('s, 'a) state \<Rightarrow> ('a \<Rightarrow> 's \<Rightarrow> bool) \<Rightarrow> 's \<Rightarrow> bool" where
  "wp m Q s = (case run_state m s of (a, s') \<Rightarrow> Q a s')"

lemma wp_return [wp_simps]: "wp (ret x) Q s = Q x s"
  by (simp add: wp_def)

lemma wp_return_fun [wp_simps]: "wp (ret x) Q = Q x"
  by (rule ext) (rule wp_return)

lemma wp_bind [wp_simps]: "wp (State_Monad.bind m f) Q s = wp m (\<lambda>a. wp (f a) Q) s"
  by (simp add: wp_def split: prod.splits)

lemma wp_get [wp_simps]: "wp State_Monad.get Q s = Q s s"
  by (simp add: wp_def)

lemma wp_set [wp_simps]: "wp (State_Monad.set t) Q s = Q () t"
  by (simp add: wp_def)

lemma wp_guard_ok [wp_simps]:
  "wp (guard_ok m k) Q s =
     wp m (\<lambda>r s'. case r of Inl e \<Rightarrow> Q (Inl e) s' | Inr x \<Rightarrow> wp (k x) Q s') s"
  by (simp add: guard_ok_def wp_def split: prod.splits sum.splits)

lemma wp_map_err [wp_simps]:
  "wp (map_err f m) Q s =
     wp m (\<lambda>r s'. case r of Inl e \<Rightarrow> Q (Inl (f e)) s' | Inr x \<Rightarrow> Q (Inr x) s') s"
  by (simp add: map_err_def wp_def split: prod.splits sum.splits)

lemma wp_ignore_err [wp_simps]: "wp (ignore_err m) Q s = wp m (\<lambda>_. Q ()) s"
  by (simp add: ignore_err_def wp_def split: prod.splits)

lemma wp_case_sum [wp_simps]:
  "wp (case r of Inl e \<Rightarrow> f e | Inr x \<Rightarrow> g x) Q s =
     (case r of Inl e \<Rightarrow> wp (f e) Q s | Inr x \<Rightarrow> wp (g x) Q s)"
  by (cases r) simp_all

lemma wp_case_option [wp_simps]:
  "wp (case r of None \<Rightarrow> f | Some x \<Rightarrow> g x) Q s =
     (case r of None \<Rightarrow> wp f Q s | Some x \<Rightarrow> wp (g x) Q s)"
  by (cases r) simp_all

lemma wp_if [wp_simps]: "wp (if b then m else n) Q s = (if b then wp m Q s else wp n Q s)"
  by simp

lemma wp_mono: "wp m P s \<Longrightarrow> (\<And>a t. P a t \<Longrightarrow> Q a t) \<Longrightarrow> wp m Q s"
  by (auto simp: wp_def split: prod.splits)

lemma wp_seq: "wp m P s \<Longrightarrow> (\<And>a t. P a t \<Longrightarrow> wp (f a) Q t) \<Longrightarrow> wp (State_Monad.bind m f) Q s"
  by (simp add: wp_bind) (rule wp_mono)

lemma wp_conj: "wp m (\<lambda>a t. P a t \<and> Q a t) s \<longleftrightarrow> wp m P s \<and> wp m Q s"
  by (auto simp: wp_def split: prod.splits)

lemma wp_conjI: "wp m P s \<Longrightarrow> wp m Q s \<Longrightarrow> wp m (\<lambda>a t. P a t \<and> Q a t) s"
  by (simp add: wp_conj)

lemma wp_run: "run_state m s = (a, t) \<Longrightarrow> wp m Q s \<Longrightarrow> Q a t"
  by (simp add: wp_def)

lemma wp_iff: "wp m Q s \<longleftrightarrow> (\<forall>a t. run_state m s = (a, t) \<longrightarrow> Q a t)"
  by (auto simp: wp_def split: prod.splits)

lemma run_state_guard_ok [simp]:
  "run_state (guard_ok m k) s =
     (case run_state m s of (r, t) \<Rightarrow>
        (case r of Inl e \<Rightarrow> (Inl e, t) | Inr x \<Rightarrow> run_state (k x) t))"
  by (simp add: guard_ok_def split: prod.splits sum.splits)

lemma run_state_map_err [simp]:
  "run_state (map_err f m) s =
     (case run_state m s of (r, t) \<Rightarrow> (case r of Inl e \<Rightarrow> Inl (f e) | Inr x \<Rightarrow> Inr x, t))"
  by (simp add: map_err_def split: prod.splits)

lemma run_state_ignore_err [simp]: "run_state (ignore_err m) s = ((), snd (run_state m s))"
  by (simp add: ignore_err_def split: prod.splits)

subsection \<open>Which errors a computation can return\<close>

definition errs :: "('e \<Rightarrow> bool) \<Rightarrow> ('s, 'e + 'a) state \<Rightarrow> bool" where
  "errs P m \<longleftrightarrow> (\<forall>s e t. run_state m s = (Inl e, t) \<longrightarrow> P e)"

lemma errsD: "errs P m \<Longrightarrow> run_state m s = (Inl e, t) \<Longrightarrow> P e"
  by (auto simp: errs_def)

lemma errs_ok: "errs P (ok x)"
  by (simp add: errs_def)

lemma errs_err: "P e \<Longrightarrow> errs P (err e)"
  by (simp add: errs_def)

lemma errs_bind: "(\<And>a. errs P (f a)) \<Longrightarrow> errs P (State_Monad.bind m f)"
  by (auto simp: errs_def split: prod.splits)

lemma errs_guard_ok: "errs P m \<Longrightarrow> (\<And>x. errs P (k x)) \<Longrightarrow> errs P (guard_ok m k)"
  by (auto simp: errs_def split: prod.splits sum.splits)

lemma errs_map_err: "errs Q m \<Longrightarrow> (\<And>e. Q e \<Longrightarrow> P (f e)) \<Longrightarrow> errs P (map_err f m)"
  by (auto simp: errs_def split: prod.splits sum.splits)

lemma errs_if: "errs P m \<Longrightarrow> errs P n \<Longrightarrow> errs P (if b then m else n)"
  by simp

lemma errs_let: "errs P (f x) \<Longrightarrow> errs P (let y = x in f y)"
  by simp

lemma errs_case_option:
  "errs P f \<Longrightarrow> (\<And>x. errs P (g x)) \<Longrightarrow> errs P (case r of None \<Rightarrow> f | Some x \<Rightarrow> g x)"
  by (cases r) simp_all

lemma errs_case_list:
  "errs P f \<Longrightarrow> (\<And>x xs. errs P (g x xs)) \<Longrightarrow> errs P (case r of [] \<Rightarrow> f | x # xs \<Rightarrow> g x xs)"
  by (cases r) simp_all

lemmas errs_intros = errs_ok errs_err errs_guard_ok errs_bind errs_if errs_let errs_case_option
  errs_case_list

subsection \<open>The relational contract of a computation\<close>

text \<open>
  A preorder on states that a computation respects: an invariant (\<open>I s \<longrightarrow> I t\<close>), a log
  that only grows, a status that is final. Composite handlers respect every preorder their
  primitive steps respect, so each handler is analysed once per locale, not once per property.
\<close>

locale state_preorder =
  fixes R :: "'s \<Rightarrow> 's \<Rightarrow> bool"
  assumes R_refl: "R s s"
    and R_trans: "R s t \<Longrightarrow> R t u \<Longrightarrow> R s u"
begin

definition resp :: "('s, 'a) state \<Rightarrow> bool" where
  "resp m = state_io_rel R m"

lemma respI: "(\<And>s. R s (snd (run_state m s))) \<Longrightarrow> resp m"
  by (simp add: resp_def state_io_rel_def)

lemma respD: "resp m \<Longrightarrow> run_state m s = (a, t) \<Longrightarrow> R s t"
  by (auto simp: resp_def)

lemma resp_return: "resp (ret x)"
  by (rule respI) (simp add: R_refl)

lemma resp_get: "resp State_Monad.get"
  by (rule respI) (simp add: R_refl)

lemma resp_bind:
  assumes "resp m" and "\<And>a. resp (f a)"
  shows "resp (State_Monad.bind m f)"
proof (rule respI)
  fix s
  obtain a t where m: "run_state m s = (a, t)" by (cases "run_state m s")
  obtain b u where f: "run_state (f a) t = (b, u)" by (cases "run_state (f a) t")
  from m f assms have "R s t" and "R t u" by (auto dest: respD)
  with m f show "R s (snd (run_state (State_Monad.bind m f) s))" by (auto intro: R_trans)
qed

lemma resp_if: "resp m \<Longrightarrow> resp n \<Longrightarrow> resp (if b then m else n)"
  by simp

lemma resp_let: "resp (f x) \<Longrightarrow> resp (let y = x in f y)"
  by simp

lemma resp_case_option:
  "resp f \<Longrightarrow> (\<And>x. resp (g x)) \<Longrightarrow> resp (case r of None \<Rightarrow> f | Some x \<Rightarrow> g x)"
  by (cases r) simp_all

lemma resp_case_sum:
  "(\<And>e. resp (f e)) \<Longrightarrow> (\<And>x. resp (g x)) \<Longrightarrow> resp (case r of Inl e \<Rightarrow> f e | Inr x \<Rightarrow> g x)"
  by (cases r) simp_all

lemma resp_case_list:
  "resp f \<Longrightarrow> (\<And>x xs. resp (g x xs)) \<Longrightarrow> resp (case r of [] \<Rightarrow> f | x # xs \<Rightarrow> g x xs)"
  by (cases r) simp_all

lemma resp_case_bool: "resp m \<Longrightarrow> resp n \<Longrightarrow> resp (case b of True \<Rightarrow> m | False \<Rightarrow> n)"
  by (cases b) simp_all

lemma resp_case_prod: "(\<And>x y. resp (f x y)) \<Longrightarrow> resp (case p of (x, y) \<Rightarrow> f x y)"
  by (cases p) simp

lemma resp_guard_ok: "resp m \<Longrightarrow> (\<And>x. resp (k x)) \<Longrightarrow> resp (guard_ok m k)"
  unfolding guard_ok_def by (intro resp_bind resp_case_sum resp_return) auto

lemma resp_for_each: "(\<And>x. resp (f x)) \<Longrightarrow> resp (for_each f xs)"
  by (induction xs) (auto intro: resp_return resp_bind)

lemma resp_map_err: "resp m \<Longrightarrow> resp (map_err f m)"
  unfolding map_err_def by (intro resp_bind resp_return)

lemma resp_ignore_err: "resp m \<Longrightarrow> resp (ignore_err m)"
  unfolding ignore_err_def by (intro resp_bind resp_return)

lemmas resp_intros =
  resp_map_err resp_ignore_err
  resp_return resp_get resp_bind resp_if resp_let resp_case_option resp_case_sum
  resp_case_list resp_case_bool resp_case_prod resp_guard_ok resp_for_each

end

subsection \<open>Rows: finding, replacing and ordering by a key\<close>

text \<open>A table is a list of rows; a row is found by its key and replaced in place.\<close>

definition put_row :: "('r \<Rightarrow> 'k) \<Rightarrow> 'k \<Rightarrow> 'r \<Rightarrow> 'r list \<Rightarrow> 'r list" where
  "put_row key k r rows = map (\<lambda>x. if key x = k then r else x) rows"

lemma distinct_keyD:
  "\<lbrakk>distinct (map key xs); x \<in> set xs; y \<in> set xs; key x = key y\<rbrakk> \<Longrightarrow> x = y"
  by (auto simp: distinct_map dest: inj_onD)

lemma find_key_eq: "find P xs = Some x \<Longrightarrow> P x \<and> x \<in> set xs"
  by (auto simp: find_Some_iff)

lemma find_unique_key:
  assumes "distinct (map key rows)" and "r \<in> set rows" and "P r"
    and "\<And>x. P x \<Longrightarrow> key x = key r"
  shows "find P rows = Some r"
proof (cases "find P rows")
  case None
  with assms(2,3) show ?thesis by (auto simp: find_None_iff)
next
  case (Some x)
  then have "P x" and "x \<in> set rows" by (auto simp: find_Some_iff)
  with assms show ?thesis using Some by (metis distinct_map inj_on_eq_iff)
qed

lemma put_row_keys [simp]: "key r = k \<Longrightarrow> map key (put_row key k r rows) = map key rows"
  by (induction rows) (auto simp: put_row_def)

lemma set_put_row:
  "x \<in> set (put_row key k r rows) \<longleftrightarrow>
     (x \<in> set rows \<and> key x \<noteq> k) \<or> (x = r \<and> k \<in> key ` set rows)"
  by (auto simp: put_row_def split: if_splits)

lemma length_put_row [simp]: "length (put_row key k r rows) = length rows"
  by (simp add: put_row_def)

lemma find_put_row_same:
  "\<lbrakk>k \<in> key ` set rows; key r = k\<rbrakk>
    \<Longrightarrow> find (\<lambda>x. key x = k) (put_row key k r rows) = Some r"
  by (induction rows) (auto simp: put_row_def)

lemma find_put_row_other:
  "\<lbrakk>j \<noteq> k; key r = k\<rbrakk>
    \<Longrightarrow> find (\<lambda>x. key x = j) (put_row key k r rows) = find (\<lambda>x. key x = j) rows"
  by (induction rows) (auto simp: put_row_def)

end
