(* ===== verification/Store_Types.thy ===== *)
theory Store_Types
  imports Prelude
begin

text \<open>
  The data of the persistence layer: JSON documents, the errors the code matches on, and the
  rows and update structs of \<^verbatim>\<open>pkg/store/models.go\<close>. Timestamps and durations are integers
  (nanoseconds); a nullable column or a Go pointer is an \<open>option\<close>, a \<^verbatim>\<open>json.RawMessage\<close> that may be
  nil is a \<open>json option\<close>. The records of workspaces, provider configs, agent configs and
  profiles hold the columns the managers read.
\<close>

section \<open>Values\<close>

text \<open>A JSON document (\<^verbatim>\<open>json.RawMessage\<close>, \<^verbatim>\<open>JSONB\<close>); \<open>JTime\<close> is an RFC 3339 timestamp.\<close>

datatype json =
    JNull
  | JBool bool
  | JInt int
  | JStr string
  | JTime int
  | JArr "json list"
  | JObj "(string \<times> json) list"

text \<open>Errors, one constructor per sentinel the code matches with \<^verbatim>\<open>errors.Is\<close>.\<close>

datatype (plugins only: code size) gerr =
    ErrNotFound string string
  | ErrAlreadyExists string
  | ErrConflict
  | ErrInvalidInput string
  | ErrForeignKeyViolation string
  | ErrDatabase string
  | ErrSend string
  | ErrProvider string
  | ErrOS string
  | ErrSessionNotFound
  | ErrInvalidSessionTransition
  | ErrSessionAlreadyTerminated
  | ErrSessionNotActive
  | ErrSessionNoRunner
  | ErrSessionAlreadyHasRunner
  | ErrWorkspaceRequired
  | ErrWorkspaceNotFound
  | ErrWorkspaceDeleted
  | ErrAgentRequired
  | ErrRunnerNotIdle
  | ErrScheduleCronRequired
  | ErrNoRunnerAvailable
  | ErrRunnerSpawning
  | ErrTenantMismatch
  | ErrTaskNotFound
  | ErrTaskRunNotFound
  | ErrInvalidTaskRunTransition
  | ErrTaskAlreadyCompleted
  | ErrTaskAlreadyCanceled
  | ErrTaskNotRunning string
  | ErrNoRunningTaskRun
  | ErrSessionRequired
  | ErrPromptRequired
  | ErrNoRunnerAttached
  | ErrMaxRetriesExceeded
  | ErrDispatchRaceLost
  | ErrInvalidStatusTransition
  | ErrPermissionNotFound
  | ErrPermissionAlreadyResponded
  | ErrPermissionNotPending
  | ErrWorkspaceWouldNotSurvive
  | ErrInvalidToken
  | ErrTokenRevoked
  | ErrTokenExpired
  | ErrTokenNotFound
  | ErrInvalidPrefix
  | ErrInvalidName
  | ErrInvalidPoolName
  | ErrRotationInProgress
  | ErrRotationWindowOpen
  | ErrTokenAlreadyBound
  | ErrTokenRequired
  | ErrRandom string
  | ErrProviderRequired
  | ErrProviderNotManaged
  | ErrRunnerTokenSvcRequired
  | ErrBudgetSpent int int
  | ErrWebhookNotFound
  | ErrWebhookNameExists
  | ErrWebhookEventNotFound
  | ErrInvalidEventPattern
  | ErrEventNotRetryable
  | ErrCipher string
  | ErrScheduledTaskNotFound
  | ErrInvalidCronExpression
  | ErrInvalidTimezone
  | ErrScheduledTaskNameRequired
  | ErrScheduledTaskPromptRequired
  | ErrScheduledTaskCronRequired
  | ErrScheduledTaskAlreadyActive
  | ErrScheduledTaskAlreadyPaused
  | ErrScheduledTaskDisabled
  | ErrScheduledTickTaken
  | ErrTemplate string
  | ErrPanic string \<comment> \<open>a runtime panic, which no caller handles as an error\<close>
  | ErrAdvertiseAddrRequired

fun is_not_found :: "gerr \<Rightarrow> bool" where
  "is_not_found (ErrNotFound _ _) = True"
| "is_not_found _ = False"

fun is_already_exists :: "gerr \<Rightarrow> bool" where
  "is_already_exists (ErrAlreadyExists _) = True"
| "is_already_exists _ = False"

definition stringValue :: "string option \<Rightarrow> string" where
  "stringValue s = (case s of None \<Rightarrow> '''' | Some v \<Rightarrow> v)"

text \<open>\<^verbatim>\<open>p != nil && *p != ""\<close>\<close>

definition nonempty :: "string option \<Rightarrow> bool" where
  "nonempty p \<longleftrightarrow> (case p of None \<Rightarrow> False | Some v \<Rightarrow> v \<noteq> '''')"

lemma nonempty_iff: "nonempty p \<longleftrightarrow> (\<exists>v. p = Some v \<and> v \<noteq> '''')"
  by (cases p) (auto simp: nonempty_def)

definition int32 :: "int \<Rightarrow> int" where
  "int32 x = (x + 2 ^ 31) mod 2 ^ 32 - 2 ^ 31"

definition int64 :: "int \<Rightarrow> int" where
  "int64 x = (x + 2 ^ 63) mod 2 ^ 64 - 2 ^ 63"

lemma int32_id: "- (2 ^ 31) \<le> x \<Longrightarrow> x < 2 ^ 31 \<Longrightarrow> int32 x = x"
  by (simp add: int32_def)

lemma int64_id: "- (2 ^ 63) \<le> x \<Longrightarrow> x < 2 ^ 63 \<Longrightarrow> int64 x = x"
  by (simp add: int64_def)

section \<open>Rows\<close>

record Runner =
  rID :: string
  rName :: string
  rHostname :: string
  rStatus :: string
  rTainted :: bool
  rTaintReason :: "string option"
  rSandboxMode :: string
  rSandboxTypes :: "string list"
  rProviderConfigID :: "string option"
  rProviderInstanceID :: "string option"
  rPoolName :: "string option"
  rProfileID :: "string option"
  rCapabilities :: "string list"
  rTenantID :: "string option"
  rLabels :: json
  rAnnotations :: json
  rLastSeenAt :: "int option"
  rCreatedAt :: int
  rUpdatedAt :: int

record RunnerUpdates =
  ruName :: "string option"
  ruHostname :: "string option"
  ruStatus :: "string option"
  ruTainted :: "bool option"
  ruTaintReason :: "string option"
  ruSandboxMode :: "string option"
  ruSandboxTypes :: "string list option"
  ruProviderConfigID :: "string option"
  ruProviderInstanceID :: "string option"
  ruPoolName :: "string option"
  ruProfileID :: "string option"
  ruCapabilities :: "string list option"
  ruLabels :: "json option"
  ruAnnotations :: "json option"
  ruLastSeenAt :: "int option"

record Workspace =
  wsID :: string
  wsName :: string
  wsPersist :: bool
  wsMobility :: string
  wsTenantID :: "string option"
  wsDeletedAt :: "int option"

record ProviderConfig =
  pcID :: string
  pcName :: string
  pcTenantID :: "string option"

record AgentConfig =
  acID :: string
  acAgent :: string
  acModel :: "string option"
  acBaseURL :: "string option"
  acTenantID :: "string option"

record Profile =
  pfID :: string
  pfProviderConfigID :: "string option"
  pfSelector :: "json option"
  pfResources :: "json option"
  pfNetwork :: "json option"
  pfTenantID :: "string option"

record Session =
  sID :: string
  sName :: "string option"
  sStatus :: string
  sRunnerID :: "string option"
  sWorkspaceID :: string
  sProfileID :: "string option"
  sAgent :: string
  sIsBYOK :: bool
  sAgentConfigID :: "string option"
  sAgentConfigMetadata :: "json option"
  sContextSnapshot :: "json option"
  sAgentVersion :: "string option"
  sSuspendStrategy :: "string option"
  sSuspendSnapshotID :: "string option"
  sSuspendWorkspaceSynced :: "bool option"
  sWorkspaceManifestID :: "string option"
  sPreviousRunnerID :: "string option"
  sNetworkPolicy :: string
  sAllowedHosts :: "string list"
  sLifecycleMode :: string
  sIdleTimeoutSeconds :: "int option"
  sMaxLifetimeSeconds :: "int option"
  sScheduleCron :: "string option"
  sScheduleTimezone :: "string option"
  sNextScheduledAt :: "int option"
  sTenantID :: "string option"
  sLabels :: json
  sAnnotations :: json
  sLastActivityAt :: "int option"
  sSuspendedAt :: "int option"
  sResumedAt :: "int option"
  sCreatedAt :: int
  sUpdatedAt :: int

record SessionUpdates =
  suName :: "string option"
  suStatus :: "string option"
  suRunnerID :: "string option"
  suProfileID :: "string option"
  suAgentConfigID :: "string option"
  suAgentConfigMetadata :: "json option"
  suContextSnapshot :: "json option"
  suAgentVersion :: "string option"
  suSuspendStrategy :: "string option"
  suSuspendSnapshotID :: "string option"
  suSuspendWorkspaceSynced :: "bool option"
  suWorkspaceManifestID :: "string option"
  suPreviousRunnerID :: "string option"
  suNetworkPolicy :: "string option"
  suAllowedHosts :: "string list option"
  suLifecycleMode :: "string option"
  suIdleTimeoutSeconds :: "int option"
  suMaxLifetimeSeconds :: "int option"
  suScheduleCron :: "string option"
  suScheduleTimezone :: "string option"
  suNextScheduledAt :: "int option"
  suLabels :: "json option"
  suAnnotations :: "json option"
  suLastActivityAt :: "int option"
  suSuspendedAt :: "int option"
  suResumedAt :: "int option"
  suExpectedStatus :: "string option"

record Task =
  tID :: string
  tSessionID :: string
  tPrompt :: string
  tStatus :: string
  tMaxRetries :: int
  tRetryCount :: int
  tTimeoutSeconds :: int
  tTenantID :: "string option"
  tLabels :: json
  tAnnotations :: json
  tNextDispatchAfter :: "int option"
  tDispatchAttempts :: int
  tDispatchParkedReason :: "string option"
  tCreatedAt :: int
  tUpdatedAt :: int

record TaskUpdates =
  tuStatus :: "string option"
  tuRetryCount :: "int option"
  tuLabels :: "json option"
  tuAnnotations :: "json option"
  tuNextDispatchAfter :: "int option"
  tuDispatchAttempts :: "int option"
  tuDispatchParkedReason :: "string option"
  tuClearDispatchBackoff :: bool
  tuExpectedStatus :: "string option"

record TaskRun =
  trID :: string
  trTaskID :: string
  trAttempt :: int
  trRunnerID :: "string option"
  trStatus :: string
  trError :: "string option"
  trExitCode :: "int option"
  trTokensInput :: "int option"
  trTokensOutput :: "int option"
  trTenantID :: "string option"
  trQueuedAt :: int
  trAssignedAt :: "int option"
  trStartedAt :: "int option"
  trEndedAt :: "int option"
  trUpdatedAt :: int

record TaskRunUpdates =
  truRunnerID :: "string option"
  truStatus :: "string option"
  truError :: "string option"
  truExitCode :: "int option"
  truTokensInput :: "int option"
  truTokensOutput :: "int option"
  truAssignedAt :: "int option"
  truStartedAt :: "int option"
  truEndedAt :: "int option"

record PermissionRequest =
  pID :: string
  pOriginalRequestID :: string
  pSessionID :: string
  pTaskID :: string
  pRunID :: string
  pTool :: string
  pAction :: string
  pContext :: "string option"
  pRiskLevel :: string
  pStatus :: string
  pSuspendAfterSeconds :: int
  pRespondedBy :: "string option"
  pResponseReason :: "string option"
  pRespondedAt :: "int option"
  pDeliveredAt :: "int option"
  pTenantID :: "string option"
  pCreatedAt :: int
  pUpdatedAt :: int

record PermissionRequestUpdates =
  puStatus :: "string option"
  puRespondedBy :: "string option"
  puResponseReason :: "string option"
  puRespondedAt :: "int option"
  puDeliveredAt :: "int option"

text \<open>The zero value of each update struct: nothing to write.\<close>

definition no_runner_updates :: RunnerUpdates where
  "no_runner_updates =
    \<lparr>ruName = None, ruHostname = None, ruStatus = None, ruTainted = None, ruTaintReason = None,
     ruSandboxMode = None, ruSandboxTypes = None, ruProviderConfigID = None,
     ruProviderInstanceID = None, ruPoolName = None, ruProfileID = None, ruCapabilities = None,
     ruLabels = None, ruAnnotations = None, ruLastSeenAt = None\<rparr>"

definition no_session_updates :: SessionUpdates where
  "no_session_updates =
    \<lparr>suName = None, suStatus = None, suRunnerID = None, suProfileID = None,
     suAgentConfigID = None, suAgentConfigMetadata = None, suContextSnapshot = None,
     suAgentVersion = None, suSuspendStrategy = None, suSuspendSnapshotID = None,
     suSuspendWorkspaceSynced = None, suWorkspaceManifestID = None, suPreviousRunnerID = None,
     suNetworkPolicy = None, suAllowedHosts = None, suLifecycleMode = None,
     suIdleTimeoutSeconds = None, suMaxLifetimeSeconds = None, suScheduleCron = None,
     suScheduleTimezone = None, suNextScheduledAt = None, suLabels = None, suAnnotations = None,
     suLastActivityAt = None, suSuspendedAt = None, suResumedAt = None, suExpectedStatus = None\<rparr>"

definition no_task_updates :: TaskUpdates where
  "no_task_updates =
    \<lparr>tuStatus = None, tuRetryCount = None, tuLabels = None, tuAnnotations = None,
     tuNextDispatchAfter = None, tuDispatchAttempts = None, tuDispatchParkedReason = None,
     tuClearDispatchBackoff = False, tuExpectedStatus = None\<rparr>"

definition no_task_run_updates :: TaskRunUpdates where
  "no_task_run_updates =
    \<lparr>truRunnerID = None, truStatus = None, truError = None, truExitCode = None,
     truTokensInput = None, truTokensOutput = None, truAssignedAt = None,
     truStartedAt = None, truEndedAt = None\<rparr>"

definition no_permission_updates :: PermissionRequestUpdates where
  "no_permission_updates =
    \<lparr>puStatus = None, puRespondedBy = None, puResponseReason = None, puRespondedAt = None,
     puDeliveredAt = None\<rparr>"


text \<open>Reading the zero values.\<close>

lemma no_runner_updates_simps [simp]:
  "ruName no_runner_updates = None"
  "ruHostname no_runner_updates = None"
  "ruStatus no_runner_updates = None"
  "ruTainted no_runner_updates = None"
  "ruTaintReason no_runner_updates = None"
  "ruSandboxMode no_runner_updates = None"
  "ruSandboxTypes no_runner_updates = None"
  "ruProviderConfigID no_runner_updates = None"
  "ruProviderInstanceID no_runner_updates = None"
  "ruPoolName no_runner_updates = None"
  "ruProfileID no_runner_updates = None"
  "ruCapabilities no_runner_updates = None"
  "ruLabels no_runner_updates = None"
  "ruAnnotations no_runner_updates = None"
  "ruLastSeenAt no_runner_updates = None"
  by (simp_all add: no_runner_updates_def)

lemma no_session_updates_simps [simp]:
  "suName no_session_updates = None"
  "suStatus no_session_updates = None"
  "suRunnerID no_session_updates = None"
  "suProfileID no_session_updates = None"
  "suAgentConfigID no_session_updates = None"
  "suAgentConfigMetadata no_session_updates = None"
  "suContextSnapshot no_session_updates = None"
  "suAgentVersion no_session_updates = None"
  "suSuspendStrategy no_session_updates = None"
  "suSuspendSnapshotID no_session_updates = None"
  "suSuspendWorkspaceSynced no_session_updates = None"
  "suWorkspaceManifestID no_session_updates = None"
  "suPreviousRunnerID no_session_updates = None"
  "suNetworkPolicy no_session_updates = None"
  "suAllowedHosts no_session_updates = None"
  "suLifecycleMode no_session_updates = None"
  "suIdleTimeoutSeconds no_session_updates = None"
  "suMaxLifetimeSeconds no_session_updates = None"
  "suScheduleCron no_session_updates = None"
  "suScheduleTimezone no_session_updates = None"
  "suNextScheduledAt no_session_updates = None"
  "suLabels no_session_updates = None"
  "suAnnotations no_session_updates = None"
  "suLastActivityAt no_session_updates = None"
  "suSuspendedAt no_session_updates = None"
  "suResumedAt no_session_updates = None"
  "suExpectedStatus no_session_updates = None"
  by (simp_all add: no_session_updates_def)

lemma no_task_updates_simps [simp]:
  "tuStatus no_task_updates = None"
  "tuRetryCount no_task_updates = None"
  "tuLabels no_task_updates = None"
  "tuAnnotations no_task_updates = None"
  "tuNextDispatchAfter no_task_updates = None"
  "tuDispatchAttempts no_task_updates = None"
  "tuDispatchParkedReason no_task_updates = None"
  "\<not> tuClearDispatchBackoff no_task_updates"
  "tuExpectedStatus no_task_updates = None"
  by (simp_all add: no_task_updates_def)

lemma no_task_run_updates_simps [simp]:
  "truRunnerID no_task_run_updates = None"
  "truStatus no_task_run_updates = None"
  "truError no_task_run_updates = None"
  "truExitCode no_task_run_updates = None"
  "truTokensInput no_task_run_updates = None"
  "truTokensOutput no_task_run_updates = None"
  "truAssignedAt no_task_run_updates = None"
  "truStartedAt no_task_run_updates = None"
  "truEndedAt no_task_run_updates = None"
  by (simp_all add: no_task_run_updates_def)

lemma no_permission_updates_simps [simp]:
  "puStatus no_permission_updates = None"
  "puRespondedBy no_permission_updates = None"
  "puResponseReason no_permission_updates = None"
  "puRespondedAt no_permission_updates = None"
  "puDeliveredAt no_permission_updates = None"
  by (simp_all add: no_permission_updates_def)

text \<open>An update struct with a status, a reference or a counter set is not the zero value.\<close>

lemma task_updates_nonzero:
  "tuStatus u \<noteq> None \<or> tuDispatchAttempts u \<noteq> None \<or> tuClearDispatchBackoff u
    \<Longrightarrow> u\<lparr>tuExpectedStatus := None\<rparr> \<noteq> no_task_updates"
  by (cases u) (auto simp: no_task_updates_def)

lemma session_updates_nonzero:
  "suStatus u \<noteq> None \<or> suRunnerID u \<noteq> None \<or> suContextSnapshot u \<noteq> None
    \<Longrightarrow> u\<lparr>suExpectedStatus := None\<rparr> \<noteq> no_session_updates"
  by (cases u) (auto simp: no_session_updates_def)

lemma task_run_updates_nonzero: "truStatus u \<noteq> None \<or> truRunnerID u \<noteq> None \<Longrightarrow> u \<noteq> no_task_run_updates"
  by (auto simp: no_task_run_updates_def)

lemma runner_updates_nonzero: "ruStatus u \<noteq> None \<or> ruLastSeenAt u \<noteq> None \<Longrightarrow> u \<noteq> no_runner_updates"
  by (auto simp: no_runner_updates_def)

lemma permission_updates_nonzero:
  "puStatus u \<noteq> None \<or> puDeliveredAt u \<noteq> None \<Longrightarrow> u \<noteq> no_permission_updates"
  by (auto simp: no_permission_updates_def)

end
