(* ===== verification/Store_Base.thy ===== *)
theory Store_Base
  imports Store_Types
begin

text \<open>
  The database as a record of tables, the request context and the row level security policy
  that reads it, the status constants, and the machinery of list queries
  (\<^verbatim>\<open>pkg/store/tenant.go\<close>, \<^verbatim>\<open>options.go\<close>, \<^verbatim>\<open>postgres/sorting.go\<close>, \<^verbatim>\<open>postgres/helpers.go\<close>).
\<close>

section \<open>The database\<close>

record db =
  sessions :: "Session list"
  tasks :: "Task list"
  task_runs :: "TaskRun list"
  runners :: "Runner list"
  claims :: "string \<rightharpoonup> string \<times> int" \<comment> \<open>columns claim\_session\_id and claimed\_at of runners\<close>
  permission_requests :: "PermissionRequest list"
  workspaces :: "Workspace list"
  provider_configs :: "ProviderConfig list"
  agent_configs :: "AgentConfig list"
  profiles :: "Profile list"
  multi_tenant :: bool \<comment> \<open>the connection setting app.multi\_tenant\<close>

text \<open>What a request context carries: \<^verbatim>\<open>store.WithTenant\<close> and \<^verbatim>\<open>store.WithSystemAccess\<close>.\<close>

record ctx =
  ctxTenant :: "string option"
  ctxSystem :: bool

definition background_ctx :: ctx where
  "background_ctx = \<lparr>ctxTenant = None, ctxSystem = False\<rparr>"

definition WithTenant :: "ctx \<Rightarrow> string \<Rightarrow> ctx" where
  "WithTenant c t = (if t = '''' then c else c\<lparr>ctxTenant := Some t\<rparr>)"

definition TenantFromContext :: "ctx \<Rightarrow> string option" where
  "TenantFromContext c = (case ctxTenant c of None \<Rightarrow> None
     | Some t \<Rightarrow> if t = '''' then None else Some t)"

definition WithSystemAccess :: "ctx \<Rightarrow> ctx" where
  "WithSystemAccess c = c\<lparr>ctxSystem := True\<rparr>"

definition IsSystemAccess :: "ctx \<Rightarrow> bool" where
  "IsSystemAccess c = ctxSystem c"

text \<open>The policy \<^verbatim>\<open>tenant_isolation\<close> of the tables with a nullable \<^verbatim>\<open>tenant_id\<close>.\<close>

definition rls_visible :: "db \<Rightarrow> ctx \<Rightarrow> string option \<Rightarrow> bool" where
  "rls_visible d c tenant =
     (if IsSystemAccess c then True
      else case TenantFromContext c of
        Some t \<Rightarrow> tenant = Some t
      | None \<Rightarrow> if multi_tenant d then False else tenant = None)"

section \<open>Constants\<close>

definition SessionStatusPending :: string where "SessionStatusPending = ''pending''"
definition SessionStatusActive :: string where "SessionStatusActive = ''active''"
definition SessionStatusSuspended :: string where "SessionStatusSuspended = ''suspended''"
definition SessionStatusResuming :: string where "SessionStatusResuming = ''resuming''"
definition SessionStatusTerminated :: string where "SessionStatusTerminated = ''terminated''"

definition TaskStatusPending :: string where "TaskStatusPending = ''pending''"
definition TaskStatusRunning :: string where "TaskStatusRunning = ''running''"
definition TaskStatusCompleted :: string where "TaskStatusCompleted = ''completed''"
definition TaskStatusFailed :: string where "TaskStatusFailed = ''failed''"
definition TaskStatusCanceled :: string where "TaskStatusCanceled = ''canceled''"

definition TaskRunStatusPending :: string where "TaskRunStatusPending = ''pending''"
definition TaskRunStatusAssigned :: string where "TaskRunStatusAssigned = ''assigned''"
definition TaskRunStatusRunning :: string where "TaskRunStatusRunning = ''running''"
definition TaskRunStatusCompleted :: string where "TaskRunStatusCompleted = ''completed''"
definition TaskRunStatusFailed :: string where "TaskRunStatusFailed = ''failed''"
definition TaskRunStatusTimeout :: string where "TaskRunStatusTimeout = ''timeout''"
definition TaskRunStatusCanceled :: string where "TaskRunStatusCanceled = ''canceled''"

definition StatusOffline :: string where "StatusOffline = ''offline''"
definition StatusIdle :: string where "StatusIdle = ''idle''"
definition StatusBusy :: string where "StatusBusy = ''busy''"
definition StatusPaused :: string where "StatusPaused = ''paused''"

definition PermissionStatusPending :: string where "PermissionStatusPending = ''pending''"
definition PermissionStatusApproved :: string where "PermissionStatusApproved = ''approved''"
definition PermissionStatusDenied :: string where "PermissionStatusDenied = ''denied''"
definition PermissionStatusCanceled :: string where "PermissionStatusCanceled = ''canceled''"

lemmas session_status_defs =
  SessionStatusPending_def SessionStatusActive_def SessionStatusSuspended_def
  SessionStatusResuming_def SessionStatusTerminated_def

lemmas task_status_defs =
  TaskStatusPending_def TaskStatusRunning_def TaskStatusCompleted_def TaskStatusFailed_def
  TaskStatusCanceled_def

lemmas task_run_status_defs =
  TaskRunStatusPending_def TaskRunStatusAssigned_def TaskRunStatusRunning_def
  TaskRunStatusCompleted_def TaskRunStatusFailed_def TaskRunStatusTimeout_def
  TaskRunStatusCanceled_def

lemmas runner_status_defs = StatusOffline_def StatusIdle_def StatusBusy_def StatusPaused_def

lemmas permission_status_defs =
  PermissionStatusPending_def PermissionStatusApproved_def PermissionStatusDenied_def
  PermissionStatusCanceled_def

lemma session_status_distinct [simp]:
  "distinct [SessionStatusPending, SessionStatusActive, SessionStatusSuspended,
     SessionStatusResuming, SessionStatusTerminated]"
  by (simp add: session_status_defs)

lemma session_status_neq [simp]:
  "SessionStatusPending \<noteq> SessionStatusActive" "SessionStatusActive \<noteq> SessionStatusPending"
  "SessionStatusPending \<noteq> SessionStatusSuspended" "SessionStatusSuspended \<noteq> SessionStatusPending"
  "SessionStatusPending \<noteq> SessionStatusResuming" "SessionStatusResuming \<noteq> SessionStatusPending"
  "SessionStatusPending \<noteq> SessionStatusTerminated" "SessionStatusTerminated \<noteq> SessionStatusPending"
  "SessionStatusActive \<noteq> SessionStatusSuspended" "SessionStatusSuspended \<noteq> SessionStatusActive"
  "SessionStatusActive \<noteq> SessionStatusResuming" "SessionStatusResuming \<noteq> SessionStatusActive"
  "SessionStatusActive \<noteq> SessionStatusTerminated" "SessionStatusTerminated \<noteq> SessionStatusActive"
  "SessionStatusSuspended \<noteq> SessionStatusResuming" "SessionStatusResuming \<noteq> SessionStatusSuspended"
  "SessionStatusSuspended \<noteq> SessionStatusTerminated" "SessionStatusTerminated \<noteq> SessionStatusSuspended"
  "SessionStatusResuming \<noteq> SessionStatusTerminated" "SessionStatusTerminated \<noteq> SessionStatusResuming"
  by (simp_all add: session_status_defs)

lemma task_status_neq [simp]:
  "TaskStatusPending \<noteq> TaskStatusRunning" "TaskStatusRunning \<noteq> TaskStatusPending"
  "TaskStatusPending \<noteq> TaskStatusCompleted" "TaskStatusCompleted \<noteq> TaskStatusPending"
  "TaskStatusPending \<noteq> TaskStatusFailed" "TaskStatusFailed \<noteq> TaskStatusPending"
  "TaskStatusPending \<noteq> TaskStatusCanceled" "TaskStatusCanceled \<noteq> TaskStatusPending"
  "TaskStatusRunning \<noteq> TaskStatusCompleted" "TaskStatusCompleted \<noteq> TaskStatusRunning"
  "TaskStatusRunning \<noteq> TaskStatusFailed" "TaskStatusFailed \<noteq> TaskStatusRunning"
  "TaskStatusRunning \<noteq> TaskStatusCanceled" "TaskStatusCanceled \<noteq> TaskStatusRunning"
  "TaskStatusCompleted \<noteq> TaskStatusFailed" "TaskStatusFailed \<noteq> TaskStatusCompleted"
  "TaskStatusCompleted \<noteq> TaskStatusCanceled" "TaskStatusCanceled \<noteq> TaskStatusCompleted"
  "TaskStatusFailed \<noteq> TaskStatusCanceled" "TaskStatusCanceled \<noteq> TaskStatusFailed"
  by (simp_all add: task_status_defs)

section \<open>Listing: limits, ordering, cursors\<close>

text \<open>
  \<^verbatim>\<open>sorting.go\<close>. A cursor is the position \<open>(key, id)\<close> its opaque text encodes. Text columns are
  compared byte-wise; NULL sorts after every value in ascending order, as PostgreSQL does.
\<close>

record BaseListOptions =
  loLimit :: int
  loCursor :: "(int \<times> string) option"
  loOrderBy :: string
  loOrderDesc :: bool

definition default_opts :: BaseListOptions where
  "default_opts = \<lparr>loLimit = 0, loCursor = None, loOrderBy = '''', loOrderDesc = False\<rparr>"

record 'r ListResult =
  lrItems :: "'r list"
  lrTotalCount :: nat
  lrHasMore :: bool
  lrNextCursor :: "(int \<times> string) option"

definition defaultLimit :: "int \<Rightarrow> int" where
  "defaultLimit limit = (if limit \<le> 0 then 50 else if limit > 1000 then 1000 else limit)"

record listPage =
  lpColumn :: string
  lpDesc :: bool
  lpCondition :: "(int \<times> string) option"
  lpCursorable :: bool

definition page :: "string list \<Rightarrow> BaseListOptions \<Rightarrow> gerr + listPage" where
  "page allowed opts =
     (let key = hd allowed in
      if loOrderBy opts \<noteq> '''' \<and> loOrderBy opts \<notin> set allowed
      then Inl (ErrInvalidInput ''order_by'')
      else
        let column = (if loOrderBy opts \<noteq> '''' then loOrderBy opts else key);
            p = \<lparr>lpColumn = column, lpDesc = loOrderDesc opts, lpCondition = None,
                 lpCursorable = (column = key)\<rparr>
        in case loCursor opts of
             None \<Rightarrow> Inr p
           | Some pos \<Rightarrow>
               if \<not> lpCursorable p then Inl (ErrInvalidInput ''cursor'')
               else Inr (p\<lparr>lpCondition := Some pos\<rparr>))"

type_synonym sortval = "nat \<times> int \<times> string"

definition sv_int :: "int \<Rightarrow> sortval" where "sv_int i = (0, i, '''')"
definition sv_str :: "string \<Rightarrow> sortval" where "sv_str s = (0, 0, s)"
definition sv_opt :: "('a \<Rightarrow> sortval) \<Rightarrow> 'a option \<Rightarrow> sortval" where
  "sv_opt f v = (case v of None \<Rightarrow> (1, 0, '''') | Some x \<Rightarrow> f x)"

text \<open>The predicate that resumes after the cursor follows the direction of the ordering.\<close>

definition after_cursor :: "listPage \<Rightarrow> ('r \<Rightarrow> int) \<Rightarrow> ('r \<Rightarrow> string) \<Rightarrow> 'r \<Rightarrow> bool" where
  "after_cursor p key rid r =
     (case lpCondition p of
        None \<Rightarrow> True
      | Some (k, i) \<Rightarrow>
          if lpDesc p then key r < k \<or> (key r = k \<and> rid r < i)
          else key r > k \<or> (key r = k \<and> rid r > i))"

definition ordered_rows ::
  "(string \<Rightarrow> 'r \<Rightarrow> sortval) \<Rightarrow> ('r \<Rightarrow> string) \<Rightarrow> listPage \<Rightarrow> 'r list \<Rightarrow> 'r list" where
  "ordered_rows col rid p rows =
     (let asc = sort_key (\<lambda>r. (col (lpColumn p) r, rid r)) rows
      in if lpDesc p then rev asc else asc)"

text \<open>
  The tail every list method shares: the data query with \<^verbatim>\<open>LIMIT limit+1\<close>, \<^verbatim>\<open>hasMore\<close>, the
  truncation and \<^verbatim>\<open>nextTime\<close>. \<open>rows\<close> are the rows that match the filters.
\<close>

definition list_rows ::
  "(string \<Rightarrow> 'r \<Rightarrow> sortval) \<Rightarrow> ('r \<Rightarrow> int) \<Rightarrow> ('r \<Rightarrow> string) \<Rightarrow> int \<Rightarrow> listPage \<Rightarrow> 'r list
    \<Rightarrow> 'r ListResult" where
  "list_rows col key rid limit p rows =
     (let got = take (nat (limit + 1)) (ordered_rows col rid p (filter (after_cursor p key rid) rows));
          hasMore = int (length got) > limit;
          items = (if hasMore then take (nat limit) got else got);
          next = (if items = [] then None
                  else if \<not> hasMore \<or> \<not> lpCursorable p then None
                  else Some (key (last items), rid (last items)))
      in \<lparr>lrItems = items, lrTotalCount = length rows, lrHasMore = hasMore, lrNextCursor = next\<rparr>)"

definition sessionSortColumns :: "string list" where
  "sessionSortColumns = [''created_at'', ''updated_at'', ''name'', ''status'', ''last_activity_at'',
     ''suspended_at'', ''resumed_at'']"

definition taskSortColumns :: "string list" where
  "taskSortColumns = [''created_at'', ''updated_at'', ''status'']"

definition taskRunSortColumns :: "string list" where
  "taskRunSortColumns = [''queued_at'', ''updated_at'', ''started_at'', ''ended_at'', ''status'',
     ''attempt'']"

definition runnerSortColumns :: "string list" where
  "runnerSortColumns = [''created_at'', ''updated_at'', ''name'', ''status'', ''last_seen_at'']"

definition permissionSortColumns :: "string list" where
  "permissionSortColumns = [''created_at'', ''updated_at'', ''responded_at'', ''status'',
     ''risk_level'']"

definition session_col :: "string \<Rightarrow> Session \<Rightarrow> sortval" where
  "session_col c s =
     (if c = ''updated_at'' then sv_int (sUpdatedAt s)
      else if c = ''name'' then sv_opt sv_str (sName s)
      else if c = ''status'' then sv_str (sStatus s)
      else if c = ''last_activity_at'' then sv_opt sv_int (sLastActivityAt s)
      else if c = ''suspended_at'' then sv_opt sv_int (sSuspendedAt s)
      else if c = ''resumed_at'' then sv_opt sv_int (sResumedAt s)
      else sv_int (sCreatedAt s))"

definition task_col :: "string \<Rightarrow> Task \<Rightarrow> sortval" where
  "task_col c t =
     (if c = ''updated_at'' then sv_int (tUpdatedAt t)
      else if c = ''status'' then sv_str (tStatus t)
      else sv_int (tCreatedAt t))"

definition task_run_col :: "string \<Rightarrow> TaskRun \<Rightarrow> sortval" where
  "task_run_col c r =
     (if c = ''updated_at'' then sv_int (trUpdatedAt r)
      else if c = ''started_at'' then sv_opt sv_int (trStartedAt r)
      else if c = ''ended_at'' then sv_opt sv_int (trEndedAt r)
      else if c = ''status'' then sv_str (trStatus r)
      else if c = ''attempt'' then sv_int (trAttempt r)
      else sv_int (trQueuedAt r))"

definition runner_col :: "string \<Rightarrow> Runner \<Rightarrow> sortval" where
  "runner_col c r =
     (if c = ''updated_at'' then sv_int (rUpdatedAt r)
      else if c = ''name'' then sv_str (rName r)
      else if c = ''status'' then sv_str (rStatus r)
      else if c = ''last_seen_at'' then sv_opt sv_int (rLastSeenAt r)
      else sv_int (rCreatedAt r))"

definition permission_col :: "string \<Rightarrow> PermissionRequest \<Rightarrow> sortval" where
  "permission_col c p =
     (if c = ''updated_at'' then sv_int (pUpdatedAt p)
      else if c = ''responded_at'' then sv_opt sv_int (pRespondedAt p)
      else if c = ''status'' then sv_str (pStatus p)
      else if c = ''risk_level'' then sv_str (pRiskLevel p)
      else sv_int (pCreatedAt p))"

end
