(* ===== verification/Store_Statements.thy ===== *)
theory Store_Statements
  imports Store_Base
begin

text \<open>
  The statements of \<^verbatim>\<open>pkg/store/postgres\<close> (\<^verbatim>\<open>sessions.go\<close>, \<^verbatim>\<open>tasks.go\<close>, \<^verbatim>\<open>runners.go\<close>,
  \<^verbatim>\<open>permissions.go\<close>) as pure functions from the time, the context and the database to an error
  or a result with the new database, with the constraints the migrations put on the tables.
  An INSERT is checked against the row level security policy, the CHECK constraints, the unique
  indexes and the foreign keys, in that order; an UPDATE that matches no visible row is an error,
  and one that matches is checked the same way.
\<close>

section \<open>Writing columns\<close>

text \<open>Values of an INT column.\<close>

definition fits_int4 :: "int \<Rightarrow> bool" where
  "fits_int4 x \<longleftrightarrow> - (2 ^ 31) \<le> x \<and> x < 2 ^ 31"

definition set_col :: "'a option \<Rightarrow> 'a \<Rightarrow> 'a" where
  "set_col u old = (case u of None \<Rightarrow> old | Some v \<Rightarrow> v)"

definition set_null_col :: "'a option \<Rightarrow> 'a option \<Rightarrow> 'a option" where
  "set_null_col u old = (case u of None \<Rightarrow> old | Some v \<Rightarrow> Some v)"

text \<open>An empty string means NULL for \<^verbatim>\<open>runner_id\<close> and \<^verbatim>\<open>profile_id\<close>.\<close>

definition set_ref_col :: "string option \<Rightarrow> string option \<Rightarrow> string option" where
  "set_ref_col u old = (case u of None \<Rightarrow> old | Some v \<Rightarrow> if v = '''' then None else Some v)"

lemma set_col_simps [simp]: "set_col None x = x" "set_col (Some v) x = v"
  by (simp_all add: set_col_def)

lemma set_null_col_simps [simp]: "set_null_col None x = x" "set_null_col (Some v) x = Some v"
  by (simp_all add: set_null_col_def)

lemma set_ref_col_simps [simp]:
  "set_ref_col None x = x" "set_ref_col (Some '''') x = None"
  "v \<noteq> '''' \<Longrightarrow> set_ref_col (Some v) x = Some v"
  by (simp_all add: set_ref_col_def)

definition opt_match :: "'a option \<Rightarrow> 'a \<Rightarrow> bool" where
  "opt_match want have = (case want of None \<Rightarrow> True | Some v \<Rightarrow> have = v)"

lemma opt_match_simps [simp]: "opt_match None x" "opt_match (Some v) x \<longleftrightarrow> x = v"
  by (simp_all add: opt_match_def)

text \<open>\<^verbatim>\<open>status = ANY($n)\<close>, added only for a non-empty list.\<close>

definition any_of :: "string list \<Rightarrow> string \<Rightarrow> bool" where
  "any_of wanted v \<longleftrightarrow> wanted = [] \<or> v \<in> set wanted"

section \<open>Sessions\<close>

record ListSessionsOptions =
  lsoBase :: BaseListOptions
  lsoStatus :: "string list"
  lsoRunnerID :: "string option"
  lsoWorkspaceID :: "string option"
  lsoAgent :: "string option"
  lsoLifecycleMode :: "string option"

definition list_all_sessions :: ListSessionsOptions where
  "list_all_sessions =
    \<lparr>lsoBase = default_opts, lsoStatus = [], lsoRunnerID = None, lsoWorkspaceID = None,
     lsoAgent = None, lsoLifecycleMode = None\<rparr>"

definition session_matches :: "ListSessionsOptions \<Rightarrow> Session \<Rightarrow> bool" where
  "session_matches opts s \<longleftrightarrow>
     any_of (lsoStatus opts) (sStatus s) \<and>
     (case lsoRunnerID opts of None \<Rightarrow> True | Some r \<Rightarrow> sRunnerID s = Some r) \<and>
     opt_match (lsoWorkspaceID opts) (sWorkspaceID s) \<and>
     opt_match (lsoAgent opts) (sAgent s) \<and>
     opt_match (lsoLifecycleMode opts) (sLifecycleMode s)"

definition apply_session_updates :: "int \<Rightarrow> SessionUpdates \<Rightarrow> Session \<Rightarrow> Session" where
  "apply_session_updates now u s = s\<lparr>
     sName := set_null_col (suName u) (sName s),
     sStatus := set_col (suStatus u) (sStatus s),
     sRunnerID := set_ref_col (suRunnerID u) (sRunnerID s),
     sProfileID := set_ref_col (suProfileID u) (sProfileID s),
     sAgentConfigID := set_null_col (suAgentConfigID u) (sAgentConfigID s),
     sAgentConfigMetadata := set_null_col (suAgentConfigMetadata u) (sAgentConfigMetadata s),
     sContextSnapshot := set_null_col (suContextSnapshot u) (sContextSnapshot s),
     sAgentVersion := set_null_col (suAgentVersion u) (sAgentVersion s),
     sSuspendStrategy := set_null_col (suSuspendStrategy u) (sSuspendStrategy s),
     sSuspendSnapshotID := set_null_col (suSuspendSnapshotID u) (sSuspendSnapshotID s),
     sSuspendWorkspaceSynced :=
       set_null_col (suSuspendWorkspaceSynced u) (sSuspendWorkspaceSynced s),
     sWorkspaceManifestID := set_null_col (suWorkspaceManifestID u) (sWorkspaceManifestID s),
     sPreviousRunnerID := set_null_col (suPreviousRunnerID u) (sPreviousRunnerID s),
     sNetworkPolicy := set_col (suNetworkPolicy u) (sNetworkPolicy s),
     sAllowedHosts := set_col (suAllowedHosts u) (sAllowedHosts s),
     sLifecycleMode := set_col (suLifecycleMode u) (sLifecycleMode s),
     sIdleTimeoutSeconds := set_null_col (suIdleTimeoutSeconds u) (sIdleTimeoutSeconds s),
     sMaxLifetimeSeconds := set_null_col (suMaxLifetimeSeconds u) (sMaxLifetimeSeconds s),
     sScheduleCron := set_null_col (suScheduleCron u) (sScheduleCron s),
     sScheduleTimezone := set_null_col (suScheduleTimezone u) (sScheduleTimezone s),
     sNextScheduledAt := set_null_col (suNextScheduledAt u) (sNextScheduledAt s),
     sLabels := set_col (suLabels u) (sLabels s),
     sAnnotations := set_col (suAnnotations u) (sAnnotations s),
     sLastActivityAt := set_null_col (suLastActivityAt u) (sLastActivityAt s),
     sSuspendedAt := set_null_col (suSuspendedAt u) (sSuspendedAt s),
     sResumedAt := set_null_col (suResumedAt u) (sResumedAt s),
     sUpdatedAt := now\<rparr>"

lemma apply_session_updates_simps [simp]:
  "sID (apply_session_updates now u s) = sID s"
  "sStatus (apply_session_updates now u s) = set_col (suStatus u) (sStatus s)"
  "sRunnerID (apply_session_updates now u s) = set_ref_col (suRunnerID u) (sRunnerID s)"
  "sPreviousRunnerID (apply_session_updates now u s) =
     set_null_col (suPreviousRunnerID u) (sPreviousRunnerID s)"
  "sTenantID (apply_session_updates now u s) = sTenantID s"
  "sWorkspaceID (apply_session_updates now u s) = sWorkspaceID s"
  "sCreatedAt (apply_session_updates now u s) = sCreatedAt s"
  "sProfileID (apply_session_updates now u s) = set_ref_col (suProfileID u) (sProfileID s)"
  "sSuspendStrategy (apply_session_updates now u s) =
     set_null_col (suSuspendStrategy u) (sSuspendStrategy s)"
  "sContextSnapshot (apply_session_updates now u s) =
     set_null_col (suContextSnapshot u) (sContextSnapshot s)"
  by (simp_all add: apply_session_updates_def)

definition session_check :: "Session \<Rightarrow> bool" where
  "session_check s \<longleftrightarrow>
     sStatus s \<in> {SessionStatusPending, SessionStatusActive, SessionStatusSuspended,
       SessionStatusResuming, SessionStatusTerminated} \<and>
     sNetworkPolicy s \<in> {''none'', ''allow_list'', ''proxy'', ''air_gapped''} \<and>
     (case sSuspendStrategy s of None \<Rightarrow> True
      | Some st \<Rightarrow> st \<in> {''pause'', ''snapshot'', ''terminate_preserve_storage'',
          ''release_to_pool'', ''terminate''}) \<and>
     sLifecycleMode s \<in> {''on_demand'', ''always_on'', ''scheduled''} \<and>
     (sLifecycleMode s \<noteq> ''scheduled'' \<or> sScheduleCron s \<noteq> None)"

text \<open>The partial unique index \<^verbatim>\<open>idx_sessions_active_runner\<close>.\<close>

definition active_on :: "Session \<Rightarrow> string \<Rightarrow> bool" where
  "active_on s r \<longleftrightarrow> sStatus s = SessionStatusActive \<and> sRunnerID s = Some r"

definition active_runner_conflict :: "Session \<Rightarrow> Session list \<Rightarrow> bool" where
  "active_runner_conflict s rows =
     (case sRunnerID s of None \<Rightarrow> False
      | Some r \<Rightarrow> active_on s r \<and> list_ex (\<lambda>x. sID x \<noteq> sID s \<and> active_on x r) rows)"

definition session_fk :: "db \<Rightarrow> Session \<Rightarrow> bool" where
  "session_fk d s \<longleftrightarrow>
     (case sRunnerID s of None \<Rightarrow> True | Some r \<Rightarrow> r \<in> rID ` set (runners d)) \<and>
     sWorkspaceID s \<in> wsID ` set (workspaces d) \<and>
     (case sAgentConfigID s of None \<Rightarrow> True | Some a \<Rightarrow> a \<in> acID ` set (agent_configs d)) \<and>
     (case sProfileID s of None \<Rightarrow> True | Some p \<Rightarrow> p \<in> pfID ` set (profiles d))"

definition createSession :: "int \<Rightarrow> ctx \<Rightarrow> Session \<Rightarrow> db \<Rightarrow> gerr + Session \<times> db" where
  "createSession now c s d =
     (let s' = s\<lparr>sCreatedAt := now, sUpdatedAt := now\<rparr> in
      if \<not> rls_visible d c (sTenantID s) then Inl (ErrDatabase ''row-level security'')
      else if \<not> session_check s' then Inl (ErrInvalidInput ''session'')
      else if sID s \<in> sID ` set (sessions d) then Inl (ErrAlreadyExists ''session'')
      else if active_runner_conflict s' (sessions d) then Inl (ErrAlreadyExists ''session'')
      else if \<not> session_fk d s' then Inl (ErrForeignKeyViolation ''session'')
      else Inr (s', d\<lparr>sessions := s' # sessions d\<rparr>))"

definition getSession :: "ctx \<Rightarrow> string \<Rightarrow> db \<Rightarrow> gerr + Session" where
  "getSession c sid d =
     (case find (\<lambda>s. sID s = sid \<and> rls_visible d c (sTenantID s)) (sessions d) of
        None \<Rightarrow> Inl (ErrNotFound ''session'' sid)
      | Some s \<Rightarrow> Inr s)"

definition listSessions :: "ctx \<Rightarrow> ListSessionsOptions \<Rightarrow> db \<Rightarrow> gerr + Session ListResult" where
  "listSessions c opts d =
     (let limit = defaultLimit (loLimit (lsoBase opts)) in
      case page sessionSortColumns (lsoBase opts) of
        Inl e \<Rightarrow> Inl e
      | Inr p \<Rightarrow> Inr (list_rows session_col sCreatedAt sID limit p
          (filter (\<lambda>s. rls_visible d c (sTenantID s) \<and> session_matches opts s) (sessions d))))"

definition updateSession ::
  "int \<Rightarrow> ctx \<Rightarrow> string \<Rightarrow> SessionUpdates \<Rightarrow> db \<Rightarrow> gerr + unit \<times> db" where
  "updateSession now c sid u d =
     (if u\<lparr>suExpectedStatus := None\<rparr> = no_session_updates then Inr ((), d)
      else case find (\<lambda>s. sID s = sid \<and> opt_match (suExpectedStatus u) (sStatus s)
                          \<and> rls_visible d c (sTenantID s)) (sessions d) of
        None \<Rightarrow> Inl (if suExpectedStatus u \<noteq> None then ErrConflict
                     else ErrNotFound ''session'' sid)
      | Some s \<Rightarrow>
          let s' = apply_session_updates now u s in
          if \<not> session_check s' then Inl (ErrInvalidInput ''session'')
          else if active_runner_conflict s' (sessions d) then Inl (ErrAlreadyExists ''session'')
          else if \<not> session_fk d s' then Inl (ErrForeignKeyViolation ''session'')
          else Inr ((), d\<lparr>sessions := put_row sID sid s' (sessions d)\<rparr>))"

section \<open>Tasks\<close>

record ListTasksOptions =
  ltoBase :: BaseListOptions
  ltoSessionID :: "string option"
  ltoStatus :: "string list"

definition task_matches :: "ListTasksOptions \<Rightarrow> Task \<Rightarrow> bool" where
  "task_matches opts t \<longleftrightarrow>
     opt_match (ltoSessionID opts) (tSessionID t) \<and> any_of (ltoStatus opts) (tStatus t)"

definition task_check :: "Task \<Rightarrow> bool" where
  "task_check t \<longleftrightarrow> tStatus t \<in> {TaskStatusPending, TaskStatusRunning, TaskStatusCompleted,
     TaskStatusFailed, TaskStatusCanceled}"

definition createTask :: "int \<Rightarrow> ctx \<Rightarrow> Task \<Rightarrow> db \<Rightarrow> gerr + Task \<times> db" where
  "createTask now c t d =
     (let t' = t\<lparr>tNextDispatchAfter := None, tDispatchAttempts := 0, tDispatchParkedReason := None,
                 tCreatedAt := now, tUpdatedAt := now\<rparr> in
      if \<not> rls_visible d c (tTenantID t) then Inl (ErrDatabase ''row-level security'')
      else if \<not> task_check t' then Inl (ErrInvalidInput ''task'')
      else if tID t \<in> tID ` set (tasks d) then Inl (ErrAlreadyExists ''task'')
      else if tSessionID t \<notin> sID ` set (sessions d) then Inl (ErrForeignKeyViolation ''task'')
      else Inr (t', d\<lparr>tasks := t' # tasks d\<rparr>))"

definition getTask :: "ctx \<Rightarrow> string \<Rightarrow> db \<Rightarrow> gerr + Task" where
  "getTask c tid d =
     (case find (\<lambda>t. tID t = tid \<and> rls_visible d c (tTenantID t)) (tasks d) of
        None \<Rightarrow> Inl (ErrNotFound ''task'' tid)
      | Some t \<Rightarrow> Inr t)"

definition listTasks :: "ctx \<Rightarrow> ListTasksOptions \<Rightarrow> db \<Rightarrow> gerr + Task ListResult" where
  "listTasks c opts d =
     (let limit = defaultLimit (loLimit (ltoBase opts)) in
      case page taskSortColumns (ltoBase opts) of
        Inl e \<Rightarrow> Inl e
      | Inr p \<Rightarrow> Inr (list_rows task_col tCreatedAt tID limit p
          (filter (\<lambda>t. rls_visible d c (tTenantID t) \<and> task_matches opts t) (tasks d))))"

definition apply_task_updates :: "int \<Rightarrow> TaskUpdates \<Rightarrow> Task \<Rightarrow> Task" where
  "apply_task_updates now u t = t\<lparr>
     tStatus := set_col (tuStatus u) (tStatus t),
     tRetryCount := set_col (tuRetryCount u) (tRetryCount t),
     tLabels := set_col (tuLabels u) (tLabels t),
     tAnnotations := set_col (tuAnnotations u) (tAnnotations t),
     tNextDispatchAfter := (if tuClearDispatchBackoff u then None
       else set_null_col (tuNextDispatchAfter u) (tNextDispatchAfter t)),
     tDispatchAttempts := (if tuClearDispatchBackoff u then 0
       else set_col (tuDispatchAttempts u) (tDispatchAttempts t)),
     tDispatchParkedReason := (if tuClearDispatchBackoff u then None
       else set_null_col (tuDispatchParkedReason u) (tDispatchParkedReason t)),
     tUpdatedAt := now\<rparr>"

lemma apply_task_updates_simps [simp]:
  "tID (apply_task_updates now u t) = tID t"
  "tSessionID (apply_task_updates now u t) = tSessionID t"
  "tPrompt (apply_task_updates now u t) = tPrompt t"
  "tTimeoutSeconds (apply_task_updates now u t) = tTimeoutSeconds t"
  "tMaxRetries (apply_task_updates now u t) = tMaxRetries t"
  "tTenantID (apply_task_updates now u t) = tTenantID t"
  "tCreatedAt (apply_task_updates now u t) = tCreatedAt t"
  "tStatus (apply_task_updates now u t) = set_col (tuStatus u) (tStatus t)"
  "tRetryCount (apply_task_updates now u t) = set_col (tuRetryCount u) (tRetryCount t)"
  "tNextDispatchAfter (apply_task_updates now u t) = (if tuClearDispatchBackoff u then None
       else set_null_col (tuNextDispatchAfter u) (tNextDispatchAfter t))"
  "tDispatchAttempts (apply_task_updates now u t) = (if tuClearDispatchBackoff u then 0
       else set_col (tuDispatchAttempts u) (tDispatchAttempts t))"
  "tDispatchParkedReason (apply_task_updates now u t) = (if tuClearDispatchBackoff u then None
       else set_null_col (tuDispatchParkedReason u) (tDispatchParkedReason t))"
  by (simp_all add: apply_task_updates_def)

definition updateTask :: "int \<Rightarrow> ctx \<Rightarrow> string \<Rightarrow> TaskUpdates \<Rightarrow> db \<Rightarrow> gerr + unit \<times> db" where
  "updateTask now c tid u d =
     (if u\<lparr>tuExpectedStatus := None\<rparr> = no_task_updates then Inr ((), d)
      else case find (\<lambda>t. tID t = tid \<and> opt_match (tuExpectedStatus u) (tStatus t)
                          \<and> rls_visible d c (tTenantID t)) (tasks d) of
        None \<Rightarrow> Inl (if tuExpectedStatus u \<noteq> None then ErrConflict else ErrNotFound ''task'' tid)
      | Some t \<Rightarrow>
          let t' = apply_task_updates now u t in
          if \<not> task_check t' then Inl (ErrInvalidInput ''task'')
          else Inr ((), d\<lparr>tasks := put_row tID tid t' (tasks d)\<rparr>))"

section \<open>Task runs\<close>

record ListTaskRunsOptions =
  lroBase :: BaseListOptions
  lroTaskID :: "string option"
  lroRunnerID :: "string option"
  lroStatus :: "string list"

definition task_run_matches :: "ListTaskRunsOptions \<Rightarrow> TaskRun \<Rightarrow> bool" where
  "task_run_matches opts r \<longleftrightarrow>
     opt_match (lroTaskID opts) (trTaskID r) \<and>
     (case lroRunnerID opts of None \<Rightarrow> True | Some x \<Rightarrow> trRunnerID r = Some x) \<and>
     any_of (lroStatus opts) (trStatus r)"

definition task_run_check :: "TaskRun \<Rightarrow> bool" where
  "task_run_check r \<longleftrightarrow> trStatus r \<in> {TaskRunStatusPending, TaskRunStatusAssigned,
     TaskRunStatusRunning, TaskRunStatusCompleted, TaskRunStatusFailed, TaskRunStatusTimeout,
     TaskRunStatusCanceled}"

definition task_run_fk :: "db \<Rightarrow> TaskRun \<Rightarrow> bool" where
  "task_run_fk d r \<longleftrightarrow> trTaskID r \<in> tID ` set (tasks d) \<and>
     (case trRunnerID r of None \<Rightarrow> True | Some x \<Rightarrow> x \<in> rID ` set (runners d))"

definition createTaskRun :: "int \<Rightarrow> ctx \<Rightarrow> TaskRun \<Rightarrow> db \<Rightarrow> gerr + TaskRun \<times> db" where
  "createTaskRun now c r d =
     (let r' = r\<lparr>trQueuedAt := now, trUpdatedAt := now\<rparr> in
      if \<not> rls_visible d c (trTenantID r) then Inl (ErrDatabase ''row-level security'')
      else if \<not> task_run_check r' then Inl (ErrInvalidInput ''task_run'')
      else if trID r \<in> trID ` set (task_runs d) then Inl (ErrAlreadyExists ''task_run'')
      else if (trTaskID r, trAttempt r) \<in> (\<lambda>x. (trTaskID x, trAttempt x)) ` set (task_runs d)
        then Inl (ErrAlreadyExists ''task_run'')
      else if \<not> task_run_fk d r' then Inl (ErrForeignKeyViolation ''task_run'')
      else Inr (r', d\<lparr>task_runs := r' # task_runs d\<rparr>))"

definition getTaskRun :: "ctx \<Rightarrow> string \<Rightarrow> db \<Rightarrow> gerr + TaskRun" where
  "getTaskRun c rid d =
     (case find (\<lambda>r. trID r = rid \<and> rls_visible d c (trTenantID r)) (task_runs d) of
        None \<Rightarrow> Inl (ErrNotFound ''task_run'' rid)
      | Some r \<Rightarrow> Inr r)"

definition listTaskRuns :: "ctx \<Rightarrow> ListTaskRunsOptions \<Rightarrow> db \<Rightarrow> gerr + TaskRun ListResult" where
  "listTaskRuns c opts d =
     (let limit = defaultLimit (loLimit (lroBase opts)) in
      case page taskRunSortColumns (lroBase opts) of
        Inl e \<Rightarrow> Inl e
      | Inr p \<Rightarrow> Inr (list_rows task_run_col trQueuedAt trID limit p
          (filter (\<lambda>r. rls_visible d c (trTenantID r) \<and> task_run_matches opts r) (task_runs d))))"

definition apply_task_run_updates :: "int \<Rightarrow> TaskRunUpdates \<Rightarrow> TaskRun \<Rightarrow> TaskRun" where
  "apply_task_run_updates now u r = r\<lparr>
     trRunnerID := set_null_col (truRunnerID u) (trRunnerID r),
     trStatus := set_col (truStatus u) (trStatus r),
     trError := set_null_col (truError u) (trError r),
     trExitCode := set_null_col (truExitCode u) (trExitCode r),
     trTokensInput := set_null_col (truTokensInput u) (trTokensInput r),
     trTokensOutput := set_null_col (truTokensOutput u) (trTokensOutput r),
     trAssignedAt := set_null_col (truAssignedAt u) (trAssignedAt r),
     trStartedAt := set_null_col (truStartedAt u) (trStartedAt r),
     trEndedAt := set_null_col (truEndedAt u) (trEndedAt r),
     trUpdatedAt := now\<rparr>"

lemma apply_task_run_updates_simps [simp]:
  "trID (apply_task_run_updates now u r) = trID r"
  "trTaskID (apply_task_run_updates now u r) = trTaskID r"
  "trAttempt (apply_task_run_updates now u r) = trAttempt r"
  "trTenantID (apply_task_run_updates now u r) = trTenantID r"
  "trStatus (apply_task_run_updates now u r) = set_col (truStatus u) (trStatus r)"
  "trRunnerID (apply_task_run_updates now u r) = set_null_col (truRunnerID u) (trRunnerID r)"
  "trQueuedAt (apply_task_run_updates now u r) = trQueuedAt r"
  by (simp_all add: apply_task_run_updates_def)

definition updateTaskRun ::
  "int \<Rightarrow> ctx \<Rightarrow> string \<Rightarrow> TaskRunUpdates \<Rightarrow> db \<Rightarrow> gerr + unit \<times> db" where
  "updateTaskRun now c rid u d =
     (if u = no_task_run_updates then Inr ((), d)
      else case find (\<lambda>r. trID r = rid \<and> rls_visible d c (trTenantID r)) (task_runs d) of
        None \<Rightarrow> Inl (ErrNotFound ''task_run'' rid)
      | Some r \<Rightarrow>
          let r' = apply_task_run_updates now u r in
          if \<not> task_run_check r' then Inl (ErrInvalidInput ''task_run'')
          else if \<not> task_run_fk d r' then Inl (ErrForeignKeyViolation ''task_run'')
          else Inr ((), d\<lparr>task_runs := put_row trID rid r' (task_runs d)\<rparr>))"

section \<open>Runners and runner claims\<close>

record ListRunnersOptions =
  lnoBase :: BaseListOptions
  lnoStatus :: "string list"
  lnoPoolName :: "string option"
  lnoTainted :: "bool option"
  lnoLabels :: "(string \<times> string) list"

text \<open>\<^verbatim>\<open>labels @> filter\<close> for a filter object with string values.\<close>

fun json_contains :: "json \<Rightarrow> (string \<times> string) list \<Rightarrow> bool" where
  "json_contains (JObj kvs) wanted = list_all (\<lambda>(k, v). map_of kvs k = Some (JStr v)) wanted"
| "json_contains _ wanted = False"

definition runner_matches :: "ListRunnersOptions \<Rightarrow> Runner \<Rightarrow> bool" where
  "runner_matches opts r \<longleftrightarrow>
     any_of (lnoStatus opts) (rStatus r) \<and>
     (case lnoPoolName opts of None \<Rightarrow> True | Some p \<Rightarrow> rPoolName r = Some p) \<and>
     opt_match (lnoTainted opts) (rTainted r) \<and>
     (lnoLabels opts = [] \<or> json_contains (rLabels r) (lnoLabels opts))"

definition runner_check :: "Runner \<Rightarrow> bool" where
  "runner_check r \<longleftrightarrow>
     rSandboxMode r \<in> {''runner-is-sandbox'', ''runner-creates-sandbox'', ''none''} \<and>
     rStatus r \<in> {StatusOffline, StatusIdle, StatusBusy, StatusPaused}"

definition runner_name_conflict :: "Runner \<Rightarrow> Runner list \<Rightarrow> bool" where
  "runner_name_conflict r rows =
     list_ex (\<lambda>x. rID x \<noteq> rID r \<and> rName x = rName r
                  \<and> stringValue (rTenantID x) = stringValue (rTenantID r)) rows"

definition runner_fk :: "db \<Rightarrow> Runner \<Rightarrow> bool" where
  "runner_fk d r \<longleftrightarrow>
     (case rProviderConfigID r of None \<Rightarrow> True | Some p \<Rightarrow> p \<in> pcID ` set (provider_configs d)) \<and>
     (case rProfileID r of None \<Rightarrow> True | Some p \<Rightarrow> p \<in> pfID ` set (profiles d))"

definition createRunner :: "int \<Rightarrow> ctx \<Rightarrow> Runner \<Rightarrow> db \<Rightarrow> gerr + Runner \<times> db" where
  "createRunner now c r d =
     (let r' = r\<lparr>rCreatedAt := now, rUpdatedAt := now\<rparr> in
      if \<not> rls_visible d c (rTenantID r) then Inl (ErrDatabase ''row-level security'')
      else if \<not> runner_check r' then Inl (ErrInvalidInput ''runner'')
      else if rID r \<in> rID ` set (runners d) then Inl (ErrAlreadyExists ''runner'')
      else if runner_name_conflict r' (runners d) then Inl (ErrAlreadyExists ''runner'')
      else if \<not> runner_fk d r' then Inl (ErrForeignKeyViolation ''runner'')
      else Inr (r', d\<lparr>runners := r' # runners d, claims := (claims d)(rID r := None)\<rparr>))"

definition getRunner :: "ctx \<Rightarrow> string \<Rightarrow> db \<Rightarrow> gerr + Runner" where
  "getRunner c rid d =
     (case find (\<lambda>r. rID r = rid \<and> rls_visible d c (rTenantID r)) (runners d) of
        None \<Rightarrow> Inl (ErrNotFound ''runner'' rid)
      | Some r \<Rightarrow> Inr r)"

definition listRunners :: "ctx \<Rightarrow> ListRunnersOptions \<Rightarrow> db \<Rightarrow> gerr + Runner ListResult" where
  "listRunners c opts d =
     (let limit = defaultLimit (loLimit (lnoBase opts)) in
      case page runnerSortColumns (lnoBase opts) of
        Inl e \<Rightarrow> Inl e
      | Inr p \<Rightarrow> Inr (list_rows runner_col rCreatedAt rID limit p
          (filter (\<lambda>r. rls_visible d c (rTenantID r) \<and> runner_matches opts r) (runners d))))"

definition apply_runner_updates :: "int \<Rightarrow> RunnerUpdates \<Rightarrow> Runner \<Rightarrow> Runner" where
  "apply_runner_updates now u r = r\<lparr>
     rName := set_col (ruName u) (rName r),
     rHostname := set_col (ruHostname u) (rHostname r),
     rStatus := set_col (ruStatus u) (rStatus r),
     rTainted := set_col (ruTainted u) (rTainted r),
     rTaintReason := set_null_col (ruTaintReason u) (rTaintReason r),
     rSandboxMode := set_col (ruSandboxMode u) (rSandboxMode r),
     rSandboxTypes := set_col (ruSandboxTypes u) (rSandboxTypes r),
     rProviderConfigID := set_null_col (ruProviderConfigID u) (rProviderConfigID r),
     rProviderInstanceID := set_null_col (ruProviderInstanceID u) (rProviderInstanceID r),
     rPoolName := set_null_col (ruPoolName u) (rPoolName r),
     rProfileID := set_null_col (ruProfileID u) (rProfileID r),
     rCapabilities := set_col (ruCapabilities u) (rCapabilities r),
     rLabels := set_col (ruLabels u) (rLabels r),
     rAnnotations := set_col (ruAnnotations u) (rAnnotations r),
     rLastSeenAt := set_null_col (ruLastSeenAt u) (rLastSeenAt r),
     rUpdatedAt := now\<rparr>"

lemma apply_runner_updates_simps [simp]:
  "rID (apply_runner_updates now u r) = rID r"
  "rTenantID (apply_runner_updates now u r) = rTenantID r"
  "rStatus (apply_runner_updates now u r) = set_col (ruStatus u) (rStatus r)"
  "rCreatedAt (apply_runner_updates now u r) = rCreatedAt r"
  "rLastSeenAt (apply_runner_updates now u r) = set_null_col (ruLastSeenAt u) (rLastSeenAt r)"
  by (simp_all add: apply_runner_updates_def)

definition updateRunner ::
  "int \<Rightarrow> ctx \<Rightarrow> string \<Rightarrow> RunnerUpdates \<Rightarrow> db \<Rightarrow> gerr + unit \<times> db" where
  "updateRunner now c rid u d =
     (if u = no_runner_updates then Inr ((), d)
      else case find (\<lambda>r. rID r = rid \<and> rls_visible d c (rTenantID r)) (runners d) of
        None \<Rightarrow> Inl (ErrNotFound ''runner'' rid)
      | Some r \<Rightarrow>
          let r' = apply_runner_updates now u r in
          if \<not> runner_check r' then Inl (ErrInvalidInput ''runner'')
          else if runner_name_conflict r' (runners d) then Inl (ErrAlreadyExists ''runner'')
          else if \<not> runner_fk d r' then Inl (ErrForeignKeyViolation ''runner'')
          else Inr ((), d\<lparr>runners := put_row rID rid r' (runners d)\<rparr>))"

definition DefaultRunnerClaimLease :: int where
  "DefaultRunnerClaimLease = 2 * 60 * 1000000000"

text \<open>The claim is one conditional UPDATE: free, already mine, or expired.\<close>

definition claim_free :: "int \<Rightarrow> string \<Rightarrow> int \<Rightarrow> (string \<times> int) option \<Rightarrow> bool" where
  "claim_free now sid lease cl =
     (case cl of None \<Rightarrow> True | Some (holder, at) \<Rightarrow> holder = sid \<or> at < now - lease)"

definition claimRunner ::
  "int \<Rightarrow> ctx \<Rightarrow> string \<Rightarrow> string \<Rightarrow> int \<Rightarrow> db \<Rightarrow> gerr + bool \<times> db" where
  "claimRunner now c rid sid lease0 d =
     (let lease = (if lease0 \<le> 0 then DefaultRunnerClaimLease else lease0) in
      case find (\<lambda>r. rID r = rid \<and> rls_visible d c (rTenantID r)) (runners d) of
        None \<Rightarrow> Inr (False, d)
      | Some r \<Rightarrow>
          if claim_free now sid lease (claims d rid)
          then Inr (True, d\<lparr>runners := put_row rID rid (r\<lparr>rUpdatedAt := now\<rparr>) (runners d),
                 claims := (claims d)(rid \<mapsto> (sid, now))\<rparr>)
          else Inr (False, d))"

definition releaseRunnerClaim ::
  "int \<Rightarrow> ctx \<Rightarrow> string \<Rightarrow> string \<Rightarrow> db \<Rightarrow> gerr + unit \<times> db" where
  "releaseRunnerClaim now c rid sid d =
     (case find (\<lambda>r. rID r = rid \<and> rls_visible d c (rTenantID r)) (runners d) of
        None \<Rightarrow> Inr ((), d)
      | Some r \<Rightarrow>
          (case claims d rid of
             None \<Rightarrow> Inr ((), d)
           | Some (holder, at) \<Rightarrow>
               if holder = sid
               then Inr ((), d\<lparr>runners := put_row rID rid (r\<lparr>rUpdatedAt := now\<rparr>) (runners d),
                      claims := (claims d)(rid := None)\<rparr>)
               else Inr ((), d)))"

section \<open>Permission requests\<close>

record ListPermissionRequestsOptions =
  lpoBase :: BaseListOptions
  lpoSessionID :: "string option"
  lpoTaskID :: "string option"
  lpoRunID :: "string option"
  lpoStatus :: "string list"
  lpoRiskLevel :: "string list"

definition permission_matches :: "ListPermissionRequestsOptions \<Rightarrow> PermissionRequest \<Rightarrow> bool" where
  "permission_matches opts p \<longleftrightarrow>
     opt_match (lpoSessionID opts) (pSessionID p) \<and> opt_match (lpoTaskID opts) (pTaskID p) \<and>
     opt_match (lpoRunID opts) (pRunID p) \<and> any_of (lpoStatus opts) (pStatus p) \<and>
     any_of (lpoRiskLevel opts) (pRiskLevel p)"

definition permission_check :: "PermissionRequest \<Rightarrow> bool" where
  "permission_check p \<longleftrightarrow>
     pStatus p \<in> {PermissionStatusPending, PermissionStatusApproved, PermissionStatusDenied,
       PermissionStatusCanceled} \<and>
     pRiskLevel p \<in> {''low'', ''medium'', ''high'', ''critical''}"

definition permission_fk :: "db \<Rightarrow> PermissionRequest \<Rightarrow> bool" where
  "permission_fk d p \<longleftrightarrow> pSessionID p \<in> sID ` set (sessions d) \<and>
     pTaskID p \<in> tID ` set (tasks d) \<and> pRunID p \<in> trID ` set (task_runs d)"

definition createPermissionRequest ::
  "int \<Rightarrow> ctx \<Rightarrow> PermissionRequest \<Rightarrow> db \<Rightarrow> gerr + PermissionRequest \<times> db" where
  "createPermissionRequest now c p d =
     (let p' = p\<lparr>pDeliveredAt := None, pCreatedAt := now, pUpdatedAt := now\<rparr> in
      if \<not> rls_visible d c (pTenantID p) then Inl (ErrDatabase ''row-level security'')
      else if \<not> permission_check p' then Inl (ErrInvalidInput ''permission_request'')
      else if pID p \<in> pID ` set (permission_requests d)
        then Inl (ErrAlreadyExists ''permission_request'')
      else if \<not> permission_fk d p' then Inl (ErrForeignKeyViolation ''permission_request'')
      else Inr (p', d\<lparr>permission_requests := p' # permission_requests d\<rparr>))"

definition getPermissionRequest :: "ctx \<Rightarrow> string \<Rightarrow> db \<Rightarrow> gerr + PermissionRequest" where
  "getPermissionRequest c pid d =
     (case find (\<lambda>p. pID p = pid \<and> rls_visible d c (pTenantID p)) (permission_requests d) of
        None \<Rightarrow> Inl (ErrNotFound ''permission_request'' pid)
      | Some p \<Rightarrow> Inr p)"

definition listPermissionRequests ::
  "ctx \<Rightarrow> ListPermissionRequestsOptions \<Rightarrow> db \<Rightarrow> gerr + PermissionRequest ListResult" where
  "listPermissionRequests c opts d =
     (let limit = defaultLimit (loLimit (lpoBase opts)) in
      case page permissionSortColumns (lpoBase opts) of
        Inl e \<Rightarrow> Inl e
      | Inr p \<Rightarrow> Inr (list_rows permission_col pCreatedAt pID limit p
          (filter (\<lambda>r. rls_visible d c (pTenantID r) \<and> permission_matches opts r)
            (permission_requests d))))"

definition apply_permission_updates ::
  "int \<Rightarrow> PermissionRequestUpdates \<Rightarrow> PermissionRequest \<Rightarrow> PermissionRequest" where
  "apply_permission_updates now u p = p\<lparr>
     pStatus := set_col (puStatus u) (pStatus p),
     pRespondedBy := set_null_col (puRespondedBy u) (pRespondedBy p),
     pResponseReason := set_null_col (puResponseReason u) (pResponseReason p),
     pRespondedAt := set_null_col (puRespondedAt u) (pRespondedAt p),
     pDeliveredAt := set_null_col (puDeliveredAt u) (pDeliveredAt p),
     pUpdatedAt := now\<rparr>"

lemma apply_permission_updates_simps [simp]:
  "pID (apply_permission_updates now u p) = pID p"
  "pSessionID (apply_permission_updates now u p) = pSessionID p"
  "pTaskID (apply_permission_updates now u p) = pTaskID p"
  "pRunID (apply_permission_updates now u p) = pRunID p"
  "pRiskLevel (apply_permission_updates now u p) = pRiskLevel p"
  "pTenantID (apply_permission_updates now u p) = pTenantID p"
  "pStatus (apply_permission_updates now u p) = set_col (puStatus u) (pStatus p)"
  "pDeliveredAt (apply_permission_updates now u p) = set_null_col (puDeliveredAt u) (pDeliveredAt p)"
  "pRespondedAt (apply_permission_updates now u p) = set_null_col (puRespondedAt u) (pRespondedAt p)"
  by (simp_all add: apply_permission_updates_def)

definition updatePermissionRequest ::
  "int \<Rightarrow> ctx \<Rightarrow> string \<Rightarrow> PermissionRequestUpdates \<Rightarrow> db \<Rightarrow> gerr + unit \<times> db" where
  "updatePermissionRequest now c pid u d =
     (if u = no_permission_updates then Inr ((), d)
      else case find (\<lambda>p. pID p = pid \<and> rls_visible d c (pTenantID p)) (permission_requests d) of
        None \<Rightarrow> Inl (ErrNotFound ''permission_request'' pid)
      | Some p \<Rightarrow>
          let p' = apply_permission_updates now u p in
          if \<not> permission_check p' then Inl (ErrInvalidInput ''permission_request'')
          else Inr ((), d\<lparr>permission_requests := put_row pID pid p' (permission_requests d)\<rparr>))"

section \<open>Configuration rows\<close>

definition getWorkspace :: "ctx \<Rightarrow> string \<Rightarrow> db \<Rightarrow> gerr + Workspace" where
  "getWorkspace c wid d =
     (case find (\<lambda>x. wsID x = wid \<and> rls_visible d c (wsTenantID x)) (workspaces d) of
        None \<Rightarrow> Inl (ErrNotFound ''workspace'' wid) | Some x \<Rightarrow> Inr x)"

definition getProviderConfig :: "ctx \<Rightarrow> string \<Rightarrow> db \<Rightarrow> gerr + ProviderConfig" where
  "getProviderConfig c cid d =
     (case find (\<lambda>x. pcID x = cid \<and> rls_visible d c (pcTenantID x)) (provider_configs d) of
        None \<Rightarrow> Inl (ErrNotFound ''provider_config'' cid) | Some x \<Rightarrow> Inr x)"

definition getAgentConfig :: "ctx \<Rightarrow> string \<Rightarrow> db \<Rightarrow> gerr + AgentConfig" where
  "getAgentConfig c cid d =
     (case find (\<lambda>x. acID x = cid \<and> rls_visible d c (acTenantID x)) (agent_configs d) of
        None \<Rightarrow> Inl (ErrNotFound ''agent_config'' cid) | Some x \<Rightarrow> Inr x)"

definition getProfile :: "ctx \<Rightarrow> string \<Rightarrow> db \<Rightarrow> gerr + Profile" where
  "getProfile c cid d =
     (case find (\<lambda>x. pfID x = cid \<and> rls_visible d c (pfTenantID x)) (profiles d) of
        None \<Rightarrow> Inl (ErrNotFound ''profile'' cid) | Some x \<Rightarrow> Inr x)"

end
