(* ===== verification/Store_Laws.thy ===== *)
theory Store_Laws
  imports Store_Statements
begin

text \<open>
  What the database guarantees whatever the managers do: \<open>db_inv\<close>, the conjunction of the
  constraints of the schema, is kept by every statement, including those of other server
  processes. It holds between any two statements, so it needs no assumption on how the handlers
  of several processes interleave.
\<close>

section \<open>The schema invariant\<close>

definition sessions_ok :: "db \<Rightarrow> bool" where
  "sessions_ok d \<longleftrightarrow>
     distinct (map sID (sessions d)) \<and>
     (\<forall>s \<in> set (sessions d). session_check s \<and> session_fk d s) \<and>
     (\<forall>s \<in> set (sessions d). \<forall>s' \<in> set (sessions d). \<forall>r.
        active_on s r \<and> active_on s' r \<longrightarrow> sID s = sID s')"

definition tasks_ok :: "db \<Rightarrow> bool" where
  "tasks_ok d \<longleftrightarrow>
     distinct (map tID (tasks d)) \<and>
     (\<forall>t \<in> set (tasks d). task_check t \<and> tSessionID t \<in> sID ` set (sessions d))"

definition task_runs_ok :: "db \<Rightarrow> bool" where
  "task_runs_ok d \<longleftrightarrow>
     distinct (map trID (task_runs d)) \<and>
     distinct (map (\<lambda>r. (trTaskID r, trAttempt r)) (task_runs d)) \<and>
     (\<forall>r \<in> set (task_runs d). task_run_check r \<and> task_run_fk d r)"

definition runners_ok :: "db \<Rightarrow> bool" where
  "runners_ok d \<longleftrightarrow>
     distinct (map rID (runners d)) \<and>
     (\<forall>r \<in> set (runners d). runner_check r \<and> runner_fk d r) \<and>
     dom (claims d) \<subseteq> rID ` set (runners d)"

definition permissions_ok :: "db \<Rightarrow> bool" where
  "permissions_ok d \<longleftrightarrow>
     distinct (map pID (permission_requests d)) \<and>
     (\<forall>p \<in> set (permission_requests d). permission_check p \<and> permission_fk d p)"

definition db_inv :: "db \<Rightarrow> bool" where
  "db_inv d \<longleftrightarrow> sessions_ok d \<and> tasks_ok d \<and> task_runs_ok d \<and> runners_ok d \<and> permissions_ok d"

lemmas inv_defs = sessions_ok_def tasks_ok_def task_runs_ok_def runners_ok_def permissions_ok_def

section \<open>Frames: what the constraints of a row depend on\<close>

lemma session_fk_cong [simp]:
  "session_fk (d\<lparr>sessions := x\<rparr>) s = session_fk d s"
  "session_fk (d\<lparr>tasks := y\<rparr>) s = session_fk d s"
  "session_fk (d\<lparr>task_runs := z\<rparr>) s = session_fk d s"
  "session_fk (d\<lparr>permission_requests := p\<rparr>) s = session_fk d s"
  "session_fk (d\<lparr>claims := cl\<rparr>) s = session_fk d s"
  by (simp_all add: session_fk_def cong: option.case_cong)

lemma task_run_fk_cong [simp]:
  "task_run_fk (d\<lparr>sessions := x\<rparr>) r = task_run_fk d r"
  "task_run_fk (d\<lparr>task_runs := z\<rparr>) r = task_run_fk d r"
  "task_run_fk (d\<lparr>permission_requests := p\<rparr>) r = task_run_fk d r"
  "task_run_fk (d\<lparr>claims := cl\<rparr>) r = task_run_fk d r"
  by (simp_all add: task_run_fk_def cong: option.case_cong)

lemma runner_fk_cong [simp]:
  "runner_fk (d\<lparr>sessions := x\<rparr>) r = runner_fk d r"
  "runner_fk (d\<lparr>tasks := y\<rparr>) r = runner_fk d r"
  "runner_fk (d\<lparr>task_runs := z\<rparr>) r = runner_fk d r"
  "runner_fk (d\<lparr>permission_requests := p\<rparr>) r = runner_fk d r"
  "runner_fk (d\<lparr>runners := q\<rparr>) r = runner_fk d r"
  "runner_fk (d\<lparr>claims := cl\<rparr>) r = runner_fk d r"
  by (simp_all add: runner_fk_def cong: option.case_cong)

text \<open>Growing or keeping the referenced keys never breaks a foreign key.\<close>

lemma session_fk_runners:
  "\<lbrakk>session_fk d s; rID ` set (runners d) \<subseteq> rID ` set rows\<rbrakk>
   \<Longrightarrow> session_fk (d\<lparr>runners := rows\<rparr>) s"
  unfolding session_fk_def by (auto split: option.splits)

lemma task_run_fk_runners:
  "\<lbrakk>task_run_fk d r; rID ` set (runners d) \<subseteq> rID ` set rows\<rbrakk>
   \<Longrightarrow> task_run_fk (d\<lparr>runners := rows\<rparr>) r"
  unfolding task_run_fk_def by (auto split: option.splits)

lemma task_run_fk_tasks:
  "\<lbrakk>task_run_fk d r; tID ` set (tasks d) \<subseteq> tID ` set rows\<rbrakk>
   \<Longrightarrow> task_run_fk (d\<lparr>tasks := rows\<rparr>) r"
  unfolding task_run_fk_def by (auto split: option.splits)

lemma permission_fk_frames:
  "\<lbrakk>permission_fk d p; sID ` set (sessions d) \<subseteq> sID ` set srows\<rbrakk>
   \<Longrightarrow> permission_fk (d\<lparr>sessions := srows\<rparr>) p"
  "\<lbrakk>permission_fk d p; tID ` set (tasks d) \<subseteq> tID ` set trows\<rbrakk>
   \<Longrightarrow> permission_fk (d\<lparr>tasks := trows\<rparr>) p"
  "\<lbrakk>permission_fk d p; trID ` set (task_runs d) \<subseteq> trID ` set rrows\<rbrakk>
   \<Longrightarrow> permission_fk (d\<lparr>task_runs := rrows\<rparr>) p"
  unfolding permission_fk_def by auto

lemma put_row_key_set [simp]:
  "key r = k \<Longrightarrow> key ` set (put_row key k r rows) = key ` set rows"
  by (metis list.set_map put_row_keys)

section \<open>Every statement keeps the invariant\<close>

lemma db_invI:
  "\<lbrakk>sessions_ok d; tasks_ok d; task_runs_ok d; runners_ok d; permissions_ok d\<rbrakk> \<Longrightarrow> db_inv d"
  by (simp add: db_inv_def)

text \<open>Replacing the sessions by rows with the same keys affects the session table only.\<close>

lemma db_inv_sessions:
  assumes "db_inv d" and keys: "sID ` set (sessions d) \<subseteq> sID ` set rows"
    and "sessions_ok (d\<lparr>sessions := rows\<rparr>)"
  shows "db_inv (d\<lparr>sessions := rows\<rparr>)"
proof (rule db_invI)
  show "tasks_ok (d\<lparr>sessions := rows\<rparr>)"
    using assms(1) keys by (auto simp: db_inv_def tasks_ok_def)
  show "permissions_ok (d\<lparr>sessions := rows\<rparr>)"
    using assms(1) permission_fk_frames(1) [OF _ keys]
    by (simp add: db_inv_def permissions_ok_def)
qed (use assms in \<open>simp_all add: db_inv_def task_runs_ok_def runners_ok_def\<close>)

lemma db_inv_tasks:
  assumes "db_inv d" and keys: "tID ` set (tasks d) \<subseteq> tID ` set rows"
    and "tasks_ok (d\<lparr>tasks := rows\<rparr>)"
  shows "db_inv (d\<lparr>tasks := rows\<rparr>)"
proof (rule db_invI)
  show "task_runs_ok (d\<lparr>tasks := rows\<rparr>)"
    using assms(1) task_run_fk_tasks [OF _ keys] by (simp add: db_inv_def task_runs_ok_def)
  show "permissions_ok (d\<lparr>tasks := rows\<rparr>)"
    using assms(1) permission_fk_frames(2) [OF _ keys]
    by (simp add: db_inv_def permissions_ok_def)
qed (use assms in \<open>simp_all add: db_inv_def sessions_ok_def runners_ok_def\<close>)

lemma db_inv_task_runs:
  assumes "db_inv d" and keys: "trID ` set (task_runs d) \<subseteq> trID ` set rows"
    and "task_runs_ok (d\<lparr>task_runs := rows\<rparr>)"
  shows "db_inv (d\<lparr>task_runs := rows\<rparr>)"
proof (rule db_invI)
  show "permissions_ok (d\<lparr>task_runs := rows\<rparr>)"
    using assms(1) permission_fk_frames(3) [OF _ keys]
    by (simp add: db_inv_def permissions_ok_def)
qed (use assms in \<open>simp_all add: db_inv_def sessions_ok_def tasks_ok_def runners_ok_def\<close>)

lemma db_inv_runners:
  assumes "db_inv d" and keys: "rID ` set (runners d) \<subseteq> rID ` set rows"
    and "runners_ok (d\<lparr>runners := rows, claims := cl\<rparr>)"
  shows "db_inv (d\<lparr>runners := rows, claims := cl\<rparr>)"
proof (rule db_invI)
  show "sessions_ok (d\<lparr>runners := rows, claims := cl\<rparr>)"
    using assms(1) session_fk_runners [OF _ keys] by (simp add: db_inv_def sessions_ok_def)
  show "task_runs_ok (d\<lparr>runners := rows, claims := cl\<rparr>)"
    using assms(1) task_run_fk_runners [OF _ keys] by (simp add: db_inv_def task_runs_ok_def)
qed (use assms in \<open>simp_all add: db_inv_def tasks_ok_def permissions_ok_def permission_fk_def\<close>)

lemma db_inv_permissions:
  assumes "db_inv d" and "permissions_ok (d\<lparr>permission_requests := rows\<rparr>)"
  shows "db_inv (d\<lparr>permission_requests := rows\<rparr>)"
  using assms by (simp add: db_inv_def sessions_ok_def tasks_ok_def task_runs_ok_def runners_ok_def)

lemma active_conflict_free:
  "\<lbrakk>\<not> active_runner_conflict s rows; active_on s r; x \<in> set rows; active_on x r\<rbrakk>
    \<Longrightarrow> sID x = sID s"
  by (auto simp: active_runner_conflict_def active_on_def list_ex_iff split: option.splits)

lemma active_unique:
  "\<lbrakk>sessions_ok d; s \<in> set (sessions d); s' \<in> set (sessions d); active_on s r; active_on s' r\<rbrakk>
    \<Longrightarrow> sID s = sID s'"
  unfolding sessions_ok_def by blast

lemma createSession_inv:
  assumes inv: "db_inv d" and run: "createSession now c s d = Inr (x, d')"
  shows "db_inv d'"
proof -
  let ?s = "s\<lparr>sCreatedAt := now, sUpdatedAt := now\<rparr>"
  from run have d': "d' = d\<lparr>sessions := ?s # sessions d\<rparr>" and new: "sID s \<notin> sID ` set (sessions d)"
    and ok: "session_check ?s" "session_fk d ?s" "\<not> active_runner_conflict ?s (sessions d)"
    by (auto simp: createSession_def Let_def split: if_splits)
  have "sessions_ok (d\<lparr>sessions := ?s # sessions d\<rparr>)"
    unfolding sessions_ok_def
    using inv new ok active_conflict_free [OF ok(3)]
    by (auto simp: db_inv_def sessions_ok_def)
  with inv show ?thesis unfolding d' by (intro db_inv_sessions) auto
qed

lemma updateSession_changes:
  assumes "updateSession now c sid u d = Inr (x, d')" and "d' \<noteq> d"
  obtains s where "s \<in> set (sessions d)" "sID s = sid"
    "opt_match (suExpectedStatus u) (sStatus s)" "rls_visible d c (sTenantID s)"
    "session_check (apply_session_updates now u s)"
    "session_fk d (apply_session_updates now u s)"
    "\<not> active_runner_conflict (apply_session_updates now u s) (sessions d)"
    "d' = d\<lparr>sessions := put_row sID sid (apply_session_updates now u s) (sessions d)\<rparr>"
  using assms
  by (auto simp: updateSession_def Let_def dest!: find_key_eq split: if_splits option.splits)

lemma updateSession_inv:
  assumes inv: "db_inv d" and run: "updateSession now c sid u d = Inr (x, d')"
  shows "db_inv d'"
proof (cases "d' = d")
  case False
  from updateSession_changes [OF run False] obtain s where s: "s \<in> set (sessions d)" "sID s = sid"
    and ok: "session_check (apply_session_updates now u s)"
      "session_fk d (apply_session_updates now u s)"
      "\<not> active_runner_conflict (apply_session_updates now u s) (sessions d)"
    and d': "d' = d\<lparr>sessions := put_row sID sid (apply_session_updates now u s) (sessions d)\<rparr>"
    by metis
  let ?s = "apply_session_updates now u s"
  have keys: "map sID (put_row sID sid ?s (sessions d)) = map sID (sessions d)"
    using s by simp
  have "sessions_ok (d\<lparr>sessions := put_row sID sid ?s (sessions d)\<rparr>)"
    unfolding sessions_ok_def
  proof (intro conjI ballI allI impI)
    fix a b r
    assume "a \<in> set (sessions (d\<lparr>sessions := put_row sID sid ?s (sessions d)\<rparr>))"
      and "b \<in> set (sessions (d\<lparr>sessions := put_row sID sid ?s (sessions d)\<rparr>))"
      and "active_on a r \<and> active_on b r"
    then show "sID a = sID b"
      using inv active_conflict_free [OF ok(3)] s
      by (auto simp: db_inv_def set_put_row dest: active_unique)
  qed (use inv s ok keys in \<open>auto simp: db_inv_def sessions_ok_def set_put_row\<close>)
  with inv s show ?thesis unfolding d' by (intro db_inv_sessions) auto
qed (use inv in simp)

lemma createTask_inv:
  assumes inv: "db_inv d" and run: "createTask now c t d = Inr (x, d')"
  shows "db_inv d'"
proof -
  let ?t = "t\<lparr>tNextDispatchAfter := None, tDispatchAttempts := 0, tDispatchParkedReason := None,
              tCreatedAt := now, tUpdatedAt := now\<rparr>"
  from run have d': "d' = d\<lparr>tasks := ?t # tasks d\<rparr>" and new: "tID t \<notin> tID ` set (tasks d)"
    and ok: "task_check ?t" "tSessionID t \<in> sID ` set (sessions d)"
    by (auto simp: createTask_def Let_def split: if_splits)
  have "tasks_ok (d\<lparr>tasks := ?t # tasks d\<rparr>)"
    using inv new ok by (simp add: db_inv_def tasks_ok_def)
  with inv show ?thesis unfolding d' by (intro db_inv_tasks) auto
qed

lemma updateTask_changes:
  assumes "updateTask now c tid u d = Inr (x, d')" and "d' \<noteq> d"
  obtains t where "t \<in> set (tasks d)" "tID t = tid" "rls_visible d c (tTenantID t)"
    "opt_match (tuExpectedStatus u) (tStatus t)"
    "task_check (apply_task_updates now u t)"
    "d' = d\<lparr>tasks := put_row tID tid (apply_task_updates now u t) (tasks d)\<rparr>"
  using assms
  by (auto simp: updateTask_def Let_def dest!: find_key_eq split: if_splits option.splits)

lemma updateTask_inv:
  assumes inv: "db_inv d" and run: "updateTask now c tid u d = Inr (x, d')"
  shows "db_inv d'"
proof (cases "d' = d")
  case False
  from updateTask_changes [OF run False] obtain t where t: "t \<in> set (tasks d)" "tID t = tid"
    and ok: "task_check (apply_task_updates now u t)"
    and d': "d' = d\<lparr>tasks := put_row tID tid (apply_task_updates now u t) (tasks d)\<rparr>"
    by metis
  have "tasks_ok (d\<lparr>tasks := put_row tID tid (apply_task_updates now u t) (tasks d)\<rparr>)"
    using inv t ok by (auto simp: db_inv_def tasks_ok_def set_put_row)
  with inv t show ?thesis unfolding d' by (intro db_inv_tasks) auto
qed (use inv in simp)

lemma createTaskRun_inv:
  assumes inv: "db_inv d" and run: "createTaskRun now c r d = Inr (x, d')"
  shows "db_inv d'"
proof -
  let ?r = "r\<lparr>trQueuedAt := now, trUpdatedAt := now\<rparr>"
  from run have d': "d' = d\<lparr>task_runs := ?r # task_runs d\<rparr>"
    and new: "trID r \<notin> trID ` set (task_runs d)"
      "(trTaskID r, trAttempt r) \<notin> (\<lambda>x. (trTaskID x, trAttempt x)) ` set (task_runs d)"
    and ok: "task_run_check ?r" "task_run_fk d ?r"
    by (auto simp: createTaskRun_def Let_def split: if_splits)
  have "task_runs_ok (d\<lparr>task_runs := ?r # task_runs d\<rparr>)"
    using inv new ok by (simp add: db_inv_def task_runs_ok_def)
  with inv show ?thesis unfolding d' by (intro db_inv_task_runs) auto
qed

lemma updateTaskRun_changes:
  assumes "updateTaskRun now c rid u d = Inr (x, d')" and "d' \<noteq> d"
  obtains r where "r \<in> set (task_runs d)" "trID r = rid" "rls_visible d c (trTenantID r)"
    "task_run_check (apply_task_run_updates now u r)"
    "task_run_fk d (apply_task_run_updates now u r)"
    "d' = d\<lparr>task_runs := put_row trID rid (apply_task_run_updates now u r) (task_runs d)\<rparr>"
  using assms
  by (auto simp: updateTaskRun_def Let_def dest!: find_key_eq split: if_splits option.splits)

text \<open>Replacing a run by one with the same task and attempt keeps those columns.\<close>

lemma put_row_attempts:
  assumes "distinct (map trID rows)" and "r \<in> set rows" and "trID r = rid"
  shows "map (\<lambda>r. (trTaskID r, trAttempt r)) (put_row trID rid (apply_task_run_updates now u r) rows)
       = map (\<lambda>r. (trTaskID r, trAttempt r)) rows"
  using assms by (auto simp: put_row_def dest: inj_onD [OF distinct_map [THEN iffD1, THEN conjunct2]])

lemma updateTaskRun_inv:
  assumes inv: "db_inv d" and run: "updateTaskRun now c rid u d = Inr (x, d')"
  shows "db_inv d'"
proof (cases "d' = d")
  case False
  from updateTaskRun_changes [OF run False]
  obtain r where r: "r \<in> set (task_runs d)" "trID r = rid"
    and ok: "task_run_check (apply_task_run_updates now u r)"
      "task_run_fk d (apply_task_run_updates now u r)"
    and d': "d' = d\<lparr>task_runs := put_row trID rid (apply_task_run_updates now u r) (task_runs d)\<rparr>"
    by metis
  have "map (\<lambda>r. (trTaskID r, trAttempt r))
      (put_row trID rid (apply_task_run_updates now u r) (task_runs d))
      = map (\<lambda>r. (trTaskID r, trAttempt r)) (task_runs d)"
    using inv r by (intro put_row_attempts) (auto simp: db_inv_def task_runs_ok_def)
  then have "task_runs_ok (d\<lparr>task_runs := put_row trID rid (apply_task_run_updates now u r) (task_runs d)\<rparr>)"
    using inv r ok by (auto simp: db_inv_def task_runs_ok_def set_put_row)
  with inv r show ?thesis unfolding d' by (intro db_inv_task_runs) auto
qed (use inv in simp)

lemma createRunner_inv:
  assumes inv: "db_inv d" and run: "createRunner now c r d = Inr (x, d')"
  shows "db_inv d'"
proof -
  let ?r = "r\<lparr>rCreatedAt := now, rUpdatedAt := now\<rparr>"
  let ?cl = "(claims d)(rID r := None)"
  from run have d': "d' = d\<lparr>runners := ?r # runners d, claims := ?cl\<rparr>"
    and new: "rID r \<notin> rID ` set (runners d)" and ok: "runner_check ?r" "runner_fk d ?r"
    by (auto simp: createRunner_def Let_def split: if_splits)
  have "runners_ok (d\<lparr>runners := ?r # runners d, claims := ?cl\<rparr>)"
    using inv new ok by (auto simp: db_inv_def runners_ok_def)
  with inv show ?thesis unfolding d' by (intro db_inv_runners) auto
qed

text \<open>Rewriting one runner row in place, with the claims of existing runners.\<close>

lemma put_runner_inv:
  assumes inv: "db_inv d" and r: "r \<in> set (runners d)" and key: "rID r' = rID r"
    and ok: "runner_check r'" "runner_fk d r'" and cl: "dom cl \<subseteq> rID ` set (runners d)"
  shows "db_inv (d\<lparr>runners := put_row rID (rID r) r' (runners d), claims := cl\<rparr>)"
proof (rule db_inv_runners [OF inv])
  show "runners_ok (d\<lparr>runners := put_row rID (rID r) r' (runners d), claims := cl\<rparr>)"
    using inv r key ok cl by (auto simp: db_inv_def runners_ok_def set_put_row)
qed (use key in simp)

lemma updateRunner_changes:
  assumes "updateRunner now c rid u d = Inr (x, d')" and "d' \<noteq> d"
  obtains r where "r \<in> set (runners d)" "rID r = rid" "rls_visible d c (rTenantID r)"
    "runner_check (apply_runner_updates now u r)" "runner_fk d (apply_runner_updates now u r)"
    "d' = d\<lparr>runners := put_row rID rid (apply_runner_updates now u r) (runners d)\<rparr>"
  using assms
  by (auto simp: updateRunner_def Let_def dest!: find_key_eq split: if_splits option.splits)

lemma updateRunner_inv:
  assumes inv: "db_inv d" and run: "updateRunner now c rid u d = Inr (x, d')"
  shows "db_inv d'"
proof (cases "d' = d")
  case False
  from updateRunner_changes [OF run False]
  obtain r where r: "r \<in> set (runners d)" "rID r = rid"
    and ok: "runner_check (apply_runner_updates now u r)" "runner_fk d (apply_runner_updates now u r)"
    and d': "d' = d\<lparr>runners := put_row rID rid (apply_runner_updates now u r) (runners d)\<rparr>"
    by metis
  have "db_inv (d\<lparr>runners := put_row rID (rID r) (apply_runner_updates now u r) (runners d),
                 claims := claims d\<rparr>)"
    using inv r ok by (intro put_runner_inv) (auto simp: db_inv_def runners_ok_def)
  then show ?thesis unfolding d' using r by simp
qed (use inv in simp)

lemma runner_touch_ok:
  "db_inv d \<Longrightarrow> r \<in> set (runners d) \<Longrightarrow>
    runner_check (r\<lparr>rUpdatedAt := t\<rparr>) \<and> runner_fk d (r\<lparr>rUpdatedAt := t\<rparr>)"
  by (auto simp: db_inv_def runners_ok_def runner_check_def runner_fk_def)

lemma claimRunner_changes:
  assumes "claimRunner now c rid sid lease d = Inr (x, d')"
  shows "(d' = d \<and> \<not> x) \<or>
    (x \<and> (\<exists>r \<in> set (runners d). rID r = rid \<and> rls_visible d c (rTenantID r) \<and>
       claim_free now sid (if lease \<le> 0 then DefaultRunnerClaimLease else lease) (claims d rid) \<and>
       d' = d\<lparr>runners := put_row rID (rID r) (r\<lparr>rUpdatedAt := now\<rparr>) (runners d),
              claims := (claims d)(rid \<mapsto> (sid, now))\<rparr>))"
proof (cases "find (\<lambda>r. rID r = rid \<and> rls_visible d c (rTenantID r)) (runners d)")
  case None
  with assms show ?thesis by (simp add: claimRunner_def)
next
  case (Some r)
  then have r: "r \<in> set (runners d)" "rID r = rid" "rls_visible d c (rTenantID r)"
    by (auto dest: find_key_eq)
  show ?thesis
    using assms Some by (auto simp: claimRunner_def Let_def r intro!: bexI [OF _ r(1)] split: if_splits)
qed

lemma claimRunner_inv:
  assumes inv: "db_inv d" and run: "claimRunner now c rid sid lease d = Inr (x, d')"
  shows "db_inv d'"
  using claimRunner_changes [OF run]
proof (elim disjE conjE bexE)
  fix r
  assume r: "r \<in> set (runners d)" "rID r = rid"
    and d': "d' = d\<lparr>runners := put_row rID (rID r) (r\<lparr>rUpdatedAt := now\<rparr>) (runners d),
                    claims := (claims d)(rid \<mapsto> (sid, now))\<rparr>"
  show ?thesis
    unfolding d' using inv r runner_touch_ok [OF inv r(1)]
    by (intro put_runner_inv) (auto simp: db_inv_def runners_ok_def)
qed (use inv in simp)

lemma releaseRunnerClaim_inv:
  assumes inv: "db_inv d" and run: "releaseRunnerClaim now c rid sid d = Inr (x, d')"
  shows "db_inv d'"
proof (cases "d' = d")
  case False
  with run obtain r where r: "r \<in> set (runners d)" "rID r = rid"
    and d': "d' = d\<lparr>runners := put_row rID rid (r\<lparr>rUpdatedAt := now\<rparr>) (runners d),
                    claims := (claims d)(rid := None)\<rparr>"
    by (auto simp: releaseRunnerClaim_def dest!: find_key_eq split: option.splits if_splits)
  have "db_inv (d\<lparr>runners := put_row rID (rID r) (r\<lparr>rUpdatedAt := now\<rparr>) (runners d),
                 claims := (claims d)(rid := None)\<rparr>)"
    using inv r runner_touch_ok [OF inv r(1)]
    by (intro put_runner_inv) (auto simp: db_inv_def runners_ok_def)
  then show ?thesis unfolding d' using r by simp
qed (use inv in simp)

lemma createPermissionRequest_inv:
  assumes inv: "db_inv d" and run: "createPermissionRequest now c p d = Inr (x, d')"
  shows "db_inv d'"
proof -
  let ?p = "p\<lparr>pDeliveredAt := None, pCreatedAt := now, pUpdatedAt := now\<rparr>"
  from run have d': "d' = d\<lparr>permission_requests := ?p # permission_requests d\<rparr>"
    and new: "pID p \<notin> pID ` set (permission_requests d)"
    and ok: "permission_check ?p" "permission_fk d ?p"
    by (auto simp: createPermissionRequest_def Let_def split: if_splits)
  show ?thesis
    unfolding d' using inv new ok
    by (intro db_inv_permissions) (auto simp: db_inv_def permissions_ok_def permission_fk_def)
qed

lemma updatePermissionRequest_changes:
  assumes "updatePermissionRequest now c pid u d = Inr (x, d')" and "d' \<noteq> d"
  obtains p where "p \<in> set (permission_requests d)" "pID p = pid" "rls_visible d c (pTenantID p)"
    "permission_check (apply_permission_updates now u p)"
    "d' = d\<lparr>permission_requests :=
            put_row pID pid (apply_permission_updates now u p) (permission_requests d)\<rparr>"
  using assms
  by (auto simp: updatePermissionRequest_def Let_def dest!: find_key_eq split: if_splits option.splits)

lemma updatePermissionRequest_inv:
  assumes inv: "db_inv d" and run: "updatePermissionRequest now c pid u d = Inr (x, d')"
  shows "db_inv d'"
proof (cases "d' = d")
  case False
  from updatePermissionRequest_changes [OF run False] obtain p
    where p: "p \<in> set (permission_requests d)" "pID p = pid"
      and ok: "permission_check (apply_permission_updates now u p)"
      and d': "d' = d\<lparr>permission_requests :=
        put_row pID pid (apply_permission_updates now u p) (permission_requests d)\<rparr>"
    by metis
  show ?thesis
    unfolding d' using inv p ok
    by (intro db_inv_permissions)
      (auto simp: db_inv_def permissions_ok_def permission_fk_def set_put_row)
qed (use inv in simp)

end
