(* ===== verification/Store_Tables.thy ===== *)
theory Store_Tables
  imports Store_Laws
begin

text \<open>
  The interface every table offers its clients: a lookup by key under row level security, the
  replacement of a row and the insertion of one. The laws are proved once in the locale
  \<open>tenant_table\<close> and interpreted for the five tables the managers write.
\<close>

lemma rls_visible_cong: "multi_tenant d' = multi_tenant d \<Longrightarrow> rls_visible d' c t = rls_visible d c t"
  by (simp add: rls_visible_def)

lemma rls_tenant_isolated:
  "\<lbrakk>rls_visible d c t; \<not> IsSystemAccess c; TenantFromContext c = Some a\<rbrakk> \<Longrightarrow> t = Some a"
  by (simp add: rls_visible_def)

lemma rls_fail_closed:
  "\<lbrakk>multi_tenant d; \<not> IsSystemAccess c; TenantFromContext c = None\<rbrakk> \<Longrightarrow> \<not> rls_visible d c t"
  by (simp add: rls_visible_def)

locale tenant_table =
  fixes tbl :: "db \<Rightarrow> 'r list"
    and set_tbl :: "'r list \<Rightarrow> db \<Rightarrow> db"
    and key :: "'r \<Rightarrow> string"
    and tenant :: "'r \<Rightarrow> string option"
  assumes tbl_set: "tbl (set_tbl rs d) = rs"
    and tenant_mode: "multi_tenant (set_tbl rs d) = multi_tenant d"
begin

definition lookup :: "ctx \<Rightarrow> string \<Rightarrow> db \<Rightarrow> 'r option" where
  "lookup c k d = find (\<lambda>r. key r = k \<and> rls_visible d c (tenant r)) (tbl d)"

lemma lookup_SomeD:
  "lookup c k d = Some r \<Longrightarrow> r \<in> set (tbl d) \<and> key r = k \<and> rls_visible d c (tenant r)"
  by (auto simp: lookup_def dest: find_key_eq)

lemma lookup_unique:
  assumes "distinct (map key (tbl d))" and "r \<in> set (tbl d)" and "key r = k"
  shows "lookup c k d = (if rls_visible d c (tenant r) then Some r else None)"
proof (cases "rls_visible d c (tenant r)")
  case True
  with assms show ?thesis unfolding lookup_def by (auto intro: find_unique_key)
next
  case False
  have "x = r" if "x \<in> set (tbl d)" "key x = k" for x
    using that assms by (auto simp: distinct_map dest: inj_onD)
  with False show ?thesis unfolding lookup_def by (auto simp: find_None_iff)
qed

lemma lookup_ctx:
  assumes "distinct (map key (tbl d))" and "lookup c k d = Some r" and "rls_visible d c' (tenant r)"
  shows "lookup c' k d = Some r"
  using lookup_unique [OF assms(1), of r k c'] assms(2,3) by (auto dest: lookup_SomeD)

lemma lookup_put:
  assumes "distinct (map key (tbl d))" and "lookup c k d = Some r"
    and "key r' = k" and "tenant r' = tenant r"
  shows "lookup c' k (set_tbl (put_row key k r' (tbl d)) d)
       = (if rls_visible d c' (tenant r) then Some r' else None)"
proof -
  let ?d = "set_tbl (put_row key k r' (tbl d)) d"
  have "k \<in> key ` set (tbl d)" using lookup_SomeD [OF assms(2)] by auto
  then have "r' \<in> set (tbl ?d)" by (simp add: tbl_set set_put_row)
  moreover have "distinct (map key (tbl ?d))" using assms by (simp add: tbl_set)
  ultimately have "lookup c' k ?d = (if rls_visible ?d c' (tenant r') then Some r' else None)"
    using assms(3) by (intro lookup_unique)
  then show ?thesis using assms(4) rls_visible_cong [OF tenant_mode] by simp
qed

lemma lookup_put_other:
  assumes "j \<noteq> k" and "key r' = k"
  shows "lookup c j (set_tbl (put_row key k r' (tbl d)) d) = lookup c j d"
proof -
  have "find P (put_row key k r' rows) = find P rows"
    if "\<And>x. key x = k \<Longrightarrow> \<not> P x" for P rows
    using that assms(2) by (induction rows) (auto simp: put_row_def)
  then show ?thesis
    using assms by (simp add: lookup_def tbl_set rls_visible_cong [OF tenant_mode])
qed

lemma lookup_insert:
  "lookup c k (set_tbl (r # tbl d) d) =
     (if key r = k \<and> rls_visible d c (tenant r) then Some r else lookup c k d)"
  by (simp add: lookup_def tbl_set rls_visible_cong [OF tenant_mode])

text \<open>A request of one tenant neither sees nor replaces a row of another.\<close>

lemma put_isolated:
  assumes "lookup c k d = Some r" and "distinct (map key (tbl d))"
    and "\<not> IsSystemAccess c" and "TenantFromContext c = Some a"
    and "x \<in> set (tbl d)" and "tenant x \<noteq> Some a"
  shows "x \<in> set (put_row key k r' (tbl d))"
proof -
  have "tenant r = Some a" using assms by (auto dest!: lookup_SomeD rls_tenant_isolated)
  with assms have "key x \<noteq> k" by (auto simp: distinct_map dest!: lookup_SomeD dest: inj_onD)
  with assms(5) show ?thesis by (simp add: set_put_row)
qed

end

interpretation session_tbl: tenant_table sessions "\<lambda>rs d. d\<lparr>sessions := rs\<rparr>" sID sTenantID
  by unfold_locales simp_all

interpretation task_tbl: tenant_table tasks "\<lambda>rs d. d\<lparr>tasks := rs\<rparr>" tID tTenantID
  by unfold_locales simp_all

interpretation run_tbl: tenant_table task_runs "\<lambda>rs d. d\<lparr>task_runs := rs\<rparr>" trID trTenantID
  by unfold_locales simp_all

interpretation runner_tbl: tenant_table runners "\<lambda>rs d. d\<lparr>runners := rs\<rparr>" rID rTenantID
  by unfold_locales simp_all

interpretation permission_tbl:
  tenant_table permission_requests "\<lambda>rs d. d\<lparr>permission_requests := rs\<rparr>" pID pTenantID
  by unfold_locales simp_all

section \<open>The statements through the interface\<close>

lemma getSession_lookup:
  "getSession c k d = (case session_tbl.lookup c k d of None \<Rightarrow> Inl (ErrNotFound ''session'' k)
     | Some s \<Rightarrow> Inr s)"
  by (simp add: getSession_def session_tbl.lookup_def)

lemma getTask_lookup:
  "getTask c k d = (case task_tbl.lookup c k d of None \<Rightarrow> Inl (ErrNotFound ''task'' k)
     | Some t \<Rightarrow> Inr t)"
  by (simp add: getTask_def task_tbl.lookup_def)

lemma getTaskRun_lookup:
  "getTaskRun c k d = (case run_tbl.lookup c k d of None \<Rightarrow> Inl (ErrNotFound ''task_run'' k)
     | Some r \<Rightarrow> Inr r)"
  by (simp add: getTaskRun_def run_tbl.lookup_def)

lemma getRunner_lookup:
  "getRunner c k d = (case runner_tbl.lookup c k d of None \<Rightarrow> Inl (ErrNotFound ''runner'' k)
     | Some r \<Rightarrow> Inr r)"
  by (simp add: getRunner_def runner_tbl.lookup_def)

lemma getPermissionRequest_lookup:
  "getPermissionRequest c k d =
     (case permission_tbl.lookup c k d of None \<Rightarrow> Inl (ErrNotFound ''permission_request'' k)
      | Some p \<Rightarrow> Inr p)"
  by (simp add: getPermissionRequest_def permission_tbl.lookup_def)

lemma getSession_Inr [simp]: "getSession c k d = Inr s \<longleftrightarrow> session_tbl.lookup c k d = Some s"
  by (simp add: getSession_lookup split: option.splits)

lemma getTask_Inr [simp]: "getTask c k d = Inr s \<longleftrightarrow> task_tbl.lookup c k d = Some s"
  by (simp add: getTask_lookup split: option.splits)

lemma getTaskRun_Inr [simp]: "getTaskRun c k d = Inr s \<longleftrightarrow> run_tbl.lookup c k d = Some s"
  by (simp add: getTaskRun_lookup split: option.splits)

lemma getRunner_Inr [simp]: "getRunner c k d = Inr s \<longleftrightarrow> runner_tbl.lookup c k d = Some s"
  by (simp add: getRunner_lookup split: option.splits)

lemma getPermissionRequest_Inr [simp]:
  "getPermissionRequest c k d = Inr s \<longleftrightarrow> permission_tbl.lookup c k d = Some s"
  by (simp add: getPermissionRequest_lookup split: option.splits)

text \<open>The keys the invariant makes distinct.\<close>

lemma db_inv_keys:
  assumes "db_inv d"
  shows "distinct (map sID (sessions d))" "distinct (map tID (tasks d))"
    "distinct (map trID (task_runs d))" "distinct (map rID (runners d))"
    "distinct (map pID (permission_requests d))"
    "distinct (map (\<lambda>r. (trTaskID r, trAttempt r)) (task_runs d))"
  using assms by (simp_all add: db_inv_def inv_defs)

text \<open>The compare-and-set of a status: the row an UPDATE with an expected status finds.\<close>

lemma updateTask_lookup:
  assumes inv: "distinct (map tID (tasks d))" and run: "updateTask now c tid u d = Inr (x, d')"
    and "u\<lparr>tuExpectedStatus := None\<rparr> \<noteq> no_task_updates"
  obtains t where "task_tbl.lookup c tid d = Some t" "opt_match (tuExpectedStatus u) (tStatus t)"
    "task_check (apply_task_updates now u t)"
    "d' = d\<lparr>tasks := put_row tID tid (apply_task_updates now u t) (tasks d)\<rparr>"
proof -
  from run assms(3) obtain t where t: "t \<in> set (tasks d)" "tID t = tid" "rls_visible d c (tTenantID t)"
    "opt_match (tuExpectedStatus u) (tStatus t)" "task_check (apply_task_updates now u t)"
    "d' = d\<lparr>tasks := put_row tID tid (apply_task_updates now u t) (tasks d)\<rparr>"
    by (auto simp: updateTask_def Let_def dest!: find_key_eq split: if_splits option.splits)
  moreover from t inv have "task_tbl.lookup c tid d = Some t"
    using task_tbl.lookup_unique [of d t tid c] by simp
  ultimately show ?thesis by (intro that)
qed

lemma updateTaskRun_lookup:
  assumes "updateTaskRun now c rid u d = Inr (x, d')" and "u \<noteq> no_task_run_updates"
  obtains r where "run_tbl.lookup c rid d = Some r"
    "task_run_check (apply_task_run_updates now u r)" "task_run_fk d (apply_task_run_updates now u r)"
    "d' = d\<lparr>task_runs := put_row trID rid (apply_task_run_updates now u r) (task_runs d)\<rparr>"
  using assms
  by (auto simp: updateTaskRun_def run_tbl.lookup_def Let_def split: if_splits option.splits)

lemma updateSession_lookup:
  assumes inv: "distinct (map sID (sessions d))" and run: "updateSession now c sid u d = Inr (x, d')"
    and "u\<lparr>suExpectedStatus := None\<rparr> \<noteq> no_session_updates"
  obtains s where "session_tbl.lookup c sid d = Some s" "opt_match (suExpectedStatus u) (sStatus s)"
    "session_check (apply_session_updates now u s)" "session_fk d (apply_session_updates now u s)"
    "\<not> active_runner_conflict (apply_session_updates now u s) (sessions d)"
    "d' = d\<lparr>sessions := put_row sID sid (apply_session_updates now u s) (sessions d)\<rparr>"
proof -
  from run assms(3) obtain s where s: "s \<in> set (sessions d)" "sID s = sid"
    "rls_visible d c (sTenantID s)" "opt_match (suExpectedStatus u) (sStatus s)"
    "session_check (apply_session_updates now u s)" "session_fk d (apply_session_updates now u s)"
    "\<not> active_runner_conflict (apply_session_updates now u s) (sessions d)"
    "d' = d\<lparr>sessions := put_row sID sid (apply_session_updates now u s) (sessions d)\<rparr>"
    by (auto simp: updateSession_def Let_def dest!: find_key_eq split: if_splits option.splits)
  moreover from s inv have "session_tbl.lookup c sid d = Some s"
    using session_tbl.lookup_unique [of d s sid c] by simp
  ultimately show ?thesis by (intro that)
qed

lemma updateRunner_lookup:
  assumes "updateRunner now c rid u d = Inr (x, d')" and "u \<noteq> no_runner_updates"
  obtains r where "runner_tbl.lookup c rid d = Some r" "runner_check (apply_runner_updates now u r)"
    "d' = d\<lparr>runners := put_row rID rid (apply_runner_updates now u r) (runners d)\<rparr>"
  using assms
  by (auto simp: updateRunner_def runner_tbl.lookup_def Let_def split: if_splits option.splits)

lemma updatePermissionRequest_lookup:
  assumes "updatePermissionRequest now c pid u d = Inr (x, d')" and "u \<noteq> no_permission_updates"
  obtains p where "permission_tbl.lookup c pid d = Some p"
    "permission_check (apply_permission_updates now u p)"
    "d' = d\<lparr>permission_requests :=
       put_row pID pid (apply_permission_updates now u p) (permission_requests d)\<rparr>"
  using assms
  by (auto simp: updatePermissionRequest_def permission_tbl.lookup_def Let_def
      split: if_splits option.splits)

lemma createTaskRun_Inr:
  "createTaskRun now c r d = Inr (x, d') \<longleftrightarrow>
     x = r\<lparr>trQueuedAt := now, trUpdatedAt := now\<rparr> \<and> d' = d\<lparr>task_runs := x # task_runs d\<rparr> \<and>
     rls_visible d c (trTenantID r) \<and> task_run_check r \<and> trID r \<notin> trID ` set (task_runs d) \<and>
     (trTaskID r, trAttempt r) \<notin> (\<lambda>x. (trTaskID x, trAttempt x)) ` set (task_runs d) \<and>
     task_run_fk d r"
  by (auto simp: createTaskRun_def Let_def task_run_check_def task_run_fk_def split: if_splits)

text \<open>When an UPDATE succeeds, and what it writes.\<close>

lemma updateTask_succeeds:
  assumes "distinct (map tID (tasks d))" and "task_tbl.lookup c tid d = Some t"
    and "opt_match (tuExpectedStatus u) (tStatus t)" and "task_check (apply_task_updates now u t)"
    and "u\<lparr>tuExpectedStatus := None\<rparr> \<noteq> no_task_updates"
  shows "updateTask now c tid u d =
     Inr ((), d\<lparr>tasks := put_row tID tid (apply_task_updates now u t) (tasks d)\<rparr>)"
proof -
  have t: "t \<in> set (tasks d)" "tID t = tid" "rls_visible d c (tTenantID t)"
    using task_tbl.lookup_SomeD [OF assms(2)] by auto
  have "find (\<lambda>t. tID t = tid \<and> opt_match (tuExpectedStatus u) (tStatus t)
      \<and> rls_visible d c (tTenantID t)) (tasks d) = Some t"
    using t assms(1,3) by (intro find_unique_key [where key = tID]) auto
  with assms(4,5) show ?thesis by (simp add: updateTask_def Let_def)
qed

lemma updateTaskRun_succeeds:
  assumes "run_tbl.lookup c rid d = Some r" and "task_run_check (apply_task_run_updates now u r)"
    and "task_run_fk d (apply_task_run_updates now u r)" and "u \<noteq> no_task_run_updates"
  shows "updateTaskRun now c rid u d =
     Inr ((), d\<lparr>task_runs := put_row trID rid (apply_task_run_updates now u r) (task_runs d)\<rparr>)"
  using assms by (simp add: updateTaskRun_def run_tbl.lookup_def Let_def)

text \<open>A lookup in one table does not depend on the others.\<close>

lemma lookup_other_table [simp]:
  "task_tbl.lookup c k (d\<lparr>task_runs := xs\<rparr>) = task_tbl.lookup c k d"
  "task_tbl.lookup c k (d\<lparr>sessions := ss\<rparr>) = task_tbl.lookup c k d"
  "session_tbl.lookup c k (d\<lparr>task_runs := xs\<rparr>) = session_tbl.lookup c k d"
  "session_tbl.lookup c k (d\<lparr>tasks := ts\<rparr>) = session_tbl.lookup c k d"
  "session_tbl.lookup c k (d\<lparr>runners := ns\<rparr>) = session_tbl.lookup c k d"
  "session_tbl.lookup c k (d\<lparr>claims := cl\<rparr>) = session_tbl.lookup c k d"
  "session_tbl.lookup c k (d\<lparr>permission_requests := ps\<rparr>) = session_tbl.lookup c k d"
  "run_tbl.lookup c k (d\<lparr>tasks := ts\<rparr>) = run_tbl.lookup c k d"
  "runner_tbl.lookup c k (d\<lparr>sessions := ss\<rparr>) = runner_tbl.lookup c k d"
  "runner_tbl.lookup c k (d\<lparr>claims := cl\<rparr>) = runner_tbl.lookup c k d"
  "permission_tbl.lookup c k (d\<lparr>sessions := ss\<rparr>) = permission_tbl.lookup c k d"
  by (simp_all add: task_tbl.lookup_def session_tbl.lookup_def run_tbl.lookup_def
      runner_tbl.lookup_def permission_tbl.lookup_def rls_visible_def)

end
