(* ===== verification/World.thy ===== *)
theory World
  imports Store_Tables
begin

text \<open>
  The world a handler of the server runs in: the database, what the handler has sent, scheduled
  and recorded so far, and the environment's answers. The environment is adversarial: every
  database statement, every command to a runner, every provider call and every submission to the
  background pool is numbered by \<open>w_tick\<close> and may fail at that number; the clock, the generated
  ids and the jitter are arbitrary functions of it.

  The store's methods (\<^verbatim>\<open>pkg/store/store.go\<close>, \<^verbatim>\<open>pkg/store/tx.go\<close>) are the statements of
  \<open>Store_Statements\<close> run in this world. The locale \<open>server_contract\<close> states what a relation on
  worlds must satisfy to be respected by every handler built from them.
\<close>

section \<open>Commands, jobs and records of effects\<close>

text \<open>The payloads of \<^verbatim>\<open>pb.ServerCommand\<close> the managers send.\<close>

record PendingPermissionResponse =
  pprRequestId :: string
  pprApproved :: bool
  pprReason :: string
  pprRespondedBy :: string
  pprRespondedAt :: int
  pprTool :: string
  pprAction :: string
  pprTaskId :: string

datatype ServerCommand =
    ExecuteTask (etTaskId: string) (etRunId: string) (etAttempt: int) (etSessionId: string)
      (etPrompt: string) (etTimeoutSeconds: int)
  | AttachSession (asSessionId: string) (asWorkspacePath: string) (asWorkspaceId: string)
      (asTenantId: string) (asManifestId: string) (asContextSnapshot: "json option")
      (asAgent: string) (asModel: string) (asBaseUrl: string)
      (asPending: "PendingPermissionResponse list")
  | DetachSession (dsSessionId: string) (dsStrategy: string) (dsSyncWorkspace: bool)
      (dsSaveSnapshot: bool)
  | ApprovePermission (apRequestId: string) (apApproved: bool) (apReason: string)
  | KillTask (ktTaskId: string) (ktRunId: string) (ktReason: string)

text \<open>Work accepted by the background pool (\<^verbatim>\<open>backgroundTasks.Go\<close>) or started as a goroutine.\<close>

datatype job =
    JobSessionReexecute string string
  | JobSessionDispatch string
  | JobTaskRetry string int
  | JobDispatchAfterCompletion string
  | JobRequestRunnerForResume Session
  | JobRunnerAttachResuming string

text \<open>Audit events, webhook events, wakes of the redispatcher and provider calls, in order.\<close>

datatype effect =
    Audit string string
  | Webhook string string
  | Wake string
  | ProviderAcquire string string "(string \<times> string) list" "string list"
  | ProviderRelease string string
  | ProviderSuspend string string string
  | ProviderPause string string
  | ProviderDestroy string string
  | CleanupHostDirectory string
  | ConnectionSeen string

datatype ProviderType = ProviderTypeManaged | ProviderTypePool | ProviderTypeExternal

text \<open>The provider interfaces a provider implements (\<^verbatim>\<open>pkg/provider/provider.go\<close>).\<close>

record Provider =
  pvName :: string
  pvType :: ProviderType
  pvPoolAcquirer :: bool
  pvSuspendable :: bool
  pvPausable :: bool

record SuspendResult =
  srStrategy :: string
  srSnapshotID :: string
  srWorkspaceSynced :: bool

text \<open>Which optional collaborators are wired (the nil checks of the managers).\<close>

record config =
  cfgAudit :: bool
  cfgWebhooks :: bool
  cfgCmdSender :: bool
  cfgTaskManager :: bool
  cfgSessionManager :: bool
  cfgWaker :: bool
  cfgConnManager :: bool
  cfgWorkspaceManager :: bool
  cfgProviderRegistry :: bool

record world =
  w_db :: db
  w_tick :: nat
  w_sent :: "(string \<times> ServerCommand) list"
  w_unacked :: "(string \<times> ServerCommand) list"
  w_jobs :: "job list"
  w_log :: "effect list"
  e_cfg :: config
  e_fault :: "nat \<Rightarrow> string option"
  e_clock :: "nat \<Rightarrow> int"
  e_id :: "nat \<Rightarrow> string"
  e_rand :: "nat \<Rightarrow> int"
  e_send :: "nat \<Rightarrow> string option"
  e_lost :: "nat \<Rightarrow> bool"
  e_bg :: "nat \<Rightarrow> bool"
  e_connected :: "string \<Rightarrow> bool"
  e_provider :: "string \<Rightarrow> Provider option"
  e_provider_err :: "nat \<Rightarrow> string option"
  e_suspend :: "nat \<Rightarrow> SuspendResult"
  e_acquire :: "nat \<Rightarrow> string"
  e_base_dir :: string
  e_os_err :: "nat \<Rightarrow> string option"

type_synonym 'a M = "(world, 'a) state"
type_synonym 'a G = "(world, gerr + 'a) state"

section \<open>Primitive operations\<close>

definition next_tick :: "nat M" where
  "next_tick = State (\<lambda>w. (w_tick w, w\<lparr>w_tick := Suc (w_tick w)\<rparr>))"

definition asks :: "(world \<Rightarrow> 'a) \<Rightarrow> 'a M" where
  "asks f = State (\<lambda>w. (f w, w))"

text \<open>\<^verbatim>\<open>time.Now()\<close> and the id generators of \<^verbatim>\<open>pkg/id\<close>.\<close>

definition Now :: "int M" where
  "Now = do { t \<leftarrow> next_tick; clk \<leftarrow> asks e_clock; ret (clk t) }"

definition new_id :: "string M" where
  "new_id = do { t \<leftarrow> next_tick; g \<leftarrow> asks e_id; ret (g t) }"

definition exec_stmt :: "(int \<Rightarrow> db \<Rightarrow> gerr + 'a \<times> db) \<Rightarrow> 'a G" where
  "exec_stmt f = State (\<lambda>w.
     (let t = w_tick w; w' = w\<lparr>w_tick := Suc t\<rparr> in
      case e_fault w t of
        Some m \<Rightarrow> (Inl (ErrDatabase m), w')
      | None \<Rightarrow>
          (case f (e_clock w t) (w_db w) of
             Inl e \<Rightarrow> (Inl e, w')
           | Inr (x, d) \<Rightarrow> (Inr x, w'\<lparr>w_db := d\<rparr>))))"

definition query :: "(db \<Rightarrow> gerr + 'a) \<Rightarrow> 'a G" where
  "query f = exec_stmt (\<lambda>_ d. case f d of Inl e \<Rightarrow> Inl e | Inr x \<Rightarrow> Inr (x, d))"

definition emit :: "effect \<Rightarrow> unit M" where
  "emit ef = State (\<lambda>w. ((), w\<lparr>w_log := w_log w @ [ef]\<rparr>))"

definition emit_audit :: "string \<Rightarrow> string \<Rightarrow> unit M" where
  "emit_audit action resource =
     do { c \<leftarrow> asks e_cfg; (if cfgAudit c then emit (Audit action resource) else ret ()) }"

definition emit_webhook :: "string \<Rightarrow> string \<Rightarrow> unit M" where
  "emit_webhook event resource =
     do { c \<leftarrow> asks e_cfg; (if cfgWebhooks c then emit (Webhook event resource) else ret ()) }"

text \<open>
  \<^verbatim>\<open>CommandSender.SendCommand\<close>. The command was handed to the runner's stream and the caller is told
  so (\<open>w_sent\<close>), or the caller gets an error. An error does not say that the runner got nothing: the
  command may have gone over a hop to another replica which queued it and whose answer was lost
  (\<open>e_lost\<close>; theory \<open>Replica_Delivery\<close> proves that the connection manager does exactly this).
  Those commands are recorded in \<open>w_unacked\<close>, on which no handler can depend.
\<close>

definition SendCommand :: "string \<Rightarrow> ServerCommand \<Rightarrow> unit G" where
  "SendCommand runner cmd = State (\<lambda>w.
     (let t = w_tick w; w' = w\<lparr>w_tick := Suc t\<rparr> in
      case e_send w t of
        Some m \<Rightarrow> (Inl (ErrSend m),
          if e_lost w t then w'\<lparr>w_unacked := w_unacked w @ [(runner, cmd)]\<rparr> else w')
      | None \<Rightarrow> (Inr (), w'\<lparr>w_sent := w_sent w @ [(runner, cmd)]\<rparr>)))"

text \<open>\<^verbatim>\<open>backgroundTasks.Go\<close> reports whether the pool accepted the job.\<close>

definition background_Go :: "job \<Rightarrow> bool M" where
  "background_Go j = State (\<lambda>w.
     (let t = w_tick w; w' = w\<lparr>w_tick := Suc t\<rparr> in
      if e_bg w t then (True, w'\<lparr>w_jobs := w_jobs w @ [j]\<rparr>) else (False, w')))"

text \<open>A bare goroutine is never rejected.\<close>

definition go_routine :: "job \<Rightarrow> unit M" where
  "go_routine j = State (\<lambda>w. ((), w\<lparr>w_jobs := w_jobs w @ [j]\<rparr>))"

text \<open>
  A call to a provider: the call is recorded, whether it then fails or not, since a call that reports
  an error may still have taken effect. The result is the number of the call, which selects the
  environment's answer. A call to the operating system only fails or not.
\<close>

definition provider_call :: "effect \<Rightarrow> nat G" where
  "provider_call ef = do {
     t \<leftarrow> next_tick;
     _ \<leftarrow> emit ef;
     f \<leftarrow> asks e_provider_err;
     (case f t of Some m \<Rightarrow> err (ErrProvider m) | None \<Rightarrow> ok t)
   }"

definition os_call :: "unit G" where
  "os_call = do {
     t \<leftarrow> next_tick;
     f \<leftarrow> asks e_os_err;
     (case f t of Some m \<Rightarrow> err (ErrOS m) | None \<Rightarrow> ok ())
   }"

text \<open>\<^verbatim>\<open>store.WithTx\<close>: begin, run, commit; any failure leaves the database as it was.\<close>

definition restore_db :: "db \<Rightarrow> unit M" where
  "restore_db d = State (\<lambda>w. ((), w\<lparr>w_db := d\<rparr>))"

definition WithTx :: "'a G \<Rightarrow> 'a G" where
  "WithTx body = do {
     d \<leftarrow> asks w_db;
     guard_ok (exec_stmt (\<lambda>_ d. Inr ((), d))) (\<lambda>_. do {
       r \<leftarrow> body;
       (case r of
          Inl e \<Rightarrow> do { _ \<leftarrow> restore_db d; err e }
        | Inr x \<Rightarrow> do {
            c \<leftarrow> exec_stmt (\<lambda>_ d. Inr ((), d));
            (case c of
               Inl e \<Rightarrow> do { _ \<leftarrow> restore_db d; err e }
             | Inr _ \<Rightarrow> ok x)
          })
     })
   }"

section \<open>The store's methods\<close>

definition CreateSession :: "ctx \<Rightarrow> Session \<Rightarrow> Session G" where
  "CreateSession c s = exec_stmt (\<lambda>now. createSession now c s)"

definition GetSession :: "ctx \<Rightarrow> string \<Rightarrow> Session G" where
  "GetSession c sid = query (getSession c sid)"

definition ListSessions :: "ctx \<Rightarrow> ListSessionsOptions \<Rightarrow> Session ListResult G" where
  "ListSessions c opts = query (listSessions c opts)"

definition UpdateSession :: "ctx \<Rightarrow> string \<Rightarrow> SessionUpdates \<Rightarrow> unit G" where
  "UpdateSession c sid u = exec_stmt (\<lambda>now. updateSession now c sid u)"

definition CreateTask :: "ctx \<Rightarrow> Task \<Rightarrow> Task G" where
  "CreateTask c t = exec_stmt (\<lambda>now. createTask now c t)"

definition GetTask :: "ctx \<Rightarrow> string \<Rightarrow> Task G" where
  "GetTask c tid = query (getTask c tid)"

definition ListTasks :: "ctx \<Rightarrow> ListTasksOptions \<Rightarrow> Task ListResult G" where
  "ListTasks c opts = query (listTasks c opts)"

definition UpdateTask :: "ctx \<Rightarrow> string \<Rightarrow> TaskUpdates \<Rightarrow> unit G" where
  "UpdateTask c tid u = exec_stmt (\<lambda>now. updateTask now c tid u)"

definition CreateTaskRun :: "ctx \<Rightarrow> TaskRun \<Rightarrow> TaskRun G" where
  "CreateTaskRun c r = exec_stmt (\<lambda>now. createTaskRun now c r)"

definition GetTaskRun :: "ctx \<Rightarrow> string \<Rightarrow> TaskRun G" where
  "GetTaskRun c rid = query (getTaskRun c rid)"

definition ListTaskRuns :: "ctx \<Rightarrow> ListTaskRunsOptions \<Rightarrow> TaskRun ListResult G" where
  "ListTaskRuns c opts = query (listTaskRuns c opts)"

definition UpdateTaskRun :: "ctx \<Rightarrow> string \<Rightarrow> TaskRunUpdates \<Rightarrow> unit G" where
  "UpdateTaskRun c rid u = exec_stmt (\<lambda>now. updateTaskRun now c rid u)"

definition GetRunner :: "ctx \<Rightarrow> string \<Rightarrow> Runner G" where
  "GetRunner c rid = query (getRunner c rid)"

definition ListRunners :: "ctx \<Rightarrow> ListRunnersOptions \<Rightarrow> Runner ListResult G" where
  "ListRunners c opts = query (listRunners c opts)"

definition UpdateRunner :: "ctx \<Rightarrow> string \<Rightarrow> RunnerUpdates \<Rightarrow> unit G" where
  "UpdateRunner c rid u = exec_stmt (\<lambda>now. updateRunner now c rid u)"

definition ClaimRunner :: "ctx \<Rightarrow> string \<Rightarrow> string \<Rightarrow> int \<Rightarrow> bool G" where
  "ClaimRunner c rid sid lease = exec_stmt (\<lambda>now. claimRunner now c rid sid lease)"

definition ReleaseRunnerClaim :: "ctx \<Rightarrow> string \<Rightarrow> string \<Rightarrow> unit G" where
  "ReleaseRunnerClaim c rid sid = exec_stmt (\<lambda>now. releaseRunnerClaim now c rid sid)"

definition CreatePermissionRequest :: "ctx \<Rightarrow> PermissionRequest \<Rightarrow> PermissionRequest G" where
  "CreatePermissionRequest c p = exec_stmt (\<lambda>now. createPermissionRequest now c p)"

definition GetPermissionRequest :: "ctx \<Rightarrow> string \<Rightarrow> PermissionRequest G" where
  "GetPermissionRequest c pid = query (getPermissionRequest c pid)"

definition ListPermissionRequests ::
  "ctx \<Rightarrow> ListPermissionRequestsOptions \<Rightarrow> PermissionRequest ListResult G" where
  "ListPermissionRequests c opts = query (listPermissionRequests c opts)"

definition UpdatePermissionRequest :: "ctx \<Rightarrow> string \<Rightarrow> PermissionRequestUpdates \<Rightarrow> unit G" where
  "UpdatePermissionRequest c pid u = exec_stmt (\<lambda>now. updatePermissionRequest now c pid u)"

definition GetWorkspace :: "ctx \<Rightarrow> string \<Rightarrow> Workspace G" where
  "GetWorkspace c wid = query (getWorkspace c wid)"

definition GetProviderConfig :: "ctx \<Rightarrow> string \<Rightarrow> ProviderConfig G" where
  "GetProviderConfig c cid = query (getProviderConfig c cid)"

definition GetAgentConfig :: "ctx \<Rightarrow> string \<Rightarrow> AgentConfig G" where
  "GetAgentConfig c cid = query (getAgentConfig c cid)"

definition GetProfile :: "ctx \<Rightarrow> string \<Rightarrow> Profile G" where
  "GetProfile c cid = query (getProfile c cid)"

section \<open>Statements as a step relation\<close>

text \<open>
  One rule per statement of the server that changes the core tables and nothing else, labelled
  with its arguments. A run of any number of server processes is a sequence of these steps,
  except for one statement: \<open>deleteRunner\<close>, the provisioner's rollback, also removes the runner's
  tokens, so it is a step of \<open>auth_step\<close> (theory \<open>Auth_Laws\<close>), the relation on the core and
  credential tables together that contains every step below. What is claimed of every statement
  of every process, such as the exclusiveness of a claim, is stated over \<open>auth_step\<close>.
\<close>

datatype stmt =
    SCreateSession Session
  | SUpdateSession string SessionUpdates
  | SCreateTask Task
  | SUpdateTask string TaskUpdates
  | SCreateTaskRun TaskRun
  | SUpdateTaskRun string TaskRunUpdates
  | SCreateRunner Runner
  | SUpdateRunner string RunnerUpdates
  | SClaimRunner string string int int
  | SReleaseRunnerClaim string string
  | SCreatePermission PermissionRequest
  | SUpdatePermission string PermissionRequestUpdates

inductive db_step :: "stmt \<Rightarrow> db \<Rightarrow> db \<Rightarrow> bool" where
  step_createSession:
    "createSession now c s d = Inr (x, d') \<Longrightarrow> db_step (SCreateSession s) d d'"
| step_updateSession:
    "updateSession now c sid u d = Inr (y, d') \<Longrightarrow> db_step (SUpdateSession sid u) d d'"
| step_createTask:
    "createTask now c t d = Inr (x, d') \<Longrightarrow> db_step (SCreateTask t) d d'"
| step_updateTask:
    "updateTask now c tid tu d = Inr (y, d') \<Longrightarrow> db_step (SUpdateTask tid tu) d d'"
| step_createTaskRun:
    "createTaskRun now c r d = Inr (x, d') \<Longrightarrow> db_step (SCreateTaskRun r) d d'"
| step_updateTaskRun:
    "updateTaskRun now c rid ru d = Inr (y, d') \<Longrightarrow> db_step (SUpdateTaskRun rid ru) d d'"
| step_createRunner:
    "createRunner now c n d = Inr (x, d') \<Longrightarrow> db_step (SCreateRunner n) d d'"
| step_updateRunner:
    "updateRunner now c rid nu d = Inr (y, d') \<Longrightarrow> db_step (SUpdateRunner rid nu) d d'"
| step_claimRunner:
    "claimRunner now c rid sid lease d = Inr (b, d') \<Longrightarrow>
       db_step (SClaimRunner rid sid now lease) d d'"
| step_releaseRunnerClaim:
    "releaseRunnerClaim now c rid sid d = Inr (y, d') \<Longrightarrow> db_step (SReleaseRunnerClaim rid sid) d d'"
| step_createPermission:
    "createPermissionRequest now c p d = Inr (x, d') \<Longrightarrow> db_step (SCreatePermission p) d d'"
| step_updatePermission:
    "updatePermissionRequest now c pid pu d = Inr (y, d') \<Longrightarrow> db_step (SUpdatePermission pid pu) d d'"

inductive_cases updateSessionE: "db_step (SUpdateSession sid u) d d'"
inductive_cases createSessionE: "db_step (SCreateSession s) d d'"
inductive_cases updateTaskE: "db_step (SUpdateTask tid u) d d'"
inductive_cases createTaskRunE: "db_step (SCreateTaskRun r) d d'"
inductive_cases updateTaskRunE: "db_step (SUpdateTaskRun rid u) d d'"

lemma db_step_inv: "db_step l d d' \<Longrightarrow> db_inv d \<Longrightarrow> db_inv d'"
  by (induction rule: db_step.induct)
    (blast intro: createSession_inv updateSession_inv createTask_inv updateTask_inv
      createTaskRun_inv updateTaskRun_inv createRunner_inv updateRunner_inv claimRunner_inv
      releaseRunnerClaim_inv createPermissionRequest_inv updatePermissionRequest_inv)+

inductive db_reachable :: "db \<Rightarrow> db \<Rightarrow> bool" where
  db_start: "db_reachable d d"
| db_more: "db_reachable d d' \<Longrightarrow> db_step l d' d'' \<Longrightarrow> db_reachable d d''"

lemma db_reachable_inv: "db_reachable d d' \<Longrightarrow> db_inv d \<Longrightarrow> db_inv d'"
  by (induction rule: db_reachable.induct) (auto intro: db_step_inv)

section \<open>Runs of the primitives\<close>

abbreviation tick :: "world \<Rightarrow> world" where
  "tick w \<equiv> w\<lparr>w_tick := Suc (w_tick w)\<rparr>"

lemma run_asks [simp]: "run_state (asks f) w = (f w, w)"
  by (simp add: asks_def)

lemma run_Now [simp]: "run_state Now w = (e_clock w (w_tick w), tick w)"
  by (simp add: Now_def next_tick_def)

lemma run_new_id [simp]: "run_state new_id w = (e_id w (w_tick w), tick w)"
  by (simp add: new_id_def next_tick_def)

lemma run_next_tick [simp]: "run_state next_tick w = (w_tick w, tick w)"
  by (simp add: next_tick_def)

lemma run_exec_stmt_Inr:
  "run_state (exec_stmt f) w = (Inr x, w') \<longleftrightarrow>
     e_fault w (w_tick w) = None \<and>
     (\<exists>d. f (e_clock w (w_tick w)) (w_db w) = Inr (x, d) \<and> w' = (tick w)\<lparr>w_db := d\<rparr>)"
  by (auto simp: exec_stmt_def Let_def split: option.splits sum.splits)

lemma run_exec_stmt_Inl: "run_state (exec_stmt f) w = (Inl e, w') \<Longrightarrow> w' = tick w"
  by (auto simp: exec_stmt_def Let_def split: option.splits sum.splits prod.splits)

lemma run_exec_stmt_cases:
  assumes "run_state (exec_stmt f) w = (r, w')"
  obtains (ok) x d where "r = Inr x" "f (e_clock w (w_tick w)) (w_db w) = Inr (x, d)"
      "w' = (tick w)\<lparr>w_db := d\<rparr>" "e_fault w (w_tick w) = None"
    | (failed) e where "r = Inl e" "f (e_clock w (w_tick w)) (w_db w) = Inl e" "w' = tick w"
        "e_fault w (w_tick w) = None"
    | (fault) m where "r = Inl (ErrDatabase m)" "w' = tick w" "e_fault w (w_tick w) = Some m"
  using assms by (auto simp: exec_stmt_def Let_def split: option.splits sum.splits prod.splits)

lemma run_exec_stmt_nofault:
  "e_fault w (w_tick w) = None \<Longrightarrow> run_state (exec_stmt f) w =
     (case f (e_clock w (w_tick w)) (w_db w) of
        Inl e \<Rightarrow> (Inl e, tick w) | Inr (x, d) \<Rightarrow> (Inr x, (tick w)\<lparr>w_db := d\<rparr>))"
  by (simp add: exec_stmt_def Let_def)

lemma run_query_nofault:
  "e_fault w (w_tick w) = None \<Longrightarrow> run_state (query f) w = (f (w_db w), tick w)"
  by (simp add: query_def exec_stmt_def Let_def split: sum.splits)

lemma run_query_Inr:
  "run_state (query f) w = (Inr x, w') \<longleftrightarrow>
     e_fault w (w_tick w) = None \<and> f (w_db w) = Inr x \<and> w' = tick w"
  by (auto simp: query_def exec_stmt_def Let_def split: option.splits sum.splits)

lemma run_query_Inl: "run_state (query f) w = (Inl e, w') \<Longrightarrow> w' = tick w"
  by (auto simp: query_def exec_stmt_def Let_def split: option.splits sum.splits prod.splits)

lemma run_query_ErrInl:
  "run_state (query f) w = (Inl e, w') \<Longrightarrow> (\<exists>m. e = ErrDatabase m) \<or> f (w_db w) = Inl e"
  by (auto simp: query_def exec_stmt_def Let_def split: option.splits sum.splits prod.splits)

lemma snd_run_query [simp]: "snd (run_state (query f) w) = tick w"
  by (auto simp: query_def exec_stmt_def Let_def split: option.splits sum.splits prod.splits)

text \<open>The world after a send that reported an error: at most one unacknowledged command more.\<close>

definition after_failed_send :: "string \<Rightarrow> ServerCommand \<Rightarrow> world \<Rightarrow> world" where
  "after_failed_send r c w = (tick w)\<lparr>w_unacked := w_unacked w @
     (if e_lost w (w_tick w) then [(r, c)] else [])\<rparr>"

lemma after_failed_send_simps [simp]:
  "w_db (after_failed_send r c w) = w_db w" "w_sent (after_failed_send r c w) = w_sent w"
  "w_tick (after_failed_send r c w) = Suc (w_tick w)" "e_fault (after_failed_send r c w) = e_fault w"
  "e_clock (after_failed_send r c w) = e_clock w"
  "w_unacked (after_failed_send r c w) = w_unacked w @ (if e_lost w (w_tick w) then [(r, c)] else [])"
  by (simp_all add: after_failed_send_def)

lemma run_SendCommand:
  "run_state (SendCommand r c) w = (case e_send w (w_tick w) of
     Some m \<Rightarrow> (Inl (ErrSend m), after_failed_send r c w)
   | None \<Rightarrow> (Inr (), (tick w)\<lparr>w_sent := w_sent w @ [(r, c)]\<rparr>))"
  by (cases w) (simp add: SendCommand_def after_failed_send_def Let_def split: option.splits)

text \<open>A transaction that fails leaves the database as it found it; one that succeeds committed.\<close>

lemma run_WithTx_Inl:
  assumes "run_state (WithTx body) w = (Inl e, w')"
  shows "w_db w' = w_db w"
  using assms
  by (auto simp: WithTx_def restore_db_def dest: run_exec_stmt_Inl split: sum.splits prod.splits)

lemma run_WithTx_Inr:
  assumes "run_state (WithTx body) w = (Inr x, w')"
  obtains w1 where "run_state body (tick w) = (Inr x, w1)" "w' = tick w1"
  using assms
  by (auto simp: WithTx_def restore_db_def run_exec_stmt_Inr split: sum.splits prod.splits)

lemmas reads_def =
  GetSession_def ListSessions_def GetTask_def ListTasks_def GetTaskRun_def ListTaskRuns_def
  GetRunner_def ListRunners_def GetPermissionRequest_def ListPermissionRequests_def
  GetWorkspace_def GetProviderConfig_def GetAgentConfig_def GetProfile_def

lemmas writes_def =
  CreateSession_def UpdateSession_def CreateTask_def UpdateTask_def CreateTaskRun_def
  UpdateTaskRun_def UpdateRunner_def ClaimRunner_def ReleaseRunnerClaim_def
  CreatePermissionRequest_def UpdatePermissionRequest_def

text \<open>The store never answers with the error of a send.\<close>

fun not_send :: "gerr \<Rightarrow> bool" where
  "not_send (ErrSend _) = False"
| "not_send _ = True"

lemma errs_exec_stmt:
  assumes "\<And>now d e. f now d = Inl e \<Longrightarrow> P e" and "\<And>m. P (ErrDatabase m)"
  shows "errs P (exec_stmt f)"
  using assms by (auto simp: errs_def exec_stmt_def Let_def split: option.splits sum.splits prod.splits)

lemma errs_query:
  "(\<And>d e. f d = Inl e \<Longrightarrow> P e) \<Longrightarrow> (\<And>m. P (ErrDatabase m)) \<Longrightarrow> errs P (query f)"
  unfolding query_def by (rule errs_exec_stmt) (auto split: sum.splits)

lemma errs_WithTx:
  assumes "errs P body" and "\<And>m. P (ErrDatabase m)"
  shows "errs P (WithTx body)"
proof -
  have commit: "errs P (exec_stmt (\<lambda>_ d. Inr ((), d)))" by (rule errs_exec_stmt) (use assms in auto)
  show ?thesis unfolding errs_def
  proof (intro allI impI)
    fix s e t assume "run_state (WithTx body) s = (Inl e, t)"
    then show "P e"
      by (auto simp: WithTx_def dest: errsD [OF commit] errsD [OF assms(1)] split: prod.splits sum.splits)
  qed
qed

lemma store_not_send:
  "errs not_send (GetTask c x)" "errs not_send (GetSession c x)" "errs not_send (CreateTaskRun c r)"
  "errs not_send (UpdateTask c x tu)"
  unfolding GetTask_def GetSession_def CreateTaskRun_def UpdateTask_def
  by (rule errs_query errs_exec_stmt;
      auto simp: getTask_def getSession_def createTaskRun_def updateTask_def Let_def
        split: option.splits if_splits)+

section \<open>The contract of a server component\<close>

text \<open>
  What a preorder \<open>R\<close> on worlds must satisfy to be respected by a handler that only executes
  statements allowed by \<open>A\<close> and only sends commands allowed by \<open>S\<close>: it is kept by the passage of
  time, by each allowed statement, by the rollback of a transaction, and by the growth of the
  outputs.
\<close>

locale server_contract = state_preorder R
  for R :: "world \<Rightarrow> world \<Rightarrow> bool" +
  fixes A :: "stmt \<Rightarrow> bool"
    and S :: "string \<Rightarrow> ServerCommand \<Rightarrow> bool"
  assumes R_tick: "R w (w\<lparr>w_tick := n\<rparr>)"
    and R_step: "A l \<Longrightarrow> db_step l (w_db w) d \<Longrightarrow> R w (w\<lparr>w_tick := n, w_db := d\<rparr>)"
    and R_rollback: "R w w' \<Longrightarrow> R w (w'\<lparr>w_db := w_db w\<rparr>)"
    and R_sent: "S r c \<Longrightarrow> R w (w\<lparr>w_tick := n, w_sent := w_sent w @ [(r, c)]\<rparr>)"
    and R_unacked: "S r c \<Longrightarrow> R w (w\<lparr>w_tick := n, w_unacked := w_unacked w @ [(r, c)]\<rparr>)"
    and R_jobs: "R w (w\<lparr>w_tick := n, w_jobs := w_jobs w @ [j]\<rparr>)"
    and R_log: "R w (w\<lparr>w_log := w_log w @ [e]\<rparr>)"
begin

lemma resp_next_tick: "resp next_tick"
  by (rule respI) (simp add: next_tick_def R_tick)

lemma resp_asks: "resp (asks f)"
  by (rule respI) (simp add: asks_def R_refl)

lemma resp_Now: "resp Now"
  unfolding Now_def by (intro resp_intros resp_next_tick resp_asks)

lemma resp_new_id: "resp new_id"
  unfolding new_id_def by (intro resp_intros resp_next_tick resp_asks)

lemma resp_exec_stmt:
  assumes "\<And>now d x d'. f now d = Inr (x, d') \<Longrightarrow> d' = d \<or> (\<exists>l. A l \<and> db_step l d d')"
  shows "resp (exec_stmt f)"
proof (rule respI)
  fix w
  show "R w (snd (run_state (exec_stmt f) w))"
    using assms [of "e_clock w (w_tick w)" "w_db w"] R_tick [of w] R_step [of _ w]
    by (fastforce simp: exec_stmt_def Let_def split: option.splits sum.splits prod.splits)
qed

lemma resp_query: "resp (query f)"
  unfolding query_def by (rule resp_exec_stmt) (auto split: sum.splits)

lemma resp_emit: "resp (emit e)"
  by (rule respI) (simp add: emit_def R_log)

lemma resp_emit_audit: "resp (emit_audit a r)"
  unfolding emit_audit_def by (intro resp_intros resp_asks resp_emit)

lemma resp_emit_webhook: "resp (emit_webhook a r)"
  unfolding emit_webhook_def by (intro resp_intros resp_asks resp_emit)

lemma resp_provider_call: "resp (provider_call e)"
  unfolding provider_call_def by (intro resp_intros resp_next_tick resp_asks resp_emit)

lemma resp_os_call: "resp os_call"
  unfolding os_call_def by (intro resp_intros resp_next_tick resp_asks)

lemma resp_SendCommand: "S r c \<Longrightarrow> resp (SendCommand r c)"
  by (rule respI) (simp add: SendCommand_def Let_def R_tick R_sent R_unacked split: option.splits)

lemma resp_background_Go: "resp (background_Go j)"
  by (rule respI) (simp add: background_Go_def Let_def R_tick R_jobs)

lemma resp_go_routine: "resp (go_routine j)"
proof (rule respI)
  fix w show "R w (snd (run_state (go_routine j) w))"
    using R_jobs [where w = w and n = "w_tick w" and j = j] by (simp add: go_routine_def)
qed

lemma resp_noop_stmt: "resp (exec_stmt (\<lambda>_ d. Inr ((), d)))"
  by (rule resp_exec_stmt) auto

text \<open>A transaction respects \<open>R\<close> when its body does, whether it commits or rolls back.\<close>

lemma resp_WithTx:
  assumes body: "resp body"
  shows "resp (WithTx body)"
proof (rule respI)
  fix w
  let ?tick = "exec_stmt (\<lambda>_ d. Inr ((), d))"
  obtain r1 w1 where r1: "run_state ?tick w = (r1, w1)" by (cases "run_state ?tick w")
  obtain r2 w2 where r2: "run_state body w1 = (r2, w2)" by (cases "run_state body w1")
  obtain r3 w3 where r3: "run_state ?tick w2 = (r3, w3)" by (cases "run_state ?tick w2")
  have R1: "R w w1" using respD [OF resp_noop_stmt r1] .
  have R2: "R w w2" using R1 respD [OF body r2] by (rule R_trans)
  have R3: "R w w3" using R2 respD [OF resp_noop_stmt r3] by (rule R_trans)
  show "R w (snd (run_state (WithTx body) w))"
    using r1 r2 r3 R1 R2 R3 R_rollback [OF R2] R_rollback [OF R3]
    by (auto simp: WithTx_def restore_db_def split: sum.splits)
qed

lemmas prim_resp =
  resp_next_tick resp_asks resp_Now resp_new_id resp_query resp_emit resp_emit_audit
  resp_emit_webhook resp_provider_call resp_os_call resp_SendCommand resp_background_Go resp_go_routine resp_WithTx

lemma resp_reads:
  "resp (GetSession c x)" "resp (ListSessions c so)" "resp (GetTask c x)" "resp (ListTasks c to)"
  "resp (GetTaskRun c x)" "resp (ListTaskRuns c ro)" "resp (GetRunner c x)"
  "resp (ListRunners c no)" "resp (GetPermissionRequest c x)" "resp (ListPermissionRequests c po)"
  "resp (GetWorkspace c x)" "resp (GetProviderConfig c x)" "resp (GetAgentConfig c x)"
  "resp (GetProfile c x)"
  by (simp_all add: GetSession_def ListSessions_def GetTask_def ListTasks_def GetTaskRun_def
      ListTaskRuns_def GetRunner_def ListRunners_def GetPermissionRequest_def
      ListPermissionRequests_def GetWorkspace_def GetProviderConfig_def GetAgentConfig_def
      GetProfile_def resp_query)

lemma resp_writes:
  "A (SCreateSession s) \<Longrightarrow> resp (CreateSession c s)"
  "A (SUpdateSession x su) \<Longrightarrow> resp (UpdateSession c x su)"
  "A (SCreateTask t) \<Longrightarrow> resp (CreateTask c t)"
  "A (SUpdateTask x tu) \<Longrightarrow> resp (UpdateTask c x tu)"
  "A (SCreateTaskRun tr) \<Longrightarrow> resp (CreateTaskRun c tr)"
  "A (SUpdateTaskRun x tru) \<Longrightarrow> resp (UpdateTaskRun c x tru)"
  "A (SUpdateRunner x ru) \<Longrightarrow> resp (UpdateRunner c x ru)"
  "(\<And>now. A (SClaimRunner x y now lease)) \<Longrightarrow> resp (ClaimRunner c x y lease)"
  "A (SReleaseRunnerClaim x y) \<Longrightarrow> resp (ReleaseRunnerClaim c x y)"
  "A (SCreatePermission p) \<Longrightarrow> resp (CreatePermissionRequest c p)"
  "A (SUpdatePermission x pu) \<Longrightarrow> resp (UpdatePermissionRequest c x pu)"
  unfolding CreateSession_def UpdateSession_def CreateTask_def UpdateTask_def CreateTaskRun_def
    UpdateTaskRun_def UpdateRunner_def ClaimRunner_def ReleaseRunnerClaim_def
    CreatePermissionRequest_def UpdatePermissionRequest_def
  by (rule resp_exec_stmt, blast intro: db_step.intros)+

lemmas server_resp = resp_intros prim_resp resp_reads resp_writes

end

text \<open>
  Two shapes of contract cover most uses: a predicate on the database that every allowed
  statement keeps, and an output that only grows.
\<close>

locale db_predicate =
  fixes P :: "db \<Rightarrow> bool"
    and A :: "stmt \<Rightarrow> bool"
  assumes P_step: "A l \<Longrightarrow> db_step l d d' \<Longrightarrow> P d \<Longrightarrow> P d'"

sublocale db_predicate \<subseteq> server_contract "\<lambda>w w'. P (w_db w) \<longrightarrow> P (w_db w')" A "\<lambda>_ _. True"
  by unfold_locales (auto intro: P_step)

interpretation any_stmt: db_predicate db_inv "\<lambda>_. True"
  by unfold_locales (rule db_step_inv)

text \<open>Commands already sent are never withdrawn.\<close>

definition sent_grows :: "world \<Rightarrow> world \<Rightarrow> bool" where
  "sent_grows w w' \<longleftrightarrow> (\<exists>xs. w_sent w' = w_sent w @ xs) \<and> (\<exists>ys. w_unacked w' = w_unacked w @ ys)"

interpretation sent: server_contract sent_grows "\<lambda>_. True" "\<lambda>_ _. True"
  by unfold_locales (auto simp: sent_grows_def)

text \<open>The environment's answers are fixed.\<close>

definition env_kept :: "world \<Rightarrow> world \<Rightarrow> bool" where
  "env_kept w w' \<longleftrightarrow> w\<lparr>w_db := w_db w', w_tick := w_tick w', w_sent := w_sent w',
     w_unacked := w_unacked w', w_jobs := w_jobs w',
     w_log := w_log w'\<rparr> = w'"

interpretation env: server_contract env_kept "\<lambda>_. True" "\<lambda>_ _. True"
proof unfold_locales
  fix s t u :: world
  assume "env_kept s t" "env_kept t u"
  then show "env_kept s u"
    unfolding env_kept_def by (cases s; cases t; cases u) simp
next
  fix w w' :: world
  assume "env_kept w w'"
  then show "env_kept w (w'\<lparr>w_db := w_db w\<rparr>)"
    unfolding env_kept_def by (cases w; cases w') simp
qed (auto simp: env_kept_def)

lemma env_kept_simps:
  assumes "env_kept w w'"
  shows "e_fault w' = e_fault w" "e_clock w' = e_clock w" "e_send w' = e_send w" "e_cfg w' = e_cfg w"
    "e_connected w' = e_connected w" "e_bg w' = e_bg w"
  using assms by (cases w; cases w'; simp add: env_kept_def)+

text \<open>What was sent during a run, acknowledged or not, is allowed by \<open>ok_cmd\<close>.\<close>

locale command_filter =
  fixes ok_cmd :: "string \<Rightarrow> ServerCommand \<Rightarrow> bool"

definition sent_only :: "(string \<Rightarrow> ServerCommand \<Rightarrow> bool) \<Rightarrow> world \<Rightarrow> world \<Rightarrow> bool" where
  "sent_only ok_cmd w w' \<longleftrightarrow>
     (\<exists>xs. w_sent w' = w_sent w @ xs \<and> (\<forall>(r, c) \<in> set xs. ok_cmd r c)) \<and>
     (\<exists>ys. w_unacked w' = w_unacked w @ ys \<and> (\<forall>(r, c) \<in> set ys. ok_cmd r c))"

sublocale command_filter \<subseteq> server_contract "sent_only ok_cmd" "\<lambda>_. True" ok_cmd
proof unfold_locales
  fix s t u :: world
  assume "sent_only ok_cmd s t" "sent_only ok_cmd t u"
  then show "sent_only ok_cmd s u" unfolding sent_only_def
    by (elim exE conjE) (intro conjI; fastforce)
qed (auto simp: sent_only_def)

end
