(* ===== verification/Core_Base.thy ===== *)
theory Core_Base
  imports World
begin

text \<open>
  Pure policy of \<^verbatim>\<open>pkg/server/core\<close>: tenants (\<^verbatim>\<open>tenant.go\<close>), retry and redispatch backoff
  (\<^verbatim>\<open>background.go\<close>, \<^verbatim>\<open>redispatch.go\<close>), and the text of errors and numbers the managers store.
\<close>

section \<open>Tenants\<close>

definition tenantFor :: "ctx \<Rightarrow> string option \<Rightarrow> gerr + string option" where
  "tenantFor c explicit =
     (case TenantFromContext c of
        None \<Rightarrow> Inr explicit
      | Some t \<Rightarrow>
          if nonempty explicit \<and> explicit \<noteq> Some t then Inl ErrTenantMismatch
          else Inr (Some t))"

definition tenantValue :: "string option \<Rightarrow> string" where
  "tenantValue t = (case t of None \<Rightarrow> '''' | Some v \<Rightarrow> v)"

definition sameTenant :: "string option \<Rightarrow> string option \<Rightarrow> bool" where
  "sameTenant a b \<longleftrightarrow> tenantValue a = tenantValue b"

definition requireSameTenant :: "string option \<Rightarrow> string option \<Rightarrow> gerr + unit" where
  "requireSameTenant owner other =
     (if sameTenant owner other then Inr () else Inl ErrTenantMismatch)"

lemma requireSameTenant_ok [simp]:
  "requireSameTenant a b = Inr () \<longleftrightarrow> sameTenant a b"
  by (simp add: requireSameTenant_def)

lemma sameTenant_equiv:
  "sameTenant a a" "sameTenant a b \<Longrightarrow> sameTenant b a"
  "sameTenant a b \<Longrightarrow> sameTenant b c \<Longrightarrow> sameTenant a c"
  by (auto simp: sameTenant_def)

section \<open>Durations and text\<close>

definition Second :: int where "Second = 1000000000"
definition Minute :: int where "Minute = 60 * Second"

lemmas duration_defs = Second_def Minute_def

text \<open>\<^verbatim>\<open>time.Time.Sub\<close> saturates at the range of a duration.\<close>

definition time_Sub :: "int \<Rightarrow> int \<Rightarrow> int" where
  "time_Sub t u = max (- (2 ^ 63)) (min (2 ^ 63 - 1) (t - u))"

fun show_nat :: "nat \<Rightarrow> string" where
  "show_nat n = (if n < 10 then [char_of (48 + n)] else show_nat (n div 10) @ [char_of (48 + n mod 10)])"

declare show_nat.simps [simp del]

definition show_int :: "int \<Rightarrow> string" where
  "show_int i = (if i < 0 then CHR ''-'' # show_nat (nat (- i)) else show_nat (nat i))"

lemma show_nat_nonempty [simp]: "show_nat n \<noteq> ''''"
  by (subst show_nat.simps) simp

section \<open>Backoff before a retry\<close>

definition retryBaseDelay :: int where "retryBaseDelay = 2 * Second"
definition retryMaxDelay :: int where "retryMaxDelay = 2 * Minute"

text \<open>The loop \<^verbatim>\<open>for i := 0; i < attempt && delay < retryMaxDelay; i++\<close>.\<close>

fun retry_double :: "nat \<Rightarrow> int \<Rightarrow> int" where
  "retry_double 0 delay = delay"
| "retry_double (Suc n) delay = (if delay < retryMaxDelay then retry_double n (delay * 2) else delay)"

text \<open>\<open>rnd\<close> is the raw random number behind \<^verbatim>\<open>rand.Int64N\<close>.\<close>

definition retryDelay :: "int \<Rightarrow> int \<Rightarrow> int" where
  "retryDelay attempt rnd =
     (let attempt = (if attempt < 0 then 0 else attempt);
          delay = retry_double (nat attempt) retryBaseDelay;
          delay = (if delay > retryMaxDelay then retryMaxDelay else delay);
          jitter = rnd mod (delay div 2 + 1) - delay div 4
      in delay + jitter)"

text \<open>Under the cap the loop is plain exponentiation: stopping early does not show.\<close>

lemma retry_double_capped:
  "0 < d \<Longrightarrow> min retryMaxDelay (retry_double n d) = min retryMaxDelay (d * 2 ^ n)"
proof (induction n arbitrary: d)
  case (Suc n)
  show ?case
  proof (cases "d < retryMaxDelay")
    case True
    with Suc.IH [of "d * 2"] Suc.prems show ?thesis by (simp add: ac_simps)
  next
    case False
    have "d * 1 \<le> d * 2 ^ Suc n" using Suc.prems one_le_power [of "2::int" "Suc n"] by (intro mult_left_mono) auto
    with False show ?thesis by simp
  qed
qed simp

lemma retryDelay_eq:
  "retryDelay attempt rnd =
     (let delay = min retryMaxDelay (retryBaseDelay * 2 ^ nat attempt)
      in delay + (rnd mod (delay div 2 + 1) - delay div 4))"
proof -
  have "min retryMaxDelay (retry_double n retryBaseDelay) = min retryMaxDelay (retryBaseDelay * 2 ^ n)" for n
    by (rule retry_double_capped) (simp add: retryBaseDelay_def Second_def)
  moreover have "nat (if attempt < 0 then 0 else attempt) = nat attempt" by simp
  moreover have "(if x > retryMaxDelay then retryMaxDelay else x) = min retryMaxDelay x" for x
    by (simp add: min_def)
  ultimately show ?thesis by (simp only: retryDelay_def Let_def)
qed

section \<open>Backoff before a redispatch\<close>

definition DefaultRedispatchMaxAttempts :: int where "DefaultRedispatchMaxAttempts = 6"

definition redispatch_schedule :: "int list" where
  "redispatch_schedule = [5 * Second, 15 * Second, 45 * Second, 2 * Minute, 5 * Minute]"

definition redispatchBackoff :: "int \<Rightarrow> int" where
  "redispatchBackoff attempt0 =
     (let attempt = (if attempt0 < 1 then 1 else attempt0) in
      if attempt > int (length redispatch_schedule)
      then redispatch_schedule ! (length redispatch_schedule - 1)
      else redispatch_schedule ! nat (attempt - 1))"

definition eligibleForRedispatch :: "Task \<Rightarrow> bool \<Rightarrow> int \<Rightarrow> bool" where
  "eligibleForRedispatch task ignoreBackoff now =
     (if tStatus task \<noteq> TaskStatusPending then False
      else if nonempty (tDispatchParkedReason task) then False
      else if ignoreBackoff \<or> tNextDispatchAfter task = None then True
      else \<not> now < the (tNextDispatchAfter task))"

text \<open>\<^verbatim>\<open>errors.Is(err, store.ErrNotFound)\<close> replaced by the manager's own error.\<close>

definition not_found_as :: "gerr \<Rightarrow> gerr \<Rightarrow> gerr" where
  "not_found_as e' e = (if is_not_found e then e' else e)"

text \<open>The text of the error a failed send returns.\<close>

definition send_error_text :: "gerr \<Rightarrow> string" where
  "send_error_text e = (case e of ErrSend m \<Rightarrow> m | _ \<Rightarrow> [])"

text \<open>The context of the background pool and of the periodic jobs (\<^verbatim>\<open>app.go\<close>).\<close>

definition app_ctx :: ctx where
  "app_ctx = WithSystemAccess background_ctx"

lemma app_ctx_sees_all [simp]: "rls_visible d app_ctx t"
  by (simp add: rls_visible_def app_ctx_def WithSystemAccess_def IsSystemAccess_def)

end
