(* ===== verification/Task_Manager.thy ===== *)
theory Task_Manager
  imports Core_Base
begin

text \<open>
  \<^verbatim>\<open>pkg/server/core/task_manager.go\<close> with the stateful part of \<^verbatim>\<open>redispatch.go\<close>: choosing and
  dispatching the next task of a session, unwinding a dispatch whose command was not delivered,
  the callbacks a runner's messages trigger, retries, cancellation, and the timeout enforcer.
  \<^verbatim>\<open>Create\<close> and \<^verbatim>\<open>autoDispatch\<close>, which call the session manager, are in \<open>Task_Create\<close>.

  Each handler is one value of the state monad; \<^verbatim>\<open>if err != nil { return err }\<close> is \<open>guard_ok\<close>, an
  error that is only logged is \<open>ignore_err\<close>.
\<close>

section \<open>Status transitions\<close>

definition isValidTaskTransition :: "string \<Rightarrow> string \<Rightarrow> bool" where
  "isValidTaskTransition from to =
     (if from = TaskStatusPending then to = TaskStatusRunning \<or> to = TaskStatusCanceled
      else if from = TaskStatusRunning
        then to = TaskStatusCompleted \<or> to = TaskStatusFailed \<or> to = TaskStatusCanceled
      else False)"

definition isValidTaskRunTransition :: "string \<Rightarrow> string \<Rightarrow> bool" where
  "isValidTaskRunTransition from to =
     (if to = TaskRunStatusCanceled
      then from = TaskRunStatusPending \<or> from = TaskRunStatusAssigned \<or> from = TaskRunStatusRunning
      else if from = TaskRunStatusPending then to = TaskRunStatusAssigned
      else if from = TaskRunStatusAssigned then to = TaskRunStatusRunning
      else if from = TaskRunStatusRunning
        then to = TaskRunStatusCompleted \<or> to = TaskRunStatusFailed \<or> to = TaskRunStatusTimeout
      else False)"

section \<open>Dispatch failures\<close>

definition parked_reason :: "int \<Rightarrow> string \<Rightarrow> string" where
  "parked_reason attempts cause =
     ''gave up after '' @ show_int attempts @ '' dispatch attempts: '' @ cause"

definition recordDispatchFailure :: "int \<Rightarrow> ctx \<Rightarrow> string \<Rightarrow> string \<Rightarrow> unit M" where
  "recordDispatchFailure redispatchMaxAttempts c taskID cause = do {
     r \<leftarrow> GetTask c taskID;
     (case r of
        Inl _ \<Rightarrow> ret ()
      | Inr task \<Rightarrow>
          let attempts = tDispatchAttempts task + 1;
              updates = no_task_updates\<lparr>tuDispatchAttempts := Some attempts\<rparr>
          in if attempts \<ge> redispatchMaxAttempts
             then ignore_err (UpdateTask c taskID
                    (updates\<lparr>tuDispatchParkedReason := Some (parked_reason attempts cause)\<rparr>))
             else do {
               now \<leftarrow> Now;
               ignore_err (UpdateTask c taskID
                 (updates\<lparr>tuNextDispatchAfter := Some (now + redispatchBackoff attempts)\<rparr>))
             })
   }"

text \<open>A run that failed for \<open>reason\<close>, as \<^verbatim>\<open>unwindDispatch\<close> and \<^verbatim>\<open>FailRun\<close> write it.\<close>

definition failed_run_updates :: "string \<Rightarrow> int \<Rightarrow> TaskRunUpdates" where
  "failed_run_updates reason now = no_task_run_updates\<lparr>
     truStatus := Some TaskRunStatusFailed, truError := Some reason, truEndedAt := Some now\<rparr>"

definition unwind_reason :: "string \<Rightarrow> string" where
  "unwind_reason cause = ''failed to send command to runner: '' @ cause"

definition unwind_updates :: "bool \<Rightarrow> Task \<Rightarrow> TaskUpdates" where
  "unwind_updates incrementRetry task =
     (let updates = no_task_updates\<lparr>tuStatus := Some TaskStatusPending\<rparr>
      in if incrementRetry \<and> tRetryCount task > 0
         then updates\<lparr>tuRetryCount := Some (tRetryCount task - 1)\<rparr>
         else updates)"

definition unwindDispatch :: "ctx \<Rightarrow> string \<Rightarrow> string \<Rightarrow> bool \<Rightarrow> string \<Rightarrow> unit M" where
  "unwindDispatch c taskID runID incrementRetry cause =
     ignore_err (WithTx (do {
       now \<leftarrow> Now;
       guard_ok (UpdateTaskRun c runID (failed_run_updates (unwind_reason cause) now))
         (\<lambda>_. guard_ok (GetTask c taskID) (\<lambda>task.
           UpdateTask c taskID (unwind_updates incrementRetry task)))
     }))"

section \<open>Dispatch\<close>

definition mk_ExecuteTask :: "Task \<Rightarrow> TaskRun \<Rightarrow> Session \<Rightarrow> ServerCommand" where
  "mk_ExecuteTask task run session =
     ExecuteTask (tID task) (trID run) (int32 (trAttempt run)) (sID session) (tPrompt task)
       (int64 (tTimeoutSeconds task))"

text \<open>The row a dispatch inserts, and the compare-and-set that moves the task.\<close>

definition dispatch_run :: "string \<Rightarrow> int \<Rightarrow> Task \<Rightarrow> Session \<Rightarrow> int \<Rightarrow> TaskRun" where
  "dispatch_run rid now task session retryCount =
     \<lparr>trID = rid, trTaskID = tID task, trAttempt = retryCount + 1, trRunnerID = sRunnerID session,
      trStatus = TaskRunStatusPending, trError = None, trExitCode = None, trTokensInput = None,
      trTokensOutput = None, trTenantID = tTenantID task, trQueuedAt = now, trAssignedAt = None,
      trStartedAt = None, trEndedAt = None, trUpdatedAt = now\<rparr>"

definition dispatch_updates :: "bool \<Rightarrow> int \<Rightarrow> TaskUpdates" where
  "dispatch_updates incrementRetry retryCount =
     (let updates = no_task_updates\<lparr>tuStatus := Some TaskStatusRunning\<rparr> in
      if incrementRetry then updates\<lparr>tuRetryCount := Some retryCount\<rparr>
      else updates\<lparr>tuExpectedStatus := Some TaskStatusPending\<rparr>)"

text \<open>The body of the transaction of \<^verbatim>\<open>dispatch\<close>: the run, the runner and the command.\<close>

definition dispatch_tx :: "ctx \<Rightarrow> string \<Rightarrow> bool \<Rightarrow> (TaskRun \<times> string \<times> ServerCommand) G" where
  "dispatch_tx c taskID incrementRetry =
     guard_ok (map_err (not_found_as ErrTaskNotFound) (GetTask c taskID)) (\<lambda>task.
       if incrementRetry \<and> tRetryCount task \<ge> tMaxRetries task then err ErrMaxRetriesExceeded
       else guard_ok (GetSession c (tSessionID task)) (\<lambda>session.
         case sRunnerID session of
           None \<Rightarrow> err ErrNoRunnerAttached
         | Some runnerID \<Rightarrow>
             if runnerID = '''' then err ErrNoRunnerAttached
             else let retryCount = (if incrementRetry then tRetryCount task + 1 else tRetryCount task)
             in do {
               now \<leftarrow> Now;
               rid \<leftarrow> new_id;
               guard_ok (map_err (\<lambda>e. if is_already_exists e then ErrDispatchRaceLost else e)
                   (CreateTaskRun c (dispatch_run rid now task session retryCount))) (\<lambda>run.
                 guard_ok (map_err (\<lambda>e. if e = ErrConflict then ErrDispatchRaceLost else e)
                     (UpdateTask c taskID (dispatch_updates incrementRetry retryCount))) (\<lambda>_.
                   ok (run, runnerID, mk_ExecuteTask task run session)))
             }))"

definition clear_backoff :: TaskUpdates where
  "clear_backoff = no_task_updates\<lparr>tuClearDispatchBackoff := True\<rparr>"

definition dispatch :: "int \<Rightarrow> ctx \<Rightarrow> string \<Rightarrow> bool \<Rightarrow> TaskRun G" where
  "dispatch maxAttempts c taskID incrementRetry =
     guard_ok (WithTx (dispatch_tx c taskID incrementRetry)) (\<lambda>(run, runnerID, cmd). do {
       sent \<leftarrow> SendCommand runnerID cmd;
       (case sent of
          Inl sendErr \<Rightarrow> do {
            _ \<leftarrow> unwindDispatch c taskID (trID run) incrementRetry (send_error_text sendErr);
            _ \<leftarrow> recordDispatchFailure maxAttempts c taskID (send_error_text sendErr);
            err sendErr
          }
        | Inr _ \<Rightarrow> do {
            _ \<leftarrow> ignore_err (UpdateTask c taskID clear_backoff);
            ok run
          })
     })"

definition Execute :: "int \<Rightarrow> ctx \<Rightarrow> string \<Rightarrow> unit G" where
  "Execute maxAttempts c taskID = guard_ok (dispatch maxAttempts c taskID False) (\<lambda>_. ok ())"

definition Retry :: "int \<Rightarrow> ctx \<Rightarrow> string \<Rightarrow> TaskRun G" where
  "Retry maxAttempts c taskID = dispatch maxAttempts c taskID True"

section \<open>The next task of a session\<close>

definition dispatchScanLimit :: int where "dispatchScanLimit = 200"

fun oldest_from :: "Task option \<Rightarrow> Task list \<Rightarrow> Task option" where
  "oldest_from oldest [] = oldest"
| "oldest_from oldest (task # rest) =
     oldest_from (case oldest of
         None \<Rightarrow> Some task
       | Some o' \<Rightarrow> if tCreatedAt task < tCreatedAt o' then Some task else Some o') rest"

definition oldestTask :: "Task list \<Rightarrow> Task option" where
  "oldestTask ts = oldest_from None ts"

definition session_tasks_opts :: "string \<Rightarrow> string \<Rightarrow> int \<Rightarrow> ListTasksOptions" where
  "session_tasks_opts sessionID status limit =
     \<lparr>ltoBase = default_opts\<lparr>loLimit := limit\<rparr>, ltoSessionID = Some sessionID, ltoStatus = [status]\<rparr>"

definition dispatchNext :: "int \<Rightarrow> ctx \<Rightarrow> string \<Rightarrow> bool \<Rightarrow> unit G" where
  "dispatchNext maxAttempts c sessionID ignoreBackoff =
     guard_ok (ListTasks c (session_tasks_opts sessionID TaskStatusRunning 1)) (\<lambda>running.
       if lrItems running \<noteq> [] then ok ()
       else guard_ok (ListTasks c (session_tasks_opts sessionID TaskStatusPending dispatchScanLimit))
         (\<lambda>pending.
           case oldestTask (lrItems pending) of
             None \<Rightarrow> ok ()
           | Some task \<Rightarrow> do {
               now \<leftarrow> Now;
               (if \<not> eligibleForRedispatch task ignoreBackoff now then ok ()
                else do {
                  r \<leftarrow> Execute maxAttempts c (tID task);
                  (case r of
                     Inl e \<Rightarrow> if e = ErrDispatchRaceLost then ok () else err e
                   | Inr _ \<Rightarrow> ok ())
                })
             }))"

definition DispatchNext :: "int \<Rightarrow> ctx \<Rightarrow> string \<Rightarrow> unit G" where
  "DispatchNext maxAttempts c sessionID = dispatchNext maxAttempts c sessionID False"

definition DispatchNextNow :: "int \<Rightarrow> ctx \<Rightarrow> string \<Rightarrow> unit G" where
  "DispatchNextNow maxAttempts c sessionID = dispatchNext maxAttempts c sessionID True"

section \<open>Reading and cancelling\<close>

definition Get :: "ctx \<Rightarrow> string \<Rightarrow> Task G" where
  "Get c taskID = map_err (not_found_as ErrTaskNotFound) (GetTask c taskID)"

definition in_flight_opts :: "string \<Rightarrow> ListTaskRunsOptions" where
  "in_flight_opts taskID =
     \<lparr>lroBase = default_opts, lroTaskID = Some taskID, lroRunnerID = None,
      lroStatus = [TaskRunStatusPending, TaskRunStatusAssigned, TaskRunStatusRunning]\<rparr>"

definition cancelRun :: "ctx \<Rightarrow> string \<Rightarrow> unit G" where
  "cancelRun c runID = do {
     now \<leftarrow> Now;
     UpdateTaskRun c runID (no_task_run_updates\<lparr>
       truStatus := Some TaskRunStatusCanceled, truEndedAt := Some now\<rparr>)
   }"

definition Cancel :: "ctx \<Rightarrow> string \<Rightarrow> unit G" where
  "Cancel c taskID =
     guard_ok (map_err (not_found_as ErrTaskNotFound) (GetTask c taskID)) (\<lambda>task.
       if tStatus task = TaskStatusCompleted then err ErrTaskAlreadyCompleted
       else if tStatus task = TaskStatusCanceled then err ErrTaskAlreadyCanceled
       else guard_ok (UpdateTask c taskID (no_task_updates\<lparr>tuStatus := Some TaskStatusCanceled\<rparr>))
         (\<lambda>_. do {
           runs \<leftarrow> ListTaskRuns c (in_flight_opts taskID);
           _ \<leftarrow> (case runs of
                   Inl _ \<Rightarrow> ret ()
                 | Inr rs \<Rightarrow> for_each (\<lambda>run. ignore_err (cancelRun c (trID run))) (lrItems rs));
           _ \<leftarrow> emit_audit ''task.canceled'' taskID;
           ok ()
         }))"

section \<open>Re-execution and runs\<close>

definition ReExecute :: "ctx \<Rightarrow> string \<Rightarrow> unit G" where
  "ReExecute c taskID =
     guard_ok (map_err (not_found_as ErrTaskNotFound) (GetTask c taskID)) (\<lambda>task.
       if tStatus task \<noteq> TaskStatusRunning then err (ErrTaskNotRunning (tStatus task))
       else guard_ok (GetSession c (tSessionID task)) (\<lambda>session.
         case sRunnerID session of
           None \<Rightarrow> err ErrNoRunnerAttached
         | Some runnerID \<Rightarrow>
             if runnerID = '''' then err ErrNoRunnerAttached
             else guard_ok (ListTaskRuns c (in_flight_opts taskID)) (\<lambda>runs.
               case lrItems runs of
                 [] \<Rightarrow> err ErrNoRunningTaskRun
               | run # _ \<Rightarrow>
                   guard_ok (UpdateTaskRun c (trID run) (no_task_run_updates\<lparr>
                       truRunnerID := sRunnerID session\<rparr>)) (\<lambda>_.
                     SendCommand runnerID (mk_ExecuteTask task run session)))))"

definition ListRuns :: "ctx \<Rightarrow> string \<Rightarrow> ListTaskRunsOptions \<Rightarrow> TaskRun ListResult G" where
  "ListRuns c taskID opts =
     guard_ok (map_err (not_found_as ErrTaskNotFound) (GetTask c taskID)) (\<lambda>_.
       guard_ok (ListTaskRuns c (opts\<lparr>lroTaskID := Some taskID\<rparr>)) (\<lambda>result.
         ok (result\<lparr>lrItems := sort_key trAttempt (lrItems result)\<rparr>)))"

definition CreateRun :: "ctx \<Rightarrow> string \<Rightarrow> TaskRun G" where
  "CreateRun c taskID =
     guard_ok (map_err (not_found_as ErrTaskNotFound) (GetTask c taskID)) (\<lambda>task.
       guard_ok (GetSession c (tSessionID task)) (\<lambda>session. do {
         now \<leftarrow> Now;
         rid \<leftarrow> new_id;
         CreateTaskRun c (dispatch_run rid now task session (tRetryCount task))
       }))"

section \<open>Callbacks from the runner\<close>

definition OnTaskAccepted :: "ctx \<Rightarrow> string \<Rightarrow> unit G" where
  "OnTaskAccepted c runID =
     guard_ok (map_err (not_found_as ErrTaskRunNotFound) (GetTaskRun c runID)) (\<lambda>run.
       if trStatus run = TaskRunStatusAssigned then ok ()
       else if \<not> isValidTaskRunTransition (trStatus run) TaskRunStatusAssigned
         then err ErrInvalidTaskRunTransition
       else do {
         now \<leftarrow> Now;
         UpdateTaskRun c runID (no_task_run_updates\<lparr>
           truStatus := Some TaskRunStatusAssigned, truAssignedAt := Some now\<rparr>)
       })"

definition OnTaskStarted :: "ctx \<Rightarrow> string \<Rightarrow> unit G" where
  "OnTaskStarted c runID =
     guard_ok (map_err (not_found_as ErrTaskRunNotFound) (GetTaskRun c runID)) (\<lambda>run.
       if trStatus run = TaskRunStatusRunning then ok ()
       else if \<not> isValidTaskRunTransition (trStatus run) TaskRunStatusRunning
         then err ErrInvalidTaskRunTransition
       else do {
         now \<leftarrow> Now;
         UpdateTaskRun c runID (no_task_run_updates\<lparr>
           truStatus := Some TaskRunStatusRunning, truStartedAt := Some now\<rparr>)
       })"

definition OnTaskProgress :: "ctx \<Rightarrow> string \<Rightarrow> int \<Rightarrow> unit G" where
  "OnTaskProgress c runID progress = ok ()"

record TaskCompletedResult =
  tcRunID :: string
  tcSuccess :: bool
  tcError :: string
  tcExitCode :: "int option"
  tcTokensInput :: int
  tcTokensOutput :: int

definition ShouldRetry :: "ctx \<Rightarrow> string \<Rightarrow> bool G" where
  "ShouldRetry c taskID =
     guard_ok (GetTask c taskID) (\<lambda>task.
       if tRetryCount task \<ge> tMaxRetries task then ok False
       else if tStatus task = TaskStatusCompleted \<or> tStatus task = TaskStatusCanceled then ok False
       else ok True)"

definition retryDelayFor :: "string \<Rightarrow> int M" where
  "retryDelayFor taskID = do {
     r \<leftarrow> GetTask background_ctx taskID;
     t \<leftarrow> next_tick;
     rnd \<leftarrow> asks e_rand;
     (case r of
        Inl _ \<Rightarrow> ret (retryDelay 0 (rnd t))
      | Inr task \<Rightarrow> ret (retryDelay (tRetryCount task) (rnd t)))
   }"

definition scheduleRetry :: "string \<Rightarrow> unit M" where
  "scheduleRetry taskID = do {
     delay \<leftarrow> retryDelayFor taskID;
     _ \<leftarrow> background_Go (JobTaskRetry taskID delay);
     ret ()
   }"

definition completed_updates :: "TaskCompletedResult \<Rightarrow> int \<Rightarrow> TaskRunUpdates" where
  "completed_updates result now = no_task_run_updates\<lparr>
     truStatus := Some (if tcSuccess result then TaskRunStatusCompleted else TaskRunStatusFailed),
     truEndedAt := Some now,
     truTokensInput := Some (tcTokensInput result),
     truTokensOutput := Some (tcTokensOutput result),
     truExitCode := tcExitCode result,
     truError := (if tcError result \<noteq> '''' then Some (tcError result) else None)\<rparr>"

text \<open>The status the task gets, \<open>None\<close> when a retry is scheduled instead.\<close>

definition completed_task_status :: "ctx \<Rightarrow> TaskCompletedResult \<Rightarrow> string \<Rightarrow> string option M" where
  "completed_task_status c result taskID =
     (if tcSuccess result then ret (Some TaskStatusCompleted)
      else do {
        r \<leftarrow> ShouldRetry c taskID;
        (case r of
           Inl _ \<Rightarrow> ret (Some TaskStatusFailed)
         | Inr True \<Rightarrow> do { _ \<leftarrow> scheduleRetry taskID; ret None }
         | Inr False \<Rightarrow> ret (Some TaskStatusFailed))
      })"

text \<open>The webhook and the dispatch of the successor, after the task's status is written.\<close>

definition after_completion :: "ctx \<Rightarrow> string \<Rightarrow> string \<Rightarrow> unit G" where
  "after_completion c taskID taskStatus = do {
     t \<leftarrow> GetTask c taskID;
     (case t of
        Inl _ \<Rightarrow> ok ()
      | Inr task \<Rightarrow> do {
          _ \<leftarrow> emit_webhook (if taskStatus = TaskStatusFailed then ''task.failed''
                             else ''task.completed'') taskID;
          _ \<leftarrow> background_Go (JobDispatchAfterCompletion (tSessionID task));
          ok ()
        })
   }"

definition OnTaskCompleted :: "ctx \<Rightarrow> TaskCompletedResult \<Rightarrow> unit G" where
  "OnTaskCompleted c result =
     guard_ok (map_err (not_found_as ErrTaskRunNotFound) (GetTaskRun c (tcRunID result))) (\<lambda>run. do {
       now \<leftarrow> Now;
       guard_ok (UpdateTaskRun c (tcRunID result) (completed_updates result now)) (\<lambda>_. do {
         st \<leftarrow> completed_task_status c result (trTaskID run);
         (case st of
            None \<Rightarrow> ok ()
          | Some taskStatus \<Rightarrow>
              guard_ok (UpdateTask c (trTaskID run) (no_task_updates\<lparr>tuStatus := Some taskStatus\<rparr>))
                (\<lambda>_. after_completion c (trTaskID run) taskStatus))
       })
     })"

definition FailRun :: "ctx \<Rightarrow> string \<Rightarrow> string \<Rightarrow> unit G" where
  "FailRun c runID reason = do {
     now \<leftarrow> Now;
     UpdateTaskRun c runID (failed_run_updates reason now)
   }"

section \<open>The timeout enforcer\<close>

definition timeoutRun :: "ctx \<Rightarrow> TaskRun \<Rightarrow> Task \<Rightarrow> unit G" where
  "timeoutRun c run task = do {
     now \<leftarrow> Now;
     guard_ok (UpdateTaskRun c (trID run) (no_task_run_updates\<lparr>
         truStatus := Some TaskRunStatusTimeout, truError := Some ''task execution timed out'',
         truEndedAt := Some now\<rparr>)) (\<lambda>_. do {
       cfg \<leftarrow> asks e_cfg;
       _ \<leftarrow> (case trRunnerID run of
              Some runnerID \<Rightarrow>
                if cfgCmdSender cfg
                then ignore_err (SendCommand runnerID (KillTask (tID task) (trID run) ''timeout''))
                else ret ()
            | None \<Rightarrow> ret ());
       _ \<leftarrow> (if cfgTaskManager cfg then do {
              r \<leftarrow> ShouldRetry c (tID task);
              (case r of
                 Inl _ \<Rightarrow> ret ()
               | Inr True \<Rightarrow> scheduleRetry (tID task)
               | Inr False \<Rightarrow>
                   ignore_err (UpdateTask c (tID task) (no_task_updates\<lparr>tuStatus := Some TaskStatusFailed\<rparr>)))
            } else ret ());
       ok ()
     })
   }"

definition timed_out :: "int \<Rightarrow> TaskRun \<Rightarrow> Task \<Rightarrow> bool" where
  "timed_out now run task =
     (case trStartedAt run of None \<Rightarrow> False
      | Some started \<Rightarrow> time_Sub now started > int64 (tTimeoutSeconds task * Second))"

definition running_runs_opts :: ListTaskRunsOptions where
  "running_runs_opts = \<lparr>lroBase = default_opts, lroTaskID = None, lroRunnerID = None,
     lroStatus = [TaskRunStatusRunning]\<rparr>"

definition check_timeout :: "ctx \<Rightarrow> int \<Rightarrow> TaskRun \<Rightarrow> unit M" where
  "check_timeout c now run = do {
     t \<leftarrow> GetTask c (trTaskID run);
     (case t of
        Inl _ \<Rightarrow> ret ()
      | Inr task \<Rightarrow> if timed_out now run task then ignore_err (timeoutRun c run task) else ret ())
   }"

definition checkTimeouts :: "ctx \<Rightarrow> unit G" where
  "checkTimeouts c =
     guard_ok (ListTaskRuns c running_runs_opts) (\<lambda>runs.
       if lrItems runs = [] then ok ()
       else do {
         now \<leftarrow> Now;
         _ \<leftarrow> for_each (check_timeout c now) (lrItems runs);
         ok ()
       })"

end
