(* ===== verification/Task_Laws.thy ===== *)
theory Task_Laws
  imports Task_Manager
begin

text \<open>
  Laws of the task manager. The locale \<open>task_client\<close> collects what a relation on worlds must allow
  for the task manager to respect it, and proves once that every handler does; its
  interpretations give the database invariant, the frame (the task manager writes only task and
  run rows), the persistence of runs and the commands it may send.
\<close>

section \<open>Every handler respects a contract that allows task statements\<close>

locale task_store = server_contract R A S
  for R :: "world \<Rightarrow> world \<Rightarrow> bool" and A :: "stmt \<Rightarrow> bool"
    and S :: "string \<Rightarrow> ServerCommand \<Rightarrow> bool" +
  assumes A_task: "A (SCreateTask t)" "A (SUpdateTask tid tu)" "A (SCreateTaskRun tr)"
      "A (SUpdateTaskRun rid tru)"
begin

lemma resp_recordDispatchFailure: "resp (recordDispatchFailure m c taskID cause)"
  unfolding recordDispatchFailure_def by (intro server_resp A_task)

lemma resp_unwindDispatch: "resp (unwindDispatch c taskID runID inc cause)"
  unfolding unwindDispatch_def by (intro server_resp A_task)

lemma resp_dispatch_tx: "resp (dispatch_tx c taskID inc)"
  unfolding dispatch_tx_def by (intro server_resp A_task)

lemma resp_cancelRun: "resp (cancelRun c runID)"
  unfolding cancelRun_def by (intro server_resp A_task)

lemma resp_Cancel: "resp (Cancel c taskID)"
  unfolding Cancel_def by (intro server_resp resp_cancelRun A_task)

lemma resp_ListRuns: "resp (ListRuns c taskID opts)"
  unfolding ListRuns_def by (intro server_resp)

lemma resp_CreateRun: "resp (CreateRun c taskID)"
  unfolding CreateRun_def by (intro server_resp A_task)

lemma resp_OnTaskAccepted: "resp (OnTaskAccepted c runID)"
  unfolding OnTaskAccepted_def by (intro server_resp A_task)

lemma resp_OnTaskStarted: "resp (OnTaskStarted c runID)"
  unfolding OnTaskStarted_def by (intro server_resp A_task)

lemma resp_ShouldRetry: "resp (ShouldRetry c taskID)"
  unfolding ShouldRetry_def by (intro server_resp)

lemma resp_scheduleRetry: "resp (scheduleRetry taskID)"
  unfolding scheduleRetry_def retryDelayFor_def by (intro server_resp)

lemma resp_OnTaskCompleted: "resp (OnTaskCompleted c result)"
  unfolding OnTaskCompleted_def completed_task_status_def after_completion_def
  by (intro server_resp resp_ShouldRetry resp_scheduleRetry A_task)

lemma resp_FailRun: "resp (FailRun c runID reason)"
  unfolding FailRun_def by (intro server_resp A_task)

end

text \<open>The handlers that send: dispatch, re-execution and the timeout enforcer.\<close>

locale task_client = task_store R A S
  for R :: "world \<Rightarrow> world \<Rightarrow> bool" and A :: "stmt \<Rightarrow> bool"
    and S :: "string \<Rightarrow> ServerCommand \<Rightarrow> bool" +
  assumes S_task: "S r (ExecuteTask a b n s p k)" "S r (KillTask a b m)"
begin

lemma dispatch_tx_cmd:
  assumes "run_state (WithTx (dispatch_tx c taskID inc)) w = (Inr (run, r, cmd), w')"
  shows "S r cmd"
  using assms
  by (auto simp: WithTx_def dispatch_tx_def mk_ExecuteTask_def asks_def Let_def S_task
      split: sum.splits prod.splits if_splits option.splits)

lemma resp_dispatch: "resp (dispatch m c taskID inc)"
proof (rule respI)
  fix w
  let ?tx = "WithTx (dispatch_tx c taskID inc)"
  let ?rest = "\<lambda>run runnerID cmd. do {
       sent \<leftarrow> SendCommand runnerID cmd;
       (case sent of
          Inl sendErr \<Rightarrow> do {
            _ \<leftarrow> unwindDispatch c taskID (trID run) inc (send_error_text sendErr);
            _ \<leftarrow> recordDispatchFailure m c taskID (send_error_text sendErr);
            err sendErr
          }
        | Inr _ \<Rightarrow> do {
            _ \<leftarrow> ignore_err (UpdateTask c taskID clear_backoff);
            ok run
          })
     }"
  obtain r w1 where tx: "run_state ?tx w = (r, w1)" by (cases "run_state ?tx w")
  have R1: "R w w1" using respD [OF resp_WithTx [OF resp_dispatch_tx] tx] .
  show "R w (snd (run_state (dispatch m c taskID inc) w))"
  proof (cases r)
    case (Inl e)
    with tx R1 show ?thesis by (simp add: dispatch_def)
  next
    case (Inr p)
    obtain run runnerID cmd where p: "p = (run, runnerID, cmd)" by (cases p)
    have "S runnerID cmd" using tx Inr p by (auto dest: dispatch_tx_cmd)
    then have "resp (?rest run runnerID cmd)"
      by (intro server_resp resp_unwindDispatch resp_recordDispatchFailure A_task)
    then have "R w1 (snd (run_state (?rest run runnerID cmd) w1))"
      by (cases "run_state (?rest run runnerID cmd) w1") (auto dest: respD)
    with R1 tx Inr p show ?thesis by (simp add: dispatch_def R_trans)
  qed
qed

lemma resp_Execute: "resp (Execute m c taskID)"
  unfolding Execute_def by (intro server_resp resp_dispatch)

lemma resp_Retry: "resp (Retry m c taskID)"
  unfolding Retry_def by (rule resp_dispatch)

lemma resp_dispatchNext: "resp (dispatchNext m c sid ib)"
  unfolding dispatchNext_def by (intro server_resp resp_Execute)

lemma resp_ReExecute: "resp (ReExecute c taskID)"
  unfolding ReExecute_def mk_ExecuteTask_def by (intro server_resp A_task S_task)

lemma resp_timeoutRun: "resp (timeoutRun c run task)"
  unfolding timeoutRun_def
  by (intro server_resp resp_ShouldRetry resp_scheduleRetry A_task S_task)

lemma resp_checkTimeouts: "resp (checkTimeouts c)"
  unfolding checkTimeouts_def check_timeout_def by (intro server_resp resp_timeoutRun)

lemmas task_resp =
  resp_Execute resp_Retry resp_dispatchNext resp_Cancel resp_ReExecute resp_ListRuns
  resp_CreateRun resp_OnTaskAccepted resp_OnTaskStarted resp_OnTaskCompleted resp_FailRun
  resp_checkTimeouts

end

section \<open>Interpretations\<close>

interpretation task_db: task_client "\<lambda>w w'. db_inv (w_db w) \<longrightarrow> db_inv (w_db w')" "\<lambda>_. True" "\<lambda>_ _. True"
  by unfold_locales auto

text \<open>The statements the task manager executes, and what they leave alone.\<close>

fun task_stmt :: "stmt \<Rightarrow> bool" where
  "task_stmt (SCreateTask _) = True"
| "task_stmt (SUpdateTask _ _) = True"
| "task_stmt (SCreateTaskRun _) = True"
| "task_stmt (SUpdateTaskRun _ _) = True"
| "task_stmt _ = False"

definition non_task_part :: "db \<Rightarrow> db" where
  "non_task_part d = d\<lparr>tasks := [], task_runs := []\<rparr>"

lemma task_stmt_frame:
  "task_stmt l \<Longrightarrow> db_step l d d' \<Longrightarrow> non_task_part d' = non_task_part d"
  by (erule db_step.cases)
    (auto simp: non_task_part_def createTask_def updateTask_def createTaskRun_def updateTaskRun_def
      Let_def split: if_splits option.splits)

interpretation task_frame: task_client
  "\<lambda>w w'. non_task_part (w_db w') = non_task_part (w_db w)" task_stmt "\<lambda>_ _. True"
  by unfold_locales (auto dest: task_stmt_frame)

text \<open>Runs are never lost and keep their task and attempt.\<close>

definition runs_kept :: "db \<Rightarrow> db \<Rightarrow> bool" where
  "runs_kept d d' \<longleftrightarrow>
     (\<forall>r \<in> set (task_runs d). \<exists>r' \<in> set (task_runs d').
        trID r' = trID r \<and> trTaskID r' = trTaskID r \<and> trAttempt r' = trAttempt r)"

lemma runs_kept_subset: "set (task_runs d) \<subseteq> set (task_runs d') \<Longrightarrow> runs_kept d d'"
  unfolding runs_kept_def by blast

lemma runs_kept_refl: "runs_kept d d"
  by (auto simp: runs_kept_def)

lemma runs_kept_trans: "runs_kept d d' \<Longrightarrow> runs_kept d' d'' \<Longrightarrow> runs_kept d d''"
  unfolding runs_kept_def by (metis (no_types, lifting))

lemma db_step_runs_kept:
  assumes "db_step l d d'" and "task_runs_ok d"
  shows "runs_kept d d'"
  using assms
proof cases
  case (step_updateTaskRun now c rid ru y)
  show ?thesis
  proof (cases "d' = d")
    case False
    from updateTaskRun_changes [OF step_updateTaskRun(2) this] obtain r
      where r: "r \<in> set (task_runs d)" "trID r = rid"
        and d': "d' = d\<lparr>task_runs := put_row trID rid (apply_task_run_updates now ru r) (task_runs d)\<rparr>"
      by metis
    have "x = r" if "x \<in> set (task_runs d)" "trID x = rid" for x
      using that r assms(2) by (auto simp: task_runs_ok_def distinct_map dest: inj_onD)
    then show ?thesis unfolding runs_kept_def d'
    proof (intro ballI)
      fix x assume x: "x \<in> set (task_runs d)"
      let ?new = "put_row trID rid (apply_task_run_updates now ru r) (task_runs d)"
      have "(if trID x = rid then apply_task_run_updates now ru r else x) \<in> set ?new"
        using x by (auto simp: set_put_row)
      then show "\<exists>r' \<in> set (task_runs (d\<lparr>task_runs := ?new\<rparr>)).
          trID r' = trID x \<and> trTaskID r' = trTaskID x \<and> trAttempt r' = trAttempt x"
        using \<open>\<And>x. x \<in> set (task_runs d) \<Longrightarrow> trID x = rid \<Longrightarrow> x = r\<close> [OF x] r
        by (intro bexI) (auto split: if_splits)
    qed
  qed (simp add: runs_kept_refl)
qed (auto intro!: runs_kept_subset simp: createSession_def updateSession_def createTask_def updateTask_def
    createTaskRun_def createRunner_def updateRunner_def claimRunner_def releaseRunnerClaim_def
    createPermissionRequest_def updatePermissionRequest_def Let_def split: if_splits option.splits prod.splits)

interpretation run_history: task_client
  "\<lambda>w w'. db_inv (w_db w) \<longrightarrow> db_inv (w_db w') \<and> runs_kept (w_db w) (w_db w')"
  "\<lambda>_. True" "\<lambda>_ _. True"
  by unfold_locales
    (auto simp: runs_kept_refl db_inv_def intro: runs_kept_trans db_step_runs_kept
      dest: db_step_inv [unfolded db_inv_def])

interpretation task_env: task_client env_kept "\<lambda>_. True" "\<lambda>_ _. True"
  by unfold_locales auto

text \<open>The commands of the task manager.\<close>

fun task_command :: "string \<Rightarrow> ServerCommand \<Rightarrow> bool" where
  "task_command _ (ExecuteTask _ _ _ _ _ _) = True"
| "task_command _ (KillTask _ _ _) = True"
| "task_command _ _ = False"

interpretation task_commands: command_filter task_command .

interpretation task_sends: task_client "sent_only task_command" "\<lambda>_. True" task_command
  by unfold_locales auto

text \<open>Handlers of \<open>task_store\<close> send nothing at all.\<close>

interpretation no_commands: command_filter "\<lambda>_ _. False" .

interpretation task_silent: task_store "sent_only (\<lambda>_ _. False)" "\<lambda>_. True" "\<lambda>_ _. False"
  by unfold_locales auto

lemma sent_only_nothing:
  "sent_only (\<lambda>_ _. False) w w' \<Longrightarrow> w_sent w' = w_sent w \<and> w_unacked w' = w_unacked w"
  unfolding sent_only_def by (auto simp: split_paired_all neq_Nil_conv) (metis list.set_intros(1) neq_Nil_conv surj_pair)+

lemmas task_silentD = sent_only_nothing [OF no_commands.respD]

end
