(* ===== verification/Task_Dispatch.thy ===== *)
theory Task_Dispatch
  imports Task_Laws
begin

text \<open>
  What a dispatch does: the transaction that records a run, the send, and the compensation when
  the send fails.
\<close>

section \<open>The transaction\<close>

lemma dispatch_updates_nontrivial:
  "(dispatch_updates inc n)\<lparr>tuExpectedStatus := None\<rparr> \<noteq> no_task_updates"
  by (simp add: dispatch_updates_def no_task_updates_def Let_def)

lemma dispatch_updates_simps [simp]:
  "tuStatus (dispatch_updates inc n) = Some TaskStatusRunning"
  "tuRetryCount (dispatch_updates inc n) = (if inc then Some n else None)"
  "tuExpectedStatus (dispatch_updates inc n) = (if inc then None else Some TaskStatusPending)"
  "\<not> tuClearDispatchBackoff (dispatch_updates inc n)"
  "tuNextDispatchAfter (dispatch_updates inc n) = None"
  "tuDispatchAttempts (dispatch_updates inc n) = None"
  "tuDispatchParkedReason (dispatch_updates inc n) = None"
  by (simp_all add: dispatch_updates_def Let_def)

lemma dispatch_tx_ok:
  assumes "run_state (dispatch_tx c taskID inc) w = (Inr (run, runnerID, cmd), w')"
  obtains task session rid now q n d1 where
    "task_tbl.lookup c taskID (w_db w) = Some task"
    "session_tbl.lookup c (tSessionID task) (w_db w) = Some session"
    "sRunnerID session = Some runnerID" "runnerID \<noteq> ''''"
    "inc \<longrightarrow> tRetryCount task < tMaxRetries task"
    "n = (if inc then tRetryCount task + 1 else tRetryCount task)"
    "createTaskRun q c (dispatch_run rid now task session n) (w_db w) = Inr (run, d1)"
    "\<exists>q' x. updateTask q' c taskID (dispatch_updates inc n) d1 = Inr (x, w_db w')"
    "cmd = mk_ExecuteTask task run session"
  using assms
  by (auto simp: dispatch_tx_def Let_def GetTask_def GetSession_def CreateTaskRun_def UpdateTask_def
      run_query_Inr run_exec_stmt_Inr not_le
      split: sum.splits prod.splits if_splits option.splits) blast+

text \<open>The facts a committed dispatch leaves behind.\<close>

lemma dispatch_tx_effect:
  assumes inv: "db_inv (w_db w)"
    and tx: "run_state (dispatch_tx c taskID inc) w = (Inr (run, runnerID, cmd), w')"
  obtains task session n where
    "task_tbl.lookup c taskID (w_db w) = Some task"
    "session_tbl.lookup c (tSessionID task) (w_db w) = Some session"
    "sRunnerID session = Some runnerID"
    "inc \<longrightarrow> tRetryCount task < tMaxRetries task" "\<not> inc \<longrightarrow> tStatus task = TaskStatusPending"
    "n = (if inc then tRetryCount task + 1 else tRetryCount task)"
    "run \<in> set (task_runs (w_db w'))" "trID run \<notin> trID ` set (task_runs (w_db w))"
    "(taskID, n + 1) \<notin> (\<lambda>x. (trTaskID x, trAttempt x)) ` set (task_runs (w_db w))"
    "trTaskID run = taskID" "trAttempt run = n + 1" "trStatus run = TaskRunStatusPending"
    "trRunnerID run = Some runnerID" "trTenantID run = tTenantID task"
    "\<exists>q. task_tbl.lookup c taskID (w_db w') = Some (apply_task_updates q (dispatch_updates inc n) task)"
    "cmd = mk_ExecuteTask task run session"
proof -
  from tx obtain task session rid now q n d1 where
    task: "task_tbl.lookup c taskID (w_db w) = Some task"
    and session: "session_tbl.lookup c (tSessionID task) (w_db w) = Some session"
    and runner: "sRunnerID session = Some runnerID"
    and budget: "inc \<longrightarrow> tRetryCount task < tMaxRetries task"
    and n: "n = (if inc then tRetryCount task + 1 else tRetryCount task)"
    and create: "createTaskRun q c (dispatch_run rid now task session n) (w_db w) = Inr (run, d1)"
    and update: "\<exists>q' x. updateTask q' c taskID (dispatch_updates inc n) d1 = Inr (x, w_db w')"
    and cmd: "cmd = mk_ExecuteTask task run session"
    by (rule dispatch_tx_ok) blast
  have run: "run = (dispatch_run rid now task session n)\<lparr>trQueuedAt := q, trUpdatedAt := q\<rparr>"
    "d1 = (w_db w)\<lparr>task_runs := run # task_runs (w_db w)\<rparr>" "trID run \<notin> trID ` set (task_runs (w_db w))"
    "(trTaskID run, trAttempt run) \<notin> (\<lambda>x. (trTaskID x, trAttempt x)) ` set (task_runs (w_db w))"
    using create by (simp_all add: createTaskRun_Inr)
  obtain q' x where upd: "updateTask q' c taskID (dispatch_updates inc n) d1 = Inr (x, w_db w')"
    using update by blast
  have keys: "distinct (map tID (tasks d1))" using db_inv_keys(2) [OF inv] run(2) by simp
  have look: "task_tbl.lookup c taskID d1 = task_tbl.lookup c taskID (w_db w)"
    by (simp add: run(2) task_tbl.lookup_def rls_visible_def)
  from updateTask_lookup [OF keys upd dispatch_updates_nontrivial] task look
  have cas: "opt_match (tuExpectedStatus (dispatch_updates inc n)) (tStatus task)"
    and w': "w_db w' = d1\<lparr>tasks := put_row tID taskID
        (apply_task_updates q' (dispatch_updates inc n) task) (tasks d1)\<rparr>"
    by (metis option.inject)+
  have tid: "tID task = taskID" "rls_visible d1 c (tTenantID task)"
    using task_tbl.lookup_SomeD [OF task [folded look]] by auto
  have look': "\<exists>q. task_tbl.lookup c taskID (w_db w') =
      Some (apply_task_updates q (dispatch_updates inc n) task)"
    using task_tbl.lookup_put [OF keys, of c taskID task
        "apply_task_updates q' (dispatch_updates inc n) task" c] tid task look
    by (simp add: w' exI)
  have pend: "\<not> inc \<longrightarrow> tStatus task = TaskStatusPending"
    using cas by (simp split: if_splits)
  have cols: "trTaskID run = taskID" "trAttempt run = n + 1" "trStatus run = TaskRunStatusPending"
      "trRunnerID run = Some runnerID" "trTenantID run = tTenantID task"
    using tid(1) runner by (simp_all add: run(1) dispatch_run_def)
  have row: "run \<in> set (task_runs (w_db w'))" "trID run \<notin> trID ` set (task_runs (w_db w))"
    "(taskID, n + 1) \<notin> (\<lambda>x. (trTaskID x, trAttempt x)) ` set (task_runs (w_db w))"
    using run(3,4) cols by (simp_all add: w' run(2))
  show ?thesis by (rule that [OF task session runner budget pend n row cols look' cmd])
qed

section \<open>The whole dispatch\<close>

lemma dispatch_cases:
  assumes "run_state (dispatch m c taskID inc) w = (r, w')"
  obtains (tx_failed) e where "r = Inl e" "run_state (WithTx (dispatch_tx c taskID inc)) w = (Inl e, w')"
  | (unsent) run runnerID cmd w1 e w2 where "r = Inl (ErrSend e)"
      "run_state (WithTx (dispatch_tx c taskID inc)) w = (Inr (run, runnerID, cmd), w1)"
      "e_send w1 (w_tick w1) = Some e"
      "run_state (unwindDispatch c taskID (trID run) inc e) (after_failed_send runnerID cmd w1) = ((), w2)"
      "run_state (recordDispatchFailure m c taskID e) w2 = ((), w')"
  | (sent) run runnerID cmd w1 where "r = Inr run"
      "run_state (WithTx (dispatch_tx c taskID inc)) w = (Inr (run, runnerID, cmd), w1)"
      "run_state (ignore_err (UpdateTask c taskID clear_backoff))
         ((tick w1)\<lparr>w_sent := w_sent w1 @ [(runnerID, cmd)]\<rparr>) = ((), w')"
  using assms
  by (auto simp: dispatch_def run_SendCommand send_error_text_def
      split: sum.splits prod.splits option.splits)

text \<open>The transaction and the compensation are silent: a dispatch sends one command or none.\<close>

lemma dispatch_tx_silent:
  "run_state (WithTx (dispatch_tx c taskID inc)) w = (r, w') \<Longrightarrow> w_sent w' = w_sent w \<and> w_unacked w' = w_unacked w"
  by (rule task_silentD [OF no_commands.resp_WithTx [OF task_silent.resp_dispatch_tx]])

lemma unwindDispatch_silent:
  "run_state (unwindDispatch c taskID rid inc e) w = (r, w') \<Longrightarrow> w_sent w' = w_sent w \<and> w_unacked w' = w_unacked w"
  by (rule task_silentD [OF task_silent.resp_unwindDispatch])

lemma recordDispatchFailure_silent:
  "run_state (recordDispatchFailure m c taskID e) w = (r, w') \<Longrightarrow> w_sent w' = w_sent w \<and> w_unacked w' = w_unacked w"
  by (rule task_silentD [OF task_silent.resp_recordDispatchFailure])

lemma dispatch_error_silent:
  assumes "run_state (dispatch m c taskID inc) w = (Inl e, w')"
  shows "w_sent w' = w_sent w"
  using assms
proof (cases rule: dispatch_cases)
  case tx_failed
  then show ?thesis by (simp add: dispatch_tx_silent)
next
  case unsent
  from dispatch_tx_silent [OF unsent(2)] unwindDispatch_silent [OF unsent(4)]
    recordDispatchFailure_silent [OF unsent(5)] show ?thesis by simp
qed auto

text \<open>What a successful dispatch did.\<close>

lemma clear_backoff_simps [simp]:
  "tuStatus clear_backoff = None" "tuRetryCount clear_backoff = None"
  "tuExpectedStatus clear_backoff = None" "tuClearDispatchBackoff clear_backoff"
  by (simp_all add: clear_backoff_def)

lemma clear_backoff_result:
  assumes inv: "db_inv (w_db w)" and task: "task_tbl.lookup c tid (w_db w) = Some t"
    and run: "run_state (ignore_err (UpdateTask c tid clear_backoff)) w = (x, w')"
  obtains t' where "task_tbl.lookup c tid (w_db w') = Some t'" "tStatus t' = tStatus t"
    "tRetryCount t' = tRetryCount t" "task_runs (w_db w') = task_runs (w_db w)" "w_sent w' = w_sent w" "w_unacked w' = w_unacked w"
proof -
  obtain r where r: "run_state (UpdateTask c tid clear_backoff) w = (r, w')"
    using run by (cases "run_state (UpdateTask c tid clear_backoff) w") auto
  from r [unfolded UpdateTask_def] show ?thesis
  proof (cases rule: run_exec_stmt_cases)
    case (ok y d)
    have nontriv: "clear_backoff\<lparr>tuExpectedStatus := None\<rparr> \<noteq> no_task_updates"
      by (simp add: clear_backoff_def no_task_updates_def)
    from updateTask_lookup [OF db_inv_keys(2) [OF inv] ok(2) nontriv] task
    have d: "d = (w_db w)\<lparr>tasks := put_row tID tid
        (apply_task_updates (e_clock w (w_tick w)) clear_backoff t) (tasks (w_db w))\<rparr>"
      by (metis option.inject)
    have "task_tbl.lookup c tid d = Some (apply_task_updates (e_clock w (w_tick w)) clear_backoff t)"
      using task_tbl.lookup_put [OF db_inv_keys(2) [OF inv] task] task_tbl.lookup_SomeD [OF task]
      by (simp add: d)
    then show ?thesis using that by (simp add: ok(3) d)
  qed (use that [OF _ refl refl] task in simp_all)
qed

lemma dispatch_success:
  assumes inv: "db_inv (w_db w)" and run: "run_state (dispatch m c taskID inc) w = (Inr run, w')"
  obtains task session runnerID t' where
    "task_tbl.lookup c taskID (w_db w) = Some task"
    "session_tbl.lookup c (tSessionID task) (w_db w) = Some session"
    "sRunnerID session = Some runnerID"
    "inc \<longrightarrow> tRetryCount task < tMaxRetries task" "\<not> inc \<longrightarrow> tStatus task = TaskStatusPending"
    "w_sent w' = w_sent w @ [(runnerID, mk_ExecuteTask task run session)]" "w_unacked w' = w_unacked w"
    "trID run \<notin> trID ` set (task_runs (w_db w))" "run \<in> set (task_runs (w_db w'))"
    "trTaskID run = taskID" "trStatus run = TaskRunStatusPending" "trRunnerID run = Some runnerID"
    "task_tbl.lookup c taskID (w_db w') = Some t'" "tStatus t' = TaskStatusRunning"
    "tRetryCount t' = (if inc then tRetryCount task + 1 else tRetryCount task)"
    "trAttempt run = tRetryCount t' + 1"
  using run
proof (cases rule: dispatch_cases)
  case (sent run' runnerID cmd w1)
  from run_WithTx_Inr [OF sent(2)] obtain w0 where
    tx: "run_state (dispatch_tx c taskID inc) (tick w) = (Inr (run', runnerID, cmd), w0)"
    and w1: "w1 = tick w0" by blast
  have db0: "w_db (tick w) = w_db w" by simp
  obtain task session n where
    eff: "task_tbl.lookup c taskID (w_db w) = Some task"
    "session_tbl.lookup c (tSessionID task) (w_db w) = Some session"
    "sRunnerID session = Some runnerID"
    "inc \<longrightarrow> tRetryCount task < tMaxRetries task" "\<not> inc \<longrightarrow> tStatus task = TaskStatusPending"
    and n: "n = (if inc then tRetryCount task + 1 else tRetryCount task)"
    and row: "run' \<in> set (task_runs (w_db w0))" "trID run' \<notin> trID ` set (task_runs (w_db w))"
    "trTaskID run' = taskID" "trAttempt run' = n + 1" "trStatus run' = TaskRunStatusPending"
    "trRunnerID run' = Some runnerID"
    and look: "\<exists>q. task_tbl.lookup c taskID (w_db w0) = Some (apply_task_updates q (dispatch_updates inc n) task)"
    and cmd: "cmd = mk_ExecuteTask task run' session"
    by (rule dispatch_tx_effect [of "tick w", unfolded db0, OF inv tx]) blast
  obtain q where q: "task_tbl.lookup c taskID (w_db w0) = Some (apply_task_updates q (dispatch_updates inc n) task)"
    using look by blast
  have inv1: "db_inv (w_db w1)"
    using any_stmt.respD [OF any_stmt.resp_WithTx [OF task_db.resp_dispatch_tx] sent(2)] inv by simp
  let ?w2 = "(tick w1)\<lparr>w_sent := w_sent w1 @ [(runnerID, cmd)]\<rparr>"
  let ?t = "apply_task_updates q (dispatch_updates inc n) task"
  have inv2: "db_inv (w_db ?w2)" and look2: "task_tbl.lookup c taskID (w_db ?w2) = Some ?t"
    using inv1 q w1 by simp_all
  from clear_backoff_result [OF inv2 look2 sent(3)] obtain t' where
    t': "task_tbl.lookup c taskID (w_db w') = Some t'" "tStatus t' = tStatus ?t"
    "tRetryCount t' = tRetryCount ?t" "task_runs (w_db w') = task_runs (w_db ?w2)"
    "w_sent w' = w_sent ?w2" "w_unacked w' = w_unacked ?w2"
    by blast
  have "tRetryCount ?t = n" using n by simp
  with t' n have t'': "tStatus t' = TaskStatusRunning"
    "tRetryCount t' = (if inc then tRetryCount task + 1 else tRetryCount task)"
    "trAttempt run' = tRetryCount t' + 1" "task_runs (w_db w') = task_runs (w_db w0)"
    "w_sent w' = w_sent w @ [(runnerID, cmd)]" "w_unacked w' = w_unacked w"
    using row(4) w1 dispatch_tx_silent [OF sent(2)] by simp_all
  have [simp]: "run' = run" using sent(1) by simp
  show ?thesis
    by (rule that [OF eff _ _ _ _ _ _ _ t'(1) t''(1,2)]) (use row t'' cmd in simp_all)
qed auto

text \<open>
  C1. A dispatch that succeeds sent exactly one command and left none in doubt, \<open>ExecuteTask\<close>, to the runner attached to
  the task's session; the run it names is new and recorded in the database, the task is
  \<open>running\<close>, the attempt is one more than the retries spent, and a retry was within the budget.
\<close>

theorem dispatch_sends_recorded_run:
  assumes "db_inv (w_db w)" and "run_state (dispatch m c taskID inc) w = (Inr run, w')"
  shows "\<exists>task session runnerID t'.
     task_tbl.lookup c taskID (w_db w) = Some task \<and>
     session_tbl.lookup c (tSessionID task) (w_db w) = Some session \<and>
     sRunnerID session = Some runnerID \<and>
     w_sent w' = w_sent w @ [(runnerID, mk_ExecuteTask task run session)] \<and> w_unacked w' = w_unacked w \<and>
     trID run \<notin> trID ` set (task_runs (w_db w)) \<and> run \<in> set (task_runs (w_db w')) \<and>
     trTaskID run = taskID \<and> trRunnerID run = Some runnerID \<and>
     task_tbl.lookup c taskID (w_db w') = Some t' \<and> tStatus t' = TaskStatusRunning \<and>
     tRetryCount t' = tRetryCount task + (if inc then 1 else 0) \<and>
     trAttempt run = tRetryCount t' + 1 \<and> (inc \<longrightarrow> tRetryCount t' \<le> tMaxRetries task)"
  using assms by (rule dispatch_success) (auto split: if_splits)

section \<open>The compensation\<close>

lemma task_check_pending [simp]: "task_check t \<Longrightarrow> task_check (t\<lparr>tStatus := TaskStatusPending\<rparr>)"
  by (simp add: task_check_def)

lemma unwind_updates_simps [simp]:
  "tuStatus (unwind_updates inc t) = Some TaskStatusPending"
  "tuRetryCount (unwind_updates inc t) =
     (if inc \<and> tRetryCount t > 0 then Some (tRetryCount t - 1) else None)"
  "tuExpectedStatus (unwind_updates inc t) = None"
  "\<not> tuClearDispatchBackoff (unwind_updates inc t)"
  "tuDispatchAttempts (unwind_updates inc t) = None"
  "tuNextDispatchAfter (unwind_updates inc t) = None"
  "tuDispatchParkedReason (unwind_updates inc t) = None"
  by (simp_all add: unwind_updates_def Let_def)

lemma failed_run_updates_simps [simp]:
  "truStatus (failed_run_updates reason now) = Some TaskRunStatusFailed"
  "truRunnerID (failed_run_updates reason now) = None"
  "failed_run_updates reason now \<noteq> no_task_run_updates"
  by (simp_all add: failed_run_updates_def no_task_run_updates_def)

lemma unwindDispatch_nofault:
  assumes nf: "e_fault w = (\<lambda>_. None)" and inv: "db_inv (w_db w)"
    and task: "task_tbl.lookup c tid (w_db w) = Some t" and rn: "run_tbl.lookup c rid (w_db w) = Some r"
    and run: "run_state (unwindDispatch c tid rid inc cause) w = (x, w')"
  obtains q q' u where "e_fault w' = (\<lambda>_. None)"
    "task_tbl.lookup c tid (w_db w') = Some (apply_task_updates q (unwind_updates inc t) t)"
    "run_tbl.lookup c rid (w_db w') =
       Some (apply_task_run_updates q' (failed_run_updates (unwind_reason cause) u) r)"
proof -
  define u where "u = e_clock w (Suc (w_tick w))"
  define q1 where "q1 = e_clock w (Suc (Suc (w_tick w)))"
  define q2 where "q2 = e_clock w (Suc (Suc (Suc (Suc (w_tick w)))))"
  let ?r = "apply_task_run_updates q1 (failed_run_updates (unwind_reason cause) u) r"
  let ?t = "apply_task_updates q2 (unwind_updates inc t) t"
  define d1 where "d1 = (w_db w)\<lparr>task_runs := put_row trID rid ?r (task_runs (w_db w))\<rparr>"
  define d2 where "d2 = d1\<lparr>tasks := put_row tID tid ?t (tasks d1)\<rparr>"
  have r: "r \<in> set (task_runs (w_db w))" "trID r = rid" "rls_visible (w_db w) c (trTenantID r)"
    using run_tbl.lookup_SomeD [OF rn] by auto
  have look: "task_tbl.lookup c tid d1 = Some t" using task by (simp add: d1_def)
  have t: "tID t = tid" "rls_visible d1 c (tTenantID t)"
    using task_tbl.lookup_SomeD [OF look] by auto
  have "task_run_fk (w_db w) r" using inv r(1) by (simp add: db_inv_def task_runs_ok_def)
  then have upd1: "updateTaskRun q1 c rid (failed_run_updates (unwind_reason cause) u) (w_db w) = Inr ((), d1)"
    unfolding d1_def by (intro updateTaskRun_succeeds rn) (simp_all add: task_run_check_def task_run_fk_def)
  have keys: "distinct (map tID (tasks d1))" using db_inv_keys [OF inv] by (simp add: d1_def)
  have upd2: "updateTask q2 c tid (unwind_updates inc t) d1 = Inr ((), d2)"
    unfolding d2_def using look by (intro updateTask_succeeds keys)
      (simp_all add: task_check_def unwind_updates_def no_task_updates_def Let_def)
  have get: "getTask c tid d1 = Inr t" using look by simp
  have w': "w_db w' = d2" "e_fault w' = e_fault w"
    using run upd1 upd2 get nf
    by (auto simp: unwindDispatch_def WithTx_def UpdateTaskRun_def UpdateTask_def GetTask_def
        run_exec_stmt_nofault run_query_nofault u_def [symmetric] q1_def [symmetric] q2_def [symmetric]
        simp del: getTask_Inr)
  have "task_tbl.lookup c tid (w_db w') = Some ?t"
    using task_tbl.lookup_put [OF keys look, of ?t c] t by (simp add: w' d2_def)
  moreover have "run_tbl.lookup c rid (w_db w') = Some ?r"
    using run_tbl.lookup_put [OF db_inv_keys(3) [OF inv] rn, of ?r c] r by (simp add: w' d2_def d1_def)
  ultimately show ?thesis using that w' nf by simp
qed

text \<open>The bookkeeping of a failed dispatch.\<close>

definition failure_recorded :: "int \<Rightarrow> Task \<Rightarrow> Task \<Rightarrow> bool" where
  "failure_recorded m t t' \<longleftrightarrow>
     tStatus t' = tStatus t \<and> tRetryCount t' = tRetryCount t \<and>
     tDispatchAttempts t' = tDispatchAttempts t + 1 \<and>
     (if tDispatchAttempts t' \<ge> m then nonempty (tDispatchParkedReason t')
      else (\<exists>now. tNextDispatchAfter t' = Some (now + redispatchBackoff (tDispatchAttempts t'))) \<and>
           tDispatchParkedReason t' = tDispatchParkedReason t)"

lemma parked_reason_nonempty: "parked_reason n cause \<noteq> []"
  by (simp add: parked_reason_def)

lemma recordDispatchFailure_nofault:
  assumes nf: "e_fault w = (\<lambda>_. None)" and inv: "db_inv (w_db w)"
    and task: "task_tbl.lookup c tid (w_db w) = Some t"
    and run: "run_state (recordDispatchFailure m c tid cause) w = (x, w')"
  obtains t' where "task_tbl.lookup c tid (w_db w') = Some t'" "failure_recorded m t t'"
proof -
  have t: "t \<in> set (tasks (w_db w))" "tID t = tid" "rls_visible (w_db w) c (tTenantID t)"
    using task_tbl.lookup_SomeD [OF task] by auto
  have chk: "task_check t" using inv t by (simp add: db_inv_def tasks_ok_def)
  have upd: "updateTask q c tid u (w_db w) =
      Inr ((), (w_db w)\<lparr>tasks := put_row tID tid (apply_task_updates q u t) (tasks (w_db w))\<rparr>)"
    if "tuExpectedStatus u = None" "tuStatus u = None" "tuDispatchAttempts u \<noteq> None" for q u
    using that chk task db_inv_keys(2) [OF inv]
    by (intro updateTask_succeeds task_updates_nonzero) (auto simp: task_check_def)
  have look: "task_tbl.lookup c tid ((w_db w)\<lparr>tasks := put_row tID tid t' (tasks (w_db w))\<rparr>) = Some t'"
    if "tID t' = tid" "tTenantID t' = tTenantID t" for t'
    using task_tbl.lookup_put [OF db_inv_keys(2) [OF inv] task, of t' c] that t by simp
  have get: "getTask c tid (w_db w) = Inr t" using task by simp
  obtain u q where u: "tuExpectedStatus u = None" "tuStatus u = None" "tuDispatchAttempts u \<noteq> None"
    and w': "w_db w' = (w_db w)\<lparr>tasks := put_row tID tid (apply_task_updates q u t) (tasks (w_db w))\<rparr>"
    and rec: "failure_recorded m t (apply_task_updates q u t)"
  proof (cases "tDispatchAttempts t + 1 \<ge> m")
    case True
    let ?u = "no_task_updates\<lparr>tuDispatchAttempts := Some (tDispatchAttempts t + 1),
        tuDispatchParkedReason := Some (parked_reason (tDispatchAttempts t + 1) cause)\<rparr>"
    show ?thesis
      by (rule that [of ?u "e_clock w (Suc (w_tick w))"])
        (use run True upd [of ?u] nf get in \<open>auto simp: recordDispatchFailure_def GetTask_def
          UpdateTask_def run_query_nofault run_exec_stmt_nofault failure_recorded_def nonempty_def parked_reason_nonempty Let_def
          simp del: getTask_Inr\<close>)
  next
    case False
    let ?now = "e_clock w (Suc (w_tick w))"
    let ?u = "no_task_updates\<lparr>tuDispatchAttempts := Some (tDispatchAttempts t + 1),
        tuNextDispatchAfter := Some (?now + redispatchBackoff (tDispatchAttempts t + 1))\<rparr>"
    show ?thesis
      by (rule that [of ?u "e_clock w (Suc (Suc (w_tick w)))"])
        (use run False upd [of ?u] nf get in \<open>auto simp: recordDispatchFailure_def GetTask_def
          UpdateTask_def run_query_nofault run_exec_stmt_nofault failure_recorded_def Let_def
          simp del: getTask_Inr\<close>)
  qed
  show ?thesis by (rule that [OF _ rec]) (simp add: w' look t)
qed

text \<open>A failure is recorded in the task's row alone.\<close>

fun task_update_stmt :: "stmt \<Rightarrow> bool" where
  "task_update_stmt (SUpdateTask _ _) = True"
| "task_update_stmt _ = False"

interpretation task_rows_only: server_contract
  "\<lambda>w w'. task_runs (w_db w') = task_runs (w_db w)" task_update_stmt "\<lambda>_ _. True"
proof unfold_locales
  fix l w d n
  assume "task_update_stmt l" and "db_step l (w_db w) d"
  from this(2,1) show "task_runs (w_db (w\<lparr>w_tick := n, w_db := d\<rparr>)) = task_runs (w_db w)"
    by cases (auto simp: updateTask_def Let_def split: if_splits option.splits)
qed simp_all

lemma resp_recordDispatchFailure_rows: "task_rows_only.resp (recordDispatchFailure m c taskID cause)"
  unfolding recordDispatchFailure_def by (intro task_rows_only.server_resp) simp_all

lemma dispatch_tx_no_send_error:
  "run_state (WithTx (dispatch_tx c taskID inc)) w \<noteq> (Inl (ErrSend e), w')"
proof
  assume run: "run_state (WithTx (dispatch_tx c taskID inc)) w = (Inl (ErrSend e), w')"
  have "errs not_send (dispatch_tx c taskID inc)"
    unfolding dispatch_tx_def
    by (intro errs_intros errs_map_err [where Q = not_send] store_not_send) (simp_all add: not_found_as_def)
  then have "errs not_send (WithTx (dispatch_tx c taskID inc))" by (rule errs_WithTx) simp
  from errsD [OF this run] show False by simp
qed

text \<open>The state between the commit and the send.\<close>

lemma committed_dispatch:
  assumes inv: "db_inv (w_db w)"
    and tx: "run_state (WithTx (dispatch_tx c taskID inc)) w = (Inr (run, runnerID, cmd), w1)"
  obtains task n q where "db_inv (w_db w1)" "e_fault w1 = e_fault w"
    "task_tbl.lookup c taskID (w_db w) = Some task"
    "n = tRetryCount task + (if inc then 1 else 0)"
    "task_tbl.lookup c taskID (w_db w1) = Some (apply_task_updates q (dispatch_updates inc n) task)"
    "run_tbl.lookup c (trID run) (w_db w1) = Some run"
    "(taskID, n + 1) \<notin> (\<lambda>x. (trTaskID x, trAttempt x)) ` set (task_runs (w_db w))"
    "trTaskID run = taskID" "trAttempt run = n + 1" "run \<in> set (task_runs (w_db w1))"
proof -
  from run_WithTx_Inr [OF tx] obtain w0 where
    body: "run_state (dispatch_tx c taskID inc) (tick w) = (Inr (run, runnerID, cmd), w0)"
    and w1: "w1 = tick w0" by blast
  have db0: "w_db (tick w) = w_db w" by simp
  obtain task n q where task: "task_tbl.lookup c taskID (w_db w) = Some task"
    and n: "n = (if inc then tRetryCount task + 1 else tRetryCount task)"
    and row: "run \<in> set (task_runs (w_db w0))"
    and fresh: "(taskID, n + 1) \<notin> (\<lambda>x. (trTaskID x, trAttempt x)) ` set (task_runs (w_db w))"
    and cols: "trTaskID run = taskID" "trAttempt run = n + 1" "trTenantID run = tTenantID task"
    and look: "task_tbl.lookup c taskID (w_db w0) = Some (apply_task_updates q (dispatch_updates inc n) task)"
    by (rule dispatch_tx_effect [of "tick w", unfolded db0, OF inv body]) blast
  have inv1: "db_inv (w_db w1)"
    using any_stmt.respD [OF any_stmt.resp_WithTx [OF task_db.resp_dispatch_tx] tx] inv by simp
  have env: "e_fault w1 = e_fault w"
    using env_kept_simps(1) [OF env.respD [OF env.resp_WithTx [OF task_env.resp_dispatch_tx] tx]] .
  have "rls_visible (w_db w1) c (trTenantID run)"
    using task_tbl.lookup_SomeD [OF look] cols(3) w1 by simp
  moreover have row1: "run \<in> set (task_runs (w_db w1))" using row w1 by simp
  ultimately have lookr: "run_tbl.lookup c (trID run) (w_db w1) = Some run"
    using run_tbl.lookup_unique [OF db_inv_keys(3) [OF inv1], of run "trID run" c] by simp
  have n': "n = tRetryCount task + (if inc then 1 else 0)" using n by simp
  have look1: "task_tbl.lookup c taskID (w_db w1) = Some (apply_task_updates q (dispatch_updates inc n) task)"
    using look w1 by simp
  show ?thesis by (rule that [OF inv1 env task n' look1 lookr fresh cols(1,2) row1])
qed

text \<open>
  C3. When the command cannot be delivered and the database answers, the whole attempt is unwound:
  no send was acknowledged, the task is pending again with the retry budget it had, the run is kept as
  failed, and the infrastructure budget advanced by one: a later attempt waits out the backoff, or
  the task is parked once the budget is spent.
\<close>

theorem dispatch_send_failure_unwound:
  assumes inv: "db_inv (w_db w)" and nf: "e_fault w = (\<lambda>_. None)"
    and run: "run_state (dispatch m c taskID inc) w = (Inl (ErrSend e), w')"
  shows "w_sent w' = w_sent w \<and> (\<exists>task t' r.
     task_tbl.lookup c taskID (w_db w) = Some task \<and> task_tbl.lookup c taskID (w_db w') = Some t' \<and>
     tStatus t' = TaskStatusPending \<and> (0 \<le> tRetryCount task \<longrightarrow> tRetryCount t' = tRetryCount task) \<and>
     failure_recorded m (task\<lparr>tStatus := TaskStatusPending, tRetryCount := tRetryCount t'\<rparr>) t' \<and>
     r \<in> set (task_runs (w_db w')) \<and> trTaskID r = taskID \<and> trStatus r = TaskRunStatusFailed)"
  using run
proof (cases rule: dispatch_cases)
  case (unsent rn runnerID cmd w1 e' w2)
  from inv unsent(2) obtain task n q where
    c1: "db_inv (w_db w1)" "e_fault w1 = e_fault w" "task_tbl.lookup c taskID (w_db w) = Some task"
    and n: "n = tRetryCount task + (if inc then 1 else 0)"
    and look1: "task_tbl.lookup c taskID (w_db w1) = Some (apply_task_updates q (dispatch_updates inc n) task)"
    and rn: "run_tbl.lookup c (trID rn) (w_db w1) = Some rn" "trTaskID rn = taskID"
    by (rule committed_dispatch) blast
  let ?t1 = "apply_task_updates q (dispatch_updates inc n) task"
  let ?wf = "after_failed_send runnerID cmd w1"
  have w1: "e_fault ?wf = (\<lambda>_. None)" "db_inv (w_db ?wf)"
    "task_tbl.lookup c taskID (w_db ?wf) = Some ?t1"
    "run_tbl.lookup c (trID rn) (w_db ?wf) = Some rn"
    using c1 nf look1 rn by simp_all
  from w1 unsent(4) obtain q2 q3 u where w2: "e_fault w2 = (\<lambda>_. None)"
    "task_tbl.lookup c taskID (w_db w2) = Some (apply_task_updates q2 (unwind_updates inc ?t1) ?t1)"
    "run_tbl.lookup c (trID rn) (w_db w2) =
       Some (apply_task_run_updates q3 (failed_run_updates (unwind_reason e') u) rn)"
    by (rule unwindDispatch_nofault) blast
  let ?t2 = "apply_task_updates q2 (unwind_updates inc ?t1) ?t1"
  have inv2: "db_inv (w_db w2)"
    using any_stmt.respD [OF task_db.resp_unwindDispatch unsent(4)] w1(2) by simp
  from w2(1) inv2 w2(2) unsent(5) obtain t' where t': "task_tbl.lookup c taskID (w_db w') = Some t'"
    "failure_recorded m ?t2 t'"
    by (rule recordDispatchFailure_nofault) blast
  have runs': "task_runs (w_db w') = task_runs (w_db w2)"
    by (rule task_rows_only.respD [OF resp_recordDispatchFailure_rows unsent(5)])
  have "apply_task_run_updates q3 (failed_run_updates (unwind_reason e') u) rn \<in> set (task_runs (w_db w'))"
    using run_tbl.lookup_SomeD [OF w2(3)] runs' by simp
  moreover have "failure_recorded m (task\<lparr>tStatus := TaskStatusPending, tRetryCount := tRetryCount t'\<rparr>) t'"
    using t'(2) unfolding failure_recorded_def by (auto split: if_splits)
  moreover have "tStatus t' = TaskStatusPending" using t'(2) by (simp add: failure_recorded_def)
  moreover have "0 \<le> tRetryCount task \<longrightarrow> tRetryCount t' = tRetryCount task"
    using t'(2) n by (simp add: failure_recorded_def)
  ultimately show ?thesis
    using c1(3) t'(1) rn(2) dispatch_error_silent [OF run] by fastforce
qed (use dispatch_tx_no_send_error in auto)

section \<open>What a failed dispatch may have left with the runner\<close>

lemma dispatch_failed_send:
  assumes inv: "db_inv (w_db w)" and run: "run_state (dispatch m c taskID inc) w = (Inl (ErrSend e), w')"
  obtains task session runnerID rn where
    "task_tbl.lookup c taskID (w_db w) = Some task"
    "session_tbl.lookup c (tSessionID task) (w_db w) = Some session"
    "sRunnerID session = Some runnerID" "inc \<longrightarrow> tRetryCount task < tMaxRetries task"
    "\<not> inc \<longrightarrow> tStatus task = TaskStatusPending"
    "trID rn \<notin> trID ` set (task_runs (w_db w))" "trTaskID rn = taskID" "trRunnerID rn = Some runnerID"
    "w_unacked w' = w_unacked w \<or> w_unacked w' = w_unacked w @ [(runnerID, mk_ExecuteTask task rn session)]"
  using run
proof (cases rule: dispatch_cases)
  case (unsent rn runnerID cmd w1 e' w2)
  from run_WithTx_Inr [OF unsent(2)] obtain w0 where
    tx: "run_state (dispatch_tx c taskID inc) (tick w) = (Inr (rn, runnerID, cmd), w0)" by blast
  have db0: "w_db (tick w) = w_db w" by simp
  obtain task session where
    eff: "task_tbl.lookup c taskID (w_db w) = Some task"
    "session_tbl.lookup c (tSessionID task) (w_db w) = Some session"
    "sRunnerID session = Some runnerID"
    "inc \<longrightarrow> tRetryCount task < tMaxRetries task" "\<not> inc \<longrightarrow> tStatus task = TaskStatusPending"
    "trID rn \<notin> trID ` set (task_runs (w_db w))" "trTaskID rn = taskID" "trRunnerID rn = Some runnerID"
    and cmd: "cmd = mk_ExecuteTask task rn session"
    by (rule dispatch_tx_effect [of "tick w", unfolded db0, OF inv tx]) blast
  have "w_unacked w' = w_unacked w @ (if e_lost w1 (w_tick w1) then [(runnerID, cmd)] else [])"
    using dispatch_tx_silent [OF unsent(2)] unwindDispatch_silent [OF unsent(4)]
      recordDispatchFailure_silent [OF unsent(5)] by simp
  then show ?thesis using that [OF eff] cmd by (auto split: if_splits)
qed (use dispatch_tx_no_send_error in auto)

text \<open>
  C2. A dispatch that returns an error never reports a command as sent. An error other than that of
  the send left the database exactly as it was and nothing with any runner. The error of the send
  does not say that the runner got nothing (the answer of a hop may be lost): then at most one
  command is with a runner, the \<open>ExecuteTask\<close> of the attempt that is being unwound, at the runner
  attached to the task's session, and it names a run that is new.
\<close>

theorem dispatch_error_atomic:
  assumes inv: "db_inv (w_db w)" and run: "run_state (dispatch m c taskID inc) w = (Inl e, w')"
  shows "w_sent w' = w_sent w \<and>
     ((\<forall>msg. e \<noteq> ErrSend msg) \<longrightarrow> w_db w' = w_db w \<and> w_unacked w' = w_unacked w) \<and>
     (w_unacked w' = w_unacked w \<or> (\<exists>task session runnerID rn.
        task_tbl.lookup c taskID (w_db w) = Some task \<and>
        session_tbl.lookup c (tSessionID task) (w_db w) = Some session \<and>
        sRunnerID session = Some runnerID \<and> (inc \<or> tStatus task = TaskStatusPending) \<and>
        trID rn \<notin> trID ` set (task_runs (w_db w)) \<and> trTaskID rn = taskID \<and>
        w_unacked w' = w_unacked w @ [(runnerID, mk_ExecuteTask task rn session)]))"
proof (intro conjI impI)
  show "w_sent w' = w_sent w" using run by (rule dispatch_error_silent)
  assume other: "\<forall>msg. e \<noteq> ErrSend msg"
  from run have "run_state (WithTx (dispatch_tx c taskID inc)) w = (Inl e, w')"
    by (cases rule: dispatch_cases) (use other in auto)
  then show "w_db w' = w_db w" "w_unacked w' = w_unacked w"
    by (auto dest: run_WithTx_Inl dispatch_tx_silent)
next
  show "w_unacked w' = w_unacked w \<or> (\<exists>task session runnerID rn.
        task_tbl.lookup c taskID (w_db w) = Some task \<and>
        session_tbl.lookup c (tSessionID task) (w_db w) = Some session \<and>
        sRunnerID session = Some runnerID \<and> (inc \<or> tStatus task = TaskStatusPending) \<and>
        trID rn \<notin> trID ` set (task_runs (w_db w)) \<and> trTaskID rn = taskID \<and>
        w_unacked w' = w_unacked w @ [(runnerID, mk_ExecuteTask task rn session)])"
  proof (cases "\<exists>msg. e = ErrSend msg")
    case True
    then obtain msg where "run_state (dispatch m c taskID inc) w = (Inl (ErrSend msg), w')" using run by auto
    with inv show ?thesis by (rule dispatch_failed_send) blast
  next
    case False
    from run show ?thesis
      by (cases rule: dispatch_cases) (use False in \<open>auto dest: dispatch_tx_silent\<close>)
  qed
qed

end
