(* ===== verification/Store_Paging.thy ===== *)
theory Store_Paging
  imports Store_Statements
begin

text \<open>
  List queries: a page is a prefix of the ordered rows after the cursor, and a client that follows
  \<^verbatim>\<open>NextCursor\<close> sees every row exactly once, in order, whatever the page size
  (\<^verbatim>\<open>pkg/store/postgres/sorting.go\<close>, \<^verbatim>\<open>helpers.go\<close>).
\<close>

lemma list_rows_items:
  assumes "0 \<le> limit"
  shows "lrItems (list_rows col key rid limit p rows) =
     take (nat limit) (ordered_rows col rid p (filter (after_cursor p key rid) rows))"
proof -
  let ?L = "ordered_rows col rid p (filter (after_cursor p key rid) rows)"
  have "nat (limit + 1) = Suc (nat limit)" using assms by simp
  then show ?thesis using assms by (simp add: list_rows_def Let_def min_def)
qed

lemma list_rows_hasMore:
  assumes "0 \<le> limit"
  shows "lrHasMore (list_rows col key rid limit p rows) \<longleftrightarrow>
     nat limit < length (ordered_rows col rid p (filter (after_cursor p key rid) rows))"
  using assms by (simp add: list_rows_def Let_def min_def) linarith

lemma list_rows_next:
  assumes "0 < limit" and "lpCursorable p"
  shows "lrNextCursor (list_rows col key rid limit p rows) =
     (let L = ordered_rows col rid p (filter (after_cursor p key rid) rows)
      in if nat limit < length L then Some (key (L ! (nat limit - 1)), rid (L ! (nat limit - 1)))
         else None)"
proof -
  let ?L = "ordered_rows col rid p (filter (after_cursor p key rid) rows)"
  let ?R = "list_rows col key rid limit p rows"
  have items: "lrItems ?R = take (nat limit) ?L" and more: "lrHasMore ?R \<longleftrightarrow> nat limit < length ?L"
    using assms by (simp_all add: list_rows_items list_rows_hasMore)
  have nx: "lrNextCursor ?R = (if lrItems ?R = [] then None
      else if \<not> lrHasMore ?R \<or> \<not> lpCursorable p then None
      else Some (key (last (lrItems ?R)), rid (last (lrItems ?R))))"
    by (simp add: list_rows_def Let_def)
  show ?thesis
  proof (cases "nat limit < length ?L")
    case True
    then have ne: "take (nat limit) ?L \<noteq> []" and len: "length (take (nat limit) ?L) = nat limit"
      using assms by auto
    then have "last (take (nat limit) ?L) = ?L ! (nat limit - 1)"
      using assms by (simp add: last_conv_nth [OF ne])
    with ne show ?thesis using True assms by (simp add: nx items more Let_def)
  qed (simp add: nx items more Let_def)
qed

lemma set_ordered_rows [simp]: "set (ordered_rows col rid p rows) = set rows"
  by (simp add: ordered_rows_def Let_def)

lemma length_ordered_rows [simp]: "length (ordered_rows col rid p rows) = length rows"
  by (simp add: ordered_rows_def Let_def)

lemma ordered_rows_empty [simp]: "ordered_rows col rid p rows = [] \<longleftrightarrow> rows = []"
  by (metis length_0_conv length_ordered_rows)

text \<open>Every item of a page is a row that matched.\<close>

lemma list_rows_subset: "set (lrItems (list_rows col key rid limit p rows)) \<subseteq> set rows"
  by (auto simp: list_rows_def Let_def dest!: in_set_takeD split: if_splits)

text \<open>In ascending order the first row is the least.\<close>

lemma ordered_rows_first:
  assumes "\<not> lpDesc p" and "r \<in> set rows" and "ordered_rows col rid p rows = x # xs"
  shows "(col (lpColumn p) x, rid x) \<le> (col (lpColumn p) r, rid r)"
proof -
  let ?f = "\<lambda>r. (col (lpColumn p) r, rid r)"
  have "sorted (map ?f (x # xs))"
    using assms(1,3) sorted_sort_key [of ?f rows] by (simp add: ordered_rows_def Let_def)
  moreover have "r \<in> set (x # xs)" using assms(2) set_ordered_rows [of col rid p rows] assms(3) by simp
  ultimately show ?thesis by auto
qed

lemma strict_filter_drop:
  assumes "sorted_wrt (\<lambda>x y. f x < (f y :: 'b :: linorder)) xs" and "i < length xs"
  shows "filter (\<lambda>r. f (xs ! i) < f r) xs = drop (Suc i) xs"
  using assms
proof (induction xs arbitrary: i)
  case (Cons x xs)
  show ?case
  proof (cases i)
    case 0
    with Cons.prems show ?thesis by (auto intro: filter_True)
  next
    case (Suc j)
    with Cons.prems have "\<not> f (xs ! j) < f x" by (auto dest: bspec [OF _ nth_mem])
    with Suc Cons.IH [of j] Cons.prems show ?thesis by simp
  qed
qed simp

lemma strict_filter_drop_rev:
  assumes "sorted_wrt (\<lambda>x y. f y < (f x :: 'b :: linorder)) xs" and "i < length xs"
  shows "filter (\<lambda>r. f r < f (xs ! i)) xs = drop (Suc i) xs"
  using assms
proof (induction xs arbitrary: i)
  case (Cons x xs)
  show ?case
  proof (cases i)
    case 0
    with Cons.prems show ?thesis by (auto intro: filter_True)
  next
    case (Suc j)
    with Cons.prems have "\<not> f x < f (xs ! j)" by (auto dest: bspec [OF _ nth_mem])
    with Suc Cons.IH [of j] Cons.prems show ?thesis by simp
  qed
qed simp

lemma sort_key_strict:
  assumes "distinct (map rid rows)"
  shows "sorted_wrt (\<lambda>x y. (g x, rid x) < (g y, rid y)) (sort_key (\<lambda>r. (g r, rid r :: 'k :: linorder)) rows)"
proof -
  let ?f = "\<lambda>r. (g r, rid r)"
  let ?L = "sort_key ?f rows"
  have "sorted (map ?f ?L)" by simp
  moreover have "distinct (map ?f ?L)"
  proof -
    have "distinct (map rid ?L)"
      using assms by (simp add: distinct_map)
    then have "distinct (map (snd \<circ> ?f) ?L)" by (simp add: comp_def)
    then show ?thesis by (auto simp: distinct_map dest: inj_on_imageI2)
  qed
  ultimately have "sorted_wrt (<) (map ?f ?L)" by (simp add: strict_sorted_iff)
  then show ?thesis by (simp add: sorted_wrt_map)
qed

text \<open>The rows after the cursor of row \<open>i\<close> are the rows behind it.\<close>

lemma after_cursor_drop:
  assumes ids: "distinct (map rid rows)" and col: "\<And>r. col (lpColumn p) r = sv_int (key r)"
    and L: "L = ordered_rows col rid (p\<lparr>lpCondition := None\<rparr>) rows" and i: "i < length L"
  shows "ordered_rows col rid (p\<lparr>lpCondition := Some (key (L ! i), rid (L ! i))\<rparr>)
      (filter (after_cursor (p\<lparr>lpCondition := Some (key (L ! i), rid (L ! i))\<rparr>) key rid) rows)
    = drop (Suc i) L"
proof -
  let ?f = "\<lambda>r. (col (lpColumn p) r, rid r)"
  let ?S = "sort_key ?f rows"
  let ?q = "p\<lparr>lpCondition := Some (key (L ! i), rid (L ! i))\<rparr>"
  have strict: "sorted_wrt (\<lambda>x y. ?f x < ?f y) ?S" using ids by (rule sort_key_strict)
  show ?thesis
  proof (cases "lpDesc p")
    case False
    then have LS: "L = ?S" by (simp add: L ordered_rows_def)
    have "after_cursor ?q key rid = (\<lambda>r. ?f (L ! i) < ?f r)"
      using False by (auto simp: after_cursor_def col sv_int_def less_prod_def' fun_eq_iff)
    with False LS strict_filter_drop [OF strict, of i] i show ?thesis
      by (simp add: ordered_rows_def filter_sort [symmetric])
  next
    case True
    then have LS: "L = rev ?S" by (simp add: L ordered_rows_def)
    have "after_cursor ?q key rid = (\<lambda>r. ?f r < ?f (L ! i))"
      using True by (auto simp: after_cursor_def col sv_int_def less_prod_def' fun_eq_iff)
    moreover have "sorted_wrt (\<lambda>x y. ?f y < ?f x) (rev ?S)" using strict by (simp add: sorted_wrt_rev)
    ultimately show ?thesis
      using True LS strict_filter_drop_rev [of ?f "rev ?S" i] i
      by (simp add: ordered_rows_def filter_sort [symmetric] rev_filter)
  qed
qed

text \<open>A client that asks for pages until there is no next cursor.\<close>

fun walk_pages ::
  "nat \<Rightarrow> (string \<Rightarrow> 'r \<Rightarrow> sortval) \<Rightarrow> ('r \<Rightarrow> int) \<Rightarrow> ('r \<Rightarrow> string) \<Rightarrow> int \<Rightarrow> listPage \<Rightarrow> 'r list
    \<Rightarrow> 'r list option" where
  "walk_pages 0 col key rid limit p rows = None"
| "walk_pages (Suc n) col key rid limit p rows =
     (let res = list_rows col key rid limit p rows in
      case lrNextCursor res of
        None \<Rightarrow> Some (lrItems res)
      | Some pos \<Rightarrow> map_option (append (lrItems res))
          (walk_pages n col key rid limit (p\<lparr>lpCondition := Some pos\<rparr>) rows))"

lemma walk_pages_from:
  assumes ids: "distinct (map rid rows)" and col: "\<And>r. col (lpColumn p) r = sv_int (key r)"
    and L: "L = ordered_rows col rid (p\<lparr>lpCondition := None\<rparr>) rows"
    and lim: "0 < limit" and cur: "lpCursorable p"
    and k: "k \<le> length L" "lpCondition p = (if k = 0 then None else Some (key (L ! (k - 1)), rid (L ! (k - 1))))"
    and n: "length L - k < n"
  shows "walk_pages n col key rid limit p rows = Some (drop k L)"
  using col L cur k n
proof (induction n arbitrary: p k)
  case (Suc n)
  let ?m = "nat limit"
  have m: "0 < ?m" using lim by simp
  have here: "ordered_rows col rid p (filter (after_cursor p key rid) rows) = drop k L"
  proof (cases k)
    case 0
    then have "lpCondition p = None" using Suc.prems(5) by simp
    then have "after_cursor p key rid = (\<lambda>_. True)" "p\<lparr>lpCondition := None\<rparr> = p"
      by (auto simp: after_cursor_def)
    then show ?thesis using 0 Suc.prems(2) by simp
  next
    case (Suc j)
    then have p: "p = p\<lparr>lpCondition := Some (key (L ! j), rid (L ! j))\<rparr>"
      using Suc.prems(5) by (cases p) simp
    have "j < length L" using Suc Suc.prems(4) by simp
    from after_cursor_drop [OF ids Suc.prems(1) Suc.prems(2) this] show ?thesis
      using Suc by (subst (1 2) p) simp
  qed
  show ?case
  proof (cases "?m < length L - k")
    case False
    then show ?thesis using m Suc.prems(3) lim here
      by (simp add: list_rows_items list_rows_next Let_def)
  next
    case True
    let ?x = "L ! (k + (?m - 1))"
    let ?p = "p\<lparr>lpCondition := Some (key ?x, rid ?x)\<rparr>"
    have "walk_pages n col key rid limit ?p rows = Some (drop (k + ?m) L)"
      by (rule Suc.IH) (use Suc.prems True m in auto)
    then show ?thesis using True m Suc.prems(3) lim here
      by (simp add: list_rows_items list_rows_next Let_def) (metis append_take_drop_id drop_drop add.commute)
  qed
qed simp

text \<open>
  C12. Paging is complete and duplicate free: for any positive page size and either direction, a
  client that starts without a cursor and follows the returned cursors terminates and gets
  exactly the ordered rows.
\<close>

theorem paging_complete:
  assumes "distinct (map rid rows)" and "\<And>r. col (lpColumn p) r = sv_int (key r)"
    and "0 < limit" and "lpCursorable p" and "lpCondition p = None" and "length rows < n"
  shows "walk_pages n col key rid limit p rows = Some (ordered_rows col rid p rows)"
proof -
  have "p\<lparr>lpCondition := None\<rparr> = p" using assms(5) by simp
  then have "walk_pages n col key rid limit p rows = Some (drop 0 (ordered_rows col rid p rows))"
    using assms by (intro walk_pages_from) (auto simp: ordered_rows_def Let_def)
  then show ?thesis by simp
qed

end
