(* ===== verification/Task_Queue.thy ===== *)
theory Task_Queue
  imports Task_Dispatch Store_Paging
begin

text \<open>
  Which task a session runs next, what happens to a task whose dispatch failed before, and the
  callbacks that move a run through its life.
\<close>

section \<open>The oldest pending task\<close>

lemma oldest_from_spec:
  "oldest_from o' ts = Some t \<Longrightarrow>
     (t \<in> set ts \<or> o' = Some t) \<and> (\<forall>x \<in> set ts. tCreatedAt t \<le> tCreatedAt x) \<and>
     (\<forall>x. o' = Some x \<longrightarrow> tCreatedAt t \<le> tCreatedAt x)"
  by (induction ts arbitrary: o') (fastforce split: option.splits if_splits)+

lemma oldest_from_Some: "o' \<noteq> None \<Longrightarrow> oldest_from o' ts \<noteq> None"
  by (induction ts arbitrary: o') (auto split: option.splits)

lemma oldestTask_None [simp]: "oldestTask ts = None \<longleftrightarrow> ts = []"
  using oldest_from_Some by (cases ts) (auto simp: oldestTask_def)

lemma oldestTask_Some:
  "oldestTask ts = Some t \<Longrightarrow> t \<in> set ts \<and> (\<forall>x \<in> set ts. tCreatedAt t \<le> tCreatedAt x)"
  by (auto simp: oldestTask_def dest: oldest_from_spec)

definition session_tasks :: "db \<Rightarrow> ctx \<Rightarrow> string \<Rightarrow> string \<Rightarrow> Task set" where
  "session_tasks d c sid status =
     {t \<in> set (tasks d). rls_visible d c (tTenantID t) \<and> tSessionID t = sid \<and> tStatus t = status}"

lemma task_page [simp]:
  "page taskSortColumns (ltoBase (session_tasks_opts sid status limit)) =
     Inr \<lparr>lpColumn = ''created_at'', lpDesc = False, lpCondition = None, lpCursorable = True\<rparr>"
  by (simp add: page_def taskSortColumns_def session_tasks_opts_def default_opts_def Let_def)

lemma session_tasks_listed:
  assumes "listTasks c (session_tasks_opts sid status limit) d = Inr res" and "0 < limit" "limit \<le> 1000"
  shows "set (lrItems res) \<subseteq> session_tasks d c sid status"
    and "lrItems res = [] \<Longrightarrow> session_tasks d c sid status = {}"
    and "oldestTask (lrItems res) = Some t \<Longrightarrow> x \<in> session_tasks d c sid status
      \<Longrightarrow> tCreatedAt t \<le> tCreatedAt x"
proof -
  let ?p = "\<lparr>lpColumn = ''created_at'', lpDesc = False, lpCondition = None, lpCursorable = True\<rparr>"
  let ?rows = "filter (\<lambda>t. rls_visible d c (tTenantID t) \<and>
      task_matches (session_tasks_opts sid status limit) t) (tasks d)"
  let ?L = "ordered_rows task_col tID ?p ?rows"
  have lim: "defaultLimit (loLimit (ltoBase (session_tasks_opts sid status limit))) = limit"
    using assms(2,3) by (simp add: session_tasks_opts_def default_opts_def defaultLimit_def)
  have all: "after_cursor ?p tCreatedAt tID = (\<lambda>_. True)" by (auto simp: after_cursor_def)
  have items: "lrItems res = take (nat limit) ?L"
    using assms(1,2) by (auto simp: listTasks_def lim list_rows_items all Let_def)
  have rows: "set ?rows = session_tasks d c sid status"
    by (auto simp: session_tasks_def task_matches_def session_tasks_opts_def any_of_def)
  then have L: "set ?L = session_tasks d c sid status" by simp
  show "set (lrItems res) \<subseteq> session_tasks d c sid status"
    unfolding items L [symmetric] by (rule set_take_subset)
  show "session_tasks d c sid status = {}" if "lrItems res = []"
    using that assms(2) unfolding items L [symmetric] by simp
  show "tCreatedAt t \<le> tCreatedAt x"
    if t: "oldestTask (lrItems res) = Some t" and x: "x \<in> session_tasks d c sid status"
  proof -
    from x L obtain y ys where ys: "?L = y # ys" by (cases ?L) auto
    have "x \<in> set ?rows" using x rows by blast
    from ordered_rows_first [OF _ this ys] have "tCreatedAt y \<le> tCreatedAt x" by (auto simp: task_col_def sv_int_def less_eq_prod_def)
    moreover have "y \<in> set (lrItems res)" using items ys assms(2) by (simp add: take_Cons')
    ultimately show ?thesis using oldestTask_Some [OF t] by force
  qed
qed

lemma dispatch_never_sends_blind:
  assumes inv: "db_inv (w_db w)" and run: "run_state (Execute m c tid) w = (r, w')"
  shows "w_sent w' = w_sent w \<and> w_unacked w' = w_unacked w \<or> (\<exists>task rn session runnerID.
     task_tbl.lookup c tid (w_db w) = Some task \<and> tStatus task = TaskStatusPending \<and>
     session_tbl.lookup c (tSessionID task) (w_db w) = Some session \<and>
     sRunnerID session = Some runnerID \<and>
     (w_sent w' = w_sent w @ [(runnerID, mk_ExecuteTask task rn session)] \<and> w_unacked w' = w_unacked w \<and>
        rn \<in> set (task_runs (w_db w')) \<or>
      w_sent w' = w_sent w \<and> w_unacked w' = w_unacked w @ [(runnerID, mk_ExecuteTask task rn session)]))"
proof -
  obtain r1 where r1: "run_state (dispatch m c tid False) w = (r1, w')"
    and r: "r = (case r1 of Inl e \<Rightarrow> Inl e | Inr _ \<Rightarrow> Inr ())"
    using run by (auto simp: Execute_def split: prod.splits sum.splits)
  show ?thesis
  proof (cases r1)
    case (Inl e)
    have silent: "w_sent w' = w_sent w" using dispatch_error_silent r1 Inl by blast
    show ?thesis
    proof (cases "\<exists>msg. e = ErrSend msg")
      case True
      then obtain msg where "run_state (dispatch m c tid False) w = (Inl (ErrSend msg), w')" using r1 Inl by auto
      with inv show ?thesis by (rule dispatch_failed_send) (use silent in blast)
    next
      case False
      from r1 show ?thesis
        by (cases rule: dispatch_cases) (use False Inl silent in \<open>auto dest: dispatch_tx_silent\<close>)
    qed
  next
    case (Inr rn)
    from dispatch_success [OF inv r1 [unfolded Inr]] obtain task session runnerID t' where
      "task_tbl.lookup c tid (w_db w) = Some task"
      "session_tbl.lookup c (tSessionID task) (w_db w) = Some session"
      "sRunnerID session = Some runnerID" "tStatus task = TaskStatusPending"
      "w_sent w' = w_sent w @ [(runnerID, mk_ExecuteTask task rn session)]" "w_unacked w' = w_unacked w"
      "rn \<in> set (task_runs (w_db w'))"
      by metis
    then show ?thesis by auto
  qed
qed

text \<open>
  C4. Tasks of a session are sequential and in order: \<open>dispatchNext\<close> sends at most one command,
  counting one that reached the runner although its send reported an error; when it sends one, no task of the session was running, the task sent is a pending one with the
  earliest creation time of all pending tasks of the session, it is not parked, and unless the
  trigger ignores the backoff its timer had expired when the clock was read (the third
  environment call of the handler).
\<close>

theorem dispatchNext_oldest_first:
  assumes inv: "db_inv (w_db w)" and run: "run_state (dispatchNext m c sid ignoreBackoff) w = (r, w')"
  shows "w_sent w' = w_sent w \<and> w_unacked w' = w_unacked w \<or> (\<exists>task rn session runnerID.
     (w_sent w' = w_sent w @ [(runnerID, mk_ExecuteTask task rn session)] \<and> w_unacked w' = w_unacked w \<and>
        rn \<in> set (task_runs (w_db w')) \<or>
      w_sent w' = w_sent w \<and> w_unacked w' = w_unacked w @ [(runnerID, mk_ExecuteTask task rn session)]) \<and>
     sRunnerID session = Some runnerID \<and>
     session_tbl.lookup c sid (w_db w) = Some session \<and>
     task \<in> session_tasks (w_db w) c sid TaskStatusPending \<and>
     session_tasks (w_db w) c sid TaskStatusRunning = {} \<and>
     (\<forall>t \<in> session_tasks (w_db w) c sid TaskStatusPending. tCreatedAt task \<le> tCreatedAt t) \<and>
     \<not> nonempty (tDispatchParkedReason task) \<and>
     (ignoreBackoff \<or> (\<forall>after. tNextDispatchAfter task = Some after \<longrightarrow>
        after \<le> e_clock w (w_tick w + 2))))"
proof (cases "w_sent w' = w_sent w \<and> w_unacked w' = w_unacked w")
  case False
  let ?l1 = "ListTasks c (session_tasks_opts sid TaskStatusRunning 1)"
  let ?l2 = "ListTasks c (session_tasks_opts sid TaskStatusPending dispatchScanLimit)"
  obtain res1 where l1: "run_state ?l1 w = (Inr res1, tick w)" and none: "lrItems res1 = []"
    using run False
    by (auto simp: dispatchNext_def ListTasks_def run_query_Inr
        dest!: run_query_Inl split: prod.splits sum.splits if_splits)
  obtain res2 where l2: "run_state ?l2 (tick w) = (Inr res2, tick (tick w))"
    using run False l1 none
    by (auto simp: dispatchNext_def ListTasks_def run_query_Inr
        dest!: run_query_Inl split: prod.splits sum.splits if_splits)
  obtain task where task: "oldestTask (lrItems res2) = Some task"
    using run False l1 none l2 by (cases "oldestTask (lrItems res2)") (auto simp: dispatchNext_def)
  define now where "now = e_clock w (Suc (Suc (w_tick w)))"
  let ?w3 = "tick (tick (tick w))"
  have elig: "eligibleForRedispatch task ignoreBackoff now"
    using run False l1 none l2 task by (auto simp: dispatchNext_def now_def split: if_splits)
  obtain r3 where ex: "run_state (Execute m c (tID task)) ?w3 = (r3, w')"
    using run l1 none l2 task elig
    by (auto simp: dispatchNext_def now_def [symmetric] split: prod.splits sum.splits if_splits)
  have d3: "w_db ?w3 = w_db w" "w_sent ?w3 = w_sent w" "w_unacked ?w3 = w_unacked w" by simp_all
  obtain task' rn session runnerID where sent:
    "task_tbl.lookup c (tID task) (w_db w) = Some task'" "tStatus task' = TaskStatusPending"
    "session_tbl.lookup c (tSessionID task') (w_db w) = Some session"
    "sRunnerID session = Some runnerID"
    "w_sent w' = w_sent w @ [(runnerID, mk_ExecuteTask task' rn session)] \<and> w_unacked w' = w_unacked w \<and>
        rn \<in> set (task_runs (w_db w')) \<or>
      w_sent w' = w_sent w \<and> w_unacked w' = w_unacked w @ [(runnerID, mk_ExecuteTask task' rn session)]"
    using dispatch_never_sends_blind [of ?w3, unfolded d3, OF inv ex] False by blast
  have g1: "listTasks c (session_tasks_opts sid TaskStatusRunning 1) (w_db w) = Inr res1"
    and g2: "listTasks c (session_tasks_opts sid TaskStatusPending dispatchScanLimit) (w_db w) = Inr res2"
    using l1 l2 by (auto simp: ListTasks_def run_query_Inr)
  have lim: "0 < dispatchScanLimit" "dispatchScanLimit \<le> 1000" by (simp_all add: dispatchScanLimit_def)
  have mem: "task \<in> session_tasks (w_db w) c sid TaskStatusPending"
    using session_tasks_listed(1) [OF g2 lim] oldestTask_Some [OF task] by blast
  have same: "task' = task"
    using sent(1) mem task_tbl.lookup_unique [OF db_inv_keys(2) [OF inv], of task "tID task" c]
    by (auto simp: session_tasks_def split: if_splits)
  have "session_tasks (w_db w) c sid TaskStatusRunning = {}"
    using session_tasks_listed(2) [OF g1] none by simp
  moreover have "\<forall>t \<in> session_tasks (w_db w) c sid TaskStatusPending. tCreatedAt task \<le> tCreatedAt t"
    using session_tasks_listed(3) [OF g2 lim task] by blast
  moreover have "\<not> nonempty (tDispatchParkedReason task)"
    "ignoreBackoff \<or> (\<forall>after. tNextDispatchAfter task = Some after \<longrightarrow> after \<le> e_clock w (w_tick w + 2))"
    using elig by (auto simp: now_def eligibleForRedispatch_def split: if_splits)
  moreover have "tSessionID task = sid" using mem by (simp add: session_tasks_def)
  ultimately show ?thesis using sent mem unfolding same by blast
qed simp

section \<open>A dispatch that failed once\<close>

text \<open>
  Retry budgets change only through an update that names them; in particular not when a plain
  dispatch is unwound.
\<close>

fun no_retry_write :: "stmt \<Rightarrow> bool" where
  "no_retry_write (SUpdateTask _ u) = (tuRetryCount u = None)"
| "no_retry_write _ = True"

definition retries_kept :: "db \<Rightarrow> db \<Rightarrow> bool" where
  "retries_kept d d' \<longleftrightarrow> (\<forall>t \<in> set (tasks d). \<exists>t' \<in> set (tasks d').
     tID t' = tID t \<and> tRetryCount t' = tRetryCount t)"

lemma retries_kept_subset: "set (tasks d) \<subseteq> set (tasks d') \<Longrightarrow> retries_kept d d'"
  unfolding retries_kept_def by blast

lemma retries_kept_trans: "retries_kept d d' \<Longrightarrow> retries_kept d' d'' \<Longrightarrow> retries_kept d d''"
  unfolding retries_kept_def by (metis (no_types, lifting))

lemma db_step_retries_kept:
  assumes "db_step l d d'" and "no_retry_write l" and "tasks_ok d"
  shows "retries_kept d d'"
  using assms(1)
proof cases
  case (step_updateTask now c tid u y)
  show ?thesis
  proof (cases "d' = d")
    case False
    from updateTask_changes [OF step_updateTask(2) this] obtain t
      where t: "t \<in> set (tasks d)" "tID t = tid"
        and d': "d' = d\<lparr>tasks := put_row tID tid (apply_task_updates now u t) (tasks d)\<rparr>"
      by metis
    have uniq: "x = t" if "x \<in> set (tasks d)" "tID x = tid" for x
      using that t assms(3) by (auto simp: tasks_ok_def distinct_map dest: inj_onD)
    have "\<exists>t' \<in> set (tasks d'). tID t' = tID x \<and> tRetryCount t' = tRetryCount x"
      if x: "x \<in> set (tasks d)" for x
      using x uniq [OF x] t assms(2) step_updateTask(1)
      by (intro bexI [of _ "if tID x = tid then apply_task_updates now u t else x"])
        (auto simp: d' set_put_row)
    then show ?thesis by (simp add: retries_kept_def)
  qed (simp add: retries_kept_subset)
qed (auto intro!: retries_kept_subset simp: createSession_def updateSession_def createTask_def
    createTaskRun_def updateTaskRun_def createRunner_def updateRunner_def claimRunner_def releaseRunnerClaim_def
    createPermissionRequest_def updatePermissionRequest_def Let_def
    split: if_splits option.splits prod.splits)

interpretation retry_budget: server_contract
  "\<lambda>w w'. db_inv (w_db w) \<longrightarrow> db_inv (w_db w') \<and> retries_kept (w_db w) (w_db w')"
  no_retry_write "\<lambda>_ _. True"
proof unfold_locales
  fix l w d n
  assume "no_retry_write l" and "db_step l (w_db w) d"
  then show "db_inv (w_db w) \<longrightarrow> db_inv (w_db (w\<lparr>w_tick := n, w_db := d\<rparr>)) \<and>
      retries_kept (w_db w) (w_db (w\<lparr>w_tick := n, w_db := d\<rparr>))"
    by (auto intro: db_step_inv db_step_retries_kept simp: db_inv_def dest: db_step_inv [unfolded db_inv_def])
qed (auto simp: retries_kept_subset intro: retries_kept_trans)

lemma resp_unwind_retry: "retry_budget.resp (unwindDispatch c tid rid False cause)"
  unfolding unwindDispatch_def by (intro retry_budget.server_resp) simp_all

lemma resp_record_retry: "retry_budget.resp (recordDispatchFailure m c tid cause)"
  unfolding recordDispatchFailure_def Let_def
  by (intro retry_budget.server_resp) simp_all

lemma retries_kept_lookup:
  assumes "retries_kept d d'" and "db_inv d'" and "task_tbl.lookup c tid d = Some t"
    and "task_tbl.lookup c' tid d' = Some t'"
  shows "tRetryCount t' = tRetryCount t"
proof -
  from assms(1,3) obtain x where "x \<in> set (tasks d')" "tID x = tid" "tRetryCount x = tRetryCount t"
    by (auto simp: retries_kept_def dest!: task_tbl.lookup_SomeD)
  moreover have "t' \<in> set (tasks d')" "tID t' = tid" using task_tbl.lookup_SomeD [OF assms(4)] by auto
  ultimately show ?thesis
    using db_inv_keys(2) [OF assms(2)] by (auto simp: distinct_map dest: inj_onD)
qed

text \<open>An attempt already recorded blocks the dispatch.\<close>

lemma dispatch_blocked:
  assumes inv: "db_inv (w_db w)" and "rn \<in> set (task_runs (w_db w))" and "trTaskID rn = tid"
    and attempt: "\<And>t. task_tbl.lookup c tid (w_db w) = Some t \<Longrightarrow> trAttempt rn = tRetryCount t + 1"
    and run: "run_state (Execute m c tid) w = (r, w')"
  shows "w_sent w' = w_sent w \<and> w_unacked w' = w_unacked w \<and> w_db w' = w_db w \<and> r \<noteq> Inr ()"
proof -
  obtain r1 where r1: "run_state (dispatch m c tid False) w = (r1, w')"
    and r: "r = (case r1 of Inl e \<Rightarrow> Inl e | Inr _ \<Rightarrow> Inr ())"
    using run by (auto simp: Execute_def split: prod.splits sum.splits)
  have no_commit: False if "run_state (WithTx (dispatch_tx c tid False)) w = (Inr (run, rr, cmd), w1)"
    for run rr cmd w1
  proof -
    from inv that obtain task n where "task_tbl.lookup c tid (w_db w) = Some task"
      "n = tRetryCount task + (if False then 1 else 0)"
      "(tid, n + 1) \<notin> (\<lambda>x. (trTaskID x, trAttempt x)) ` set (task_runs (w_db w))"
      by (rule committed_dispatch) blast
    then show False using assms(2,3) attempt by (auto simp: image_iff)
  qed
  from r1 show ?thesis
    by (cases rule: dispatch_cases)
      (use no_commit r dispatch_tx_silent run_WithTx_Inl in \<open>auto split: sum.splits\<close>)
qed

text \<open>
  C5. A task whose plain dispatch failed to reach its runner cannot be dispatched again by
  \<open>Execute\<close>: the failed run keeps the attempt number the next dispatch computes, so the unique
  constraint on (task, attempt) makes every later attempt lose a race against nobody. On the
  database the failed dispatch left, at any later time, with any clock, context and delivery,
  \<open>Execute\<close> of the task returns an error, reports and leaves no command with any runner and
  changes nothing.
\<close>

theorem redispatch_after_failed_send_blocked:
  assumes inv: "db_inv (w_db w)"
    and first: "run_state (Execute m c tid) w = (Inl (ErrSend e), w1)"
    and later: "w_db w2 = w_db w1" and again: "run_state (Execute m' c' tid) w2 = (r, w3)"
  shows "w_sent w3 = w_sent w2 \<and> w_unacked w3 = w_unacked w2 \<and> w_db w3 = w_db w2 \<and> r \<noteq> Inr ()"
proof -
  have d1: "run_state (dispatch m c tid False) w = (Inl (ErrSend e), w1)"
    using first by (auto simp: Execute_def split: prod.splits sum.splits)
  have inv1: "db_inv (w_db w1)" using any_stmt.respD [OF task_db.resp_Execute first] inv by simp
  from d1 show ?thesis
  proof (cases rule: dispatch_cases)
    case (unsent run runnerID cmd wa e' wb)
    from inv unsent(2) obtain task n q where n: "n = tRetryCount task + (if False then 1 else 0)"
      and ca: "db_inv (w_db wa)"
      "task_tbl.lookup c tid (w_db wa) = Some (apply_task_updates q (dispatch_updates False n) task)"
      "trTaskID run = tid" "trAttempt run = n + 1" "run \<in> set (task_runs (w_db wa))"
      by (rule committed_dispatch) blast
    have "db_inv (w_db wb) \<and> retries_kept (w_db wa) (w_db wb)"
      using retry_budget.respD [OF resp_unwind_retry unsent(4)] ca(1) by simp
    then have kept: "retries_kept (w_db wa) (w_db w1)"
      using retry_budget.respD [OF resp_record_retry unsent(5)] by (auto intro: retries_kept_trans)
    have "runs_kept (w_db wa) (w_db wb)" "db_inv (w_db wb)"
      using run_history.respD [OF run_history.resp_unwindDispatch unsent(4)] ca(1) by simp_all
    then have "runs_kept (w_db wa) (w_db w1)"
      using run_history.respD [OF run_history.resp_recordDispatchFailure unsent(5)]
      by (auto intro: runs_kept_trans)
    then obtain rn where rn: "rn \<in> set (task_runs (w_db w2))" "trTaskID rn = tid"
      "trAttempt rn = tRetryCount task + 1"
      using ca n later by (auto simp: runs_kept_def)
    have "trAttempt rn = tRetryCount t + 1" if "task_tbl.lookup c' tid (w_db w2) = Some t" for t
      using retries_kept_lookup [OF kept inv1 ca(2)] that rn(3) later by simp
    then show ?thesis
      using inv1 later rn by (intro dispatch_blocked [OF _ rn(1,2) _ again]) auto
  qed (use dispatch_tx_no_send_error in auto)
qed


end
