(* ===== verification/Context_Snapshot.thy ===== *)
theory Context_Snapshot
  imports Core_Base
begin

text \<open>
  \<^verbatim>\<open>pkg/server/core/context_snapshot.go\<close>: the saved state of a session, its JSON form and the merge
  of two snapshots. The zero \<^verbatim>\<open>time.Time\<close> is \<open>None\<close>, a Go map is an association
  list (\<open>None\<close> for the nil map, whose entries cannot be assigned), and a field
  with \<^verbatim>\<open>omitempty\<close> is left out when it is empty. Objects are read by exact field name. The nil
  and the empty slice of pending permissions, which no code tells apart, are both \<open>[]\<close>: an empty slice
  comes back from JSON as the nil one. Strings are valid UTF-8 and the raw agent state is valid
  JSON, so that \<^verbatim>\<open>json.Marshal\<close> does not fail and replaces no bytes.
\<close>

record TaskContextSnapshot =
  tcsTaskID :: string
  tcsRunID :: string
  tcsStatus :: string
  tcsProgress :: int

record ContextSnapshot =
  csWorkingDirectory :: string
  csEnvironment :: "(string \<times> string) list option"
  csConversationID :: string
  csAgentState :: "json option"
  csLastActivity :: "int option"
  csVersion :: int
  csAgentVersion :: string
  csPendingPermissions :: "string list"
  csTaskContext :: "TaskContextSnapshot option"

definition CurrentSnapshotVersion :: int where "CurrentSnapshotVersion = 1"

definition NewContextSnapshot :: "int \<Rightarrow> ContextSnapshot" where
  "NewContextSnapshot now =
    \<lparr>csWorkingDirectory = '''', csEnvironment = Some [], csConversationID = '''', csAgentState = None,
     csLastActivity = Some now, csVersion = CurrentSnapshotVersion, csAgentVersion = '''',
     csPendingPermissions = [], csTaskContext = None\<rparr>"

section \<open>JSON\<close>

definition field_str :: "string \<Rightarrow> string \<Rightarrow> (string \<times> json) list" where
  "field_str k v = (if v = '''' then [] else [(k, JStr v)])"

definition zero_time :: json where "zero_time = JStr ''0001-01-01T00:00:00Z''"

definition json_time :: "int option \<Rightarrow> json" where
  "json_time t = (case t of None \<Rightarrow> zero_time | Some n \<Rightarrow> JTime n)"

definition task_context_json :: "TaskContextSnapshot \<Rightarrow> json" where
  "task_context_json t = JObj (field_str ''task_id'' (tcsTaskID t) @ field_str ''run_id'' (tcsRunID t) @
     field_str ''status'' (tcsStatus t) @
     (if tcsProgress t = 0 then [] else [(''progress'', JInt (tcsProgress t))]))"

definition env_entries :: "ContextSnapshot \<Rightarrow> (string \<times> string) list" where
  "env_entries s = (case csEnvironment s of None \<Rightarrow> [] | Some m \<Rightarrow> m)"

definition ToJSON :: "ContextSnapshot \<Rightarrow> json" where
  "ToJSON s = JObj (
     field_str ''working_directory'' (csWorkingDirectory s) @
     (if env_entries s = [] then []
      else [(''environment'', JObj (map (\<lambda>(k, v). (k, JStr v)) (env_entries s)))]) @
     field_str ''conversation_id'' (csConversationID s) @
     (case csAgentState s of None \<Rightarrow> [] | Some j \<Rightarrow> [(''agent_state'', j)]) @
     [(''last_activity'', json_time (csLastActivity s)), (''version'', JInt (csVersion s))] @
     field_str ''agent_version'' (csAgentVersion s) @
     (if csPendingPermissions s = [] then []
      else [(''pending_permissions'', JArr (map JStr (csPendingPermissions s)))]) @
     (case csTaskContext s of None \<Rightarrow> [] | Some t \<Rightarrow> [(''task_context'', task_context_json t)]))"

text \<open>Decoding a field: absent and \<^verbatim>\<open>null\<close> leave the zero value, a wrong type is an error.\<close>

definition json_err :: gerr where "json_err = ErrInvalidInput ''json''"

definition dec_str :: "(string \<times> json) list \<Rightarrow> string \<Rightarrow> gerr + string" where
  "dec_str fs k = (case map_of fs k of None \<Rightarrow> Inr '''' | Some JNull \<Rightarrow> Inr ''''
     | Some (JStr v) \<Rightarrow> Inr v | _ \<Rightarrow> Inl json_err)"

definition dec_int :: "(string \<times> json) list \<Rightarrow> string \<Rightarrow> gerr + int" where
  "dec_int fs k = (case map_of fs k of None \<Rightarrow> Inr 0 | Some JNull \<Rightarrow> Inr 0
     | Some (JInt v) \<Rightarrow> Inr v | _ \<Rightarrow> Inl json_err)"

definition dec_time :: "(string \<times> json) list \<Rightarrow> string \<Rightarrow> gerr + int option" where
  "dec_time fs k = (case map_of fs k of None \<Rightarrow> Inr None | Some JNull \<Rightarrow> Inr None
     | Some (JTime v) \<Rightarrow> Inr (Some v)
     | Some j \<Rightarrow> if j = zero_time then Inr None else Inl json_err)"

fun dec_strs :: "json list \<Rightarrow> (gerr + string list)" where
  "dec_strs [] = Inr []"
| "dec_strs (JStr v # js) = (case dec_strs js of Inl e \<Rightarrow> Inl e | Inr vs \<Rightarrow> Inr (v # vs))"
| "dec_strs (JNull # js) = (case dec_strs js of Inl e \<Rightarrow> Inl e | Inr vs \<Rightarrow> Inr ([] # vs))"
| "dec_strs (_ # js) = Inl json_err"

definition dec_str_list :: "(string \<times> json) list \<Rightarrow> string \<Rightarrow> gerr + string list" where
  "dec_str_list fs k = (case map_of fs k of None \<Rightarrow> Inr [] | Some JNull \<Rightarrow> Inr []
     | Some (JArr js) \<Rightarrow> dec_strs js | _ \<Rightarrow> Inl json_err)"

definition dec_str_map :: "(string \<times> json) list \<Rightarrow> string \<Rightarrow> gerr + (string \<times> string) list option" where
  "dec_str_map fs k = (case map_of fs k of None \<Rightarrow> Inr None | Some JNull \<Rightarrow> Inr None
     | Some (JObj kvs) \<Rightarrow> (case dec_strs (map snd kvs) of Inl e \<Rightarrow> Inl e
         | Inr vs \<Rightarrow> Inr (Some (zip (map fst kvs) vs)))
     | _ \<Rightarrow> Inl json_err)"

text \<open>Sequencing of decoders.\<close>

definition and_then :: "gerr + 'a \<Rightarrow> ('a \<Rightarrow> gerr + 'b) \<Rightarrow> gerr + 'b" where
  "and_then r f = (case r of Inl e \<Rightarrow> Inl e | Inr x \<Rightarrow> f x)"

lemma and_then_simps [simp]: "and_then (Inr x) f = f x" "and_then (Inl e) f = Inl e"
  by (simp_all add: and_then_def)

definition dec_task_context :: "(string \<times> json) list \<Rightarrow> string \<Rightarrow> gerr + TaskContextSnapshot option" where
  "dec_task_context fs k = (case map_of fs k of None \<Rightarrow> Inr None | Some JNull \<Rightarrow> Inr None
     | Some (JObj gs) \<Rightarrow>
         and_then (dec_str gs ''task_id'') (\<lambda>tid. and_then (dec_str gs ''run_id'') (\<lambda>rid.
         and_then (dec_str gs ''status'') (\<lambda>st. and_then (dec_int gs ''progress'') (\<lambda>pr.
           Inr (Some \<lparr>tcsTaskID = tid, tcsRunID = rid, tcsStatus = st, tcsProgress = pr\<rparr>)))))
     | _ \<Rightarrow> Inl json_err)"

text \<open>\<open>None\<close> is the nil raw message.\<close>

definition ParseContextSnapshot :: "json option \<Rightarrow> gerr + ContextSnapshot option" where
  "ParseContextSnapshot data =
     (case data of
        None \<Rightarrow> Inr None
      | Some (JObj fs) \<Rightarrow>
          and_then (dec_str fs ''working_directory'') (\<lambda>wd.
          and_then (dec_str_map fs ''environment'') (\<lambda>env.
          and_then (dec_str fs ''conversation_id'') (\<lambda>conv.
          and_then (dec_time fs ''last_activity'') (\<lambda>la.
          and_then (dec_int fs ''version'') (\<lambda>ver.
          and_then (dec_str fs ''agent_version'') (\<lambda>av.
          and_then (dec_str_list fs ''pending_permissions'') (\<lambda>pp.
          and_then (dec_task_context fs ''task_context'') (\<lambda>tc.
            Inr (Some \<lparr>csWorkingDirectory = wd, csEnvironment = env, csConversationID = conv,
              csAgentState = map_of fs ''agent_state'', csLastActivity = la, csVersion = ver,
              csAgentVersion = av, csPendingPermissions = pp, csTaskContext = tc\<rparr>)))))))))
      | Some JNull \<Rightarrow> Inr (Some ((NewContextSnapshot 0)\<lparr>csEnvironment := None, csLastActivity := None, csVersion := 0\<rparr>))
      | Some _ \<Rightarrow> Inl json_err)"

definition IsCompatible :: "ContextSnapshot \<Rightarrow> string \<Rightarrow> bool" where
  "IsCompatible s agentVersion \<longleftrightarrow> csVersion s \<le> CurrentSnapshotVersion"

section \<open>Merge\<close>

fun map_put :: "string \<Rightarrow> string \<Rightarrow> (string \<times> string) list \<Rightarrow> (string \<times> string) list" where
  "map_put k v [] = [(k, v)]"
| "map_put k v ((k', v') # m) = (if k = k' then (k, v) # m else (k', v') # map_put k v m)"

text \<open>The loop over \<^verbatim>\<open>other.PendingPermissions\<close>, with the set \<^verbatim>\<open>seen\<close>.\<close>

fun add_unseen :: "string list \<Rightarrow> string set \<Rightarrow> string list \<Rightarrow> string list" where
  "add_unseen acc seen [] = acc"
| "add_unseen acc seen (x # xs) =
     (if x \<in> seen then add_unseen acc seen xs else add_unseen (acc @ [x]) (insert x seen) xs)"

text \<open>\<open>None\<close> is the panic of an assignment to an entry of the nil map.\<close>

definition merge_env ::
  "(string \<times> string) list option \<Rightarrow> (string \<times> string) list \<Rightarrow> (string \<times> string) list option option" where
  "merge_env env entries =
     (case env of
        None \<Rightarrow> if entries = [] then Some None else None
      | Some m \<Rightarrow> Some (Some (fold (\<lambda>(k, v) m. map_put k v m) entries m)))"

definition merge_scalars :: "ContextSnapshot \<Rightarrow> ContextSnapshot \<Rightarrow> ContextSnapshot" where
  "merge_scalars s x = s\<lparr>
     csWorkingDirectory := (if csWorkingDirectory x \<noteq> [] then csWorkingDirectory x
       else csWorkingDirectory s),
     csConversationID := (if csConversationID x \<noteq> [] then csConversationID x
       else csConversationID s),
     csAgentState := (if csAgentState x \<noteq> None then csAgentState x else csAgentState s),
     csAgentVersion := (if csAgentVersion x \<noteq> [] then csAgentVersion x else csAgentVersion s),
     csLastActivity := (if csLastActivity x \<noteq> None then csLastActivity x else csLastActivity s),
     csTaskContext := (if csTaskContext x \<noteq> None then csTaskContext x else csTaskContext s)\<rparr>"

definition Merge :: "ContextSnapshot \<Rightarrow> ContextSnapshot option \<Rightarrow> ContextSnapshot option" where
  "Merge s other = (case other of None \<Rightarrow> Some s | Some x \<Rightarrow>
     (case merge_env (csEnvironment s) (env_entries x) of
        None \<Rightarrow> None
      | Some env \<Rightarrow> Some ((merge_scalars s x)\<lparr>
          csEnvironment := env,
          csPendingPermissions := (if csPendingPermissions x \<noteq> []
            then add_unseen (csPendingPermissions s) (set (csPendingPermissions s)) (csPendingPermissions x)
            else csPendingPermissions s)\<rparr>)))"

section \<open>Laws\<close>

lemma dec_strs_map [simp]: "dec_strs (map JStr vs) = Inr vs"
  by (induction vs) auto

lemma map_of_field_str [simp]:
  "map_of (field_str k v) k' = (if k = k' \<and> v \<noteq> '''' then Some (JStr v) else None)"
  by (simp add: field_str_def)

lemma dec_task_context_json:
  "map_of fs k = Some (task_context_json t) \<Longrightarrow> dec_task_context fs k = Inr (Some t)"
  by (cases t) (simp add: dec_task_context_def task_context_json_def dec_str_def dec_int_def map_add_def
      split: option.splits)

text \<open>An empty environment map comes back as the nil map; nothing else changes.\<close>

definition stored_form :: "ContextSnapshot \<Rightarrow> ContextSnapshot" where
  "stored_form s = s\<lparr>csEnvironment := (if env_entries s = [] then None else csEnvironment s)\<rparr>"

lemma env_entries_stored [simp]: "env_entries (stored_form s) = env_entries s"
  by (simp add: stored_form_def env_entries_def split: option.splits)

lemma environment_roundtrip:
  assumes "map_of fs k = (if env_entries s = [] then None
       else Some (JObj (map (\<lambda>(k, v). (k, JStr v)) (env_entries s))))"
  shows "dec_str_map fs k = Inr (csEnvironment (stored_form s))"
proof -
  let ?e = "env_entries s"
  have "map snd (map (\<lambda>(k, v). (k, JStr v)) ?e) = map JStr (map snd ?e)"
    by (simp add: case_prod_unfold)
  moreover have "zip (map fst (map (\<lambda>(k, v). (k, JStr v)) ?e)) (map snd ?e) = ?e"
    by (simp add: case_prod_unfold zip_map_fst_snd comp_def)
  moreover have "?e \<noteq> [] \<Longrightarrow> csEnvironment s = Some ?e"
    by (auto simp: env_entries_def split: option.splits)
  ultimately show ?thesis
    using assms by (simp add: dec_str_map_def stored_form_def del: map_map split: if_splits)
qed

lemma snapshot_parsed: "ParseContextSnapshot (Some (ToJSON s)) = Inr (Some (stored_form s))"
proof -
  define fs where "fs = (case ToJSON s of JObj l \<Rightarrow> l | _ \<Rightarrow> [])"
  have js: "ToJSON s = JObj fs" by (simp add: fs_def ToJSON_def)
  have f: "map_of fs ''working_directory'' = (if csWorkingDirectory s = [] then None else Some (JStr (csWorkingDirectory s)))"
    "map_of fs ''environment'' = (if env_entries s = [] then None
       else Some (JObj (map (\<lambda>(k, v). (k, JStr v)) (env_entries s))))"
    "map_of fs ''conversation_id'' = (if csConversationID s = [] then None else Some (JStr (csConversationID s)))"
    "map_of fs ''agent_state'' = csAgentState s"
    "map_of fs ''last_activity'' = Some (json_time (csLastActivity s))"
    "map_of fs ''version'' = Some (JInt (csVersion s))"
    "map_of fs ''agent_version'' = (if csAgentVersion s = [] then None else Some (JStr (csAgentVersion s)))"
    "map_of fs ''pending_permissions'' = (if csPendingPermissions s = [] then None
       else Some (JArr (map JStr (csPendingPermissions s))))"
    "map_of fs ''task_context'' = map_option task_context_json (csTaskContext s)"
    unfolding fs_def ToJSON_def by (simp_all add: map_add_def split: option.splits)
  have tc: "dec_task_context fs ''task_context'' = Inr (csTaskContext s)"
    using f(9) by (cases "csTaskContext s") (simp_all add: dec_task_context_json, simp add: dec_task_context_def)
  have "dec_str fs ''working_directory'' = Inr (csWorkingDirectory s)"
    "dec_str fs ''conversation_id'' = Inr (csConversationID s)"
    "dec_time fs ''last_activity'' = Inr (csLastActivity s)" "dec_int fs ''version'' = Inr (csVersion s)"
    "dec_str fs ''agent_version'' = Inr (csAgentVersion s)"
    "dec_str_list fs ''pending_permissions'' = Inr (csPendingPermissions s)"
    by (simp_all add: dec_str_def dec_time_def dec_int_def dec_str_list_def f json_time_def zero_time_def
        split: option.splits)
  with environment_roundtrip [OF f(2)] tc f(4) show ?thesis
    by (simp add: ParseContextSnapshot_def js stored_form_def)
qed

text \<open>
  C11. A snapshot survives the database: parsing what \<open>ToJSON\<close> wrote gives back the same snapshot,
  omitted empty fields included, except that an empty environment map comes back nil.
\<close>

theorem snapshot_roundtrip:
  "ParseContextSnapshot (Some (ToJSON s)) =
     Inr (Some (if csEnvironment s = Some [] then s\<lparr>csEnvironment := None\<rparr> else s))"
  by (cases "csEnvironment s") (auto simp: snapshot_parsed stored_form_def env_entries_def)

lemma add_unseen_spec:
  assumes "distinct acc" and "seen = set acc"
  shows "distinct (add_unseen acc seen xs) \<and> set (add_unseen acc seen xs) = set acc \<union> set xs \<and>
    take (length acc) (add_unseen acc seen xs) = acc"
  using assms
proof (induction xs arbitrary: acc seen)
  case (Cons x xs)
  show ?case
  proof (cases "x \<in> seen")
    case False
    with Cons.IH [of "acc @ [x]" "insert x seen"] Cons.prems show ?thesis
      by (auto dest: arg_cong [where f = "take (length acc)"])
  qed (use Cons in auto)
qed simp

lemma map_of_map_put: "map_of (map_put k v m) = (map_of m)(k \<mapsto> v)"
  by (induction m) auto

lemma map_of_fold_put:
  "map_of (fold (\<lambda>(k, v) m. map_put k v m) kvs m) = map_of m ++ map_of (rev kvs)"
  by (induction kvs arbitrary: m) (auto simp: map_of_map_put map_add_def fun_eq_iff split: option.splits)

text \<open>
  Merging, when the receiver's environment is a real map: it does not panic, the environment
  is overridden entry by entry, and the pending permissions are the union without duplicates, the
  receiver's own first and in their order.
\<close>

theorem merge_unions_permissions:
  assumes "csEnvironment s = Some m" and "distinct (csPendingPermissions s)"
  shows "\<exists>s' m'. Merge s (Some x) = Some s' \<and> csEnvironment s' = Some m' \<and>
     map_of m' = map_of m ++ map_of (rev (env_entries x)) \<and>
     distinct (csPendingPermissions s') \<and>
     set (csPendingPermissions s') = set (csPendingPermissions s) \<union> set (csPendingPermissions x) \<and>
     take (length (csPendingPermissions s)) (csPendingPermissions s') = csPendingPermissions s"
  using assms add_unseen_spec [of "csPendingPermissions s"]
  by (auto simp: Merge_def merge_env_def map_of_fold_put)

text \<open>
  A snapshot saved with no environment and read back cannot be merged with one that has an
  environment: the parsed map is nil and the assignment panics.
\<close>

theorem merge_after_reload_panics:
  assumes "env_entries s = []" and "ParseContextSnapshot (Some (ToJSON s)) = Inr (Some s')"
    and "env_entries x \<noteq> []"
  shows "Merge s' (Some x) = None"
proof -
  have "s' = stored_form s" using assms(2) snapshot_parsed by simp
  then have "csEnvironment s' = None" using assms(1) by (simp add: stored_form_def)
  with assms(3) show ?thesis by (simp add: Merge_def merge_env_def)
qed

end
