(* ===== verification/Session_Manager.thy ===== *)
theory Session_Manager
  imports Context_Snapshot
begin

text \<open>
  \<^verbatim>\<open>pkg/server/core/session_manager.go\<close>: creating, activating, suspending, resuming and terminating
  sessions, choosing a runner for one, and the commands sent to the runner, with the parts of
  \<^verbatim>\<open>workspace_manager.go\<close> it calls. Work handed to the background pool is recorded as a job; the
  jobs are run in \<open>Jobs\<close>. The automatic spawn of a runner (\<^verbatim>\<open>autospawn.go\<close>) is the argument
  \<open>autoSpawn\<close> of the functions that reach it, and the managed resume through the provisioner is the
  argument \<open>resumeManaged\<close> of \<open>requestRunnerForResume\<close>.
\<close>

section \<open>Profiles and sizes\<close>

text \<open>\<^verbatim>\<open>parseSize\<close>: the leading digits, the rest, and the wrap-around of a 64 bit \<^verbatim>\<open>int\<close>.\<close>

definition is_digit :: "char \<Rightarrow> bool" where
  "is_digit ch \<longleftrightarrow> of_char ch \<ge> (48 :: int) \<and> of_char ch \<le> (57 :: int)"

definition digits_value :: "string \<Rightarrow> int" where
  "digits_value ds = foldl (\<lambda>n ch. int64 (n * 10 + (of_char ch - 48))) 0 ds"

definition parseSize :: "string \<Rightarrow> (int \<times> string) option" where
  "parseSize s = (let ds = takeWhile is_digit s in
     if ds = [] then None else Some (digits_value ds, dropWhile is_digit s))"

definition parseMemorySize :: "string \<Rightarrow> int" where
  "parseMemorySize s =
     (if s = '''' then 0
      else case parseSize s of
        None \<Rightarrow> 0
      | Some (num, unit) \<Rightarrow>
          if unit \<in> {''GB'', ''G'', ''gb'', ''g''} then int64 (num * 1024)
          else if unit \<in> {''MB'', ''M'', ''mb'', ''m''} then num
          else if unit \<in> {''TB'', ''T'', ''tb'', ''t''} then int64 (num * 1024 * 1024)
          else num)"

record ProfileSelector =
  selOS :: string
  selArch :: string
  selCapabilities :: "string list"

definition parseProfileSelector :: "json option \<Rightarrow> gerr + ProfileSelector option" where
  "parseProfileSelector data =
     (case data of
        None \<Rightarrow> Inr None
      | Some (JObj fs) \<Rightarrow>
          if fs = [] then Inr None
          else and_then (dec_str fs ''os'') (\<lambda>os. and_then (dec_str fs ''arch'') (\<lambda>arch.
            and_then (dec_str_list fs ''capabilities'') (\<lambda>caps.
              Inr (Some \<lparr>selOS = os, selArch = arch, selCapabilities = caps\<rparr>))))
      | Some JNull \<Rightarrow> Inr (Some \<lparr>selOS = '''', selArch = '''', selCapabilities = []\<rparr>)
      | Some _ \<Rightarrow> Inl json_err)"

definition profileSelector :: "Profile option \<Rightarrow> ProfileSelector option" where
  "profileSelector profile =
     (case profile of None \<Rightarrow> None
      | Some p \<Rightarrow> (case parseProfileSelector (pfSelector p) of Inl _ \<Rightarrow> None | Inr sel \<Rightarrow> sel))"

definition selector_labels :: "ProfileSelector \<Rightarrow> (string \<times> string) list" where
  "selector_labels sel = (if selOS sel \<noteq> '''' then [(''os'', selOS sel)] else []) @
     (if selArch sel \<noteq> '''' then [(''arch'', selArch sel)] else [])"

definition hasAllCapabilities :: "string list \<Rightarrow> string list \<Rightarrow> bool" where
  "hasAllCapabilities have want = (if want = [] then True else list_all (\<lambda>c. c \<in> set have) want)"

section \<open>Status transitions\<close>

definition isValidSessionTransition :: "string \<Rightarrow> string \<Rightarrow> bool" where
  "isValidSessionTransition from to =
     (if to = SessionStatusTerminated \<and> from \<noteq> SessionStatusTerminated then True
      else if from = SessionStatusPending then to = SessionStatusActive
      else if from = SessionStatusActive
        then to = SessionStatusSuspended \<or> to = SessionStatusTerminated
      else if from = SessionStatusSuspended
        then to = SessionStatusResuming \<or> to = SessionStatusTerminated
      else if from = SessionStatusResuming
        then to = SessionStatusActive \<or> to = SessionStatusSuspended
      else False)"

section \<open>Helpers: claims, wakes, workspaces\<close>

definition sm_claimRunner :: "ctx \<Rightarrow> string \<Rightarrow> string \<Rightarrow> bool M" where
  "sm_claimRunner c runnerID sessionID = do {
     r \<leftarrow> ClaimRunner c runnerID sessionID DefaultRunnerClaimLease;
     ret (case r of Inl _ \<Rightarrow> False | Inr won \<Rightarrow> won)
   }"

definition sm_releaseRunnerClaim :: "ctx \<Rightarrow> string \<Rightarrow> string \<Rightarrow> unit M" where
  "sm_releaseRunnerClaim c runnerID sessionID =
     (if runnerID = '''' then ret () else ignore_err (ReleaseRunnerClaim c runnerID sessionID))"

text \<open>\<^verbatim>\<open>defer m.releaseRunnerClaim(...)\<close>: released on every path out of the body.\<close>

definition defer_release :: "ctx \<Rightarrow> string \<Rightarrow> string \<Rightarrow> 'a M \<Rightarrow> 'a M" where
  "defer_release c runnerID sessionID body = do {
     r \<leftarrow> body;
     _ \<leftarrow> sm_releaseRunnerClaim c runnerID sessionID;
     ret r
   }"

definition sm_wake :: "unit M" where
  "sm_wake = do { cfg \<leftarrow> asks e_cfg; (if cfgWaker cfg then emit (Wake ''runner_freed'') else ret ()) }"

definition webhook_session :: "ctx \<Rightarrow> string \<Rightarrow> string \<Rightarrow> unit M" where
  "webhook_session c event sessionID = do {
     cfg \<leftarrow> asks e_cfg;
     (if cfgWebhooks cfg then do {
        s \<leftarrow> GetSession c sessionID;
        (case s of Inl _ \<Rightarrow> ret () | Inr _ \<Rightarrow> emit (Webhook event sessionID))
      } else ret ())
   }"

text \<open>\<^verbatim>\<open>filepath.Join\<close> of a clean base directory and an id without separators.\<close>

definition GetHostPath :: "string \<Rightarrow> string M" where
  "GetHostPath workspaceID = do {
     base \<leftarrow> asks e_base_dir;
     ret (if base = '''' then workspaceID else base @ ''/'' @ workspaceID)
   }"

definition ws_Get :: "ctx \<Rightarrow> string \<Rightarrow> Workspace G" where
  "ws_Get c workspaceID =
     guard_ok (map_err (not_found_as ErrWorkspaceNotFound) (GetWorkspace c workspaceID)) (\<lambda>ws.
       if wsDeletedAt ws \<noteq> None then err ErrWorkspaceDeleted else ok ws)"

definition EnsureHostDirectory :: "string \<Rightarrow> string G" where
  "EnsureHostDirectory workspaceID = do {
     hostPath \<leftarrow> GetHostPath workspaceID;
     guard_ok os_call (\<lambda>_. ok hostPath)
   }"

definition ws_CleanupHostDirectory :: "string \<Rightarrow> unit G" where
  "ws_CleanupHostDirectory workspaceID = do {
     _ \<leftarrow> GetHostPath workspaceID;
     guard_ok os_call (\<lambda>_. do { _ \<leftarrow> emit (CleanupHostDirectory workspaceID); ok () })
   }"

definition IsInUse :: "ctx \<Rightarrow> string \<Rightarrow> bool G" where
  "IsInUse c workspaceID =
     guard_ok (ListSessions c (list_all_sessions\<lparr>
         lsoBase := default_opts\<lparr>loLimit := 1\<rparr>,
         lsoWorkspaceID := Some workspaceID,
         lsoStatus := [SessionStatusPending, SessionStatusActive, SessionStatusSuspended,
           SessionStatusResuming]\<rparr>))
       (\<lambda>result. ok (lrItems result \<noteq> []))"

section \<open>Create and read\<close>

record CreateSessionOptions =
  coName :: "string option"
  coWorkspaceID :: string
  coAgent :: string
  coIsBYOK :: bool
  coAgentConfigID :: "string option"
  coProfileID :: "string option"
  coLifecycleMode :: string
  coIdleTimeout :: "int option"
  coNetworkPolicy :: string
  coAllowedHosts :: "string list"
  coScheduleCron :: "string option"
  coScheduleTZ :: "string option"
  coTenantID :: "string option"
  coLabels :: "(string \<times> string) list option"
  coAnnotations :: "(string \<times> string) list option"

text \<open>\<^verbatim>\<open>json.Marshal\<close> of a \<^verbatim>\<open>map[string]string\<close>; the nil map is \<^verbatim>\<open>null\<close>.\<close>

definition json_of_map :: "(string \<times> string) list option \<Rightarrow> json" where
  "json_of_map m = (case m of None \<Rightarrow> JNull | Some kvs \<Rightarrow> JObj (map (\<lambda>(k, v). (k, JStr v)) kvs))"

definition new_session :: "string \<Rightarrow> int \<Rightarrow> CreateSessionOptions \<Rightarrow> string option \<Rightarrow> Session" where
  "new_session sid now opts tenantID =
    \<lparr>sID = sid, sName = coName opts, sStatus = SessionStatusPending, sRunnerID = None,
     sWorkspaceID = coWorkspaceID opts, sProfileID = coProfileID opts, sAgent = coAgent opts,
     sIsBYOK = coIsBYOK opts, sAgentConfigID = coAgentConfigID opts, sAgentConfigMetadata = None,
     sContextSnapshot = None, sAgentVersion = None, sSuspendStrategy = None,
     sSuspendSnapshotID = None, sSuspendWorkspaceSynced = None, sWorkspaceManifestID = None,
     sPreviousRunnerID = None,
     sNetworkPolicy = (if coNetworkPolicy opts = '''' then ''allow_list'' else coNetworkPolicy opts),
     sAllowedHosts = coAllowedHosts opts,
     sLifecycleMode = (if coLifecycleMode opts = '''' then ''on_demand'' else coLifecycleMode opts),
     sIdleTimeoutSeconds = coIdleTimeout opts, sMaxLifetimeSeconds = None,
     sScheduleCron = coScheduleCron opts, sScheduleTimezone = coScheduleTZ opts,
     sNextScheduledAt = None, sTenantID = tenantID, sLabels = json_of_map (coLabels opts),
     sAnnotations = json_of_map (coAnnotations opts), sLastActivityAt = None, sSuspendedAt = None,
     sResumedAt = None, sCreatedAt = now, sUpdatedAt = now\<rparr>"

definition sm_Create :: "ctx \<Rightarrow> CreateSessionOptions \<Rightarrow> Session G" where
  "sm_Create c opts =
     (if coWorkspaceID opts = '''' then err ErrWorkspaceRequired
      else if coAgent opts = '''' then err ErrAgentRequired
      else guard_ok (map_err (not_found_as ErrWorkspaceNotFound) (GetWorkspace c (coWorkspaceID opts)))
        (\<lambda>workspace.
          case tenantFor c (coTenantID opts) of
            Inl e \<Rightarrow> err e
          | Inr tenantID \<Rightarrow>
              (case requireSameTenant tenantID (wsTenantID workspace) of
                 Inl e \<Rightarrow> err e
               | Inr _ \<Rightarrow>
                   if coLifecycleMode opts = ''scheduled'' \<and> \<not> nonempty (coScheduleCron opts)
                   then err ErrScheduleCronRequired
                   else do {
                     sid \<leftarrow> new_id;
                     now \<leftarrow> Now;
                     guard_ok (CreateSession c (new_session sid now opts tenantID)) (\<lambda>session. do {
                       _ \<leftarrow> emit_audit ''session.created'' (sID session);
                       _ \<leftarrow> emit_webhook ''session.created'' (sID session);
                       ok session
                     })
                   })))"

definition sm_Get :: "ctx \<Rightarrow> string \<Rightarrow> Session G" where
  "sm_Get c sessionID = map_err (not_found_as ErrSessionNotFound) (GetSession c sessionID)"

section \<open>Suspend\<close>

record SuspendOptions =
  soStrategy :: string
  soContextSnapshot :: "ContextSnapshot option"
  soWorkspaceSynced :: bool
  soSnapshotID :: string
  soKeepRunner :: bool

definition suspend_opts :: "string \<Rightarrow> SuspendOptions" where
  "suspend_opts strategy = \<lparr>soStrategy = strategy, soContextSnapshot = None,
     soWorkspaceSynced = False, soSnapshotID = [], soKeepRunner = False\<rparr>"

definition sendDetachSession :: "Session \<Rightarrow> SuspendOptions \<Rightarrow> unit M" where
  "sendDetachSession session opts = do {
     cfg \<leftarrow> asks e_cfg;
     (if \<not> cfgCmdSender cfg then ret ()
      else case sRunnerID session of
        None \<Rightarrow> ret ()
      | Some runnerID \<Rightarrow>
          if runnerID = [] then ret ()
          else ignore_err (SendCommand runnerID
            (DetachSession (sID session) (soStrategy opts) (soWorkspaceSynced opts)
              (soSnapshotID opts \<noteq> []))))
   }"

definition runnerInstanceID :: "Runner \<Rightarrow> string" where
  "runnerInstanceID runner = stringValue (rProviderInstanceID runner)"

text \<open>No provider for a runner without a provider config; an unknown name is an error.\<close>

definition registry_Get :: "string \<Rightarrow> Provider G" where
  "registry_Get name = do {
     f \<leftarrow> asks e_provider;
     (case f name of None \<Rightarrow> err (ErrProvider name) | Some p \<Rightarrow> ok p)
   }"

definition providerForRunner :: "ctx \<Rightarrow> string \<Rightarrow> (Provider option \<times> Runner) G" where
  "providerForRunner c runnerID =
     guard_ok (GetRunner c runnerID) (\<lambda>runner.
       if \<not> nonempty (rProviderConfigID runner) then ok (None, runner)
       else guard_ok (GetProviderConfig c (stringValue (rProviderConfigID runner))) (\<lambda>provConfig.
         guard_ok (registry_Get (pcName provConfig)) (\<lambda>prov. ok (Some prov, runner))))"

definition workspaceSurvivesRunner :: "ctx \<Rightarrow> string \<Rightarrow> bool M" where
  "workspaceSurvivesRunner c sessionID = do {
     cfg \<leftarrow> asks e_cfg;
     (if \<not> cfgWorkspaceManager cfg then ret False
      else do {
        s \<leftarrow> GetSession c sessionID;
        (case s of
           Inl _ \<Rightarrow> ret False
         | Inr session \<Rightarrow> do {
             w \<leftarrow> ws_Get c (sWorkspaceID session);
             (case w of
                Inl _ \<Rightarrow> ret False
              | Inr ws \<Rightarrow>
                  if \<not> wsPersist ws then ret True
                  else if wsMobility ws = ''shared'' \<or> wsMobility ws = ''object_sync'' then ret True
                  else do {
                    hostPath \<leftarrow> GetHostPath (sWorkspaceID session);
                    ret (hostPath \<noteq> [])
                  })
           })
      })
   }"

definition suspend_result :: "string \<Rightarrow> SuspendResult" where
  "suspend_result strategy = \<lparr>srStrategy = strategy, srSnapshotID = [], srWorkspaceSynced = False\<rparr>"

definition applySuspendStrategy ::
  "ctx \<Rightarrow> Provider \<Rightarrow> string \<Rightarrow> string \<Rightarrow> string \<Rightarrow> string \<Rightarrow> SuspendResult G" where
  "applySuspendStrategy c prov sessionID runnerID instanceID strategy =
     (if pvType prov = ProviderTypeExternal then ok (suspend_result strategy)
      else if pvPoolAcquirer prov then
        guard_ok (provider_call (ProviderRelease (pvName prov) runnerID)) (\<lambda>_.
          ok (suspend_result ''release_to_pool''))
      else if pvSuspendable prov then
        guard_ok (provider_call (ProviderSuspend (pvName prov) runnerID strategy)) (\<lambda>t. do {
          f \<leftarrow> asks e_suspend; ok (f t) })
      else if pvPausable prov \<and> strategy = ''pause'' then
        guard_ok (provider_call (ProviderPause (pvName prov) runnerID)) (\<lambda>_.
          ok (suspend_result ''pause''))
      else do {
        survives \<leftarrow> workspaceSurvivesRunner c sessionID;
        (if \<not> survives then err ErrWorkspaceWouldNotSurvive
         else guard_ok (provider_call (ProviderDestroy (pvName prov) runnerID)) (\<lambda>_.
           ok (suspend_result ''terminate'')))
      })"

definition recordSuspendResult :: "ctx \<Rightarrow> string \<Rightarrow> string \<Rightarrow> SuspendResult \<Rightarrow> unit M" where
  "recordSuspendResult c sessionID runnerID result = do {
     _ \<leftarrow> ignore_err (UpdateSession c sessionID (no_session_updates\<lparr>
       suSuspendStrategy := Some (srStrategy result),
       suSuspendSnapshotID := (if srSnapshotID result \<noteq> [] then Some (srSnapshotID result) else None),
       suSuspendWorkspaceSynced := (if srWorkspaceSynced result then Some True else None)\<rparr>));
     ignore_err (UpdateRunner c runnerID (no_runner_updates\<lparr>
       ruStatus := Some (if srStrategy result = ''pause'' then StatusPaused else StatusOffline)\<rparr>))
   }"

definition releaseRunner :: "ctx \<Rightarrow> string \<Rightarrow> string option \<Rightarrow> SuspendOptions \<Rightarrow> unit M" where
  "releaseRunner c sessionID runnerID opts = do {
     cfg \<leftarrow> asks e_cfg;
     (if \<not> nonempty runnerID then ret ()
      else if \<not> cfgProviderRegistry cfg then ret ()
      else do {
        p \<leftarrow> providerForRunner c (stringValue runnerID);
        (case p of
           Inl _ \<Rightarrow> ret ()
         | Inr (None, _) \<Rightarrow> ret ()
         | Inr (Some prov, runner) \<Rightarrow> do {
             a \<leftarrow> applySuspendStrategy c prov sessionID (stringValue runnerID)
                   (runnerInstanceID runner) (soStrategy opts);
             (case a of
                Inl _ \<Rightarrow> ret ()
              | Inr actual \<Rightarrow> recordSuspendResult c sessionID (stringValue runnerID) actual)
           })
      })
   }"

definition running_tasks_opts :: "string \<Rightarrow> ListTasksOptions" where
  "running_tasks_opts sessionID =
     \<lparr>ltoBase = default_opts, ltoSessionID = Some sessionID, ltoStatus = [TaskStatusRunning]\<rparr>"

definition suspend_updates ::
  "SuspendOptions \<Rightarrow> string option \<Rightarrow> json \<Rightarrow> int \<Rightarrow> SessionUpdates" where
  "suspend_updates opts previousRunnerID snapshotJSON now = no_session_updates\<lparr>
     suStatus := Some SessionStatusSuspended,
     suRunnerID := Some [],
     suSuspendedAt := Some now,
     suSuspendStrategy := Some (soStrategy opts),
     suPreviousRunnerID := previousRunnerID,
     suContextSnapshot := Some snapshotJSON,
     suSuspendWorkspaceSynced := Some (soWorkspaceSynced opts),
     suSuspendSnapshotID := (if soSnapshotID opts \<noteq> [] then Some (soSnapshotID opts) else None)\<rparr>"

definition SuspendWithOptions :: "ctx \<Rightarrow> string \<Rightarrow> SuspendOptions \<Rightarrow> unit G" where
  "SuspendWithOptions c sessionID opts =
     guard_ok (map_err (not_found_as ErrSessionNotFound) (GetSession c sessionID)) (\<lambda>session.
       if \<not> isValidSessionTransition (sStatus session) SessionStatusSuspended
       then err ErrInvalidSessionTransition
       else do {
         ts \<leftarrow> ListTasks c (running_tasks_opts sessionID);
         now0 \<leftarrow> Now;
         let hasRunningTask = (case ts of Inl _ \<Rightarrow> False | Inr res \<Rightarrow> lrItems res \<noteq> []);
         let snapshotJSON =
           (if hasRunningTask then ToJSON (NewContextSnapshot now0)
            else case soContextSnapshot opts of
              Some snap \<Rightarrow> ToJSON snap
            | None \<Rightarrow> ToJSON (NewContextSnapshot now0));
         now \<leftarrow> Now;
         guard_ok (WithTx (UpdateSession c sessionID
             (suspend_updates opts (sRunnerID session) snapshotJSON now))) (\<lambda>_. do {
           _ \<leftarrow> sendDetachSession session opts;
           _ \<leftarrow> (if soKeepRunner opts then ret ()
                 else do {
                   _ \<leftarrow> releaseRunner c sessionID (sRunnerID session) opts;
                   (if nonempty (sRunnerID session) then sm_wake else ret ())
                 });
           _ \<leftarrow> emit_audit ''session.suspended'' sessionID;
           _ \<leftarrow> webhook_session c ''session.suspended'' sessionID;
           ok ()
         })
       })"

definition Suspend :: "ctx \<Rightarrow> string \<Rightarrow> string \<Rightarrow> unit G" where
  "Suspend c sessionID strategy = SuspendWithOptions c sessionID (suspend_opts strategy)"

text \<open>The first error of the loop, after all sessions were tried.\<close>

fun detach_each :: "ctx \<Rightarrow> string \<Rightarrow> Session list \<Rightarrow> gerr option M" where
  "detach_each c exceptSessionID [] = ret None"
| "detach_each c exceptSessionID (session # rest) =
     (if sID session = exceptSessionID then detach_each c exceptSessionID rest
      else do {
        r \<leftarrow> SuspendWithOptions c (sID session)
              ((suspend_opts ''release_to_pool'')\<lparr>soKeepRunner := True\<rparr>);
        later \<leftarrow> detach_each c exceptSessionID rest;
        ret (case r of Inl e \<Rightarrow> Some e | Inr _ \<Rightarrow> later)
      })"

definition active_on_opts :: "string \<Rightarrow> ListSessionsOptions" where
  "active_on_opts runnerID = list_all_sessions\<lparr>
     lsoRunnerID := Some runnerID, lsoStatus := [SessionStatusActive]\<rparr>"

definition detachSessionsFromRunner :: "ctx \<Rightarrow> string \<Rightarrow> string \<Rightarrow> unit G" where
  "detachSessionsFromRunner c runnerID exceptSessionID =
     guard_ok (ListSessions c (active_on_opts runnerID)) (\<lambda>ss. do {
       e \<leftarrow> detach_each c exceptSessionID (lrItems ss);
       (case e of Some e \<Rightarrow> err e | None \<Rightarrow> ok ())
     })"

section \<open>Attach\<close>

definition pending_response :: "PermissionRequest \<Rightarrow> PendingPermissionResponse" where
  "pending_response p =
    \<lparr>pprRequestId = pID p, pprApproved = (pStatus p = PermissionStatusApproved),
     pprReason = stringValue (pResponseReason p), pprRespondedBy = stringValue (pRespondedBy p),
     pprRespondedAt = (case pRespondedAt p of None \<Rightarrow> 0 | Some t \<Rightarrow> t div 1000000),
     pprTool = pTool p, pprAction = pAction p, pprTaskId = pTaskID p\<rparr>"

definition answered_opts :: "string \<Rightarrow> ListPermissionRequestsOptions" where
  "answered_opts sessionID =
    \<lparr>lpoBase = default_opts, lpoSessionID = Some sessionID, lpoTaskID = None, lpoRunID = None,
     lpoStatus = [PermissionStatusApproved, PermissionStatusDenied], lpoRiskLevel = []\<rparr>"

definition undeliveredPermissions ::
  "ctx \<Rightarrow> string \<Rightarrow> (PendingPermissionResponse list \<times> string list) M" where
  "undeliveredPermissions c sessionID = do {
     perms \<leftarrow> ListPermissionRequests c (answered_opts sessionID);
     (case perms of
        Inl _ \<Rightarrow> ret ([], [])
      | Inr res \<Rightarrow>
          let todo = filter (\<lambda>p. \<not> (pRespondedAt p = None \<or> pDeliveredAt p \<noteq> None)) (lrItems res)
          in ret (map pending_response todo, map pID todo))
   }"

definition markPermissionsDelivered :: "ctx \<Rightarrow> string list \<Rightarrow> unit M" where
  "markPermissionsDelivered c permIDs = do {
     now \<leftarrow> Now;
     for_each (\<lambda>permID. ignore_err (UpdatePermissionRequest c permID
       (no_permission_updates\<lparr>puDeliveredAt := Some now\<rparr>))) permIDs
   }"

text \<open>The agent configuration of a session that does not bring its own key.\<close>

definition agent_config_of :: "ctx \<Rightarrow> Session \<Rightarrow> (string \<times> string \<times> string) M" where
  "agent_config_of c session =
     (if \<not> sIsBYOK session \<and> sAgentConfigID session \<noteq> None then do {
        r \<leftarrow> GetAgentConfig c (stringValue (sAgentConfigID session));
        ret (case r of
               Inl _ \<Rightarrow> (sAgent session, [], [])
             | Inr cfg \<Rightarrow> (acAgent cfg, stringValue (acModel cfg), stringValue (acBaseURL cfg)))
      } else ret (sAgent session, [], []))"

definition workspace_path_for :: "Runner option \<Rightarrow> Workspace \<Rightarrow> string \<Rightarrow> string M" where
  "workspace_path_for runner workspace workspaceID = do {
     cfg \<leftarrow> asks e_cfg;
     (if cfgWorkspaceManager cfg then do {
        hostPath \<leftarrow> GetHostPath workspaceID;
        ret (if hostPath = [] then wsName workspace
             else case runner of
               Some r \<Rightarrow> if rSandboxMode r = ''runner-is-sandbox'' then ''/workspace'' else hostPath
             | None \<Rightarrow> hostPath)
      } else ret (wsName workspace))
   }"

definition sendAttachSession :: "ctx \<Rightarrow> Session \<Rightarrow> string \<Rightarrow> unit G" where
  "sendAttachSession c session runnerID = do {
     cfg \<leftarrow> asks e_cfg;
     (if \<not> cfgCmdSender cfg then ok ()
      else do {
        r \<leftarrow> GetRunner c runnerID;
        let runner = (case r of Inl _ \<Rightarrow> None | Inr x \<Rightarrow> Some x);
        guard_ok (GetWorkspace c (sWorkspaceID session)) (\<lambda>workspace. do {
          path \<leftarrow> workspace_path_for runner workspace (sWorkspaceID session);
          ac \<leftarrow> agent_config_of c session;
          pu \<leftarrow> undeliveredPermissions c (sID session);
          guard_ok (SendCommand runnerID
              (AttachSession (sID session) path (wsID workspace) (stringValue (wsTenantID workspace))
                (stringValue (sWorkspaceManifestID session)) (sContextSnapshot session)
                (fst ac) (fst (snd ac)) (snd (snd ac)) (fst pu))) (\<lambda>_. do {
            _ \<leftarrow> markPermissionsDelivered c (snd pu);
            ok ()
          })
        })
      })
   }"

section \<open>Activate\<close>

definition activate_updates :: "Session \<Rightarrow> string \<Rightarrow> int \<Rightarrow> SessionUpdates" where
  "activate_updates session runnerID now = no_session_updates\<lparr>
     suStatus := Some SessionStatusActive,
     suRunnerID := Some runnerID,
     suLastActivityAt := Some now,
     suResumedAt := (if sStatus session = SessionStatusResuming then Some now else None)\<rparr>"

definition isResumeToSameRunner :: "Session \<Rightarrow> string \<Rightarrow> bool" where
  "isResumeToSameRunner session runnerID \<longleftrightarrow>
     sStatus session = SessionStatusResuming \<and> sPreviousRunnerID session = Some runnerID"

text \<open>What follows the commit: the attach, the webhook, the background job.\<close>

definition after_activation :: "ctx \<Rightarrow> Session \<Rightarrow> string \<Rightarrow> string \<Rightarrow> unit G" where
  "after_activation c session sessionID runnerID = do {
     _ \<leftarrow> ignore_err (sendAttachSession c session runnerID);
     (if sStatus session = SessionStatusResuming then do {
        _ \<leftarrow> webhook_session c ''session.resumed'' sessionID;
        _ \<leftarrow> background_Go (JobSessionReexecute sessionID runnerID);
        ok ()
      } else do {
        _ \<leftarrow> background_Go (JobSessionDispatch sessionID);
        ok ()
      })
   }"

definition Activate :: "ctx \<Rightarrow> string \<Rightarrow> string \<Rightarrow> unit G" where
  "Activate c sessionID runnerID =
     guard_ok (map_err (not_found_as ErrSessionNotFound) (GetSession c sessionID)) (\<lambda>session.
       if \<not> isValidSessionTransition (sStatus session) SessionStatusActive
       then err ErrInvalidSessionTransition
       else guard_ok (GetRunner c runnerID) (\<lambda>runner.
         if rStatus runner \<noteq> StatusIdle \<and> \<not> isResumeToSameRunner session runnerID
         then err ErrRunnerNotIdle
         else case requireSameTenant (sTenantID session) (rTenantID runner) of
           Inl e \<Rightarrow> err e
         | Inr _ \<Rightarrow> do {
             won \<leftarrow> sm_claimRunner c runnerID sessionID;
             (if \<not> won then err ErrRunnerNotIdle
              else defer_release c runnerID sessionID
                (guard_ok (detachSessionsFromRunner c runnerID sessionID) (\<lambda>_. do {
                  now \<leftarrow> Now;
                  guard_ok (map_err (\<lambda>e. if is_already_exists e \<or> e = ErrConflict then ErrRunnerNotIdle else e)
                      (WithTx (UpdateSession c sessionID (activate_updates session runnerID now)))) (\<lambda>_.
                    after_activation c session sessionID runnerID)
                })))
           }))"

section \<open>Attach, detach, terminate\<close>

definition AttachRunner :: "ctx \<Rightarrow> string \<Rightarrow> string \<Rightarrow> unit G" where
  "AttachRunner c sessionID runnerID =
     guard_ok (map_err (not_found_as ErrSessionNotFound) (GetSession c sessionID)) (\<lambda>session.
       if nonempty (sRunnerID session) then err ErrSessionAlreadyHasRunner
       else if sStatus session \<noteq> SessionStatusPending \<and> sStatus session \<noteq> SessionStatusResuming
       then err ErrInvalidSessionTransition
       else guard_ok (GetRunner c runnerID) (\<lambda>runner.
         if rStatus runner \<noteq> StatusIdle \<and> \<not> isResumeToSameRunner session runnerID
         then err ErrRunnerNotIdle
         else do {
           cfg \<leftarrow> asks e_cfg;
           guard_ok (if cfgWorkspaceManager cfg
               then EnsureHostDirectory (sWorkspaceID session) else ok []) (\<lambda>_.
             Activate c sessionID runnerID)
         }))"

definition DetachRunner :: "ctx \<Rightarrow> string \<Rightarrow> unit G" where
  "DetachRunner c sessionID =
     guard_ok (map_err (not_found_as ErrSessionNotFound) (GetSession c sessionID)) (\<lambda>session.
       if \<not> nonempty (sRunnerID session) then err ErrSessionNoRunner
       else guard_ok (UpdateSession c sessionID (no_session_updates\<lparr>
           suRunnerID := Some [], suPreviousRunnerID := sRunnerID session\<rparr>)) (\<lambda>_. do {
         _ \<leftarrow> sm_wake;
         ok ()
       }))"

definition cleanupWorkspaceIfUnused :: "ctx \<Rightarrow> string \<Rightarrow> unit M" where
  "cleanupWorkspaceIfUnused c workspaceID = do {
     r \<leftarrow> IsInUse c workspaceID;
     (case r of
        Inl _ \<Rightarrow> ret ()
      | Inr inUse \<Rightarrow> if inUse then ret () else ignore_err (ws_CleanupHostDirectory workspaceID))
   }"

definition terminate_updates :: "Session \<Rightarrow> SessionUpdates" where
  "terminate_updates session = no_session_updates\<lparr>
     suStatus := Some SessionStatusTerminated, suRunnerID := Some [],
     suPreviousRunnerID := sRunnerID session\<rparr>"

definition Terminate :: "ctx \<Rightarrow> string \<Rightarrow> unit G" where
  "Terminate c sessionID =
     guard_ok (map_err (not_found_as ErrSessionNotFound) (GetSession c sessionID)) (\<lambda>session.
       if sStatus session = SessionStatusTerminated then err ErrSessionAlreadyTerminated
       else guard_ok (UpdateSession c sessionID (terminate_updates session)) (\<lambda>_. do {
         _ \<leftarrow> emit_audit ''session.terminated'' sessionID;
         _ \<leftarrow> webhook_session c ''session.terminated'' sessionID;
         cfg \<leftarrow> asks e_cfg;
         _ \<leftarrow> (if cfgWorkspaceManager cfg then cleanupWorkspaceIfUnused c (sWorkspaceID session)
               else ret ());
         _ \<leftarrow> (if nonempty (sRunnerID session) then sm_wake else ret ());
         ok ()
       }))"

section \<open>Snapshots of a session\<close>

definition GetContextSnapshot :: "ctx \<Rightarrow> string \<Rightarrow> ContextSnapshot option G" where
  "GetContextSnapshot c sessionID =
     guard_ok (map_err (not_found_as ErrSessionNotFound) (GetSession c sessionID)) (\<lambda>session.
       case ParseContextSnapshot (sContextSnapshot session) of Inl e \<Rightarrow> err e | Inr s \<Rightarrow> ok s)"

definition UpdateContextSnapshot :: "ctx \<Rightarrow> string \<Rightarrow> ContextSnapshot option \<Rightarrow> unit G" where
  "UpdateContextSnapshot c sessionID snapshot =
     (case snapshot of
        None \<Rightarrow> ok ()
      | Some s \<Rightarrow> UpdateSession c sessionID (no_session_updates\<lparr>suContextSnapshot := Some (ToJSON s)\<rparr>))"

section \<open>Resume\<close>

record ResumeResult =
  rrSession :: Session
  rrContextSnapshot :: "ContextSnapshot option"
  rrSuspendStrategy :: string
  rrSnapshotID :: string
  rrWorkspaceSynced :: bool

definition resume_updates :: "Session \<Rightarrow> int \<Rightarrow> SessionUpdates" where
  "resume_updates session now = no_session_updates\<lparr>
     suStatus := Some SessionStatusResuming, suExpectedStatus := Some (sStatus session),
     suResumedAt := Some now\<rparr>"

definition ResumeWithResult :: "ctx \<Rightarrow> string \<Rightarrow> ResumeResult G" where
  "ResumeWithResult c sessionID =
     guard_ok (map_err (not_found_as ErrSessionNotFound) (GetSession c sessionID)) (\<lambda>session.
       if \<not> isValidSessionTransition (sStatus session) SessionStatusResuming
       then err ErrInvalidSessionTransition
       else do {
         now \<leftarrow> Now;
         guard_ok (map_err (\<lambda>e. if e = ErrConflict then ErrInvalidSessionTransition else e)
             (UpdateSession c sessionID (resume_updates session now))) (\<lambda>_. do {
           _ \<leftarrow> emit_audit ''session.resumed'' sessionID;
           _ \<leftarrow> (if nonempty (sPreviousRunnerID session)
                 then go_routine (JobRequestRunnerForResume session) else ret ());
           ok \<lparr>rrSession = session,
               rrContextSnapshot = (case ParseContextSnapshot (sContextSnapshot session) of
                 Inl _ \<Rightarrow> None | Inr s \<Rightarrow> s),
               rrSuspendStrategy = stringValue (sSuspendStrategy session),
               rrSnapshotID = stringValue (sSuspendSnapshotID session),
               rrWorkspaceSynced = (case sSuspendWorkspaceSynced session of None \<Rightarrow> False | Some b \<Rightarrow> b)\<rparr>
         })
       })"

definition Resume :: "ctx \<Rightarrow> string \<Rightarrow> unit G" where
  "Resume c sessionID = guard_ok (ResumeWithResult c sessionID) (\<lambda>_. ok ())"

section \<open>Finding a runner\<close>

definition loadProfile :: "ctx \<Rightarrow> Session \<Rightarrow> Profile option M" where
  "loadProfile c session =
     (if \<not> nonempty (sProfileID session) then ret None
      else do {
        r \<leftarrow> GetProfile c (stringValue (sProfileID session));
        ret (case r of Inl _ \<Rightarrow> None | Inr p \<Rightarrow> Some p)
      })"

definition poolProviderForProfile :: "ctx \<Rightarrow> Profile option \<Rightarrow> Provider option M" where
  "poolProviderForProfile c profile = do {
     cfg \<leftarrow> asks e_cfg;
     (case profile of
        None \<Rightarrow> ret None
      | Some p \<Rightarrow>
          if \<not> nonempty (pfProviderConfigID p) then ret None
          else if \<not> cfgProviderRegistry cfg then ret None
          else do {
            r \<leftarrow> GetProviderConfig c (stringValue (pfProviderConfigID p));
            (case r of
               Inl _ \<Rightarrow> ret None
             | Inr provConfig \<Rightarrow> do {
                 g \<leftarrow> registry_Get (pcName provConfig);
                 ret (case g of Inl _ \<Rightarrow> None
                      | Inr prov \<Rightarrow> if pvPoolAcquirer prov then Some prov else None)
               })
          })
   }"

definition acquireFromPool :: "Session \<Rightarrow> Provider \<Rightarrow> Profile option \<Rightarrow> string G" where
  "acquireFromPool session poolProv profile =
     (let prefer = (if nonempty (sPreviousRunnerID session) then stringValue (sPreviousRunnerID session)
                    else []);
          selector = profileSelector profile;
          labels = (case selector of None \<Rightarrow> [] | Some sel \<Rightarrow> selector_labels sel);
          caps = (case selector of None \<Rightarrow> [] | Some sel \<Rightarrow> selCapabilities sel)
      in guard_ok (provider_call (ProviderAcquire (sID session) prefer labels caps)) (\<lambda>t. do {
           f \<leftarrow> asks e_acquire; ok (f t) }))"

definition liveSessionStatuses :: "string list" where
  "liveSessionStatuses = [SessionStatusPending, SessionStatusActive, SessionStatusResuming,
     SessionStatusSuspended]"

definition runnerClaimed :: "ctx \<Rightarrow> string \<Rightarrow> bool G" where
  "runnerClaimed c runnerID =
     guard_ok (ListSessions c (list_all_sessions\<lparr>
         lsoBase := default_opts\<lparr>loLimit := 1\<rparr>, lsoRunnerID := Some runnerID,
         lsoStatus := liveSessionStatuses\<rparr>))
       (\<lambda>ss. ok (lrItems ss \<noteq> []))"

definition runnerSelectionBatch :: int where "runnerSelectionBatch = 100"

definition idle_runner_opts :: "ProfileSelector option \<Rightarrow> ListRunnersOptions" where
  "idle_runner_opts selector =
    \<lparr>lnoBase = default_opts\<lparr>loLimit := runnerSelectionBatch\<rparr>, lnoStatus = [StatusIdle],
     lnoPoolName = None, lnoTainted = None,
     lnoLabels = (case selector of None \<Rightarrow> [] | Some sel \<Rightarrow> selector_labels sel)\<rparr>"

text \<open>The checks of a candidate before it is claimed.\<close>

definition runner_suitable :: "Session \<Rightarrow> ProfileSelector option \<Rightarrow> Runner \<Rightarrow> bool M" where
  "runner_suitable session selector runner = do {
     cfg \<leftarrow> asks e_cfg;
     conn \<leftarrow> asks e_connected;
     ret (\<not> rTainted runner \<and> sameTenant (sTenantID session) (rTenantID runner) \<and>
          (case selector of None \<Rightarrow> True
           | Some sel \<Rightarrow> hasAllCapabilities (rCapabilities runner) (selCapabilities sel)) \<and>
          (cfgConnManager cfg \<longrightarrow> conn (rID runner)))
   }"

fun select_from :: "ctx \<Rightarrow> Session \<Rightarrow> ProfileSelector option \<Rightarrow> Runner list \<Rightarrow> string G" where
  "select_from c session selector [] = err ErrNoRunnerAvailable"
| "select_from c session selector (runner # rest) = do {
     fits \<leftarrow> runner_suitable session selector runner;
     (if \<not> fits then select_from c session selector rest
      else do {
        won \<leftarrow> sm_claimRunner c (rID runner) (sID session);
        (if \<not> won then select_from c session selector rest
         else do {
           owned \<leftarrow> runnerClaimed c (rID runner);
           (case owned of
              Inr False \<Rightarrow> ok (rID runner)
            | _ \<Rightarrow> do {
                _ \<leftarrow> sm_releaseRunnerClaim c (rID runner) (sID session);
                select_from c session selector rest
              })
         })
      })
   }"

definition selectIdleRunner :: "ctx \<Rightarrow> Session \<Rightarrow> Profile option \<Rightarrow> string G" where
  "selectIdleRunner c session profile =
     (let selector = profileSelector profile in
      guard_ok (ListRunners c (idle_runner_opts selector)) (\<lambda>runners.
        select_from c session selector (lrItems runners)))"

definition allocateRunner ::
  "(ctx \<Rightarrow> Session \<Rightarrow> Profile option \<Rightarrow> bool M) \<Rightarrow> ctx \<Rightarrow> Session \<Rightarrow> string G" where
  "allocateRunner autoSpawn c session = do {
     profile \<leftarrow> loadProfile c session;
     poolProv \<leftarrow> poolProviderForProfile c profile;
     (case poolProv of
        Some prov \<Rightarrow> acquireFromPool session prov profile
      | None \<Rightarrow> do {
          r \<leftarrow> selectIdleRunner c session profile;
          (case r of
             Inr runnerID \<Rightarrow> ok runnerID
           | Inl e \<Rightarrow>
               if e \<noteq> ErrNoRunnerAvailable then err e
               else do {
                 spawning \<leftarrow> autoSpawn c session profile;
                 (if spawning then err ErrRunnerSpawning else err e)
               })
        })
   }"

definition EnsureRunner ::
  "(ctx \<Rightarrow> Session \<Rightarrow> Profile option \<Rightarrow> bool M) \<Rightarrow> ctx \<Rightarrow> string \<Rightarrow> Session G" where
  "EnsureRunner autoSpawn c sessionID =
     guard_ok (map_err (not_found_as ErrSessionNotFound) (GetSession c sessionID)) (\<lambda>session.
       if sStatus session = SessionStatusTerminated then err ErrSessionAlreadyTerminated
       else if sStatus session = SessionStatusSuspended then err ErrSessionNotActive
       else if sStatus session = SessionStatusResuming then err ErrNoRunnerAvailable
       else if sStatus session = SessionStatusActive \<and> nonempty (sRunnerID session) then ok session
       else guard_ok (allocateRunner autoSpawn c session) (\<lambda>runnerID.
         defer_release c runnerID sessionID
           (guard_ok (Activate c sessionID runnerID) (\<lambda>_. GetSession c sessionID))))"

section \<open>A runner for a resumed session\<close>

definition requestRunnerFromPool :: "ctx \<Rightarrow> Session \<Rightarrow> Provider \<Rightarrow> Profile option \<Rightarrow> unit M" where
  "requestRunnerFromPool c session poolProv profile = do {
     r \<leftarrow> acquireFromPool session poolProv profile;
     (case r of
        Inl _ \<Rightarrow> ret ()
      | Inr runnerID \<Rightarrow> do {
          a \<leftarrow> AttachRunner c (sID session) runnerID;
          (case a of
             Inr _ \<Rightarrow> ret ()
           | Inl _ \<Rightarrow> ignore_err (provider_call (ProviderRelease (pvName poolProv) runnerID)))
        })
   }"

definition requestRunnerForResume ::
  "(ctx \<Rightarrow> Session \<Rightarrow> Provider \<Rightarrow> Profile option \<Rightarrow> Runner \<Rightarrow> unit M) \<Rightarrow> ctx \<Rightarrow> Session \<Rightarrow> unit M" where
  "requestRunnerForResume resumeManaged c session =
     (if \<not> nonempty (sPreviousRunnerID session) then ret ()
      else do {
        p \<leftarrow> GetRunner c (stringValue (sPreviousRunnerID session));
        (case p of
           Inl _ \<Rightarrow> ret ()
         | Inr prevRunner \<Rightarrow>
             (case rProviderConfigID prevRunner of
                None \<Rightarrow> do {
                  cfg \<leftarrow> asks e_cfg;
                  conn \<leftarrow> asks e_connected;
                  (if cfgConnManager cfg \<and> conn (rID prevRunner)
                   then ignore_err (AttachRunner c (sID session) (rID prevRunner))
                   else ret ())
                }
              | Some cfgID \<Rightarrow> do {
                  pc \<leftarrow> GetProviderConfig c cfgID;
                  (case pc of
                     Inl _ \<Rightarrow> ret ()
                   | Inr provConfig \<Rightarrow> do {
                       g \<leftarrow> registry_Get (pcName provConfig);
                       (case g of
                          Inl _ \<Rightarrow> ret ()
                        | Inr prov \<Rightarrow> do {
                            profile \<leftarrow> loadProfile c session;
                            (if pvPoolAcquirer prov
                             then requestRunnerFromPool c session prov profile
                             else if \<not> pvSuspendable prov then ret ()
                             else resumeManaged c session prov profile prevRunner)
                          })
                     })
                }))
      })"

end
