(* ===== verification/Session_Laws.thy ===== *)
theory Session_Laws
  imports Session_Manager Store_Paging
begin

text \<open>
  Laws of the session manager. The locale \<open>session_client\<close> is parameterised by the sessions \<open>own\<close> a
  handler may write, so one analysis of each handler serves both the global properties (\<open>own\<close> holds
  everywhere) and the frame properties (everything but one session).
\<close>

locale session_client = server_contract R A S
  for R :: "world \<Rightarrow> world \<Rightarrow> bool" and A :: "stmt \<Rightarrow> bool"
    and S :: "string \<Rightarrow> ServerCommand \<Rightarrow> bool" +
  fixes own :: "string \<Rightarrow> bool"
  assumes A_session: "own x \<Longrightarrow> A (SUpdateSession x su)"
    and A_runner: "A (SUpdateRunner r ru)" "A (SClaimRunner r x now lease)" "A (SReleaseRunnerClaim r x)"
    and A_delivered: "A (SUpdatePermission p (no_permission_updates\<lparr>puDeliveredAt := n\<rparr>))"
    and S_session: "S r (AttachSession a1 a2 a3 a4 a5 a6 a7 a8 a9 a10)" "S r (DetachSession a b e f)"
begin

lemma resp_helpers:
  "resp (sm_claimRunner c r x)" "resp (sm_releaseRunnerClaim c r x)" "resp sm_wake"
  "resp (webhook_session c e x)" "resp (GetHostPath y)" "resp (ws_Get c y)"
  "resp (EnsureHostDirectory y)" "resp (ws_CleanupHostDirectory y)" "resp (IsInUse c y)"
  "resp (registry_Get y)" "resp (providerForRunner c y)"
  unfolding sm_claimRunner_def sm_releaseRunnerClaim_def sm_wake_def webhook_session_def GetHostPath_def
    ws_Get_def EnsureHostDirectory_def ws_CleanupHostDirectory_def IsInUse_def registry_Get_def
    providerForRunner_def
  by (intro server_resp A_runner)+

lemma resp_workspaceSurvivesRunner: "resp (workspaceSurvivesRunner c x)"
  unfolding workspaceSurvivesRunner_def by (intro server_resp resp_helpers)

lemma resp_applySuspendStrategy: "resp (applySuspendStrategy c prov x r i st)"
  unfolding applySuspendStrategy_def by (intro server_resp resp_workspaceSurvivesRunner)

lemma resp_recordSuspendResult: "own x \<Longrightarrow> resp (recordSuspendResult c x r res)"
  unfolding recordSuspendResult_def by (intro server_resp A_session A_runner)

lemma resp_releaseRunner: "own x \<Longrightarrow> resp (releaseRunner c x r opts)"
  unfolding releaseRunner_def
  by (intro server_resp resp_helpers resp_applySuspendStrategy resp_recordSuspendResult)

lemma resp_sendDetachSession: "resp (sendDetachSession s opts)"
  unfolding sendDetachSession_def by (intro server_resp S_session)

lemma resp_SuspendWithOptions: "own x \<Longrightarrow> resp (SuspendWithOptions c x opts)"
  unfolding SuspendWithOptions_def Let_def
  by (intro server_resp resp_sendDetachSession resp_releaseRunner resp_helpers A_session)

lemma resp_detach_each:
  "(\<And>s. s \<in> set ss \<Longrightarrow> sID s \<noteq> x \<Longrightarrow> own (sID s)) \<Longrightarrow> resp (detach_each c x ss)"
  by (induction ss) (auto intro!: server_resp resp_SuspendWithOptions)

lemma resp_detachSessionsFromRunner:
  assumes "\<And>y. y \<noteq> x \<Longrightarrow> own y"
  shows "resp (detachSessionsFromRunner c r x)"
  unfolding detachSessionsFromRunner_def by (intro server_resp resp_detach_each assms)

lemma resp_undeliveredPermissions: "resp (undeliveredPermissions c x)"
  unfolding undeliveredPermissions_def by (intro server_resp)

lemma resp_markPermissionsDelivered: "resp (markPermissionsDelivered c ps)"
  unfolding markPermissionsDelivered_def by (intro server_resp A_delivered)

lemma resp_agent_config_of: "resp (agent_config_of c s)"
  unfolding agent_config_of_def by (intro server_resp)

lemma resp_workspace_path_for: "resp (workspace_path_for r ws y)"
  unfolding workspace_path_for_def by (intro server_resp resp_helpers)

lemma resp_sendAttachSession: "resp (sendAttachSession c s r)"
  unfolding sendAttachSession_def
  by (intro server_resp resp_agent_config_of resp_workspace_path_for resp_undeliveredPermissions
      resp_markPermissionsDelivered S_session)

lemma resp_after_activation: "resp (after_activation c s x r)"
  unfolding after_activation_def by (intro server_resp resp_sendAttachSession resp_helpers)

lemma resp_defer_release: "resp m \<Longrightarrow> resp (defer_release c r x m)"
  unfolding defer_release_def by (intro server_resp resp_helpers)

lemma resp_DetachRunner: "own x \<Longrightarrow> resp (DetachRunner c x)"
  unfolding DetachRunner_def by (intro server_resp resp_helpers A_session)

lemma resp_Terminate: "own x \<Longrightarrow> resp (Terminate c x)"
  unfolding Terminate_def cleanupWorkspaceIfUnused_def
  by (intro server_resp resp_helpers A_session)

lemma resp_UpdateContextSnapshot: "own x \<Longrightarrow> resp (UpdateContextSnapshot c x sn)"
  unfolding UpdateContextSnapshot_def by (intro server_resp A_session)

lemma resp_ResumeWithResult: "own x \<Longrightarrow> resp (ResumeWithResult c x)"
  unfolding ResumeWithResult_def by (intro server_resp A_session)

lemma resp_loadProfile: "resp (loadProfile c s)" "resp (poolProviderForProfile c p)"
  unfolding loadProfile_def poolProviderForProfile_def by (intro server_resp resp_helpers)+

lemma resp_acquireFromPool: "resp (acquireFromPool s prov p)"
  unfolding acquireFromPool_def by (intro server_resp)

lemma resp_runner_suitable: "resp (runner_suitable s sel r)" "resp (runnerClaimed c y)"
  unfolding runner_suitable_def runnerClaimed_def by (intro server_resp)+

lemma resp_select_from: "resp (select_from c s sel rs)"
  by (induction rs) (auto intro!: server_resp resp_runner_suitable resp_helpers)

lemma resp_selectIdleRunner: "resp (selectIdleRunner c s p)"
  unfolding selectIdleRunner_def by (intro server_resp resp_select_from)

lemma resp_allocateRunner:
  "(\<And>p. resp (spawn c s p)) \<Longrightarrow> resp (allocateRunner spawn c s)"
  unfolding allocateRunner_def
  by (intro server_resp resp_loadProfile resp_acquireFromPool resp_selectIdleRunner)

end

text \<open>Handlers that may suspend any other session need to own all of them.\<close>

locale session_owner = session_client R A S "\<lambda>_. True"
  for R :: "world \<Rightarrow> world \<Rightarrow> bool" and A :: "stmt \<Rightarrow> bool"
    and S :: "string \<Rightarrow> ServerCommand \<Rightarrow> bool" +
  assumes A_create: "A (SCreateSession s)"
begin

lemma resp_sm_Create: "resp (sm_Create c opts)"
  unfolding sm_Create_def by (intro server_resp A_create)

lemma resp_Activate: "resp (Activate c x r)"
  unfolding Activate_def
  by (intro server_resp resp_helpers resp_defer_release resp_detachSessionsFromRunner
      resp_after_activation A_session) simp_all

lemma resp_AttachRunner: "resp (AttachRunner c x r)"
  unfolding AttachRunner_def by (intro server_resp resp_helpers resp_Activate)

lemma resp_EnsureRunner:
  "(\<And>s p. resp (spawn c s p)) \<Longrightarrow> resp (EnsureRunner spawn c x)"
  unfolding EnsureRunner_def
  by (intro server_resp resp_allocateRunner resp_defer_release resp_Activate)

lemma resp_requestRunnerFromPool: "resp (requestRunnerFromPool c s prov p)"
  unfolding requestRunnerFromPool_def by (intro server_resp resp_acquireFromPool resp_AttachRunner)

lemma resp_requestRunnerForResume:
  "(\<And>prov p r. resp (managed c s prov p r)) \<Longrightarrow> resp (requestRunnerForResume managed c s)"
  unfolding requestRunnerForResume_def
  by (intro server_resp resp_helpers resp_AttachRunner resp_loadProfile resp_requestRunnerFromPool)

end

end
