(* ===== verification/Session_Lifecycle.thy ===== *)
theory Session_Lifecycle
  imports Session_Laws
begin

text \<open>
  What the operations on a session guarantee: the transitions of its status, the exclusive runner
  of an active session, the claims on runners, and what each command tells the runner.
\<close>

section \<open>Interpretations\<close>

interpretation session_db: session_owner "\<lambda>w w'. db_inv (w_db w) \<longrightarrow> db_inv (w_db w')" "\<lambda>_. True" "\<lambda>_ _. True"
  by unfold_locales auto

interpretation session_env: session_owner env_kept "\<lambda>_. True" "\<lambda>_ _. True"
  by unfold_locales auto

text \<open>The session manager never writes a task or a run.\<close>

fun session_stmt :: "stmt \<Rightarrow> bool" where
  "session_stmt (SCreateTask _) = False"
| "session_stmt (SUpdateTask _ _) = False"
| "session_stmt (SCreateTaskRun _) = False"
| "session_stmt (SUpdateTaskRun _ _) = False"
| "session_stmt _ = True"

lemma session_stmt_frame:
  assumes "session_stmt l" and "db_step l d d'"
  shows "tasks d' = tasks d \<and> task_runs d' = task_runs d"
  using assms(2,1)
  by cases (auto simp: createSession_def updateSession_def createRunner_def updateRunner_def
      claimRunner_def releaseRunnerClaim_def createPermissionRequest_def updatePermissionRequest_def
      Let_def split: if_splits option.splits prod.splits)

interpretation session_frame: session_owner
  "\<lambda>w w'. tasks (w_db w') = tasks (w_db w) \<and> task_runs (w_db w') = task_runs (w_db w)"
  session_stmt "\<lambda>_ _. True"
  by unfold_locales (auto dest: session_stmt_frame)

text \<open>The commands of the session manager.\<close>

fun session_command :: "string \<Rightarrow> ServerCommand \<Rightarrow> bool" where
  "session_command _ (AttachSession _ _ _ _ _ _ _ _ _ _) = True"
| "session_command _ (DetachSession _ _ _ _) = True"
| "session_command _ _ = False"

interpretation session_commands: command_filter session_command .

interpretation session_sends: session_owner "sent_only session_command" "\<lambda>_. True" session_command
  by unfold_locales auto

text \<open>A handler that does not own session \<open>x\<close> leaves its row alone.\<close>

fun not_session :: "string \<Rightarrow> stmt \<Rightarrow> bool" where
  "not_session x (SUpdateSession y _) = (y \<noteq> x)"
| "not_session x (SCreateSession _) = False"
| "not_session x _ = True"

definition row_kept :: "string \<Rightarrow> db \<Rightarrow> db \<Rightarrow> bool" where
  "row_kept x d d' \<longleftrightarrow> multi_tenant d' = multi_tenant d \<and>
     (\<forall>s. sID s = x \<longrightarrow> (s \<in> set (sessions d') \<longleftrightarrow> s \<in> set (sessions d)))"

lemma not_session_kept:
  assumes "not_session x l" and "db_step l d d'"
  shows "row_kept x d d'"
  using assms(2,1)
proof cases
  case (step_updateSession now c sid u y)
  then show ?thesis
    using assms(1)
    by (cases "d' = d")
      (auto simp: row_kept_def set_put_row elim!: updateSession_changes)
qed (auto simp: row_kept_def createTask_def updateTask_def createTaskRun_def updateTaskRun_def
      createRunner_def updateRunner_def claimRunner_def releaseRunnerClaim_def
      createPermissionRequest_def updatePermissionRequest_def
      Let_def split: if_splits option.splits prod.splits)

locale other_session =
  fixes x :: string

sublocale other_session \<subseteq> session_client "\<lambda>w w'. row_kept x (w_db w) (w_db w')" "not_session x" "\<lambda>_ _. True" "\<lambda>y. y \<noteq> x"
  by unfold_locales (auto simp: row_kept_def dest: not_session_kept [unfolded row_kept_def])

interpretation others: other_session x for x .

lemma row_kept_lookup:
  assumes "row_kept x d d'" and "db_inv d" and "db_inv d'"
  shows "session_tbl.lookup c x d' = session_tbl.lookup c x d"
proof (cases "\<exists>s \<in> set (sessions d). sID s = x")
  case True
  then obtain s where s: "s \<in> set (sessions d)" "sID s = x" by blast
  then have s': "s \<in> set (sessions d')" using assms(1) by (simp add: row_kept_def)
  have "rls_visible d' c (sTenantID s) = rls_visible d c (sTenantID s)"
    using assms(1) by (intro rls_visible_cong) (simp add: row_kept_def)
  then show ?thesis
    using session_tbl.lookup_unique [OF db_inv_keys(1) [OF assms(2)] s]
      session_tbl.lookup_unique [OF db_inv_keys(1) [OF assms(3)] s' s(2)] by simp
next
  case False
  then have "session_tbl.lookup c x d = None" and "session_tbl.lookup c x d' = None"
    using assms(1) by (auto simp: session_tbl.lookup_def find_None_iff row_kept_def)
  then show ?thesis by simp
qed

section \<open>Transitions\<close>

lemma valid_transition_iff:
  "isValidSessionTransition from SessionStatusActive \<longleftrightarrow>
     from = SessionStatusPending \<or> from = SessionStatusResuming"
  "isValidSessionTransition from SessionStatusSuspended \<longleftrightarrow>
     from = SessionStatusActive \<or> from = SessionStatusResuming"
  "isValidSessionTransition from SessionStatusResuming \<longleftrightarrow> from = SessionStatusSuspended"
  "isValidSessionTransition from SessionStatusTerminated \<longleftrightarrow> from \<noteq> SessionStatusTerminated"
  by (auto simp: isValidSessionTransition_def)

section \<open>Activation\<close>

lemma Activate_success_steps:
  assumes "run_state (Activate c sid rid) w = (Inr u, w')"
  obtains session runner w1 w2 w3 w4 where
    "session_tbl.lookup c sid (w_db w) = Some session"
    "runner_tbl.lookup c rid (w_db w) = Some runner"
    "isValidSessionTransition (sStatus session) SessionStatusActive"
    "rStatus runner = StatusIdle \<or> isResumeToSameRunner session rid"
    "sameTenant (sTenantID session) (rTenantID runner)"
    "run_state (sm_claimRunner c rid sid) (tick (tick w)) = (True, w1)"
    "run_state (detachSessionsFromRunner c rid sid) w1 = (Inr (), w2)"
    "run_state (WithTx (UpdateSession c sid (activate_updates session rid (e_clock w2 (w_tick w2))))) (tick w2)
       = (Inr (), w3)"
    "run_state (after_activation c session sid rid) w3 = (Inr u, w4)"
    "run_state (sm_releaseRunnerClaim c rid sid) w4 = ((), w')"
  using assms
  by (auto simp: Activate_def GetSession_def GetRunner_def run_query_Inr defer_release_def
      requireSameTenant_def
      split: prod.splits sum.splits if_splits)

text \<open>The steps before the update do not touch the session, those after it do not either.\<close>

lemma activation_frames:
  "run_state (sm_claimRunner c rid sid) w = (b, w') \<Longrightarrow> row_kept x (w_db w) (w_db w')"
  "run_state (detachSessionsFromRunner c rid sid) w = (r, w') \<Longrightarrow> row_kept sid (w_db w) (w_db w')"
  "run_state (after_activation c session sid rid) w = (r', w') \<Longrightarrow> row_kept x (w_db w) (w_db w')"
  "run_state (sm_releaseRunnerClaim c rid sid) w = (v, w') \<Longrightarrow> row_kept x (w_db w) (w_db w')"
  by (auto intro: others.respD [OF others.resp_helpers(1)] others.respD [OF others.resp_helpers(2)]
      others.respD [OF others.resp_detachSessionsFromRunner] others.respD [OF others.resp_after_activation])

lemma activation_inv:
  "run_state (sm_claimRunner c rid sid) w = (b, w') \<Longrightarrow> db_inv (w_db w) \<Longrightarrow> db_inv (w_db w')"
  "run_state (detachSessionsFromRunner c rid sid) w = (r, w') \<Longrightarrow> db_inv (w_db w) \<Longrightarrow> db_inv (w_db w')"
  "run_state (after_activation c session sid rid) w = (r', w') \<Longrightarrow> db_inv (w_db w) \<Longrightarrow> db_inv (w_db w')"
  "run_state (sm_releaseRunnerClaim c rid sid) w = (v, w') \<Longrightarrow> db_inv (w_db w) \<Longrightarrow> db_inv (w_db w')"
  "run_state (WithTx (UpdateSession c sid su)) w = (q, w') \<Longrightarrow> db_inv (w_db w) \<Longrightarrow> db_inv (w_db w')"
  using any_stmt.respD [OF session_db.resp_helpers(1)] any_stmt.respD [OF session_db.resp_helpers(2)]
    any_stmt.respD [OF session_db.resp_detachSessionsFromRunner]
    any_stmt.respD [OF session_db.resp_after_activation]
    any_stmt.respD [OF any_stmt.resp_WithTx [OF any_stmt.resp_writes(2)]]
  by simp_all

lemma WithTx_UpdateSession_ok:
  assumes inv: "db_inv (w_db w)" and run: "run_state (WithTx (UpdateSession c sid u)) w = (Inr x, w')"
    and nz: "u\<lparr>suExpectedStatus := None\<rparr> \<noteq> no_session_updates"
  obtains s q where "session_tbl.lookup c sid (w_db w) = Some s"
    "session_tbl.lookup c sid (w_db w') = Some (apply_session_updates q u s)"
    "opt_match (suExpectedStatus u) (sStatus s)"
proof -
  from run_WithTx_Inr [OF run] obtain w1
    where "run_state (UpdateSession c sid u) (tick w) = (Inr x, w1)" and w': "w' = tick w1" by blast
  then obtain q d where upd: "updateSession q c sid u (w_db w) = Inr (x, d)" and d: "w_db w' = d"
    by (auto simp: UpdateSession_def run_exec_stmt_Inr)
  have keys: "distinct (map sID (sessions (w_db w)))" using db_inv_keys(1) [OF inv] .
  from updateSession_lookup [OF keys upd nz] obtain s where
    s: "session_tbl.lookup c sid (w_db w) = Some s" "opt_match (suExpectedStatus u) (sStatus s)"
    and d': "d = (w_db w)\<lparr>sessions := put_row sID sid (apply_session_updates q u s) (sessions (w_db w))\<rparr>"
    by metis
  have "session_tbl.lookup c sid d = Some (apply_session_updates q u s)"
    using session_tbl.lookup_put [OF keys s(1), of "apply_session_updates q u s" c]
      session_tbl.lookup_SomeD [OF s(1)] by (simp add: d')
  with s d show ?thesis by (intro that) simp_all
qed

text \<open>
  C6. A successful activation: the session was pending or resuming; afterwards it is active on
  exactly the runner asked for, and no other session is active on that runner. The runner was idle,
  or the session resumes onto the runner it had, and both belong to the same tenant.
\<close>

theorem activate_exclusive:
  assumes inv: "db_inv (w_db w)" and rid: "rid \<noteq> []"
    and run: "run_state (Activate c sid rid) w = (Inr u, w')"
  shows "\<exists>session runner s'.
     session_tbl.lookup c sid (w_db w) = Some session \<and> runner_tbl.lookup c rid (w_db w) = Some runner \<and>
     sStatus session \<in> {SessionStatusPending, SessionStatusResuming} \<and>
     (rStatus runner = StatusIdle \<or> isResumeToSameRunner session rid) \<and>
     sameTenant (sTenantID session) (rTenantID runner) \<and>
     session_tbl.lookup c sid (w_db w') = Some s' \<and> active_on s' rid \<and>
     (\<forall>x \<in> set (sessions (w_db w')). active_on x rid \<longrightarrow> x = s')"
  using run
proof (rule Activate_success_steps)
  fix session runner w1 w2 w3 w4
  assume look: "session_tbl.lookup c sid (w_db w) = Some session"
    and rn: "runner_tbl.lookup c rid (w_db w) = Some runner"
    and valid: "isValidSessionTransition (sStatus session) SessionStatusActive"
    and idle: "rStatus runner = StatusIdle \<or> isResumeToSameRunner session rid"
    and ten: "sameTenant (sTenantID session) (rTenantID runner)"
    and claim: "run_state (sm_claimRunner c rid sid) (tick (tick w)) = (True, w1)"
    and det: "run_state (detachSessionsFromRunner c rid sid) w1 = (Inr (), w2)"
    and tx: "run_state (WithTx (UpdateSession c sid (activate_updates session rid (e_clock w2 (w_tick w2))))) (tick w2)
       = (Inr (), w3)"
    and aft: "run_state (after_activation c session sid rid) w3 = (Inr u, w4)"
    and rel: "run_state (sm_releaseRunnerClaim c rid sid) w4 = ((), w')"
  let ?u = "activate_updates session rid (e_clock w2 (w_tick w2))"
  have inv2: "db_inv (w_db (tick w2))"
    using inv activation_inv(1) [OF claim] activation_inv(2) [OF det] by simp
  have inv3: "db_inv (w_db w3)" using activation_inv(5) [OF tx inv2] .
  have inv': "db_inv (w_db w')" using activation_inv(4) [OF rel activation_inv(3) [OF aft inv3]] .
  have nz: "?u\<lparr>suExpectedStatus := None\<rparr> \<noteq> no_session_updates"
    by (rule session_updates_nonzero) (simp add: activate_updates_def)
  from inv2 tx nz obtain s q where
    s3: "session_tbl.lookup c sid (w_db w3) = Some (apply_session_updates q ?u s)"
    by (rule WithTx_UpdateSession_ok) blast
  let ?s = "apply_session_updates q ?u s"
  have "row_kept sid (w_db w3) (w_db w')"
    using activation_frames(3) [OF aft] activation_frames(4) [OF rel] by (auto simp: row_kept_def)
  then have s': "session_tbl.lookup c sid (w_db w') = Some ?s"
    using s3 row_kept_lookup [OF _ inv3 inv'] by simp
  have act: "active_on ?s rid" using rid by (simp add: active_on_def activate_updates_def)
  have uniq: "x = ?s" if "x \<in> set (sessions (w_db w'))" "active_on x rid" for x
  proof -
    have m: "?s \<in> set (sessions (w_db w'))" using session_tbl.lookup_SomeD [OF s'] by blast
    then have "sID x = sID ?s" using inv' that act active_unique by (auto simp: db_inv_def)
    then show ?thesis by (rule distinct_keyD [OF db_inv_keys(1) [OF inv'] that(1) m])
  qed
  show ?thesis using look rn idle ten s' act uniq valid by (auto simp: valid_transition_iff)
qed

end
