(* ===== verification/Runner_Allocation.thy ===== *)
theory Runner_Allocation
  imports Session_Lifecycle
begin

text \<open>
  Claims on runners and the choice of a runner: the claim is a compare-and-set in the database, so
  its guarantees hold across server processes and are stated over arbitrary sequences of
  statements.
\<close>

section \<open>Claims\<close>

definition effective_lease :: "int \<Rightarrow> int" where
  "effective_lease lease = (if lease \<le> 0 then DefaultRunnerClaimLease else lease)"

lemma claimRunner_Inr:
  "claimRunner now c rid sid lease d = Inr (won, d') \<Longrightarrow>
     (won \<longrightarrow> claim_free now sid (effective_lease lease) (claims d rid) \<and>
       claims d' = (claims d)(rid \<mapsto> (sid, now))) \<and> (\<not> won \<longrightarrow> d' = d)"
  by (auto simp: claimRunner_def effective_lease_def Let_def split: option.splits if_splits)

text \<open>
  A claim changes hands only by the holder's own release, by the holder's own renewal, or by a
  claim made after the lease ran out; no other statement on the core tables touches it.
\<close>

lemma claim_step:
  assumes inv: "db_inv d" and step: "db_step l d d'" and held: "claims d rid = Some (holder, at)"
  shows "claims d' rid = Some (holder, at) \<or>
     (claims d' rid = None \<and> l = SReleaseRunnerClaim rid holder) \<or>
     (\<exists>sid now lease. l = SClaimRunner rid sid now lease \<and> claims d' rid = Some (sid, now) \<and>
        (sid = holder \<or> at + effective_lease lease < now))"
  using step
proof cases
  case (step_createRunner now c n x)
  have "rid \<in> rID ` set (runners d)" using inv held by (auto simp: db_inv_def runners_ok_def)
  moreover have "rID n \<notin> rID ` set (runners d)" "claims d' = (claims d)(rID n := None)"
    using step_createRunner by (auto simp: createRunner_def Let_def split: if_splits)
  ultimately have "claims d' rid = claims d rid" by (metis fun_upd_apply)
  then show ?thesis using held by simp
next
  case (step_claimRunner now c r sid lease b)
  from claimRunner_Inr [OF step_claimRunner(2)] show ?thesis
    using held step_claimRunner(1) by (cases b) (auto simp: claim_free_def)
next
  case (step_releaseRunnerClaim now c r sid y)
  then show ?thesis using held
    by (auto simp: releaseRunnerClaim_def split: option.splits prod.splits if_splits)
qed (use held in \<open>auto simp: createSession_def updateSession_def createTask_def updateTask_def
    createTaskRun_def updateTaskRun_def updateRunner_def createPermissionRequest_def
    updatePermissionRequest_def Let_def split: if_splits option.splits\<close>)

section \<open>Choosing an idle runner\<close>

text \<open>Whether a session of the list query owns the runner.\<close>

definition live_owner :: "db \<Rightarrow> ctx \<Rightarrow> string \<Rightarrow> Session \<Rightarrow> bool" where
  "live_owner d c rid s \<longleftrightarrow> s \<in> set (sessions d) \<and> rls_visible d c (sTenantID s) \<and>
     sRunnerID s = Some rid \<and> sStatus s \<in> set liveSessionStatuses"

lemma session_page:
  "loOrderBy b = [] \<Longrightarrow> loCursor b = None \<Longrightarrow> page sessionSortColumns b =
     Inr \<lparr>lpColumn = ''created_at'', lpDesc = loOrderDesc b, lpCondition = None, lpCursorable = True\<rparr>"
  by (simp add: page_def sessionSortColumns_def Let_def)

lemma listSessions_limit1:
  assumes "listSessions c opts d = Inr res" and "lsoBase opts = default_opts\<lparr>loLimit := 1\<rparr>"
  shows "lrItems res = [] \<longleftrightarrow>
     (\<forall>s \<in> set (sessions d). \<not> (rls_visible d c (sTenantID s) \<and> session_matches opts s))"
proof -
  let ?p = "\<lparr>lpColumn = ''created_at'', lpDesc = False, lpCondition = None, lpCursorable = True\<rparr>"
  let ?rows = "filter (\<lambda>s. rls_visible d c (sTenantID s) \<and> session_matches opts s) (sessions d)"
  have all: "after_cursor ?p sCreatedAt sID = (\<lambda>_. True)" by (auto simp: after_cursor_def)
  have items: "lrItems res = take 1 (ordered_rows session_col sID ?p ?rows)"
    using assms by (auto simp: listSessions_def session_page default_opts_def defaultLimit_def
        list_rows_items all Let_def)
  then show ?thesis by (auto simp: filter_empty_conv)
qed

lemma runnerClaimed_False:
  assumes "run_state (runnerClaimed c rid) w = (Inr False, w')"
  shows "w' = tick w" "\<not> live_owner (w_db w) c rid s"
proof -
  obtain res where l: "listSessions c (list_all_sessions\<lparr>lsoBase := default_opts\<lparr>loLimit := 1\<rparr>,
      lsoRunnerID := Some rid, lsoStatus := liveSessionStatuses\<rparr>) (w_db w) = Inr res"
    and empty: "lrItems res = []" and w': "w' = tick w"
    using assms by (auto simp: runnerClaimed_def ListSessions_def run_query_Inr split: prod.splits sum.splits)
  show "w' = tick w" by (rule w')
  from listSessions_limit1 [OF l] empty show "\<not> live_owner (w_db w) c rid s"
    by (auto simp: live_owner_def session_matches_def any_of_def list_all_sessions_def)
qed

lemma sm_claimRunner_True:
  assumes "run_state (sm_claimRunner c rid sid) w = (True, w')"
  shows "\<exists>at. claims (w_db w') rid = Some (sid, at)" "sessions (w_db w') = sessions (w_db w)"
    "multi_tenant (w_db w') = multi_tenant (w_db w)" "e_cfg w' = e_cfg w" "e_connected w' = e_connected w"
  using assms
  by (auto simp: sm_claimRunner_def ClaimRunner_def claimRunner_def exec_stmt_def Let_def
      split: option.splits sum.splits if_splits prod.splits)

definition suitable :: "world \<Rightarrow> Session \<Rightarrow> ProfileSelector option \<Rightarrow> Runner \<Rightarrow> bool" where
  "suitable w session selector runner \<longleftrightarrow>
     \<not> rTainted runner \<and> sameTenant (sTenantID session) (rTenantID runner) \<and>
     (\<forall>sel. selector = Some sel \<longrightarrow> set (selCapabilities sel) \<subseteq> set (rCapabilities runner)) \<and>
     (cfgConnManager (e_cfg w) \<longrightarrow> e_connected w (rID runner))"

lemma runner_suitable_run [simp]:
  "run_state (runner_suitable session selector runner) w = (suitable w session selector runner, w)"
  by (auto simp: runner_suitable_def suitable_def hasAllCapabilities_def list_all_iff split: option.splits)

lemma suitable_env:
  "e_cfg w' = e_cfg w \<Longrightarrow> e_connected w' = e_connected w \<Longrightarrow> suitable w' = suitable w"
  by (auto simp: suitable_def fun_eq_iff)

lemma select_from_spec:
  assumes "run_state (select_from c session sel rs) w = (Inr rid, w')"
  shows "\<exists>runner \<in> set rs. rID runner = rid \<and> suitable w session sel runner \<and>
     (\<exists>at. claims (w_db w') rid = Some (sID session, at)) \<and> (\<forall>s. \<not> live_owner (w_db w') c rid s)"
  using assms
proof (induction rs arbitrary: w)
  case (Cons runner rest)
  have more: ?case if "run_state (select_from c session sel rest) v = (Inr rid, w')"
    and "suitable v = suitable w" for v
    using Cons.IH [OF that(1)] that(2) by auto
  show ?case
  proof (cases "suitable w session sel runner")
    case False
    with Cons.prems more [of w] show ?thesis by simp
  next
    case True
    obtain won w1 where cl: "run_state (sm_claimRunner c (rID runner) (sID session)) w = (won, w1)"
      by (cases "run_state (sm_claimRunner c (rID runner) (sID session)) w")
    have env1: "env_kept w w1" by (rule env.respD [OF session_env.resp_helpers(1) cl])
    have s1: "suitable w1 = suitable w" using env_kept_simps [OF env1] by (intro suitable_env) auto
    show ?thesis
    proof (cases won)
      case False
      with Cons.prems True cl s1 more [of w1] show ?thesis by simp
    next
      case won: True
      obtain ow w2 where o: "run_state (runnerClaimed c (rID runner)) w1 = (ow, w2)"
        by (cases "run_state (runnerClaimed c (rID runner)) w1")
      show ?thesis
      proof (cases "ow = Inr False")
        case True
        with o have w2: "w2 = tick w1" and free: "\<And>s. \<not> live_owner (w_db w1) c (rID runner) s"
          using runnerClaimed_False by blast+
        have "rid = rID runner" "w' = w2"
          using Cons.prems \<open>suitable w session sel runner\<close> cl won o True by simp_all
        then show ?thesis
          using w2 free sm_claimRunner_True(1) [OF cl [unfolded won [THEN eqTrueI]]]
            \<open>suitable w session sel runner\<close> by auto
      next
        case False
        obtain w3 where rel: "run_state (sm_releaseRunnerClaim c (rID runner) (sID session)) w2 = ((), w3)"
          by (cases "run_state (sm_releaseRunnerClaim c (rID runner) (sID session)) w2") auto
        have "env_kept w1 w2" by (rule env.respD [OF session_env.resp_runner_suitable(2) o])
        moreover have "env_kept w2 w3" by (rule env.respD [OF session_env.resp_helpers(2) rel])
        ultimately have "env_kept w w3" using env1 by (blast intro: env.R_trans)
        then have "suitable w3 = suitable w" using env_kept_simps by (intro suitable_env) auto
        moreover have "run_state (select_from c session sel rest) w3 = (Inr rid, w')"
          using Cons.prems \<open>suitable w session sel runner\<close> cl won o False rel
          by (cases ow) (auto split: bool.splits)
        ultimately show ?thesis by (intro more)
      qed
    qed
  qed
qed simp

text \<open>
  C8. The runner chosen for a session is an idle, untainted runner of the session's tenant with
  every capability the profile asks for and an open connection; at the moment it is returned the
  session holds its claim and no live session visible to the caller owns it.
\<close>

theorem selectIdleRunner_sound:
  assumes "run_state (selectIdleRunner c session profile) w = (Inr rid, w')"
  shows "\<exists>runner \<in> set (runners (w_db w)). rID runner = rid \<and> rStatus runner = StatusIdle \<and>
     suitable w session (profileSelector profile) runner \<and>
     (\<exists>at. claims (w_db w') rid = Some (sID session, at)) \<and> (\<forall>s. \<not> live_owner (w_db w') c rid s)"
proof -
  let ?sel = "profileSelector profile"
  obtain res where res: "listRunners c (idle_runner_opts ?sel) (w_db w) = Inr res"
    and sel: "run_state (select_from c session ?sel (lrItems res)) (tick w) = (Inr rid, w')"
    using assms unfolding selectIdleRunner_def Let_def
    by (auto simp: ListRunners_def run_query_Inr split: prod.splits sum.splits)
  have "suitable (tick w) = suitable w" by (intro suitable_env) simp_all
  with select_from_spec [OF sel] obtain runner where
    r: "runner \<in> set (lrItems res)" "rID runner = rid" "suitable w session ?sel runner"
      "\<exists>at. claims (w_db w') rid = Some (sID session, at)" "\<forall>s. \<not> live_owner (w_db w') c rid s"
    by auto
  have "runner \<in> set (runners (w_db w)) \<and> runner_matches (idle_runner_opts ?sel) runner"
    using res r(1) by (auto simp: listRunners_def Let_def dest: subsetD [OF list_rows_subset] split: sum.splits)
  with r show ?thesis by (auto simp: runner_matches_def idle_runner_opts_def any_of_def)
qed

section \<open>Ensuring a runner\<close>

text \<open>An allocation that returns a runner did not reach the spawn.\<close>

lemma allocateRunner_kept:
  assumes "run_state (allocateRunner spawn c session) w = (Inr rid, w')"
  shows "row_kept x (w_db w) (w_db w')" "db_inv (w_db w) \<Longrightarrow> db_inv (w_db w')"
proof -
  let ?no = "\<lambda>_ _ _. ret False :: bool M"
  have same: "run_state (allocateRunner ?no c session) w = (Inr rid, w')"
    using assms by (auto simp: allocateRunner_def split: prod.splits option.splits sum.splits if_splits)
  show "row_kept x (w_db w) (w_db w')"
    by (rule others.respD [OF others.resp_allocateRunner same]) (rule others.resp_return)
  show "db_inv (w_db w) \<Longrightarrow> db_inv (w_db w')"
    using any_stmt.respD [OF session_db.resp_allocateRunner [OF any_stmt.resp_return] same] by simp
qed

text \<open>
  A session that is active but has lost its runner (the state \<open>DetachRunner\<close> leaves) never gets
  one from \<open>EnsureRunner\<close>: whatever runner is allocated, and whatever the spawn does, the call
  returns an error, since activation refuses an active session.
\<close>

theorem ensureRunner_cannot_repair_active_session:
  assumes inv: "db_inv (w_db w)" and look: "session_tbl.lookup c sid (w_db w) = Some session"
    and act: "sStatus session = SessionStatusActive" and none: "\<not> nonempty (sRunnerID session)"
  shows "\<exists>e w'. run_state (EnsureRunner spawn c sid) w = (Inl e, w')"
proof (rule ccontr)
  assume no: "\<not> ?thesis"
  then obtain s' w' where run: "run_state (EnsureRunner spawn c sid) w = (Inr s', w')"
    by (cases "run_state (EnsureRunner spawn c sid) w"; cases "fst (run_state (EnsureRunner spawn c sid) w)") auto
  obtain rid w1 w2 where alloc: "run_state (allocateRunner spawn c session) (tick w) = (Inr rid, w1)"
    and activate: "run_state (Activate c sid rid) w1 = (Inr (), w2)"
    using run look act none
    by (auto simp: EnsureRunner_def GetSession_def run_query_Inr defer_release_def
        split: prod.splits sum.splits if_splits)
  have kept: "row_kept sid (w_db (tick w)) (w_db w1)" and inv1: "db_inv (w_db w1)"
    using allocateRunner_kept [OF alloc] inv by simp_all
  have "session_tbl.lookup c sid (w_db w1) = Some session"
    using row_kept_lookup [OF kept _ inv1] inv look by simp
  with activate act show False
    by (rule_tac Activate_success_steps [OF activate]) (simp add: valid_transition_iff)
qed

end
