(* ===== verification/Availability.thy ===== *)
theory Availability
  imports Runner_Allocation
begin

text \<open>
  Progress: what the session manager achieves when the database answers. An activation on a free
  runner goes through, and the search for an idle runner finds one whenever a suitable runner is
  free.
\<close>

section \<open>Statements that succeed\<close>

lemma length_filter_conj: "length (filter (\<lambda>x. P x \<and> Q x) xs) \<le> length (filter Q xs)"
  by (induction xs) auto

lemma put_row_ids: "key r = k \<Longrightarrow> key ` set (put_row key k r rows) = key ` set rows"
  by (metis put_row_keys set_map)

lemma updateSession_succeeds:
  assumes "distinct (map sID (sessions d))" and "session_tbl.lookup c sid d = Some s"
    and "opt_match (suExpectedStatus u) (sStatus s)" and "session_check (apply_session_updates now u s)"
    and "\<not> active_runner_conflict (apply_session_updates now u s) (sessions d)"
    and "session_fk d (apply_session_updates now u s)"
    and "u\<lparr>suExpectedStatus := None\<rparr> \<noteq> no_session_updates"
  shows "updateSession now c sid u d =
     Inr ((), d\<lparr>sessions := put_row sID sid (apply_session_updates now u s) (sessions d)\<rparr>)"
proof -
  have s: "s \<in> set (sessions d)" "sID s = sid" "rls_visible d c (sTenantID s)"
    using session_tbl.lookup_SomeD [OF assms(2)] by auto
  have "find (\<lambda>s. sID s = sid \<and> opt_match (suExpectedStatus u) (sStatus s)
      \<and> rls_visible d c (sTenantID s)) (sessions d) = Some s"
    using s assms(1,3) by (intro find_unique_key [where key = sID]) auto
  with assms(4-7) show ?thesis by (simp add: updateSession_def Let_def)
qed

lemma run_WithTx_nofault:
  assumes "e_fault w = (\<lambda>_. None)" and "run_state body (tick w) = (Inr x, w1)" and "e_fault w1 = e_fault w"
  shows "run_state (WithTx body) w = (Inr x, tick w1)"
  using assms by (simp add: WithTx_def exec_stmt_def Let_def)

text \<open>A claim on a runner nobody else holds is won.\<close>

lemma sm_claimRunner_wins:
  assumes "e_fault w = (\<lambda>_. None)" and "runner_tbl.lookup c rid (w_db w) = Some runner"
    and "\<And>holder at. claims (w_db w) rid = Some (holder, at) \<Longrightarrow> holder = sid"
  shows "run_state (sm_claimRunner c rid sid) w = (True, (tick w)\<lparr>w_db := (w_db w)\<lparr>
     runners := put_row rID rid (runner\<lparr>rUpdatedAt := e_clock w (w_tick w)\<rparr>) (runners (w_db w)),
     claims := (claims (w_db w))(rid \<mapsto> (sid, e_clock w (w_tick w)))\<rparr>\<rparr>)"
  using assms
  by (simp add: sm_claimRunner_def ClaimRunner_def run_exec_stmt_nofault claimRunner_def Let_def
      runner_tbl.lookup_def claim_free_def split: option.splits)

lemma after_activation_total: "\<exists>w'. run_state (after_activation c session sid rid) w = (Inr (), w')"
  by (auto simp: after_activation_def split: prod.splits)

lemma listSessions_default:
  assumes "lsoBase opts = default_opts"
  shows "\<exists>res. listSessions c opts d = Inr res \<and> set (lrItems res) \<subseteq>
     {s \<in> set (sessions d). rls_visible d c (sTenantID s) \<and> session_matches opts s}"
  using assms list_rows_subset [of session_col sCreatedAt sID "defaultLimit (loLimit (lsoBase opts))" _
      "filter (\<lambda>s. rls_visible d c (sTenantID s) \<and> session_matches opts s) (sessions d)"]
  by (auto simp: listSessions_def session_page default_opts_def Let_def)

lemma detachSessionsFromRunner_nobody:
  assumes "e_fault w = (\<lambda>_. None)" and "\<forall>s \<in> set (sessions (w_db w)). \<not> active_on s rid"
  shows "run_state (detachSessionsFromRunner c rid sid) w = (Inr (), tick w)"
proof -
  from listSessions_default [of "active_on_opts rid" c "w_db w"] obtain res where
    res: "listSessions c (active_on_opts rid) (w_db w) = Inr res"
    and items: "set (lrItems res) \<subseteq> {s \<in> set (sessions (w_db w)). session_matches (active_on_opts rid) s}"
    by (auto simp: active_on_opts_def list_all_sessions_def)
  have "session_matches (active_on_opts rid) s \<Longrightarrow> active_on s rid" for s
    by (auto simp: session_matches_def active_on_opts_def list_all_sessions_def any_of_def active_on_def)
  with items assms(2) have "lrItems res = []" by (cases "lrItems res") auto
  then show ?thesis
    using assms(1) res by (simp add: detachSessionsFromRunner_def ListSessions_def run_query_nofault)
qed

section \<open>Activation\<close>

lemma Activate_nofault:
  assumes inv: "db_inv (w_db w)" and nf: "e_fault w = (\<lambda>_. None)" and rid: "rid \<noteq> []"
    and look: "session_tbl.lookup c sid (w_db w) = Some session"
    and rn: "runner_tbl.lookup c rid (w_db w) = Some runner"
    and st: "sStatus session \<in> {SessionStatusPending, SessionStatusResuming}"
    and idle: "rStatus runner = StatusIdle \<or> isResumeToSameRunner session rid"
    and ten: "sameTenant (sTenantID session) (rTenantID runner)"
    and claim: "\<And>holder at. claims (w_db w) rid = Some (holder, at) \<Longrightarrow> holder = sid"
    and free: "\<forall>s \<in> set (sessions (w_db w)). \<not> active_on s rid"
  shows "\<exists>w'. run_state (Activate c sid rid) w = (Inr (), w')"
proof -
  let ?w0 = "tick (tick w)"
  let ?rs = "put_row rID rid (runner\<lparr>rUpdatedAt := e_clock w (w_tick ?w0)\<rparr>) (runners (w_db w))"
  define w1 where "w1 = (tick ?w0)\<lparr>w_db := (w_db w)\<lparr>runners := ?rs,
     claims := (claims (w_db w))(rid \<mapsto> (sid, e_clock w (w_tick ?w0)))\<rparr>\<rparr>"
  have cl: "run_state (sm_claimRunner c rid sid) ?w0 = (True, w1)"
    using sm_claimRunner_wins [of ?w0 c rid runner sid] nf rn claim by (simp add: w1_def)
  have w1: "e_fault w1 = (\<lambda>_. None)" "sessions (w_db w1) = sessions (w_db w)"
    "session_tbl.lookup c sid (w_db w1) = Some session" "rID ` set (runners (w_db w1)) = rID ` set (runners (w_db w))"
    using nf look runner_tbl.lookup_SomeD [OF rn]
    by (auto simp: w1_def lookup_other_table put_row_ids)
  have inv1: "db_inv (w_db w1)" using activation_inv(1) [OF cl] inv by simp
  let ?now = "e_clock w1 (Suc (w_tick w1))"
  let ?u = "activate_updates session rid ?now"
  let ?s = "\<lambda>q. apply_session_updates q ?u session"
  have mem: "session \<in> set (sessions (w_db w1))" using session_tbl.lookup_SomeD [OF w1(3)] by blast
  have ok: "session_check session" "session_fk (w_db w1) session"
    using inv1 mem by (auto simp: db_inv_def sessions_ok_def)
  have "session_check (?s q)" for q
    using ok(1) by (simp add: session_check_def activate_updates_def apply_session_updates_def)
  moreover have "\<not> active_runner_conflict (?s q) (sessions (w_db w1))" for q
    using free rid by (auto simp: active_runner_conflict_def activate_updates_def list_ex_iff w1(2))
  moreover have "rid \<in> rID ` set (runners (w_db w1))"
    using runner_tbl.lookup_SomeD [OF rn] w1(4) by auto
  then have "session_fk (w_db w1) (?s q)" for q
    using ok(2) rid by (simp add: session_fk_def activate_updates_def apply_session_updates_def)
  moreover have nz: "?u\<lparr>suExpectedStatus := None\<rparr> \<noteq> no_session_updates"
    by (rule session_updates_nonzero) (simp add: activate_updates_def)
  ultimately have upd: "\<exists>d. updateSession q c sid ?u (w_db w1) = Inr ((), d)" for q
    using updateSession_succeeds [OF db_inv_keys(1) [OF inv1] w1(3), of ?u q]
    by (simp add: activate_updates_def)
  let ?w2 = "tick (tick w1)"
  obtain d where d: "updateSession (e_clock w1 (w_tick (tick ?w2))) c sid ?u (w_db w1) = Inr ((), d)"
    using upd by blast
  have "run_state (UpdateSession c sid ?u) (tick ?w2) = (Inr (), (tick (tick ?w2))\<lparr>w_db := d\<rparr>)"
    using d w1(1) by (simp add: UpdateSession_def run_exec_stmt_nofault)
  then obtain w3 where tx: "run_state (WithTx (UpdateSession c sid ?u)) ?w2 = (Inr (), w3)"
    using run_WithTx_nofault [of ?w2] w1(1) by fastforce
  obtain w4 where aft: "run_state (after_activation c session sid rid) w3 = (Inr (), w4)"
    using after_activation_total by blast
  have det: "run_state (detachSessionsFromRunner c rid sid) w1 = (Inr (), tick w1)"
    using detachSessionsFromRunner_nobody w1(1,2) free by simp
  have "run_state (GetSession c sid) w = (Inr session, tick w)"
    "run_state (GetRunner c rid) (tick w) = (Inr runner, ?w0)"
    using look rn nf by (simp_all add: GetSession_def GetRunner_def run_query_Inr)
  then show ?thesis
    using st idle ten cl det tx aft
    by (auto simp: Activate_def valid_transition_iff
        requireSameTenant_def defer_release_def split: prod.splits)
qed

text \<open>
  C9. Activation is available: when the database answers, a pending or resuming session is
  activated on any runner of its tenant that is idle (or its own previous runner), that no other
  session has claimed and that no session is active on.
\<close>

theorem activate_available:
  assumes "db_inv (w_db w)" and "e_fault w = (\<lambda>_. None)" and "rid \<noteq> []"
    and "session_tbl.lookup c sid (w_db w) = Some session"
    and "runner_tbl.lookup c rid (w_db w) = Some runner"
    and "sStatus session \<in> {SessionStatusPending, SessionStatusResuming}"
    and "rStatus runner = StatusIdle \<or> isResumeToSameRunner session rid"
    and "sameTenant (sTenantID session) (rTenantID runner)"
    and "claims (w_db w) rid = None" and "\<forall>s \<in> set (sessions (w_db w)). \<not> active_on s rid"
  shows "\<exists>w'. run_state (Activate c sid rid) w = (Inr (), w')"
  using assms by (intro Activate_nofault) auto

section \<open>The search for an idle runner\<close>

text \<open>The runner \<open>rid\<close> can be taken: it exists, no other session claimed it, none owns it.\<close>

definition runner_free :: "ctx \<Rightarrow> string \<Rightarrow> string \<Rightarrow> world \<Rightarrow> bool" where
  "runner_free c sid rid w \<longleftrightarrow> e_fault w = (\<lambda>_. None) \<and> (\<exists>r. runner_tbl.lookup c rid (w_db w) = Some r) \<and>
     (\<forall>holder at. claims (w_db w) rid = Some (holder, at) \<longrightarrow> holder = sid) \<and>
     (\<forall>s. \<not> live_owner (w_db w) c rid s)"

definition same_runner :: "string \<Rightarrow> db \<Rightarrow> db \<Rightarrow> bool" where
  "same_runner rid d d' \<longleftrightarrow> (\<forall>c. runner_tbl.lookup c rid d' = runner_tbl.lookup c rid d) \<and>
     claims d' rid = claims d rid \<and> sessions d' = sessions d \<and> multi_tenant d' = multi_tenant d"

lemma claim_statements_frame:
  "claimRunner now c r0 sid lease d = Inr (b, d') \<Longrightarrow> r0 \<noteq> rid \<Longrightarrow> same_runner rid d d'"
  "releaseRunnerClaim now c r0 sid d = Inr (u, d') \<Longrightarrow> r0 \<noteq> rid \<Longrightarrow> same_runner rid d d'"
  by (auto simp: same_runner_def claimRunner_def releaseRunnerClaim_def Let_def find_Some_iff
      runner_tbl.lookup_put_other split: option.splits if_splits)

lemma live_owner_cong:
  "sessions d' = sessions d \<Longrightarrow> multi_tenant d' = multi_tenant d \<Longrightarrow> live_owner d' c rid s = live_owner d c rid s"
  using rls_visible_cong [of d' d] by (simp add: live_owner_def)

lemma runner_free_cong:
  assumes "runner_free c sid rid w" and "same_runner rid (w_db w) (w_db w')" and "e_fault w' = e_fault w"
  shows "runner_free c sid rid w'"
  using assms live_owner_cong [of "w_db w'" "w_db w"] by (simp add: runner_free_def same_runner_def)

lemma runner_free_kept:
  assumes "runner_free c sid rid w" and "r0 \<noteq> rid"
  shows "run_state (sm_claimRunner c r0 x) w = (b, w') \<Longrightarrow> runner_free c sid rid w'"
    and "run_state (sm_releaseRunnerClaim c r0 x) w = (u, w') \<Longrightarrow> runner_free c sid rid w'"
    and "runner_free c sid rid (tick w)"
proof -
  have nf: "e_fault w = (\<lambda>_. None)" using assms(1) by (simp add: runner_free_def)
  have refl: "same_runner rid (w_db w) (w_db w)" by (simp add: same_runner_def)
  then show "runner_free c sid rid (tick w)" using runner_free_cong [OF assms(1)] by simp
  show "runner_free c sid rid w'" if "run_state (sm_claimRunner c r0 x) w = (b, w')"
  proof (rule runner_free_cong [OF assms(1)])
    show "same_runner rid (w_db w) (w_db w')"
      using that nf refl claim_statements_frame(1) [OF _ assms(2)]
      by (auto simp: sm_claimRunner_def ClaimRunner_def run_exec_stmt_nofault split: sum.splits prod.splits)
    show "e_fault w' = e_fault w"
      using env_kept_simps(1) [OF env.respD [OF session_env.resp_helpers(1) that]] .
  qed
  show "runner_free c sid rid w'" if "run_state (sm_releaseRunnerClaim c r0 x) w = (u, w')"
  proof (rule runner_free_cong [OF assms(1)])
    show "same_runner rid (w_db w) (w_db w')"
      using that nf refl claim_statements_frame(2) [OF _ assms(2)]
      by (auto simp: sm_releaseRunnerClaim_def ReleaseRunnerClaim_def run_exec_stmt_nofault
          split: sum.splits prod.splits if_splits)
    show "e_fault w' = e_fault w"
      using env_kept_simps(1) [OF env.respD [OF session_env.resp_helpers(2) that]] .
  qed
qed

lemma runnerClaimed_free:
  assumes "e_fault w = (\<lambda>_. None)" and "\<And>s. \<not> live_owner (w_db w) c rid s"
  shows "run_state (runnerClaimed c rid) w = (Inr False, tick w)"
proof -
  let ?opts = "list_all_sessions\<lparr>lsoBase := default_opts\<lparr>loLimit := 1\<rparr>, lsoRunnerID := Some rid,
    lsoStatus := liveSessionStatuses\<rparr>"
  obtain res where l: "listSessions c ?opts (w_db w) = Inr res"
    by (auto simp: listSessions_def session_page default_opts_def Let_def)
  have "session_matches ?opts s \<longleftrightarrow> sRunnerID s = Some rid \<and> sStatus s \<in> set liveSessionStatuses" for s
    by (auto simp: session_matches_def any_of_def list_all_sessions_def liveSessionStatuses_def)
  with listSessions_limit1 [OF l] assms have "lrItems res = []"
    by (auto simp: live_owner_def)
  then show ?thesis
    using l assms(1) by (simp add: runnerClaimed_def ListSessions_def run_query_nofault)
qed

lemma select_from_complete:
  assumes "runner_free c (sID session) (rID runner) w" and "runner \<in> set rs"
    and "suitable w session sel runner"
  shows "\<exists>rid w'. run_state (select_from c session sel rs) w = (Inr rid, w')"
  using assms
proof (induction rs arbitrary: w)
  case (Cons r0 rest)
  let ?sid = "sID session"
  obtain won w1 where cl: "run_state (sm_claimRunner c (rID r0) ?sid) w = (won, w1)"
    by (cases "run_state (sm_claimRunner c (rID r0) ?sid) w")
  have env1: "env_kept w w1" by (rule env.respD [OF session_env.resp_helpers(1) cl])
  show ?case
  proof (cases "rID r0 = rID runner \<and> suitable w session sel r0")
    case True
    then have won: "run_state (sm_claimRunner c (rID r0) ?sid) w = (True, w1)"
      using sm_claimRunner_wins [of w c "rID r0" _ ?sid] Cons.prems(1) cl by (auto simp: runner_free_def)
    have "\<not> live_owner (w_db w1) c (rID r0) s" for s
      using live_owner_cong [OF sm_claimRunner_True(2,3) [OF won]] Cons.prems(1) True
      by (simp add: runner_free_def)
    moreover have "e_fault w1 = (\<lambda>_. None)"
      using env_kept_simps(1) [OF env1] Cons.prems(1) by (simp add: runner_free_def)
    ultimately show ?thesis using runnerClaimed_free [of w1 c "rID r0"] True won by simp
  next
    case False
    then have other: "rID r0 \<noteq> rID runner" if "suitable w session sel r0" using that by blast
    have go: ?thesis if "run_state (select_from c session sel (r0 # rest)) w = run_state (select_from c session sel rest) v"
      and "runner_free c ?sid (rID runner) v" and "env_kept w v" for v
    proof -
      have "suitable v = suitable w" using env_kept_simps [OF that(3)] by (intro suitable_env) auto
      moreover have "runner \<in> set rest" using Cons.prems(2,3) False by auto
      ultimately show ?thesis using Cons.IH [OF that(2)] Cons.prems(3) that(1) by simp
    qed
    show ?thesis
    proof (cases "suitable w session sel r0")
      case False
      then show ?thesis using Cons.prems(1) env.R_refl by (intro go [of w]) simp_all
    next
      case fits: True
      have free1: "runner_free c ?sid (rID runner) w1"
        using runner_free_kept(1) [OF Cons.prems(1) other [OF fits] cl] .
      obtain ow where o: "run_state (runnerClaimed c (rID r0)) w1 = (ow, tick w1)"
        using snd_run_query [of _ w1]
        by (cases "run_state (runnerClaimed c (rID r0)) w1")
          (auto simp: runnerClaimed_def ListSessions_def run_query_Inr dest: run_query_Inl split: prod.splits sum.splits)
      obtain w3 where rel: "run_state (sm_releaseRunnerClaim c (rID r0) ?sid) (tick w1) = ((), w3)"
        by (cases "run_state (sm_releaseRunnerClaim c (rID r0) ?sid) (tick w1)") auto
      have "runner_free c ?sid (rID runner) w3"
        using runner_free_kept(2) [OF runner_free_kept(3) [OF free1 other [OF fits]] other [OF fits] rel] .
      moreover have "env_kept w1 (tick w1)" by (rule env.respD [OF session_env.resp_runner_suitable(2) o])
      then have "env_kept w w3"
        using env1 env.respD [OF session_env.resp_helpers(2) rel] by (blast intro: env.R_trans)
      ultimately show ?thesis
        using fits cl o rel free1 env1 go [of w1] go [of w3]
        by (cases won; cases ow) (auto split: bool.splits)
    qed
  qed
qed simp

lemma selectIdleRunner_finds:
  assumes nf: "e_fault w = (\<lambda>_. None)" and inv: "db_inv (w_db w)"
    and r: "runner \<in> set (runners (w_db w))" "rls_visible (w_db w) c (rTenantID runner)"
    and fits: "runner_matches (idle_runner_opts (profileSelector profile)) runner"
      "suitable w session (profileSelector profile) runner"
    and free: "claims (w_db w) (rID runner) = None" "\<And>s. \<not> live_owner (w_db w) c (rID runner) s"
    and batch: "int (length (filter (runner_matches (idle_runner_opts (profileSelector profile)))
       (runners (w_db w)))) \<le> runnerSelectionBatch"
  shows "\<exists>rid w'. run_state (selectIdleRunner c session profile) w = (Inr rid, w')"
proof -
  let ?sel = "profileSelector profile"
  let ?opts = "idle_runner_opts ?sel"
  let ?rows = "filter (\<lambda>r. rls_visible (w_db w) c (rTenantID r) \<and> runner_matches ?opts r) (runners (w_db w))"
  obtain res where res: "listRunners c ?opts (w_db w) = Inr res" and items: "set (lrItems res) = set ?rows"
  proof -
    let ?p = "\<lparr>lpColumn = ''created_at'', lpDesc = False, lpCondition = None, lpCursorable = True\<rparr>"
    have p: "page runnerSortColumns (lnoBase ?opts) = Inr ?p" and lim: "defaultLimit (loLimit (lnoBase ?opts)) = 100"
      by (simp_all add: idle_runner_opts_def default_opts_def page_def runnerSortColumns_def
          defaultLimit_def runnerSelectionBatch_def Let_def)
    have "length ?rows \<le> length (filter (runner_matches ?opts) (runners (w_db w)))"
      by (rule length_filter_conj)
    then have "length ?rows \<le> nat 100" using batch by (simp add: runnerSelectionBatch_def)
    moreover have "after_cursor ?p rCreatedAt rID x" for x :: Runner by (simp add: after_cursor_def)
    ultimately have "lrItems (list_rows runner_col rCreatedAt rID 100 ?p ?rows) = ordered_rows runner_col rID ?p ?rows"
      by (simp add: list_rows_items)
    then show ?thesis using that [of "list_rows runner_col rCreatedAt rID 100 ?p ?rows"]
      by (simp add: listRunners_def p lim Let_def)
  qed
  have "runner_tbl.lookup c (rID runner) (w_db w) = Some runner"
    using runner_tbl.lookup_unique [OF db_inv_keys(4) [OF inv] r(1) refl] r(2) by simp
  then have "runner_free c (sID session) (rID runner) w" using nf free by (simp add: runner_free_def)
  then have "runner_free c (sID session) (rID runner) (tick w)"
    by (rule runner_free_cong) (simp_all add: same_runner_def)
  moreover have "runner \<in> set (lrItems res)" using items r fits(1) by simp
  moreover have "suitable (tick w) session ?sel runner"
    using suitable_env [of "tick w" w] fits(2) by simp
  ultimately have "\<exists>rid w'. run_state (select_from c session ?sel (lrItems res)) (tick w) = (Inr rid, w')"
    by (rule select_from_complete)
  then show ?thesis using res nf
    by (auto simp: selectIdleRunner_def ListRunners_def run_query_nofault Let_def)
qed

text \<open>
  C10. The search for an idle runner is complete: when the database answers and at most
  \<open>runnerSelectionBatch\<close> runners of the table are idle and match the profile's labels, a session gets
  a runner whenever one of them, visible to the caller, is suitable (untainted, of the session's
  tenant, with the profile's capabilities, connected where connections are known), unclaimed and
  owned by no live session visible to the caller.
\<close>

theorem selectIdleRunner_complete:
  assumes nf: "e_fault w = (\<lambda>_. None)" and inv: "db_inv (w_db w)"
    and r: "runner \<in> set (runners (w_db w))" "rls_visible (w_db w) c (rTenantID runner)"
    and fits: "runner_matches (idle_runner_opts (profileSelector profile)) runner"
      "suitable w session (profileSelector profile) runner"
    and free: "claims (w_db w) (rID runner) = None" "\<And>s. \<not> live_owner (w_db w) c (rID runner) s"
    and batch: "int (length (filter (runner_matches (idle_runner_opts (profileSelector profile)))
       (runners (w_db w)))) \<le> runnerSelectionBatch"
  shows "\<exists>rid w'. run_state (selectIdleRunner c session profile) w = (Inr rid, w')"
  by (rule selectIdleRunner_finds [OF assms])

end
