(* ===== verification/Sample.thy ===== *)
theory Sample
  imports Task_Queue Availability Context_Snapshot Store_Paging
begin

text \<open>
  A small concrete deployment the witnesses evaluate: one workspace, two runners, an active, a
  suspended and a pending session, a few tasks and a permission request. \<open>sample_world\<close> delivers
  every command and has no fault; its variants change one answer of the environment.
\<close>

definition sample_session :: "string \<Rightarrow> string \<Rightarrow> string option \<Rightarrow> Session" where
  "sample_session i st r =
    \<lparr>sID = i, sName = None, sStatus = st, sRunnerID = r, sWorkspaceID = ''ws-1'', sProfileID = None,
     sAgent = ''claude'', sIsBYOK = False, sAgentConfigID = None, sAgentConfigMetadata = None,
     sContextSnapshot = None, sAgentVersion = None, sSuspendStrategy = None,
     sSuspendSnapshotID = None, sSuspendWorkspaceSynced = None, sWorkspaceManifestID = None,
     sPreviousRunnerID = None, sNetworkPolicy = ''none'', sAllowedHosts = [],
     sLifecycleMode = ''on_demand'', sIdleTimeoutSeconds = None, sMaxLifetimeSeconds = None,
     sScheduleCron = None, sScheduleTimezone = None, sNextScheduledAt = None, sTenantID = None,
     sLabels = JObj [], sAnnotations = JObj [], sLastActivityAt = None, sSuspendedAt = None,
     sResumedAt = None, sCreatedAt = 1, sUpdatedAt = 1\<rparr>"

definition sample_runner :: "string \<Rightarrow> string \<Rightarrow> Runner" where
  "sample_runner i st =
    \<lparr>rID = i, rName = i, rHostname = ''host'', rStatus = st, rTainted = False, rTaintReason = None,
     rSandboxMode = ''none'', rSandboxTypes = [], rProviderConfigID = None,
     rProviderInstanceID = None, rPoolName = None, rProfileID = None, rCapabilities = [],
     rTenantID = None, rLabels = JObj [], rAnnotations = JObj [], rLastSeenAt = Some 1,
     rCreatedAt = 1, rUpdatedAt = 1\<rparr>"

definition sample_task :: "string \<Rightarrow> string \<Rightarrow> string \<Rightarrow> int \<Rightarrow> Task" where
  "sample_task i sid st created =
    \<lparr>tID = i, tSessionID = sid, tPrompt = ''do it'', tStatus = st, tMaxRetries = 2, tRetryCount = 0,
     tTimeoutSeconds = 3600, tTenantID = None, tLabels = JObj [], tAnnotations = JObj [],
     tNextDispatchAfter = None, tDispatchAttempts = 0, tDispatchParkedReason = None,
     tCreatedAt = created, tUpdatedAt = created\<rparr>"

definition sample_run :: "string \<Rightarrow> string \<Rightarrow> int \<Rightarrow> string \<Rightarrow> TaskRun" where
  "sample_run i tid n st =
    \<lparr>trID = i, trTaskID = tid, trAttempt = n, trRunnerID = Some ''run-1'', trStatus = st,
     trError = None, trExitCode = None, trTokensInput = None, trTokensOutput = None,
     trTenantID = None, trQueuedAt = 5, trAssignedAt = None, trStartedAt = Some 5, trEndedAt = None,
     trUpdatedAt = 5\<rparr>"

definition sample_db :: db where
  "sample_db =
    \<lparr>sessions = [sample_session ''s-1'' SessionStatusActive (Some ''run-1''),
        sample_session ''s-2'' SessionStatusSuspended None,
        sample_session ''s-3'' SessionStatusPending None],
     tasks = [sample_task ''t-2'' ''s-1'' TaskStatusPending 20, sample_task ''t-1'' ''s-1'' TaskStatusPending 10,
        sample_task ''t-3'' ''s-2'' TaskStatusRunning 15],
     task_runs = [sample_run ''tr-3'' ''t-3'' 1 TaskRunStatusRunning],
     runners = [sample_runner ''run-1'' StatusBusy, sample_runner ''run-2'' StatusIdle],
     claims = Map.empty, permission_requests = [],
     workspaces = [\<lparr>wsID = ''ws-1'', wsName = ''w'', wsPersist = True, wsMobility = ''local'',
        wsTenantID = None, wsDeletedAt = None\<rparr>],
     provider_configs = [], agent_configs = [], profiles = [], multi_tenant = False\<rparr>"

definition sample_config :: config where
  "sample_config = \<lparr>cfgAudit = True, cfgWebhooks = True, cfgCmdSender = True, cfgTaskManager = True,
     cfgSessionManager = True, cfgWaker = True, cfgConnManager = True, cfgWorkspaceManager = True,
     cfgProviderRegistry = False\<rparr>"

definition sample_world :: world where
  "sample_world =
    \<lparr>w_db = sample_db, w_tick = 0, w_sent = [], w_unacked = [], w_jobs = [], w_log = [], e_cfg = sample_config,
     e_fault = (\<lambda>_. None), e_clock = (\<lambda>t. 1000 + int t), e_id = (\<lambda>t. ''id-'' @ show_nat t),
     e_rand = (\<lambda>t. int t), e_send = (\<lambda>_. None), e_lost = (\<lambda>_. False), e_bg = (\<lambda>_. True), e_connected = (\<lambda>_. True),
     e_provider = (\<lambda>_. None), e_provider_err = (\<lambda>_. None),
     e_suspend = (\<lambda>_. \<lparr>srStrategy = ''pause'', srSnapshotID = [], srWorkspaceSynced = False\<rparr>),
     e_acquire = (\<lambda>_. []), e_base_dir = ''/data'', e_os_err = (\<lambda>_. None)\<rparr>"

definition undelivered_world :: world where
  "undelivered_world = sample_world\<lparr>e_send := (\<lambda>_. Some ''no stream'')\<rparr>"

text \<open>A claim held on the idle runner, and an active session whose runner was detached.\<close>

definition claimed_db :: db where
  "claimed_db = sample_db\<lparr>claims := [''run-2'' \<mapsto> (''s-3'', 490)]\<rparr>"

definition detached_db :: db where
  "detached_db = sample_db\<lparr>sessions := [sample_session ''s-1'' SessionStatusActive None,
     sample_session ''s-2'' SessionStatusSuspended None]\<rparr>"

definition detached_world :: world where
  "detached_world = sample_world\<lparr>w_db := detached_db\<rparr>"

lemmas sample_rows = sample_session_def sample_runner_def sample_task_def sample_run_def

lemmas sample_inv_defs = db_inv_def inv_defs sample_db_def sample_rows session_check_def task_check_def
  task_run_check_def runner_check_def session_fk_def task_run_fk_def runner_fk_def active_on_def
  runner_name_conflict_def

lemma sample_db_inv: "db_inv sample_db"
  by (auto simp: sample_inv_defs)

lemma claimed_db_inv: "db_inv claimed_db"
  by (auto simp: claimed_db_def sample_inv_defs split: if_splits)

lemma detached_db_inv: "db_inv detached_db"
  by (auto simp: detached_db_def sample_inv_defs)

lemma sample_w_db [simp]: "w_db sample_world = sample_db" "w_db undelivered_world = sample_db"
  by (simp_all add: sample_world_def undelivered_world_def)

text \<open>Evaluating a handler: it returned a value, or this error.\<close>

lemma returned: "\<not> isl (fst (run_state m w)) \<Longrightarrow> \<exists>x w'. run_state m w = (Inr x, w')"
  by (cases "run_state m w"; cases "fst (run_state m w)") auto

lemma failed: "isl (fst (run_state m w)) \<Longrightarrow> \<exists>e w'. run_state m w = (Inl e, w')"
  by (cases "run_state m w"; cases "fst (run_state m w)") auto

lemma sample_dispatch_ok: "\<not> isl (fst (run_state (dispatch 6 app_ctx ''t-1'' False) sample_world))"
  by code_simp

lemma sample_dispatch_unsent:
  "fst (run_state (dispatch 6 app_ctx ''t-1'' False) undelivered_world) = Inl (ErrSend ''no stream'')"
  by code_simp

text \<open>The pending session gets the idle runner.\<close>

lemma sample_lookups:
  "session_tbl.lookup app_ctx ''s-3'' sample_db = Some (sample_session ''s-3'' SessionStatusPending None)"
  "runner_tbl.lookup app_ctx ''run-2'' sample_db = Some (sample_runner ''run-2'' StatusIdle)"
  by (simp_all add: session_tbl.lookup_def runner_tbl.lookup_def sample_db_def sample_rows)

lemma sample_nofault: "e_fault sample_world = (\<lambda>_. None)" "e_fault undelivered_world = (\<lambda>_. None)"
  by (simp_all add: sample_world_def undelivered_world_def)

lemma sample_run2_free:
  "claims sample_db ''run-2'' = None" "\<forall>s \<in> set (sessions sample_db). \<not> active_on s ''run-2''"
  "\<not> live_owner sample_db app_ctx ''run-2'' s"
  by (auto simp: sample_db_def sample_rows active_on_def live_owner_def)

lemma sample_run2_fits:
  "sStatus (sample_session ''s-3'' SessionStatusPending None) \<in> {SessionStatusPending, SessionStatusResuming}"
  "rStatus (sample_runner ''run-2'' StatusIdle) = StatusIdle"
  "sameTenant (sTenantID (sample_session ''s-3'' SessionStatusPending None)) (rTenantID (sample_runner ''run-2'' StatusIdle))"
  by (simp_all add: sample_rows sameTenant_def)

lemma sample_activation: "\<exists>w'. run_state (Activate app_ctx ''s-3'' ''run-2'') sample_world = (Inr (), w')"
  using sample_lookups sample_db_inv sample_nofault sample_run2_free sample_run2_fits
  by (intro Activate_nofault) auto

lemma sample_idle_runner:
  "sample_runner ''run-2'' StatusIdle \<in> set (runners (w_db sample_world))"
  "runner_matches (idle_runner_opts (profileSelector None)) (sample_runner ''run-2'' StatusIdle)"
  "suitable sample_world (sample_session ''s-3'' SessionStatusPending None) (profileSelector None)
     (sample_runner ''run-2'' StatusIdle)"
  "int (length (filter (runner_matches (idle_runner_opts (profileSelector None))) (runners (w_db sample_world))))
     \<le> runnerSelectionBatch"
  by (simp_all add: sample_db_def sample_rows runner_matches_def idle_runner_opts_def profileSelector_def any_of_def
      suitable_def sample_world_def sample_config_def sameTenant_def runnerSelectionBatch_def)

lemma sample_selection:
  "\<exists>rid w'. run_state (selectIdleRunner app_ctx (sample_session ''s-3'' SessionStatusPending None) None) sample_world
     = (Inr rid, w')"
  by (rule selectIdleRunner_finds [OF sample_nofault(1) _ sample_idle_runner(1) _ sample_idle_runner(2,3) _ _ sample_idle_runner(4)])
    (use sample_db_inv sample_run2_free in \<open>auto simp: sample_runner_def\<close>)

end
