(* ===== verification/Cas_Types.thy ===== *)
theory Cas_Types
  imports Prelude "HOL-Library.Word"
begin

text \<open>
  Data of the content addressed storage, \<^verbatim>\<open>pkg/storage/cas\<close>: manifests and their entries
  (\<^verbatim>\<open>types.go\<close>), the configuration (\<^verbatim>\<open>config.go\<close>), the errors (\<^verbatim>\<open>errors.go\<close>) and the comparison of
  two manifests (\<^verbatim>\<open>diff.go\<close>). File modes are 32 bit words; sizes and times are integers; an
  optional string (\<^verbatim>\<open>*string\<close>) is an \<open>option\<close>.
\<close>

unbundle bit_operations_syntax

type_synonym bytes = "8 word list"

section \<open>Errors\<close>

datatype cas_error =
    EOF
  | ErrUnexpectedEOF
  | ErrVarintOverflow
  | ErrManifestCorrupt cas_error
  | ErrFrameLength
  | ErrChunkNotFound
  | ErrManifestNotFound
  | ErrChunkCorrupted
  | ErrInvalidManifest
  | ErrManifestNil
  | ErrAlreadyCommitted
  | ErrFileClosed
  | ChunksMissingError "string list"
  | PathTraversalError string
  | ErrStorageNotFound
  | ErrEnv nat
  | ErrWrapped string cas_error

text \<open>\<^verbatim>\<open>errors.Is(err, target)\<close> for the sentinel values: it looks through every wrapping.\<close>

fun errors_Is :: "cas_error \<Rightarrow> cas_error \<Rightarrow> bool" where
  "errors_Is (ErrWrapped s e) t \<longleftrightarrow> ErrWrapped s e = t \<or> errors_Is e t"
| "errors_Is (ErrManifestCorrupt e) t \<longleftrightarrow> ErrManifestCorrupt e = t \<or> errors_Is e t"
| "errors_Is e t \<longleftrightarrow> e = t"

section \<open>Manifests\<close>

record ManifestFile =
  mfPath :: string
  mfMode :: "32 word"
  mfModTime :: int
  mfSize :: int
  mfChunks :: "string list"
  mfChunkSizes :: "int list"
  mfType :: string
  mfLink :: string

definition EntryFile :: string where "EntryFile = ''''"
definition EntryDir :: string where "EntryDir = ''d''"
definition EntrySymlink :: string where "EntrySymlink = ''l''"

lemmas entry_kinds = EntryFile_def EntryDir_def EntrySymlink_def

definition IsDir :: "ManifestFile \<Rightarrow> bool" where "IsDir f \<longleftrightarrow> mfType f = EntryDir"
definition IsSymlink :: "ManifestFile \<Rightarrow> bool" where "IsSymlink f \<longleftrightarrow> mfType f = EntrySymlink"
definition IsRegular :: "ManifestFile \<Rightarrow> bool" where "IsRegular f \<longleftrightarrow> mfType f = EntryFile"

record Manifest =
  mID :: string
  mWorkspaceID :: string
  mParentID :: "string option"
  mTenantID :: string
  mCreatedAt :: int
  mTotalSize :: int
  mSingleChunk :: bool
  mChunkHash :: "string option"
  mChunkCount :: int
  mOrdered :: bool
  mFileCount :: int
  mFiles :: "ManifestFile list"

record ManifestHeader =
  hID :: string
  hWorkspaceID :: string
  hParentID :: string
  hTenantID :: string
  hCreatedAt :: int
  hTotalSize :: int
  hChunkCount :: int
  hSingleChunk :: bool
  hChunkHash :: string
  hOrdered :: bool
  hFileCount :: int

definition ToHeader :: "Manifest \<Rightarrow> ManifestHeader" where
  "ToHeader m =
     \<lparr>hID = mID m, hWorkspaceID = mWorkspaceID m,
      hParentID = (case mParentID m of Some p \<Rightarrow> p | None \<Rightarrow> ''''),
      hTenantID = mTenantID m, hCreatedAt = mCreatedAt m, hTotalSize = mTotalSize m,
      hChunkCount = mChunkCount m, hSingleChunk = mSingleChunk m,
      hChunkHash = (case mChunkHash m of Some h \<Rightarrow> h | None \<Rightarrow> ''''),
      hOrdered = mOrdered m, hFileCount = mFileCount m\<rparr>"

definition FromHeader :: "ManifestHeader \<Rightarrow> Manifest" where
  "FromHeader h =
     \<lparr>mID = hID h, mWorkspaceID = hWorkspaceID h,
      mParentID = (if hParentID h \<noteq> '''' then Some (hParentID h) else None),
      mTenantID = hTenantID h, mCreatedAt = hCreatedAt h, mTotalSize = hTotalSize h,
      mSingleChunk = hSingleChunk h,
      mChunkHash = (if hChunkHash h \<noteq> '''' then Some (hChunkHash h) else None),
      mChunkCount = hChunkCount h, mOrdered = hOrdered h, mFileCount = hFileCount h,
      mFiles = []\<rparr>"

text \<open>The loop with a \<^verbatim>\<open>seen\<close> set that keeps the first occurrence of every hash.\<close>

fun collect_unseen :: "string list \<Rightarrow> string list \<Rightarrow> string list" where
  "collect_unseen [] hashes = hashes"
| "collect_unseen (h # hs) hashes =
     collect_unseen hs (if h \<in> set hashes then hashes else hashes @ [h])"

definition CollectChunkHashes :: "Manifest \<Rightarrow> string list" where
  "CollectChunkHashes m =
     (case mChunkHash m of
        Some h \<Rightarrow> if mSingleChunk m then [h] else collect_unseen (concat (map mfChunks (mFiles m))) []
      | None \<Rightarrow> collect_unseen (concat (map mfChunks (mFiles m))) [])"

record ChunkRef =
  crHash :: string
  crSize :: int

definition ChunkRefs :: "ManifestFile \<Rightarrow> ChunkRef list" where
  "ChunkRefs f =
     map (\<lambda>i. \<lparr>crHash = mfChunks f ! i,
               crSize = (if i < length (mfChunkSizes f) then mfChunkSizes f ! i else 0)\<rparr>)
       [0..<length (mfChunks f)]"

lemma collect_unseen_set: "set (collect_unseen hs acc) = set acc \<union> set hs"
  by (induction hs acc rule: collect_unseen.induct) auto

lemma collect_unseen_distinct: "distinct acc \<Longrightarrow> distinct (collect_unseen hs acc)"
  by (induction hs acc rule: collect_unseen.induct) auto

lemma CollectChunkHashes_files:
  assumes "\<not> mSingleChunk m"
  shows "set (CollectChunkHashes m) = (\<Union>f\<in>set (mFiles m). set (mfChunks f))"
    and "distinct (CollectChunkHashes m)"
  using assms
  by (auto simp: CollectChunkHashes_def collect_unseen_set collect_unseen_distinct
      split: option.splits)

lemma length_ChunkRefs [simp]: "length (ChunkRefs f) = length (mfChunks f)"
  by (simp add: ChunkRefs_def)

lemma ChunkRefs_hashes: "map crHash (ChunkRefs f) = mfChunks f"
  by (simp add: ChunkRefs_def comp_def map_nth)

lemma ChunkRefs_sizes:
  "length (mfChunkSizes f) = length (mfChunks f) \<Longrightarrow> map crSize (ChunkRefs f) = mfChunkSizes f"
  by (auto simp: ChunkRefs_def intro: nth_equalityI)

text \<open>
  The header loses the entry list and nothing else, except that a pointer to the empty string
  becomes a nil pointer.
\<close>

lemma FromHeader_ToHeader:
  assumes "mParentID m \<noteq> Some ''''" and "mChunkHash m \<noteq> Some ''''"
  shows "FromHeader (ToHeader m) = m\<lparr>mFiles := []\<rparr>"
  using assms by (cases m) (auto simp: FromHeader_def ToHeader_def split: option.splits)

lemma ToHeader_FromHeader: "ToHeader (FromHeader h) = h"
  by (cases h) (simp add: FromHeader_def ToHeader_def)

section \<open>Configuration\<close>

record ChunkerConfig =
  ccMinSize :: nat
  ccMaxSize :: nat
  ccTargetSize :: nat

definition DefaultChunkerConfig :: ChunkerConfig where
  "DefaultChunkerConfig =
     \<lparr>ccMinSize = 512 * 1024, ccMaxSize = 8 * 1024 * 1024, ccTargetSize = 1 * 1024 * 1024\<rparr>"

definition CDCModeAuto :: string where "CDCModeAuto = ''auto''"
definition CDCModeAlways :: string where "CDCModeAlways = ''always''"
definition CDCModeNever :: string where "CDCModeNever = ''never''"

record Config =
  cfgChunker :: ChunkerConfig
  cfgCDCThreshold :: int
  cfgCDCMode :: string
  cfgMaxSeenChunks :: int
  cfgTempDir :: string
  cfgMaxConcurrency :: int
  cfgCompressLevel :: int

definition DefaultConfig :: Config where
  "DefaultConfig =
     \<lparr>cfgChunker = DefaultChunkerConfig, cfgCDCThreshold = 100 * 1024 * 1024,
      cfgCDCMode = CDCModeAuto, cfgMaxSeenChunks = 1048576, cfgTempDir = ''/tmp/marionette-cas'',
      cfgMaxConcurrency = 10, cfgCompressLevel = 3\<rparr>"

definition WithDefaults :: "Config \<Rightarrow> Config" where
  "WithDefaults c =
     (let d = DefaultConfig; k = cfgChunker c; e = DefaultChunkerConfig in
      \<lparr>cfgChunker =
         \<lparr>ccMinSize = (if ccMinSize k = 0 then ccMinSize e else ccMinSize k),
          ccMaxSize = (if ccMaxSize k = 0 then ccMaxSize e else ccMaxSize k),
          ccTargetSize = (if ccTargetSize k = 0 then ccTargetSize e else ccTargetSize k)\<rparr>,
       cfgCDCThreshold = (if cfgCDCThreshold c = 0 then cfgCDCThreshold d else cfgCDCThreshold c),
       cfgCDCMode = (if cfgCDCMode c = '''' then cfgCDCMode d else cfgCDCMode c),
       cfgMaxSeenChunks =
         (if cfgMaxSeenChunks c = 0 then cfgMaxSeenChunks d else cfgMaxSeenChunks c),
       cfgTempDir = (if cfgTempDir c = '''' then cfgTempDir d else cfgTempDir c),
       cfgMaxConcurrency =
         (if cfgMaxConcurrency c = 0 then cfgMaxConcurrency d else cfgMaxConcurrency c),
       cfgCompressLevel =
         (if cfgCompressLevel c = 0 then cfgCompressLevel d else cfgCompressLevel c)\<rparr>)"

definition useCDC :: "Config \<Rightarrow> int \<Rightarrow> bool" where
  "useCDC c totalSize =
     (if cfgCDCMode c = CDCModeAlways then True
      else if cfgCDCMode c = CDCModeNever then False
      else totalSize \<ge> cfgCDCThreshold c)"

section \<open>Comparing manifests\<close>

record DiffResult =
  dAdded :: "string list"
  dModified :: "string list"
  dDeleted :: "string list"
  dUnchanged :: "string list"

definition empty_diff :: DiffResult where
  "empty_diff = \<lparr>dAdded = [], dModified = [], dDeleted = [], dUnchanged = []\<rparr>"

definition IsEmpty :: "DiffResult \<Rightarrow> bool" where
  "IsEmpty d \<longleftrightarrow> dAdded d = [] \<and> dModified d = [] \<and> dDeleted d = []"

definition TotalChanges :: "DiffResult \<Rightarrow> nat" where
  "TotalChanges d = length (dAdded d) + length (dModified d) + length (dDeleted d)"

fun chunksEqual :: "string list \<Rightarrow> string list \<Rightarrow> bool" where
  "chunksEqual [] [] \<longleftrightarrow> True"
| "chunksEqual (a # as) (b # bs) \<longleftrightarrow> a = b \<and> chunksEqual as bs"
| "chunksEqual _ _ \<longleftrightarrow> False"

text \<open>\<^verbatim>\<open>byPath[f.Path] = f\<close> for every entry in turn: the last entry of a path wins.\<close>

definition index_files :: "ManifestFile list \<Rightarrow> string \<rightharpoonup> ManifestFile" where
  "index_files fs = fold (\<lambda>f m. m(mfPath f \<mapsto> f)) fs Map.empty"

text \<open>
  A \<^verbatim>\<open>range\<close> over a Go map visits the keys in an unspecified order: \<open>order\<close> lists the keys of a
  map in the order of this run.
\<close>

fun diff_new :: "(string \<rightharpoonup> ManifestFile) \<Rightarrow> (string \<rightharpoonup> ManifestFile) \<Rightarrow> string list \<Rightarrow>
    DiffResult \<Rightarrow> DiffResult" where
  "diff_new old new [] d = d"
| "diff_new old new (p # ps) d =
     diff_new old new ps
       (case (old p, new p) of
          (None, _) \<Rightarrow> d\<lparr>dAdded := dAdded d @ [p]\<rparr>
        | (Some a, Some b) \<Rightarrow>
            if \<not> chunksEqual (mfChunks a) (mfChunks b) then d\<lparr>dModified := dModified d @ [p]\<rparr>
            else d\<lparr>dUnchanged := dUnchanged d @ [p]\<rparr>
        | (Some a, None) \<Rightarrow> d)"

definition DiffManifests ::
    "(string list \<Rightarrow> string list) \<Rightarrow> Manifest option \<Rightarrow> Manifest \<Rightarrow> DiffResult" where
  "DiffManifests order oldManifest newManifest =
     (let olds = (case oldManifest of None \<Rightarrow> [] | Some m \<Rightarrow> mFiles m);
          oldFiles = index_files olds;
          newFiles = index_files (mFiles newManifest);
          d = diff_new oldFiles newFiles (order (remdups (map mfPath (mFiles newManifest)))) empty_diff
      in d\<lparr>dDeleted := filter (\<lambda>p. newFiles p = None) (order (remdups (map mfPath olds)))\<rparr>)"

lemma chunksEqual_iff [simp]: "chunksEqual as bs \<longleftrightarrow> as = bs"
  by (induction as bs rule: chunksEqual.induct) auto

lemma index_files_snoc: "index_files (fs @ [f]) = (index_files fs)(mfPath f \<mapsto> f)"
  by (simp add: index_files_def)

lemma dom_index_files: "dom (index_files fs) = mfPath ` set fs"
proof (induction fs rule: rev_induct)
  case Nil
  then show ?case by (simp add: index_files_def)
next
  case (snoc x xs)
  then show ?case unfolding index_files_snoc dom_fun_upd by simp
qed

lemma index_files_distinct:
  "distinct (map mfPath fs) \<Longrightarrow> f \<in> set fs \<Longrightarrow> index_files fs (mfPath f) = Some f"
  by (induction fs rule: rev_induct) (auto simp: index_files_snoc image_iff)

lemma index_files_Some_in: "index_files fs p = Some f \<Longrightarrow> f \<in> set fs \<and> mfPath f = p"
proof (induction fs rule: rev_induct)
  case Nil
  then show ?case by (simp add: index_files_def)
next
  case (snoc x xs)
  then show ?case by (auto simp: index_files_snoc split: if_splits)
qed

lemma diff_new_filters:
  assumes "\<And>p. p \<in> set ps \<Longrightarrow> new p \<noteq> None"
  shows "diff_new old new ps d =
     d\<lparr>dAdded := dAdded d @ filter (\<lambda>p. old p = None) ps,
       dModified := dModified d @ filter (\<lambda>p. old p \<noteq> None \<and>
          mfChunks (the (old p)) \<noteq> mfChunks (the (new p))) ps,
       dUnchanged := dUnchanged d @ filter (\<lambda>p. old p \<noteq> None \<and>
          mfChunks (the (old p)) = mfChunks (the (new p))) ps\<rparr>"
  using assms
proof (induction ps arbitrary: d)
  case Nil
  then show ?case by simp
next
  case (Cons p ps)
  then have *: "new p \<noteq> None" by simp
  then obtain b where "new p = Some b" by auto
  with Cons show ?case by (cases "old p") auto
qed

lemma DiffManifests_eq:
  assumes ord: "\<And>xs. set (order xs) = set xs"
  shows "DiffManifests order oldM newM =
    (let old = index_files (case oldM of None \<Rightarrow> [] | Some m \<Rightarrow> mFiles m);
         new = index_files (mFiles newM);
         ps = order (remdups (map mfPath (mFiles newM)));
         qs = order (remdups (map mfPath (case oldM of None \<Rightarrow> [] | Some m \<Rightarrow> mFiles m)))
     in \<lparr>dAdded = filter (\<lambda>p. old p = None) ps,
         dModified = filter (\<lambda>p. old p \<noteq> None \<and> mfChunks (the (old p)) \<noteq> mfChunks (the (new p))) ps,
         dDeleted = filter (\<lambda>p. new p = None) qs,
         dUnchanged = filter (\<lambda>p. old p \<noteq> None \<and> mfChunks (the (old p)) = mfChunks (the (new p))) ps\<rparr>)"
proof -
  have "index_files (mFiles newM) p \<noteq> None" if "p \<in> set (order (remdups (map mfPath (mFiles newM))))" for p
    using that ord dom_index_files[of "mFiles newM"] by (auto simp: dom_def)
  then show ?thesis
    by (simp add: DiffManifests_def Let_def diff_new_filters empty_diff_def)
qed

section \<open>Uploading what is missing\<close>

record ChunkInfo =
  ciHash :: string
  ciSize :: int
  ciData :: bytes

definition CollectNewChunks :: "ChunkInfo list list \<Rightarrow> string \<rightharpoonup> bytes" where
  "CollectNewChunks fileChunks =
     fold (\<lambda>c m. case m (ciHash c) of Some _ \<Rightarrow> m | None \<Rightarrow> m(ciHash c \<mapsto> ciData c))
       (concat fileChunks) Map.empty"

definition ChunksToUpload ::
    "(string \<rightharpoonup> bytes) \<Rightarrow> (string \<Rightarrow> bool) \<Rightarrow> string \<rightharpoonup> bytes" where
  "ChunksToUpload required existing = (\<lambda>h. if existing h then None else required h)"

end
