(* ===== verification/Cas_Frames.thy ===== *)
theory Cas_Frames
  imports Cas_Types
begin

text \<open>
  The manifest objects of \<^verbatim>\<open>pkg/storage/cas\<close>: the framed encoding written by
  \<^verbatim>\<open>ManifestObjectWriter\<close> and read by \<^verbatim>\<open>ManifestEntries\<close> (\<^verbatim>\<open>manifest_stream.go\<close>), the original
  single-buffer encoding (\<^verbatim>\<open>manifest.go\<close>) and the blob storage they live in (\<^verbatim>\<open>storage.go\<close>).

  The encryptor, zstd, the JSON text of a header or an entry and the hash are parameters of the
  environment \<open>cas_env\<close>; so are the failures of the storage and of the spool file. Reading ends
  after the bytes the storage delivered, with end of file or with an error.
\<close>

section \<open>Environment\<close>

record cas_env =
  ce_Encrypt :: "nat \<Rightarrow> string \<Rightarrow> bytes \<Rightarrow> cas_error + bytes"
  ce_Decrypt :: "string \<Rightarrow> bytes \<Rightarrow> cas_error + bytes"
  ce_EncodeAll :: "bytes \<Rightarrow> bytes"
  ce_DecodeAll :: "bytes \<Rightarrow> cas_error + bytes"
  ce_MarshalHeader :: "ManifestHeader \<Rightarrow> cas_error + bytes"
  ce_UnmarshalHeader :: "bytes \<Rightarrow> cas_error + ManifestHeader"
  ce_MarshalFile :: "ManifestFile \<Rightarrow> cas_error + bytes"
  ce_UnmarshalFile :: "bytes \<Rightarrow> cas_error + ManifestFile"
  ce_HashData :: "bytes \<Rightarrow> string"
  ce_split :: "ChunkerConfig \<Rightarrow> bytes \<Rightarrow> bytes list"
  ce_fault :: "nat \<Rightarrow> cas_error option"
  ce_landed :: "nat \<Rightarrow> bool"
  ce_short :: "nat \<Rightarrow> nat"
  ce_read :: "nat \<Rightarrow> (nat \<times> cas_error) option"
  ce_tempDir :: string

text \<open>
  \<open>ce_fault t\<close> is the failure of the operation with number \<open>t\<close>; a failed upload or delete may
  nevertheless have taken effect (\<open>ce_landed\<close>), a failed spool write may have written a prefix
  (\<open>ce_short\<close>), and a download may break off after some bytes (\<open>ce_read\<close>).
\<close>

record cas_world =
  cw_blobs :: "string \<rightharpoonup> bytes"
  cw_tick :: nat
  cw_env :: cas_env

type_synonym 'a C = "(cas_world, cas_error + 'a) state"

definition cas_tick :: "(cas_world, nat \<times> cas_env) state" where
  "cas_tick = State (\<lambda>w. ((cw_tick w, cw_env w), w\<lparr>cw_tick := Suc (cw_tick w)\<rparr>))"

definition cas_op :: "string \<Rightarrow> unit C" where
  "cas_op what = do {
     (t, env) \<leftarrow> cas_tick;
     (case ce_fault env t of Some e \<Rightarrow> err (ErrWrapped what e) | None \<Rightarrow> ok ()) }"

section \<open>Blob storage\<close>

definition storage_Upload :: "string \<Rightarrow> bytes \<Rightarrow> unit C" where
  "storage_Upload key data = State (\<lambda>w.
     let t = cw_tick w; env = cw_env w; w' = w\<lparr>cw_tick := Suc t\<rparr>;
         stored = w'\<lparr>cw_blobs := (cw_blobs w)(key \<mapsto> data)\<rparr>
     in case ce_fault env t of
          Some e \<Rightarrow> (Inl e, if ce_landed env t then stored else w')
        | None \<Rightarrow> (Inr (), stored))"

definition storage_Download :: "string \<Rightarrow> (bytes \<times> cas_error option) C" where
  "storage_Download key = State (\<lambda>w.
     let t = cw_tick w; env = cw_env w; w' = w\<lparr>cw_tick := Suc t\<rparr>
     in case ce_fault env t of
          Some e \<Rightarrow> (Inl e, w')
        | None \<Rightarrow>
            (case cw_blobs w key of
               None \<Rightarrow> (Inl ErrStorageNotFound, w')
             | Some data \<Rightarrow>
                 (case ce_read env t of
                    None \<Rightarrow> (Inr (data, None), w')
                  | Some (n, e) \<Rightarrow> (Inr (take n data, Some e), w'))))"

definition storage_Delete :: "string \<Rightarrow> unit C" where
  "storage_Delete key = State (\<lambda>w.
     let t = cw_tick w; env = cw_env w; w' = w\<lparr>cw_tick := Suc t\<rparr>;
         gone = w'\<lparr>cw_blobs := (cw_blobs w)(key := None)\<rparr>
     in case ce_fault env t of
          Some e \<Rightarrow> (Inl e, if ce_landed env t then gone else w')
        | None \<Rightarrow> (Inr (), gone))"

definition storage_Exists :: "string \<Rightarrow> bool C" where
  "storage_Exists key = State (\<lambda>w.
     let t = cw_tick w; w' = w\<lparr>cw_tick := Suc t\<rparr>
     in case ce_fault (cw_env w) t of
          Some e \<Rightarrow> (Inl e, w')
        | None \<Rightarrow> (Inr (cw_blobs w key \<noteq> None), w'))"

section \<open>Variable length integers (\<^verbatim>\<open>encoding/binary\<close>)\<close>

function PutUvarint :: "64 word \<Rightarrow> bytes" where
  "PutUvarint x =
     (if x \<ge> 0x80 then (ucast x OR 0x80) # PutUvarint (drop_bit 7 x) else [ucast x])"
  by auto
termination
proof (relation "measure unat")
  show "wf (measure (unat :: 64 word \<Rightarrow> nat))" by simp
next
  fix x :: "64 word"
  assume "0x80 \<le> x"
  then have "unat x > 0" using unat_gt_0[of x] by (auto simp: word_le_nat_alt)
  then show "(drop_bit 7 x, x) \<in> measure unat"
    by (simp only: in_measure unat_drop_bit_eq) (simp add: drop_bit_eq_div)
qed

declare PutUvarint.simps [simp del]

definition MaxVarintLen64 :: nat where "MaxVarintLen64 = 10"

text \<open>
  The loop of \<^verbatim>\<open>ReadUvarint\<close> at index \<open>i\<close> with \<open>x\<close> read so far. \<open>at_end\<close> is what the reader says
  after its last byte. The result is paired with the bytes left unread.
\<close>

fun ReadUvarint_from :: "nat \<Rightarrow> 64 word \<Rightarrow> cas_error option \<Rightarrow> bytes \<Rightarrow> (cas_error + 64 word) \<times> bytes" where
  "ReadUvarint_from i x at_end [] =
     (if MaxVarintLen64 \<le> i then (Inl ErrVarintOverflow, [])
      else (case at_end of
              Some e \<Rightarrow> (Inl e, [])
            | None \<Rightarrow> (Inl (if i > 0 then ErrUnexpectedEOF else EOF), [])))"
| "ReadUvarint_from i x at_end (b # br) =
     (if MaxVarintLen64 \<le> i then (Inl ErrVarintOverflow, b # br)
      else if b < 0x80 then
        (if i = MaxVarintLen64 - 1 \<and> b > 1 then (Inl ErrVarintOverflow, br)
         else (Inr (x OR push_bit (7 * i) (ucast b)), br))
      else ReadUvarint_from (Suc i) (x OR push_bit (7 * i) (ucast (b AND 0x7f))) at_end br)"

definition ReadUvarint :: "cas_error option \<Rightarrow> bytes \<Rightarrow> (cas_error + 64 word) \<times> bytes" where
  "ReadUvarint = ReadUvarint_from 0 0"

section \<open>Writing\<close>

definition str_bytes :: "string \<Rightarrow> bytes" where
  "str_bytes s = map (\<lambda>c. of_nat (of_char c)) s"

definition newline :: "8 word" where "newline = 10"

definition framedMagic :: bytes where
  "framedMagic = str_bytes ''MFSTF1'' @ [newline]"

definition DefaultManifestFrameSize :: nat where
  "DefaultManifestFrameSize = 4 * 1024 * 1024"

definition maxFrameCiphertext :: nat where
  "maxFrameCiphertext = 256 * 1024 * 1024"

definition manifestKey :: "string \<Rightarrow> string \<Rightarrow> string \<Rightarrow> string" where
  "manifestKey tenantID workspaceID manifestID =
     ''manifests/'' @ tenantID @ ''/'' @ workspaceID @ ''/'' @ manifestID @ ''.jsonl.zst.enc''"

record ManifestObjectWriter =
  owManifest :: Manifest
  owFrameSize :: nat
  owSpool :: bytes
  owClosed :: bool
  owPending :: bytes
  owEntries :: nat
  owCommitted :: bool

definition OpenManifestWriter :: "Manifest option \<Rightarrow> ManifestObjectWriter C" where
  "OpenManifestWriter manifest =
     (case manifest of
        None \<Rightarrow> err ErrManifestNil
      | Some m \<Rightarrow> do {
          (t, env) \<leftarrow> cas_tick;
          guard_ok (if ce_tempDir env \<noteq> '''' then cas_op ''failed to create manifest spool directory''
                    else ok ()) (\<lambda>_.
          guard_ok (cas_op ''failed to create manifest spool'') (\<lambda>_.
            ok \<lparr>owManifest = m, owFrameSize = DefaultManifestFrameSize, owSpool = [],
                owClosed = False, owPending = [], owEntries = 0, owCommitted = False\<rparr>)) })"

definition sealFrame :: "ManifestObjectWriter \<Rightarrow> bytes \<Rightarrow> bytes C" where
  "sealFrame w plain = do {
     (t, env) \<leftarrow> cas_tick;
     (case ce_Encrypt env t (mTenantID (owManifest w)) plain of
        Inl e \<Rightarrow> err (ErrWrapped ''failed to encrypt manifest frame'' e)
      | Inr sealed \<Rightarrow> ok (PutUvarint (of_nat (length sealed)) @ sealed)) }"

text \<open>The writer is returned with the result: its buffers change even when an error is returned.\<close>

definition spool_write :: "ManifestObjectWriter \<Rightarrow> bytes \<Rightarrow>
    (cas_world, ManifestObjectWriter \<times> (cas_error + unit)) state" where
  "spool_write w frame = do {
     (t, env) \<leftarrow> cas_tick;
     ret (if owClosed w then (w, Inl (ErrWrapped ''failed to spool manifest frame'' ErrFileClosed))
          else case ce_fault env t of
             Some e \<Rightarrow> (w\<lparr>owSpool := owSpool w @ take (ce_short env t) frame\<rparr>,
                        Inl (ErrWrapped ''failed to spool manifest frame'' e))
           | None \<Rightarrow> (w\<lparr>owSpool := owSpool w @ frame\<rparr>, Inr ())) }"

definition flushFrame :: "ManifestObjectWriter \<Rightarrow>
    (cas_world, ManifestObjectWriter \<times> (cas_error + unit)) state" where
  "flushFrame w =
     (if owPending w = [] then ret (w, Inr ())
      else do {
        r \<leftarrow> sealFrame w (owPending w);
        (case r of
           Inl e \<Rightarrow> ret (w, Inl e)
         | Inr frame \<Rightarrow> spool_write (w\<lparr>owPending := []\<rparr>) frame) })"

definition Append :: "ManifestFile \<Rightarrow> ManifestObjectWriter \<Rightarrow>
    (cas_world, ManifestObjectWriter \<times> (cas_error + unit)) state" where
  "Append entry w = do {
     (t, env) \<leftarrow> cas_tick;
     (case ce_MarshalFile env entry of
        Inl e \<Rightarrow> ret (w, Inl (ErrWrapped ''failed to marshal manifest entry'' e))
      | Inr line \<Rightarrow>
          (let w1 = w\<lparr>owPending := owPending w @ line @ [newline], owEntries := owEntries w + 1\<rparr>
           in if length (owPending w1) \<ge> owFrameSize w1 then flushFrame w1
              else ret (w1, Inr ()))) }"

text \<open>\<^verbatim>\<open>Commit\<close> from the header on, after the last frame was spooled.\<close>

definition upload_object :: "ManifestObjectWriter \<Rightarrow> unit C" where
  "upload_object w = do {
     (t, env) \<leftarrow> cas_tick;
     (let m = owManifest w;
          header = (ToHeader m)\<lparr>hOrdered := mOrdered m, hFileCount := int (owEntries w)\<rparr>
      in case ce_MarshalHeader env header of
           Inl e \<Rightarrow> err (ErrWrapped ''failed to marshal manifest header'' e)
         | Inr headerLine \<Rightarrow>
             guard_ok (sealFrame w (headerLine @ [newline])) (\<lambda>headerFrame.
             guard_ok (if owClosed w then err (ErrWrapped ''failed to rewind manifest spool'' ErrFileClosed)
                       else cas_op ''failed to rewind manifest spool'') (\<lambda>_.
             map_err (ErrWrapped ''failed to upload manifest'')
               (storage_Upload (manifestKey (mTenantID m) (mWorkspaceID m) (mID m))
                  (framedMagic @ headerFrame @ owSpool w))))) }"

definition Commit :: "ManifestObjectWriter \<Rightarrow>
    (cas_world, ManifestObjectWriter \<times> (cas_error + unit)) state" where
  "Commit w =
     (if owCommitted w then ret (w, Inl ErrAlreadyCommitted)
      else do {
        (w1, flushed) \<leftarrow> flushFrame w;
        (case flushed of
           Inl e \<Rightarrow> ret (w1\<lparr>owClosed := True\<rparr>, Inl e)
         | Inr _ \<Rightarrow> do {
             r \<leftarrow> upload_object w1;
             ret (case r of
                    Inl e \<Rightarrow> (w1\<lparr>owClosed := True\<rparr>, Inl e)
                  | Inr _ \<Rightarrow> (w1\<lparr>owClosed := True, owCommitted := True,
                                owManifest := (owManifest w1)\<lparr>mFileCount := int (owEntries w1)\<rparr>\<rparr>,
                             Inr ())) }) })"

definition Abort :: "ManifestObjectWriter \<Rightarrow> ManifestObjectWriter" where
  "Abort w = w\<lparr>owClosed := True\<rparr>"

section \<open>Reading\<close>

record ManifestEntries =
  meHeader :: ManifestHeader
  meBr :: bytes
  meEnd :: "cas_error option"
  meFramed :: bool
  meFrame :: bytes
  meTenant :: string

definition zero_header :: ManifestHeader where
  "zero_header =
     \<lparr>hID = '''', hWorkspaceID = '''', hParentID = '''', hTenantID = '''', hCreatedAt = 0,
      hTotalSize = 0, hChunkCount = 0, hSingleChunk = False, hChunkHash = '''', hOrdered = False,
      hFileCount = 0\<rparr>"

definition readFrame :: "cas_env \<Rightarrow> ManifestEntries \<Rightarrow> (cas_error + unit) \<times> ManifestEntries" where
  "readFrame env e =
     (case ReadUvarint (meEnd e) (meBr e) of
        (Inl x, br) \<Rightarrow>
          (if errors_Is x EOF then (Inl EOF, e\<lparr>meBr := br\<rparr>)
           else (Inl (ErrManifestCorrupt x), e\<lparr>meBr := br\<rparr>))
      | (Inr sz, br) \<Rightarrow>
          if sz = 0 \<or> sz > of_nat maxFrameCiphertext
          then (Inl (ErrManifestCorrupt ErrFrameLength), e\<lparr>meBr := br\<rparr>)
          else if length br < unat sz then
            (Inl (ErrManifestCorrupt (case meEnd e of
                Some x \<Rightarrow> x
              | None \<Rightarrow> if br = [] then EOF else ErrUnexpectedEOF)), e\<lparr>meBr := []\<rparr>)
          else
            (case ce_Decrypt env (meTenant e) (take (unat sz) br) of
               Inl x \<Rightarrow> (Inl (ErrWrapped ''failed to decrypt manifest frame'' x),
                         e\<lparr>meBr := drop (unat sz) br\<rparr>)
             | Inr plain \<Rightarrow> (Inr (), e\<lparr>meBr := drop (unat sz) br, meFrame := plain\<rparr>)))"

lemma ReadUvarint_from_shorter:
  "ReadUvarint_from i x at_end br = (Inr v, br') \<Longrightarrow> length br' < length br"
  by (induction i x at_end br rule: ReadUvarint_from.induct) (auto split: if_splits option.splits)

lemma readFrame_shorter:
  "readFrame env e = (Inr (), e') \<Longrightarrow> length (meBr e') < length (meBr e)"
  by (auto simp: readFrame_def ReadUvarint_def split: prod.splits sum.splits if_splits
      dest!: ReadUvarint_from_shorter)

lemma tl_dropWhile_shorter: "xs \<noteq> [] \<Longrightarrow> length (tl (dropWhile P xs)) < length xs"
  using length_dropWhile_le[of P xs] by (cases xs) auto

function nextLine :: "cas_env \<Rightarrow> ManifestEntries \<Rightarrow> (cas_error + bytes) \<times> ManifestEntries" where
  "nextLine env e =
     (if meFrame e \<noteq> [] then
        (if newline \<notin> set (meFrame e) then (Inr (meFrame e), e\<lparr>meFrame := []\<rparr>)
         else
           let line = takeWhile (\<lambda>b. b \<noteq> newline) (meFrame e);
               e1 = e\<lparr>meFrame := tl (dropWhile (\<lambda>b. b \<noteq> newline) (meFrame e))\<rparr>
           in if line = [] then nextLine env e1 else (Inr line, e1))
      else if \<not> meFramed e then (Inl EOF, e)
      else (case readFrame env e of
              (Inl x, e1) \<Rightarrow> (Inl x, e1)
            | (Inr _, e1) \<Rightarrow> nextLine env e1))"
  by pat_completeness auto

termination
proof (relation "measures [\<lambda>(env, e). length (meBr e), \<lambda>(env, e). length (meFrame e)]")
qed (use tl_dropWhile_shorter readFrame_shorter in force)+

declare nextLine.simps [simp del]

definition Next :: "cas_env \<Rightarrow> ManifestEntries \<Rightarrow> (cas_error + ManifestFile) \<times> ManifestEntries" where
  "Next env e =
     (case nextLine env e of
        (Inl x, e1) \<Rightarrow> (Inl x, e1)
      | (Inr line, e1) \<Rightarrow>
          (case ce_UnmarshalFile env line of
             Inl x \<Rightarrow> (Inl (ErrWrapped ''failed to parse manifest entry'' x), e1)
           | Inr entry \<Rightarrow> (Inr entry, e1)))"

definition loadLegacy :: "cas_env \<Rightarrow> ManifestEntries \<Rightarrow> cas_error + ManifestEntries" where
  "loadLegacy env e =
     (case meEnd e of
        Some x \<Rightarrow> Inl (ErrWrapped ''failed to read manifest'' x)
      | None \<Rightarrow>
          (case ce_Decrypt env (meTenant e) (meBr e) of
             Inl x \<Rightarrow> Inl (ErrWrapped ''failed to decrypt manifest'' x)
           | Inr compressed \<Rightarrow>
               (case ce_DecodeAll env compressed of
                  Inl x \<Rightarrow> Inl (ErrWrapped ''failed to decompress manifest'' x)
                | Inr plain \<Rightarrow> Inr (e\<lparr>meBr := [], meFrame := plain\<rparr>))))"

text \<open>Everything of \<^verbatim>\<open>OpenManifest\<close> after the download.\<close>

definition open_entries :: "cas_env \<Rightarrow> string \<Rightarrow> bytes \<times> cas_error option \<Rightarrow> cas_error + ManifestEntries" where
  "open_entries env tenantID obj =
     (let e0 = \<lparr>meHeader = zero_header,
                meBr = fst obj, meEnd = snd obj, meFramed = False, meFrame = [], meTenant = tenantID\<rparr>;
          framed = take (length framedMagic) (meBr e0) = framedMagic;
          opened = (if framed then Inr (e0\<lparr>meFramed := True, meBr := drop (length framedMagic) (meBr e0)\<rparr>)
                    else loadLegacy env e0)
      in case opened of
           Inl x \<Rightarrow> Inl x
         | Inr e1 \<Rightarrow>
             (case nextLine env e1 of
                (Inl x, _) \<Rightarrow> Inl (if errors_Is x EOF then ErrInvalidManifest else x)
              | (Inr line, e2) \<Rightarrow>
                  (case ce_UnmarshalHeader env line of
                     Inl x \<Rightarrow> Inl (ErrWrapped ''failed to parse manifest header'' x)
                   | Inr h \<Rightarrow> Inr (e2\<lparr>meHeader := h\<rparr>))))"

definition OpenManifest :: "string \<Rightarrow> string \<Rightarrow> string \<Rightarrow> ManifestEntries C" where
  "OpenManifest tenantID workspaceID manifestID = do {
     r \<leftarrow> storage_Download (manifestKey tenantID workspaceID manifestID);
     (t, env) \<leftarrow> cas_tick;
     (case r of
        Inl x \<Rightarrow> err (if errors_Is x ErrStorageNotFound then ErrManifestNotFound
                      else ErrWrapped ''failed to download manifest'' x)
      | Inr obj \<Rightarrow> ret (open_entries env tenantID obj)) }"

lemma nextLine_smaller:
  "nextLine env e = (Inr line, e') \<Longrightarrow>
     length (meBr e') < length (meBr e) \<or>
     (length (meBr e') = length (meBr e) \<and> length (meFrame e') < length (meFrame e))"
proof (induction env e rule: nextLine.induct)
  case (1 env e)
  show ?case
  proof (cases "meFrame e = []")
    case True
    with "1.prems" obtain e1 where "meFramed e" "readFrame env e = (Inr (), e1)" "nextLine env e1 = (Inr line, e')"
      by (auto simp: nextLine.simps[of env e] split: prod.splits sum.splits if_splits)
    with True "1.IH"(2)[of "Inr ()" e1 "()"] readFrame_shorter[of env e e1] show ?thesis by auto
  next
    case False
    note short = tl_dropWhile_shorter[OF False, of "\<lambda>b. b \<noteq> newline"]
    with False "1.prems" "1.IH"(1) show ?thesis
      by (auto simp: nextLine.simps[of env e] Let_def split: if_splits)
  qed
qed

lemma Next_smaller:
  "Next env e = (Inr f, e') \<Longrightarrow>
     length (meBr e') < length (meBr e) \<or>
     (length (meBr e') = length (meBr e) \<and> length (meFrame e') < length (meFrame e))"
  by (auto simp: Next_def split: prod.splits sum.splits dest: nextLine_smaller)

text \<open>The reading loop of \<^verbatim>\<open>LoadManifest\<close>; it stops at the first error and keeps it.\<close>

function read_entries :: "cas_env \<Rightarrow> ManifestEntries \<Rightarrow> ManifestFile list \<times> cas_error" where
  "read_entries env e =
     (case Next env e of
        (Inl x, _) \<Rightarrow> ([], x)
      | (Inr f, e1) \<Rightarrow> (case read_entries env e1 of (fs, x) \<Rightarrow> (f # fs, x)))"
  by pat_completeness auto
termination
  by (relation "measures [\<lambda>(env, e). length (meBr e), \<lambda>(env, e). length (meFrame e)]")
     (auto dest: Next_smaller[OF sym])

declare read_entries.simps [simp del]

definition LoadManifest :: "string \<Rightarrow> string \<Rightarrow> string \<Rightarrow> Manifest C" where
  "LoadManifest tenantID workspaceID manifestID =
     guard_ok (OpenManifest tenantID workspaceID manifestID) (\<lambda>entries. do {
       (t, env) \<leftarrow> cas_tick;
       (case read_entries env entries of
          (files, x) \<Rightarrow>
            if errors_Is x EOF
            then ok ((FromHeader (meHeader entries))\<lparr>mFiles := files\<rparr>)
            else err x) })"

section \<open>The single-buffer encoding\<close>

fun marshal_files :: "cas_env \<Rightarrow> ManifestFile list \<Rightarrow> cas_error + bytes" where
  "marshal_files env [] = Inr []"
| "marshal_files env (f # fs) =
     (case ce_MarshalFile env f of
        Inl x \<Rightarrow> Inl (ErrWrapped ''failed to marshal manifest file'' x)
      | Inr line \<Rightarrow>
          (case marshal_files env fs of
             Inl x \<Rightarrow> Inl x
           | Inr rest \<Rightarrow> Inr (line @ [newline] @ rest)))"

definition SaveManifest :: "Manifest \<Rightarrow> unit C" where
  "SaveManifest m = do {
     (t, env) \<leftarrow> cas_tick;
     (case ce_MarshalHeader env (ToHeader m) of
        Inl x \<Rightarrow> err (ErrWrapped ''failed to marshal manifest header'' x)
      | Inr headerBytes \<Rightarrow>
          (case marshal_files env (mFiles m) of
             Inl x \<Rightarrow> err x
           | Inr rest \<Rightarrow>
               (case ce_Encrypt env t (mTenantID m) (ce_EncodeAll env (headerBytes @ [newline] @ rest)) of
                  Inl x \<Rightarrow> err (ErrWrapped ''failed to encrypt manifest'' x)
                | Inr encrypted \<Rightarrow>
                    map_err (ErrWrapped ''failed to upload manifest'')
                      (storage_Upload (manifestKey (mTenantID m) (mWorkspaceID m) (mID m)) encrypted)))) }"

definition DeleteManifest :: "string \<Rightarrow> string \<Rightarrow> string \<Rightarrow> unit C" where
  "DeleteManifest tenantID workspaceID manifestID =
     storage_Delete (manifestKey tenantID workspaceID manifestID)"

end
