(* ===== verification/Cas_Frame_Laws.thy ===== *)
theory Cas_Frame_Laws
  imports Cas_Frames
begin

text \<open>
  The framed manifest encoding is lossless: variable length integers, frames, lines and whole
  objects are read back as they were written.
\<close>

section \<open>Variable length integers\<close>

lemma drop_high_bit: "(x OR 0x80) AND 0x7f = x AND (0x7f :: 8 word)"
  by (simp add: word_ao_dist)

lemma low_bits: "ucast ((ucast y OR 0x80) AND (0x7f :: 8 word)) OR push_bit 7 (drop_bit 7 y) = y"
  (is "?l = y") for y :: "64 word"
proof (rule bit_word_eqI)
  fix n assume n: "n < LENGTH(64)"
  have m: "(0x7f :: 8 word) = mask 7" by (simp add: mask_eq_exp_minus_1)
  show "bit ?l n \<longleftrightarrow> bit y n"
  proof (cases "n < 7")
    case True
    then show ?thesis unfolding drop_high_bit unfolding m by (simp add: bit_simps)
  next
    case False
    then have "7 + (n - 7) = n" by simp
    with False n show ?thesis unfolding drop_high_bit unfolding m by (simp add: bit_simps)
  qed
qed

lemma high_bit_not_less: "\<not> x OR (0x80 :: 8 word) < 0x80"
  using le_word_or1[of "0x80" x] by (simp add: leD)

lemma ucast_small:
  fixes y :: "64 word"
  assumes "y < 0x80"
  shows "ucast (ucast y :: 8 word) = y" and "(ucast y :: 8 word) < 0x80"
    and "unat (ucast y :: 8 word) = unat y"
proof -
  have "unat y < 128" using assms by (simp add: word_less_nat_alt)
  then show u: "unat (ucast y :: 8 word) = unat y" by (simp add: unsigned_ucast_eq take_bit_nat_eq_self)
  have "ucast (ucast y :: 8 word) = (of_nat (unat (ucast y :: 8 word)) :: 64 word)"
    by (simp only: of_nat_unat)
  with u show "ucast (ucast y :: 8 word) = y" by (simp only: of_nat_unat ucast_id)
  show "(ucast y :: 8 word) < 0x80"
    using u \<open>unat y < 128\<close> by (simp add: word_less_nat_alt)
qed

lemma ReadUvarint_from_PutUvarint:
  assumes "i < 10" and "unat y < 2 ^ (64 - 7 * i)"
  shows "ReadUvarint_from i x at_end (PutUvarint y @ rest) = (Inr (x OR push_bit (7 * i) y), rest)"
  using assms
proof (induction y arbitrary: i x rule: PutUvarint.induct)
  case (1 y)
  show ?case
  proof (cases "y \<ge> 0x80")
    case True
    then have "unat y \<ge> 128" by (simp add: word_le_nat_alt)
    then have i: "i < 9" using "1.prems" by (cases "i = 9") auto
    have "64 - 7 * i = 7 + (64 - 7 * Suc i)" using i by simp
    then have "2 ^ (64 - 7 * i) = (128 :: nat) * 2 ^ (64 - 7 * Suc i)" by (simp only: power_add) simp
    then have "unat y < 128 * 2 ^ (64 - 7 * Suc i)" using "1.prems"(2) by linarith
    then have "unat (drop_bit 7 y) < 2 ^ (64 - 7 * Suc i)"
      by (simp only: unat_drop_bit_eq) (simp add: drop_bit_eq_div less_mult_imp_div_less mult.commute)
    from "1.IH"[OF True _ this] i
    have IH: "ReadUvarint_from (Suc i) x' at_end (PutUvarint (drop_bit 7 y) @ rest) =
        (Inr (x' OR push_bit (7 * Suc i) (drop_bit 7 y)), rest)" for x' by simp
    have "push_bit (7 * Suc i) (drop_bit 7 y) = push_bit (7 * i) (push_bit 7 (drop_bit 7 y))"
      by (simp add: add.commute)
    then have "(x OR push_bit (7 * i) (ucast ((ucast y OR 0x80) AND (0x7f :: 8 word)))) OR
        push_bit (7 * Suc i) (drop_bit 7 y) =
        x OR push_bit (7 * i) (ucast ((ucast y OR 0x80) AND (0x7f :: 8 word)) OR push_bit 7 (drop_bit 7 y))"
      by (simp add: or.assoc push_bit_or)
    with IH True i show ?thesis
      unfolding low_bits PutUvarint.simps[of y]
      by (simp add: MaxVarintLen64_def high_bit_not_less)
  next
    case False
    then have small: "y < 0x80" by simp
    have "\<not> (i = 9 \<and> (ucast y :: 8 word) > 1)"
      using "1.prems"(2) ucast_small(3)[OF small] by (auto simp: word_less_nat_alt)
    with False "1.prems"(1) ucast_small[OF small] show ?thesis
      unfolding PutUvarint.simps[of y] by (simp add: MaxVarintLen64_def)
  qed
qed

lemma ReadUvarint_PutUvarint: "ReadUvarint at_end (PutUvarint y @ rest) = (Inr y, rest)"
proof -
  have "unat y < 2 ^ (64 - 7 * 0)" using unsigned_less[of y] by simp
  from ReadUvarint_from_PutUvarint[OF _ this] show ?thesis by (simp add: ReadUvarint_def)
qed


section \<open>Frames and lines\<close>

definition sealed_as :: "cas_env \<Rightarrow> string \<Rightarrow> bytes \<Rightarrow> bytes \<Rightarrow> bool" where
  "sealed_as env tenant s p \<longleftrightarrow>
     ce_Decrypt env tenant s = Inr p \<and> s \<noteq> [] \<and> length s \<le> maxFrameCiphertext"

definition frame_of :: "bytes \<Rightarrow> bytes" where
  "frame_of s = PutUvarint (of_nat (length s)) @ s"

definition spool_of :: "bytes list \<Rightarrow> bytes" where
  "spool_of ss = concat (map frame_of ss)"

definition text_of :: "bytes list \<Rightarrow> bytes" where
  "text_of ls = concat (map (\<lambda>l. l @ [newline]) ls)"

definition line_ok :: "bytes \<Rightarrow> bool" where
  "line_ok l \<longleftrightarrow> l \<noteq> [] \<and> newline \<notin> set l"

lemma spool_of_simps [simp]:
  "spool_of [] = []" "spool_of (s # ss) = frame_of s @ spool_of ss"
  "spool_of (ss @ ts) = spool_of ss @ spool_of ts"
  by (simp_all add: spool_of_def)

lemma text_of_simps [simp]:
  "text_of [] = []" "text_of (l # ls) = l @ newline # text_of ls"
  "text_of (ls @ ks) = text_of ls @ text_of ks"
  by (simp_all add: text_of_def)

lemma text_of_empty_iff [simp]: "text_of ls = [] \<longleftrightarrow> ls = []" "[] = text_of ls \<longleftrightarrow> ls = []"
  by (cases ls; simp)+

lemma first_line:
  assumes "newline \<notin> set l"
  shows "takeWhile (\<lambda>b. b \<noteq> newline) (l @ newline # r) = l"
    and "tl (dropWhile (\<lambda>b. b \<noteq> newline) (l @ newline # r)) = r"
  using assms by (induction l) auto

lemma maxFrame_fits: "maxFrameCiphertext < 2 ^ LENGTH(64)"
  by (simp add: maxFrameCiphertext_def)

lemma size_in_range:
  assumes "s \<noteq> []" and "length s \<le> maxFrameCiphertext"
  shows "unat (of_nat (length s) :: 64 word) = length s"
    and "\<not> (of_nat (length s) = (0 :: 64 word) \<or> (of_nat (length s) :: 64 word) > of_nat maxFrameCiphertext)"
proof -
  show u: "unat (of_nat (length s) :: 64 word) = length s"
    using assms(2) maxFrame_fits by (simp add: unsigned_of_nat take_bit_nat_eq_self)
  have "unat (of_nat maxFrameCiphertext :: 64 word) = maxFrameCiphertext"
    using maxFrame_fits by (simp add: unsigned_of_nat take_bit_nat_eq_self)
  with u assms show "\<not> (of_nat (length s) = (0 :: 64 word) \<or>
      (of_nat (length s) :: 64 word) > of_nat maxFrameCiphertext)"
    by (auto simp: word_less_nat_alt unsigned_eq_0_iff[symmetric] simp del: unsigned_eq_0_iff)
qed

lemma readFrame_sealed:
  assumes "sealed_as env (meTenant e) s p" and "meBr e = frame_of s @ rest"
  shows "readFrame env e = (Inr (), e\<lparr>meBr := rest, meFrame := p\<rparr>)"
proof -
  have "ReadUvarint (meEnd e) (meBr e) = (Inr (of_nat (length s)), s @ rest)"
    using assms(2) ReadUvarint_PutUvarint by (simp add: frame_of_def)
  then show ?thesis
    using assms(1) size_in_range[of s] by (simp add: readFrame_def sealed_as_def)
qed

text \<open>
  Bytes after the last whole frame that a reader takes for the end of the file: none, or the length
  of a frame none of whose bytes follow.
\<close>

definition silent_stub :: "bytes \<Rightarrow> bool" where
  "silent_stub stub \<longleftrightarrow> stub = [] \<or>
     (\<exists>s :: bytes. stub = PutUvarint (of_nat (length s)) \<and> s \<noteq> [] \<and> length s \<le> maxFrameCiphertext)"

lemma readFrame_end:
  assumes "silent_stub (meBr e)" and "meEnd e = None"
  shows "\<exists>x e'. readFrame env e = (Inl x, e') \<and> errors_Is x EOF"
proof (cases "meBr e = []")
  case True
  with assms(2) show ?thesis by (simp add: readFrame_def ReadUvarint_def MaxVarintLen64_def)
next
  case False
  with assms(1) obtain s :: bytes where s: "meBr e = PutUvarint (of_nat (length s))" "s \<noteq> []"
      "length s \<le> maxFrameCiphertext"
    by (auto simp: silent_stub_def)
  have "ReadUvarint (meEnd e) (meBr e) = (Inr (of_nat (length s)), [])"
    using s(1) ReadUvarint_PutUvarint[of "meEnd e" "of_nat (length s)" "[]"] by simp
  with s(2,3) size_in_range[OF s(2,3)] assms(2) show ?thesis by (simp add: readFrame_def)
qed

section \<open>Cursors\<close>

text \<open>The cursor will deliver exactly the lines \<open>ls\<close>.\<close>

definition lines_at :: "cas_env \<Rightarrow> ManifestEntries \<Rightarrow> bytes list \<Rightarrow> bool" where
  "lines_at env e ls \<longleftrightarrow> meEnd e = None \<and> (\<forall>l\<in>set ls. line_ok l) \<and>
     (if meFramed e then
        \<exists>ks ss pss stub. meFrame e = text_of ks \<and> meBr e = spool_of ss @ stub \<and> silent_stub stub \<and>
          list_all2 (\<lambda>s ps. sealed_as env (meTenant e) s (text_of ps)) ss pss \<and> ls = ks @ concat pss
      else meFrame e = text_of ls)"

lemma nextLine_frame:
  assumes "meFrame e = text_of (l # ks)" and "line_ok l"
  shows "nextLine env e = (Inr l, e\<lparr>meFrame := text_of ks\<rparr>)"
  using assms first_line[of l "text_of ks"]
  by (auto simp: nextLine.simps[of env e] line_ok_def Let_def)

lemma nextLine_blocks:
  assumes "meFrame e = []" and "meFramed e" and "meEnd e = None" and "meBr e = spool_of ss @ stub"
    and "silent_stub stub" and "list_all2 (\<lambda>s ps. sealed_as env (meTenant e) s (text_of ps)) ss pss"
    and "\<forall>l\<in>set (concat pss). line_ok l"
  shows "case concat pss of
      [] \<Rightarrow> \<exists>x e'. nextLine env e = (Inl x, e') \<and> errors_Is x EOF
    | l # ls \<Rightarrow> \<exists>e'. nextLine env e = (Inr l, e') \<and> lines_at env e' ls \<and>
        meHeader e' = meHeader e \<and> meTenant e' = meTenant e"
  using assms
proof (induction ss arbitrary: pss e)
  case Nil
  then show ?case using readFrame_end[of e env] by (auto simp: nextLine.simps[of env e])
next
  case (Cons s ss)
  then obtain ps pss' where pss: "pss = ps # pss'" by (cases pss) auto
  let ?e = "e\<lparr>meBr := spool_of ss @ stub, meFrame := text_of ps\<rparr>"
  have "readFrame env e = (Inr (), ?e)"
    using Cons.prems pss by (intro readFrame_sealed) auto
  then have step: "nextLine env e = nextLine env ?e"
    using Cons.prems by (simp add: nextLine.simps[of env e])
  show ?case
  proof (cases ps)
    case Nil
    with Cons.IH[of ?e pss'] Cons.prems pss step show ?thesis
      by (cases "concat pss'") (simp_all del: concat_eq_Nil_conv)
  next
    case (Cons l ks)
    let ?f = "?e\<lparr>meFrame := text_of ks\<rparr>"
    have "nextLine env ?e = (Inr l, ?f)"
      using Cons Cons.prems pss by (intro nextLine_frame) auto
    moreover have "lines_at env ?f (ks @ concat pss')"
      unfolding lines_at_def using Cons Cons.prems pss by auto
    ultimately show ?thesis using Cons pss step by simp
  qed
qed

lemma nextLine_at:
  assumes "lines_at env e ls"
  shows "case ls of
      [] \<Rightarrow> \<exists>x e'. nextLine env e = (Inl x, e') \<and> errors_Is x EOF
    | l # ks \<Rightarrow> \<exists>e'. nextLine env e = (Inr l, e') \<and> lines_at env e' ks \<and>
        meHeader e' = meHeader e \<and> meTenant e' = meTenant e"
proof (cases "meFramed e")
  case False
  with assms show ?thesis
    by (cases ls) (auto simp: lines_at_def nextLine_frame, auto simp: nextLine.simps[of env e])
next
  case True
  with assms obtain ks ss pss stub where *: "meFrame e = text_of ks" "meBr e = spool_of ss @ stub" "silent_stub stub"
      "list_all2 (\<lambda>s ps. sealed_as env (meTenant e) s (text_of ps)) ss pss" "ls = ks @ concat pss"
      "meEnd e = None" "\<forall>l\<in>set ls. line_ok l"
    by (auto simp: lines_at_def)
  show ?thesis
  proof (cases ks)
    case Nil
    with nextLine_blocks[of e ss stub env pss] True * show ?thesis by simp
  next
    case (Cons k ks')
    then have "nextLine env e = (Inr k, e\<lparr>meFrame := text_of ks'\<rparr>)"
      using * by (intro nextLine_frame) auto
    moreover have "lines_at env (e\<lparr>meFrame := text_of ks'\<rparr>) (ks' @ concat pss)"
      unfolding lines_at_def using True * Cons by auto
    ultimately show ?thesis using * Cons by simp
  qed
qed

text \<open>
  What a client of the cursor relies on: it delivers the entries of the manifest in order and then
  reports the end of the file.
\<close>

locale manifest_cursor =
  fixes next_entry :: "'c \<Rightarrow> (cas_error + ManifestFile) \<times> 'c"
    and delivers :: "'c \<Rightarrow> ManifestFile list \<Rightarrow> bool"
  assumes next_Cons: "delivers c (f # fs) \<Longrightarrow> \<exists>c'. next_entry c = (Inr f, c') \<and> delivers c' fs"
    and next_Nil: "delivers c [] \<Longrightarrow> \<exists>x c'. next_entry c = (Inl x, c') \<and> errors_Is x EOF"
begin

lemma next_Inr: "delivers c fs \<Longrightarrow> next_entry c = (Inr f, c') \<Longrightarrow> \<exists>gs. fs = f # gs \<and> delivers c' gs"
  using next_Cons[of c] next_Nil[of c] by (cases fs) fastforce+

lemma next_Inl: "delivers c fs \<Longrightarrow> next_entry c = (Inl x, c') \<Longrightarrow> fs = [] \<and> errors_Is x EOF"
  using next_Cons[of c] next_Nil[of c] by (cases fs) fastforce+

end

definition files_at :: "cas_env \<Rightarrow> ManifestEntries \<Rightarrow> ManifestFile list \<Rightarrow> bool" where
  "files_at env e fs \<longleftrightarrow>
     (\<exists>ls. lines_at env e ls \<and> list_all2 (\<lambda>l f. ce_UnmarshalFile env l = Inr f) ls fs)"

interpretation entries: manifest_cursor "Next env" "files_at env" for env
proof
  fix e f fs
  assume "files_at env e (f # fs)"
  then obtain l ls where l: "lines_at env e (l # ls)" "ce_UnmarshalFile env l = Inr f"
      "list_all2 (\<lambda>l f. ce_UnmarshalFile env l = Inr f) ls fs"
    by (auto simp: files_at_def list_all2_Cons2)
  from nextLine_at[OF l(1)] obtain e' where "nextLine env e = (Inr l, e')" "lines_at env e' ls" by auto
  with l show "\<exists>e'. Next env e = (Inr f, e') \<and> files_at env e' fs"
    by (auto simp: Next_def files_at_def)
next
  fix e
  assume "files_at env e []"
  then have "lines_at env e []" by (auto simp: files_at_def)
  from nextLine_at[OF this] show "\<exists>x e'. Next env e = (Inl x, e') \<and> errors_Is x EOF"
    by (auto simp: Next_def)
qed

lemma read_entries_files: "files_at env e fs \<Longrightarrow> \<exists>x. read_entries env e = (fs, x) \<and> errors_Is x EOF"
proof (induction fs arbitrary: e)
  case Nil
  then show ?case using entries.next_Nil[of env e] by (fastforce simp: read_entries.simps[of env e])
next
  case (Cons f fs)
  then show ?case using entries.next_Cons[of env e f fs] by (fastforce simp: read_entries.simps[of env e])
qed

end
