(* ===== verification/Cas_Roundtrip.thy ===== *)
theory Cas_Roundtrip
  imports Cas_Frame_Laws
begin

text \<open>
  What a manifest writer puts into an object, and that the object is read back unchanged. A
  truncated object is not always noticed.
\<close>

section \<open>What the codecs promise\<close>

definition maxPlain :: nat where "maxPlain = 2 ^ 27 + 2 ^ 22"

text \<open>
  The encryptor returns what it was given, and its output is never empty and stays below the frame
  limit for inputs below 132 MB (zstd and AES-GCM add a few bytes per megabyte).
\<close>

definition encryptor_ok :: "cas_env \<Rightarrow> bool" where
  "encryptor_ok env \<longleftrightarrow> (\<forall>n t p s. ce_Encrypt env n t p = Inr s \<longrightarrow>
     ce_Decrypt env t s = Inr p \<and> s \<noteq> [] \<and> (length p \<le> maxPlain \<longrightarrow> length s \<le> maxFrameCiphertext))"

text \<open>The JSON of an entry is one line shorter than 128 MB that is parsed back to the entry.\<close>

definition file_codec_ok :: "cas_env \<Rightarrow> ManifestFile \<Rightarrow> bool" where
  "file_codec_ok env f \<longleftrightarrow> (\<forall>l. ce_MarshalFile env f = Inr l \<longrightarrow>
     ce_UnmarshalFile env l = Inr f \<and> line_ok l \<and> length l < 2 ^ 27)"

definition header_codec_ok :: "cas_env \<Rightarrow> ManifestHeader \<Rightarrow> bool" where
  "header_codec_ok env h \<longleftrightarrow> (\<forall>l. ce_MarshalHeader env h = Inr l \<longrightarrow>
     ce_UnmarshalHeader env l = Inr h \<and> line_ok l \<and> length l < 2 ^ 27)"

section \<open>Operations of the environment\<close>

lemma run_cas_tick [simp]:
  "run_state cas_tick s = ((cw_tick s, cw_env s), s\<lparr>cw_tick := Suc (cw_tick s)\<rparr>)"
  by (simp add: cas_tick_def)

lemma wp_cas_tick [wp_simps]:
  "wp cas_tick Q s = Q (cw_tick s, cw_env s) (s\<lparr>cw_tick := Suc (cw_tick s)\<rparr>)"
  by (simp add: wp_def)

lemma wp_case_prod [wp_simps]: "wp (case p of (x, y) \<Rightarrow> f x y) Q s = (case p of (x, y) \<Rightarrow> wp (f x y) Q s)"
  by (cases p) simp

lemma wp_cas_op [wp_simps]:
  "wp (cas_op what) Q s =
     Q (case ce_fault (cw_env s) (cw_tick s) of Some e \<Rightarrow> Inl (ErrWrapped what e) | None \<Rightarrow> Inr ())
       (s\<lparr>cw_tick := Suc (cw_tick s)\<rparr>)"
  by (simp add: cas_op_def wp_simps split: option.splits)

lemma wp_sealFrame [wp_simps]:
  "wp (sealFrame w plain) Q s =
     Q (case ce_Encrypt (cw_env s) (cw_tick s) (mTenantID (owManifest w)) plain of
          Inl e \<Rightarrow> Inl (ErrWrapped ''failed to encrypt manifest frame'' e)
        | Inr sealed \<Rightarrow> Inr (frame_of sealed))
       (s\<lparr>cw_tick := Suc (cw_tick s)\<rparr>)"
  by (simp add: sealFrame_def wp_simps frame_of_def split: sum.splits)

lemma wp_spool_write [wp_simps]:
  "wp (spool_write w frame) Q s =
     Q (if owClosed w then (w, Inl (ErrWrapped ''failed to spool manifest frame'' ErrFileClosed))
        else case ce_fault (cw_env s) (cw_tick s) of
           Some e \<Rightarrow> (w\<lparr>owSpool := owSpool w @ take (ce_short (cw_env s) (cw_tick s)) frame\<rparr>,
                      Inl (ErrWrapped ''failed to spool manifest frame'' e))
         | None \<Rightarrow> (w\<lparr>owSpool := owSpool w @ frame\<rparr>, Inr ()))
       (s\<lparr>cw_tick := Suc (cw_tick s)\<rparr>)"
  by (simp add: spool_write_def wp_simps)

section \<open>The writer\<close>

text \<open>The spool and the pending buffer together hold the entries \<open>es\<close>, whole lines per frame.\<close>

definition writer_holds :: "cas_env \<Rightarrow> ManifestObjectWriter \<Rightarrow> ManifestFile list \<Rightarrow> bool" where
  "writer_holds env w es \<longleftrightarrow>
     (\<exists>ss pss qs. owSpool w = spool_of ss \<and> owPending w = text_of qs \<and>
        list_all2 (\<lambda>s ps. sealed_as env (mTenantID (owManifest w)) s (text_of ps)) ss pss \<and>
        list_all2 (\<lambda>l f. ce_UnmarshalFile env l = Inr f \<and> line_ok l) (concat pss @ qs) es) \<and>
     owEntries w = length es \<and> \<not> owCommitted w"

definition same_writer :: "ManifestObjectWriter \<Rightarrow> ManifestObjectWriter \<Rightarrow> bool" where
  "same_writer w w' \<longleftrightarrow> owManifest w' = owManifest w \<and> owFrameSize w' = owFrameSize w"

definition same_store :: "cas_world \<Rightarrow> cas_world \<Rightarrow> bool" where
  "same_store s s' \<longleftrightarrow> cw_env s' = cw_env s \<and> cw_blobs s' = cw_blobs s"

lemma same_store_trans: "same_store s t \<Longrightarrow> same_store t u \<Longrightarrow> same_store s u"
  by (simp add: same_store_def)

lemma flushFrame_holds:
  assumes ok: "encryptor_ok (cw_env s)" and holds: "writer_holds (cw_env s) w es"
    and len: "length (owPending w) \<le> maxPlain"
  shows "wp (flushFrame w) (\<lambda>(w', r) s'. same_store s s' \<and> same_writer w w' \<and>
     (r = Inr () \<longrightarrow> writer_holds (cw_env s) w' es \<and> owPending w' = [])) s"
proof (cases "owPending w = []")
  case True
  with holds show ?thesis by (simp add: flushFrame_def wp_simps same_store_def same_writer_def)
next
  case False
  from holds obtain ss pss qs where h: "owSpool w = spool_of ss" "owPending w = text_of qs"
      "list_all2 (\<lambda>a ps. sealed_as (cw_env s) (mTenantID (owManifest w)) a (text_of ps)) ss pss"
      "list_all2 (\<lambda>l f. ce_UnmarshalFile (cw_env s) l = Inr f \<and> line_ok l) (concat pss @ qs) es"
      "owEntries w = length es" "\<not> owCommitted w"
    by (auto simp: writer_holds_def)
  have "writer_holds (cw_env s) (w\<lparr>owPending := [], owSpool := owSpool w @ frame_of x\<rparr>) es"
    if "ce_Encrypt (cw_env s) (cw_tick s) (mTenantID (owManifest w)) (owPending w) = Inr x" for x
  proof -
    have "sealed_as (cw_env s) (mTenantID (owManifest w)) x (text_of qs)"
      using ok that len h(2) by (simp add: encryptor_ok_def sealed_as_def)
    with h(3) have "list_all2 (\<lambda>a ps. sealed_as (cw_env s) (mTenantID (owManifest w)) a (text_of ps))
        (ss @ [x]) (pss @ [qs])"
      by (simp add: list_all2_appendI)
    with h show ?thesis
      unfolding writer_holds_def
      by (intro conjI exI[of _ "ss @ [x]"] exI[of _ "pss @ [qs]"] exI[of _ "[]"]) auto
  qed
  with False show ?thesis
    by (auto simp: flushFrame_def wp_simps same_store_def same_writer_def split: sum.splits option.splits)
qed

text \<open>Outcome of appending: on success the writer holds the entries and less than one frame is pending.\<close>

definition wrote :: "cas_world \<Rightarrow> ManifestObjectWriter \<Rightarrow> ManifestFile list \<Rightarrow>
    ManifestObjectWriter \<times> (cas_error + unit) \<Rightarrow> cas_world \<Rightarrow> bool" where
  "wrote s w es = (\<lambda>(w', r) s'. same_store s s' \<and> same_writer w w' \<and>
     (r = Inr () \<longrightarrow> writer_holds (cw_env s) w' es \<and> length (owPending w') < owFrameSize w'))"

lemma wrote_step:
  assumes "wrote s w es (w', r) t" and "wrote t w' fs a u"
  shows "wrote s w fs a u"
  using assms by (cases a) (auto simp: wrote_def same_store_def same_writer_def)

lemma Append_holds:
  assumes ok: "encryptor_ok (cw_env s)" and codec: "file_codec_ok (cw_env s) f"
    and holds: "writer_holds (cw_env s) w es" and small: "length (owPending w) < owFrameSize w"
    and size: "owFrameSize w = DefaultManifestFrameSize"
  shows "wp (Append f w) (wrote s w (es @ [f])) s"
proof (cases "ce_MarshalFile (cw_env s) f")
  case (Inl e)
  then show ?thesis by (simp add: Append_def wp_simps wrote_def same_store_def same_writer_def)
next
  case (Inr l)
  let ?w = "w\<lparr>owPending := owPending w @ l @ [newline], owEntries := owEntries w + 1\<rparr>"
  let ?s = "s\<lparr>cw_tick := Suc (cw_tick s)\<rparr>"
  have l: "ce_UnmarshalFile (cw_env s) l = Inr f" "line_ok l" "length l < 2 ^ 27"
    using codec Inr by (auto simp: file_codec_ok_def)
  from holds obtain ss pss qs where h: "owSpool w = spool_of ss" "owPending w = text_of qs"
      "list_all2 (\<lambda>a ps. sealed_as (cw_env s) (mTenantID (owManifest w)) a (text_of ps)) ss pss"
      "list_all2 (\<lambda>l f. ce_UnmarshalFile (cw_env s) l = Inr f \<and> line_ok l) (concat pss @ qs) es"
      "owEntries w = length es" "\<not> owCommitted w"
    by (auto simp: writer_holds_def)
  have "list_all2 (\<lambda>l f. ce_UnmarshalFile (cw_env s) l = Inr f \<and> line_ok l)
      ((concat pss @ qs) @ [l]) (es @ [f])"
    using h(4) l by (intro list_all2_appendI) auto
  with h have holds1: "writer_holds (cw_env s) ?w (es @ [f])"
    unfolding writer_holds_def
    by (intro conjI exI[of _ ss] exI[of _ pss] exI[of _ "qs @ [l]"]) auto
  have "length (owPending ?w) \<le> maxPlain"
    using small size l(3) by (simp add: DefaultManifestFrameSize_def maxPlain_def)
  with ok holds1 have "wp (flushFrame ?w) (\<lambda>(w', r) s'. same_store ?s s' \<and> same_writer ?w w' \<and>
      (r = Inr () \<longrightarrow> writer_holds (cw_env s) w' (es @ [f]) \<and> owPending w' = [])) ?s"
    using flushFrame_holds[of ?s ?w "es @ [f]"] by simp
  then have "wp (flushFrame ?w) (wrote s w (es @ [f])) ?s"
    by (rule wp_mono)
       (use size in \<open>auto simp: wrote_def same_store_def same_writer_def DefaultManifestFrameSize_def\<close>)
  with Inr holds1 show ?thesis
    by (auto simp: Append_def wp_simps Let_def wrote_def same_store_def same_writer_def)
qed

fun append_all :: "ManifestFile list \<Rightarrow> ManifestObjectWriter \<Rightarrow>
    (cas_world, ManifestObjectWriter \<times> (cas_error + unit)) state" where
  "append_all [] w = ret (w, Inr ())"
| "append_all (f # fs) w = do {
     (w1, r) \<leftarrow> Append f w;
     (case r of Inl e \<Rightarrow> ret (w1, Inl e) | Inr _ \<Rightarrow> append_all fs w1) }"

lemma append_all_holds:
  assumes "encryptor_ok (cw_env s)" and "\<forall>f\<in>set fs. file_codec_ok (cw_env s) f"
    and "writer_holds (cw_env s) w es" and "length (owPending w) < owFrameSize w"
    and "owFrameSize w = DefaultManifestFrameSize"
  shows "wp (append_all fs w) (wrote s w (es @ fs)) s"
  using assms
proof (induction fs arbitrary: es w s)
  case Nil
  then show ?case by (simp add: wp_simps wrote_def same_store_def same_writer_def)
next
  case (Cons f fs)
  have step: "wp (case r of Inl e \<Rightarrow> ret (w', Inl e) | Inr _ \<Rightarrow> append_all fs w') (wrote s w (es @ f # fs)) t"
    if a: "wrote s w (es @ [f]) (w', r) t" for w' r t
  proof (cases r)
    case (Inl e)
    with a show ?thesis by (simp add: wp_simps wrote_def)
  next
    case (Inr u)
    then have "wp (append_all fs w') (wrote t w' ((es @ [f]) @ fs)) t"
      using a Cons.prems by (intro Cons.IH) (auto simp: wrote_def same_store_def same_writer_def)
    then have "wp (append_all fs w') (wrote s w (es @ f # fs)) t"
      by (rule wp_mono) (use a wrote_step in auto)
    with Inr show ?thesis by simp
  qed
  have "wp (Append f w) (wrote s w (es @ [f])) s"
    using Cons.prems by (intro Append_holds) auto
  then have "wp (Append f w) (\<lambda>a t. wp (case a of (w', r) \<Rightarrow>
      (case r of Inl e \<Rightarrow> ret (w', Inl e) | Inr _ \<Rightarrow> append_all fs w')) (wrote s w (es @ f # fs)) t) s"
    by (rule wp_mono) (use step in \<open>auto split: prod.split\<close>)
  then show ?case by (simp only: append_all.simps wp_bind)
qed


section \<open>The object\<close>

text \<open>Opening the object gives a cursor with header \<open>h\<close> that delivers the entries \<open>es\<close>.\<close>

definition object_holds :: "cas_env \<Rightarrow> string \<Rightarrow> bytes \<Rightarrow> ManifestHeader \<Rightarrow> ManifestFile list \<Rightarrow> bool" where
  "object_holds env tenant obj h es \<longleftrightarrow>
     (\<exists>e. open_entries env tenant (obj, None) = Inr e \<and> meHeader e = h \<and> files_at env e es)"

lemma lines_at_header [simp]: "lines_at env (e\<lparr>meHeader := h\<rparr>) ls = lines_at env e ls"
  by (simp add: lines_at_def)

definition framed_object :: "bytes \<Rightarrow> bytes list \<Rightarrow> bytes \<Rightarrow> bytes" where
  "framed_object hs ss stub = framedMagic @ frame_of hs @ spool_of ss @ stub"

lemma framed_object_holds:
  assumes "sealed_as env tenant hs (text_of [hl])" and "line_ok hl" and "ce_UnmarshalHeader env hl = Inr h"
    and "list_all2 (\<lambda>s ps. sealed_as env tenant s (text_of ps)) ss pss"
    and "list_all2 (\<lambda>l f. ce_UnmarshalFile env l = Inr f \<and> line_ok l) (concat pss) es"
    and "silent_stub stub"
  shows "object_holds env tenant (framed_object hs ss stub) h es"
proof -
  let ?e = "\<lparr>meHeader = zero_header, meBr = frame_of hs @ spool_of ss @ stub, meEnd = None, meFramed = True,
    meFrame = [], meTenant = tenant\<rparr>"
  have lines: "\<forall>l\<in>set (concat pss). line_ok l"
    using assms(5) by (auto simp: list_all2_conv_all_nth in_set_conv_nth simp del: set_concat)
  have "\<exists>ks ts qss c. [] = text_of ks \<and> frame_of hs @ spool_of ss @ stub = spool_of ts @ c \<and> silent_stub c \<and>
      list_all2 (\<lambda>s ps. sealed_as env tenant s (text_of ps)) ts qss \<and> hl # concat pss = ks @ concat qss"
    using assms by (intro exI[of _ "[]"] exI[of _ "hs # ss"] exI[of _ "[hl] # pss"] exI[of _ stub]) simp
  then have "lines_at env ?e (hl # concat pss)"
    using assms(2) lines by (simp add: lines_at_def)
  from nextLine_at[OF this] obtain e where e: "nextLine env ?e = (Inr hl, e)" "lines_at env e (concat pss)"
    by auto
  have "list_all2 (\<lambda>l f. ce_UnmarshalFile env l = Inr f) (concat pss) es"
    using assms(5) by (rule list_all2_mono) simp
  with e(2) have "files_at env (e\<lparr>meHeader := h\<rparr>) es"
    by (auto simp: files_at_def)
  moreover have "open_entries env tenant (framed_object hs ss stub, None) = Inr (e\<lparr>meHeader := h\<rparr>)"
    using e(1) assms(3) by (simp add: open_entries_def framed_object_def Let_def)
  ultimately show ?thesis by (simp add: object_holds_def)
qed

abbreviation commit_header :: "ManifestObjectWriter \<Rightarrow> ManifestHeader" where
  "commit_header w \<equiv> (ToHeader (owManifest w))\<lparr>hFileCount := int (owEntries w)\<rparr>"

abbreviation manifest_key_of :: "Manifest \<Rightarrow> string" where
  "manifest_key_of m \<equiv> manifestKey (mTenantID m) (mWorkspaceID m) (mID m)"

lemma wp_storage_Upload_ok:
  "wp (storage_Upload key data) (\<lambda>r s'. r = Inr () \<longrightarrow>
     cw_env s' = cw_env s \<and> cw_blobs s' = (cw_blobs s)(key \<mapsto> data)) s"
  by (auto simp: wp_def storage_Upload_def Let_def split: option.splits)

lemma ordered_header: "(ToHeader m)\<lparr>hOrdered := mOrdered m, hFileCount := n\<rparr> = (ToHeader m)\<lparr>hFileCount := n\<rparr>"
  by (simp add: ToHeader_def)

lemma upload_object_ok:
  "wp (upload_object w) (\<lambda>r s'. r = Inr () \<longrightarrow>
     (\<exists>hl n hs. ce_MarshalHeader (cw_env s) (commit_header w) = Inr hl \<and>
        ce_Encrypt (cw_env s) n (mTenantID (owManifest w)) (hl @ [newline]) = Inr hs \<and>
        cw_env s' = cw_env s \<and>
        cw_blobs s' = (cw_blobs s)(manifest_key_of (owManifest w) \<mapsto> framedMagic @ frame_of hs @ owSpool w))) s"
proof -
  have upload: "wp (storage_Upload key data) (\<lambda>r t. r = Inr () \<longrightarrow> cw_env t = cw_env s \<and>
      cw_blobs t = (cw_blobs s)(key \<mapsto> data)) (s\<lparr>cw_tick := k\<rparr>)" for key data k
    using wp_storage_Upload_ok[of key data "s\<lparr>cw_tick := k\<rparr>"] by simp
  show ?thesis
    by (auto simp: upload_object_def wp_simps ordered_header Let_def split: sum.splits option.splits
        intro!: wp_mono[OF upload])
qed

text \<open>A successful commit leaves an object that holds exactly the appended entries.\<close>

lemma Commit_object:
  assumes ok: "encryptor_ok (cw_env s)" and codec: "header_codec_ok (cw_env s) (commit_header w)"
    and holds: "writer_holds (cw_env s) w es" and len: "length (owPending w) \<le> maxPlain"
    and run: "run_state (Commit w) s = ((w', Inr ()), s')"
  shows "\<exists>obj. cw_env s' = cw_env s \<and>
      cw_blobs s' = (cw_blobs s)(manifest_key_of (owManifest w) \<mapsto> obj) \<and>
      object_holds (cw_env s) (mTenantID (owManifest w)) obj (commit_header w) es"
    and "owManifest w' = (owManifest w)\<lparr>mFileCount := int (length es)\<rparr>"
proof -
  obtain w1 r s1 where f: "run_state (flushFrame w) s = ((w1, r), s1)" by (metis surj_pair)
  from holds have nc: "\<not> owCommitted w" and n: "owEntries w = length es" by (auto simp: writer_holds_def)
  with run f obtain s2 where r: "r = Inr ()" and up: "run_state (upload_object w1) s1 = (Inr (), s')"
      and w': "w' = w1\<lparr>owClosed := True, owCommitted := True,
         owManifest := (owManifest w1)\<lparr>mFileCount := int (owEntries w1)\<rparr>\<rparr>"
    by (auto simp: Commit_def split: sum.splits prod.splits)
  from wp_run[OF f flushFrame_holds[OF ok holds len]] r
  have s1: "same_store s s1" "same_writer w w1" "writer_holds (cw_env s) w1 es" "owPending w1 = []" by auto
  then have n1: "owEntries w1 = length es" by (simp add: writer_holds_def)
  have h: "commit_header w1 = commit_header w" using s1(2) n n1 by (simp add: same_writer_def)
  from wp_run[OF up upload_object_ok] obtain hl k hs where
      u: "ce_MarshalHeader (cw_env s) (commit_header w) = Inr hl"
        "ce_Encrypt (cw_env s) k (mTenantID (owManifest w)) (hl @ [newline]) = Inr hs"
        "cw_env s' = cw_env s"
        "cw_blobs s' = (cw_blobs s)(manifest_key_of (owManifest w) \<mapsto> framedMagic @ frame_of hs @ owSpool w1)"
    using s1(1,2) h by (auto simp: same_store_def same_writer_def)
  from codec u(1) have hl: "ce_UnmarshalHeader (cw_env s) hl = Inr (commit_header w)" "line_ok hl" "length hl < 2 ^ 27"
    by (auto simp: header_codec_ok_def)
  have "sealed_as (cw_env s) (mTenantID (owManifest w)) hs (text_of [hl])"
    using ok u(2) hl(3) by (auto simp: encryptor_ok_def sealed_as_def maxPlain_def)
  moreover obtain ss pss where "owSpool w1 = spool_of ss"
      "list_all2 (\<lambda>a ps. sealed_as (cw_env s) (mTenantID (owManifest w)) a (text_of ps)) ss pss"
      "list_all2 (\<lambda>l f. ce_UnmarshalFile (cw_env s) l = Inr f \<and> line_ok l) (concat pss) es"
    using s1 by (auto simp: writer_holds_def same_writer_def)
  ultimately have "object_holds (cw_env s) (mTenantID (owManifest w)) (framedMagic @ frame_of hs @ owSpool w1)
      (commit_header w) es"
    using framed_object_holds[of "cw_env s" _ hs hl "commit_header w" ss pss es "[]"] hl
    by (simp add: framed_object_def silent_stub_def)
  with u show "\<exists>obj. cw_env s' = cw_env s \<and>
      cw_blobs s' = (cw_blobs s)(manifest_key_of (owManifest w) \<mapsto> obj) \<and>
      object_holds (cw_env s) (mTenantID (owManifest w)) obj (commit_header w) es" by blast
  show "owManifest w' = (owManifest w)\<lparr>mFileCount := int (length es)\<rparr>"
    using w' n1 s1(2) by (simp add: same_writer_def)
qed

section \<open>Loading\<close>

text \<open>The storage answers the next download completely.\<close>

definition readable :: "cas_world \<Rightarrow> bool" where
  "readable s \<longleftrightarrow> ce_fault (cw_env s) (cw_tick s) = None \<and> ce_read (cw_env s) (cw_tick s) = None"

lemma OpenManifest_object:
  assumes "readable s" and "cw_blobs s (manifestKey t ws mid) = Some obj"
  shows "run_state (OpenManifest t ws mid) s =
    (open_entries (cw_env s) t (obj, None), s\<lparr>cw_tick := Suc (Suc (cw_tick s))\<rparr>)"
  using assms by (simp add: OpenManifest_def storage_Download_def readable_def Let_def)

lemma LoadManifest_object:
  assumes "readable s" and "cw_blobs s (manifestKey t ws mid) = Some obj"
    and "object_holds (cw_env s) t obj h es"
  shows "fst (run_state (LoadManifest t ws mid) s) = Inr ((FromHeader h)\<lparr>mFiles := es\<rparr>)"
  using assms(3) OpenManifest_object[OF assms(1,2)]
  by (auto simp: LoadManifest_def object_holds_def dest!: read_entries_files)

lemma FromHeader_commit:
  assumes "mParentID (owManifest w) \<noteq> Some ''''" and "mChunkHash (owManifest w) \<noteq> Some ''''"
  shows "FromHeader (commit_header w) = (owManifest w)\<lparr>mFileCount := int (owEntries w), mFiles := []\<rparr>"
  using assms FromHeader_ToHeader[of "owManifest w"]
  by (cases "owManifest w") (auto simp: FromHeader_def ToHeader_def split: option.splits)

text \<open>
  C15. A manifest that was written in full is loaded unchanged: if every append and the commit
  succeed, a later load of the same id returns the manifest with exactly the appended entries, in
  order, and their number, whatever the sizes of the frames they were split into. The storage answers
  the load and still has the object, the encryption round trips, the JSON codec round trips on the
  header and the entries with lines under 128 MB, and the optional parent id and chunk hash are absent
  or not empty.
\<close>

theorem manifest_object_roundtrip:
  assumes "encryptor_ok (cw_env s0)" and "\<forall>f\<in>set files. file_codec_ok (cw_env s0) f"
    and "\<forall>h. header_codec_ok (cw_env s0) h"
    and "run_state (OpenManifestWriter (Some m)) s0 = (Inr w0, s1)"
    and "run_state (append_all files w0) s1 = ((w1, Inr ()), s2)"
    and "run_state (Commit w1) s2 = ((w2, Inr ()), s3)"
    and "mParentID m \<noteq> Some ''''" and "mChunkHash m \<noteq> Some ''''"
    and "readable s4" and "cw_env s4 = cw_env s0"
    and "cw_blobs s4 (manifestKey (mTenantID m) (mWorkspaceID m) (mID m)) =
         cw_blobs s3 (manifestKey (mTenantID m) (mWorkspaceID m) (mID m))"
  shows "fst (run_state (LoadManifest (mTenantID m) (mWorkspaceID m) (mID m)) s4) =
    Inr (m\<lparr>mFileCount := int (length files), mFiles := files\<rparr>)"
proof -
  have w0: "w0 = \<lparr>owManifest = m, owFrameSize = DefaultManifestFrameSize, owSpool = [],
      owClosed = False, owPending = [], owEntries = 0, owCommitted = False\<rparr>" and s1: "cw_env s1 = cw_env s0"
    using assms(4)
    by (auto simp: OpenManifestWriter_def cas_op_def split: option.splits sum.splits if_splits prod.splits)
  have "writer_holds (cw_env s1) w0 []" unfolding w0 writer_holds_def
    by (auto intro!: exI[of _ "[]"])
  with assms(1,2) have "wp (append_all files w0) (wrote s1 w0 ([] @ files)) s1"
    unfolding s1[symmetric] by (intro append_all_holds) (simp_all add: w0 DefaultManifestFrameSize_def)
  from wp_run[OF assms(5) this] have w1: "writer_holds (cw_env s0) w1 files" "cw_env s2 = cw_env s0"
      "length (owPending w1) < DefaultManifestFrameSize" "owManifest w1 = m"
    by (auto simp: wrote_def same_store_def same_writer_def s1 w0)
  have "length (owPending w1) \<le> maxPlain" using w1(3) by (simp add: maxPlain_def DefaultManifestFrameSize_def)
  with Commit_object(1)[OF _ _ _ _ assms(6), of files] assms(1,3) w1 obtain obj where
    obj: "cw_blobs s3 (manifest_key_of m) = Some obj"
      "object_holds (cw_env s0) (mTenantID m) obj (commit_header w1) files" by auto
  have "owEntries w1 = length files" using w1(1) by (simp add: writer_holds_def)
  with FromHeader_commit[of w1] assms(7,8) w1(4)
  have "(FromHeader (commit_header w1))\<lparr>mFiles := files\<rparr> = m\<lparr>mFileCount := int (length files), mFiles := files\<rparr>"
    by simp
  with LoadManifest_object[OF assms(9), of _ _ _ obj "commit_header w1" files] assms(10,11) obj w1(4)
  show ?thesis by simp
qed

text \<open>
  C19. A truncated manifest can be loaded as if it were complete. If the stored object was cut
  after a whole number of frames, or right after the length of the next frame, loading succeeds and
  returns the entries before the cut; the number of entries recorded in the header is not compared.
\<close>

theorem truncated_manifest_accepted:
  assumes "sealed_as (cw_env s) t hs (text_of [hl])" and "line_ok hl"
    and "ce_UnmarshalHeader (cw_env s) hl = Inr h"
    and "list_all2 (\<lambda>a ps. sealed_as (cw_env s) t a (text_of ps)) (ss @ ts) (pss @ qss)"
    and "length ss = length pss"
    and "list_all2 (\<lambda>l f. ce_UnmarshalFile (cw_env s) l = Inr f \<and> line_ok l) (concat pss) es"
    and "stub = [] \<or> (\<exists>u us. ts = u # us \<and> stub = PutUvarint (of_nat (length u)))"
    and "cw_blobs s (manifestKey t ws mid) = Some (framed_object hs ss stub)" and "readable s"
  shows "fst (run_state (LoadManifest t ws mid) s) = Inr ((FromHeader h)\<lparr>mFiles := es\<rparr>)"
proof -
  from assms(4,5) have fr: "list_all2 (\<lambda>a ps. sealed_as (cw_env s) t a (text_of ps)) ss pss"
      "list_all2 (\<lambda>a ps. sealed_as (cw_env s) t a (text_of ps)) ts qss"
    by (simp_all add: list_all2_append)
  from fr(2) assms(7) have "silent_stub stub"
    by (cases ts; cases qss) (auto simp: silent_stub_def sealed_as_def)
  with framed_object_holds[OF assms(1-3) fr(1) assms(6)] LoadManifest_object[OF assms(9,8)]
  show ?thesis by blast
qed

end
