(* ===== verification/Cas_Paths.thy ===== *)
theory Cas_Paths
  imports Cas_Roundtrip
begin

text \<open>
  Walk order and the parent manifest, \<^verbatim>\<open>cdc.go\<close>: \<^verbatim>\<open>comparePaths\<close> and \<^verbatim>\<open>parentLookup\<close>. A lookup
  keeps the entries it skipped (what its \<^verbatim>\<open>onSkip\<close> callback was told) as a list. The order is
  characterised as the lexicographic order of path components, and the streaming lookup is shown to
  agree with an index of the whole manifest.
\<close>

section \<open>Walk order\<close>

text \<open>The text before the first slash, and what follows it if there is one.\<close>

fun cut_slash :: "string \<Rightarrow> string \<times> string option" where
  "cut_slash [] = ([], None)"
| "cut_slash (x # xs) =
     (if x = CHR ''/'' then ([], Some xs) else (case cut_slash xs of (c, r) \<Rightarrow> (x # c, r)))"

lemma cut_slash_join:
  "cut_slash a = (c, r) \<Longrightarrow> a = c @ (case r of None \<Rightarrow> [] | Some s \<Rightarrow> CHR ''/'' # s)"
  by (induction a arbitrary: c) (auto split: if_splits prod.splits)

lemma cut_slash_shorter: "cut_slash a = (c, Some r) \<Longrightarrow> length r < length a"
  by (drule cut_slash_join) simp

function comparePaths :: "string \<Rightarrow> string \<Rightarrow> int" where
  "comparePaths a b =
     (case (cut_slash a, cut_slash b) of
        ((ac, ai), (bc, bi)) \<Rightarrow>
          if ac \<noteq> bc then (if ac < bc then -1 else 1)
          else (case (ai, bi) of
                  (None, None) \<Rightarrow> 0
                | (None, Some _) \<Rightarrow> -1
                | (Some _, None) \<Rightarrow> 1
                | (Some ar, Some br) \<Rightarrow> comparePaths ar br))"
  by pat_completeness auto
termination
  by (relation "measure (\<lambda>(a, b). length a)") (auto dest: cut_slash_shorter[OF sym])

declare comparePaths.simps [simp del]

text \<open>The components of a path; \<open>comparePaths\<close> is their lexicographic order.\<close>

function components :: "string \<Rightarrow> string list" where
  "components a = (case cut_slash a of (c, None) \<Rightarrow> [c] | (c, Some r) \<Rightarrow> c # components r)"
  by pat_completeness auto
termination
  by (relation "measure length") (auto dest: cut_slash_shorter[OF sym])

declare components.simps [simp del]

lemma components_nonempty: "components x \<noteq> []" "[] \<noteq> components x" "[] < components x" "\<not> components x < []"
proof -
  obtain y ys where "components x = y # ys"
    by (cases "components x") (auto simp: components.simps[of x] split: prod.splits option.splits)
  then show "components x \<noteq> []" "[] \<noteq> components x" "[] < components x" "\<not> components x < []" by auto
qed

lemma components_inj: "components a = components b \<Longrightarrow> a = b"
proof (induction a arbitrary: b rule: components.induct)
  case (1 a)
  obtain c r d s where ab: "cut_slash a = (c, r)" "cut_slash b = (d, s)" by (metis surj_pair)
  from 1(2) ab have "c = d" and "(r = None \<and> s = None) \<or> (\<exists>r' s'. r = Some r' \<and> s = Some s' \<and> components r' = components s')"
    by (auto simp: components.simps[of a] components.simps[of b] components_nonempty split: option.splits)
  with 1(1)[of c r] ab have "r = s" by (auto simp: ab)
  with \<open>c = d\<close> cut_slash_join[OF ab(1)] cut_slash_join[OF ab(2)] show ?case by simp
qed

lemma comparePaths_components:
  "comparePaths a b =
     (if components a < components b then -1 else if components a = components b then 0 else 1)"
proof (induction a b rule: comparePaths.induct)
  case (1 a b)
  obtain c r d s where ab: "cut_slash a = (c, r)" "cut_slash b = (d, s)" by (metis surj_pair)
  have ca: "components a = c # (case r of None \<Rightarrow> [] | Some x \<Rightarrow> components x)"
    using ab by (simp add: components.simps[of a] split: option.split)
  have cb: "components b = d # (case s of None \<Rightarrow> [] | Some x \<Rightarrow> components x)"
    using ab by (simp add: components.simps[of b] split: option.split)
  have IH: "comparePaths x y = (if components x < components y then -1
      else if components x = components y then 0 else 1)" if "c = d" "r = Some x" "s = Some y" for x y
    using that 1 ab by simp
  show ?case
    using IH ab components_nonempty
    by (cases r; cases s) (auto simp: comparePaths.simps[of a b] ca cb)
qed

lemma comparePaths_0 [simp]: "comparePaths a b = 0 \<longleftrightarrow> a = b"
  by (auto simp: comparePaths_components dest: components_inj)

lemma comparePaths_refl [simp]: "comparePaths p p = 0" by simp

lemma comparePaths_less: "comparePaths a b = -1 \<longleftrightarrow> components a < components b"
  by (simp add: comparePaths_components)

lemma components_eq [simp]: "components a = components b \<longleftrightarrow> a = b"
  using components_inj by blast

lemma comparePaths_linear:
  "comparePaths a b \<in> {-1, 0, 1}"
  "comparePaths a b = -1 \<Longrightarrow> comparePaths b c = -1 \<Longrightarrow> comparePaths a c = -1"
  "comparePaths a b = 1 \<longleftrightarrow> comparePaths b a = -1"
  by (auto simp: comparePaths_components split: if_splits dest: components_inj)

section \<open>The parent manifest\<close>

record parentLookup =
  plCursor :: "ManifestEntries option"
  plByPath :: "(string \<rightharpoonup> ManifestFile) option"
  plHeld :: "ManifestFile option"
  plDone :: bool
  plErr :: "cas_error option"
  plOnSkip :: bool
  plSkipped :: "ManifestFile list"

definition newParentLookup :: "cas_env \<Rightarrow> ManifestEntries option \<Rightarrow> cas_error + parentLookup" where
  "newParentLookup env cursor =
     (let l = \<lparr>plCursor = cursor, plByPath = None, plHeld = None, plDone = False, plErr = None,
               plOnSkip = False, plSkipped = []\<rparr>
      in case cursor of
           None \<Rightarrow> Inr (l\<lparr>plDone := True\<rparr>)
         | Some c \<Rightarrow>
             if hOrdered (meHeader c) then Inr l
             else (case read_entries env c of
                     (files, x) \<Rightarrow>
                       if errors_Is x EOF
                       then Inr (l\<lparr>plByPath := Some (index_files files), plDone := True\<rparr>)
                       else Inl x))"

definition on_skip :: "ManifestFile \<Rightarrow> parentLookup \<Rightarrow> parentLookup" where
  "on_skip f l = (if plOnSkip l then l\<lparr>plSkipped := plSkipped l @ [f]\<rparr> else l)"

definition cursor_left :: "parentLookup \<Rightarrow> nat" where
  "cursor_left l = (case plCursor l of None \<Rightarrow> 0 | Some c \<Rightarrow> length (meBr c))"

definition frame_left :: "parentLookup \<Rightarrow> nat" where
  "frame_left l = (case plCursor l of None \<Rightarrow> 0 | Some c \<Rightarrow> length (meFrame c))"

lemma on_skip_simps [simp]:
  "plCursor (on_skip f l) = plCursor l" "plByPath (on_skip f l) = plByPath l"
  "plHeld (on_skip f l) = plHeld l" "plDone (on_skip f l) = plDone l" "plErr (on_skip f l) = plErr l"
  "plOnSkip (on_skip f l) = plOnSkip l"
  "plSkipped (on_skip f l) = plSkipped l @ (if plOnSkip l then [f] else [])"
  by (simp_all add: on_skip_def)

text \<open>
  One pass of the loop either takes the next entry from the cursor or compares the held entry; the
  code does both in one iteration.
\<close>

function Lookup :: "cas_env \<Rightarrow> parentLookup \<Rightarrow> string \<Rightarrow> ManifestFile option \<times> parentLookup" where
  "Lookup env l path =
     (case plByPath l of
        Some m \<Rightarrow> (m path, l)
      | None \<Rightarrow>
          (case plHeld l of
             None \<Rightarrow>
               if plDone l \<or> plErr l \<noteq> None then (None, l)
               else (case plCursor l of
                       None \<Rightarrow> (None, l)
                     | Some c \<Rightarrow>
                         (case Next env c of
                            (Inl x, c1) \<Rightarrow>
                              if errors_Is x EOF then (None, l\<lparr>plCursor := Some c1, plDone := True\<rparr>)
                              else (None, l\<lparr>plCursor := Some c1, plErr := Some x\<rparr>)
                          | (Inr entry, c1) \<Rightarrow>
                              Lookup env (l\<lparr>plCursor := Some c1, plHeld := Some entry\<rparr>) path))
           | Some held \<Rightarrow>
               if comparePaths (mfPath held) path = 0 then (Some held, l\<lparr>plHeld := None\<rparr>)
               else if comparePaths (mfPath held) path = 1 then (None, l)
               else Lookup env (on_skip held (l\<lparr>plHeld := None\<rparr>)) path))"
  by pat_completeness auto
termination
  by (relation "measures [\<lambda>(env, l, p). cursor_left l, \<lambda>(env, l, p). frame_left l,
        \<lambda>(env, l, p). if plHeld l = None then 0 else 1]")
     (auto simp: cursor_left_def frame_left_def dest!: Next_smaller[OF sym])

declare Lookup.simps [simp del]

function drain_loop :: "cas_env \<Rightarrow> parentLookup \<Rightarrow> parentLookup" where
  "drain_loop env l =
     (if plDone l \<or> plErr l \<noteq> None then l
      else (case plCursor l of
              None \<Rightarrow> l
            | Some c \<Rightarrow>
                (case Next env c of
                   (Inl x, c1) \<Rightarrow>
                     if errors_Is x EOF then l\<lparr>plCursor := Some c1, plDone := True\<rparr>
                     else l\<lparr>plCursor := Some c1, plErr := Some x\<rparr>
                 | (Inr entry, c1) \<Rightarrow> drain_loop env (on_skip entry (l\<lparr>plCursor := Some c1\<rparr>)))))"
  by pat_completeness auto
termination
  by (relation "measures [\<lambda>(env, l). cursor_left l, \<lambda>(env, l). frame_left l]")
     (auto simp: cursor_left_def frame_left_def dest!: Next_smaller[OF sym])

declare drain_loop.simps [simp del]

definition Drain :: "cas_env \<Rightarrow> parentLookup \<Rightarrow> parentLookup" where
  "Drain env l =
     (if \<not> plOnSkip l \<or> plByPath l \<noteq> None then l
      else drain_loop env (case plHeld l of None \<Rightarrow> l | Some h \<Rightarrow> on_skip h (l\<lparr>plHeld := None\<rparr>)))"

definition lookup_Err :: "parentLookup \<Rightarrow> cas_error option" where
  "lookup_Err l = plErr l"

fun lookup_all :: "cas_env \<Rightarrow> string list \<Rightarrow> parentLookup \<Rightarrow> ManifestFile option list \<times> parentLookup" where
  "lookup_all env [] l = ([], l)"
| "lookup_all env (p # ps) l =
     (case Lookup env l p of (r, l1) \<Rightarrow>
        (case lookup_all env ps l1 of (rs, l2) \<Rightarrow> (r # rs, l2)))"

section \<open>Streaming and indexing agree\<close>

text \<open>The lookup streams, and the parent entries it has not passed yet are \<open>fs\<close>.\<close>

definition ahead :: "cas_env \<Rightarrow> parentLookup \<Rightarrow> ManifestFile list \<Rightarrow> bool" where
  "ahead env l fs \<longleftrightarrow> plByPath l = None \<and> plErr l = None \<and>
     (\<exists>gs. fs = (case plHeld l of None \<Rightarrow> gs | Some h \<Rightarrow> h # gs) \<and>
        (if plDone l then gs = [] else \<exists>c. plCursor l = Some c \<and> files_at env c gs))"

definition walk_less :: "ManifestFile \<Rightarrow> string \<Rightarrow> bool" where
  "walk_less f p \<longleftrightarrow> comparePaths (mfPath f) p = -1"

abbreviation walk_ordered :: "ManifestFile list \<Rightarrow> bool" where
  "walk_ordered fs \<equiv> sorted_wrt (\<lambda>f g. comparePaths (mfPath f) (mfPath g) = -1) fs"

text \<open>The answer for a path, and the entries left, when \<open>rest\<close> are the entries from that path on.\<close>

definition hit :: "string \<Rightarrow> ManifestFile list \<Rightarrow> ManifestFile option" where
  "hit p rest = (case rest of [] \<Rightarrow> None | h # t \<Rightarrow> if mfPath h = p then Some h else None)"

definition past :: "string \<Rightarrow> ManifestFile list \<Rightarrow> ManifestFile list" where
  "past p rest = (case rest of [] \<Rightarrow> [] | h # t \<Rightarrow> if mfPath h = p then t else h # t)"

definition looked_up :: "cas_env \<Rightarrow> parentLookup \<Rightarrow> ManifestFile list \<Rightarrow> string \<Rightarrow>
    ManifestFile option \<times> parentLookup \<Rightarrow> bool" where
  "looked_up env l fs p = (\<lambda>(r, l'). plOnSkip l' = plOnSkip l \<and>
     plSkipped l' = plSkipped l @ (if plOnSkip l then takeWhile (\<lambda>f. walk_less f p) fs else []) \<and>
     r = hit p (dropWhile (\<lambda>f. walk_less f p) fs) \<and>
     ahead env l' (past p (dropWhile (\<lambda>f. walk_less f p) fs)))"

lemma hit_past_simps [simp]:
  "hit p [] = None" "past p [] = []"
  "hit p (h # t) = (if mfPath h = p then Some h else None)"
  "past p (h # t) = (if mfPath h = p then t else h # t)"
  by (simp_all add: hit_def past_def)

lemma Lookup_held:
  assumes "ahead env k (f # fs)" and "plHeld k = Some f"
    and IH: "\<And>l. ahead env l fs \<Longrightarrow> looked_up env l fs p (Lookup env l p)"
  shows "looked_up env k (f # fs) p (Lookup env k p)"
proof -
  let ?k = "on_skip f (k\<lparr>plHeld := None\<rparr>)"
  have a: "ahead env (k\<lparr>plHeld := None\<rparr>) fs" "ahead env ?k fs" "plByPath k = None"
    using assms(1,2) by (auto simp: ahead_def)
  consider "mfPath f = p" | "comparePaths (mfPath f) p = 1" "mfPath f \<noteq> p" | "walk_less f p" "mfPath f \<noteq> p"
    using comparePaths_linear(1)[of "mfPath f" p] by (auto simp: walk_less_def)
  then show ?thesis
  proof cases
    case 3
    then have "Lookup env k p = Lookup env ?k p"
      using a assms(2) by (simp add: Lookup.simps[of env k] walk_less_def)
    with 3 IH[OF a(2)] show ?thesis by (auto simp: looked_up_def)
  qed (use a assms(1,2) in \<open>simp_all add: Lookup.simps[of env k] walk_less_def looked_up_def\<close>)
qed

lemma Lookup_ahead: "ahead env l fs \<Longrightarrow> looked_up env l fs p (Lookup env l p)"
proof (induction fs arbitrary: l)
  case Nil
  then have l: "plByPath l = None" "plErr l = None" "plHeld l = None"
    by (auto simp: ahead_def split: option.splits)
  show ?case
  proof (cases "plDone l")
    case True
    with l Nil show ?thesis by (simp add: Lookup.simps[of env l] looked_up_def)
  next
    case False
    with Nil l obtain c where c: "plCursor l = Some c" "files_at env c []" by (auto simp: ahead_def)
    with entries.next_Nil obtain x c' where "Next env c = (Inl x, c')" "errors_Is x EOF" by blast
    with l c False show ?thesis by (simp add: Lookup.simps[of env l] looked_up_def ahead_def)
  qed
next
  case (Cons f fs)
  show ?case
  proof (cases "plHeld l")
    case (Some h)
    with Cons.prems have "h = f" by (auto simp: ahead_def)
    with Lookup_held[OF Cons.prems _ Cons.IH] Some show ?thesis by simp
  next
    case None
    with Cons.prems obtain c where c: "\<not> plDone l" "plCursor l = Some c" "files_at env c (f # fs)"
        "plByPath l = None" "plErr l = None"
      by (auto simp: ahead_def split: if_splits)
    with entries.next_Cons obtain c' where c': "Next env c = (Inr f, c')" "files_at env c' fs" by blast
    let ?k = "l\<lparr>plCursor := Some c', plHeld := Some f\<rparr>"
    have "ahead env ?k (f # fs)" using c c' by (simp add: ahead_def)
    moreover have "Lookup env l p = Lookup env ?k p"
      using None c c' by (simp add: Lookup.simps[of env l])
    ultimately show ?thesis using Lookup_held[OF _ _ Cons.IH, of ?k] by (simp add: looked_up_def)
  qed
qed

text \<open>Skipping to a path in a manifest in walk order.\<close>

lemma walk_skip:
  assumes "walk_ordered fs"
  shows "f \<in> set (takeWhile (\<lambda>f. walk_less f p) fs) \<Longrightarrow> components (mfPath f) < components p"
    and "dropWhile (\<lambda>f. walk_less f p) fs = h # t \<Longrightarrow> components p \<le> components (mfPath h)"
    and "dropWhile (\<lambda>f. walk_less f p) fs = h # t \<Longrightarrow> g \<in> set t \<Longrightarrow>
           components (mfPath h) < components (mfPath g)"
    and "walk_ordered (dropWhile (\<lambda>f. walk_less f p) fs)"
proof -
  show "f \<in> set (takeWhile (\<lambda>f. walk_less f p) fs) \<Longrightarrow> components (mfPath f) < components p"
    by (auto dest: set_takeWhileD simp: walk_less_def comparePaths_less)
  show o: "walk_ordered (dropWhile (\<lambda>f. walk_less f p) fs)"
    using assms by (metis sorted_wrt_append takeWhile_dropWhile_id)
  assume d: "dropWhile (\<lambda>f. walk_less f p) fs = h # t"
  then have "\<not> walk_less h p" by (metis dropWhile_eq_Cons_conv)
  then show "components p \<le> components (mfPath h)" by (auto simp: walk_less_def comparePaths_less)
  show "g \<in> set t \<Longrightarrow> components (mfPath h) < components (mfPath g)"
    using o d by (auto simp: comparePaths_less)
qed

definition entry_at :: "ManifestFile list \<Rightarrow> string \<Rightarrow> ManifestFile option" where
  "entry_at fs p = find (\<lambda>f. mfPath f = p) fs"

lemma entry_at_append:
  "(\<And>f. f \<in> set fs \<Longrightarrow> mfPath f \<noteq> p) \<Longrightarrow> entry_at (fs @ gs) p = entry_at gs p"
  by (induction fs) (auto simp: entry_at_def)

lemma walk_ordered_distinct: "walk_ordered fs \<Longrightarrow> distinct (map mfPath fs)"
  by (induction fs) (auto simp: comparePaths_less)

lemma entry_at_index: "walk_ordered fs \<Longrightarrow> entry_at fs p = index_files fs p"
proof (cases "entry_at fs p")
  case None
  then have "p \<notin> dom (index_files fs)" by (auto simp: entry_at_def find_None_iff dom_index_files)
  with None show ?thesis by (simp add: domIff)
next
  case (Some f)
  assume "walk_ordered fs"
  moreover from Some have "mfPath f = p \<and> f \<in> set fs"
    unfolding entry_at_def by (rule find_key_eq)
  ultimately show ?thesis using index_files_distinct[OF walk_ordered_distinct, of fs f] Some by auto
qed

lemma walk_split:
  assumes "walk_ordered fs" and "\<forall>q\<in>set qs. comparePaths p q = -1"
    and "low = takeWhile (\<lambda>f. walk_less f p) fs" and "rest = dropWhile (\<lambda>f. walk_less f p) fs"
  shows "filter (\<lambda>f. mfPath f \<notin> set (p # qs)) fs = low @ filter (\<lambda>f. mfPath f \<notin> set qs) (past p rest)"
    and "q \<in> set qs \<Longrightarrow> entry_at fs q = entry_at (past p rest) q"
    and "entry_at fs p = hit p rest"
    and "walk_ordered (past p rest)"
proof -
  have fs: "fs = low @ rest" by (simp add: assms(3,4))
  note sk = walk_skip[OF assms(1), where p = p, folded assms(3,4)]
  have lp: "mfPath f \<noteq> p \<and> mfPath f \<notin> set qs" if "f \<in> set low" for f
    using sk(1)[OF that] assms(2) by (auto simp: comparePaths_less)
  have hq: "p \<notin> set qs" using assms(2) by auto
  have rest: "mfPath f \<noteq> p" if "rest = h # t" "f \<in> set t" for f h t
    using sk(2)[OF that(1)] sk(3)[OF that] by auto
  have "filter (\<lambda>f. mfPath f \<notin> set (p # qs)) low = low"
    using lp by (simp add: filter_id_conv)
  moreover have "filter (\<lambda>f. mfPath f \<notin> set (p # qs)) rest = filter (\<lambda>f. mfPath f \<notin> set qs) (past p rest)"
    using rest by (cases rest) (auto intro!: filter_cong)
  ultimately show "filter (\<lambda>f. mfPath f \<notin> set (p # qs)) fs = low @ filter (\<lambda>f. mfPath f \<notin> set qs) (past p rest)"
    unfolding fs by simp
  show "entry_at fs q = entry_at (past p rest) q" if q: "q \<in> set qs"
  proof -
    have "entry_at fs q = entry_at rest q" unfolding fs using lp q by (intro entry_at_append) auto
    also have "\<dots> = entry_at (past p rest) q" using q hq by (cases rest) (auto simp: entry_at_def)
    finally show ?thesis .
  qed
  have "entry_at fs p = entry_at rest p" unfolding fs using lp by (intro entry_at_append) auto
  also have "\<dots> = hit p rest"
    using rest by (cases rest) (auto simp: entry_at_def find_None_iff)
  finally show "entry_at fs p = hit p rest" .
  show "walk_ordered (past p rest)" using sk(4) by (cases rest) auto
qed

lemma lookup_all_ahead:
  assumes "ahead env l fs" and "walk_ordered fs" and "sorted_wrt (\<lambda>p q. comparePaths p q = -1) ps"
  shows "\<exists>l' gs. lookup_all env ps l = (map (entry_at fs) ps, l') \<and> ahead env l' gs \<and>
     plOnSkip l' = plOnSkip l \<and>
     (plOnSkip l \<longrightarrow> plSkipped l' @ gs = plSkipped l @ filter (\<lambda>f. mfPath f \<notin> set ps) fs)"
  using assms
proof (induction ps arbitrary: l fs)
  case Nil
  then show ?case by auto
next
  case (Cons p ps)
  define gs where "gs = past p (dropWhile (\<lambda>f. walk_less f p) fs)"
  have inc: "\<forall>q\<in>set ps. comparePaths p q = -1" using Cons.prems(3) by simp
  note sp = walk_split[OF Cons.prems(2) inc refl refl, folded gs_def]
  obtain r l1 where lk: "Lookup env l p = (r, l1)" by (cases "Lookup env l p")
  with Lookup_ahead[OF Cons.prems(1), of p] have l1: "plOnSkip l1 = plOnSkip l"
      "plSkipped l1 = plSkipped l @ (if plOnSkip l then takeWhile (\<lambda>f. walk_less f p) fs else [])"
      "r = entry_at fs p" "ahead env l1 gs"
    unfolding sp(3) by (auto simp: looked_up_def gs_def)
  from Cons.IH[OF l1(4) sp(4)] Cons.prems(3) obtain l2 hs where
    l2: "lookup_all env ps l1 = (map (entry_at gs) ps, l2)" "ahead env l2 hs" "plOnSkip l2 = plOnSkip l1"
      "plOnSkip l1 \<longrightarrow> plSkipped l2 @ hs = plSkipped l1 @ filter (\<lambda>f. mfPath f \<notin> set ps) gs"
    by auto
  have "map (entry_at gs) ps = map (entry_at fs) ps" using sp(2) by simp
  with lk l1 l2 sp(1) show ?case by auto
qed

lemma drain_loop_ahead:
  assumes "ahead env l fs" and "plHeld l = None" and "plOnSkip l"
  shows "plSkipped (drain_loop env l) = plSkipped l @ fs \<and> plErr (drain_loop env l) = None"
  using assms
proof (induction fs arbitrary: l)
  case Nil
  show ?case
  proof (cases "plDone l")
    case True
    with Nil show ?thesis by (simp add: drain_loop.simps[of env l] ahead_def)
  next
    case False
    with Nil obtain c where c: "plCursor l = Some c" "files_at env c []" "plErr l = None" by (auto simp: ahead_def)
    with entries.next_Nil obtain x c' where "Next env c = (Inl x, c')" "errors_Is x EOF" by blast
    with c False show ?thesis by (simp add: drain_loop.simps[of env l])
  qed
next
  case (Cons f fs)
  then obtain c where c: "\<not> plDone l" "plCursor l = Some c" "files_at env c (f # fs)" "plErr l = None" "plByPath l = None"
    by (auto simp: ahead_def split: if_splits)
  with entries.next_Cons obtain c' where c': "Next env c = (Inr f, c')" "files_at env c' fs" by blast
  let ?l = "on_skip f (l\<lparr>plCursor := Some c'\<rparr>)"
  have "ahead env ?l fs" using c c' Cons.prems by (simp add: ahead_def)
  with Cons.IH[of ?l] Cons.prems c c' show ?case by (simp add: drain_loop.simps[of env l])
qed

lemma Drain_ahead:
  assumes "ahead env l fs" and "plOnSkip l"
  shows "plSkipped (Drain env l) = plSkipped l @ fs" and "plErr (Drain env l) = None"
proof -
  let ?l = "case plHeld l of None \<Rightarrow> l | Some h \<Rightarrow> on_skip h (l\<lparr>plHeld := None\<rparr>)"
  let ?fs = "case plHeld l of None \<Rightarrow> fs | Some h \<Rightarrow> tl fs"
  have "Drain env l = drain_loop env ?l" using assms by (simp add: Drain_def ahead_def)
  moreover have "ahead env ?l ?fs" "plHeld ?l = None" "plOnSkip ?l"
    using assms by (auto simp: ahead_def split: option.splits)
  moreover have "plSkipped ?l @ ?fs = plSkipped l @ fs"
    using assms by (auto simp: ahead_def split: option.splits)
  ultimately show "plSkipped (Drain env l) = plSkipped l @ fs" "plErr (Drain env l) = None"
    using drain_loop_ahead[of env ?l ?fs] by auto
qed

lemma files_at_header [simp]: "files_at env (e\<lparr>meHeader := h\<rparr>) fs = files_at env e fs"
  by (simp add: files_at_def)

abbreviation as_ordered :: "bool \<Rightarrow> ManifestEntries \<Rightarrow> ManifestEntries" where
  "as_ordered b e \<equiv> e\<lparr>meHeader := (meHeader e)\<lparr>hOrdered := b\<rparr>\<rparr>"

text \<open>
  C17. Merging a manifest in walk order against a walk gives the same answers as indexing the whole
  manifest: for every increasing sequence of paths, the streaming lookup returns what the index
  returns, and the entries it reports as skipped, once drained, are exactly the entries of the
  manifest whose path was not offered, in manifest order.
\<close>

theorem streaming_lookup_equals_index:
  assumes "files_at env e fs" and "walk_ordered fs"
    and "sorted_wrt (\<lambda>p q. comparePaths p q = -1) ps"
  shows "\<exists>ls li. newParentLookup env (Some (as_ordered True e)) = Inr ls \<and>
      newParentLookup env (Some (as_ordered False e)) = Inr li \<and>
      fst (lookup_all env ps ls) = fst (lookup_all env ps li) \<and>
      fst (lookup_all env ps ls) = map (index_files fs) ps \<and>
      plSkipped (Drain env (snd (lookup_all env ps (ls\<lparr>plOnSkip := True\<rparr>)))) =
        filter (\<lambda>f. mfPath f \<notin> set ps) fs"
proof -
  define ls where "ls = \<lparr>plCursor = Some (as_ordered True e), plByPath = None, plHeld = None, plDone = False,
    plErr = None, plOnSkip = False, plSkipped = []\<rparr>"
  define li where "li = \<lparr>plCursor = Some (as_ordered False e), plByPath = Some (index_files fs), plHeld = None,
    plDone = True, plErr = None, plOnSkip = False, plSkipped = []\<rparr>"
  have n: "newParentLookup env (Some (as_ordered True e)) = Inr ls"
      "newParentLookup env (Some (as_ordered False e)) = Inr li"
    using read_entries_files[of env "as_ordered False e" fs] assms(1)
    by (auto simp: newParentLookup_def ls_def li_def)
  have "lookup_all env qs li = (map (index_files fs) qs, li)" for qs
  proof (induction qs)
    case (Cons q qs)
    have "Lookup env li q = (index_files fs q, li)" 
      by (subst Lookup.simps) (simp add: li_def)
    with Cons show ?case by simp
  qed simp
  moreover have "ahead env ls fs" "ahead env (ls\<lparr>plOnSkip := True\<rparr>) fs" using assms(1) by (auto simp: ahead_def ls_def)
  note st = this[THEN lookup_all_ahead, OF assms(2,3)]
  have "map (entry_at fs) ps = map (index_files fs) ps" using assms(2) by (simp add: entry_at_index)
  moreover have "plSkipped (Drain env (snd (lookup_all env ps (ls\<lparr>plOnSkip := True\<rparr>)))) =
      filter (\<lambda>f. mfPath f \<notin> set ps) fs"
  proof -
    from st(2) obtain l' gs where "lookup_all env ps (ls\<lparr>plOnSkip := True\<rparr>) = (map (entry_at fs) ps, l')"
        "ahead env l' gs" "plOnSkip l'" "plSkipped l' @ gs = filter (\<lambda>f. mfPath f \<notin> set ps) fs"
      by (auto simp: ls_def)
    with Drain_ahead(1)[of env l' gs] show ?thesis by simp
  qed
  ultimately show ?thesis using n st(1) by auto
qed

end
