(* ===== verification/Cas_Sync.thy ===== *)
theory Cas_Sync
  imports Cas_Paths
begin

text \<open>
  Snapshots of a workspace, \<^verbatim>\<open>sync.go\<close> and \<^verbatim>\<open>cdc.go\<close>: the chunk store over the blob storage, the
  uploading sink, the walk that chunks a tree against its parent manifest and commits the new
  manifest, and the reading of a file back from its chunks.

  A source tree is the list of entries its walk visits, in order. The goroutine that uploads a
  chunk runs when the chunk is offered; its error is kept by the group and returned by \<^verbatim>\<open>Wait\<close>.
  The content defined splitter is a parameter of the environment (\<open>ce_split\<close>), and so is the hash.
\<close>

section \<open>The chunk store\<close>

definition chunkKey :: "string \<Rightarrow> string \<Rightarrow> string" where
  "chunkKey tenantID hash =
     ''chunks/'' @ tenantID @ ''/'' @ take 2 hash @ ''/'' @ hash @ ''.blob.enc''"

definition StoreChunk :: "string \<Rightarrow> string \<Rightarrow> bytes \<Rightarrow> int C" where
  "StoreChunk tenantID hash data = do {
     (t, env) \<leftarrow> cas_tick;
     (case ce_Encrypt env t tenantID data of
        Inl e \<Rightarrow> err (ErrWrapped ''failed to encrypt chunk'' e)
      | Inr encrypted \<Rightarrow>
          guard_ok (map_err (ErrWrapped ''failed to upload chunk'')
            (storage_Upload (chunkKey tenantID hash) encrypted)) (\<lambda>_.
          ok (int (length encrypted)))) }"

definition GetChunk :: "string \<Rightarrow> string \<Rightarrow> bytes C" where
  "GetChunk tenantID hash = do {
     r \<leftarrow> storage_Download (chunkKey tenantID hash);
     (t, env) \<leftarrow> cas_tick;
     (case r of
        Inl e \<Rightarrow> err (if e = ErrStorageNotFound then ErrChunkNotFound
                      else ErrWrapped ''failed to download chunk'' e)
      | Inr (encrypted, at_end) \<Rightarrow>
          (case at_end of
             Some e \<Rightarrow> err (ErrWrapped ''failed to read chunk'' e)
           | None \<Rightarrow>
               (case ce_Decrypt env tenantID encrypted of
                  Inl e \<Rightarrow> err (ErrWrapped ''failed to decrypt chunk'' e)
                | Inr data \<Rightarrow>
                    if ce_HashData env data \<noteq> hash then err ErrChunkCorrupted else ok data))) }"

definition DeleteChunk :: "string \<Rightarrow> string \<Rightarrow> unit C" where
  "DeleteChunk tenantID hash = storage_Delete (chunkKey tenantID hash)"

definition ChunkExists :: "string \<Rightarrow> string \<Rightarrow> bool C" where
  "ChunkExists tenantID hash = storage_Exists (chunkKey tenantID hash)"

section \<open>The sink\<close>

record chunkSink =
  skTenant :: string
  skSeen :: "string list"
  skMaxSeen :: int
  skDistinct :: nat
  skUploaded :: nat
  skNewBytes :: int
  skErr :: "cas_error option"

definition newChunkSink :: "string \<Rightarrow> Config \<Rightarrow> chunkSink" where
  "newChunkSink tenantID cfg =
     \<lparr>skTenant = tenantID, skSeen = [], skMaxSeen = cfgMaxSeenChunks cfg, skDistinct = 0,
      skUploaded = 0, skNewBytes = 0, skErr = None\<rparr>"

definition markSeen :: "string \<Rightarrow> chunkSink \<Rightarrow> bool \<times> chunkSink" where
  "markSeen hash s =
     (if hash \<in> set (skSeen s) then (True, s)
      else (False, s\<lparr>skDistinct := skDistinct s + 1,
                     skSeen := (if int (length (skSeen s)) < skMaxSeen s then hash # skSeen s
                                else skSeen s)\<rparr>))"

definition Known :: "string \<Rightarrow> chunkSink \<Rightarrow> chunkSink" where
  "Known hash s = snd (markSeen hash s)"

text \<open>The body of the upload goroutine; \<open>Some n\<close> when the chunk was stored.\<close>

definition upload_chunk :: "string \<Rightarrow> string \<Rightarrow> bytes \<Rightarrow> int option C" where
  "upload_chunk tenantID hash data =
     guard_ok (map_err (ErrWrapped ''failed to check chunk'') (ChunkExists tenantID hash)) (\<lambda>present.
     if present then ok None
     else guard_ok (map_err (ErrWrapped ''failed to upload chunk'') (StoreChunk tenantID hash data))
            (\<lambda>n. ok (Some n)))"

definition upload_done :: "cas_error + int option \<Rightarrow> chunkSink \<Rightarrow> chunkSink" where
  "upload_done r s =
     (case r of
        Inl e \<Rightarrow> s\<lparr>skErr := (case skErr s of None \<Rightarrow> Some e | Some first \<Rightarrow> Some first)\<rparr>
      | Inr None \<Rightarrow> s
      | Inr (Some n) \<Rightarrow> s\<lparr>skUploaded := skUploaded s + 1, skNewBytes := skNewBytes s + n\<rparr>)"

text \<open>
  After a failed upload the group's context is cancelled, and the \<^verbatim>\<open>select\<close> may take either branch
  (\<open>ce_landed\<close> decides).
\<close>

definition Add :: "string \<Rightarrow> bytes \<Rightarrow> chunkSink \<Rightarrow> (cas_world, (cas_error + unit) \<times> chunkSink) state" where
  "Add hash data s =
     (case markSeen hash s of
        (True, s1) \<Rightarrow> ret (Inr (), s1)
      | (False, s1) \<Rightarrow> do {
          (t, env) \<leftarrow> cas_tick;
          (case skErr s1 of
             Some e \<Rightarrow>
               if ce_landed env t then ret (Inl e, s1)
               else do { r \<leftarrow> upload_chunk (skTenant s1) hash data; ret (Inr (), upload_done r s1) }
           | None \<Rightarrow> do { r \<leftarrow> upload_chunk (skTenant s1) hash data; ret (Inr (), upload_done r s1) }) })"

definition Wait :: "chunkSink \<Rightarrow> cas_error + unit" where
  "Wait s = (case skErr s of Some e \<Rightarrow> Inl e | None \<Rightarrow> Inr ())"

definition Distinct :: "chunkSink \<Rightarrow> int" where
  "Distinct s = int (skDistinct s)"

section \<open>The walk\<close>

record FileInfo =
  fiRel :: string
  fiIsDir :: bool
  fiMode :: "32 word"
  fiModTime :: int
  fiSize :: int
  fiLink :: string
  fiData :: bytes

definition ModeSymlink :: "32 word" where "ModeSymlink = push_bit 27 1"

definition ModeType :: "32 word" where
  "ModeType = push_bit 31 1 OR push_bit 27 1 OR push_bit 25 1 OR push_bit 24 1 OR
              push_bit 26 1 OR push_bit 21 1 OR push_bit 19 1"

definition mode_IsRegular :: "32 word \<Rightarrow> bool" where
  "mode_IsRegular m \<longleftrightarrow> m AND ModeType = 0"

definition Perm :: "32 word \<Rightarrow> 32 word" where "Perm m = m AND 511"

definition reusable :: "ManifestFile \<Rightarrow> FileInfo \<Rightarrow> bool" where
  "reusable parent info \<longleftrightarrow> IsRegular parent \<and> mfSize parent = fiSize info \<and>
     mfMode parent = fiMode info \<and> mfModTime parent = fiModTime info"

fun iterate_chunks :: "bytes list \<Rightarrow> string list \<Rightarrow> int list \<Rightarrow> chunkSink \<Rightarrow>
    (cas_world, (cas_error + string list \<times> int list) \<times> chunkSink) state" where
  "iterate_chunks [] hashes sizes s = ret (Inr (hashes, sizes), s)"
| "iterate_chunks (chunk # chunks) hashes sizes s = do {
     (t, env) \<leftarrow> cas_tick;
     (case ce_fault env t of
        Some e \<Rightarrow> ret (Inl e, s)
      | None \<Rightarrow> do {
          (r, s1) \<leftarrow> Add (ce_HashData env chunk) chunk s;
          (case r of
             Inl e \<Rightarrow> ret (Inl e, s1)
           | Inr _ \<Rightarrow> iterate_chunks chunks (hashes @ [ce_HashData env chunk])
                        (sizes @ [int (length chunk)]) s1) }) }"

definition chunkFile :: "Config \<Rightarrow> bytes \<Rightarrow> chunkSink \<Rightarrow>
    (cas_world, (cas_error + string list \<times> int list) \<times> chunkSink) state" where
  "chunkFile cfg data s = do {
     (t, env) \<leftarrow> cas_tick;
     (case ce_fault env t of
        Some e \<Rightarrow> ret (Inl (ErrWrapped ''failed to open'' e), s)
      | None \<Rightarrow> do {
          (r, s1) \<leftarrow> iterate_chunks (ce_split env (cfgChunker cfg) data) [] [] s;
          ret (case r of Inl e \<Rightarrow> Inl (ErrWrapped ''failed to chunk'' e) | Inr x \<Rightarrow> Inr x, s1) }) }"

record sync_state =
  syWriter :: ManifestObjectWriter
  sySink :: chunkSink
  syLookup :: parentLookup
  syTotal :: int
  syDiff :: "DiffResult option"

definition note_diff :: "(DiffResult \<Rightarrow> DiffResult) \<Rightarrow> sync_state \<Rightarrow> sync_state" where
  "note_diff f y = y\<lparr>syDiff := map_option f (syDiff y)\<rparr>"

definition note_unchanged :: "string \<Rightarrow> sync_state \<Rightarrow> sync_state" where
  "note_unchanged p = note_diff (\<lambda>d. d\<lparr>dUnchanged := dUnchanged d @ [p]\<rparr>)"

definition note_chunked :: "string \<Rightarrow> ManifestFile option \<Rightarrow> string list \<Rightarrow> sync_state \<Rightarrow> sync_state" where
  "note_chunked p prev chunks =
     (case prev of
        None \<Rightarrow> note_diff (\<lambda>d. d\<lparr>dAdded := dAdded d @ [p]\<rparr>)
      | Some f \<Rightarrow>
          if chunksEqual (mfChunks f) chunks then note_unchanged p
          else note_diff (\<lambda>d. d\<lparr>dModified := dModified d @ [p]\<rparr>))"

definition base_record :: "FileInfo \<Rightarrow> ManifestFile" where
  "base_record i = \<lparr>mfPath = fiRel i, mfMode = fiMode i, mfModTime = fiModTime i, mfSize = 0,
     mfChunks = [], mfChunkSizes = [], mfType = EntryFile, mfLink = ''''\<rparr>"

definition chunk_record :: "Config \<Rightarrow> FileInfo \<Rightarrow> ManifestFile option \<Rightarrow> sync_state \<Rightarrow>
    (cas_world, (cas_error + ManifestFile option) \<times> sync_state) state" where
  "chunk_record cfg info prev y = do {
     (r, s1) \<leftarrow> chunkFile cfg (fiData info) (sySink y);
     ret (case r of
            Inl e \<Rightarrow> (Inl e, y\<lparr>sySink := s1\<rparr>)
          | Inr (chunks, sizes) \<Rightarrow>
              (Inr (Some ((base_record info)\<lparr>mfSize := fiSize info, mfChunks := chunks, mfChunkSizes := sizes\<rparr>)),
               note_chunked (fiRel info) prev chunks (y\<lparr>sySink := s1\<rparr>))) }"

definition reuse_record :: "FileInfo \<Rightarrow> ManifestFile \<Rightarrow> sync_state \<Rightarrow> ManifestFile \<times> sync_state" where
  "reuse_record info p y =
     ((base_record info)\<lparr>mfSize := fiSize info, mfChunks := mfChunks p, mfChunkSizes := mfChunkSizes p\<rparr>,
      note_unchanged (fiRel info) (y\<lparr>sySink := fold Known (mfChunks p) (sySink y)\<rparr>))"

text \<open>The callback of the walk up to \<^verbatim>\<open>writer.Append\<close>: the record to append, if there is one.\<close>

definition walk_record :: "Config \<Rightarrow> FileInfo \<Rightarrow> ManifestFile option \<Rightarrow> sync_state \<Rightarrow>
    (cas_world, (cas_error + ManifestFile option) \<times> sync_state) state" where
  "walk_record cfg info prev y =
     (if fiIsDir info then ret (Inr (Some ((base_record info)\<lparr>mfType := EntryDir\<rparr>)), y)
      else if fiMode info AND ModeSymlink \<noteq> 0 then do {
        r \<leftarrow> cas_op ''failed to read link'';
        ret (case r of
               Inl e \<Rightarrow> (Inl e, y)
             | Inr _ \<Rightarrow> (Inr (Some ((base_record info)\<lparr>mfType := EntrySymlink, mfLink := fiLink info\<rparr>)), y)) }
      else if mode_IsRegular (fiMode info) then
        (let y1 = y\<lparr>syTotal := syTotal y + fiSize info\<rparr>
         in case prev of
              Some p \<Rightarrow>
                if reusable p info then ret (case reuse_record info p y1 of (f, y2) \<Rightarrow> (Inr (Some f), y2))
                else chunk_record cfg info prev y1
            | None \<Rightarrow> chunk_record cfg info prev y1)
      else ret (Inr None, y))"

definition walk_entry :: "Config \<Rightarrow> FileInfo \<Rightarrow> sync_state \<Rightarrow>
    (cas_world, (cas_error + unit) \<times> sync_state) state" where
  "walk_entry cfg info y = do {
     st \<leftarrow> cas_op ''failed to stat'';
     (t, env) \<leftarrow> cas_tick;
     (case st of
        Inl e \<Rightarrow> ret (Inl e, y)
      | Inr _ \<Rightarrow>
          (case Lookup env (syLookup y) (fiRel info) of
             (prev, l) \<Rightarrow> do {
               (r, y1) \<leftarrow> walk_record cfg info prev (y\<lparr>syLookup := l\<rparr>);
               (case r of
                  Inl e \<Rightarrow> ret (Inl e, y1)
                | Inr None \<Rightarrow> ret (Inr (), y1)
                | Inr (Some record) \<Rightarrow> do {
                    (w, a) \<leftarrow> Append record (syWriter y1);
                    ret (a, y1\<lparr>syWriter := w\<rparr>) }) })) }"

text \<open>
  \<^verbatim>\<open>walkTree\<close>: an error of the directory walk itself, or of the callback, ends the walk.
\<close>

fun walkTree :: "Config \<Rightarrow> FileInfo list \<Rightarrow> sync_state \<Rightarrow>
    (cas_world, (cas_error + unit) \<times> sync_state) state" where
  "walkTree cfg [] y = ret (Inr (), y)"
| "walkTree cfg (info # infos) y = do {
     st \<leftarrow> cas_op ''walk'';
     (case st of
        Inl e \<Rightarrow> ret (Inl e, y)
      | Inr _ \<Rightarrow> do {
          (r, y1) \<leftarrow> walk_entry cfg info y;
          (case r of Inl e \<Rightarrow> ret (Inl e, y1) | Inr _ \<Rightarrow> walkTree cfg infos y1) }) }"

definition skipped_diff :: "parentLookup \<Rightarrow> DiffResult option \<Rightarrow> DiffResult option" where
  "skipped_diff l d =
     map_option (\<lambda>d. d\<lparr>dDeleted := dDeleted d @ map mfPath (filter IsRegular (plSkipped l))\<rparr>) d"

text \<open>
  The result is the committed manifest and the diff. \<open>manifest\<close> is shared with the writer, so the
  totals are set on the writer's manifest before the commit.
\<close>

definition finish_sync :: "sync_state \<Rightarrow> (Manifest \<times> DiffResult option) C" where
  "finish_sync y = do {
     (t, env) \<leftarrow> cas_tick;
     (let l = Drain env (syLookup y); d = skipped_diff l (syDiff y)
      in case Wait (sySink y) of
           Inl e \<Rightarrow> err e
         | Inr _ \<Rightarrow>
             (case lookup_Err l of
                Some e \<Rightarrow> err (ErrWrapped ''failed to read parent manifest'' e)
              | None \<Rightarrow> do {
                  (w, r) \<leftarrow> Commit ((syWriter y)\<lparr>owManifest := (owManifest (syWriter y))
                     \<lparr>mTotalSize := syTotal y, mChunkCount := Distinct (sySink y), mOrdered := True\<rparr>\<rparr>);
                  (case r of Inl e \<Rightarrow> err e | Inr _ \<Rightarrow> ok (owManifest w, d)) })) }"

definition syncCDC :: "Config \<Rightarrow> Manifest \<Rightarrow> FileInfo list \<Rightarrow> ManifestEntries option \<Rightarrow>
    DiffResult option \<Rightarrow> (Manifest \<times> DiffResult option) C" where
  "syncCDC cfg manifest tree parent diff = do {
     (t, env) \<leftarrow> cas_tick;
     (case newParentLookup env parent of
        Inl e \<Rightarrow> err (ErrWrapped ''failed to read parent manifest'' e)
      | Inr l \<Rightarrow>
          guard_ok (OpenManifestWriter (Some manifest)) (\<lambda>w. do {
            (r, y) \<leftarrow> walkTree cfg tree
               \<lparr>syWriter = w, sySink = newChunkSink (mTenantID manifest) cfg,
                syLookup = l\<lparr>plOnSkip := diff \<noteq> None\<rparr>, syTotal = 0, syDiff = diff\<rparr>;
            (case r of
               Inl e \<Rightarrow> err (ErrWrapped ''failed to walk directory'' e)
             | Inr _ \<Rightarrow> finish_sync y) })) }"

section \<open>Reading files back\<close>

text \<open>The pipeline delivers the fetched chunks in order and stops at the first error.\<close>

fun writeChunks :: "string \<Rightarrow> string list \<Rightarrow> bytes C" where
  "writeChunks tenantID [] = ok []"
| "writeChunks tenantID (hash # hashes) =
     guard_ok (map_err (ErrWrapped ''failed to get chunk'') (GetChunk tenantID hash)) (\<lambda>data.
     guard_ok (cas_op ''failed to write chunk to file'') (\<lambda>_.
     guard_ok (writeChunks tenantID hashes) (\<lambda>rest.
     ok (data @ rest))))"

section \<open>Validation\<close>

fun missing_chunks :: "string \<Rightarrow> string list \<Rightarrow> string list C" where
  "missing_chunks tenantID [] = ok []"
| "missing_chunks tenantID (hash # hashes) =
     guard_ok (map_err (ErrWrapped ''failed to check chunk'') (ChunkExists tenantID hash)) (\<lambda>present.
     guard_ok (missing_chunks tenantID hashes) (\<lambda>rest.
     ok (if present then rest else hash # rest)))"

definition ValidateManifest :: "Manifest \<Rightarrow> unit C" where
  "ValidateManifest m =
     guard_ok (missing_chunks (mTenantID m) (CollectChunkHashes m)) (\<lambda>missing.
     if missing \<noteq> [] then err (ChunksMissingError missing) else ok ())"

end
