(* ===== verification/Cas_Sync_Laws.thy ===== *)
theory Cas_Sync_Laws
  imports Cas_Sync
begin

text \<open>
  A snapshot is complete: whatever the parent manifest, a successful sync commits one entry per
  item of the tree, made from its content or, for a file that looks unchanged, copied from the
  parent's entry; the chunks it names are in the store unless the parent's were missing already;
  and the files it chunked are read back as they were.
\<close>

section \<open>The store only grows\<close>

definition stored :: "cas_world \<Rightarrow> string \<Rightarrow> string \<Rightarrow> bool" where
  "stored s t h \<longleftrightarrow> cw_blobs s (chunkKey t h) \<noteq> None"

text \<open>Every chunk object of the tenant decrypts to data with the hash in its key.\<close>

definition store_sound :: "string \<Rightarrow> cas_world \<Rightarrow> bool" where
  "store_sound t s \<longleftrightarrow> (\<forall>h c. cw_blobs s (chunkKey t h) = Some c \<longrightarrow>
     (\<exists>d. ce_Decrypt (cw_env s) t c = Inr d \<and> ce_HashData (cw_env s) d = h))"

definition store_ext :: "string \<Rightarrow> cas_world \<Rightarrow> cas_world \<Rightarrow> bool" where
  "store_ext t s s' \<longleftrightarrow> cw_env s' = cw_env s \<and> (\<forall>k. cw_blobs s k \<noteq> None \<longrightarrow> cw_blobs s' k \<noteq> None) \<and>
     (store_sound t s \<longrightarrow> store_sound t s')"

lemma store_ext_refl [simp]: "store_ext t s s"
  by (simp add: store_ext_def)

lemma store_ext_tick [simp]: "store_ext t s (s\<lparr>cw_tick := n\<rparr>)" "store_ext t (s\<lparr>cw_tick := n\<rparr>) s' = store_ext t s s'"
  by (simp_all add: store_ext_def store_sound_def)

lemma store_ext_trans: "store_ext t s s' \<Longrightarrow> store_ext t s' s'' \<Longrightarrow> store_ext t s s''"
  by (auto simp: store_ext_def)

lemma store_ext_same: "same_store s s' \<Longrightarrow> store_ext t s s'"
  by (auto simp: same_store_def store_ext_def store_sound_def)

lemma stored_ext: "store_ext t s s' \<Longrightarrow> stored s t h \<Longrightarrow> stored s' t h"
  by (auto simp: store_ext_def stored_def)

text \<open>In the store, or one of the chunks \<open>X\<close> of the parent that were missing from the start.\<close>

definition held :: "string set \<Rightarrow> cas_world \<Rightarrow> string \<Rightarrow> string \<Rightarrow> bool" where
  "held X s t h \<longleftrightarrow> h \<in> X \<or> stored s t h"

lemma held_ext: "store_ext t s s' \<Longrightarrow> held X s t h \<Longrightarrow> held X s' t h"
  by (auto simp: held_def intro: stored_ext)

lemma held_stored: "stored s t h \<Longrightarrow> held X s t h"
  by (simp add: held_def)

lemma held_tick [simp]: "held X (s\<lparr>cw_tick := n\<rparr>) t h = held X s t h"
  by (simp add: held_def stored_def)

lemma chunkKey_inj [simp]: "chunkKey t h = chunkKey t h' \<longleftrightarrow> h = h'"
proof
  assume k: "chunkKey t h = chunkKey t h'"
  then have "length (chunkKey t h) = length (chunkKey t h')" by simp
  then have "min 2 (length h) + length h = min 2 (length h') + length h'"
    by (simp add: chunkKey_def)
  then have "length h = length h'" by (auto simp: min_def split: if_splits)
  with k show "h = h'" by (simp add: chunkKey_def)
qed simp

lemma chunk_not_manifest [simp]: "chunkKey t h \<noteq> manifestKey a b c" "manifestKey a b c \<noteq> chunkKey t h"
  by (simp_all add: chunkKey_def manifestKey_def)

lemma store_ext_chunk:
  assumes "encryptor_ok (cw_env s)" and "ce_HashData (cw_env s) d = h"
    and "ce_Encrypt (cw_env s) n t d = Inr c"
  shows "store_ext t s (s\<lparr>cw_tick := k, cw_blobs := (cw_blobs s)(chunkKey t h \<mapsto> c)\<rparr>)"
  using assms by (auto simp: store_ext_def store_sound_def encryptor_ok_def)

lemma upload_chunk_ok:
  assumes "encryptor_ok (cw_env s)" and "ce_HashData (cw_env s) d = h"
  shows "wp (upload_chunk t h d) (\<lambda>r s'. store_ext t s s' \<and> (\<forall>x. r = Inr x \<longrightarrow> stored s' t h)) s"
  using store_ext_chunk[OF assms]
  by (auto simp: upload_chunk_def ChunkExists_def StoreChunk_def wp_def storage_Exists_def storage_Upload_def
      stored_def Let_def split: option.splits sum.splits)

section \<open>The sink\<close>

text \<open>Unless an upload failed, every hash the sink has seen is in the store, or was missing from the start.\<close>

definition sink_sound :: "string set \<Rightarrow> cas_world \<Rightarrow> chunkSink \<Rightarrow> bool" where
  "sink_sound X s k \<longleftrightarrow> (skErr k = None \<longrightarrow> (\<forall>h\<in>set (skSeen k). held X s (skTenant k) h))"

lemma sink_sound_ext: "store_ext (skTenant k) s s' \<Longrightarrow> sink_sound X s k \<Longrightarrow> sink_sound X s' k"
  by (auto simp: sink_sound_def intro: held_ext)

lemma markSeen_True: "markSeen h k = (True, k') \<Longrightarrow> k' = k \<and> h \<in> set (skSeen k)"
  by (auto simp: markSeen_def split: if_splits)

lemma markSeen_False:
  "markSeen h k = (False, k') \<Longrightarrow> skTenant k' = skTenant k \<and> skErr k' = skErr k \<and>
     set (skSeen k') \<subseteq> insert h (set (skSeen k))"
  by (auto simp: markSeen_def split: if_splits)

lemma upload_done_simps [simp]:
  "skTenant (upload_done r k) = skTenant k" "skSeen (upload_done r k) = skSeen k"
  "skErr (upload_done r k) = None \<longleftrightarrow> skErr k = None \<and> (\<exists>x. r = Inr x)"
  by (auto simp: upload_done_def split: sum.splits option.splits)

text \<open>What offering chunks guarantees: the sink stays sound, and the chunks are stored unless an upload failed.\<close>

definition offered :: "string set \<Rightarrow> cas_world \<Rightarrow> chunkSink \<Rightarrow> string set \<Rightarrow> chunkSink \<Rightarrow> cas_world \<Rightarrow> bool" where
  "offered X s k H k' s' \<longleftrightarrow> store_ext (skTenant k) s s' \<and> skTenant k' = skTenant k \<and>
     (skErr k' = None \<longrightarrow> skErr k = None) \<and> (sink_sound X s k \<longrightarrow> sink_sound X s' k') \<and>
     (sink_sound X s k \<and> skErr k' = None \<longrightarrow> (\<forall>h\<in>H. held X s' (skTenant k) h))"

lemma offered_refl [simp]: "offered X s k {} k s"
  by (simp add: offered_def)

lemma offered_tick [simp]: "offered X (s\<lparr>cw_tick := n\<rparr>) k H k' s' = offered X s k H k' s'"
  by (simp add: offered_def sink_sound_def stored_def)

lemma offered_trans:
  assumes "offered X s k H k' s'" and "offered X s' k' H' k'' s''"
  shows "offered X s k (H \<union> H') k'' s''"
  using assms unfolding offered_def by (auto intro: store_ext_trans held_ext)

definition added :: "string set \<Rightarrow> cas_world \<Rightarrow> chunkSink \<Rightarrow> string \<Rightarrow> (cas_error + unit) \<times> chunkSink \<Rightarrow> cas_world \<Rightarrow> bool" where
  "added X s k h a s' \<longleftrightarrow> offered X s k (if fst a = Inr () then {h} else {}) (snd a) s'"

lemma Add_offered:
  assumes "encryptor_ok (cw_env s)" and "ce_HashData (cw_env s) d = h"
  shows "wp (Add h d k) (added X s k h) s"
proof (cases "markSeen h k")
  case (Pair b k1)
  show ?thesis
  proof (cases b)
    case True
    with Pair markSeen_True[of h k k1] show ?thesis
      by (auto simp: Add_def wp_simps added_def offered_def sink_sound_def)
  next
    case False
    with Pair have k1: "skTenant k1 = skTenant k \<and> skErr k1 = skErr k \<and>
        set (skSeen k1) \<subseteq> insert h (set (skSeen k))"
      by (intro markSeen_False) simp
    have up: "wp (upload_chunk (skTenant k1) h d) (\<lambda>r s'. store_ext (skTenant k) s s' \<and>
        (\<forall>x. r = Inr x \<longrightarrow> stored s' (skTenant k) h)) (s\<lparr>cw_tick := n\<rparr>)" for n
      using upload_chunk_ok[of "s\<lparr>cw_tick := n\<rparr>" d h "skTenant k"] assms k1 by simp
    have off: "offered X s k {h} (upload_done r k1) s'"
      if "store_ext (skTenant k) s s' \<and> (\<forall>x. r = Inr x \<longrightarrow> stored s' (skTenant k) h)" for r s'
      using that k1 by (fastforce simp: offered_def sink_sound_def intro: held_ext held_stored)
    have "wp (upload_chunk (skTenant k1) h d) (\<lambda>r s'. offered X s k {h} (upload_done r k1) s') (s\<lparr>cw_tick := n\<rparr>)" for n
      by (rule wp_mono[OF up]) (use off in blast)
    moreover have "offered X s k {} k1 (s\<lparr>cw_tick := n\<rparr>)" if "skErr k1 \<noteq> None" for n
      using k1 that by (auto simp: offered_def sink_sound_def)
    ultimately show ?thesis
      using Pair False by (auto simp: Add_def wp_simps added_def split: option.splits)
  qed
qed

definition iterated :: "string set \<Rightarrow> cas_world \<Rightarrow> chunkSink \<Rightarrow> bytes list \<Rightarrow> string list \<Rightarrow> int list \<Rightarrow>
    (cas_error + string list \<times> int list) \<times> chunkSink \<Rightarrow> cas_world \<Rightarrow> bool" where
  "iterated X s k cs hs zs a s' \<longleftrightarrow>
     (case a of
        (Inl e, k') \<Rightarrow> offered X s k {} k' s'
      | (Inr x, k') \<Rightarrow> offered X s k (ce_HashData (cw_env s) ` set cs) k' s' \<and>
          x = (hs @ map (ce_HashData (cw_env s)) cs, zs @ map (\<lambda>c. int (length c)) cs))"

lemma iterated_Inl [simp]: "iterated X s k cs hs zs (Inl e, k') s' = offered X s k {} k' s'"
  by (simp add: iterated_def)

lemma iterated_step:
  assumes "offered X s k {ce_HashData (cw_env s) c} k1 s1"
    and "iterated X s1 k1 cs (hs @ [ce_HashData (cw_env s) c]) (zs @ [int (length c)]) a s2"
  shows "iterated X s k (c # cs) hs zs a s2"
proof -
  have env: "cw_env s1 = cw_env s" using assms(1) by (simp add: offered_def store_ext_def)
  note tr = offered_trans[OF assms(1)]
  have "offered X s k {} k2 s2" if "offered X s1 k1 {} k2 s2" for k2
    using tr[OF that] by (auto simp: offered_def)
  with assms(2) tr env show ?thesis
    by (auto simp: iterated_def split: prod.splits sum.splits)
qed

lemma offered_ticked [simp]: "offered X s k {} k (s\<lparr>cw_tick := n\<rparr>)"
  by (simp add: offered_def sink_sound_def stored_def)

lemma iterated_tick [simp]: "iterated X (s\<lparr>cw_tick := n\<rparr>) k cs hs zs a s' = iterated X s k cs hs zs a s'"
  by (simp add: iterated_def split: prod.split sum.split)

lemma iterate_chunks_offered:
  assumes "encryptor_ok (cw_env s)"
  shows "wp (iterate_chunks cs hs zs k) (iterated X s k cs hs zs) s"
  using assms
proof (induction cs arbitrary: hs zs k s)
  case Nil
  then show ?case by (simp add: wp_simps iterated_def)
next
  case (Cons c cs)
  let ?h = "ce_HashData (cw_env s) c"
  have "wp (Add ?h c k \<bind> (\<lambda>(r, s1). case r of Inl e \<Rightarrow> ret (Inl e, s1)
      | Inr _ \<Rightarrow> iterate_chunks cs (hs @ [?h]) (zs @ [int (length c)]) s1))
      (iterated X s k (c # cs) hs zs) (s\<lparr>cw_tick := n\<rparr>)" for n
  proof (rule wp_seq[OF Add_offered])
    fix a :: "(cas_error + unit) \<times> chunkSink" and t
    assume a: "added X (s\<lparr>cw_tick := n\<rparr>) k ?h a t"
    obtain r k1 where [simp]: "a = (r, k1)" by (cases a)
    show "wp (case a of (r, s1) \<Rightarrow> (case r of Inl e \<Rightarrow> ret (Inl e, s1)
      | Inr _ \<Rightarrow> iterate_chunks cs (hs @ [?h]) (zs @ [int (length c)]) s1)) (iterated X s k (c # cs) hs zs) t"
    proof (cases r)
      case (Inl e)
      with a show ?thesis by (simp add: wp_simps added_def)
    next
      case (Inr u)
      with a have o: "offered X s k {?h} k1 t" by (simp add: added_def)
      then have "cw_env t = cw_env s" by (simp add: offered_def store_ext_def)
      with Cons.prems have "wp (iterate_chunks cs (hs @ [?h]) (zs @ [int (length c)]) k1)
          (iterated X t k1 cs (hs @ [?h]) (zs @ [int (length c)])) t"
        by (intro Cons.IH) simp
      then have "wp (iterate_chunks cs (hs @ [?h]) (zs @ [int (length c)]) k1) (iterated X s k (c # cs) hs zs) t"
        by (rule wp_mono) (rule iterated_step[OF o])
      with Inr show ?thesis by simp
    qed
  qed (use Cons.prems in simp_all)
  then show ?case
    by (simp add: wp_cas_tick wp_case_prod wp_bind wp_return split: option.split)
qed

section \<open>Chunking a file\<close>

definition file_hashes :: "cas_env \<Rightarrow> Config \<Rightarrow> bytes \<Rightarrow> string list" where
  "file_hashes env cfg d = map (ce_HashData env) (ce_split env (cfgChunker cfg) d)"

definition file_sizes :: "cas_env \<Rightarrow> Config \<Rightarrow> bytes \<Rightarrow> int list" where
  "file_sizes env cfg d = map (\<lambda>c. int (length c)) (ce_split env (cfgChunker cfg) d)"

definition chunked :: "string set \<Rightarrow> cas_world \<Rightarrow> chunkSink \<Rightarrow> Config \<Rightarrow> bytes \<Rightarrow>
    (cas_error + string list \<times> int list) \<times> chunkSink \<Rightarrow> cas_world \<Rightarrow> bool" where
  "chunked X s k cfg d a s' \<longleftrightarrow>
     (case a of
        (Inl e, k') \<Rightarrow> offered X s k {} k' s'
      | (Inr x, k') \<Rightarrow> offered X s k (set (file_hashes (cw_env s) cfg d)) k' s' \<and>
          x = (file_hashes (cw_env s) cfg d, file_sizes (cw_env s) cfg d))"

lemma chunkFile_chunked:
  assumes "encryptor_ok (cw_env s)"
  shows "wp (chunkFile cfg d k) (chunked X s k cfg d) s"
proof -
  let ?cs = "ce_split (cw_env s) (cfgChunker cfg) d"
  have "wp (iterate_chunks ?cs [] [] k \<bind> (\<lambda>(r, s1). ret (case r of Inl e \<Rightarrow> Inl (ErrWrapped ''failed to chunk'' e)
      | Inr x \<Rightarrow> Inr x, s1))) (chunked X s k cfg d) (s\<lparr>cw_tick := n\<rparr>)" for n
  proof (rule wp_seq[OF iterate_chunks_offered])
    fix a :: "(cas_error + string list \<times> int list) \<times> chunkSink" and t
    assume "iterated X (s\<lparr>cw_tick := n\<rparr>) k ?cs [] [] a t"
    then show "wp (case a of (r, s1) \<Rightarrow> ret (case r of Inl e \<Rightarrow> Inl (ErrWrapped ''failed to chunk'' e)
        | Inr x \<Rightarrow> Inr x, s1)) (chunked X s k cfg d) t"
      by (cases a; cases "fst a")
         (simp_all add: wp_simps chunked_def iterated_def file_hashes_def file_sizes_def)
  qed (use assms in simp)
  moreover have "chunked X s k cfg d (Inl e, k) (s\<lparr>cw_tick := n\<rparr>)" for e n by (simp add: chunked_def)
  ultimately show ?thesis
    by (simp add: chunkFile_def wp_cas_tick wp_case_prod wp_bind wp_return split: option.split)
qed

section \<open>What the lookup can return\<close>

definition parent_left :: "cas_env \<Rightarrow> parentLookup \<Rightarrow> ManifestFile set" where
  "parent_left env l =
     (case plByPath l of
        Some m \<Rightarrow> {f. m (mfPath f) = Some f}
      | None \<Rightarrow> set_option (plHeld l) \<union>
          (if plDone l \<or> plErr l \<noteq> None then {}
           else case plCursor l of None \<Rightarrow> {} | Some c \<Rightarrow> set (fst (read_entries env c))))"

lemma read_entries_Inr:
  "Next env c = (Inr f, c1) \<Longrightarrow> set (fst (read_entries env c)) = insert f (set (fst (read_entries env c1)))"
  by (subst read_entries.simps) (simp split: prod.split)

definition keys_ok :: "parentLookup \<Rightarrow> bool" where
  "keys_ok l \<longleftrightarrow> (\<forall>m p f. plByPath l = Some m \<longrightarrow> m p = Some f \<longrightarrow> mfPath f = p)"

lemma Lookup_from_parent:
  assumes "keys_ok l" and "Lookup env l p = (r, l')"
  shows "parent_left env l' \<subseteq> parent_left env l \<and> keys_ok l' \<and>
     (\<forall>f. r = Some f \<longrightarrow> f \<in> parent_left env l \<and> mfPath f = p)"
  using assms
proof (induction env l p rule: Lookup.induct)
  case (1 env l p)
  show ?case
  proof (cases "plByPath l")
    case (Some m)
    with "1.prems" show ?thesis
      by (auto simp: Lookup.simps[of env l] parent_left_def keys_ok_def)
  next
    case None
    note by_path = this
    show ?thesis
    proof (cases "plHeld l")
      case (Some h)
      let ?l = "on_skip h (l\<lparr>plHeld := None\<rparr>)"
      consider "mfPath h = p" | "comparePaths (mfPath h) p = 1" "mfPath h \<noteq> p"
        | "comparePaths (mfPath h) p \<noteq> 1" "mfPath h \<noteq> p" by blast
      then show ?thesis
      proof cases
        case 3
        then have "Lookup env ?l p = (r, l')"
          using "1.prems" by_path Some by (simp add: Lookup.simps[of env l])
        moreover have "keys_ok ?l" using "1.prems"(1) by (simp add: keys_ok_def)
        ultimately have "parent_left env l' \<subseteq> parent_left env ?l \<and> keys_ok l' \<and>
            (\<forall>f. r = Some f \<longrightarrow> f \<in> parent_left env ?l \<and> mfPath f = p)"
          using "1.IH"(2)[OF by_path Some] 3 by auto
        moreover have "parent_left env ?l \<subseteq> parent_left env l"
          using by_path Some by (auto simp: parent_left_def)
        ultimately show ?thesis by blast
      qed (use "1.prems" by_path Some in \<open>auto simp: Lookup.simps[of env l] parent_left_def keys_ok_def\<close>)
    next
      case no_held: None
      show ?thesis
      proof (cases "plDone l \<or> plErr l \<noteq> None \<or> plCursor l = None")
        case True
        with "1.prems" by_path no_held show ?thesis
          by (auto simp: Lookup.simps[of env l] parent_left_def keys_ok_def split: if_splits)
      next
        case False
        then obtain c where c: "\<not> plDone l" "plErr l = None" "plCursor l = Some c" by auto
        obtain n c1 where next_: "Next env c = (n, c1)" by (cases "Next env c")
        show ?thesis
        proof (cases n)
          case (Inl x)
          with "1.prems" by_path no_held c next_ show ?thesis
            by (auto simp: Lookup.simps[of env l] parent_left_def keys_ok_def split: if_splits)
        next
          case (Inr f)
          let ?l = "l\<lparr>plCursor := Some c1, plHeld := Some f\<rparr>"
          have "Lookup env ?l p = (r, l')" "keys_ok ?l"
            using "1.prems" by_path no_held c next_ Inr by (auto simp: Lookup.simps[of env l] keys_ok_def)
          with "1.IH"(1)[OF by_path no_held _ c(3) next_[symmetric] Inr] c
          have "parent_left env l' \<subseteq> parent_left env ?l \<and> keys_ok l' \<and>
              (\<forall>f. r = Some f \<longrightarrow> f \<in> parent_left env ?l \<and> mfPath f = p)" by auto
          moreover have "parent_left env ?l = parent_left env l"
            using by_path no_held c read_entries_Inr[OF next_[unfolded Inr]] by (simp add: parent_left_def)
          ultimately show ?thesis by simp
        qed
      qed
    qed
  qed
qed

lemma newParentLookup_left:
  assumes "newParentLookup env parent = Inr l"
  shows "parent_left env (l\<lparr>plOnSkip := b\<rparr>) \<subseteq>
      (case parent of None \<Rightarrow> {} | Some c \<Rightarrow> set (fst (read_entries env c)))"
    and "keys_ok (l\<lparr>plOnSkip := b\<rparr>)"
  using assms
  by (auto simp: newParentLookup_def Let_def parent_left_def keys_ok_def
      split: option.splits if_splits prod.splits dest: index_files_Some_in)

section \<open>The snapshot\<close>

text \<open>The manifest entry a file of the tree should have.\<close>

definition snapshot_entry :: "cas_env \<Rightarrow> Config \<Rightarrow> FileInfo \<Rightarrow> ManifestFile option" where
  "snapshot_entry env cfg i =
     (if fiIsDir i then Some ((base_record i)\<lparr>mfType := EntryDir\<rparr>)
      else if fiMode i AND ModeSymlink \<noteq> 0
      then Some ((base_record i)\<lparr>mfType := EntrySymlink, mfLink := fiLink i\<rparr>)
      else if mode_IsRegular (fiMode i)
      then Some ((base_record i)\<lparr>mfSize := fiSize i, mfChunks := file_hashes env cfg (fiData i),
                   mfChunkSizes := file_sizes env cfg (fiData i)\<rparr>)
      else None)"

definition snapshot :: "cas_env \<Rightarrow> Config \<Rightarrow> FileInfo list \<Rightarrow> ManifestFile list" where
  "snapshot env cfg tree = List.map_filter (snapshot_entry env cfg) tree"

lemma snapshot_simps [simp]:
  "snapshot env cfg [] = []"
  "snapshot env cfg (i # is) =
     (case snapshot_entry env cfg i of None \<Rightarrow> [] | Some f \<Rightarrow> [f]) @ snapshot env cfg is"
  by (simp_all add: snapshot_def List.map_filter_simps split: option.split)

text \<open>
  What the sync may write for an item of the tree: the entry made from the item's content, or, for a
  regular file that the parent lists under the same path with the same size, mode and modification
  time, the chunks of the parent's entry. Equal size and time do not make equal content: the second
  case is a heuristic of the code, and nothing is assumed about the content behind it.
\<close>

definition copied_entry :: "FileInfo \<Rightarrow> ManifestFile \<Rightarrow> ManifestFile" where
  "copied_entry i p = (base_record i)\<lparr>mfSize := fiSize i, mfChunks := mfChunks p, mfChunkSizes := mfChunkSizes p\<rparr>"

definition regular_file :: "FileInfo \<Rightarrow> bool" where
  "regular_file i \<longleftrightarrow> \<not> fiIsDir i \<and> fiMode i AND ModeSymlink = 0 \<and> mode_IsRegular (fiMode i)"

definition entry_of :: "cas_env \<Rightarrow> Config \<Rightarrow> ManifestFile set \<Rightarrow> FileInfo \<Rightarrow> ManifestFile option \<Rightarrow> bool" where
  "entry_of env cfg P i x \<longleftrightarrow> x = snapshot_entry env cfg i \<or>
     regular_file i \<and> (\<exists>p\<in>P. mfPath p = fiRel i \<and> reusable p i \<and> x = Some (copied_entry i p))"

text \<open>One entry per item that has one, in the order of the walk.\<close>

fun entries_of :: "cas_env \<Rightarrow> Config \<Rightarrow> ManifestFile set \<Rightarrow> FileInfo list \<Rightarrow> ManifestFile list \<Rightarrow> bool" where
  "entries_of env cfg P [] es \<longleftrightarrow> es = []"
| "entries_of env cfg P (i # is) es \<longleftrightarrow>
     (\<exists>x es'. entry_of env cfg P i x \<and> entries_of env cfg P is es' \<and>
        es = (case x of None \<Rightarrow> es' | Some f \<Rightarrow> f # es'))"

lemma entries_of_no_parent: "entries_of env cfg {} tree es \<longleftrightarrow> es = snapshot env cfg tree"
  by (induction tree arbitrary: es) (auto simp: entry_of_def split: option.splits)

lemma entries_of_in:
  "entries_of env cfg P tree es \<Longrightarrow> f \<in> set es \<Longrightarrow> \<exists>i\<in>set tree. entry_of env cfg P i (Some f)"
proof (induction tree arbitrary: es)
  case (Cons i tree)
  then obtain x es' where "entry_of env cfg P i x" "entries_of env cfg P tree es'"
    "es = (case x of None \<Rightarrow> es' | Some f \<Rightarrow> f # es')" by auto
  with Cons.IH Cons.prems(2) show ?case by (cases x) auto
qed simp

lemma entries_of_file:
  assumes "entries_of env cfg P tree es" and "i \<in> set tree" and "regular_file i"
  shows "\<exists>f\<in>set es. entry_of env cfg P i (Some f)"
  using assms
proof (induction tree arbitrary: es)
  case (Cons j tree)
  then obtain x es' where x: "entry_of env cfg P j x" "entries_of env cfg P tree es'"
    "es = (case x of None \<Rightarrow> es' | Some f \<Rightarrow> f # es')" by auto
  have "\<exists>f. y = Some f" if "entry_of env cfg P i y" for y
    using that Cons.prems(3) by (auto simp: entry_of_def snapshot_entry_def regular_file_def)
  with x Cons.IH [OF x(2)] Cons.prems(2,3) show ?case by (cases "j = i"; cases x) auto
qed simp

definition parent_held :: "string set \<Rightarrow> ManifestFile set \<Rightarrow> string \<Rightarrow> cas_world \<Rightarrow> bool" where
  "parent_held X P t s \<longleftrightarrow> (\<forall>p\<in>P. \<forall>h\<in>set (mfChunks p). held X s t h)"

lemma parent_held_ext: "store_ext t s s' \<Longrightarrow> parent_held X P t s \<Longrightarrow> parent_held X P t s'"
  using held_ext by (fastforce simp: parent_held_def)

lemma parent_held_tick [simp]: "parent_held X P t (s\<lparr>cw_tick := n\<rparr>) = parent_held X P t s"
  by (simp add: parent_held_def)

definition chunks_stored :: "string set \<Rightarrow> cas_world \<Rightarrow> string \<Rightarrow> ManifestFile list \<Rightarrow> bool" where
  "chunks_stored X s t es \<longleftrightarrow> (\<forall>f\<in>set es. \<forall>h\<in>set (mfChunks f). held X s t h)"

definition sync_inv :: "string set \<Rightarrow> ManifestFile set \<Rightarrow> cas_world \<Rightarrow> sync_state \<Rightarrow> ManifestFile list \<Rightarrow> bool" where
  "sync_inv X P s y es \<longleftrightarrow>
     (let w = syWriter y; k = sySink y; t = skTenant k in
      writer_holds (cw_env s) w es \<and> length (owPending w) < owFrameSize w \<and>
      owFrameSize w = DefaultManifestFrameSize \<and> sink_sound X s k \<and>
      (skErr k = None \<longrightarrow> chunks_stored X s t es) \<and> keys_ok (syLookup y) \<and>
      parent_left (cw_env s) (syLookup y) \<subseteq> P \<and> parent_held X P t s)"

text \<open>The parts of the state the walk does not touch, or only extends.\<close>

definition sync_step :: "cas_world \<Rightarrow> sync_state \<Rightarrow> sync_state \<Rightarrow> cas_world \<Rightarrow> bool" where
  "sync_step s y y' s' \<longleftrightarrow> store_ext (skTenant (sySink y)) s s' \<and>
     skTenant (sySink y') = skTenant (sySink y) \<and> owManifest (syWriter y') = owManifest (syWriter y)"

lemma sync_step_trans: "sync_step s y y' s' \<Longrightarrow> sync_step s' y' y'' s'' \<Longrightarrow> sync_step s y y'' s''"
  by (auto simp: sync_step_def intro: store_ext_trans)

text \<open>Outcome of the record part: nothing appended yet, the record is the right one and its chunks are offered.\<close>

definition recorded :: "string set \<Rightarrow> ManifestFile set \<Rightarrow> Config \<Rightarrow> FileInfo \<Rightarrow> cas_world \<Rightarrow> sync_state \<Rightarrow>
    (cas_error + ManifestFile option) \<times> sync_state \<Rightarrow> cas_world \<Rightarrow> bool" where
  "recorded X P cfg i s y a s' \<longleftrightarrow>
     (case a of (r, y') \<Rightarrow> syWriter y' = syWriter y \<and> syLookup y' = syLookup y \<and>
        offered X s (sySink y) (case r of Inr (Some f) \<Rightarrow> set (mfChunks f) | _ \<Rightarrow> {}) (sySink y') s' \<and>
        (\<forall>x. r = Inr x \<longrightarrow> entry_of (cw_env s) cfg P i x))"

lemma fold_Known_offered:
  assumes "\<forall>h\<in>set hs. held X s (skTenant k) h"
  shows "offered X s k (set hs) (fold Known hs k) s"
  using assms
proof (induction hs arbitrary: k)
  case Nil
  then show ?case by simp
next
  case (Cons h hs)
  have k: "skTenant (Known h k) = skTenant k" "skErr (Known h k) = skErr k"
      "set (skSeen (Known h k)) \<subseteq> insert h (set (skSeen k))"
    by (auto simp: Known_def markSeen_def)
  with Cons.prems have "offered X s k {h} (Known h k) s"
    by (auto simp: offered_def sink_sound_def)
  from offered_trans[OF this Cons.IH[of "Known h k"]] Cons.prems k show ?case by simp
qed

lemma note_diff_simps [simp]:
  "syWriter (note_diff f y) = syWriter y" "sySink (note_diff f y) = sySink y" "syLookup (note_diff f y) = syLookup y"
  by (simp_all add: note_diff_def)

lemma note_simps [simp]:
  "syWriter (note_unchanged p y) = syWriter y" "sySink (note_unchanged p y) = sySink y"
  "syLookup (note_unchanged p y) = syLookup y"
  "syWriter (note_chunked p q c y) = syWriter y" "sySink (note_chunked p q c y) = sySink y"
  "syLookup (note_chunked p q c y) = syLookup y"
  by (auto simp: note_unchanged_def note_chunked_def split: option.split)

lemma chunk_record_recorded:
  assumes "encryptor_ok (cw_env s)" and "\<not> fiIsDir i" and "fiMode i AND ModeSymlink = 0"
    and "mode_IsRegular (fiMode i)"
  shows "wp (chunk_record cfg i prev y) (recorded X P cfg i s y) s"
  unfolding chunk_record_def
proof (rule wp_seq[OF chunkFile_chunked[OF assms(1)]])
  fix a :: "(cas_error + string list \<times> int list) \<times> chunkSink" and t
  assume a: "chunked X s (sySink y) cfg (fiData i) a t"
  obtain r k where [simp]: "a = (r, k)" by (cases a)
  show "wp (case a of (r, s1) \<Rightarrow> ret (case r of Inl e \<Rightarrow> (Inl e, y\<lparr>sySink := s1\<rparr>)
      | Inr (chunks, sizes) \<Rightarrow> (Inr (Some ((base_record i)\<lparr>mfSize := fiSize i, mfChunks := chunks, mfChunkSizes := sizes\<rparr>)),
          note_chunked (fiRel i) prev chunks (y\<lparr>sySink := s1\<rparr>)))) (recorded X P cfg i s y) t"
    using a assms(2-) by (cases r) (auto simp: wp_simps chunked_def recorded_def snapshot_entry_def entry_of_def)
qed

lemma recorded_tick [simp]:
  "recorded X P cfg i (s\<lparr>cw_tick := n\<rparr>) y a s' = recorded X P cfg i s y a s'"
  by (simp add: recorded_def split: prod.split)

lemma walk_record_recorded:
  assumes ok: "encryptor_ok (cw_env s)" and par: "parent_held X P (skTenant (sySink y)) s"
    and prev: "\<And>p. prev = Some p \<Longrightarrow> mfPath p = fiRel i \<and> p \<in> P"
  shows "wp (walk_record cfg i prev y) (recorded X P cfg i s y) s"
proof (cases "regular_file i")
  case False
  then show ?thesis
    by (auto simp: walk_record_def wp_simps recorded_def snapshot_entry_def entry_of_def base_record_def
        regular_file_def split: option.splits)
next
  case True
  let ?y = "y\<lparr>syTotal := syTotal y + fiSize i\<rparr>"
  from True have i': "\<not> fiIsDir i" "fiMode i AND ModeSymlink = 0" "mode_IsRegular (fiMode i)"
    by (auto simp: regular_file_def)
  have fresh: "wp (chunk_record cfg i prev ?y) (recorded X P cfg i s y) s"
    by (rule wp_mono[OF chunk_record_recorded[OF ok i']]) (auto simp: recorded_def)
  show ?thesis
  proof (cases "\<exists>p. prev = Some p \<and> reusable p i")
    case False
    with i' fresh show ?thesis by (auto simp: walk_record_def Let_def split: option.split)
  next
    case reuse: True
    then obtain p where p: "prev = Some p" "reusable p i" by blast
    with prev[OF p(1)] have pc: "mfPath p = fiRel i" "p \<in> P" "\<forall>h\<in>set (mfChunks p). held X s (skTenant (sySink y)) h"
      using par by (auto simp: parent_held_def)
    have "entry_of (cw_env s) cfg P i (Some (copied_entry i p))"
      using True p(2) pc(1,2) by (auto simp: entry_of_def)
    with p i' fold_Known_offered[OF pc(3)] show ?thesis
      by (simp add: walk_record_def Let_def wp_simps recorded_def reuse_record_def copied_entry_def)
  qed
qed

definition walked :: "string set \<Rightarrow> ManifestFile set \<Rightarrow> cas_world \<Rightarrow> sync_state \<Rightarrow> (ManifestFile list \<Rightarrow> bool) \<Rightarrow>
    (cas_error + unit) \<times> sync_state \<Rightarrow> cas_world \<Rightarrow> bool" where
  "walked X P s y Q a s' \<longleftrightarrow>
     (case a of (r, y') \<Rightarrow> sync_step s y y' s' \<and> (r = Inr () \<longrightarrow> (\<exists>es. Q es \<and> sync_inv X P s' y' es)))"

lemma sync_step_same [simp]:
  "sync_step s y (y\<lparr>syLookup := l\<rparr>) (s\<lparr>cw_tick := n\<rparr>)" "sync_step s y y (s\<lparr>cw_tick := n\<rparr>)"
  by (simp_all add: sync_step_def)

text \<open>After the record: the invariant holds with the offered chunks accounted for.\<close>

lemma recorded_inv:
  assumes inv: "sync_inv X P s y es" and rec: "recorded X P cfg i s y (r, y1) s1"
  shows "sync_step s y y1 s1"
    and "r = Inr None \<Longrightarrow> sync_inv X P s1 y1 es"
    and "r = Inr (Some f) \<Longrightarrow> writer_holds (cw_env s1) w (es @ [f]) \<Longrightarrow> length (owPending w) < owFrameSize w \<Longrightarrow>
      owFrameSize w = DefaultManifestFrameSize \<Longrightarrow> same_store s1 s2 \<Longrightarrow>
      sync_inv X P s2 (y1\<lparr>syWriter := w\<rparr>) (es @ [f])"
proof -
  let ?t = "skTenant (sySink y)"
  from rec have off: "store_ext ?t s s1" "skTenant (sySink y1) = ?t"
      "skErr (sySink y1) = None \<longrightarrow> skErr (sySink y) = None" "sink_sound X s1 (sySink y1)"
      "syWriter y1 = syWriter y" "syLookup y1 = syLookup y"
    using inv by (auto simp: recorded_def offered_def sync_inv_def Let_def)
  have env: "cw_env s1 = cw_env s" using off(1) by (simp add: store_ext_def)
  show "sync_step s y y1 s1" using off by (simp add: sync_step_def)
  have keep: "chunks_stored X s1 ?t es" if "skErr (sySink y1) = None"
    using inv off(1,3) that by (auto simp: sync_inv_def Let_def chunks_stored_def intro: held_ext)
  have par: "parent_held X P ?t s1"
    using inv off(1) by (auto simp: sync_inv_def Let_def intro: parent_held_ext)
  show "sync_inv X P s1 y1 es" if "r = Inr None"
    using inv off env keep par by (auto simp: sync_inv_def Let_def)
  show "sync_inv X P s2 (y1\<lparr>syWriter := w\<rparr>) (es @ [f])"
    if r: "r = Inr (Some f)" and w: "writer_holds (cw_env s1) w (es @ [f])" "length (owPending w) < owFrameSize w"
      "owFrameSize w = DefaultManifestFrameSize" and s2: "same_store s1 s2"
  proof -
    have st: "store_ext ?t s1 s2" by (rule store_ext_same[OF s2])
    have env2: "cw_env s2 = cw_env s1" using s2 by (simp add: same_store_def)
    have "sink_sound X s (sySink y)" using inv by (simp add: sync_inv_def Let_def)
    with rec r have "\<forall>h\<in>set (mfChunks f). held X s1 ?t h" if "skErr (sySink y1) = None"
      using that by (auto simp: recorded_def offered_def)
    with keep st have "chunks_stored X s2 ?t (es @ [f])" if "skErr (sySink y1) = None"
      using that by (auto simp: chunks_stored_def intro: held_ext)
    moreover have "sink_sound X s2 (sySink y1)" using off(2,4) st by (auto intro: sink_sound_ext)
    moreover have "parent_held X P ?t s2" by (rule parent_held_ext[OF st par])
    ultimately show ?thesis using inv off env env2 w by (simp add: sync_inv_def Let_def)
  qed
qed

lemma sync_inv_lookup:
  assumes "sync_inv X P s y es" and "Lookup (cw_env s) (syLookup y) p = (prev, l)"
  shows "sync_inv X P (s\<lparr>cw_tick := n\<rparr>) (y\<lparr>syLookup := l\<rparr>) es"
    and "prev = Some q \<Longrightarrow> mfPath q = p \<and> q \<in> P"
proof -
  have k: "keys_ok (syLookup y)" using assms(1) by (simp add: sync_inv_def Let_def)
  from Lookup_from_parent[OF k assms(2)] have l: "parent_left (cw_env s) l \<subseteq> parent_left (cw_env s) (syLookup y)"
      "keys_ok l" "\<And>f. prev = Some f \<Longrightarrow> f \<in> parent_left (cw_env s) (syLookup y) \<and> mfPath f = p" by auto
  from assms(1) l show "sync_inv X P (s\<lparr>cw_tick := n\<rparr>) (y\<lparr>syLookup := l\<rparr>) es"
    by (auto simp: sync_inv_def Let_def sink_sound_def chunks_stored_def)
  from assms(1) l(3) show "prev = Some q \<Longrightarrow> mfPath q = p \<and> q \<in> P"
    by (auto simp: sync_inv_def Let_def)
qed

lemma walk_entry_walked:
  assumes ok: "encryptor_ok (cw_env s)"
    and codec: "\<forall>f. entry_of (cw_env s) cfg P i (Some f) \<longrightarrow> file_codec_ok (cw_env s) f"
    and inv: "sync_inv X P s y es"
  shows "wp (walk_entry cfg i y)
    (walked X P s y (\<lambda>es'. \<exists>x. entry_of (cw_env s) cfg P i x \<and> es' = es @ (case x of None \<Rightarrow> [] | Some f \<Rightarrow> [f]))) s"
proof -
  obtain prev l where lk: "Lookup (cw_env s) (syLookup y) (fiRel i) = (prev, l)"
    by (cases "Lookup (cw_env s) (syLookup y) (fiRel i)")
  let ?y = "y\<lparr>syLookup := l\<rparr>" and ?s = "s\<lparr>cw_tick := Suc (Suc (cw_tick s))\<rparr>"
  let ?es = "\<lambda>es'. \<exists>x. entry_of (cw_env s) cfg P i x \<and> es' = es @ (case x of None \<Rightarrow> [] | Some f \<Rightarrow> [f])"
  note inv1 = sync_inv_lookup[OF inv lk]
  have "wp (walk_record cfg i prev ?y \<bind> (\<lambda>(r, y1). case r of
      Inl e \<Rightarrow> ret (Inl e, y1)
    | Inr None \<Rightarrow> ret (Inr (), y1)
    | Inr (Some record) \<Rightarrow> Append record (syWriter y1) \<bind> (\<lambda>(w, a). ret (a, y1\<lparr>syWriter := w\<rparr>))))
      (walked X P s y ?es) ?s"
  proof (rule wp_seq[OF walk_record_recorded[of ?s X P ?y prev i cfg]])
    fix a :: "(cas_error + ManifestFile option) \<times> sync_state" and s1
    assume rec: "recorded X P cfg i ?s ?y a s1"
    obtain r y1 where a [simp]: "a = (r, y1)" by (cases a)
    note ri = recorded_inv[OF inv1(1)[of "Suc (Suc (cw_tick s))"] rec[unfolded a]]
    have step: "sync_step s y y1 s1"
      using ri(1) by (simp add: sync_step_def)
    have env: "cw_env s1 = cw_env s" using step by (simp add: sync_step_def store_ext_def)
    have x: "entry_of (cw_env s) cfg P i x" if "r = Inr x" for x
      using rec that by (simp add: recorded_def)
    show "wp (case a of (r, y1) \<Rightarrow> (case r of
        Inl e \<Rightarrow> ret (Inl e, y1)
      | Inr None \<Rightarrow> ret (Inr (), y1)
      | Inr (Some record) \<Rightarrow> Append record (syWriter y1) \<bind> (\<lambda>(w, a). ret (a, y1\<lparr>syWriter := w\<rparr>))))
        (walked X P s y ?es) s1"
    proof (cases r)
      case (Inl e)
      with step show ?thesis by (simp add: wp_simps walked_def)
    next
      case (Inr z)
      show ?thesis
      proof (cases z)
        case None
        with Inr x ri(2) step have "?es es" "sync_inv X P s1 y1 es" by force+
        with None Inr step show ?thesis by (auto simp: wp_simps walked_def)
      next
        case (Some f)
        with Inr x have f: "entry_of (cw_env s) cfg P i (Some f)" by simp
        then have q: "?es (es @ [f])" by (intro exI[of _ "Some f"]) simp
        have wr: "syWriter y1 = syWriter y" using rec by (simp add: recorded_def)
        have "wp (Append f (syWriter y1)) (wrote s1 (syWriter y1) (es @ [f])) s1"
          using ok codec f inv env wr by (intro Append_holds) (auto simp: sync_inv_def Let_def)
        then have "wp (Append f (syWriter y1) \<bind> (\<lambda>(w, a). ret (a, y1\<lparr>syWriter := w\<rparr>)))
            (walked X P s y ?es) s1"
        proof (rule wp_seq)
          fix b s2
          assume b: "wrote s1 (syWriter y1) (es @ [f]) b s2"
          obtain w r2 where [simp]: "b = (w, r2)" by (cases b)
          from b have ss: "same_store s1 s2" "same_writer (syWriter y1) w" by (auto simp: wrote_def)
          have "sync_step s y (y1\<lparr>syWriter := w\<rparr>) s2"
            using step ss store_ext_trans[OF _ store_ext_same[OF ss(1)]]
            by (auto simp: sync_step_def same_writer_def)
          moreover have "sync_inv X P s2 (y1\<lparr>syWriter := w\<rparr>) (es @ [f])" if "r2 = Inr ()"
            using b that inv wr ss Inr Some
            by (intro ri(3)) (auto simp: wrote_def same_writer_def sync_inv_def Let_def)
          ultimately show "wp (case b of (w, a) \<Rightarrow> ret (a, y1\<lparr>syWriter := w\<rparr>)) (walked X P s y ?es) s2"
            using q by (auto simp: wp_simps walked_def)
        qed
        with Inr Some show ?thesis by simp
      qed
    qed
  qed (use ok inv inv1(2) in \<open>auto simp: sync_inv_def Let_def\<close>)
  moreover have "walked X P s y ?es (Inl e, y) (s\<lparr>cw_tick := n\<rparr>)" for e n by (simp add: walked_def)
  ultimately show ?thesis
    using lk by (simp add: walk_entry_def wp_cas_op wp_cas_tick wp_case_prod wp_bind wp_return split: option.split)
qed

lemma walkTree_walked:
  assumes "encryptor_ok (cw_env s)"
    and "\<forall>i\<in>set is. \<forall>f. entry_of (cw_env s) cfg P i (Some f) \<longrightarrow> file_codec_ok (cw_env s) f"
    and "sync_inv X P s y es"
  shows "wp (walkTree cfg is y) (walked X P s y (\<lambda>es'. \<exists>rs. entries_of (cw_env s) cfg P is rs \<and> es' = es @ rs)) s"
  using assms
proof (induction "is" arbitrary: y es s)
  case Nil
  then show ?case by (auto simp: wp_simps walked_def sync_step_def)
next
  case (Cons i "is")
  let ?Q = "\<lambda>es'. \<exists>rs. entries_of (cw_env s) cfg P (i # is) rs \<and> es' = es @ rs"
  let ?s = "s\<lparr>cw_tick := Suc (cw_tick s)\<rparr>"
  have inv: "sync_inv X P ?s y es"
    using Cons.prems(3) by (auto simp: sync_inv_def Let_def sink_sound_def chunks_stored_def)
  have "wp (walk_entry cfg i y \<bind> (\<lambda>(r, y1). case r of Inl e \<Rightarrow> ret (Inl e, y1) | Inr _ \<Rightarrow> walkTree cfg is y1))
      (walked X P s y ?Q) ?s"
  proof (rule wp_seq[OF walk_entry_walked[OF _ _ inv]])
    fix a :: "(cas_error + unit) \<times> sync_state" and s1
    assume a: "walked X P ?s y (\<lambda>es'. \<exists>x. entry_of (cw_env ?s) cfg P i x \<and>
        es' = es @ (case x of None \<Rightarrow> [] | Some f \<Rightarrow> [f])) a s1"
    obtain r y1 where [simp]: "a = (r, y1)" by (cases a)
    have step: "sync_step s y y1 s1" using a by (simp add: walked_def sync_step_def)
    then have env: "cw_env s1 = cw_env s" by (simp add: sync_step_def store_ext_def)
    show "wp (case a of (r, y1) \<Rightarrow> (case r of Inl e \<Rightarrow> ret (Inl e, y1) | Inr _ \<Rightarrow> walkTree cfg is y1))
        (walked X P s y ?Q) s1"
    proof (cases r)
      case (Inl e)
      with step show ?thesis by (simp add: wp_simps walked_def)
    next
      case (Inr u)
      with a obtain x where x: "entry_of (cw_env s) cfg P i x"
          "sync_inv X P s1 y1 (es @ (case x of None \<Rightarrow> [] | Some f \<Rightarrow> [f]))" by (auto simp: walked_def)
      have more: "?Q es'" if "\<exists>rs. entries_of (cw_env s1) cfg P is rs \<and>
          es' = (es @ (case x of None \<Rightarrow> [] | Some f \<Rightarrow> [f])) @ rs" for es'
      proof -
        from that obtain rs where rs: "entries_of (cw_env s) cfg P is rs"
          "es' = (es @ (case x of None \<Rightarrow> [] | Some f \<Rightarrow> [f])) @ rs" using env by auto
        have "entries_of (cw_env s) cfg P (i # is) (case x of None \<Rightarrow> rs | Some f \<Rightarrow> f # rs)"
          using x(1) rs(1) by auto
        with rs(2) show ?thesis by (cases x) auto
      qed
      have "wp (walkTree cfg is y1) (walked X P s1 y1 (\<lambda>es'. \<exists>rs. entries_of (cw_env s1) cfg P is rs \<and>
          es' = (es @ (case x of None \<Rightarrow> [] | Some f \<Rightarrow> [f])) @ rs)) s1"
        using Cons.prems env x(2) by (intro Cons.IH) auto
      then have "wp (walkTree cfg is y1) (walked X P s y ?Q) s1"
        by (rule wp_mono) (use more step in \<open>fastforce simp: walked_def simp del: entries_of.simps intro: sync_step_trans\<close>)
      with Inr show ?thesis by simp
    qed
  qed (use Cons.prems in auto)
  moreover have "walked X P s y ?Q (Inl e, y) ?s" for e
    by (simp add: walked_def)
  ultimately show ?case
    by (simp add: wp_cas_op wp_bind wp_return del: entries_of.simps split: option.split)
qed

section \<open>Committing\<close>

definition parent_entries :: "cas_env \<Rightarrow> ManifestEntries option \<Rightarrow> ManifestFile set" where
  "parent_entries env parent = (case parent of None \<Rightarrow> {} | Some c \<Rightarrow> set (fst (read_entries env c)))"

lemma writer_holds_manifest:
  "mTenantID m = mTenantID (owManifest w) \<Longrightarrow> writer_holds env (w\<lparr>owManifest := m\<rparr>) es = writer_holds env w es"
  by (simp add: writer_holds_def)

definition committed :: "string set \<Rightarrow> cas_world \<Rightarrow> Manifest \<Rightarrow> ManifestFile list \<Rightarrow> Manifest \<Rightarrow> cas_world \<Rightarrow> bool" where
  "committed X s m es m' s' \<longleftrightarrow> store_ext (mTenantID m) s s' \<and> chunks_stored X s' (mTenantID m) es \<and>
     mFileCount m' = int (length es) \<and>
     (mID m', mWorkspaceID m', mTenantID m', mParentID m', mChunkHash m', mSingleChunk m', mOrdered m') =
       (mID m, mWorkspaceID m, mTenantID m, mParentID m, mChunkHash m, mSingleChunk m, True) \<and>
     (\<exists>obj. cw_blobs s' (manifest_key_of m) = Some obj \<and>
        object_holds (cw_env s) (mTenantID m) obj (ToHeader m') es)"

lemma finish_sync_committed:
  assumes ok: "encryptor_ok (cw_env s)" and codec: "\<forall>h. header_codec_ok (cw_env s) h"
    and inv: "sync_inv X P s y es" and m: "owManifest (syWriter y) = m" "skTenant (sySink y) = mTenantID m"
    and run: "run_state (finish_sync y) s = (Inr (m', d'), s')"
  shows "committed X s m es m' s'"
proof -
  let ?m = "m\<lparr>mTotalSize := syTotal y, mChunkCount := Distinct (sySink y), mOrdered := True\<rparr>"
  let ?w = "(syWriter y)\<lparr>owManifest := ?m\<rparr>" and ?s = "s\<lparr>cw_tick := Suc (cw_tick s)\<rparr>"
  from run m obtain w' where err: "skErr (sySink y) = None" and m': "m' = owManifest w'"
      and com: "run_state (Commit ?w) ?s = ((w', Inr ()), s')"
    by (auto simp: finish_sync_def Wait_def Let_def split: option.splits sum.splits prod.splits)
  have w: "writer_holds (cw_env ?s) ?w es" "length (owPending ?w) \<le> maxPlain" "owEntries ?w = length es"
    using inv m writer_holds_manifest[of ?m "syWriter y"]
    by (auto simp: sync_inv_def Let_def DefaultManifestFrameSize_def maxPlain_def writer_holds_def)
  have "encryptor_ok (cw_env ?s)" "header_codec_ok (cw_env ?s) (commit_header ?w)" using ok codec by simp_all
  note co = Commit_object[OF this w(1,2) com]
  from co(1) obtain obj where obj: "cw_env s' = cw_env s" "cw_blobs s' = (cw_blobs s)(manifest_key_of m \<mapsto> obj)"
      "object_holds (cw_env s) (mTenantID m) obj (commit_header ?w) es" by auto
  have "ToHeader m' = commit_header ?w"
    using co(2) m' w(3) by (simp add: ToHeader_def)
  moreover have "store_ext (mTenantID m) s s'"
    using obj(1,2) by (auto simp: store_ext_def store_sound_def)
  moreover have "chunks_stored X s (mTenantID m) es"
    using inv err m(2) by (simp add: sync_inv_def Let_def)
  ultimately show ?thesis
    using obj co(2) m' by (auto simp: committed_def chunks_stored_def intro: held_ext)
qed

lemma OpenManifestWriter_fresh:
  "wp (OpenManifestWriter (Some m)) (\<lambda>r s'. same_store s s' \<and> (\<forall>w. r = Inr w \<longrightarrow> w =
     \<lparr>owManifest = m, owFrameSize = DefaultManifestFrameSize, owSpool = [], owClosed = False,
      owPending = [], owEntries = 0, owCommitted = False\<rparr>)) s"
  by (auto simp: OpenManifestWriter_def wp_simps same_store_def split: option.splits)

text \<open>The chunks the parent names that are not in the store when the sync begins.\<close>

definition lacking_chunks :: "cas_world \<Rightarrow> string \<Rightarrow> ManifestFile set \<Rightarrow> string set" where
  "lacking_chunks s t P = {h. (\<exists>p\<in>P. h \<in> set (mfChunks p)) \<and> \<not> stored s t h}"

lemma parent_held_missing: "parent_held (lacking_chunks s t P) P t s"
  by (auto simp: parent_held_def held_def lacking_chunks_def)

lemma syncCDC_committed:
  assumes ok: "encryptor_ok (cw_env s)" and codec: "\<forall>h. header_codec_ok (cw_env s) h"
    and files: "\<forall>i\<in>set tree. \<forall>f. entry_of (cw_env s) cfg (parent_entries (cw_env s) parent) i (Some f) \<longrightarrow>
      file_codec_ok (cw_env s) f"
    and run: "run_state (syncCDC cfg m tree parent diff) s = (Inr (m', d'), s')"
  obtains es where "entries_of (cw_env s) cfg (parent_entries (cw_env s) parent) tree es"
    "committed (lacking_chunks s (mTenantID m) (parent_entries (cw_env s) parent)) s m es m' s'"
proof -
  let ?P = "parent_entries (cw_env s) parent"
  let ?X = "lacking_chunks s (mTenantID m) ?P"
  let ?s = "s\<lparr>cw_tick := Suc (cw_tick s)\<rparr>"
  from run obtain l where l: "newParentLookup (cw_env s) parent = Inr l"
    by (auto simp: syncCDC_def split: sum.splits)
  obtain r s1 where op: "run_state (OpenManifestWriter (Some m)) ?s = (r, s1)" by fastforce
  with run l obtain w where w: "r = Inr w" by (auto simp: syncCDC_def split: sum.splits)
  let ?y = "\<lparr>syWriter = w, sySink = newChunkSink (mTenantID m) cfg,
      syLookup = l\<lparr>plOnSkip := diff \<noteq> None\<rparr>, syTotal = 0, syDiff = diff\<rparr>"
  obtain a y s2 where wt: "run_state (walkTree cfg tree ?y) s1 = ((a, y), s2)" by (metis surj_pair)
  with run l op w have fin: "a = Inr ()" "run_state (finish_sync y) s2 = (Inr (m', d'), s')"
    by (auto simp: syncCDC_def split: sum.splits)
  from wp_run[OF op OpenManifestWriter_fresh] w have s1: "same_store s s1" and w0: "w =
     \<lparr>owManifest = m, owFrameSize = DefaultManifestFrameSize, owSpool = [], owClosed = False,
      owPending = [], owEntries = 0, owCommitted = False\<rparr>" by (auto simp: same_store_def)
  have env: "cw_env s1 = cw_env s" using s1 by (simp add: same_store_def)
  have "writer_holds (cw_env s1) w []" unfolding w0 writer_holds_def by (auto intro!: exI[of _ "[]"])
  moreover have "parent_left (cw_env s1) (syLookup ?y) \<subseteq> ?P"
    using newParentLookup_left(1)[OF l, of "diff \<noteq> None"] env by (auto simp: parent_entries_def)
  moreover have "parent_held ?X ?P (mTenantID m) s1"
    by (rule parent_held_ext[OF store_ext_same[OF s1] parent_held_missing])
  ultimately have inv: "sync_inv ?X ?P s1 ?y []"
    using newParentLookup_left(2)[OF l, of "diff \<noteq> None"]
    by (auto simp: sync_inv_def Let_def newChunkSink_def sink_sound_def chunks_stored_def w0 DefaultManifestFrameSize_def)
  have "wp (walkTree cfg tree ?y) (walked ?X ?P s1 ?y (\<lambda>es'. \<exists>rs. entries_of (cw_env s1) cfg ?P tree rs \<and> es' = [] @ rs)) s1"
    using ok files inv env by (intro walkTree_walked) auto
  from wp_run[OF wt this] fin(1) obtain es where st: "sync_step s1 ?y y s2"
    and es: "entries_of (cw_env s) cfg ?P tree es" and inv2: "sync_inv ?X ?P s2 y es"
    using env by (auto simp: walked_def)
  have env2: "cw_env s2 = cw_env s" using st env by (simp add: sync_step_def store_ext_def)
  have "committed ?X s2 m es m' s'"
    using st ok codec inv2 fin(2) env2 by (intro finish_sync_committed) (auto simp: sync_step_def newChunkSink_def w0)
  moreover have "store_ext (mTenantID m) s s2"
    using st store_ext_trans[OF store_ext_same[OF s1]] by (simp add: sync_step_def newChunkSink_def)
  ultimately have "committed ?X s m es m' s'" using env2 by (auto simp: committed_def intro: store_ext_trans)
  with es that show ?thesis by blast
qed

text \<open>
  C13. A sync commits a complete snapshot, whether it starts from a parent manifest or not. If the
  sync succeeds, the object under the new manifest's key holds exactly one entry per directory, link
  and regular file of the walk, in walk order. The entry of a regular file lists the chunks of the
  content that was read, or, when the parent has an entry of the same path, size, mode and
  modification time, the chunks of that entry; whether the content is then the same is not claimed.
  Every chunk named is in the store afterwards, except chunks that the parent already named
  without their being there: those are never uploaded, not even for a file whose content was read
  and has them. The encryption round trips, and the JSON codec round trips on the entries
  and headers with lines under 128 MB.
\<close>

theorem sync_commits_complete_snapshot:
  assumes "encryptor_ok (cw_env s)" and "\<forall>h. header_codec_ok (cw_env s) h"
    and "\<forall>i\<in>set tree. \<forall>f. entry_of (cw_env s) cfg (parent_entries (cw_env s) parent) i (Some f) \<longrightarrow>
      file_codec_ok (cw_env s) f"
    and "run_state (syncCDC cfg m tree parent diff) s = (Inr (m', d'), s')"
  shows "\<exists>es obj. entries_of (cw_env s) cfg (parent_entries (cw_env s) parent) tree es \<and>
    cw_blobs s' (manifestKey (mTenantID m) (mWorkspaceID m) (mID m)) = Some obj \<and>
    object_holds (cw_env s) (mTenantID m) obj (ToHeader m') es \<and>
    (\<forall>f\<in>set es. \<forall>h\<in>set (mfChunks f). cw_blobs s' (chunkKey (mTenantID m) h) \<noteq> None \<or>
       cw_blobs s (chunkKey (mTenantID m) h) = None \<and> (\<exists>p\<in>parent_entries (cw_env s) parent. h \<in> set (mfChunks p)))"
  using assms
  by (rule syncCDC_committed)
    (fastforce simp: committed_def chunks_stored_def held_def lacking_chunks_def stored_def)

section \<open>Reading files back\<close>

text \<open>From now on the storage answers, and local writes succeed.\<close>

definition quiet :: "cas_world \<Rightarrow> bool" where
  "quiet s \<longleftrightarrow> (\<forall>n\<ge>cw_tick s. ce_fault (cw_env s) n = None \<and> ce_read (cw_env s) n = None)"

lemma quiet_tick: "quiet s \<Longrightarrow> cw_tick s \<le> n \<Longrightarrow> quiet (s\<lparr>cw_tick := n\<rparr>)"
  by (simp add: quiet_def)

lemma GetChunk_stored:
  assumes "quiet s" and "store_sound t s" and "stored s t h"
  shows "\<exists>d. run_state (GetChunk t h) s = (Inr d, s\<lparr>cw_tick := Suc (Suc (cw_tick s))\<rparr>) \<and> ce_HashData (cw_env s) d = h"
proof -
  from assms(3) obtain c where c: "cw_blobs s (chunkKey t h) = Some c" by (auto simp: stored_def)
  with assms(2) obtain d where d: "ce_Decrypt (cw_env s) t c = Inr d" "ce_HashData (cw_env s) d = h"
    by (auto simp: store_sound_def)
  have "ce_fault (cw_env s) (cw_tick s) = None" "ce_read (cw_env s) (cw_tick s) = None"
    using assms(1) by (auto simp: quiet_def)
  with c d show ?thesis by (simp add: GetChunk_def storage_Download_def Let_def)
qed

lemma writeChunks_stored:
  assumes "quiet s" and "store_sound t s" and "\<forall>c\<in>set cs. stored s t (ce_HashData (cw_env s) c)"
    and "\<forall>c\<in>set cs. \<forall>d. ce_HashData (cw_env s) d = ce_HashData (cw_env s) c \<longrightarrow> d = c"
  shows "fst (run_state (writeChunks t (map (ce_HashData (cw_env s)) cs)) s) = Inr (concat cs)"
  using assms
proof (induction cs arbitrary: s)
  case Nil
  then show ?case by simp
next
  case (Cons c cs)
  let ?h = "ce_HashData (cw_env s) c" and ?s = "s\<lparr>cw_tick := Suc (Suc (Suc (cw_tick s)))\<rparr>"
  from GetChunk_stored[of s t ?h] Cons.prems have get: "run_state (GetChunk t ?h) s = (Inr c, s\<lparr>cw_tick := Suc (Suc (cw_tick s))\<rparr>)"
    by auto
  have f: "ce_fault (cw_env s) (Suc (Suc (cw_tick s))) = None" using Cons.prems(1) by (simp add: quiet_def)
  have "store_sound t ?s" "\<forall>d\<in>set cs. stored ?s t (ce_HashData (cw_env ?s) d)"
    using Cons.prems by (simp_all add: store_sound_def stored_def)
  with Cons.IH[of ?s] Cons.prems quiet_tick[OF Cons.prems(1), of "Suc (Suc (Suc (cw_tick s)))"]
  have "fst (run_state (writeChunks t (map (ce_HashData (cw_env s)) cs)) ?s) = Inr (concat cs)" by simp
  then obtain u where "run_state (writeChunks t (map (ce_HashData (cw_env s)) cs)) ?s = (Inr (concat cs), u)"
    by (cases "run_state (writeChunks t (map (ce_HashData (cw_env s)) cs)) ?s") auto
  with get f show ?case by (simp add: cas_op_def)
qed

text \<open>
  C14. Sync and restore round trip. After a successful sync, loading the manifest returns the entries
  that were written, one per item of the tree, and reading back the chunks of a regular file's
  entry returns the bytes the file had, or the entry is a copy of the parent's entry with the same
  path, size, mode and modification time, and it reads back whatever the parent's chunks hold. It is
  assumed that the storage answers and keeps the objects, that the chunks of the parent were in the
  store, that the tenant's chunk objects decrypt to data with the hash in their key, that
  the splitter loses no bytes, that no other data has the hash of a chunk of the tree, and that the
  encryption and the JSON codec round trip.
\<close>

theorem sync_restore_roundtrip:
  assumes "encryptor_ok (cw_env s)" and "\<forall>h. header_codec_ok (cw_env s) h"
    and "\<forall>i\<in>set tree. \<forall>f. entry_of (cw_env s) cfg (parent_entries (cw_env s) parent) i (Some f) \<longrightarrow>
      file_codec_ok (cw_env s) f"
    and "run_state (syncCDC cfg m tree parent diff) s = (Inr (m', d'), s')"
    and "\<forall>p\<in>parent_entries (cw_env s) parent. \<forall>h\<in>set (mfChunks p). cw_blobs s (chunkKey (mTenantID m) h) \<noteq> None"
    and "store_sound (mTenantID m) s"
    and "\<forall>d. concat (ce_split (cw_env s) (cfgChunker cfg) d) = d"
    and "\<forall>i\<in>set tree. \<forall>c\<in>set (ce_split (cw_env s) (cfgChunker cfg) (fiData i)).
           \<forall>d. ce_HashData (cw_env s) d = ce_HashData (cw_env s) c \<longrightarrow> d = c"
    and "quiet s''" and "cw_env s'' = cw_env s'" and "cw_blobs s'' = cw_blobs s'"
  shows "\<exists>es M. entries_of (cw_env s) cfg (parent_entries (cw_env s) parent) tree es \<and>
    fst (run_state (LoadManifest (mTenantID m) (mWorkspaceID m) (mID m)) s'') = Inr M \<and> mFiles M = es \<and>
    (\<forall>i\<in>set tree. regular_file i \<longrightarrow> (\<exists>f\<in>set es. mfPath f = fiRel i \<and>
      (fst (run_state (writeChunks (mTenantID m) (mfChunks f)) s'') = Inr (fiData i) \<or>
       (\<exists>p\<in>parent_entries (cw_env s) parent. mfPath p = fiRel i \<and> reusable p i \<and> f = copied_entry i p))))"
proof -
  let ?t = "mTenantID m" and ?P = "parent_entries (cw_env s) parent"
  from assms(1-4) obtain es where es: "entries_of (cw_env s) cfg ?P tree es"
    and com: "committed (lacking_chunks s ?t ?P) s m es m' s'" by (rule syncCDC_committed)
  from com have env: "cw_env s'' = cw_env s" and sound: "store_sound ?t s''"
    using assms(6,10,11) by (auto simp: committed_def store_ext_def store_sound_def)
  have rd: "readable s''" using assms(9) by (simp add: readable_def quiet_def)
  from com obtain obj where obj: "cw_blobs s'' (manifest_key_of m) = Some obj"
      "object_holds (cw_env s'') ?t obj (ToHeader m') es"
    using env assms(11) by (auto simp: committed_def)
  have none: "lacking_chunks s ?t ?P = {}" using assms(5) by (auto simp: lacking_chunks_def stored_def)
  have kept: "stored s'' ?t h" if "f \<in> set es" "h \<in> set (mfChunks f)" for f h
    using com that none assms(11) by (auto simp: committed_def chunks_stored_def held_def stored_def)
  have "\<exists>f\<in>set es. mfPath f = fiRel i \<and>
      (fst (run_state (writeChunks ?t (mfChunks f)) s'') = Inr (fiData i) \<or>
       (\<exists>p\<in>?P. mfPath p = fiRel i \<and> reusable p i \<and> f = copied_entry i p))"
    if i: "i \<in> set tree" "regular_file i" for i
  proof -
    let ?cs = "ce_split (cw_env s) (cfgChunker cfg) (fiData i)"
    obtain f where f: "f \<in> set es" "entry_of (cw_env s) cfg ?P i (Some f)" using entries_of_file[OF es i] by blast
    have path: "mfPath f = fiRel i" using f(2) i(2)
      by (auto simp: entry_of_def snapshot_entry_def regular_file_def copied_entry_def base_record_def)
    from f(2) consider "mfChunks f = map (ce_HashData (cw_env s)) ?cs"
      | "\<exists>p\<in>?P. mfPath p = fiRel i \<and> reusable p i \<and> f = copied_entry i p"
      using i(2) by (auto simp: entry_of_def snapshot_entry_def regular_file_def file_hashes_def)
    then show ?thesis
    proof cases
      case 1
      with kept f(1) env have "\<forall>c\<in>set ?cs. stored s'' ?t (ce_HashData (cw_env s'') c)" by simp
      from writeChunks_stored[OF assms(9) sound this] assms(7,8) i(1) env 1
      have "fst (run_state (writeChunks ?t (mfChunks f)) s'') = Inr (fiData i)" by simp
      with f(1) path show ?thesis by blast
    qed (use f(1) path in blast)
  qed
  moreover have "\<exists>M. fst (run_state (LoadManifest ?t (mWorkspaceID m) (mID m)) s'') = Inr M \<and> mFiles M = es"
    using LoadManifest_object[OF rd obj] by simp
  ultimately show ?thesis using es by blast
qed

section \<open>Counting distinct chunks\<close>

text \<open>\<open>H\<close> is the set of hashes the sink has been told about.\<close>

definition counts :: "chunkSink \<Rightarrow> string set \<Rightarrow> bool" where
  "counts k H \<longleftrightarrow> finite H \<and> set (skSeen k) \<subseteq> H \<and> distinct (skSeen k) \<and> card H \<le> skDistinct k \<and>
     (int (card H) \<le> skMaxSeen k \<longrightarrow> set (skSeen k) = H \<and> skDistinct k = card H) \<and>
     int (length (skSeen k)) \<le> max 0 (skMaxSeen k)"

lemma skMaxSeen_Known [simp]: "skMaxSeen (Known h k) = skMaxSeen k"
  by (simp add: Known_def markSeen_def)

lemma counts_Known:
  assumes "counts k H"
  shows "counts (Known h k) (insert h H)"
proof (cases "h \<in> set (skSeen k)")
  case True
  then have "Known h k = k" by (simp add: Known_def markSeen_def)
  moreover have "h \<in> H" using True assms by (auto simp: counts_def)
  ultimately show ?thesis using assms by (simp add: insert_absorb)
next
  case False
  note c = assms[unfolded counts_def]
  have seen: "skSeen (Known h k) = (if int (length (skSeen k)) < skMaxSeen k then h # skSeen k else skSeen k)"
      and n: "skDistinct (Known h k) = Suc (skDistinct k)"
    using False by (simp_all add: Known_def markSeen_def)
  have le: "card (insert h H) \<le> Suc (card H)" using c by (simp add: card_insert_if)
  have "set (skSeen (Known h k)) = insert h H \<and> skDistinct (Known h k) = card (insert h H)"
    if m: "int (card (insert h H)) \<le> skMaxSeen k"
  proof -
    have "h \<notin> H"
    proof
      assume "h \<in> H"
      then have "insert h H = H" by blast
      with m c have "set (skSeen k) = H" by simp
      with False \<open>h \<in> H\<close> show False by simp
    qed
    then have card: "card (insert h H) = Suc (card H)" using c by simp
    with m c have h: "set (skSeen k) = H" "skDistinct k = card H" by auto
    then have "length (skSeen k) = card H" using c distinct_card[of "skSeen k"] by simp
    with m card have "int (length (skSeen k)) < skMaxSeen k" by simp
    with h card seen n show ?thesis by simp
  qed
  moreover have "set (skSeen (Known h k)) \<subseteq> insert h H" "distinct (skSeen (Known h k))"
      "int (length (skSeen (Known h k))) \<le> max 0 (skMaxSeen k)"
    using c False by (auto simp: seen)
  moreover have "card (insert h H) \<le> skDistinct (Known h k)" using le c n by linarith
  ultimately show ?thesis using c by (simp add: counts_def)
qed

text \<open>
  The number of chunks a manifest reports is never less than the number of distinct chunks it
  names, the remembered set never exceeds its cap, and the count is exact as long as there are at
  most \<^verbatim>\<open>MaxSeenChunks\<close> distinct chunks. Past the cap the count is only an upper bound: a chunk
  that was not remembered is counted every time it is seen.
\<close>

theorem chunk_count_bounds:
  "int (card (set hs)) \<le> Distinct (fold Known hs (newChunkSink t cfg)) \<and>
   int (length (skSeen (fold Known hs (newChunkSink t cfg)))) \<le> max 0 (cfgMaxSeenChunks cfg) \<and>
   (int (card (set hs)) \<le> cfgMaxSeenChunks cfg \<longrightarrow>
      Distinct (fold Known hs (newChunkSink t cfg)) = int (card (set hs)))"
proof -
  have "counts (fold Known hs (newChunkSink t cfg)) (set hs) \<and>
      skMaxSeen (fold Known hs (newChunkSink t cfg)) = cfgMaxSeenChunks cfg"
  proof (induction hs rule: rev_induct)
    case Nil
    then show ?case by (simp add: counts_def newChunkSink_def)
  next
    case (snoc h hs)
    then show ?case using counts_Known[of _ "set hs" h] by simp
  qed
  then show ?thesis unfolding counts_def Distinct_def by fastforce
qed

end
