(* ===== verification/Chunk_Store.thy ===== *)
theory Chunk_Store
  imports Store_Types
begin

text \<open>
  The chunk and manifest tables, \<^verbatim>\<open>pkg/store/postgres/cas.go\<close>: one pure function per statement and
  the two transactions that take and drop references. \<open>now\<close> is the database clock. The primary
  key of \<^verbatim>\<open>chunks\<close> is (tenant, hash), that of \<^verbatim>\<open>manifests\<close> the id. Rows of equal age keep
  their table order, which SQL leaves open.
\<close>

record Chunk =
  chHash :: string
  chTenantID :: string
  chSize :: int
  chRefCount :: int
  chDeletedAt :: "int option"
  chCreatedAt :: int

record ChunkUpdates =
  cuRefCount :: "int option"
  cuDeletedAt :: "int option"

record ManifestRow =
  mrID :: string
  mrWorkspaceID :: string
  mrParentID :: "string option"
  mrTotalSize :: int
  mrSingleChunk :: bool
  mrChunkHash :: "string option"
  mrChunkCount :: int
  mrFilesJSON :: "json option"
  mrTenantID :: string
  mrCreatedAt :: int

record chunk_db =
  cdChunks :: "Chunk list"
  cdManifests :: "ManifestRow list"

section \<open>Chunks\<close>

definition chunk_is :: "string \<Rightarrow> string \<Rightarrow> Chunk \<Rightarrow> bool" where
  "chunk_is tenantID hash c \<longleftrightarrow> chTenantID c = tenantID \<and> chHash c = hash"

definition map_chunks :: "(Chunk \<Rightarrow> bool) \<Rightarrow> (Chunk \<Rightarrow> Chunk) \<Rightarrow> chunk_db \<Rightarrow> chunk_db" where
  "map_chunks P f db = db\<lparr>cdChunks := map (\<lambda>c. if P c then f c else c) (cdChunks db)\<rparr>"

text \<open>An \<^verbatim>\<open>UPDATE\<close> that reports \<^verbatim>\<open>NotFound\<close> when it affects no row.\<close>

definition update_or_not_found :: "(Chunk \<Rightarrow> bool) \<Rightarrow> (Chunk \<Rightarrow> Chunk) \<Rightarrow> string \<Rightarrow> chunk_db \<Rightarrow> gerr + chunk_db" where
  "update_or_not_found P f hash db =
     (if \<exists>c\<in>set (cdChunks db). P c then Inr (map_chunks P f db) else Inl (ErrNotFound ''chunk'' hash))"

definition createChunk :: "int \<Rightarrow> Chunk \<Rightarrow> chunk_db \<Rightarrow> gerr + chunk_db" where
  "createChunk now chunk db =
     (if \<exists>c\<in>set (cdChunks db). chunk_is (chTenantID chunk) (chHash chunk) c
      then Inl (ErrAlreadyExists ''chunk'')
      else Inr (db\<lparr>cdChunks := cdChunks db @ [chunk\<lparr>chCreatedAt := now\<rparr>]\<rparr>))"

definition getChunk :: "string \<Rightarrow> string \<Rightarrow> chunk_db \<Rightarrow> gerr + Chunk" where
  "getChunk tenantID hash db =
     (case find (chunk_is tenantID hash) (cdChunks db) of
        Some c \<Rightarrow> Inr c
      | None \<Rightarrow> Inl (ErrNotFound ''chunk'' (tenantID @ ''/'' @ hash)))"

definition incrementChunkRef :: "string \<Rightarrow> string \<Rightarrow> chunk_db \<Rightarrow> gerr + chunk_db" where
  "incrementChunkRef tenantID hash =
     update_or_not_found (chunk_is tenantID hash)
       (\<lambda>c. c\<lparr>chRefCount := chRefCount c + 1, chDeletedAt := None\<rparr>) hash"

definition decrementChunkRef :: "string \<Rightarrow> string \<Rightarrow> chunk_db \<Rightarrow> gerr + chunk_db" where
  "decrementChunkRef tenantID hash =
     update_or_not_found (\<lambda>c. chunk_is tenantID hash c \<and> chRefCount c > 0)
       (\<lambda>c. c\<lparr>chRefCount := chRefCount c - 1\<rparr>) hash"

definition updateChunk :: "string \<Rightarrow> string \<Rightarrow> ChunkUpdates \<Rightarrow> chunk_db \<Rightarrow> gerr + chunk_db" where
  "updateChunk tenantID hash u db =
     (if cuRefCount u = None \<and> cuDeletedAt u = None then Inr db
      else update_or_not_found (chunk_is tenantID hash)
        (\<lambda>c. c\<lparr>chRefCount := (case cuRefCount u of Some n \<Rightarrow> n | None \<Rightarrow> chRefCount c),
               chDeletedAt := (case cuDeletedAt u of Some t \<Rightarrow> Some t | None \<Rightarrow> chDeletedAt c)\<rparr>) hash db)"

definition deleteChunk :: "string \<Rightarrow> string \<Rightarrow> chunk_db \<Rightarrow> gerr + chunk_db" where
  "deleteChunk tenantID hash db =
     (if \<exists>c\<in>set (cdChunks db). chunk_is tenantID hash c
      then Inr (db\<lparr>cdChunks := filter (\<lambda>c. \<not> chunk_is tenantID hash c) (cdChunks db)\<rparr>)
      else Inl (ErrNotFound ''chunk'' hash))"

definition default_limit :: "int \<Rightarrow> int \<Rightarrow> nat" where
  "default_limit d limit = nat (if limit \<le> 0 then d else limit)"

definition listUnreferencedChunks :: "string \<Rightarrow> int \<Rightarrow> chunk_db \<Rightarrow> Chunk list" where
  "listUnreferencedChunks tenantID limit db =
     take (default_limit 100 limit) (sort_key chCreatedAt
       (filter (\<lambda>c. chTenantID c = tenantID \<and> chRefCount c = 0 \<and> chDeletedAt c = None) (cdChunks db)))"

definition listSoftDeletedChunks :: "string \<Rightarrow> int \<Rightarrow> int \<Rightarrow> chunk_db \<Rightarrow> Chunk list" where
  "listSoftDeletedChunks tenantID olderThan limit db =
     take (default_limit 100 limit) (sort_key (\<lambda>c. the (chDeletedAt c))
       (filter (\<lambda>c. chTenantID c = tenantID \<and>
          (case chDeletedAt c of None \<Rightarrow> False | Some d \<Rightarrow> d < olderThan)) (cdChunks db)))"

definition markChunkDeleted :: "int \<Rightarrow> string \<Rightarrow> string \<Rightarrow> chunk_db \<Rightarrow> gerr + chunk_db" where
  "markChunkDeleted now tenantID hash db =
     (if \<exists>c\<in>set (cdChunks db). chunk_is tenantID hash c
      then Inr (map_chunks (\<lambda>c. chunk_is tenantID hash c \<and> chDeletedAt c = None)
                  (\<lambda>c. c\<lparr>chDeletedAt := Some now\<rparr>) db)
      else Inl (ErrNotFound ''chunk'' hash))"

definition clearChunkDeleted :: "string \<Rightarrow> string \<Rightarrow> chunk_db \<Rightarrow> gerr + chunk_db" where
  "clearChunkDeleted tenantID hash =
     update_or_not_found (chunk_is tenantID hash) (\<lambda>c. c\<lparr>chDeletedAt := None\<rparr>) hash"

section \<open>Garbage collection primitives\<close>

definition registerChunk :: "int \<Rightarrow> string \<Rightarrow> string \<Rightarrow> int \<Rightarrow> chunk_db \<Rightarrow> chunk_db" where
  "registerChunk now tenantID hash sz db =
     (if \<exists>c\<in>set (cdChunks db). chunk_is tenantID hash c
      then map_chunks (chunk_is tenantID hash) (\<lambda>c. c\<lparr>chDeletedAt := None\<rparr>) db
      else db\<lparr>cdChunks := cdChunks db @ [\<lparr>chHash = hash, chTenantID = tenantID, chSize = sz,
                 chRefCount = 0, chDeletedAt = None, chCreatedAt = now\<rparr>]\<rparr>)"

text \<open>
  \<open>locked\<close> tells which rows another transaction holds; \<^verbatim>\<open>SKIP LOCKED\<close> leaves them for later. Ages are
  seconds in the statement and nanoseconds here.
\<close>

definition mark_candidates :: "(string \<Rightarrow> bool) \<Rightarrow> int \<Rightarrow> string \<Rightarrow> int \<Rightarrow> int \<Rightarrow> chunk_db \<Rightarrow> Chunk list" where
  "mark_candidates locked now tenantID minAge limit db =
     take (default_limit 100 limit) (sort_key chCreatedAt
       (filter (\<lambda>c. chTenantID c = tenantID \<and> chRefCount c = 0 \<and> chDeletedAt c = None \<and>
          chCreatedAt c \<le> now - minAge \<and> \<not> locked (chHash c)) (cdChunks db)))"

definition markUnreferencedChunks ::
    "(string \<Rightarrow> bool) \<Rightarrow> int \<Rightarrow> string \<Rightarrow> int \<Rightarrow> int \<Rightarrow> chunk_db \<Rightarrow> Chunk list \<times> chunk_db" where
  "markUnreferencedChunks locked now tenantID minAge limit db =
     (let hs = map chHash (mark_candidates locked now tenantID minAge limit db);
          hit = (\<lambda>c. chTenantID c = tenantID \<and> chHash c \<in> set hs \<and> chRefCount c = 0 \<and> chDeletedAt c = None);
          mark = (\<lambda>c. c\<lparr>chDeletedAt := Some now\<rparr>)
      in (map mark (filter hit (cdChunks db)), map_chunks hit mark db))"

definition listChunkTenants :: "chunk_db \<Rightarrow> string list" where
  "listChunkTenants db = sort (remdups (map chTenantID (cdChunks db)))"

definition sweepable :: "int \<Rightarrow> string \<Rightarrow> int \<Rightarrow> Chunk \<Rightarrow> bool" where
  "sweepable now tenantID minAge c \<longleftrightarrow> chTenantID c = tenantID \<and> chRefCount c = 0 \<and>
     (case chDeletedAt c of None \<Rightarrow> False | Some d \<Rightarrow> d < now - minAge)"

definition listSweepableChunks :: "int \<Rightarrow> string \<Rightarrow> int \<Rightarrow> int \<Rightarrow> chunk_db \<Rightarrow> Chunk list" where
  "listSweepableChunks now tenantID minAge limit db =
     take (default_limit 100 limit) (sort_key (\<lambda>c. the (chDeletedAt c))
       (filter (sweepable now tenantID minAge) (cdChunks db)))"

definition deleteChunkIfUnreferenced :: "int \<Rightarrow> string \<Rightarrow> string \<Rightarrow> int \<Rightarrow> chunk_db \<Rightarrow> bool \<times> chunk_db" where
  "deleteChunkIfUnreferenced now tenantID hash minAge db =
     (let hit = (\<lambda>c. chHash c = hash \<and> sweepable now tenantID minAge c)
      in ((\<exists>c\<in>set (cdChunks db). hit c), db\<lparr>cdChunks := filter (\<lambda>c. \<not> hit c) (cdChunks db)\<rparr>))"

section \<open>Manifests\<close>

definition createManifest :: "int \<Rightarrow> string \<Rightarrow> ManifestRow \<Rightarrow> chunk_db \<Rightarrow> gerr + chunk_db" where
  "createManifest now fresh m db =
     (let m1 = m\<lparr>mrID := (if mrID m = '''' then fresh else mrID m), mrCreatedAt := now\<rparr>
      in if \<exists>x\<in>set (cdManifests db). mrID x = mrID m1 then Inl (ErrAlreadyExists ''manifest'')
         else Inr (db\<lparr>cdManifests := cdManifests db @ [m1]\<rparr>))"

definition getManifest :: "string \<Rightarrow> chunk_db \<Rightarrow> gerr + ManifestRow" where
  "getManifest manifestID db =
     (case find (\<lambda>m. mrID m = manifestID) (cdManifests db) of
        Some m \<Rightarrow> Inr m
      | None \<Rightarrow> Inl (ErrNotFound ''manifest'' manifestID))"

definition workspace_manifests :: "string \<Rightarrow> chunk_db \<Rightarrow> ManifestRow list" where
  "workspace_manifests workspaceID db =
     sort_key (\<lambda>m. - mrCreatedAt m) (filter (\<lambda>m. mrWorkspaceID m = workspaceID) (cdManifests db))"

definition getLatestManifest :: "string \<Rightarrow> chunk_db \<Rightarrow> gerr + ManifestRow" where
  "getLatestManifest workspaceID db =
     (case workspace_manifests workspaceID db of
        m # _ \<Rightarrow> Inr m
      | [] \<Rightarrow> Inl (ErrNotFound ''manifest'' workspaceID))"

definition listManifests :: "string \<Rightarrow> int \<Rightarrow> chunk_db \<Rightarrow> ManifestRow list" where
  "listManifests workspaceID limit db = take (default_limit 50 limit) (workspace_manifests workspaceID db)"

text \<open>Deleting a manifest sets the \<^verbatim>\<open>parent_id\<close> of its children to NULL.\<close>

definition remove_manifests :: "(ManifestRow \<Rightarrow> bool) \<Rightarrow> chunk_db \<Rightarrow> chunk_db" where
  "remove_manifests P db =
     (let gone = map mrID (filter P (cdManifests db))
      in db\<lparr>cdManifests := map (\<lambda>m. case mrParentID m of
              Some p \<Rightarrow> if p \<in> set gone then m\<lparr>mrParentID := None\<rparr> else m
            | None \<Rightarrow> m) (filter (\<lambda>m. \<not> P m) (cdManifests db))\<rparr>)"

definition deleteManifest :: "string \<Rightarrow> chunk_db \<Rightarrow> gerr + chunk_db" where
  "deleteManifest manifestID db =
     (if \<exists>m\<in>set (cdManifests db). mrID m = manifestID
      then Inr (remove_manifests (\<lambda>m. mrID m = manifestID) db)
      else Inl (ErrNotFound ''manifest'' manifestID))"

definition deleteManifestsByWorkspace :: "string \<Rightarrow> chunk_db \<Rightarrow> chunk_db" where
  "deleteManifestsByWorkspace workspaceID = remove_manifests (\<lambda>m. mrWorkspaceID m = workspaceID)"

section \<open>Taking and dropping references\<close>

definition chunkRefBatchSize :: nat where "chunkRefBatchSize = 1000"

text \<open>One \<^verbatim>\<open>INSERT ... ON CONFLICT DO UPDATE\<close> over a batch of distinct hashes.\<close>

definition reference_one :: "int \<Rightarrow> string \<Rightarrow> string \<times> int \<Rightarrow> chunk_db \<Rightarrow> chunk_db" where
  "reference_one now tenantID = (\<lambda>(hash, sz) db.
     if \<exists>c\<in>set (cdChunks db). chunk_is tenantID hash c
     then map_chunks (chunk_is tenantID hash)
            (\<lambda>c. c\<lparr>chRefCount := chRefCount c + 1, chDeletedAt := None\<rparr>) db
     else db\<lparr>cdChunks := cdChunks db @ [\<lparr>chHash = hash, chTenantID = tenantID, chSize = sz,
                chRefCount = 1, chDeletedAt = None, chCreatedAt = now\<rparr>]\<rparr>)"

definition reference_batch :: "int \<Rightarrow> string \<Rightarrow> (string \<times> int) list \<Rightarrow> chunk_db \<Rightarrow> chunk_db" where
  "reference_batch now tenantID batch db = fold (reference_one now tenantID) batch db"

function referenceChunks :: "int \<Rightarrow> string \<Rightarrow> (string \<times> int) list \<Rightarrow> chunk_db \<Rightarrow> chunk_db" where
  "referenceChunks now tenantID chunks db =
     (if chunks = [] then db
      else referenceChunks now tenantID (drop chunkRefBatchSize chunks)
             (reference_batch now tenantID (take chunkRefBatchSize chunks) db))"
  by pat_completeness auto
termination
  by (relation "measure (\<lambda>(_, _, cs, _). length cs)") (auto simp: chunkRefBatchSize_def)

declare referenceChunks.simps [simp del]

definition release_batch :: "string \<Rightarrow> string list \<Rightarrow> chunk_db \<Rightarrow> chunk_db" where
  "release_batch tenantID hashes db =
     map_chunks (\<lambda>c. chTenantID c = tenantID \<and> chHash c \<in> set hashes \<and> chRefCount c > 0)
       (\<lambda>c. c\<lparr>chRefCount := chRefCount c - 1\<rparr>) db"

function releaseChunks :: "string \<Rightarrow> (string \<times> int) list \<Rightarrow> chunk_db \<Rightarrow> chunk_db" where
  "releaseChunks tenantID chunks db =
     (if chunks = [] then db
      else releaseChunks tenantID (drop chunkRefBatchSize chunks)
             (release_batch tenantID (map fst (take chunkRefBatchSize chunks)) db))"
  by pat_completeness auto
termination
  by (relation "measure (\<lambda>(_, cs, _). length cs)") (auto simp: chunkRefBatchSize_def)

declare releaseChunks.simps [simp del]

text \<open>
  The chunks argument is a list of \<^verbatim>\<open>*store.Chunk\<close>: \<open>None\<close> is a nil pointer. The first chunk of
  every hash is kept.
\<close>

fun dedup_chunks :: "string list \<Rightarrow> (string \<times> int) option list \<Rightarrow> gerr + (string \<times> int) list" where
  "dedup_chunks seen [] = Inr []"
| "dedup_chunks seen (None # cs) = Inl (ErrInvalidInput ''chunks'')"
| "dedup_chunks seen (Some (h, n) # cs) =
     (if h = '''' then Inl (ErrInvalidInput ''chunks'')
      else if h \<in> set seen then dedup_chunks seen cs
      else (case dedup_chunks (h # seen) cs of Inl e \<Rightarrow> Inl e | Inr us \<Rightarrow> Inr ((h, n) # us)))"

fun dedup_skip :: "string list \<Rightarrow> (string \<times> int) option list \<Rightarrow> (string \<times> int) list" where
  "dedup_skip seen [] = []"
| "dedup_skip seen (None # cs) = dedup_skip seen cs"
| "dedup_skip seen (Some (h, n) # cs) =
     (if h = '''' \<or> h \<in> set seen then dedup_skip seen cs else (h, n) # dedup_skip (h # seen) cs)"

text \<open>Both run in one transaction: an error leaves the database as it was.\<close>

definition CommitManifest :: "int \<Rightarrow> string \<Rightarrow> ManifestRow option \<Rightarrow> (string \<times> int) option list \<Rightarrow>
    chunk_db \<Rightarrow> gerr + chunk_db" where
  "CommitManifest now fresh manifest chunks db =
     (case manifest of
        None \<Rightarrow> Inl (ErrInvalidInput ''manifest'')
      | Some m \<Rightarrow>
          if mrTenantID m = '''' then Inl (ErrInvalidInput ''tenant_id'')
          else (case dedup_chunks [] chunks of
                  Inl e \<Rightarrow> Inl e
                | Inr unique \<Rightarrow>
                    createManifest now fresh m (referenceChunks now (mrTenantID m) unique db)))"

definition ReleaseManifest :: "string \<Rightarrow> (string \<times> int) option list \<Rightarrow> chunk_db \<Rightarrow> gerr + chunk_db" where
  "ReleaseManifest manifestID chunks db =
     (case getManifest manifestID db of
        Inl e \<Rightarrow> Inl e
      | Inr m \<Rightarrow> deleteManifest manifestID (releaseChunks (mrTenantID m) (dedup_skip [] chunks) db))"

end
