(* ===== verification/Chunk_Refs.thy ===== *)
theory Chunk_Refs
  imports Chunk_Store "HOL-Library.Transitive_Closure_Table"
begin

text \<open>
  Reference counting of chunks. \<open>R\<close> records for every manifest id the hashes its commit named;
  the database does not store them. In every reachable state a chunk's count is the number of
  committed manifests that name it, so the collector's delete never removes a named chunk.
\<close>

section \<open>Counts\<close>

definition ref_count :: "chunk_db \<Rightarrow> string \<Rightarrow> string \<Rightarrow> int" where
  "ref_count db t h = (case find (chunk_is t h) (cdChunks db) of None \<Rightarrow> 0 | Some c \<Rightarrow> chRefCount c)"

definition has_chunk :: "chunk_db \<Rightarrow> string \<Rightarrow> string \<Rightarrow> bool" where
  "has_chunk db t h \<longleftrightarrow> (\<exists>c\<in>set (cdChunks db). chunk_is t h c)"

definition holders :: "(string \<Rightarrow> string set) \<Rightarrow> ManifestRow list \<Rightarrow> string \<Rightarrow> string \<Rightarrow> nat" where
  "holders R ms t h = length (filter (\<lambda>m. mrTenantID m = t \<and> h \<in> R (mrID m)) ms)"

abbreviation chunk_key :: "Chunk \<Rightarrow> string \<times> string" where
  "chunk_key c \<equiv> (chTenantID c, chHash c)"

definition keys_distinct :: "chunk_db \<Rightarrow> bool" where
  "keys_distinct db \<longleftrightarrow> distinct (map chunk_key (cdChunks db)) \<and> distinct (map mrID (cdManifests db))"

lemma chunk_is_key: "chunk_is t h c \<longleftrightarrow> chunk_key c = (t, h)"
  by (auto simp: chunk_is_def)

lemma has_chunk_find: "has_chunk db t h \<longleftrightarrow> find (chunk_is t h) (cdChunks db) \<noteq> None"
  by (auto simp: has_chunk_def find_None_iff)

lemma ref_count_no_chunk: "\<not> has_chunk db t h \<Longrightarrow> ref_count db t h = 0"
  by (simp add: has_chunk_find ref_count_def)

lemma find_map_key:
  assumes "\<And>c. chunk_key (f c) = chunk_key c"
  shows "find (chunk_is t h) (map f rows) = map_option f (find (chunk_is t h) rows)"
proof (induction rows)
  case (Cons c rows)
  then show ?case using assms[of c] by (auto simp: chunk_is_key)
qed simp

lemma keys_map:
  assumes "\<And>c. chunk_key (f c) = chunk_key c"
  shows "map chunk_key (map f rows) = map chunk_key rows"
  using assms by simp

lemma map_chunks_laws:
  assumes "\<And>c. chunk_key (f c) = chunk_key c"
  shows "find (chunk_is t h) (cdChunks (map_chunks P f db)) =
      map_option (\<lambda>c. if P c then f c else c) (find (chunk_is t h) (cdChunks db))"
    and "keys_distinct (map_chunks P f db) = keys_distinct db"
    and "cdManifests (map_chunks P f db) = cdManifests db"
    and "has_chunk (map_chunks P f db) t h = has_chunk db t h"
proof -
  have k: "chunk_key (if P c then f c else c) = chunk_key c" for c using assms by simp
  show fnd: "find (chunk_is t h) (cdChunks (map_chunks P f db)) =
      map_option (\<lambda>c. if P c then f c else c) (find (chunk_is t h) (cdChunks db))"
    unfolding map_chunks_def by (simp add: find_map_key[OF k])
  show "keys_distinct (map_chunks P f db) = keys_distinct db"
    using keys_map[OF k, of "cdChunks db"]
    by (simp add: keys_distinct_def map_chunks_def del: map_map map_eq_conv)
  show "cdManifests (map_chunks P f db) = cdManifests db" by (simp add: map_chunks_def)
  show "has_chunk (map_chunks P f db) t h = has_chunk db t h" by (simp add: has_chunk_find fnd)
qed

text \<open>A step that leaves every count alone.\<close>

definition counts_kept :: "chunk_db \<Rightarrow> chunk_db \<Rightarrow> bool" where
  "counts_kept db db' \<longleftrightarrow> (keys_distinct db \<longrightarrow> keys_distinct db') \<and> cdManifests db' = cdManifests db \<and>
     (keys_distinct db \<longrightarrow> (\<forall>t h. ref_count db' t h = ref_count db t h))"

lemma counts_kept_map:
  assumes "\<And>c. chunk_key (f c) = chunk_key c \<and> chRefCount (f c) = chRefCount c"
  shows "counts_kept db (map_chunks P f db)"
  using map_chunks_laws[of f, OF conjunct1[OF assms]] assms
  by (auto simp: counts_kept_def ref_count_def split: option.split)

lemma append_chunk_laws:
  assumes "\<not> has_chunk db (chTenantID c) (chHash c)"
  shows "keys_distinct (db\<lparr>cdChunks := cdChunks db @ [c]\<rparr>) = keys_distinct db"
    and "ref_count (db\<lparr>cdChunks := cdChunks db @ [c]\<rparr>) t h =
      (if (t, h) = chunk_key c then chRefCount c else ref_count db t h)"
proof -
  show "keys_distinct (db\<lparr>cdChunks := cdChunks db @ [c]\<rparr>) = keys_distinct db"
    using assms by (auto simp: keys_distinct_def has_chunk_def chunk_is_key)
  have "find P (xs @ [x]) = (case find P xs of None \<Rightarrow> if P x then Some x else None | Some y \<Rightarrow> Some y)"
    for P :: "Chunk \<Rightarrow> bool" and xs x
    by (induction xs) auto
  then show "ref_count (db\<lparr>cdChunks := cdChunks db @ [c]\<rparr>) t h =
      (if (t, h) = chunk_key c then chRefCount c else ref_count db t h)"
    using assms by (auto simp: ref_count_def has_chunk_find chunk_is_key split: option.split)
qed

lemma counts_kept_register: "counts_kept db (registerChunk now t h n db)"
proof (cases "has_chunk db t h")
  case True
  then have "registerChunk now t h n db = map_chunks (chunk_is t h) (\<lambda>c. c\<lparr>chDeletedAt := None\<rparr>) db"
    by (auto simp: registerChunk_def has_chunk_def)
  then show ?thesis using counts_kept_map[of "\<lambda>c. c\<lparr>chDeletedAt := None\<rparr>"] by simp
next
  case False
  let ?c = "\<lparr>chHash = h, chTenantID = t, chSize = n, chRefCount = 0, chDeletedAt = None, chCreatedAt = now\<rparr>"
  from False have "registerChunk now t h n db = db\<lparr>cdChunks := cdChunks db @ [?c]\<rparr>"
    by (auto simp: registerChunk_def has_chunk_def)
  with False append_chunk_laws[of db ?c] ref_count_no_chunk[OF False] show ?thesis
    by (simp add: counts_kept_def)
qed

lemma counts_kept_mark: "counts_kept db (snd (markUnreferencedChunks locked now t age lim db))"
  unfolding markUnreferencedChunks_def Let_def snd_conv by (rule counts_kept_map) simp

lemma counts_kept_clear: "clearChunkDeleted t h db = Inr db' \<Longrightarrow> counts_kept db db'"
  by (auto simp: clearChunkDeleted_def update_or_not_found_def split: if_splits intro!: counts_kept_map)

lemma counts_kept_soft: "markChunkDeleted now t h db = Inr db' \<Longrightarrow> counts_kept db db'"
  by (auto simp: markChunkDeleted_def split: if_splits intro!: counts_kept_map)

lemma counts_kept_delete: "counts_kept db (snd (deleteChunkIfUnreferenced now t h age db))"
proof -
  let ?hit = "\<lambda>c. chHash c = h \<and> sweepable now t age c"
  have k: "distinct (map chunk_key (filter P rows))" if "distinct (map chunk_key rows)" for P and rows :: "Chunk list"
    using that by (simp add: distinct_map_filter)
  have "(case find (chunk_is u g) (filter (\<lambda>c. \<not> ?hit c) rows) of None \<Rightarrow> 0 | Some c \<Rightarrow> chRefCount c) =
      (case find (chunk_is u g) rows of None \<Rightarrow> 0 | Some c \<Rightarrow> chRefCount c)"
    if "distinct (map chunk_key rows)" for u g rows
    using that
  proof (induction rows)
    case (Cons c rows)
    show ?case
    proof (cases "chunk_is u g c \<and> ?hit c")
      case True
      then have "find (chunk_is u g) (filter (\<lambda>c. \<not> ?hit c) rows) = None"
        using Cons.prems by (auto simp: find_None_iff chunk_is_key image_iff)
      with True show ?thesis by (simp add: sweepable_def)
    qed (use Cons in auto)
  qed simp
  with k show ?thesis
    by (auto simp: counts_kept_def keys_distinct_def deleteChunkIfUnreferenced_def Let_def ref_count_def)
qed

section \<open>Batches\<close>

text \<open>Referencing in batches is referencing one by one.\<close>

lemma referenceChunks_fold: "referenceChunks now t cs db = fold (reference_one now t) cs db"
proof (induction now t cs db rule: referenceChunks.induct)
  case (1 now t cs db)
  have "fold (reference_one now t) cs db =
      fold (reference_one now t) (take chunkRefBatchSize cs @ drop chunkRefBatchSize cs) db" by simp
  then show ?case
    using 1 by (subst referenceChunks.simps) (auto simp: reference_batch_def simp del: append_take_drop_id)
qed

lemma reference_one_laws:
  "keys_distinct (reference_one now t (h, n) db) = keys_distinct db"
  "cdManifests (reference_one now t (h, n) db) = cdManifests db"
  "ref_count (reference_one now t (h, n) db) u g = ref_count db u g + (if (u, g) = (t, h) then 1 else 0)"
proof -
  let ?c = "\<lparr>chHash = h, chTenantID = t, chSize = n, chRefCount = 1, chDeletedAt = None, chCreatedAt = now\<rparr>"
  let ?f = "\<lambda>c. c\<lparr>chRefCount := chRefCount c + 1, chDeletedAt := None\<rparr>"
  have "keys_distinct (reference_one now t (h, n) db) = keys_distinct db \<and>
    cdManifests (reference_one now t (h, n) db) = cdManifests db \<and>
    ref_count (reference_one now t (h, n) db) u g = ref_count db u g + (if (u, g) = (t, h) then 1 else 0)"
  proof (cases "has_chunk db t h")
    case True
    then have r: "reference_one now t (h, n) db = map_chunks (chunk_is t h) ?f db"
      by (auto simp: reference_one_def has_chunk_def)
    note laws = map_chunks_laws(1)[where f = ?f and P = "chunk_is t h" and db = db and t = u and h = g]
      map_chunks_laws(2,3)[where f = ?f and P = "chunk_is t h" and db = db]
    have "ref_count (map_chunks (chunk_is t h) ?f db) u g = ref_count db u g + (if (u, g) = (t, h) then 1 else 0)"
    proof (cases "find (chunk_is u g) (cdChunks db)")
      case None
      with True have "(u, g) \<noteq> (t, h)" by (auto simp: has_chunk_find)
      with laws(1) None show ?thesis by (simp add: ref_count_def)
    next
      case (Some c)
      then have "chunk_is t h c \<longleftrightarrow> (u, g) = (t, h)" by (auto dest!: find_key_eq simp: chunk_is_key)
      with laws(1) Some show ?thesis by (simp add: ref_count_def)
    qed
    with laws(2,3) show ?thesis unfolding r by simp
  next
    case False
    then have r: "reference_one now t (h, n) db = db\<lparr>cdChunks := cdChunks db @ [?c]\<rparr>"
      by (auto simp: reference_one_def has_chunk_def)
    show ?thesis unfolding r
      using append_chunk_laws[of db ?c] False ref_count_no_chunk[OF False] by auto
  qed
  then show "keys_distinct (reference_one now t (h, n) db) = keys_distinct db"
    "cdManifests (reference_one now t (h, n) db) = cdManifests db"
    "ref_count (reference_one now t (h, n) db) u g = ref_count db u g + (if (u, g) = (t, h) then 1 else 0)"
    by blast+
qed

lemma referenceChunks_laws:
  assumes "distinct (map fst cs)"
  shows "keys_distinct (referenceChunks now t cs db) = keys_distinct db"
    and "cdManifests (referenceChunks now t cs db) = cdManifests db"
    and "ref_count (referenceChunks now t cs db) u g =
      ref_count db u g + (if u = t \<and> g \<in> fst ` set cs then 1 else 0)"
  unfolding referenceChunks_fold using assms
  by (induction cs arbitrary: db) (auto simp: reference_one_laws rev_image_eqI)

lemma release_batch_laws:
  "keys_distinct (release_batch t hs db) = keys_distinct db"
  "cdManifests (release_batch t hs db) = cdManifests db"
  "ref_count (release_batch t hs db) u g =
     ref_count db u g - (if u = t \<and> g \<in> set hs \<and> ref_count db u g > 0 then 1 else 0)"
proof -
  let ?P = "\<lambda>c. chTenantID c = t \<and> chHash c \<in> set hs \<and> chRefCount c > 0"
  let ?f = "\<lambda>c. c\<lparr>chRefCount := chRefCount c - 1\<rparr>"
  note laws = map_chunks_laws(1)[where f = ?f and P = ?P and db = db and t = u and h = g]
    map_chunks_laws(2,3)[where f = ?f and P = ?P and db = db]
  show "keys_distinct (release_batch t hs db) = keys_distinct db"
    "cdManifests (release_batch t hs db) = cdManifests db"
    using laws by (simp_all add: release_batch_def)
  show "ref_count (release_batch t hs db) u g =
     ref_count db u g - (if u = t \<and> g \<in> set hs \<and> ref_count db u g > 0 then 1 else 0)"
  proof (cases "find (chunk_is u g) (cdChunks db)")
    case None
    with laws(1) show ?thesis by (simp add: ref_count_def release_batch_def)
  next
    case (Some c)
    then have "chTenantID c = u" "chHash c = g" by (auto dest!: find_key_eq simp: chunk_is_key)
    with laws(1) Some show ?thesis by (simp add: ref_count_def release_batch_def)
  qed
qed

lemma releaseChunks_laws:
  assumes "distinct (map fst cs)"
  shows "keys_distinct (releaseChunks t cs db) = keys_distinct db"
    and "cdManifests (releaseChunks t cs db) = cdManifests db"
    and "ref_count (releaseChunks t cs db) u g =
      ref_count db u g - (if u = t \<and> g \<in> fst ` set cs \<and> ref_count db u g > 0 then 1 else 0)"
proof -
  have "keys_distinct (releaseChunks t cs db) = keys_distinct db \<and>
    cdManifests (releaseChunks t cs db) = cdManifests db \<and>
    ref_count (releaseChunks t cs db) u g =
      ref_count db u g - (if u = t \<and> g \<in> fst ` set cs \<and> ref_count db u g > 0 then 1 else 0)"
    using assms
  proof (induction t cs db rule: releaseChunks.induct)
    case (1 t cs db)
    show ?case
    proof (cases "cs = []")
      case True
      then show ?thesis by (simp add: releaseChunks.simps)
    next
      case False
      let ?a = "take chunkRefBatchSize cs" and ?b = "drop chunkRefBatchSize cs"
      have "map fst ?a @ map fst ?b = map fst cs" by (simp flip: map_append)
      with 1(2) have d: "distinct (map fst ?b)" "fst ` set ?a \<inter> fst ` set ?b = {}"
        by (metis distinct_append list.set_map)+
      have s: "fst ` set cs = fst ` set ?a \<union> fst ` set ?b"
        by (metis append_take_drop_id image_Un set_append)
      from 1(1)[OF False d(1)] d(2) show ?thesis
        by (subst (1 2 3) releaseChunks.simps) (auto simp: False release_batch_laws s)
    qed
  qed
  then show "keys_distinct (releaseChunks t cs db) = keys_distinct db"
    "cdManifests (releaseChunks t cs db) = cdManifests db"
    "ref_count (releaseChunks t cs db) u g =
      ref_count db u g - (if u = t \<and> g \<in> fst ` set cs \<and> ref_count db u g > 0 then 1 else 0)"
    by blast+
qed

section \<open>Reachable states\<close>

definition hashes_of :: "(string \<times> int) option list \<Rightarrow> string set" where
  "hashes_of cs = {h. \<exists>n. Some (h, n) \<in> set cs \<and> h \<noteq> ''''}"

definition row_id :: "string \<Rightarrow> ManifestRow \<Rightarrow> string" where
  "row_id fresh m = (if mrID m = '''' then fresh else mrID m)"

text \<open>
  The operations on the tables, interleaved in any order. A release names the chunks its manifest
  was committed with, as its caller reads them from the manifest object.
\<close>

inductive cas_step :: "chunk_db \<times> (string \<Rightarrow> string set) \<Rightarrow> chunk_db \<times> (string \<Rightarrow> string set) \<Rightarrow> bool" where
  register: "cas_step (db, R) (registerChunk now t h n db, R)"
| commit: "CommitManifest now fresh (Some m) cs db = Inr db' \<Longrightarrow>
    cas_step (db, R) (db', R(row_id fresh m := hashes_of cs))"
| release: "ReleaseManifest mid cs db = Inr db' \<Longrightarrow> hashes_of cs = R mid \<Longrightarrow>
    cas_step (db, R) (db', R)"
| mark: "cas_step (db, R) (snd (markUnreferencedChunks locked now t age lim db), R)"
| soft_delete: "markChunkDeleted now t h db = Inr db' \<Longrightarrow> cas_step (db, R) (db', R)"
| clear: "clearChunkDeleted t h db = Inr db' \<Longrightarrow> cas_step (db, R) (db', R)"
| sweep: "cas_step (db, R) (snd (deleteChunkIfUnreferenced now t h age db), R)"

definition refs_inv :: "chunk_db \<times> (string \<Rightarrow> string set) \<Rightarrow> bool" where
  "refs_inv = (\<lambda>(db, R). keys_distinct db \<and>
     (\<forall>t h. ref_count db t h = int (holders R (cdManifests db) t h)))"

lemma dedup_chunks_laws:
  "dedup_chunks seen cs = Inr us \<Longrightarrow> distinct (map fst us) \<and> fst ` set us \<inter> set seen = {} \<and>
     fst ` set us = hashes_of cs - set seen"
proof (induction seen cs arbitrary: us rule: dedup_chunks.induct)
  case (3 seen h n cs)
  have cons: "hashes_of (Some (h, n) # cs) = (if h = '''' then {} else {h}) \<union> hashes_of cs"
    by (auto simp: hashes_of_def)
  show ?case
  proof (cases "h \<in> set seen")
    case True
    with 3 show ?thesis by (auto simp: cons split: if_splits)
  next
    case False
    with 3 obtain vs where "dedup_chunks (h # seen) cs = Inr vs" "us = (h, n) # vs" "h \<noteq> ''''"
      by (auto split: if_splits sum.splits)
    with 3(2)[OF _ False] False show ?thesis by (auto simp: cons)
  qed
qed (auto simp: hashes_of_def)

lemma dedup_skip_laws:
  "distinct (map fst (dedup_skip seen cs)) \<and> fst ` set (dedup_skip seen cs) = hashes_of cs - set seen"
proof (induction seen cs rule: dedup_skip.induct)
  case (3 seen h n cs)
  have cons: "hashes_of (Some (h, n) # cs) = (if h = '''' then {} else {h}) \<union> hashes_of cs"
    by (auto simp: hashes_of_def)
  show ?case
  proof (cases "h = '''' \<or> h \<in> set seen")
    case True
    with 3(1) show ?thesis by (auto simp: cons)
  next
    case False
    with 3(2) show ?thesis by (auto simp: cons)
  qed
qed (auto simp: hashes_of_def)

lemma refs_inv_kept: "counts_kept db db' \<Longrightarrow> refs_inv (db, R) \<Longrightarrow> refs_inv (db', R)"
  by (auto simp: refs_inv_def counts_kept_def)

lemma refs_inv_commit:
  assumes inv: "refs_inv (db, R)" and c: "CommitManifest now fresh (Some m) cs db = Inr db'"
  shows "refs_inv (db', R(row_id fresh m := hashes_of cs))"
proof -
  let ?id = "row_id fresh m"
  let ?m = "m\<lparr>mrID := ?id, mrCreatedAt := now\<rparr>"
  from c obtain us where us: "dedup_chunks [] cs = Inr us"
    by (auto simp: CommitManifest_def split: if_splits sum.splits)
  let ?db = "referenceChunks now (mrTenantID m) us db"
  have d: "distinct (map fst us)" "fst ` set us = hashes_of cs" using dedup_chunks_laws[OF us] by auto
  note laws = referenceChunks_laws[OF d(1), where now = now and t = "mrTenantID m" and db = db]
  from c us have new: "?id \<notin> mrID ` set (cdManifests db)" and db': "db' = ?db\<lparr>cdManifests := cdManifests db @ [?m]\<rparr>"
    by (auto simp: CommitManifest_def createManifest_def row_id_def Let_def laws(2) image_iff split: if_splits)
  have rc: "ref_count db' t h = ref_count ?db t h" for t h by (simp add: db' ref_count_def)
  have old: "filter (\<lambda>x. mrTenantID x = t \<and> h \<in> (R(?id := hashes_of cs)) (mrID x)) (cdManifests db) =
      filter (\<lambda>x. mrTenantID x = t \<and> h \<in> R (mrID x)) (cdManifests db)" for t h
    using new by (intro filter_cong) (auto simp: rev_image_eqI)
  have "keys_distinct ?db" using inv laws(1) by (simp add: refs_inv_def)
  then have "keys_distinct db'" using new by (auto simp: keys_distinct_def db' laws(2))
  moreover have "ref_count db' t h = int (holders (R(?id := hashes_of cs)) (cdManifests db') t h)" for t h
  proof -
    have "holders (R(?id := hashes_of cs)) (cdManifests db') t h = holders R (cdManifests db) t h +
        (if mrTenantID m = t \<and> h \<in> hashes_of cs then 1 else 0)"
      unfolding holders_def db' by (simp add: old[unfolded fun_upd_apply])
    with inv show ?thesis unfolding rc laws(3) d(2) by (auto simp: refs_inv_def)
  qed
  ultimately show ?thesis by (simp add: refs_inv_def)
qed

lemma holders_remove:
  assumes "distinct (map mrID ms)" and "m \<in> set ms" and "mrID m = mid"
  shows "holders R ms t g = holders R (filter (\<lambda>x. mrID x \<noteq> mid) ms) t g +
     (if t = mrTenantID m \<and> g \<in> R mid then 1 else 0)"
  using assms
proof (induction ms)
  case (Cons x xs)
  show ?case
  proof (cases "x = m")
    case True
    with Cons.prems have "filter (\<lambda>x. mrID x \<noteq> mid) xs = xs" by (auto simp: filter_id_conv rev_image_eqI)
    with True Cons.prems(3) show ?thesis by (auto simp: holders_def)
  next
    case False
    with Cons.prems have "mrID x \<noteq> mid" "m \<in> set xs" "distinct (map mrID xs)" by auto
    moreover have "holders R (y # ys) t g = (if mrTenantID y = t \<and> g \<in> R (mrID y) then 1 else 0) + holders R ys t g" for y ys
      by (simp add: holders_def)
    ultimately show ?thesis using Cons.IH Cons.prems(3) by simp
  qed
qed simp

lemma refs_inv_release:
  assumes inv: "refs_inv (db, R)" and r: "ReleaseManifest mid cs db = Inr db'" and h: "hashes_of cs = R mid"
  shows "refs_inv (db', R)"
proof -
  from r obtain m where m: "find (\<lambda>m. mrID m = mid) (cdManifests db) = Some m"
    by (auto simp: ReleaseManifest_def getManifest_def split: option.splits)
  then have m': "m \<in> set (cdManifests db)" "mrID m = mid" by (auto dest!: find_key_eq)
  let ?us = "dedup_skip [] cs"
  have d: "distinct (map fst ?us)" "fst ` set ?us = R mid" using dedup_skip_laws[of "[]" cs] h by auto
  let ?db = "releaseChunks (mrTenantID m) ?us db"
  note laws = releaseChunks_laws[OF d(1), where t = "mrTenantID m" and db = db]
  from r m m' have db': "db' = remove_manifests (\<lambda>x. mrID x = mid) ?db"
    by (auto simp: ReleaseManifest_def getManifest_def deleteManifest_def laws(2) split: if_splits)
  have dm: "distinct (map mrID (cdManifests db))" using inv by (simp add: refs_inv_def keys_distinct_def)
  define f where "f = (\<lambda>x :: ManifestRow. case mrParentID x of Some p \<Rightarrow>
      if p \<in> set (map mrID (filter (\<lambda>x. mrID x = mid) (cdManifests db))) then x\<lparr>mrParentID := None\<rparr> else x | None \<Rightarrow> x)"
  have f: "mrID (f x) = mrID x" "mrTenantID (f x) = mrTenantID x" for x by (auto simp: f_def split: option.split)
  have ms: "cdManifests db' = map f (filter (\<lambda>x. mrID x \<noteq> mid) (cdManifests db))"
    by (simp add: db' remove_manifests_def Let_def laws(2) f_def)
  have rows: "cdChunks db' = cdChunks ?db" by (simp add: db' remove_manifests_def Let_def)
  have "map mrID (cdManifests db') = map mrID (filter (\<lambda>x. mrID x \<noteq> mid) (cdManifests db))"
    unfolding ms by (simp add: f)
  then have "keys_distinct db'"
    using inv laws(1) dm rows by (simp add: refs_inv_def keys_distinct_def distinct_map_filter)
  moreover have "ref_count db' t g = int (holders R (cdManifests db') t g)" for t g
  proof -
    have rc: "ref_count db' t g = ref_count ?db t g" by (simp add: ref_count_def rows)
    have new: "holders R (cdManifests db') t g = holders R (filter (\<lambda>x. mrID x \<noteq> mid) (cdManifests db)) t g"
      unfolding ms holders_def by (simp add: filter_map comp_def f)
    have old: "ref_count db t g = int (holders R (cdManifests db) t g)" using inv by (simp add: refs_inv_def)
    show ?thesis unfolding rc laws(3) d(2) new old holders_remove[OF dm m'] by auto
  qed
  ultimately show ?thesis by (simp add: refs_inv_def)
qed

lemma refs_inv_step: "cas_step x y \<Longrightarrow> refs_inv x \<Longrightarrow> refs_inv y"
proof (induction rule: cas_step.induct)
  case (commit now fresh m cs db db' R)
  then show ?case using refs_inv_commit by blast
next
  case (release mid cs db db' R)
  then show ?case using refs_inv_release by blast
qed (auto elim!: refs_inv_kept[rotated] intro: counts_kept_register counts_kept_mark counts_kept_delete
      counts_kept_soft counts_kept_clear)

definition empty_chunk_db :: chunk_db where
  "empty_chunk_db = \<lparr>cdChunks = [], cdManifests = []\<rparr>"

lemma refs_inv_reachable: "cas_step\<^sup>*\<^sup>* (empty_chunk_db, \<lambda>_. {}) x \<Longrightarrow> refs_inv x"
proof (induction rule: rtranclp_induct)
  case base
  then show ?case by (simp add: refs_inv_def keys_distinct_def empty_chunk_db_def ref_count_def holders_def)
next
  case (step y z)
  then show ?case using refs_inv_step by blast
qed

lemma ref_count_row:
  "keys_distinct db \<Longrightarrow> c \<in> set (cdChunks db) \<Longrightarrow> ref_count db (chTenantID c) (chHash c) = chRefCount c"
proof -
  assume "keys_distinct db" and "c \<in> set (cdChunks db)"
  then have "find (chunk_is (chTenantID c) (chHash c)) (cdChunks db) = Some c"
    by (intro find_unique_key[where key = chunk_key]) (auto simp: keys_distinct_def chunk_is_key)
  then show ?thesis by (simp add: ref_count_def)
qed

text \<open>
  C16. Reference counts are exact and protect what is named. In every state the table operations
  can reach, in any interleaving, the count of a chunk is the number of committed manifests of its
  tenant that name it; and a sweep's conditional delete of a chunk that some committed manifest
  names reports that nothing was deleted and leaves the tables as they were.
\<close>

theorem referenced_chunks_survive_gc:
  assumes "cas_step\<^sup>*\<^sup>* (empty_chunk_db, \<lambda>_. {}) (db, R)"
  shows "(\<forall>c\<in>set (cdChunks db).
        chRefCount c = int (length (filter (\<lambda>m. mrTenantID m = chTenantID c \<and> chHash c \<in> R (mrID m)) (cdManifests db)))) \<and>
     (\<forall>m\<in>set (cdManifests db). \<forall>h\<in>R (mrID m).
        (\<exists>c\<in>set (cdChunks db). chTenantID c = mrTenantID m \<and> chHash c = h) \<and>
        deleteChunkIfUnreferenced now (mrTenantID m) h age db = (False, db))"
proof -
  from refs_inv_reachable[OF assms] have k: "keys_distinct db"
      and rc: "\<And>t h. ref_count db t h = int (holders R (cdManifests db) t h)"
    by (auto simp: refs_inv_def)
  note row = ref_count_row[OF k]
  have "(\<exists>c\<in>set (cdChunks db). chTenantID c = mrTenantID m \<and> chHash c = h) \<and>
      deleteChunkIfUnreferenced now (mrTenantID m) h age db = (False, db)"
    if m: "m \<in> set (cdManifests db)" "h \<in> R (mrID m)" for m h
  proof -
    have "m \<in> set (filter (\<lambda>x. mrTenantID x = mrTenantID m \<and> h \<in> R (mrID x)) (cdManifests db))" using m by simp
    then have "holders R (cdManifests db) (mrTenantID m) h > 0" unfolding holders_def by (rule length_pos_if_in_set)
    then have pos: "ref_count db (mrTenantID m) h > 0" using rc by simp
    then have "has_chunk db (mrTenantID m) h" using ref_count_no_chunk by fastforce
    then have ex: "\<exists>c\<in>set (cdChunks db). chTenantID c = mrTenantID m \<and> chHash c = h"
      by (auto simp: has_chunk_def chunk_is_def)
    have "\<not> (chHash c = h \<and> sweepable now (mrTenantID m) age c)" if "c \<in> set (cdChunks db)" for c
      using row[OF that] pos by (auto simp: sweepable_def)
    then have "deleteChunkIfUnreferenced now (mrTenantID m) h age db = (False, db)"
      by (auto simp: deleteChunkIfUnreferenced_def Let_def filter_id_conv)
    with ex show ?thesis by simp
  qed
  with row rc show ?thesis by (auto simp: holders_def)
qed

end
