(* ===== verification/Cas_GC.thy ===== *)
theory Cas_GC
  imports Cas_Sync_Laws Chunk_Refs
begin

text \<open>
  The garbage collector, \<^verbatim>\<open>gc.go\<close>, over the chunk table and the blob storage, and the job that runs
  it for every tenant, \<^verbatim>\<open>pkg/jobs/chunk_gc.go\<close>. The loops of \<^verbatim>\<open>Mark\<close> and \<^verbatim>\<open>Sweep\<close> are partial
  functions: \<open>None\<close> is a loop that never ends. A result is paired with the errors the Go function
  returns beside it.
\<close>

record GCConfig =
  gcGracePeriod :: int
  gcBatchSize :: int
  gcDryRun :: bool

definition DefaultGracePeriod :: int where "DefaultGracePeriod = 7 * 24 * 3600 * 1000000000"

definition DefaultBatchSize :: int where "DefaultBatchSize = 1000"

definition NewGC :: "GCConfig \<Rightarrow> GCConfig" where
  "NewGC c =
     c\<lparr>gcGracePeriod := (if gcGracePeriod c \<le> 0 then DefaultGracePeriod else gcGracePeriod c),
       gcBatchSize := (if gcBatchSize c \<le> 0 then DefaultBatchSize else gcBatchSize c)\<rparr>"

text \<open>
  The collector's world: blobs, tables, the database clock, the rows other transactions hold locked
  and the moments its context is cancelled, all by operation number.
\<close>

record gc_world =
  gwCas :: cas_world
  gwDb :: chunk_db
  gwNow :: "nat \<Rightarrow> int"
  gwLocked :: "nat \<Rightarrow> string \<Rightarrow> bool"
  gwCancelled :: "nat \<Rightarrow> bool"

abbreviation gw_tick :: "gc_world \<Rightarrow> nat" where "gw_tick g \<equiv> cw_tick (gwCas g)"

definition gw_next :: "gc_world \<Rightarrow> gc_world" where
  "gw_next g = g\<lparr>gwCas := (gwCas g)\<lparr>cw_tick := Suc (gw_tick g)\<rparr>\<rparr>"

definition gc_stmt :: "(int \<Rightarrow> (string \<Rightarrow> bool) \<Rightarrow> chunk_db \<Rightarrow> 'a \<times> chunk_db) \<Rightarrow> gc_world \<Rightarrow>
    (cas_error + 'a) \<times> gc_world" where
  "gc_stmt f g =
     (case ce_fault (cw_env (gwCas g)) (gw_tick g) of
        Some e \<Rightarrow> (Inl e, gw_next g)
      | None \<Rightarrow>
          (case f (gwNow g (gw_tick g)) (gwLocked g (gw_tick g)) (gwDb g) of
             (x, db) \<Rightarrow> (Inr x, (gw_next g)\<lparr>gwDb := db\<rparr>)))"

definition gc_blob :: "'a C \<Rightarrow> gc_world \<Rightarrow> (cas_error + 'a) \<times> gc_world" where
  "gc_blob m g = (case run_state m (gwCas g) of (r, w) \<Rightarrow> (r, g\<lparr>gwCas := w\<rparr>))"

definition ErrCanceled :: cas_error where "ErrCanceled = ErrWrapped ''context canceled'' ErrUnexpectedEOF"

section \<open>Mark\<close>

type_synonym mark_result = "nat \<times> cas_error list"

partial_function (option) Mark_from :: "GCConfig \<Rightarrow> string \<Rightarrow> nat \<Rightarrow> gc_world \<Rightarrow> (mark_result \<times> gc_world) option" where
  [code]: "Mark_from cfg t n g =
     (if gwCancelled g (gw_tick g) then Some ((n, [ErrCanceled]), g)
      else if gcDryRun cfg then
        (case gc_stmt (\<lambda>now locked db. (listUnreferencedChunks t (gcBatchSize cfg) db, db)) g of
           (Inl e, g1) \<Rightarrow> Some ((n, [ErrWrapped ''listing unreferenced chunks'' e]), g1)
         | (Inr chunks, g1) \<Rightarrow> Some ((n + length chunks, []), g1))
      else
        (case gc_stmt (\<lambda>now locked db. markUnreferencedChunks locked now t (gcGracePeriod cfg) (gcBatchSize cfg) db) g of
           (Inl e, g1) \<Rightarrow> Some ((n, [ErrWrapped ''marking unreferenced chunks'' e]), g1)
         | (Inr marked, g1) \<Rightarrow>
             if int (length marked) < gcBatchSize cfg then Some ((n + length marked, []), g1)
             else Mark_from cfg t (n + length marked) g1))"

definition Mark :: "GCConfig \<Rightarrow> string \<Rightarrow> gc_world \<Rightarrow> (mark_result \<times> gc_world) option" where
  "Mark cfg t = Mark_from cfg t 0"

section \<open>Sweep\<close>

record sweep_acc =
  saDeleted :: nat
  saBytes :: int
  saBlobErrs :: "cas_error list"

text \<open>The loop over one batch; \<open>Some e\<close> is the early return with the error \<open>e\<close>.\<close>

fun sweep_batch :: "GCConfig \<Rightarrow> string \<Rightarrow> Chunk list \<Rightarrow> sweep_acc \<Rightarrow> gc_world \<Rightarrow>
    cas_error option \<times> sweep_acc \<times> gc_world" where
  "sweep_batch cfg t [] a g = (None, a, g)"
| "sweep_batch cfg t (c # cs) a g =
     (if gcDryRun cfg
      then sweep_batch cfg t cs (a\<lparr>saDeleted := saDeleted a + 1, saBytes := saBytes a + chSize c\<rparr>) g
      else
        (case gc_stmt (\<lambda>now locked db. deleteChunkIfUnreferenced now t (chHash c) (gcGracePeriod cfg) db) g of
           (Inl e, g1) \<Rightarrow> (Some (ErrWrapped ''deleting chunk from database'' e), a, g1)
         | (Inr deleted, g1) \<Rightarrow>
             if \<not> deleted then sweep_batch cfg t cs a g1
             else
               (case gc_blob (DeleteChunk t (chHash c)) g1 of
                  (r, g2) \<Rightarrow>
                    sweep_batch cfg t cs
                      (a\<lparr>saBlobErrs := (case r of
                             Inl e \<Rightarrow> saBlobErrs a @ [ErrWrapped ''deleting blob for chunk'' e]
                           | Inr _ \<Rightarrow> saBlobErrs a),
                         saDeleted := saDeleted a + 1, saBytes := saBytes a + chSize c\<rparr>) g2)))"

type_synonym sweep_result = "nat \<times> int \<times> cas_error list"

partial_function (option) Sweep_from :: "GCConfig \<Rightarrow> string \<Rightarrow> sweep_acc \<Rightarrow> gc_world \<Rightarrow> (sweep_result \<times> gc_world) option" where
  [code]: "Sweep_from cfg t a g =
     (if gwCancelled g (gw_tick g) then Some ((saDeleted a, saBytes a, [ErrCanceled]), g)
      else
        (case gc_stmt (\<lambda>now locked db. (listSweepableChunks now t (gcGracePeriod cfg) (gcBatchSize cfg) db, db)) g of
           (Inl e, g1) \<Rightarrow> Some ((saDeleted a, saBytes a, [ErrWrapped ''listing sweepable chunks'' e]), g1)
         | (Inr chunks, g1) \<Rightarrow>
             if chunks = [] then Some ((saDeleted a, saBytes a, saBlobErrs a), g1)
             else
               (case sweep_batch cfg t chunks a g1 of
                  (Some e, a1, g2) \<Rightarrow> Some ((saDeleted a1, saBytes a1, [e]), g2)
                | (None, a1, g2) \<Rightarrow>
                    if int (length chunks) < gcBatchSize cfg
                    then Some ((saDeleted a1, saBytes a1, saBlobErrs a1), g2)
                    else Sweep_from cfg t a1 g2)))"

definition GC_Sweep :: "GCConfig \<Rightarrow> string \<Rightarrow> gc_world \<Rightarrow> (sweep_result \<times> gc_world) option" where
  "GC_Sweep cfg t = Sweep_from cfg t \<lparr>saDeleted = 0, saBytes = 0, saBlobErrs = []\<rparr>"

section \<open>The cycle\<close>

record GCResult =
  grMarked :: nat
  grDeleted :: nat
  grBytes :: int
  grErrors :: "cas_error list"

text \<open>The boolean is the error result: both phases failed.\<close>

definition RunGC :: "GCConfig \<Rightarrow> string \<Rightarrow> gc_world \<Rightarrow> ((GCResult \<times> bool) \<times> gc_world) option" where
  "RunGC cfg t g =
     (case Mark cfg t g of
        None \<Rightarrow> None
      | Some ((marked, e1), g1) \<Rightarrow>
          (case GC_Sweep cfg t g1 of
             None \<Rightarrow> None
           | Some ((deleted, bytes, e2), g2) \<Rightarrow>
               let errs = (if e1 = [] then [] else [ErrWrapped ''mark phase'' (hd e1)]) @
                          (if e2 = [] then [] else [ErrWrapped ''sweep phase'' (hd e2)])
               in Some ((\<lparr>grMarked = marked, grDeleted = deleted, grBytes = bytes, grErrors = errs\<rparr>,
                         length errs = 2), g2)))"

definition Resurrect :: "string \<Rightarrow> string \<Rightarrow> gc_world \<Rightarrow> (gerr + unit) \<times> gc_world" where
  "Resurrect t h g =
     (case clearChunkDeleted t h (gwDb g) of
        Inl e \<Rightarrow> (Inl e, g)
      | Inr db \<Rightarrow> (Inr (), g\<lparr>gwDb := db\<rparr>))"

definition ResurrectIfNeeded :: "string \<Rightarrow> string \<Rightarrow> gc_world \<Rightarrow> (gerr + bool) \<times> gc_world" where
  "ResurrectIfNeeded t h g =
     (case getChunk t h (gwDb g) of
        Inl _ \<Rightarrow> (Inr False, g)
      | Inr c \<Rightarrow>
          if chDeletedAt c = None then (Inr False, g)
          else (case clearChunkDeleted t h (gwDb g) of
                  Inl e \<Rightarrow> (Inl e, g)
                | Inr db \<Rightarrow> (Inr True, g\<lparr>gwDb := db\<rparr>)))"

section \<open>The job\<close>

text \<open>\<^verbatim>\<open>NewChunkGCJob\<close> turns the wildcard into the empty tenant, which stands for all of them.\<close>

definition NewChunkGCJob_tenant :: "string \<Rightarrow> string" where
  "NewChunkGCJob_tenant t = (if t = ''*'' then '''' else t)"

definition tenantsToCollect :: "string \<Rightarrow> bool \<Rightarrow> gc_world \<Rightarrow> (cas_error + string list) \<times> gc_world" where
  "tenantsToCollect tenantID lister g =
     (if tenantID \<noteq> '''' then (Inr [tenantID], g)
      else if \<not> lister then (Inl (ErrWrapped ''collecting all tenants requires a TenantLister'' ErrUnexpectedEOF), g)
      else gc_stmt (\<lambda>now locked db. (listChunkTenants db, db)) g)"

fun job_loop :: "GCConfig \<Rightarrow> string list \<Rightarrow> GCResult \<Rightarrow> gc_world \<Rightarrow> ((GCResult \<times> cas_error option) \<times> gc_world) option" where
  "job_loop cfg [] tot g = Some ((tot, None), g)"
| "job_loop cfg (t # ts) tot g =
     (if gwCancelled g (gw_tick g) then Some ((tot, Some ErrCanceled), g)
      else
        (case RunGC cfg t g of
           None \<Rightarrow> None
         | Some ((r, failed), g1) \<Rightarrow>
             if failed then
               job_loop cfg ts (tot\<lparr>grErrors := grErrors tot @ [ErrWrapped ''tenant'' (hd (grErrors r))]\<rparr>) g1
             else
               job_loop cfg ts
                 \<lparr>grMarked = grMarked tot + grMarked r, grDeleted = grDeleted tot + grDeleted r,
                  grBytes = grBytes tot + grBytes r, grErrors = grErrors tot @ grErrors r\<rparr> g1))"

definition job_runGC :: "GCConfig \<Rightarrow> string \<Rightarrow> bool \<Rightarrow> gc_world \<Rightarrow>
    ((GCResult option \<times> cas_error list) \<times> gc_world) option" where
  "job_runGC cfg tenantID lister g =
     (case tenantsToCollect tenantID lister g of
        (Inl e, g1) \<Rightarrow> Some ((None, [e]), g1)
      | (Inr tenants, g1) \<Rightarrow>
          (case job_loop cfg tenants \<lparr>grMarked = 0, grDeleted = 0, grBytes = 0, grErrors = []\<rparr> g1 of
             None \<Rightarrow> None
           | Some ((tot, Some e), g2) \<Rightarrow> Some ((Some tot, [e]), g2)
           | Some ((tot, None), g2) \<Rightarrow> Some ((Some tot, grErrors tot), g2)))"

end
