(* ===== verification/Cas_GC_Laws.thy ===== *)
theory Cas_GC_Laws
  imports Cas_GC
begin

text \<open>
  Mark and sweep end and do what they say; a dry run may not end; and a sweep that is overtaken by
  a commit leaves a manifest whose chunk is gone.
\<close>

section \<open>Statements\<close>

lemma gc_stmt_Inr:
  "gc_stmt f g = (Inr x, g1) \<Longrightarrow>
     \<exists>db. f (gwNow g (gw_tick g)) (gwLocked g (gw_tick g)) (gwDb g) = (x, db) \<and>
       g1 = g\<lparr>gwCas := (gwCas g)\<lparr>cw_tick := Suc (gw_tick g)\<rparr>, gwDb := db\<rparr>"
  by (auto simp: gc_stmt_def gw_next_def split: option.splits prod.splits)

lemma gc_stmt_Inl: "gc_stmt f g = (Inl e, g1) \<Longrightarrow> g1 = gw_next g"
  by (auto simp: gc_stmt_def split: option.splits prod.splits)

lemma gw_next_simps [simp]:
  "gwDb (gw_next g) = gwDb g" "gwNow (gw_next g) = gwNow g" "gwLocked (gw_next g) = gwLocked g"
  "gwCancelled (gw_next g) = gwCancelled g" "cw_blobs (gwCas (gw_next g)) = cw_blobs (gwCas g)"
  "gw_tick (gw_next g) = Suc (gw_tick g)" "cw_env (gwCas (gw_next g)) = cw_env (gwCas g)"
  by (simp_all add: gw_next_def)

section \<open>Mark\<close>

definition unmarked :: "string \<Rightarrow> Chunk \<Rightarrow> bool" where
  "unmarked t c \<longleftrightarrow> chTenantID c = t \<and> chRefCount c = 0 \<and> chDeletedAt c = None"

definition unmarked_count :: "string \<Rightarrow> chunk_db \<Rightarrow> nat" where
  "unmarked_count t db = length (filter (unmarked t) (cdChunks db))"

lemma filter_mark_count:
  assumes "\<And>c. P c \<Longrightarrow> U c \<and> \<not> U (f c)"
  shows "length (filter P xs) + length (filter U (map (\<lambda>c. if P c then f c else c) xs)) = length (filter U xs)"
  using assms by (induction xs) auto

lemma mark_decreases:
  assumes "markUnreferencedChunks locked now t age lim db = (marked, db')"
  shows "length marked + unmarked_count t db' = unmarked_count t db"
proof -
  let ?hs = "map chHash (mark_candidates locked now t age lim db)"
  let ?hit = "\<lambda>c. chTenantID c = t \<and> chHash c \<in> set ?hs \<and> chRefCount c = 0 \<and> chDeletedAt c = None"
  let ?f = "\<lambda>c. c\<lparr>chDeletedAt := Some now\<rparr>"
  have "length (filter ?hit (cdChunks db)) + length (filter (unmarked t) (map (\<lambda>c. if ?hit c then ?f c else c) (cdChunks db))) =
      length (filter (unmarked t) (cdChunks db))"
    by (rule filter_mark_count) (auto simp: unmarked_def)
  with assms show ?thesis
    by (auto simp: markUnreferencedChunks_def Let_def unmarked_count_def map_chunks_def)
qed

definition due :: "int \<Rightarrow> string \<Rightarrow> int \<Rightarrow> Chunk \<Rightarrow> bool" where
  "due now t age c \<longleftrightarrow> unmarked t c \<and> chCreatedAt c \<le> now - age"

text \<open>A batch that is not full marked everything that was due.\<close>

lemma mark_short_batch:
  assumes m: "markUnreferencedChunks locked now t age lim db = (marked, db')" and "keys_distinct db"
    and "\<And>h. \<not> locked h" and "1 \<le> lim" and "int (length marked) < lim"
  shows "\<forall>c\<in>set (cdChunks db'). \<not> due now t age c"
proof -
  let ?M = "filter (due now t age) (cdChunks db)"
  let ?cand = "take (nat lim) (sort_key chCreatedAt ?M)"
  have cand: "mark_candidates locked now t age lim db = ?cand"
  proof -
    have "filter (\<lambda>c. chTenantID c = t \<and> chRefCount c = 0 \<and> chDeletedAt c = None \<and>
        chCreatedAt c \<le> now - age \<and> \<not> locked (chHash c)) (cdChunks db) = ?M"
      using assms(3) by (intro filter_cong) (auto simp: due_def unmarked_def)
    with assms(4) show ?thesis by (simp add: mark_candidates_def default_limit_def)
  qed
  let ?hit = "\<lambda>c. chTenantID c = t \<and> chHash c \<in> set (map chHash ?cand) \<and> chRefCount c = 0 \<and> chDeletedAt c = None"
  have marked: "length marked = length (filter ?hit (cdChunks db))"
      and db': "cdChunks db' = map (\<lambda>c. if ?hit c then c\<lparr>chDeletedAt := Some now\<rparr> else c) (cdChunks db)"
    using m unfolding markUnreferencedChunks_def cand by (auto simp: Let_def map_chunks_def)
  have dist: "distinct (cdChunks db)" using assms(2) by (auto simp: keys_distinct_def distinct_map)
  have "distinct ?cand" using dist by (simp add: distinct_take)
  then have "length ?cand = card (set ?cand)" by (simp add: distinct_card)
  also have "set ?cand \<subseteq> set (filter ?hit (cdChunks db))"
  proof
    fix c assume c: "c \<in> set ?cand"
    then have "c \<in> set ?M" by (auto dest!: in_set_takeD)
    moreover have "chHash c \<in> set (map chHash ?cand)" using c unfolding set_map by (rule imageI)
    ultimately show "c \<in> set (filter ?hit (cdChunks db))" by (auto simp: due_def unmarked_def simp del: set_map)
  qed
  then have "card (set ?cand) \<le> card (set (filter ?hit (cdChunks db)))" by (intro card_mono) auto
  also have "\<dots> = length marked" by (simp only: marked distinct_card[OF distinct_filter[OF dist]])
  finally have "length ?cand < nat lim" using assms(4,5) by linarith
  then have "length ?M \<le> nat lim" by auto
  then have "set ?cand = set ?M" by simp
  then have hashed: "chHash c \<in> set (map chHash ?cand)" if "c \<in> set ?M" for c
    using that unfolding set_map by (metis imageI)
  have hit: "?hit c" if "c \<in> set (cdChunks db)" "due now t age c" for c
  proof -
    have "chHash c \<in> set (map chHash ?cand)" using that by (intro hashed) simp
    with that(2) show ?thesis by (simp add: due_def unmarked_def del: set_map)
  qed
  show ?thesis
  proof
    fix c' assume "c' \<in> set (cdChunks db')"
    then obtain c where c: "c \<in> set (cdChunks db)" "c' = (if ?hit c then c\<lparr>chDeletedAt := Some now\<rparr> else c)"
      unfolding db' by (simp only: set_map) blast
    show "\<not> due now t age c'"
    proof (cases "?hit c")
      case True
      have "c' = c\<lparr>chDeletedAt := Some now\<rparr>" unfolding c(2) by (rule if_P[OF True])
      then show ?thesis by (simp add: due_def unmarked_def)
    next
      case False
      have "c' = c" unfolding c(2) by (rule if_not_P[OF False])
      with False hit[OF c(1)] show ?thesis by blast
    qed
  qed
qed

lemma Mark_from_ends:
  assumes "1 \<le> gcBatchSize cfg" and "\<not> gcDryRun cfg" and "keys_distinct (gwDb g)"
    and "\<And>i h. \<not> gwLocked g i h" and "\<And>i j. i \<le> j \<Longrightarrow> gwNow g i \<le> gwNow g j" and "now = gwNow g (gw_tick g)"
  shows "\<exists>n' errs g'. Mark_from cfg t n g = Some ((n', errs), g') \<and> counts_kept (gwDb g) (gwDb g') \<and>
     (errs = [] \<longrightarrow> (\<forall>c\<in>set (cdChunks (gwDb g')). \<not> due now t (gcGracePeriod cfg) c))"
  using assms(3-)
proof (induction "unmarked_count t (gwDb g)" arbitrary: n g now rule: less_induct)
  case less
  let ?f = "\<lambda>now locked db. markUnreferencedChunks locked now t (gcGracePeriod cfg) (gcBatchSize cfg) db"
  have krefl: "counts_kept db db" for db by (simp add: counts_kept_def)
  show ?case
  proof (cases "gwCancelled g (gw_tick g)")
    case True
    then show ?thesis by (subst Mark_from.simps) (auto simp: krefl)
  next
    case live: False
    obtain r g1 where st: "gc_stmt ?f g = (r, g1)" by (cases "gc_stmt ?f g")
    show ?thesis
    proof (cases r)
      case (Inl e)
      with gc_stmt_Inl[of ?f g e g1] live st assms(2) show ?thesis
        by (subst Mark_from.simps) (auto simp: krefl)
    next
      case (Inr marked)
      from gc_stmt_Inr[of ?f g marked g1] st Inr obtain db where
        db: "?f (gwNow g (gw_tick g)) (gwLocked g (gw_tick g)) (gwDb g) = (marked, db)"
        and g1: "g1 = g\<lparr>gwCas := (gwCas g)\<lparr>cw_tick := Suc (gw_tick g)\<rparr>, gwDb := db\<rparr>" by auto
      have kept: "counts_kept (gwDb g) (gwDb g1)"
        using counts_kept_mark[of "gwDb g" "gwLocked g (gw_tick g)" "gwNow g (gw_tick g)" t "gcGracePeriod cfg" "gcBatchSize cfg"] db g1
        by simp
      show ?thesis
      proof (cases "int (length marked) < gcBatchSize cfg")
        case True
        have "\<forall>c\<in>set (cdChunks db). \<not> due now t (gcGracePeriod cfg) c"
          using mark_short_batch[OF db] less.prems assms(1) True by auto
        with True kept live st Inr assms(2) g1 show ?thesis by (subst Mark_from.simps) auto
      next
        case False
        have fewer: "unmarked_count t (gwDb g1) < unmarked_count t (gwDb g)"
          using mark_decreases[OF db] False assms(1) g1 by auto
        have mono: "gwNow g (gw_tick g) \<le> gwNow g1 (gw_tick g1)" using less.prems(3)[of "gw_tick g" "Suc (gw_tick g)"] g1 by simp
        have d: "due now t a c \<Longrightarrow> due (gwNow g1 (gw_tick g1)) t a c" for a c
          using mono less.prems(4) by (auto simp: due_def)
        have k1: "keys_distinct (gwDb g1)" using kept less.prems(1) by (simp add: counts_kept_def)
        from less.hyps[OF fewer k1 _ _ refl, of "n + length marked"] less.prems(2,3) g1
        obtain n' errs g' where r: "Mark_from cfg t (n + length marked) g1 = Some ((n', errs), g')"
            "counts_kept (gwDb g1) (gwDb g')"
            "errs = [] \<longrightarrow> (\<forall>c\<in>set (cdChunks (gwDb g')). \<not> due (gwNow g1 (gw_tick g1)) t (gcGracePeriod cfg) c)"
          by auto
        have "Mark_from cfg t n g = Mark_from cfg t (n + length marked) g1"
          using live st Inr assms(2) False by (subst Mark_from.simps) simp
        moreover have "counts_kept (gwDb g) (gwDb g')" using kept r(2) by (auto simp: counts_kept_def)
        ultimately show ?thesis using r d by auto
      qed
    qed
  qed
qed

lemma NewGC_batch [simp]: "1 \<le> gcBatchSize (NewGC cfg)" "gcDryRun (NewGC cfg) = gcDryRun cfg"
  by (auto simp: NewGC_def DefaultBatchSize_def)

text \<open>
  The mark phase ends and is complete. For every configuration \<^verbatim>\<open>NewGC\<close> accepts, \<^verbatim>\<open>Mark\<close> returns,
  changes no reference count, and if it reports no error every unreferenced chunk of the tenant
  that was old enough when it started is marked (no other transaction holding rows, clock not
  running backwards).
\<close>

theorem mark_ends_and_is_complete:
  assumes "\<not> gcDryRun cfg" and "keys_distinct (gwDb g)" and "\<forall>i h. \<not> gwLocked g i h"
    and "\<forall>i j. i \<le> j \<longrightarrow> gwNow g i \<le> gwNow g j"
  shows "\<exists>n errs g'. Mark (NewGC cfg) t g = Some ((n, errs), g') \<and>
     (\<forall>t h. ref_count (gwDb g') t h = ref_count (gwDb g) t h) \<and>
     (errs = [] \<longrightarrow> (\<forall>c\<in>set (cdChunks (gwDb g')). chTenantID c = t \<and> chRefCount c = 0 \<and>
        chCreatedAt c \<le> gwNow g (gw_tick g) - gcGracePeriod (NewGC cfg) \<longrightarrow> chDeletedAt c \<noteq> None))"
proof -
  from Mark_from_ends[of "NewGC cfg" g "gwNow g (gw_tick g)" t 0] assms obtain n errs g' where
    r: "Mark_from (NewGC cfg) t 0 g = Some ((n, errs), g')" "counts_kept (gwDb g) (gwDb g')"
      "errs = [] \<longrightarrow> (\<forall>c\<in>set (cdChunks (gwDb g')). \<not> due (gwNow g (gw_tick g)) t (gcGracePeriod (NewGC cfg)) c)"
    by auto
  with assms(2) show ?thesis
    by (auto simp: Mark_def counts_kept_def due_def unmarked_def)
qed

section \<open>Sweep\<close>

text \<open>
  What a sweep preserves: references, the rows that are not due and their blobs. \<open>now\<close> bounds the
  clock readings so far.
\<close>

definition spared :: "string \<Rightarrow> gc_world \<Rightarrow> gc_world \<Rightarrow> bool" where
  "spared t g g' \<longleftrightarrow> counts_kept (gwDb g) (gwDb g') \<and> set (cdChunks (gwDb g')) \<subseteq> set (cdChunks (gwDb g)) \<and>
     length (cdChunks (gwDb g')) \<le> length (cdChunks (gwDb g)) \<and>
     gwNow g' = gwNow g \<and> gw_tick g \<le> gw_tick g' \<and> cw_env (gwCas g') = cw_env (gwCas g) \<and>
     (\<forall>c\<in>set (cdChunks (gwDb g)). chRefCount c \<noteq> 0 \<longrightarrow> c \<in> set (cdChunks (gwDb g'))) \<and>
     (keys_distinct (gwDb g) \<longrightarrow> (\<forall>h. ref_count (gwDb g) t h \<noteq> 0 \<longrightarrow>
        cw_blobs (gwCas g') (chunkKey t h) = cw_blobs (gwCas g) (chunkKey t h)))"

lemma spared_refl [simp]: "spared t g g"
  by (simp add: spared_def counts_kept_def)

lemma spared_next [simp]: "spared t g (gw_next g)"
  by (simp add: spared_def counts_kept_def)

lemma counts_kept_trans: "counts_kept a b \<Longrightarrow> counts_kept b c \<Longrightarrow> counts_kept a c"
  by (simp add: counts_kept_def)

lemma spared_trans:
  assumes ab: "spared t g g'" and bc: "spared t g' g''"
  shows "spared t g g''"
proof -
  have k: "counts_kept (gwDb g) (gwDb g')" "counts_kept (gwDb g') (gwDb g'')"
    using ab bc by (simp_all add: spared_def)
  have "set (cdChunks (gwDb g'')) \<subseteq> set (cdChunks (gwDb g))" using ab bc unfolding spared_def by blast
  moreover have "c \<in> set (cdChunks (gwDb g''))" if "c \<in> set (cdChunks (gwDb g))" "chRefCount c \<noteq> 0" for c
    using ab bc that unfolding spared_def by blast
  moreover have "cw_blobs (gwCas g'') (chunkKey t h) = cw_blobs (gwCas g) (chunkKey t h)"
    if "keys_distinct (gwDb g)" "ref_count (gwDb g) t h \<noteq> 0" for h
  proof -
    have "keys_distinct (gwDb g')" "ref_count (gwDb g') t h \<noteq> 0"
      using k(1) that by (simp_all add: counts_kept_def)
    with that ab bc show ?thesis by (simp add: spared_def)
  qed
  ultimately show ?thesis
    using counts_kept_trans[OF k] ab bc by (simp add: spared_def)
qed

lemma delete_row_spared:
  assumes "gc_stmt (\<lambda>now locked db. deleteChunkIfUnreferenced now t h age db) g = (Inr deleted, g1)"
  shows "spared t g g1" and "keys_distinct (gwDb g) \<Longrightarrow> deleted \<Longrightarrow> ref_count (gwDb g) t h = 0"
    and "deleted \<Longrightarrow> length (cdChunks (gwDb g1)) < length (cdChunks (gwDb g))"
    and "(\<exists>c\<in>set (cdChunks (gwDb g)). chHash c = h \<and> sweepable (gwNow g (gw_tick g)) t age c) \<Longrightarrow> deleted"
proof -
  from gc_stmt_Inr[OF assms] have d: "deleted \<longleftrightarrow> (\<exists>c\<in>set (cdChunks (gwDb g)). chHash c = h \<and> sweepable (gwNow g (gw_tick g)) t age c)"
    and g1: "g1 = g\<lparr>gwCas := (gwCas g)\<lparr>cw_tick := Suc (gw_tick g)\<rparr>,
        gwDb := snd (deleteChunkIfUnreferenced (gwNow g (gw_tick g)) t h age (gwDb g))\<rparr>"
    by (auto simp: deleteChunkIfUnreferenced_def Let_def)
  have rows: "cdChunks (gwDb g1) = filter (\<lambda>c. \<not> (chHash c = h \<and> sweepable (gwNow g (gw_tick g)) t age c)) (cdChunks (gwDb g))"
    by (simp add: g1 deleteChunkIfUnreferenced_def Let_def)
  show "spared t g g1"
    using counts_kept_delete[of "gwDb g" "gwNow g (gw_tick g)" t h age] rows
    by (auto simp: spared_def g1 sweepable_def)
  show "ref_count (gwDb g) t h = 0" if k: "keys_distinct (gwDb g)" and del: deleted
  proof -
    from d del obtain c where "c \<in> set (cdChunks (gwDb g))" "chHash c = h" "chTenantID c = t" "chRefCount c = 0"
      by (auto simp: sweepable_def)
    with ref_count_row[OF k] show ?thesis by force
  qed
  show "length (cdChunks (gwDb g1)) < length (cdChunks (gwDb g))" if deleted
    unfolding rows using that d by (auto intro: length_filter_less)
  show "deleted" if "\<exists>c\<in>set (cdChunks (gwDb g)). chHash c = h \<and> sweepable (gwNow g (gw_tick g)) t age c"
    using that d by simp
qed

lemma delete_blob_spared:
  assumes "gc_blob (DeleteChunk t h) g = (r, g')" and "ref_count (gwDb g) t h = 0 \<or> \<not> keys_distinct (gwDb g)"
  shows "spared t g g'" and "gwDb g' = gwDb g"
  using assms
  by (auto simp: gc_blob_def DeleteChunk_def storage_Delete_def Let_def spared_def counts_kept_def
      split: option.splits if_splits)

lemma sweep_batch_spared:
  "sweep_batch cfg t cs a g = (r, a', g') \<Longrightarrow> spared t g g'"
proof (induction cfg t cs a g arbitrary: r a' g' rule: sweep_batch.induct)
  case (2 cfg t c cs a g)
  let ?f = "\<lambda>now locked db. deleteChunkIfUnreferenced now t (chHash c) (gcGracePeriod cfg) db"
  show ?case
  proof (cases "gcDryRun cfg")
    case True
    with 2 show ?thesis by simp
  next
    case wet: False
    obtain x g1 where st: "gc_stmt ?f g = (x, g1)" by (cases "gc_stmt ?f g")
    show ?thesis
    proof (cases x)
      case (Inl e)
      with 2(4) wet st gc_stmt_Inl[of ?f g e g1] show ?thesis by auto
    next
      case (Inr deleted)
      note del = delete_row_spared[OF st[unfolded Inr]]
      show ?thesis
      proof (cases deleted)
        case False
        with 2(2)[OF wet st[symmetric] Inr False] 2(4) wet st Inr del(1) show ?thesis
          by (auto intro: spared_trans)
      next
        case True
        obtain y g2 where bl: "gc_blob (DeleteChunk t (chHash c)) g1 = (y, g2)"
          by (cases "gc_blob (DeleteChunk t (chHash c)) g1")
        have z: "ref_count (gwDb g1) t (chHash c) = 0" if "keys_distinct (gwDb g)"
          using del(1) del(2)[OF that True] that by (simp add: spared_def counts_kept_def)
        have "keys_distinct (gwDb g1)" if "keys_distinct (gwDb g)"
          using del(1) that by (simp add: spared_def counts_kept_def)
        from 2(3)[OF wet st[symmetric] Inr _ bl[symmetric]] 2(4) wet st Inr True bl
        have rest: "spared t g2 g'" by auto
        show ?thesis
        proof (cases "keys_distinct (gwDb g)")
          case True
          with z delete_blob_spared(1)[OF bl] del(1) rest show ?thesis by (blast intro: spared_trans)
        next
          case False
          have "spared t g g2"
            using bl del(1) False
            by (auto simp: gc_blob_def DeleteChunk_def storage_Delete_def Let_def spared_def counts_kept_def
                split: option.splits if_splits)
          with rest show ?thesis by (blast intro: spared_trans)
        qed
      qed
    qed
  qed
qed simp

text \<open>A batch that runs to its end deletes its first chunk, if that is still there.\<close>

lemma sweep_batch_progress:
  assumes "\<not> gcDryRun cfg" and "sweep_batch cfg t (c # cs) a g = (None, a', g')"
    and "c \<in> set (cdChunks (gwDb g))" and "sweepable (gwNow g (gw_tick g)) t (gcGracePeriod cfg) c"
  shows "length (cdChunks (gwDb g')) < length (cdChunks (gwDb g))"
proof -
  let ?f = "\<lambda>now locked db. deleteChunkIfUnreferenced now t (chHash c) (gcGracePeriod cfg) db"
  obtain x g1 where st: "gc_stmt ?f g = (x, g1)" by (cases "gc_stmt ?f g")
  with assms(1,2) obtain deleted where x: "x = Inr deleted" by (cases x) auto
  note del = delete_row_spared[OF st[unfolded x]]
  have deleted using del(4) assms(3,4) by blast
  obtain y g2 where bl: "gc_blob (DeleteChunk t (chHash c)) g1 = (y, g2)"
    by (cases "gc_blob (DeleteChunk t (chHash c)) g1")
  have db2: "gwDb g2 = gwDb g1" using bl by (auto simp: gc_blob_def split: prod.splits)
  from assms(1,2) st x \<open>deleted\<close> bl obtain b where "sweep_batch cfg t cs b g2 = (None, a', g')" by auto
  from sweep_batch_spared[OF this] have "length (cdChunks (gwDb g')) \<le> length (cdChunks (gwDb g2))"
    by (simp add: spared_def)
  with del(3) \<open>deleted\<close> db2 show ?thesis by simp
qed

lemma sweepable_mono: "now \<le> now' \<Longrightarrow> sweepable now t age c \<Longrightarrow> sweepable now' t age c"
  by (auto simp: sweepable_def split: option.splits)

lemma listSweepable_in:
  "c \<in> set (listSweepableChunks now t age lim db) \<Longrightarrow> c \<in> set (cdChunks db) \<and> sweepable now t age c"
  by (auto simp: listSweepableChunks_def dest!: in_set_takeD)

lemma Sweep_from_ends:
  assumes "\<not> gcDryRun cfg" and "\<And>i j. i \<le> j \<Longrightarrow> gwNow g i \<le> gwNow g j"
  shows "\<exists>r g'. Sweep_from cfg t a g = Some (r, g') \<and> spared t g g'"
  using assms(2)
proof (induction "length (cdChunks (gwDb g))" arbitrary: a g rule: less_induct)
  case less
  let ?f = "\<lambda>now locked db. (listSweepableChunks now t (gcGracePeriod cfg) (gcBatchSize cfg) db, db)"
  obtain x g1 where st: "gc_stmt ?f g = (x, g1)" by (cases "gc_stmt ?f g")
  show ?case
  proof (cases "gwCancelled g (gw_tick g)")
    case True
    then show ?thesis by (subst Sweep_from.simps) simp
  next
    case live: False
    show ?thesis
    proof (cases x)
      case (Inl e)
      with gc_stmt_Inl[of ?f g e g1] st live show ?thesis by (subst Sweep_from.simps) simp
    next
      case (Inr chunks)
      from gc_stmt_Inr[of ?f g chunks g1] st Inr have
        ch: "chunks = listSweepableChunks (gwNow g (gw_tick g)) t (gcGracePeriod cfg) (gcBatchSize cfg) (gwDb g)"
        and g1: "g1 = gw_next g" by (auto simp: gw_next_def)
      show ?thesis
      proof (cases chunks)
        case Nil
        with live st Inr g1 show ?thesis by (subst Sweep_from.simps) simp
      next
        case (Cons c cs)
        obtain e a1 g2 where b: "sweep_batch cfg t (c # cs) a g1 = (e, a1, g2)" by (metis prod_cases3)
        have sp: "spared t g g2" using sweep_batch_spared[OF b] g1 spared_next spared_trans by blast
        show ?thesis
        proof (cases "e = None \<and> \<not> int (length chunks) < gcBatchSize cfg")
          case False
          with live st Inr Cons b sp show ?thesis by (cases e; subst Sweep_from.simps) auto
        next
          case True
          have "c \<in> set chunks" using Cons by simp
          then have "c \<in> set (cdChunks (gwDb g)) \<and> sweepable (gwNow g (gw_tick g)) t (gcGracePeriod cfg) c"
            unfolding ch by (rule listSweepable_in)
          then have c: "c \<in> set (cdChunks (gwDb g1))" "sweepable (gwNow g1 (gw_tick g1)) t (gcGracePeriod cfg) c"
            using g1 sweepable_mono[OF less.prems[of "gw_tick g" "Suc (gw_tick g)"]] by auto
          have "length (cdChunks (gwDb g2)) < length (cdChunks (gwDb g))"
            using sweep_batch_progress[OF assms(1) _ c, of cs a a1 g2] b True g1 by simp
          from less.hyps[OF this, of a1] sp less.prems obtain r g' where
            "Sweep_from cfg t a1 g2 = Some (r, g')" "spared t g2 g'" by (auto simp: spared_def)
          moreover have "Sweep_from cfg t a g = Sweep_from cfg t a1 g2"
            using live st Inr Cons b True by (subst Sweep_from.simps) simp
          ultimately show ?thesis using spared_trans[OF sp] by metis
        qed
      qed
    qed
  qed
qed

text \<open>
  C18. The sweep phase ends and spares what is referenced. Outside a dry run (which need not end, see
  below), on a database whose clock does not go back and whose chunk rows have distinct keys,
  \<^verbatim>\<open>Sweep\<close> returns, whichever of its statements and deletions fail; when nothing else writes while
  it runs, a chunk with references keeps its row as it was and its blob, and no row is added.
\<close>

theorem sweep_ends_and_spares_references:
  assumes "\<not> gcDryRun cfg" and "keys_distinct (gwDb g)" and "\<forall>i j. i \<le> j \<longrightarrow> gwNow g i \<le> gwNow g j"
  shows "\<exists>r g'. GC_Sweep cfg t g = Some (r, g') \<and>
     set (cdChunks (gwDb g')) \<subseteq> set (cdChunks (gwDb g)) \<and>
     (\<forall>c\<in>set (cdChunks (gwDb g)). chRefCount c \<noteq> 0 \<longrightarrow> c \<in> set (cdChunks (gwDb g'))) \<and>
     (\<forall>c\<in>set (cdChunks (gwDb g)). chTenantID c = t \<and> chRefCount c \<noteq> 0 \<longrightarrow>
        cw_blobs (gwCas g') (chunkKey t (chHash c)) = cw_blobs (gwCas g) (chunkKey t (chHash c)))"
proof -
  from Sweep_from_ends[OF assms(1), of g t "\<lparr>saDeleted = 0, saBytes = 0, saBlobErrs = []\<rparr>"] assms(3)
  obtain r g' where r: "GC_Sweep cfg t g = Some (r, g')" "spared t g g'" by (auto simp: GC_Sweep_def)
  have "cw_blobs (gwCas g') (chunkKey t (chHash c)) = cw_blobs (gwCas g) (chunkKey t (chHash c))"
    if "c \<in> set (cdChunks (gwDb g))" "chTenantID c = t \<and> chRefCount c \<noteq> 0" for c
    using r(2) assms(2) ref_count_row[OF assms(2) that(1)] that(2) by (simp add: spared_def)
  with r show ?thesis unfolding spared_def by blast
qed

section \<open>A dry run need not end\<close>

lemma dry_batch: "gcDryRun cfg \<Longrightarrow> \<exists>a'. sweep_batch cfg t cs a g = (None, a', g)"
  by (induction cs arbitrary: a) auto

lemma Sweep_from_stuck:
  assumes "Sweep_from cfg t a g = Some y" and "gcDryRun cfg" and "1 \<le> gcBatchSize cfg"
    and "\<forall>i. \<not> gwCancelled g i" and "\<forall>i. ce_fault (cw_env (gwCas g)) i = None"
    and "\<forall>i j. i \<le> j \<longrightarrow> gwNow g i \<le> gwNow g j"
    and "gcBatchSize cfg \<le> int (length (filter (sweepable (gwNow g (gw_tick g)) t (gcGracePeriod cfg)) (cdChunks (gwDb g))))"
  shows False
proof -
  let ?P = "\<lambda>cfg t a g. gcDryRun cfg \<and> 1 \<le> gcBatchSize cfg \<and> (\<forall>i. \<not> gwCancelled g i) \<and>
    (\<forall>i. ce_fault (cw_env (gwCas g)) i = None) \<and> (\<forall>i j. i \<le> j \<longrightarrow> gwNow g i \<le> gwNow g j) \<and>
    gcBatchSize cfg \<le> int (length (filter (sweepable (gwNow g (gw_tick g)) t (gcGracePeriod cfg)) (cdChunks (gwDb g))))"
  have "\<not> ?P cfg t a g"
  proof (rule Sweep_from.raw_induct[OF _ assms(1), where P = "\<lambda>cfg t a g y. \<not> ?P cfg t a g"])
    fix f cfg t a g y
    assume IH: "\<And>cfg t a g y. f cfg t a g = Some y \<Longrightarrow> \<not> ?P cfg t a g"
      and run: "(if gwCancelled g (gw_tick g) then Some ((saDeleted a, saBytes a, [ErrCanceled]), g)
      else
        (case gc_stmt (\<lambda>now locked db. (listSweepableChunks now t (gcGracePeriod cfg) (gcBatchSize cfg) db, db)) g of
           (Inl e, g1) \<Rightarrow> Some ((saDeleted a, saBytes a, [ErrWrapped ''listing sweepable chunks'' e]), g1)
         | (Inr chunks, g1) \<Rightarrow>
             if chunks = [] then Some ((saDeleted a, saBytes a, saBlobErrs a), g1)
             else
               (case sweep_batch cfg t chunks a g1 of
                  (Some e, a1, g2) \<Rightarrow> Some ((saDeleted a1, saBytes a1, [e]), g2)
                | (None, a1, g2) \<Rightarrow>
                    if int (length chunks) < gcBatchSize cfg
                    then Some ((saDeleted a1, saBytes a1, saBlobErrs a1), g2)
                    else f cfg t a1 g2))) = Some y"
    show "\<not> ?P cfg t a g"
    proof
      assume P: "?P cfg t a g"
      let ?L = "filter (sweepable (gwNow g (gw_tick g)) t (gcGracePeriod cfg)) (cdChunks (gwDb g))"
      let ?chunks = "listSweepableChunks (gwNow g (gw_tick g)) t (gcGracePeriod cfg) (gcBatchSize cfg) (gwDb g)"
      have len: "int (length ?chunks) = gcBatchSize cfg"
        using P by (simp add: listSweepableChunks_def default_limit_def min_def) linarith
      then have ne: "?chunks \<noteq> []" using P by auto
      have st: "gc_stmt (\<lambda>now locked db. (listSweepableChunks now t (gcGracePeriod cfg) (gcBatchSize cfg) db, db)) g =
          (Inr ?chunks, gw_next g)"
        using P by (simp add: gc_stmt_def)
      obtain a1 where b: "sweep_batch cfg t ?chunks a (gw_next g) = (None, a1, gw_next g)"
        using dry_batch[of cfg t ?chunks a "gw_next g"] P by blast
      have "f cfg t a1 (gw_next g) = Some y" using run P st b ne len by simp
      moreover have "?P cfg t a1 (gw_next g)"
      proof -
        have "length ?L \<le> length (filter (sweepable (gwNow g (Suc (gw_tick g))) t (gcGracePeriod cfg)) (cdChunks (gwDb g)))"
          using P sweepable_mono[of "gwNow g (gw_tick g)" "gwNow g (Suc (gw_tick g))"]
          by (simp add: length_filter_conv_card card_mono Collect_mono)
        with P show ?thesis by auto
      qed
      ultimately show False using IH by blast
    qed
  qed
  with assms show False by blast
qed

text \<open>
  A dry run of the sweep need not end. A dry run deletes nothing, so the chunks it lists stay
  sweepable: as soon as there are as many of them as a batch holds, the loop lists the same batch
  forever, counting the same chunks again, until its context is cancelled.
\<close>

theorem dry_run_sweep_never_ends:
  assumes "gcDryRun cfg" and "\<forall>i. \<not> gwCancelled g i" and "\<forall>i. ce_fault (cw_env (gwCas g)) i = None"
    and "\<forall>i j. i \<le> j \<longrightarrow> gwNow g i \<le> gwNow g j"
    and "gcBatchSize (NewGC cfg) \<le>
      int (length (filter (sweepable (gwNow g (gw_tick g)) t (gcGracePeriod (NewGC cfg))) (cdChunks (gwDb g))))"
  shows "GC_Sweep (NewGC cfg) t g = None"
  using Sweep_from_stuck[of "NewGC cfg" t _ g] assms by (cases "GC_Sweep (NewGC cfg) t g") (auto simp: GC_Sweep_def)

section \<open>A sweep overtaken by a commit\<close>

lemma upload_present:
  assumes "cw_blobs w (chunkKey t h) \<noteq> None" and "\<forall>i. ce_fault (cw_env w) i = None"
  shows "run_state (upload_chunk t h data) w = (Inr None, w\<lparr>cw_tick := Suc (cw_tick w)\<rparr>)"
  using assms by (simp add: upload_chunk_def ChunkExists_def storage_Exists_def Let_def guard_ok_def map_err_def)

lemma delete_blob_nofault:
  assumes "\<forall>i. ce_fault (cw_env w) i = None"
  shows "run_state (DeleteChunk t h) w =
     (Inr (), w\<lparr>cw_tick := Suc (cw_tick w), cw_blobs := (cw_blobs w)(chunkKey t h := None)\<rparr>)"
  using assms by (simp add: DeleteChunk_def storage_Delete_def Let_def)

lemma get_missing:
  assumes "cw_blobs w (chunkKey t h) = None" and "\<forall>i. ce_fault (cw_env w) i = None"
  shows "fst (run_state (GetChunk t h) w) = Inl ErrChunkNotFound"
  using assms by (simp add: GetChunk_def storage_Download_def cas_tick_def Let_def)

text \<open>
  A sweep can take the blob of a committed chunk. Between the sweep's delete of the row and its
  delete of the blob, a sync that holds the same content finds the blob and uploads nothing, and
  its commit records the manifest with a fresh row that has one reference; the blob is then
  deleted. No step fails, and reading the committed chunk reports that it does not exist.
\<close>

theorem sweep_can_lose_committed_chunk:
  assumes "\<forall>i. ce_fault (cw_env (gwCas g)) i = None" and "keys_distinct (gwDb g)"
    and "\<exists>c\<in>set (cdChunks (gwDb g)). chHash c = h \<and> sweepable (gwNow g (gw_tick g)) t age c"
    and "cw_blobs (gwCas g) (chunkKey t h) \<noteq> None"
    and "gc_stmt (\<lambda>now locked db. deleteChunkIfUnreferenced now t h age db) g = (r1, g1)"
    and "gc_blob (upload_chunk t h data) g1 = (r2, g2)"
    and "mrTenantID m = t" and "CommitManifest now fresh (Some m) [Some (h, n)] (gwDb g2) = Inr db"
    and "gc_blob (DeleteChunk t h) (g2\<lparr>gwDb := db\<rparr>) = (r4, g4)"
  shows "r1 = Inr True \<and> r2 = Inr None \<and> r4 = Inr () \<and>
     (\<exists>x\<in>set (cdManifests (gwDb g4)). mrID x = row_id fresh m) \<and> ref_count (gwDb g4) t h = 1 \<and>
     fst (run_state (GetChunk t h) (gwCas g4)) = Inl ErrChunkNotFound"
proof -
  let ?f = "\<lambda>now (locked :: string \<Rightarrow> bool) db. deleteChunkIfUnreferenced now t h age db"
  have r1: "r1 = Inr True" and g1: "g1 = (gw_next g)\<lparr>gwDb := snd (deleteChunkIfUnreferenced (gwNow g (gw_tick g)) t h age (gwDb g))\<rparr>"
    using assms(1,3,5) by (auto simp: gc_stmt_def deleteChunkIfUnreferenced_def Let_def)
  have "ref_count (gwDb g) t h = 0" using delete_row_spared(2)[OF assms(5)[unfolded r1] assms(2)] by simp
  then have rc1: "ref_count (gwDb g1) t h = 0"
    using delete_row_spared(1)[OF assms(5)[unfolded r1]] assms(2) by (simp add: spared_def counts_kept_def)
  have w1: "cw_blobs (gwCas g1) (chunkKey t h) \<noteq> None" "\<forall>i. ce_fault (cw_env (gwCas g1)) i = None"
    using assms(1,4) g1 by auto
  have r2: "r2 = Inr None" and g2: "g2 = g1\<lparr>gwCas := (gwCas g1)\<lparr>cw_tick := Suc (gw_tick g1)\<rparr>\<rparr>"
    using assms(6) upload_present[OF w1, of data] by (auto simp: gc_blob_def)
  from assms(8) have h: "dedup_chunks [] [Some (h, n)] = Inr [(h, n)]"
    and db: "createManifest now fresh m (referenceChunks now t [(h, n)] (gwDb g2)) = Inr db"
    using assms(7) by (auto simp: CommitManifest_def split: if_splits)
  have "ref_count db t h = ref_count (referenceChunks now t [(h, n)] (gwDb g2)) t h"
      and m: "\<exists>x\<in>set (cdManifests db). mrID x = row_id fresh m"
    using db by (auto simp: createManifest_def row_id_def ref_count_def Let_def split: if_splits)
  then have rc: "ref_count db t h = 1"
    using referenceChunks_laws(3)[of "[(h, n)]" now t "gwDb g2" t h] rc1 g2 by simp
  have w2: "\<forall>i. ce_fault (cw_env (gwCas (g2\<lparr>gwDb := db\<rparr>))) i = None" using w1 g2 by simp
  have r4: "r4 = Inr ()" and g4: "gwDb g4 = db" "cw_blobs (gwCas g4) (chunkKey t h) = None"
      "\<forall>i. ce_fault (cw_env (gwCas g4)) i = None"
    using assms(9) delete_blob_nofault[OF w2, of t h] w2 by (auto simp: gc_blob_def)
  show ?thesis using r1 r2 r4 m rc g4 get_missing[OF g4(2,3)] by simp
qed

end
