(* ===== verification/Cas_Sample.thy ===== *)
theory Cas_Sample
  imports Cas_GC_Laws
begin

text \<open>
  A concrete environment and workspace for the content addressed storage: an encryptor that adds
  one byte, codecs for the entries and headers of one small tree, a splitter that never splits,
  a storage that answers.
\<close>

definition sample_data :: bytes where "sample_data = [7, 8]"

definition sample_HashData :: "bytes \<Rightarrow> string" where
  "sample_HashData d = (if d = sample_data then ''aa11'' else if d = [9] then ''bb22'' else ''zz'')"

definition sample_split :: "ChunkerConfig \<Rightarrow> bytes \<Rightarrow> bytes list" where
  "sample_split c d = (if d = [] then [] else [d])"

definition sample_tree :: "FileInfo list" where
  "sample_tree =
    [\<lparr>fiRel = ''src'', fiIsDir = True, fiMode = 493, fiModTime = 1, fiSize = 0, fiLink = '''', fiData = []\<rparr>,
     \<lparr>fiRel = ''src/a'', fiIsDir = False, fiMode = 420, fiModTime = 2, fiSize = 2, fiLink = '''', fiData = sample_data\<rparr>]"

definition dir_entry :: ManifestFile where
  "dir_entry = \<lparr>mfPath = ''src'', mfMode = 493, mfModTime = 1, mfSize = 0, mfChunks = [], mfChunkSizes = [],
     mfType = EntryDir, mfLink = ''''\<rparr>"

definition file_entry :: ManifestFile where
  "file_entry = \<lparr>mfPath = ''src/a'', mfMode = 420, mfModTime = 2, mfSize = 2, mfChunks = [''aa11''], mfChunkSizes = [2],
     mfType = EntryFile, mfLink = ''''\<rparr>"

text \<open>The tree of a second sync: one file more.\<close>

definition new_file :: FileInfo where
  "new_file = \<lparr>fiRel = ''src/b'', fiIsDir = False, fiMode = 420, fiModTime = 3, fiSize = 1, fiLink = [], fiData = [9]\<rparr>"

definition next_tree :: "FileInfo list" where "next_tree = sample_tree @ [new_file]"

definition new_entry :: ManifestFile where
  "new_entry = \<lparr>mfPath = ''src/b'', mfMode = 420, mfModTime = 3, mfSize = 1, mfChunks = [''bb22''], mfChunkSizes = [1],
     mfType = EntryFile, mfLink = []\<rparr>"

definition sample_manifest :: Manifest where
  "sample_manifest = \<lparr>mID = ''m-1'', mWorkspaceID = ''ws-1'', mParentID = None, mTenantID = ''t'', mCreatedAt = 5,
     mTotalSize = 0, mSingleChunk = False, mChunkHash = None, mChunkCount = 0, mOrdered = False,
     mFileCount = 0, mFiles = []\<rparr>"

definition sample_header :: ManifestHeader where
  "sample_header = \<lparr>hID = ''m-1'', hWorkspaceID = ''ws-1'', hParentID = '''', hTenantID = ''t'', hCreatedAt = 5,
     hTotalSize = 2, hChunkCount = 1, hSingleChunk = False, hChunkHash = '''', hOrdered = True, hFileCount = 2\<rparr>"

definition next_header :: ManifestHeader where
  "next_header = sample_header\<lparr>hTotalSize := 3, hChunkCount := 2, hFileCount := 3\<rparr>"

definition sample_MarshalFile :: "ManifestFile \<Rightarrow> cas_error + bytes" where
  "sample_MarshalFile f =
     (if f = dir_entry then Inr [100] else if f = file_entry then Inr [102]
      else if f = new_entry then Inr [103] else Inl ErrUnexpectedEOF)"

definition sample_UnmarshalFile :: "bytes \<Rightarrow> cas_error + ManifestFile" where
  "sample_UnmarshalFile l =
     (if l = [100] then Inr dir_entry else if l = [102] then Inr file_entry
      else if l = [103] then Inr new_entry else Inl ErrUnexpectedEOF)"

definition sample_env :: cas_env where
  "sample_env = \<lparr>ce_Encrypt = (\<lambda>_ _ p. Inr (1 # p)),
     ce_Decrypt = (\<lambda>_ s. case s of [] \<Rightarrow> Inl ErrUnexpectedEOF | _ # p \<Rightarrow> Inr p),
     ce_EncodeAll = (\<lambda>b. b), ce_DecodeAll = (\<lambda>b. Inr b),
     ce_MarshalHeader = (\<lambda>h. if h = sample_header then Inr [104] else if h = next_header then Inr [105] else Inl ErrUnexpectedEOF),
     ce_UnmarshalHeader = (\<lambda>l. if l = [104] then Inr sample_header else if l = [105] then Inr next_header else Inl ErrUnexpectedEOF),
     ce_MarshalFile = sample_MarshalFile, ce_UnmarshalFile = sample_UnmarshalFile,
     ce_HashData = sample_HashData, ce_split = sample_split,
     ce_fault = (\<lambda>_. None), ce_landed = (\<lambda>_. False), ce_short = (\<lambda>_. 0), ce_read = (\<lambda>_. None),
     ce_tempDir = ''/tmp''\<rparr>"

definition sample_store :: cas_world where
  "sample_store = \<lparr>cw_blobs = (\<lambda>_. None), cw_tick = 0, cw_env = sample_env\<rparr>"

lemma sample_encryptor: "encryptor_ok sample_env"
  by (simp add: encryptor_ok_def sample_env_def maxPlain_def maxFrameCiphertext_def)

lemma sample_file_codec: "file_codec_ok sample_env f"
  by (simp add: file_codec_ok_def sample_env_def sample_MarshalFile_def sample_UnmarshalFile_def line_ok_def newline_def)

lemma sample_header_codec: "header_codec_ok sample_env h"
  by (simp add: header_codec_ok_def sample_env_def line_ok_def newline_def)

lemmas run_sync = syncCDC_def OpenManifestWriter_def newParentLookup_def guard_ok_def map_err_def cas_op_def
  walk_entry_def walk_record_def chunk_record_def chunkFile_def note_chunked_def note_diff_def base_record_def
  Add_def markSeen_def upload_chunk_def upload_done_def ChunkExists_def StoreChunk_def storage_Exists_def
  storage_Upload_def Append_def flushFrame_def sealFrame_def spool_write_def finish_sync_def Drain_def Wait_def
  lookup_Err_def Commit_def upload_object_def skipped_diff_def Distinct_def newChunkSink_def Let_def

lemmas sample_defs = sample_store_def sample_env_def sample_data_def sample_HashData_def sample_split_def
  sample_manifest_def sample_header_def sample_MarshalFile_def sample_UnmarshalFile_def dir_entry_def file_entry_def

lemmas run_sample = run_sync sample_defs DefaultManifestFrameSize_def EntryDir_def EntryFile_def
  mode_IsRegular_def ModeSymlink_def ModeType_def ToHeader_def DefaultConfig_def DefaultChunkerConfig_def

lemma sample_sync_ok:
  "\<exists>m' d' s'. run_state (syncCDC DefaultConfig sample_manifest sample_tree None None) sample_store = (Inr (m', d'), s') \<and>
     cw_env s' = sample_env"
  by (simp add: run_sample sample_tree_def Lookup.simps)

lemma sample_store_ok: "store_sound t sample_store" "cw_env sample_store = sample_env"
  by (simp_all add: store_sound_def sample_store_def)

lemma sample_quiet: "cw_env s = sample_env \<Longrightarrow> quiet s" "cw_env s = sample_env \<Longrightarrow> readable s"
  by (simp_all add: quiet_def readable_def sample_env_def)

lemma sample_split_ok: "concat (ce_split sample_env c d) = d"
  by (simp add: sample_env_def sample_split_def)

lemma sample_hash_inj:
  "\<forall>i\<in>set sample_tree. \<forall>c\<in>set (ce_split sample_env cfg (fiData i)).
     \<forall>d. ce_HashData sample_env d = ce_HashData sample_env c \<longrightarrow> d = c"
  by (simp add: sample_tree_def sample_env_def sample_split_def sample_HashData_def sample_data_def)

lemma sample_snapshot: "snapshot sample_env DefaultConfig sample_tree = [dir_entry, file_entry]"
  by (simp add: sample_tree_def snapshot_entry_def run_sample file_hashes_def file_sizes_def)

definition written_manifest :: Manifest where
  "written_manifest = sample_manifest\<lparr>mTotalSize := 2, mChunkCount := 1, mOrdered := True\<rparr>"

lemma sample_write_ok:
  "\<exists>w0 s1 w1 s2 w2 s3. run_state (OpenManifestWriter (Some written_manifest)) sample_store = (Inr w0, s1) \<and>
     run_state (append_all [dir_entry, file_entry] w0) s1 = ((w1, Inr ()), s2) \<and>
     run_state (Commit w1) s2 = ((w2, Inr ()), s3) \<and> cw_env s3 = sample_env"
  by (simp add: run_sample written_manifest_def)

text \<open>A manifest cursor over the two entries, and an object that lost the frame with them.\<close>

definition sample_cursor :: ManifestEntries where
  "sample_cursor = \<lparr>meHeader = sample_header, meBr = [], meEnd = None, meFramed = False,
     meFrame = text_of [[100], [102]], meTenant = ''t''\<rparr>"

lemma sample_cursor_files: "files_at sample_env sample_cursor [dir_entry, file_entry]"
  unfolding files_at_def lines_at_def
  by (rule exI[of _ "[[100], [102]]"])
    (simp add: sample_cursor_def line_ok_def newline_def sample_env_def sample_UnmarshalFile_def)

lemma sample_paths_ordered:
  "sorted_wrt (\<lambda>f g. comparePaths (mfPath f) (mfPath g) = -1) [dir_entry, file_entry]"
  "sorted_wrt (\<lambda>p q. comparePaths p q = -1) [''src/a'']"
  by (simp_all add: dir_entry_def file_entry_def) code_simp

text \<open>A store that has the chunk of the first sync; the second sync starts from its manifest.\<close>

definition next_store :: cas_world where
  "next_store = sample_store\<lparr>cw_blobs := [chunkKey ''t'' ''aa11'' \<mapsto> [1, 7, 8]]\<rparr>"

lemma next_env: "cw_env next_store = sample_env"
  by (simp add: next_store_def sample_store_def)

lemma next_sound: "store_sound ''t'' next_store"
  by (auto simp: store_sound_def next_store_def sample_store_def sample_env_def sample_HashData_def sample_data_def
      split: if_splits)

text \<open>The manifest of the first sync, opened as one written before entries were ordered.\<close>

definition flat_cursor :: ManifestEntries where
  "flat_cursor = as_ordered False sample_cursor"

lemma flat_entries: "files_at sample_env flat_cursor [dir_entry, file_entry]"
  using sample_cursor_files by (simp add: flat_cursor_def)

lemma sample_parent: "parent_entries sample_env (Some flat_cursor) = {dir_entry, file_entry}"
  using read_entries_files[OF flat_entries] by (auto simp: parent_entries_def)

lemma flat_lookup:
  "newParentLookup sample_env (Some flat_cursor) = Inr \<lparr>plCursor = Some flat_cursor,
     plByPath = Some (index_files [dir_entry, file_entry]), plHeld = None, plDone = True, plErr = None,
     plOnSkip = False, plSkipped = []\<rparr>"
  using read_entries_files[OF flat_entries] by (auto simp: newParentLookup_def flat_cursor_def)

lemma Lookup_by_path: "plByPath l = Some m \<Longrightarrow> Lookup env l p = (m p, l)"
  by (subst Lookup.simps) simp

lemma next_sync_ok:
  "\<exists>m' d' s'. run_state (syncCDC DefaultConfig sample_manifest next_tree (Some flat_cursor) None) next_store = (Inr (m', d'), s')"
  unfolding syncCDC_def
  by (simp add: next_env flat_lookup guard_ok_def)
    (simp add: run_sample next_tree_def new_file_def sample_tree_def Lookup_by_path index_files_def next_store_def
      next_header_def new_entry_def reusable_def IsRegular_def reuse_record_def note_unchanged_def Known_def)

lemma next_sync_env:
  assumes "run_state (syncCDC DefaultConfig sample_manifest next_tree (Some flat_cursor) None) next_store = (Inr (m', d'), s')"
  shows "cw_env s' = sample_env"
  by (rule syncCDC_committed[OF _ _ _ assms])
    (auto simp: next_env sample_encryptor sample_header_codec sample_file_codec committed_def store_ext_def)

lemma next_hash_inj:
  "\<forall>i\<in>set next_tree. \<forall>c\<in>set (ce_split sample_env cfg (fiData i)).
     \<forall>d. ce_HashData sample_env d = ce_HashData sample_env c \<longrightarrow> d = c"
  by (simp add: next_tree_def new_file_def sample_tree_def sample_env_def sample_split_def sample_HashData_def sample_data_def)

definition truncated_store :: cas_world where
  "truncated_store = sample_store\<lparr>cw_blobs := [manifestKey ''t'' ''ws-1'' ''m-1'' \<mapsto> framed_object [1, 104, newline] [] []]\<rparr>"

section \<open>Tables\<close>

definition sample_row :: ManifestRow where
  "sample_row = \<lparr>mrID = ''m-1'', mrWorkspaceID = ''ws-1'', mrParentID = None, mrTotalSize = 2, mrSingleChunk = False,
     mrChunkHash = None, mrChunkCount = 1, mrFilesJSON = None, mrTenantID = ''t'', mrCreatedAt = 0\<rparr>"

definition garbage_chunk :: Chunk where
  "garbage_chunk = \<lparr>chHash = ''aa11'', chTenantID = ''t'', chSize = 2, chRefCount = 0, chDeletedAt = Some 10, chCreatedAt = 1\<rparr>"

definition used_chunk :: Chunk where
  "used_chunk = \<lparr>chHash = ''bb22'', chTenantID = ''t'', chSize = 1, chRefCount = 1, chDeletedAt = None, chCreatedAt = 1\<rparr>"

definition sample_gc :: gc_world where
  "sample_gc = \<lparr>gwCas = sample_store\<lparr>cw_blobs := [chunkKey ''t'' ''aa11'' \<mapsto> [1, 7, 8]]\<rparr>,
     gwDb = \<lparr>cdChunks = [garbage_chunk], cdManifests = []\<rparr>, gwNow = (\<lambda>_. 100), gwLocked = (\<lambda>_ _. False),
     gwCancelled = (\<lambda>_. False)\<rparr>"

lemma sample_gc_ok: "keys_distinct (gwDb sample_gc)" "cw_env (gwCas sample_gc) = sample_env"
  "gwNow sample_gc i = 100" "gwLocked sample_gc i h = False" "gwCancelled sample_gc i = False"
  "ce_fault sample_env i = None"
  by (simp_all add: sample_gc_def keys_distinct_def sample_store_def sample_env_def)

definition mixed_gc :: gc_world where
  "mixed_gc = sample_gc\<lparr>gwCas := sample_store\<lparr>cw_blobs := [chunkKey ''t'' ''aa11'' \<mapsto> [1, 7, 8], chunkKey ''t'' ''bb22'' \<mapsto> [1, 9]]\<rparr>,
     gwDb := \<lparr>cdChunks = [garbage_chunk, used_chunk], cdManifests = []\<rparr>\<rparr>"

lemma mixed_gc_ok: "keys_distinct (gwDb mixed_gc)" "gwNow mixed_gc i = 100" "cdChunks (gwDb mixed_gc) = [garbage_chunk, used_chunk]"
  "cw_blobs (gwCas mixed_gc) (chunkKey ''t'' ''bb22'') = Some [1, 9]"
  by (simp_all add: mixed_gc_def sample_gc_def keys_distinct_def garbage_chunk_def used_chunk_def)

definition wet_cfg :: GCConfig where "wet_cfg = \<lparr>gcGracePeriod = 50, gcBatchSize = 1, gcDryRun = False\<rparr>"

definition dry_cfg :: GCConfig where "dry_cfg = \<lparr>gcGracePeriod = 50, gcBatchSize = 1, gcDryRun = True\<rparr>"

lemma sample_sweepable: "sweepable 100 ''t'' 50 garbage_chunk" "cdChunks (gwDb sample_gc) = [garbage_chunk]"
  by (simp_all add: sweepable_def garbage_chunk_def sample_gc_def)

lemma sample_race:
  "\<exists>r1 g1 r2 g2 db r4 g4.
     gc_stmt (\<lambda>now locked db. deleteChunkIfUnreferenced now ''t'' ''aa11'' 50 db) sample_gc = (r1, g1) \<and>
     gc_blob (upload_chunk ''t'' ''aa11'' sample_data) g1 = (r2, g2) \<and>
     CommitManifest 200 ''m-1'' (Some sample_row) [Some (''aa11'', 2)] (gwDb g2) = Inr db \<and>
     gc_blob (DeleteChunk ''t'' ''aa11'') (g2\<lparr>gwDb := db\<rparr>) = (r4, g4)"
  by (simp add: gc_stmt_def gc_blob_def sample_gc_def sample_store_def sample_env_def deleteChunkIfUnreferenced_def
      upload_chunk_def ChunkExists_def storage_Exists_def guard_ok_def map_err_def DeleteChunk_def storage_Delete_def
      CommitManifest_def createManifest_def sample_row_def referenceChunks_fold Let_def gw_next_def
      reference_batch_def reference_one_def garbage_chunk_def sweepable_def)

lemma sample_commit_step:
  "\<exists>db. cas_step\<^sup>*\<^sup>* (empty_chunk_db, \<lambda>_. {}) (db, (\<lambda>_. {})(''m-1'' := {''aa11''})) \<and> sample_row \<in> set (cdManifests db)"
proof -
  let ?db = "\<lparr>cdChunks = [garbage_chunk\<lparr>chRefCount := 1, chDeletedAt := None, chCreatedAt := 0\<rparr>], cdManifests = [sample_row]\<rparr>"
  have "CommitManifest 0 ''m-1'' (Some sample_row) [Some (''aa11'', 2)] empty_chunk_db = Inr ?db"
    by (simp add: CommitManifest_def createManifest_def sample_row_def referenceChunks_fold Let_def empty_chunk_db_def
        reference_batch_def reference_one_def garbage_chunk_def)
  moreover have hashes: "hashes_of [Some (''aa11'', 2)] = {''aa11''}" by (auto simp: hashes_of_def)
  ultimately have "cas_step (empty_chunk_db, \<lambda>_. {}) (?db, (\<lambda>_. {})(row_id ''m-1'' sample_row := {''aa11''}))"
    using cas_step.commit[of 0 "''m-1''" sample_row "[Some (''aa11'', 2)]" empty_chunk_db ?db "\<lambda>_. {}"] by simp
  then have "cas_step (empty_chunk_db, \<lambda>_. {}) (?db, (\<lambda>_. {})(''m-1'' := {''aa11''}))"
    by (simp add: row_id_def sample_row_def)
  then show ?thesis by (intro exI[of _ ?db]) auto
qed

end
