(* ===== verification/Auth_Store.thy ===== *)
theory Auth_Store
  imports World
begin

text \<open>
  The authentication tables and their statements (\<^verbatim>\<open>pkg/store/postgres/auth.go\<close>): API keys and
  runner tokens, both under the policy \<^verbatim>\<open>tenant_isolation\<close>, both with a unique hash. A runner
  token may reference a runner; deleting the runner deletes its tokens and clears the references
  of sessions and task runs, as the foreign keys of the migrations say.
\<close>

section \<open>Rows\<close>

record APIKey =
  akID :: string
  akName :: string
  akKeyHash :: string
  akKeyPrefix :: string
  akHashVersion :: int
  akScopes :: "string list"
  akTenantID :: "string option"
  akLabels :: json
  akAnnotations :: json
  akCreatedAt :: int
  akCreatedBy :: "string option"
  akLastUsedAt :: "int option"
  akExpiresAt :: "int option"
  akRevokedAt :: "int option"
  akRevokeReason :: "string option"

record APIKeyUpdates =
  auName :: "string option"
  auScopes :: "string list option"
  auLabels :: "json option"
  auAnnotations :: "json option"
  auLastUsedAt :: "int option"
  auRevokedAt :: "int option"
  auRevokeReason :: "string option"

record RunnerToken =
  rtID :: string
  rtTokenHash :: string
  rtTokenPrefix :: string
  rtHashVersion :: int
  rtRunnerID :: "string option"
  rtPoolName :: string
  rtStatus :: string
  rtPreviousTokenHash :: "string option"
  rtRotationDeadline :: "int option"
  rtTenantID :: "string option"
  rtLabels :: json
  rtCreatedAt :: int
  rtCreatedBy :: "string option"
  rtLastUsedAt :: "int option"
  rtExpiresAt :: "int option"
  rtRevokedAt :: "int option"
  rtRevokeReason :: "string option"

record RunnerTokenUpdates =
  rtuTokenHash :: "string option"
  rtuTokenPrefix :: "string option"
  rtuRunnerID :: "string option"
  rtuStatus :: "string option"
  rtuPreviousTokenHash :: "string option"
  rtuRotationDeadline :: "int option"
  rtuLabels :: "json option"
  rtuLastUsedAt :: "int option"
  rtuRevokedAt :: "int option"
  rtuRevokeReason :: "string option"

definition no_key_updates :: APIKeyUpdates where
  "no_key_updates = \<lparr>auName = None, auScopes = None, auLabels = None, auAnnotations = None,
     auLastUsedAt = None, auRevokedAt = None, auRevokeReason = None\<rparr>"

definition no_token_updates :: RunnerTokenUpdates where
  "no_token_updates = \<lparr>rtuTokenHash = None, rtuTokenPrefix = None, rtuRunnerID = None, rtuStatus = None,
     rtuPreviousTokenHash = None, rtuRotationDeadline = None, rtuLabels = None, rtuLastUsedAt = None,
     rtuRevokedAt = None, rtuRevokeReason = None\<rparr>"

record auth_tables =
  api_keys :: "APIKey list"
  runner_tokens :: "RunnerToken list"

type_synonym auth_db = "db \<times> auth_tables"

definition TokenStatusActive :: string where "TokenStatusActive = ''active''"
definition TokenStatusRotating :: string where "TokenStatusRotating = ''rotating''"
definition TokenStatusRevoked :: string where "TokenStatusRevoked = ''revoked''"
definition TokenStatusExpired :: string where "TokenStatusExpired = ''expired''"

lemmas token_status_defs =
  TokenStatusActive_def TokenStatusRotating_def TokenStatusRevoked_def TokenStatusExpired_def

lemma token_status_neq [simp]:
  "TokenStatusActive \<noteq> TokenStatusRotating" "TokenStatusActive \<noteq> TokenStatusRevoked"
  "TokenStatusActive \<noteq> TokenStatusExpired" "TokenStatusRotating \<noteq> TokenStatusRevoked"
  "TokenStatusRotating \<noteq> TokenStatusExpired" "TokenStatusRevoked \<noteq> TokenStatusExpired"
  "TokenStatusRotating \<noteq> TokenStatusActive" "TokenStatusRevoked \<noteq> TokenStatusActive"
  by (simp_all add: token_status_defs)

section \<open>API keys\<close>

record ListAPIKeysOptions =
  lkoBase :: BaseListOptions
  lkoIncludeRevoked :: bool

definition apiKeySortColumns :: "string list" where
  "apiKeySortColumns = [''created_at'', ''name'', ''last_used_at'', ''expires_at'', ''revoked_at'']"

definition api_key_col :: "string \<Rightarrow> APIKey \<Rightarrow> sortval" where
  "api_key_col c k =
     (if c = ''name'' then sv_str (akName k)
      else if c = ''last_used_at'' then sv_opt sv_int (akLastUsedAt k)
      else if c = ''expires_at'' then sv_opt sv_int (akExpiresAt k)
      else if c = ''revoked_at'' then sv_opt sv_int (akRevokedAt k)
      else sv_int (akCreatedAt k))"

definition createAPIKey :: "int \<Rightarrow> ctx \<Rightarrow> APIKey \<Rightarrow> auth_db \<Rightarrow> gerr + APIKey \<times> auth_db" where
  "createAPIKey now c k = (\<lambda>(d, a).
     let k' = k\<lparr>akCreatedAt := now\<rparr> in
      if \<not> rls_visible d c (akTenantID k) then Inl (ErrDatabase ''row-level security'')
      else if akID k \<in> akID ` set (api_keys a) then Inl (ErrAlreadyExists ''api_key'')
      else if akKeyHash k \<in> akKeyHash ` set (api_keys a) then Inl (ErrAlreadyExists ''api_key'')
      else Inr (k', d, a\<lparr>api_keys := k' # api_keys a\<rparr>))"

definition getAPIKey :: "ctx \<Rightarrow> string \<Rightarrow> auth_db \<Rightarrow> gerr + APIKey" where
  "getAPIKey c kid = (\<lambda>(d, a).
     case find (\<lambda>k. akID k = kid \<and> rls_visible d c (akTenantID k)) (api_keys a) of
       None \<Rightarrow> Inl (ErrNotFound ''api_key'' kid) | Some k \<Rightarrow> Inr k)"

definition getAPIKeyByHash :: "ctx \<Rightarrow> string \<Rightarrow> auth_db \<Rightarrow> gerr + APIKey" where
  "getAPIKeyByHash c h = (\<lambda>(d, a).
     case find (\<lambda>k. akKeyHash k = h \<and> rls_visible d c (akTenantID k)) (api_keys a) of
       None \<Rightarrow> Inl (ErrNotFound ''api_key'' h) | Some k \<Rightarrow> Inr k)"

definition listAPIKeys :: "ctx \<Rightarrow> ListAPIKeysOptions \<Rightarrow> auth_db \<Rightarrow> gerr + APIKey ListResult" where
  "listAPIKeys c opts = (\<lambda>(d, a).
     let limit = defaultLimit (loLimit (lkoBase opts)) in
      case page apiKeySortColumns (lkoBase opts) of
        Inl e \<Rightarrow> Inl e
      | Inr p \<Rightarrow> Inr (list_rows api_key_col akCreatedAt akID limit p
          (filter (\<lambda>k. rls_visible d c (akTenantID k) \<and> (lkoIncludeRevoked opts \<or> akRevokedAt k = None))
            (api_keys a))))"

definition apply_key_updates :: "APIKeyUpdates \<Rightarrow> APIKey \<Rightarrow> APIKey" where
  "apply_key_updates u k = k\<lparr>
     akName := set_col (auName u) (akName k),
     akScopes := set_col (auScopes u) (akScopes k),
     akLabels := set_col (auLabels u) (akLabels k),
     akAnnotations := set_col (auAnnotations u) (akAnnotations k),
     akLastUsedAt := set_null_col (auLastUsedAt u) (akLastUsedAt k),
     akRevokedAt := set_null_col (auRevokedAt u) (akRevokedAt k),
     akRevokeReason := set_null_col (auRevokeReason u) (akRevokeReason k)\<rparr>"

lemma apply_key_updates_simps [simp]:
  "akID (apply_key_updates u k) = akID k"
  "akKeyHash (apply_key_updates u k) = akKeyHash k"
  "akTenantID (apply_key_updates u k) = akTenantID k"
  "akExpiresAt (apply_key_updates u k) = akExpiresAt k"
  "akRevokedAt (apply_key_updates u k) = set_null_col (auRevokedAt u) (akRevokedAt k)"
  by (simp_all add: apply_key_updates_def)

definition updateAPIKey :: "ctx \<Rightarrow> string \<Rightarrow> APIKeyUpdates \<Rightarrow> auth_db \<Rightarrow> gerr + unit \<times> auth_db" where
  "updateAPIKey c kid u = (\<lambda>(d, a).
     if u = no_key_updates then Inr ((), d, a)
     else case find (\<lambda>k. akID k = kid \<and> rls_visible d c (akTenantID k)) (api_keys a) of
       None \<Rightarrow> Inl (ErrNotFound ''api_key'' kid)
     | Some k \<Rightarrow> Inr ((), d, a\<lparr>api_keys := put_row akID kid (apply_key_updates u k) (api_keys a)\<rparr>))"

definition deleteAPIKey :: "ctx \<Rightarrow> string \<Rightarrow> auth_db \<Rightarrow> gerr + unit \<times> auth_db" where
  "deleteAPIKey c kid = (\<lambda>(d, a).
     case find (\<lambda>k. akID k = kid \<and> rls_visible d c (akTenantID k)) (api_keys a) of
       None \<Rightarrow> Inl (ErrNotFound ''api_key'' kid)
     | Some k \<Rightarrow> Inr ((), d, a\<lparr>api_keys := filter (\<lambda>x. akID x \<noteq> kid) (api_keys a)\<rparr>))"

section \<open>Runner tokens\<close>

record ListRunnerTokensOptions =
  ltkBase :: BaseListOptions
  ltkPoolName :: "string option"
  ltkRunnerID :: "string option"
  ltkStatus :: "string list"
  ltkIncludeRevoked :: bool

definition runnerTokenSortColumns :: "string list" where
  "runnerTokenSortColumns = [''created_at'', ''pool_name'', ''status'', ''last_used_at'', ''expires_at'']"

definition runner_token_col :: "string \<Rightarrow> RunnerToken \<Rightarrow> sortval" where
  "runner_token_col c t =
     (if c = ''pool_name'' then sv_str (rtPoolName t)
      else if c = ''status'' then sv_str (rtStatus t)
      else if c = ''last_used_at'' then sv_opt sv_int (rtLastUsedAt t)
      else if c = ''expires_at'' then sv_opt sv_int (rtExpiresAt t)
      else sv_int (rtCreatedAt t))"

definition runner_token_matches :: "ListRunnerTokensOptions \<Rightarrow> RunnerToken \<Rightarrow> bool" where
  "runner_token_matches opts t \<longleftrightarrow>
     opt_match (ltkPoolName opts) (rtPoolName t) \<and>
     (case ltkRunnerID opts of None \<Rightarrow> True | Some r \<Rightarrow> rtRunnerID t = Some r) \<and>
     any_of (ltkStatus opts) (rtStatus t) \<and>
     (ltkIncludeRevoked opts \<or> rtRevokedAt t = None)"

definition runner_token_check :: "RunnerToken \<Rightarrow> bool" where
  "runner_token_check t \<longleftrightarrow>
     rtStatus t \<in> {TokenStatusActive, TokenStatusRotating, TokenStatusRevoked, TokenStatusExpired}"

definition runner_token_fk :: "db \<Rightarrow> RunnerToken \<Rightarrow> bool" where
  "runner_token_fk d t =
     (case rtRunnerID t of None \<Rightarrow> True | Some r \<Rightarrow> r \<in> rID ` set (runners d))"

definition token_hash_conflict :: "RunnerToken \<Rightarrow> RunnerToken list \<Rightarrow> bool" where
  "token_hash_conflict t rows = list_ex (\<lambda>x. rtID x \<noteq> rtID t \<and> rtTokenHash x = rtTokenHash t) rows"

definition createRunnerToken ::
  "int \<Rightarrow> ctx \<Rightarrow> RunnerToken \<Rightarrow> auth_db \<Rightarrow> gerr + RunnerToken \<times> auth_db" where
  "createRunnerToken now c t = (\<lambda>(d, a).
     let t' = t\<lparr>rtCreatedAt := now\<rparr> in
      if \<not> rls_visible d c (rtTenantID t) then Inl (ErrDatabase ''row-level security'')
      else if \<not> runner_token_check t' then Inl (ErrInvalidInput ''runner_token'')
      else if rtID t \<in> rtID ` set (runner_tokens a) then Inl (ErrAlreadyExists ''runner_token'')
      else if token_hash_conflict t' (runner_tokens a) then Inl (ErrAlreadyExists ''runner_token'')
      else if \<not> runner_token_fk d t' then Inl (ErrForeignKeyViolation ''runner_token'')
      else Inr (t', d, a\<lparr>runner_tokens := t' # runner_tokens a\<rparr>))"

definition getRunnerToken :: "ctx \<Rightarrow> string \<Rightarrow> auth_db \<Rightarrow> gerr + RunnerToken" where
  "getRunnerToken c tid = (\<lambda>(d, a).
     case find (\<lambda>t. rtID t = tid \<and> rls_visible d c (rtTenantID t)) (runner_tokens a) of
       None \<Rightarrow> Inl (ErrNotFound ''runner_token'' tid) | Some t \<Rightarrow> Inr t)"

definition getRunnerTokenByHash :: "ctx \<Rightarrow> string \<Rightarrow> auth_db \<Rightarrow> gerr + RunnerToken" where
  "getRunnerTokenByHash c h = (\<lambda>(d, a).
     case find (\<lambda>t. rtTokenHash t = h \<and> rls_visible d c (rtTenantID t)) (runner_tokens a) of
       None \<Rightarrow> Inl (ErrNotFound ''runner_token'' h) | Some t \<Rightarrow> Inr t)"

definition listRunnerTokens ::
  "ctx \<Rightarrow> ListRunnerTokensOptions \<Rightarrow> auth_db \<Rightarrow> gerr + RunnerToken ListResult" where
  "listRunnerTokens c opts = (\<lambda>(d, a).
     let limit = defaultLimit (loLimit (ltkBase opts)) in
      case page runnerTokenSortColumns (ltkBase opts) of
        Inl e \<Rightarrow> Inl e
      | Inr p \<Rightarrow> Inr (list_rows runner_token_col rtCreatedAt rtID limit p
          (filter (\<lambda>t. rls_visible d c (rtTenantID t) \<and> runner_token_matches opts t)
            (runner_tokens a))))"

text \<open>Every pointer that is set is written, an empty string included.\<close>

definition apply_token_updates :: "RunnerTokenUpdates \<Rightarrow> RunnerToken \<Rightarrow> RunnerToken" where
  "apply_token_updates u t = t\<lparr>
     rtTokenHash := set_col (rtuTokenHash u) (rtTokenHash t),
     rtTokenPrefix := set_col (rtuTokenPrefix u) (rtTokenPrefix t),
     rtRunnerID := set_null_col (rtuRunnerID u) (rtRunnerID t),
     rtStatus := set_col (rtuStatus u) (rtStatus t),
     rtPreviousTokenHash := set_null_col (rtuPreviousTokenHash u) (rtPreviousTokenHash t),
     rtRotationDeadline := set_null_col (rtuRotationDeadline u) (rtRotationDeadline t),
     rtLabels := set_col (rtuLabels u) (rtLabels t),
     rtLastUsedAt := set_null_col (rtuLastUsedAt u) (rtLastUsedAt t),
     rtRevokedAt := set_null_col (rtuRevokedAt u) (rtRevokedAt t),
     rtRevokeReason := set_null_col (rtuRevokeReason u) (rtRevokeReason t)\<rparr>"

lemma apply_token_updates_simps [simp]:
  "rtID (apply_token_updates u t) = rtID t"
  "rtTenantID (apply_token_updates u t) = rtTenantID t"
  "rtPoolName (apply_token_updates u t) = rtPoolName t"
  "rtExpiresAt (apply_token_updates u t) = rtExpiresAt t"
  "rtTokenHash (apply_token_updates u t) = set_col (rtuTokenHash u) (rtTokenHash t)"
  "rtRunnerID (apply_token_updates u t) = set_null_col (rtuRunnerID u) (rtRunnerID t)"
  "rtStatus (apply_token_updates u t) = set_col (rtuStatus u) (rtStatus t)"
  "rtRevokedAt (apply_token_updates u t) = set_null_col (rtuRevokedAt u) (rtRevokedAt t)"
  "rtPreviousTokenHash (apply_token_updates u t) =
     set_null_col (rtuPreviousTokenHash u) (rtPreviousTokenHash t)"
  "rtRotationDeadline (apply_token_updates u t) =
     set_null_col (rtuRotationDeadline u) (rtRotationDeadline t)"
  by (simp_all add: apply_token_updates_def)

definition updateRunnerToken ::
  "ctx \<Rightarrow> string \<Rightarrow> RunnerTokenUpdates \<Rightarrow> auth_db \<Rightarrow> gerr + unit \<times> auth_db" where
  "updateRunnerToken c tid u = (\<lambda>(d, a).
     if u = no_token_updates then Inr ((), d, a)
     else case find (\<lambda>t. rtID t = tid \<and> rls_visible d c (rtTenantID t)) (runner_tokens a) of
       None \<Rightarrow> Inl (ErrNotFound ''runner_token'' tid)
     | Some t \<Rightarrow>
         let t' = apply_token_updates u t in
         if \<not> runner_token_check t' then Inl (ErrInvalidInput ''runner_token'')
         else if token_hash_conflict t' (runner_tokens a) then Inl (ErrAlreadyExists ''runner_token'')
         else if \<not> runner_token_fk d t' then Inl (ErrForeignKeyViolation ''runner_token'')
         else Inr ((), d, a\<lparr>runner_tokens := put_row rtID tid t' (runner_tokens a)\<rparr>))"

definition deleteRunnerToken :: "ctx \<Rightarrow> string \<Rightarrow> auth_db \<Rightarrow> gerr + unit \<times> auth_db" where
  "deleteRunnerToken c tid = (\<lambda>(d, a).
     case find (\<lambda>t. rtID t = tid \<and> rls_visible d c (rtTenantID t)) (runner_tokens a) of
       None \<Rightarrow> Inl (ErrNotFound ''runner_token'' tid)
     | Some t \<Rightarrow> Inr ((), d, a\<lparr>runner_tokens := filter (\<lambda>x. rtID x \<noteq> tid) (runner_tokens a)\<rparr>))"

section \<open>Runners: by name, and deletion\<close>

definition getRunnerByName :: "ctx \<Rightarrow> string \<Rightarrow> db \<Rightarrow> gerr + Runner" where
  "getRunnerByName c name d =
     (case find (\<lambda>r. rName r = name \<and> rls_visible d c (rTenantID r)) (runners d) of
        None \<Rightarrow> Inl (ErrNotFound ''runner'' name) | Some r \<Rightarrow> Inr r)"

definition getProviderConfigByName :: "ctx \<Rightarrow> string \<Rightarrow> db \<Rightarrow> gerr + ProviderConfig" where
  "getProviderConfigByName c name d =
     (case find (\<lambda>x. pcName x = name \<and> rls_visible d c (pcTenantID x)) (provider_configs d) of
        None \<Rightarrow> Inl (ErrNotFound ''provider_config'' name) | Some x \<Rightarrow> Inr x)"

text \<open>\<^verbatim>\<open>ON DELETE SET NULL\<close> of sessions and task runs, \<^verbatim>\<open>ON DELETE CASCADE\<close> of runner tokens.\<close>

definition clear_runner :: "string \<Rightarrow> string option \<Rightarrow> string option" where
  "clear_runner rid r = (if r = Some rid then None else r)"

definition deleteRunner :: "ctx \<Rightarrow> string \<Rightarrow> auth_db \<Rightarrow> gerr + unit \<times> auth_db" where
  "deleteRunner c rid = (\<lambda>(d, a).
     case find (\<lambda>r. rID r = rid \<and> rls_visible d c (rTenantID r)) (runners d) of
       None \<Rightarrow> Inl (ErrNotFound ''runner'' rid)
     | Some r \<Rightarrow> Inr ((),
         d\<lparr>runners := filter (\<lambda>x. rID x \<noteq> rid) (runners d),
           claims := (claims d)(rid := None),
           sessions := map (\<lambda>s. s\<lparr>sRunnerID := clear_runner rid (sRunnerID s)\<rparr>) (sessions d),
           task_runs := map (\<lambda>t. t\<lparr>trRunnerID := clear_runner rid (trRunnerID t)\<rparr>) (task_runs d)\<rparr>,
         a\<lparr>runner_tokens := filter (\<lambda>x. rtRunnerID x \<noteq> Some rid) (runner_tokens a)\<rparr>))"

end
