(* ===== verification/Auth_Service.thy ===== *)
theory Auth_Service
  imports Auth_Store Core_Base "HOL-Library.Sublist"
begin

text \<open>
  The credentials of the server: the text of tokens (\<^verbatim>\<open>pkg/cryptoutil/token.go\<close>), the life of a
  runner token (\<^verbatim>\<open>pkg/auth/runnertoken.go\<close>) and of an API key with its scopes
  (\<^verbatim>\<open>pkg/auth/apikey.go\<close>). The services run in a world that extends the world of the managers with
  the authentication tables, the random source and the digest: a statement on either set of tables
  fails at the environment's choice, and both share one clock.
\<close>

section \<open>The world of the services\<close>

text \<open>What a provider is asked to start (\<^verbatim>\<open>pkg/provider/provider.go\<close>), and what it answers.\<close>

record SpawnOptions =
  spRunnerID :: string
  spName :: string
  spServerURL :: string
  spRunnerToken :: string
  spLabels :: "(string \<times> string) list"
  spSandboxMode :: string
  spMemoryMB :: int
  spCPUs :: int
  spDiskMB :: int
  spWorkspaceMount :: string
  spTenantID :: string
  spNetworkPolicy :: string
  spAllowedHosts :: "string list"

record RunnerInstance =
  riID :: string
  riProviderID :: string

text \<open>Which parts of provisioning are wired and how (\<^verbatim>\<open>RunnerProvisioner\<close>, \<^verbatim>\<open>AutoSpawnPolicy\<close>).\<close>

record provisioning =
  prTokens :: bool
  prProvisioner :: bool
  prEnabled :: bool
  prMaxRunners :: int
  prServerURL :: string
  prDefault :: string

record auth_world =
  aw_core :: world
  aw_tables :: auth_tables
  aw_spawned :: "(string \<times> SpawnOptions) list" \<comment> \<open>calls of Spawn that took effect\<close>
  aw_resumed :: "(string \<times> SpawnOptions) list" \<comment> \<open>calls of Resume that took effect\<close>
  aw_strays :: "(string \<times> SpawnOptions) list" \<comment> \<open>calls of either that reported an error and left an instance running\<close>
  ae_random :: "nat \<Rightarrow> nat \<Rightarrow> nat" \<comment> \<open>byte \<open>i\<close> of the read at tick \<open>t\<close>\<close>
  ae_random_err :: "nat \<Rightarrow> string option"
  ae_sha256 :: "string \<Rightarrow> nat list"
  ae_rotation_window :: int
  ae_prov :: provisioning
  ae_error_text :: "gerr \<Rightarrow> string"
  ae_instance :: "nat \<Rightarrow> RunnerInstance"
  ae_stray :: "nat \<Rightarrow> bool"

type_synonym 'a A = "(auth_world, 'a) state"
type_synonym 'a AG = "(auth_world, gerr + 'a) state"

definition core :: "'a M \<Rightarrow> 'a A" where
  "core m = State (\<lambda>a. case run_state m (aw_core a) of (x, w) \<Rightarrow> (x, a\<lparr>aw_core := w\<rparr>))"

definition env_asks :: "(auth_world \<Rightarrow> 'a) \<Rightarrow> 'a A" where
  "env_asks f = State (\<lambda>a. (f a, a))"

text \<open>A statement on both sets of tables; the counterpart of \<open>exec_stmt\<close>.\<close>

definition exec_auth :: "(int \<Rightarrow> auth_db \<Rightarrow> gerr + 'a \<times> auth_db) \<Rightarrow> 'a AG" where
  "exec_auth f = State (\<lambda>a.
     (let w = aw_core a; t = w_tick w; w' = w\<lparr>w_tick := Suc t\<rparr>; a' = a\<lparr>aw_core := w'\<rparr> in
      case e_fault w t of
        Some m \<Rightarrow> (Inl (ErrDatabase m), a')
      | None \<Rightarrow>
          (case f (e_clock w t) (w_db w, aw_tables a) of
             Inl e \<Rightarrow> (Inl e, a')
           | Inr (x, d, tb) \<Rightarrow> (Inr x, a\<lparr>aw_core := w'\<lparr>w_db := d\<rparr>, aw_tables := tb\<rparr>))))"

definition query_auth :: "(auth_db \<Rightarrow> gerr + 'a) \<Rightarrow> 'a AG" where
  "query_auth f = exec_auth (\<lambda>_ D. case f D of Inl e \<Rightarrow> Inl e | Inr x \<Rightarrow> Inr (x, D))"

section \<open>Tokens as text\<close>

definition PrefixAPIKey :: string where "PrefixAPIKey = ''mk_''"
definition PrefixRunnerToken :: string where "PrefixRunnerToken = ''rtok_''"
definition PrefixTunnelToken :: string where "PrefixTunnelToken = ''ttok_''"

lemmas prefix_defs = PrefixAPIKey_def PrefixRunnerToken_def PrefixTunnelToken_def

definition HashV1SHA256 :: int where "HashV1SHA256 = 1"
definition HashV2HMACSHA256 :: int where "HashV2HMACSHA256 = 2"
definition CurrentHashVersion :: int where "CurrentHashVersion = HashV1SHA256"

definition tokenRandomBytes :: nat where "tokenRandomBytes = 32"
definition displayPrefixLen :: nat where "displayPrefixLen = 8"

text \<open>\<^verbatim>\<open>base64.RawURLEncoding\<close> and \<^verbatim>\<open>hex.EncodeToString\<close> of a list of bytes.\<close>

definition b64_alphabet :: string where
  "b64_alphabet = ''ABCDEFGHIJKLMNOPQRSTUVWXYZabcdefghijklmnopqrstuvwxyz0123456789-_''"

definition b64_digit :: "nat \<Rightarrow> char" where
  "b64_digit i = b64_alphabet ! (i mod 64)"

fun RawURLEncoding :: "nat list \<Rightarrow> string" where
  "RawURLEncoding (x # y # z # rest) =
     [b64_digit (x div 4), b64_digit (x mod 4 * 16 + y div 16),
      b64_digit (y mod 16 * 4 + z div 64), b64_digit (z mod 64)] @ RawURLEncoding rest"
| "RawURLEncoding [x, y] =
     [b64_digit (x div 4), b64_digit (x mod 4 * 16 + y div 16), b64_digit (y mod 16 * 4)]"
| "RawURLEncoding [x] = [b64_digit (x div 4), b64_digit (x mod 4 * 16)]"
| "RawURLEncoding [] = []"

definition hex_digit :: "nat \<Rightarrow> char" where
  "hex_digit i = ''0123456789abcdef'' ! (i mod 16)"

definition hex_encode :: "nat list \<Rightarrow> string" where
  "hex_encode bs = concat (map (\<lambda>b. [hex_digit (b div 16), hex_digit (b mod 16)]) bs)"

definition sha256Hex :: "(string \<Rightarrow> nat list) \<Rightarrow> string \<Rightarrow> string" where
  "sha256Hex sha256 s = hex_encode (sha256 s)"

definition rand_Read :: "nat \<Rightarrow> nat list AG" where
  "rand_Read n = do {
     t \<leftarrow> core next_tick;
     e \<leftarrow> env_asks ae_random_err;
     r \<leftarrow> env_asks ae_random;
     (case e t of Some m \<Rightarrow> err (ErrRandom m) | None \<Rightarrow> ok (map (\<lambda>i. r t i mod 256) [0..<n]))
   }"

definition display_prefix :: "string \<Rightarrow> string \<Rightarrow> string" where
  "display_prefix pre encoded =
     (if length encoded \<ge> displayPrefixLen then pre @ take displayPrefixLen encoded
      else pre @ encoded)"

text \<open>The token, its display prefix, its hash and the hash version.\<close>

definition GenerateToken :: "string \<Rightarrow> (string \<times> string \<times> string \<times> int) AG" where
  "GenerateToken pre = guard_ok (rand_Read tokenRandomBytes) (\<lambda>raw. do {
     sha256 \<leftarrow> env_asks ae_sha256;
     let encoded = RawURLEncoding raw;
     let token = pre @ encoded;
     ok (token, display_prefix pre encoded, sha256Hex sha256 token, CurrentHashVersion)
   })"

definition GenerateAPIKey :: "(string \<times> string \<times> string \<times> int) AG" where
  "GenerateAPIKey = GenerateToken PrefixAPIKey"

definition GenerateRunnerToken :: "(string \<times> string \<times> string \<times> int) AG" where
  "GenerateRunnerToken = GenerateToken PrefixRunnerToken"

definition HashToken :: "string \<Rightarrow> string A" where
  "HashToken token = do { sha256 \<leftarrow> env_asks ae_sha256; ret (sha256Hex sha256 token) }"

text \<open>\<open>hmac\<close> stands for the keyed digest, \<open>key\<close> for a possibly nil key.\<close>

definition VerifyToken ::
  "(string \<Rightarrow> nat list) \<Rightarrow> (nat list \<Rightarrow> string \<Rightarrow> nat list) \<Rightarrow> string \<Rightarrow> string \<Rightarrow> int \<Rightarrow> nat list option \<Rightarrow> bool" where
  "VerifyToken sha256 hmac token storedHash version key =
     (if version = HashV1SHA256 then sha256Hex sha256 token = storedHash
      else if version = HashV2HMACSHA256
        then (case key of None \<Rightarrow> False | Some k \<Rightarrow> hex_encode (hmac k token) = storedHash)
      else False)"

definition ExtractPrefix :: "string \<Rightarrow> string" where
  "ExtractPrefix token =
     (if CHR ''_'' \<in> set token then takeWhile (\<lambda>ch. ch \<noteq> CHR ''_'') token @ ''_'' else [])"

definition ValidateTokenFormat :: "string \<Rightarrow> string \<Rightarrow> bool" where
  "ValidateTokenFormat token expectedPrefix \<longleftrightarrow>
     prefix expectedPrefix token \<and> length token \<ge> length expectedPrefix + 40"

text \<open>\<^verbatim>\<open>strings.TrimSpace\<close>: the white space of Unicode, in UTF-8.\<close>

definition white_space :: "nat list list" where
  "white_space = [[9], [10], [11], [12], [13], [32], [0xC2, 0x85], [0xC2, 0xA0], [0xE1, 0x9A, 0x80],
     [0xE2, 0x80, 0x80], [0xE2, 0x80, 0x81], [0xE2, 0x80, 0x82], [0xE2, 0x80, 0x83], [0xE2, 0x80, 0x84],
     [0xE2, 0x80, 0x85], [0xE2, 0x80, 0x86], [0xE2, 0x80, 0x87], [0xE2, 0x80, 0x88], [0xE2, 0x80, 0x89],
     [0xE2, 0x80, 0x8A], [0xE2, 0x80, 0xA8], [0xE2, 0x80, 0xA9], [0xE2, 0x80, 0xAF], [0xE2, 0x81, 0x9F],
     [0xE3, 0x80, 0x80]]"

fun trim_left :: "nat list list \<Rightarrow> nat \<Rightarrow> string \<Rightarrow> string" where
  "trim_left ws 0 s = s"
| "trim_left ws (Suc n) s =
     (case find (\<lambda>p. prefix p (map of_char s)) ws of
        None \<Rightarrow> s
      | Some p \<Rightarrow> trim_left ws n (drop (length p) s))"

text \<open>Every round drops at least one byte, so as many rounds as there are bytes are enough.\<close>

definition TrimSpace :: "string \<Rightarrow> string" where
  "TrimSpace s =
     (let l = trim_left white_space (length s) s
      in rev (trim_left (map rev white_space) (length l) (rev l)))"

section \<open>Runner tokens\<close>

definition CreateRunnerToken :: "ctx \<Rightarrow> RunnerToken \<Rightarrow> RunnerToken AG" where
  "CreateRunnerToken c t = exec_auth (\<lambda>now. createRunnerToken now c t)"

definition GetRunnerToken :: "ctx \<Rightarrow> string \<Rightarrow> RunnerToken AG" where
  "GetRunnerToken c tid = query_auth (getRunnerToken c tid)"

definition GetRunnerTokenByHash :: "ctx \<Rightarrow> string \<Rightarrow> RunnerToken AG" where
  "GetRunnerTokenByHash c h = query_auth (getRunnerTokenByHash c h)"

definition ListRunnerTokens :: "ctx \<Rightarrow> ListRunnerTokensOptions \<Rightarrow> RunnerToken ListResult AG" where
  "ListRunnerTokens c opts = query_auth (listRunnerTokens c opts)"

definition UpdateRunnerToken :: "ctx \<Rightarrow> string \<Rightarrow> RunnerTokenUpdates \<Rightarrow> unit AG" where
  "UpdateRunnerToken c tid u = exec_auth (\<lambda>_. updateRunnerToken c tid u)"

record CreateRunnerTokenOptions =
  crtPoolName :: string
  crtTenantID :: "string option"
  crtLabels :: "(string \<times> string) list option"
  crtExpiresAt :: "int option"
  crtCreatedBy :: "string option"

text \<open>\<^verbatim>\<open>json.Marshal\<close> of a map of strings; a nil map is the empty object here.\<close>

definition marshal_map :: "(string \<times> string) list option \<Rightarrow> json" where
  "marshal_map m =
     (case m of None \<Rightarrow> JObj [] | Some kvs \<Rightarrow> JObj (map (\<lambda>(k, v). (k, JStr v)) (sort_key fst kvs)))"

definition token_Create :: "ctx \<Rightarrow> CreateRunnerTokenOptions \<Rightarrow> (RunnerToken \<times> string) AG" where
  "token_Create c opts =
     (if TrimSpace (crtPoolName opts) = [] then err ErrInvalidPoolName
      else guard_ok GenerateRunnerToken (\<lambda>(token, displayPrefix, hash, version). do {
        tid \<leftarrow> core new_id;
        now \<leftarrow> core Now;
        let rt = \<lparr>rtID = tid, rtTokenHash = hash, rtTokenPrefix = displayPrefix, rtHashVersion = version,
          rtRunnerID = None, rtPoolName = TrimSpace (crtPoolName opts), rtStatus = TokenStatusActive,
          rtPreviousTokenHash = None, rtRotationDeadline = None, rtTenantID = crtTenantID opts,
          rtLabels = marshal_map (crtLabels opts), rtCreatedAt = now, rtCreatedBy = crtCreatedBy opts,
          rtLastUsedAt = None, rtExpiresAt = crtExpiresAt opts, rtRevokedAt = None,
          rtRevokeReason = None\<rparr>;
        guard_ok (CreateRunnerToken c rt) (\<lambda>rt'. ok (rt', token))
      }))"

text \<open>\<^verbatim>\<open>time.Now()\<close> is read only when there is an expiration to compare it with.\<close>

definition token_alive :: "RunnerToken \<Rightarrow> RunnerToken AG" where
  "token_alive rt =
     (if rtStatus rt = TokenStatusRevoked \<or> rtRevokedAt rt \<noteq> None then err ErrTokenRevoked
      else if rtStatus rt = TokenStatusExpired then err ErrTokenExpired
      else case rtExpiresAt rt of
        None \<Rightarrow> ok rt
      | Some e \<Rightarrow> do {
          now \<leftarrow> core Now;
          (if now > e then err ErrTokenExpired else ok rt)
        })"

definition token_Validate :: "ctx \<Rightarrow> string \<Rightarrow> RunnerToken AG" where
  "token_Validate c token =
     (let pre = ExtractPrefix token in
      if pre \<noteq> PrefixRunnerToken
      then (if pre = PrefixAPIKey \<or> pre = PrefixTunnelToken then err ErrInvalidPrefix else err ErrInvalidToken)
      else if \<not> ValidateTokenFormat token PrefixRunnerToken then err ErrInvalidToken
      else do {
        hash \<leftarrow> HashToken token;
        guard_ok (map_err (not_found_as ErrTokenNotFound) (GetRunnerTokenByHash c hash)) token_alive
      })"

text \<open>\<open>get_token\<close> is the look-up every operation on an existing token starts with.\<close>

definition get_token :: "ctx \<Rightarrow> string \<Rightarrow> RunnerToken AG" where
  "get_token c tid = map_err (not_found_as ErrTokenNotFound) (GetRunnerToken c tid)"

definition rotation_running :: "RunnerToken \<Rightarrow> bool A" where
  "rotation_running token =
     (case rtRotationDeadline token of
        Some d \<Rightarrow> if rtStatus token = TokenStatusRotating
          then do { now \<leftarrow> core Now; ret (now < d) } else ret False
      | None \<Rightarrow> ret False)"

text \<open>The part of \<^verbatim>\<open>Rotate\<close> behind its guards.\<close>

definition rotate_row :: "ctx \<Rightarrow> RunnerToken \<Rightarrow> string AG" where
  "rotate_row c existing = guard_ok GenerateRunnerToken (\<lambda>(newToken, newDisplayPrefix, newHash, _). do {
     now \<leftarrow> core Now;
     window \<leftarrow> env_asks ae_rotation_window;
     guard_ok (UpdateRunnerToken c (rtID existing) (no_token_updates\<lparr>
         rtuPreviousTokenHash := Some (rtTokenHash existing), rtuTokenHash := Some newHash,
         rtuTokenPrefix := Some newDisplayPrefix, rtuStatus := Some TokenStatusRotating,
         rtuRotationDeadline := Some (now + window)\<rparr>)) (\<lambda>_. ok newToken)
   })"

definition token_Rotate :: "ctx \<Rightarrow> string \<Rightarrow> string AG" where
  "token_Rotate c tid = guard_ok (get_token c tid) (\<lambda>existing. do {
     busy \<leftarrow> rotation_running existing;
     (if busy then err ErrRotationInProgress
      else if rtStatus existing = TokenStatusRevoked \<or> rtRevokedAt existing \<noteq> None then err ErrTokenRevoked
      else rotate_row c existing)
   })"

definition token_CompleteRotation :: "ctx \<Rightarrow> string \<Rightarrow> unit AG" where
  "token_CompleteRotation c tid = guard_ok (get_token c tid) (\<lambda>token.
     if rtStatus token \<noteq> TokenStatusRotating then ok ()
     else do {
       open \<leftarrow> (case rtRotationDeadline token of
          Some d \<Rightarrow> do { now \<leftarrow> core Now; ret (now < d) } | None \<Rightarrow> ret False);
       (if open then err ErrRotationWindowOpen
        else UpdateRunnerToken c tid (no_token_updates\<lparr>
          rtuPreviousTokenHash := Some [], rtuStatus := Some TokenStatusActive\<rparr>))
     })"

definition token_BindRunner :: "ctx \<Rightarrow> string \<Rightarrow> string \<Rightarrow> unit AG" where
  "token_BindRunner c tid runnerID = guard_ok (get_token c tid) (\<lambda>token.
     if rtRunnerID token \<noteq> None \<and> rtRunnerID token \<noteq> Some runnerID then err ErrTokenAlreadyBound
     else UpdateRunnerToken c tid (no_token_updates\<lparr>rtuRunnerID := Some runnerID\<rparr>))"

definition token_UnbindRunner :: "ctx \<Rightarrow> string \<Rightarrow> unit AG" where
  "token_UnbindRunner c tid = guard_ok (get_token c tid) (\<lambda>_.
     UpdateRunnerToken c tid (no_token_updates\<lparr>rtuRunnerID := Some []\<rparr>))"

definition token_Get :: "ctx \<Rightarrow> string \<Rightarrow> RunnerToken AG" where
  "token_Get c tid = guard_ok (get_token c tid) ok"

definition token_List :: "ctx \<Rightarrow> ListRunnerTokensOptions \<Rightarrow> RunnerToken list AG" where
  "token_List c opts = guard_ok (ListRunnerTokens c opts) (\<lambda>result. ok (lrItems result))"

definition token_Revoke :: "ctx \<Rightarrow> string \<Rightarrow> string \<Rightarrow> unit AG" where
  "token_Revoke c tid reason = guard_ok (get_token c tid) (\<lambda>_. do {
     now \<leftarrow> core Now;
     UpdateRunnerToken c tid (no_token_updates\<lparr>rtuStatus := Some TokenStatusRevoked,
       rtuRevokedAt := Some now, rtuRevokeReason := (if reason = [] then None else Some reason)\<rparr>)
   })"

definition token_UpdateLastUsed :: "ctx \<Rightarrow> string \<Rightarrow> unit AG" where
  "token_UpdateLastUsed c tid = do {
     now \<leftarrow> core Now;
     UpdateRunnerToken c tid (no_token_updates\<lparr>rtuLastUsedAt := Some now\<rparr>)
   }"

section \<open>API keys\<close>

definition CreateAPIKey :: "ctx \<Rightarrow> APIKey \<Rightarrow> APIKey AG" where
  "CreateAPIKey c k = exec_auth (\<lambda>now. createAPIKey now c k)"

definition GetAPIKey :: "ctx \<Rightarrow> string \<Rightarrow> APIKey AG" where
  "GetAPIKey c kid = query_auth (getAPIKey c kid)"

definition GetAPIKeyByHash :: "ctx \<Rightarrow> string \<Rightarrow> APIKey AG" where
  "GetAPIKeyByHash c h = query_auth (getAPIKeyByHash c h)"

definition ListAPIKeys :: "ctx \<Rightarrow> ListAPIKeysOptions \<Rightarrow> APIKey ListResult AG" where
  "ListAPIKeys c opts = query_auth (listAPIKeys c opts)"

definition UpdateAPIKey :: "ctx \<Rightarrow> string \<Rightarrow> APIKeyUpdates \<Rightarrow> unit AG" where
  "UpdateAPIKey c kid u = exec_auth (\<lambda>_. updateAPIKey c kid u)"

record CreateAPIKeyOptions =
  cakName :: string
  cakScopes :: "string list"
  cakTenantID :: "string option"
  cakLabels :: "(string \<times> string) list option"
  cakAnnotations :: "(string \<times> string) list option"
  cakExpiresAt :: "int option"
  cakCreatedBy :: "string option"

definition key_Create :: "ctx \<Rightarrow> CreateAPIKeyOptions \<Rightarrow> (APIKey \<times> string) AG" where
  "key_Create c opts =
     (if TrimSpace (cakName opts) = [] then err ErrInvalidName
      else guard_ok GenerateAPIKey (\<lambda>(token, displayPrefix, hash, version). do {
        kid \<leftarrow> core new_id;
        now \<leftarrow> core Now;
        let key = \<lparr>akID = kid, akName = TrimSpace (cakName opts), akKeyHash = hash, akKeyPrefix = displayPrefix,
          akHashVersion = version, akScopes = cakScopes opts, akTenantID = cakTenantID opts,
          akLabels = marshal_map (cakLabels opts), akAnnotations = marshal_map (cakAnnotations opts),
          akCreatedAt = now, akCreatedBy = cakCreatedBy opts, akLastUsedAt = None,
          akExpiresAt = cakExpiresAt opts, akRevokedAt = None, akRevokeReason = None\<rparr>;
        guard_ok (CreateAPIKey c key) (\<lambda>key'. ok (key', token))
      }))"

definition key_alive :: "APIKey \<Rightarrow> APIKey AG" where
  "key_alive key =
     (if akRevokedAt key \<noteq> None then err ErrTokenRevoked
      else case akExpiresAt key of
        None \<Rightarrow> ok key
      | Some e \<Rightarrow> do {
          now \<leftarrow> core Now;
          (if now > e then err ErrTokenExpired else ok key)
        })"

definition key_Validate :: "ctx \<Rightarrow> string \<Rightarrow> APIKey AG" where
  "key_Validate c token =
     (let pre = ExtractPrefix token in
      if pre \<noteq> PrefixAPIKey
      then (if pre = PrefixRunnerToken \<or> pre = PrefixTunnelToken then err ErrInvalidPrefix else err ErrInvalidToken)
      else if \<not> ValidateTokenFormat token PrefixAPIKey then err ErrInvalidToken
      else do {
        hash \<leftarrow> HashToken token;
        guard_ok (map_err (not_found_as ErrTokenNotFound) (GetAPIKeyByHash c hash)) key_alive
      })"

definition key_Get :: "ctx \<Rightarrow> string \<Rightarrow> APIKey AG" where
  "key_Get c kid = map_err (not_found_as ErrTokenNotFound) (GetAPIKey c kid)"

definition key_List :: "ctx \<Rightarrow> ListAPIKeysOptions \<Rightarrow> APIKey list AG" where
  "key_List c opts = guard_ok (ListAPIKeys c opts) (\<lambda>result. ok (lrItems result))"

definition key_Revoke :: "ctx \<Rightarrow> string \<Rightarrow> string \<Rightarrow> unit AG" where
  "key_Revoke c kid reason =
     guard_ok (map_err (not_found_as ErrTokenNotFound) (GetAPIKey c kid)) (\<lambda>_. do {
       now \<leftarrow> core Now;
       UpdateAPIKey c kid (no_key_updates\<lparr>auRevokedAt := Some now,
         auRevokeReason := (if reason = [] then None else Some reason)\<rparr>)
     })"

definition key_UpdateLastUsed :: "ctx \<Rightarrow> string \<Rightarrow> unit AG" where
  "key_UpdateLastUsed c kid = do {
     now \<leftarrow> core Now;
     UpdateAPIKey c kid (no_key_updates\<lparr>auLastUsedAt := Some now\<rparr>)
   }"

section \<open>Scopes\<close>

text \<open>One turn of the loop of \<^verbatim>\<open>HasScope\<close>.\<close>

definition scope_grants :: "string \<Rightarrow> string \<Rightarrow> bool" where
  "scope_grants scope required \<longleftrightarrow>
     scope = required \<or>
     (suffix '':*'' scope \<and> prefix (butlast scope) required) \<or>
     scope = ''*''"

definition HasScope :: "APIKey option \<Rightarrow> string \<Rightarrow> bool" where
  "HasScope key required =
     (case key of None \<Rightarrow> False | Some k \<Rightarrow> list_ex (\<lambda>scope. scope_grants scope required) (akScopes k))"

definition HasAnyScope :: "APIKey option \<Rightarrow> string list \<Rightarrow> bool" where
  "HasAnyScope key required = list_ex (HasScope key) required"

definition HasAllScopes :: "APIKey option \<Rightarrow> string list \<Rightarrow> bool" where
  "HasAllScopes key required = list_all (HasScope key) required"

end
