(* ===== verification/Runner_Manager.thy ===== *)
theory Runner_Manager
  imports Task_Manager Session_Manager
begin

text \<open>
  The life of a runner: \<^verbatim>\<open>runner_manager.go\<close> with its stale detector, and the reaper of orphaned
  managed runners, \<^verbatim>\<open>reaper.go\<close>.
\<close>

section \<open>Status\<close>

definition isValidTransition :: "string \<Rightarrow> string \<Rightarrow> bool" where
  "isValidTransition from to =
     (if to = StatusOffline then True
      else if to = StatusPaused then True
      else if from = StatusOffline then to = StatusIdle
      else if from = StatusIdle then to = StatusBusy \<or> to = StatusIdle
      else if from = StatusBusy then to = StatusIdle \<or> to = StatusBusy
      else if from = StatusPaused then to = StatusIdle
      else True)"

definition WakeTriggerRunnerFreed :: string where "WakeTriggerRunnerFreed = ''runner_freed''"
definition WakeTriggerRunnerJoined :: string where "WakeTriggerRunnerJoined = ''runner_joined''"

definition rm_wake :: "string \<Rightarrow> unit M" where
  "rm_wake trigger = do { cfg \<leftarrow> asks e_cfg; (if cfgWaker cfg then emit (Wake trigger) else ret ()) }"

definition webhook_runner :: "ctx \<Rightarrow> string \<Rightarrow> string \<Rightarrow> unit M" where
  "webhook_runner c event runnerID = do {
     cfg \<leftarrow> asks e_cfg;
     (if cfgWebhooks cfg then do {
        r \<leftarrow> GetRunner c runnerID;
        (case r of Inl _ \<Rightarrow> ret () | Inr _ \<Rightarrow> emit (Webhook event runnerID))
      } else ret ())
   }"

definition OnConnect :: "ctx \<Rightarrow> string \<Rightarrow> unit G" where
  "OnConnect c runnerID =
     guard_ok (GetRunner c runnerID) (\<lambda>_. do {
       now \<leftarrow> Now;
       guard_ok (UpdateRunner c runnerID (no_runner_updates\<lparr>
           ruStatus := Some StatusIdle, ruLastSeenAt := Some now\<rparr>)) (\<lambda>_. do {
         _ \<leftarrow> webhook_runner c ''runner.connected'' runnerID;
         _ \<leftarrow> background_Go (JobRunnerAttachResuming runnerID);
         ok ()
       })
     })"

definition resuming_opts :: ListSessionsOptions where
  "resuming_opts = \<lparr>lsoBase = default_opts, lsoStatus = [SessionStatusResuming], lsoRunnerID = None,
     lsoWorkspaceID = None, lsoAgent = None, lsoLifecycleMode = None\<rparr>"

fun attach_first :: "ctx \<Rightarrow> string \<Rightarrow> Session list \<Rightarrow> unit M" where
  "attach_first c runnerID [] = ret ()"
| "attach_first c runnerID (sess # rest) =
     (if nonempty (sRunnerID sess) then attach_first c runnerID rest
      else do {
        r \<leftarrow> AttachRunner c (sID sess) runnerID;
        (case r of Inl _ \<Rightarrow> attach_first c runnerID rest | Inr _ \<Rightarrow> ret ())
      })"

definition tryAttachToResumingSession :: "ctx \<Rightarrow> string \<Rightarrow> unit M" where
  "tryAttachToResumingSession c runnerID = do {
     cfg \<leftarrow> asks e_cfg;
     (if \<not> cfgSessionManager cfg then ret ()
      else do {
        r \<leftarrow> ListSessions c resuming_opts;
        (case r of Inl _ \<Rightarrow> ret () | Inr res \<Rightarrow> attach_first c runnerID (lrItems res))
      })
   }"

section \<open>Disconnect\<close>

definition in_flight_on_opts :: "string \<Rightarrow> ListTaskRunsOptions" where
  "in_flight_on_opts runnerID =
     \<lparr>lroBase = default_opts, lroTaskID = None, lroRunnerID = Some runnerID,
      lroStatus = [TaskRunStatusAssigned, TaskRunStatusRunning]\<rparr>"

text \<open>The tasks whose run was failed, without repetition; Go ranges over a map.\<close>

fun fail_runs :: "ctx \<Rightarrow> TaskRun list \<Rightarrow> string list \<Rightarrow> string list M" where
  "fail_runs c [] acc = ret acc"
| "fail_runs c (run # rest) acc = do {
     r \<leftarrow> FailRun c (trID run) ''runner disconnected'';
     (case r of
        Inl _ \<Rightarrow> fail_runs c rest acc
      | Inr _ \<Rightarrow> fail_runs c rest (if trTaskID run \<in> set acc then acc else trTaskID run # acc))
   }"

definition handleInFlightTasks :: "ctx \<Rightarrow> string \<Rightarrow> unit G" where
  "handleInFlightTasks c runnerID = do {
     cfg \<leftarrow> asks e_cfg;
     (if \<not> cfgTaskManager cfg then ok ()
      else guard_ok (ListTaskRuns c (in_flight_on_opts runnerID)) (\<lambda>runs.
        if lrItems runs = [] then ok ()
        else do {
          tasksToRetry \<leftarrow> fail_runs c (lrItems runs) [];
          _ \<leftarrow> for_each (\<lambda>taskID. ignore_err (ShouldRetry c taskID)) tasksToRetry;
          ok ()
        }))
   }"

definition detachSessions :: "ctx \<Rightarrow> string \<Rightarrow> unit G" where
  "detachSessions c runnerID = do {
     cfg \<leftarrow> asks e_cfg;
     (if \<not> cfgSessionManager cfg then ok ()
      else guard_ok (ListSessions c (active_on_opts runnerID)) (\<lambda>res. do {
        _ \<leftarrow> for_each (\<lambda>sess. ignore_err (Suspend c (sID sess) ''terminate'')) (lrItems res);
        ok ()
      }))
   }"

definition OnDisconnect :: "ctx \<Rightarrow> string \<Rightarrow> unit G" where
  "OnDisconnect c runnerID =
     guard_ok (UpdateRunner c runnerID (no_runner_updates\<lparr>ruStatus := Some StatusOffline\<rparr>)) (\<lambda>_. do {
       _ \<leftarrow> ignore_err (handleInFlightTasks c runnerID);
       _ \<leftarrow> ignore_err (detachSessions c runnerID);
       _ \<leftarrow> webhook_runner c ''runner.disconnected'' runnerID;
       ok ()
     })"

section \<open>Heartbeats and status reports\<close>

definition OnHeartbeat :: "ctx \<Rightarrow> string \<Rightarrow> string \<Rightarrow> unit G" where
  "OnHeartbeat c runnerID status = do {
     now \<leftarrow> Now;
     guard_ok
       (if status \<noteq> '''' then
          guard_ok (GetRunner c runnerID) (\<lambda>runner.
            ok (no_runner_updates\<lparr>ruLastSeenAt := Some now,
                  ruStatus := (if isValidTransition (rStatus runner) status then Some status else None)\<rparr>))
        else ok (no_runner_updates\<lparr>ruLastSeenAt := Some now\<rparr>)) (\<lambda>updates.
     guard_ok (UpdateRunner c runnerID updates) (\<lambda>_. do {
       cfg \<leftarrow> asks e_cfg;
       _ \<leftarrow> (if cfgConnManager cfg then emit (ConnectionSeen runnerID) else ret ());
       ok ()
     }))
   }"

definition SetStatus :: "ctx \<Rightarrow> string \<Rightarrow> string \<Rightarrow> unit G" where
  "SetStatus c runnerID status =
     guard_ok (GetRunner c runnerID) (\<lambda>runner.
       if \<not> isValidTransition (rStatus runner) status then err ErrInvalidStatusTransition
       else guard_ok (UpdateRunner c runnerID (no_runner_updates\<lparr>ruStatus := Some status\<rparr>)) (\<lambda>_. do {
         _ \<leftarrow> (if status = StatusIdle \<and> rStatus runner \<noteq> StatusIdle
               then rm_wake WakeTriggerRunnerFreed else ret ());
         ok ()
       }))"

section \<open>The stale detector\<close>

definition DefaultStaleThreshold :: int where "DefaultStaleThreshold = 90 * Second"

definition online_opts :: ListRunnersOptions where
  "online_opts = \<lparr>lnoBase = default_opts, lnoStatus = [StatusIdle, StatusBusy, StatusPaused],
     lnoPoolName = None, lnoTainted = None, lnoLabels = []\<rparr>"

text \<open>\<open>rm\<close> says whether a runner manager is wired.\<close>

definition markStale :: "bool \<Rightarrow> ctx \<Rightarrow> string \<Rightarrow> unit G" where
  "markStale rm c runnerID =
     (if rm then OnDisconnect c runnerID
      else UpdateRunner c runnerID (no_runner_updates\<lparr>ruStatus := Some StatusOffline\<rparr>))"

definition check_stale :: "bool \<Rightarrow> int \<Rightarrow> ctx \<Rightarrow> int \<Rightarrow> Runner \<Rightarrow> unit M" where
  "check_stale rm threshold c now runner =
     (case rLastSeenAt runner of
        None \<Rightarrow> do {
          cfg \<leftarrow> asks e_cfg;
          conn \<leftarrow> asks e_connected;
          (if cfgConnManager cfg \<and> \<not> conn (rID runner) then ignore_err (markStale rm c (rID runner))
           else ret ())
        }
      | Some seen \<Rightarrow>
          if time_Sub now seen > threshold then ignore_err (markStale rm c (rID runner)) else ret ())"

definition checkStaleRunners :: "bool \<Rightarrow> int \<Rightarrow> ctx \<Rightarrow> unit G" where
  "checkStaleRunners rm threshold c =
     guard_ok (ListRunners c online_opts) (\<lambda>res. do {
       now \<leftarrow> Now;
       _ \<leftarrow> for_each (check_stale rm threshold c now) (lrItems res);
       ok ()
     })"

section \<open>The reaper\<close>

definition DefaultReapMinAge :: int where "DefaultReapMinAge = 5 * Minute"
definition DefaultReapMaxAttempts :: nat where "DefaultReapMaxAttempts = 5"
definition reapBatchSize :: int where "reapBatchSize = 200"

record Reaper =
  rpMinAge :: int
  rpMaxAttempts :: nat
  rpAttempts :: "string \<Rightarrow> nat"

definition owner_opts :: "string \<Rightarrow> ListSessionsOptions" where
  "owner_opts runnerID = \<lparr>lsoBase = default_opts\<lparr>loLimit := 1\<rparr>, lsoStatus = liveSessionStatuses,
     lsoRunnerID = Some runnerID, lsoWorkspaceID = None, lsoAgent = None, lsoLifecycleMode = None\<rparr>"

definition suspended_opts :: ListSessionsOptions where
  "suspended_opts = \<lparr>lsoBase = default_opts\<lparr>loLimit := reapBatchSize\<rparr>,
     lsoStatus = [SessionStatusSuspended, SessionStatusResuming], lsoRunnerID = None,
     lsoWorkspaceID = None, lsoAgent = None, lsoLifecycleMode = None\<rparr>"

definition hasLiveSession :: "ctx \<Rightarrow> string \<Rightarrow> bool G" where
  "hasLiveSession c runnerID =
     guard_ok (ListSessions c (owner_opts runnerID)) (\<lambda>byRunner.
       if lrItems byRunner \<noteq> [] then ok True
       else guard_ok (ListSessions c suspended_opts) (\<lambda>suspended.
         ok (list_ex (\<lambda>s. sPreviousRunnerID s = Some runnerID) (lrItems suspended))))"

definition shouldReap :: "Reaper \<Rightarrow> ctx \<Rightarrow> Runner \<Rightarrow> int \<Rightarrow> bool M" where
  "shouldReap rp c runner now =
     (if \<not> nonempty (rProviderConfigID runner) then ret False
      else if nonempty (rPoolName runner) then ret False
      else if time_Sub now (rCreatedAt runner) < rpMinAge rp then ret False
      else if rpAttempts rp (rID runner) \<ge> rpMaxAttempts rp then ret False
      else do {
        r \<leftarrow> hasLiveSession c (rID runner);
        ret (case r of Inl _ \<Rightarrow> False | Inr claimed \<Rightarrow> \<not> claimed)
      })"

definition reaper_providerFor :: "ctx \<Rightarrow> Runner \<Rightarrow> Provider G" where
  "reaper_providerFor c runner =
     guard_ok (GetProviderConfig c (stringValue (rProviderConfigID runner))) (\<lambda>provConfig.
       registry_Get (pcName provConfig))"

definition reap :: "ctx \<Rightarrow> Runner \<Rightarrow> Reaper \<Rightarrow> (bool \<times> Reaper) M" where
  "reap c runner rp = do {
     p \<leftarrow> reaper_providerFor c runner;
     (case p of
        Inl _ \<Rightarrow> ret (False, rp)
      | Inr prov \<Rightarrow>
          if pvType prov \<noteq> ProviderTypeManaged then ret (False, rp)
          else do {
            d \<leftarrow> provider_call (ProviderDestroy (pvName prov) (rID runner));
            (case d of
               Inl _ \<Rightarrow> do {
                 let attempts = rpAttempts rp (rID runner) + 1;
                 _ \<leftarrow> (if attempts \<ge> rpMaxAttempts rp then emit_audit ''runner.released'' (rID runner) else ret ());
                 ret (False, rp\<lparr>rpAttempts := (rpAttempts rp)(rID runner := attempts)\<rparr>)
               }
             | Inr _ \<Rightarrow> do {
                 _ \<leftarrow> ignore_err (UpdateRunner c (rID runner) (no_runner_updates\<lparr>ruStatus := Some StatusOffline\<rparr>));
                 _ \<leftarrow> emit_audit ''runner.released'' (rID runner);
                 ret (True, rp\<lparr>rpAttempts := (rpAttempts rp)(rID runner := 0)\<rparr>)
               })
          })
   }"

fun reap_each :: "ctx \<Rightarrow> int \<Rightarrow> Runner list \<Rightarrow> Reaper \<Rightarrow> Reaper M" where
  "reap_each c now [] rp = ret rp"
| "reap_each c now (runner # rest) rp = do {
     b \<leftarrow> shouldReap rp c runner now;
     (if \<not> b then reap_each c now rest rp
      else do { r \<leftarrow> reap c runner rp; reap_each c now rest (snd r) })
   }"

definition all_runners_opts :: ListRunnersOptions where
  "all_runners_opts = \<lparr>lnoBase = default_opts\<lparr>loLimit := reapBatchSize\<rparr>, lnoStatus = [],
     lnoPoolName = None, lnoTainted = None, lnoLabels = []\<rparr>"

definition reaper_Sweep :: "ctx \<Rightarrow> Reaper \<Rightarrow> (gerr option \<times> Reaper) M" where
  "reaper_Sweep c rp = do {
     r \<leftarrow> ListRunners c all_runners_opts;
     (case r of
        Inl e \<Rightarrow> ret (Some e, rp)
      | Inr res \<Rightarrow> do {
          now \<leftarrow> Now;
          rp1 \<leftarrow> reap_each c now (lrItems res) rp;
          ret (None, rp1)
        })
   }"

end
