(* ===== verification/Provisioner.thy ===== *)
theory Provisioner
  imports Auth_Service Runner_Manager
begin

text \<open>
  How a runner comes to exist: spawning on a managed provider (\<^verbatim>\<open>runner_provisioner.go\<close>), on behalf
  of a session with nowhere to run (\<^verbatim>\<open>autospawn.go\<close>) or for a resumed one (the managed branch of
  \<^verbatim>\<open>requestRunnerForResume\<close>), and the registration of the agent that comes up in the instance
  (\<^verbatim>\<open>runner_registry.go\<close>). Logging is left out.
\<close>

section \<open>Store methods\<close>

text \<open>\<^verbatim>\<open>createRunner\<close> generates an id when the caller left it empty.\<close>

definition CreateRunner :: "ctx \<Rightarrow> Runner \<Rightarrow> Runner AG" where
  "CreateRunner c r = core (do {
     rid \<leftarrow> (if rID r = [] then new_id else ret (rID r));
     exec_stmt (\<lambda>now. createRunner now c (r\<lparr>rID := rid\<rparr>))
   })"

definition DeleteRunner :: "ctx \<Rightarrow> string \<Rightarrow> unit AG" where
  "DeleteRunner c rid = exec_auth (\<lambda>_. deleteRunner c rid)"

definition GetRunnerByName :: "ctx \<Rightarrow> string \<Rightarrow> Runner AG" where
  "GetRunnerByName c name = core (query (getRunnerByName c name))"

definition GetProviderConfigByName :: "ctx \<Rightarrow> string \<Rightarrow> ProviderConfig AG" where
  "GetProviderConfigByName c name = core (query (getProviderConfigByName c name))"

section \<open>Times as text\<close>

definition pad :: "nat \<Rightarrow> int \<Rightarrow> string" where
  "pad n i = (let s = show_int i in replicate (n - length s) CHR ''0'' @ s)"

text \<open>Year, month and day of a day counted from 1970-01-01 (proleptic Gregorian calendar).\<close>

definition civil_from_days :: "int \<Rightarrow> int \<times> int \<times> int" where
  "civil_from_days z =
     (let z' = z + 719468; era = z' div 146097; doe = z' mod 146097;
          yoe = (doe - doe div 1460 + doe div 36524 - doe div 146096) div 365;
          doy = doe - (365 * yoe + yoe div 4 - yoe div 100);
          mp = (5 * doy + 2) div 153;
          dd = doy - (153 * mp + 2) div 5 + 1;
          mm = (if mp < 10 then mp + 3 else mp - 9)
      in (yoe + era * 400 + (if mm \<le> 2 then 1 else 0), mm, dd))"

text \<open>\<^verbatim>\<open>Format("150405")\<close> and \<^verbatim>\<open>Format("20060102150405")\<close> of a UTC time.\<close>

definition format_clock :: "int \<Rightarrow> string" where
  "format_clock t =
     (let s = (t div Second) mod 86400
      in pad 2 (s div 3600) @ pad 2 (s div 60 mod 60) @ pad 2 (s mod 60))"

definition format_stamp :: "int \<Rightarrow> string" where
  "format_stamp t =
     (case civil_from_days (t div Second div 86400) of
        (y, m, d) \<Rightarrow> pad 4 y @ pad 2 m @ pad 2 d @ format_clock t)"

section \<open>The provisioner\<close>

definition runnerProvisionPool :: string where "runnerProvisionPool = ''managed''"

record ProvisionOptions =
  poName :: string
  poProviderConfigID :: string
  poProviderName :: string
  poProfileID :: string
  poLabels :: "(string \<times> string) list"
  poWorkspaceMount :: string
  poNetworkPolicy :: string
  poAllowedHosts :: "string list"
  poCPUs :: int
  poMemoryMB :: int
  poDiskMB :: int
  poClaimForSessionID :: string

definition empty_provision :: ProvisionOptions where
  "empty_provision = \<lparr>poName = [], poProviderConfigID = [], poProviderName = [], poProfileID = [],
     poLabels = [], poWorkspaceMount = [], poNetworkPolicy = [], poAllowedHosts = [], poCPUs = 0,
     poMemoryMB = 0, poDiskMB = 0, poClaimForSessionID = []\<rparr>"

definition registry_GetDefault :: "Provider AG" where
  "registry_GetDefault = do {
     cfg \<leftarrow> env_asks ae_prov;
     (if prDefault cfg = [] then err (ErrProvider ''default'') else core (registry_Get (prDefault cfg)))
   }"

definition resolveProvider :: "ctx \<Rightarrow> ProvisionOptions \<Rightarrow> (Provider \<times> string) AG" where
  "resolveProvider c opts = do {
     cfg \<leftarrow> core (asks e_cfg);
     (if \<not> cfgProviderRegistry cfg then err ErrProviderRequired
      else if poProviderConfigID opts \<noteq> [] then
        guard_ok (core (GetProviderConfig c (poProviderConfigID opts))) (\<lambda>provConfig.
          guard_ok (core (registry_Get (pcName provConfig))) (\<lambda>prov. ok (prov, pcID provConfig)))
      else
        guard_ok (if poProviderName opts = [] then registry_GetDefault
                  else core (registry_Get (poProviderName opts))) (\<lambda>prov. do {
          r \<leftarrow> GetProviderConfigByName c (pvName prov);
          ok (prov, case r of Inl _ \<Rightarrow> [] | Inr cfg \<Rightarrow> pcID cfg)
        }))
   }"

definition rollback :: "ctx \<Rightarrow> string \<Rightarrow> unit A" where
  "rollback c runnerID = ignore_err (DeleteRunner c runnerID)"

definition provisioned_runner ::
  "string \<Rightarrow> string \<Rightarrow> ctx \<Rightarrow> string \<Rightarrow> ProvisionOptions \<Rightarrow> Runner" where
  "provisioned_runner rid name c provConfigID opts =
     \<lparr>rID = rid, rName = name, rHostname = [], rStatus = StatusOffline, rTainted = False,
      rTaintReason = None, rSandboxMode = ''runner-is-sandbox'', rSandboxTypes = [],
      rProviderConfigID = (if provConfigID = [] then None else Some provConfigID),
      rProviderInstanceID = None, rPoolName = Some runnerProvisionPool,
      rProfileID = (if poProfileID opts = [] then None else Some (poProfileID opts)),
      rCapabilities = [], rTenantID = TenantFromContext c,
      rLabels = (if poLabels opts = [] then JObj [] else marshal_map (Some (poLabels opts))),
      rAnnotations = JObj [], rLastSeenAt = None, rCreatedAt = 0, rUpdatedAt = 0\<rparr>"

text \<open>The second half of \<^verbatim>\<open>prepare\<close>: a token bound to the row just written.\<close>

definition issue_token :: "ctx \<Rightarrow> ProvisionOptions \<Rightarrow> Runner \<Rightarrow> (Runner \<times> string) AG" where
  "issue_token c opts runner = do {
     r \<leftarrow> token_Create c \<lparr>crtPoolName = runnerProvisionPool, crtTenantID = rTenantID runner,
       crtLabels = (if poLabels opts = [] then None else Some (poLabels opts)),
       crtExpiresAt = None, crtCreatedBy = None\<rparr>;
     (case r of
        Inl e \<Rightarrow> do { _ \<leftarrow> rollback c (rID runner); err e }
      | Inr (record_, token) \<Rightarrow> do {
          b \<leftarrow> token_BindRunner c (rtID record_) (rID runner);
          (case b of
             Inl e \<Rightarrow> do {
               _ \<leftarrow> ignore_err (token_Revoke c (rtID record_) ''runner provisioning failed'');
               _ \<leftarrow> rollback c (rID runner);
               err e
             }
           | Inr _ \<Rightarrow> ok (runner, token))
        })
   }"

definition prepare :: "ctx \<Rightarrow> string \<Rightarrow> ProvisionOptions \<Rightarrow> (Runner \<times> string) AG" where
  "prepare c provConfigID opts = do {
     cfg \<leftarrow> env_asks ae_prov;
     (if \<not> prTokens cfg then err ErrRunnerTokenSvcRequired
      else do {
        name \<leftarrow> (if poName opts = [] then do { now \<leftarrow> core Now; ret (''runner-'' @ format_stamp now) }
                else ret (poName opts));
        rid \<leftarrow> core new_id;
        guard_ok (CreateRunner c (provisioned_runner rid name c provConfigID opts)) (issue_token c opts)
      })
   }"

definition claimFor :: "ctx \<Rightarrow> string \<Rightarrow> string \<Rightarrow> unit A" where
  "claimFor c runnerID sessionID =
     (if sessionID = [] then ret ()
      else core (ignore_err (ClaimRunner c runnerID sessionID DefaultRunnerClaimLease)))"

definition spawnOptions :: "Runner \<Rightarrow> string \<Rightarrow> ProvisionOptions \<Rightarrow> SpawnOptions A" where
  "spawnOptions runner token opts = do {
     cfg \<leftarrow> env_asks ae_prov;
     ret \<lparr>spRunnerID = rID runner, spName = rName runner, spServerURL = prServerURL cfg,
       spRunnerToken = token, spLabels = poLabels opts, spSandboxMode = rSandboxMode runner,
       spMemoryMB = poMemoryMB opts, spCPUs = poCPUs opts, spDiskMB = poDiskMB opts,
       spWorkspaceMount = poWorkspaceMount opts, spTenantID = stringValue (rTenantID runner),
       spNetworkPolicy = poNetworkPolicy opts, spAllowedHosts = poAllowedHosts opts\<rparr>
   }"

text \<open>
  A call of the provider's \<^verbatim>\<open>Spawn\<close> or \<^verbatim>\<open>Resume\<close>: it took effect and is recorded, or it reports an
  error. An error does not say that nothing runs: a provider may have created the instance and failed
  afterwards, or failed to remove it again, or only its answer was lost. Whether a failing call
  leaves an instance is the environment's choice (\<open>ae_stray\<close>), and the ones left are recorded
  in \<open>aw_strays\<close>.
\<close>

definition provider_start ::
  "string \<Rightarrow> (SpawnOptions \<Rightarrow> auth_world \<Rightarrow> auth_world) \<Rightarrow> SpawnOptions \<Rightarrow> RunnerInstance AG" where
  "provider_start name note opts = do {
     t \<leftarrow> core next_tick;
     f \<leftarrow> core (asks e_provider_err);
     stray \<leftarrow> env_asks ae_stray;
     (case f t of
        Some m \<Rightarrow> do {
          _ \<leftarrow> State (\<lambda>a. ((), if stray t then a\<lparr>aw_strays := aw_strays a @ [(name, opts)]\<rparr> else a));
          err (ErrProvider m)
        }
      | None \<Rightarrow> do {
          _ \<leftarrow> State (\<lambda>a. ((), note opts a));
          i \<leftarrow> env_asks ae_instance;
          ok (i t)
        })
   }"

definition prov_Spawn :: "Provider \<Rightarrow> SpawnOptions \<Rightarrow> RunnerInstance AG" where
  "prov_Spawn prov = provider_start (pvName prov) (\<lambda>opts a. a\<lparr>aw_spawned := aw_spawned a @ [(pvName prov, opts)]\<rparr>)"

definition prov_Resume :: "Provider \<Rightarrow> SpawnOptions \<Rightarrow> RunnerInstance AG" where
  "prov_Resume prov = provider_start (pvName prov) (\<lambda>opts a. a\<lparr>aw_resumed := aw_resumed a @ [(pvName prov, opts)]\<rparr>)"

definition recordInstance :: "ctx \<Rightarrow> string \<Rightarrow> string \<Rightarrow> unit A" where
  "recordInstance c runnerID instanceID =
     (if instanceID = [] then ret ()
      else core (ignore_err (UpdateRunner c runnerID
        (no_runner_updates\<lparr>ruProviderInstanceID := Some instanceID\<rparr>))))"

definition provisioner_Spawn :: "ctx \<Rightarrow> ProvisionOptions \<Rightarrow> Runner AG" where
  "provisioner_Spawn c opts = guard_ok (resolveProvider c opts) (\<lambda>(prov, provConfigID).
     if pvType prov \<noteq> ProviderTypeManaged then err ErrProviderNotManaged
     else guard_ok (prepare c provConfigID opts) (\<lambda>(runner, token). do {
       _ \<leftarrow> claimFor c (rID runner) (poClaimForSessionID opts);
       so \<leftarrow> spawnOptions runner token opts;
       r \<leftarrow> prov_Spawn prov so;
       (case r of
          Inl e \<Rightarrow> do { _ \<leftarrow> rollback c (rID runner); err e }
        | Inr inst \<Rightarrow> do {
            _ \<leftarrow> recordInstance c (rID runner) (riProviderID inst);
            ok (runner\<lparr>rProviderInstanceID := Some (riProviderID inst)\<rparr>)
          })
     }))"

definition PrepareSpawn :: "ctx \<Rightarrow> ProvisionOptions \<Rightarrow> SpawnOptions AG" where
  "PrepareSpawn c opts = guard_ok (resolveProvider c opts) (\<lambda>(_, provConfigID).
     guard_ok (prepare c provConfigID opts) (\<lambda>(runner, token). do {
       _ \<leftarrow> claimFor c (rID runner) (poClaimForSessionID opts);
       so \<leftarrow> spawnOptions runner token opts;
       ok so
     }))"

definition runner_tokens_opts :: "string \<Rightarrow> ListRunnerTokensOptions" where
  "runner_tokens_opts runnerID = \<lparr>ltkBase = default_opts, ltkPoolName = None, ltkRunnerID = Some runnerID,
     ltkStatus = [], ltkIncludeRevoked = False\<rparr>"

definition DiscardPrepared :: "ctx \<Rightarrow> string \<Rightarrow> unit A" where
  "DiscardPrepared c runnerID = do {
     cfg \<leftarrow> env_asks ae_prov;
     _ \<leftarrow> (if \<not> prTokens cfg then ret ()
          else do {
            r \<leftarrow> token_List c (runner_tokens_opts runnerID);
            for_each (\<lambda>token. ignore_err (token_Revoke c (rtID token) ''prepared runner was not spawned''))
              (case r of Inl _ \<Rightarrow> [] | Inr tokens \<Rightarrow> tokens)
          });
     rollback c runnerID
   }"

definition provisioner_Destroy :: "ctx \<Rightarrow> string \<Rightarrow> unit AG" where
  "provisioner_Destroy c runnerID = guard_ok (core (GetRunner c runnerID)) (\<lambda>runner.
     guard_ok
       (if nonempty (rProviderConfigID runner) then
          guard_ok (core (GetProviderConfig c (stringValue (rProviderConfigID runner)))) (\<lambda>provConfig.
            guard_ok (core (registry_Get (pcName provConfig))) (\<lambda>prov.
              guard_ok (core (provider_call (ProviderDestroy (pvName prov) runnerID))) (\<lambda>_. ok ())))
        else ok ())
       (\<lambda>_. core (UpdateRunner c runnerID (no_runner_updates\<lparr>ruStatus := Some StatusOffline\<rparr>))))"

section \<open>Registration\<close>

record RegisterRequest =
  rqToken :: string
  rqName :: string
  rqHostname :: string
  rqSandboxMode :: string
  rqSandboxTypes :: "string list"
  rqCapabilities :: "string list"

record RegisterResult =
  rrRunnerID :: string
  rrIsNew :: bool
  rrPoolName :: string

definition registered_runner :: "RegisterRequest \<Rightarrow> RunnerToken \<Rightarrow> Runner" where
  "registered_runner req tokenInfo =
     \<lparr>rID = [], rName = rqName req, rHostname = rqHostname req, rStatus = ''offline'', rTainted = False,
      rTaintReason = None,
      rSandboxMode = (if rqSandboxMode req = [] then ''runner-is-sandbox'' else rqSandboxMode req),
      rSandboxTypes = rqSandboxTypes req, rProviderConfigID = None, rProviderInstanceID = None,
      rPoolName = Some (rtPoolName tokenInfo), rProfileID = None, rCapabilities = rqCapabilities req,
      rTenantID = rtTenantID tokenInfo, rLabels = JObj [], rAnnotations = JObj [], rLastSeenAt = None,
      rCreatedAt = 0, rUpdatedAt = 0\<rparr>"

definition createNewRunner :: "ctx \<Rightarrow> RegisterRequest \<Rightarrow> RunnerToken \<Rightarrow> RegisterResult AG" where
  "createNewRunner c req tokenInfo =
     guard_ok (CreateRunner c (registered_runner req tokenInfo)) (\<lambda>runner. do {
       _ \<leftarrow> ignore_err (token_BindRunner c (rtID tokenInfo) (rID runner));
       ok \<lparr>rrRunnerID = rID runner, rrIsNew = True, rrPoolName = rtPoolName tokenInfo\<rparr>
     })"

definition handleBoundToken :: "ctx \<Rightarrow> RegisterRequest \<Rightarrow> RunnerToken \<Rightarrow> RegisterResult AG" where
  "handleBoundToken c req tokenInfo = do {
     r \<leftarrow> core (GetRunner c (stringValue (rtRunnerID tokenInfo)));
     (case r of
        Inl e \<Rightarrow>
          if is_not_found e then do {
            _ \<leftarrow> ignore_err (token_UnbindRunner c (rtID tokenInfo));
            createNewRunner c req tokenInfo
          } else err e
      | Inr runner \<Rightarrow>
          guard_ok (core (UpdateRunner c (rID runner) (no_runner_updates\<lparr>
              ruHostname := Some (rqHostname req),
              ruSandboxMode := (if rqSandboxMode req = [] then None else Some (rqSandboxMode req)),
              ruSandboxTypes := (if rqSandboxTypes req = [] then None else Some (rqSandboxTypes req)),
              ruCapabilities := (if rqCapabilities req = [] then None else Some (rqCapabilities req))\<rparr>)))
            (\<lambda>_. ok \<lparr>rrRunnerID = rID runner, rrIsNew = False, rrPoolName = rtPoolName tokenInfo\<rparr>))
   }"

definition handleUnboundToken :: "ctx \<Rightarrow> RegisterRequest \<Rightarrow> RunnerToken \<Rightarrow> RegisterResult AG" where
  "handleUnboundToken c req tokenInfo =
     (if rqName req = [] then createNewRunner c req tokenInfo
      else do {
        r \<leftarrow> GetRunnerByName c (rqName req);
        (case r of
           Inr runner \<Rightarrow>
             guard_ok (token_BindRunner c (rtID tokenInfo) (rID runner)) (\<lambda>_. do {
               _ \<leftarrow> core (ignore_err (UpdateRunner c (rID runner) (no_runner_updates\<lparr>
                 ruHostname := Some (rqHostname req),
                 ruSandboxMode := (if rqSandboxMode req = [] then None else Some (rqSandboxMode req))\<rparr>)));
               ok \<lparr>rrRunnerID = rID runner, rrIsNew = False, rrPoolName = rtPoolName tokenInfo\<rparr>
             })
         | Inl e \<Rightarrow> if is_not_found e then createNewRunner c req tokenInfo else err e)
      })"

definition registry_Register :: "ctx \<Rightarrow> RegisterRequest \<Rightarrow> RegisterResult AG" where
  "registry_Register c req =
     (if rqToken req = [] then err ErrTokenRequired
      else guard_ok (token_Validate c (rqToken req)) (\<lambda>tokenInfo.
        let c' = (if nonempty (rtTenantID tokenInfo) then WithTenant c (stringValue (rtTenantID tokenInfo)) else c)
        in if nonempty (rtRunnerID tokenInfo) then handleBoundToken c' req tokenInfo
           else handleUnboundToken c' req tokenInfo))"

section \<open>Profiles: resources and network\<close>

record ProfileResources =
  resCPU :: int
  resMemory :: string
  resDisk :: string

record ProfileNetwork =
  netLevel :: string
  netAllowedHosts :: "string list"

definition parseProfileResources :: "json option \<Rightarrow> gerr + ProfileResources option" where
  "parseProfileResources data =
     (case data of
        None \<Rightarrow> Inr None
      | Some (JObj fs) \<Rightarrow>
          if fs = [] then Inr None
          else and_then (dec_int fs ''cpu'') (\<lambda>cpu. and_then (dec_str fs ''memory'') (\<lambda>memory.
            and_then (dec_str fs ''disk'') (\<lambda>disk.
              Inr (Some \<lparr>resCPU = cpu, resMemory = memory, resDisk = disk\<rparr>))))
      | Some JNull \<Rightarrow> Inr (Some \<lparr>resCPU = 0, resMemory = [], resDisk = []\<rparr>)
      | Some _ \<Rightarrow> Inl json_err)"

definition parseProfileNetwork :: "json option \<Rightarrow> gerr + ProfileNetwork option" where
  "parseProfileNetwork data =
     (case data of
        None \<Rightarrow> Inr None
      | Some (JObj fs) \<Rightarrow>
          if fs = [] then Inr None
          else and_then (dec_str fs ''level'') (\<lambda>level. and_then (dec_str_list fs ''allowed_hosts'') (\<lambda>hosts.
            Inr (Some \<lparr>netLevel = level, netAllowedHosts = hosts\<rparr>)))
      | Some JNull \<Rightarrow> Inr (Some \<lparr>netLevel = [], netAllowedHosts = []\<rparr>)
      | Some _ \<Rightarrow> Inl json_err)"

text \<open>A document that does not parse is treated as absent by both callers.\<close>

definition profile_resources :: "Profile option \<Rightarrow> ProfileResources option" where
  "profile_resources profile = (case profile of None \<Rightarrow> None
     | Some p \<Rightarrow> (case parseProfileResources (pfResources p) of Inl _ \<Rightarrow> None | Inr r \<Rightarrow> r))"

definition profile_network :: "Profile option \<Rightarrow> ProfileNetwork option" where
  "profile_network profile = (case profile of None \<Rightarrow> None
     | Some p \<Rightarrow> (case parseProfileNetwork (pfNetwork p) of Inl _ \<Rightarrow> None | Inr r \<Rightarrow> r))"

definition network_policy :: "Session \<Rightarrow> Profile option \<Rightarrow> string" where
  "network_policy session profile =
     (case profile_network profile of None \<Rightarrow> sNetworkPolicy session
      | Some n \<Rightarrow> if netLevel n \<noteq> [] then netLevel n else sNetworkPolicy session)"

definition allowed_hosts :: "Session \<Rightarrow> Profile option \<Rightarrow> string list" where
  "allowed_hosts session profile =
     (case profile_network profile of None \<Rightarrow> sAllowedHosts session
      | Some n \<Rightarrow> if netAllowedHosts n \<noteq> [] then netAllowedHosts n else sAllowedHosts session)"

section \<open>Resuming on a managed provider\<close>

definition recordProviderInstance :: "ctx \<Rightarrow> RunnerInstance \<Rightarrow> unit A" where
  "recordProviderInstance c inst =
     (if riID inst = [] \<or> riProviderID inst = [] then ret ()
      else core (ignore_err (UpdateRunner c (riID inst)
        (no_runner_updates\<lparr>ruProviderInstanceID := Some (riProviderID inst)\<rparr>))))"

definition resume_provision :: "Session \<Rightarrow> Provider \<Rightarrow> Profile option \<Rightarrow> string \<Rightarrow> ProvisionOptions" where
  "resume_provision session prov profile workspacePath =
     (let cfgID = (case profile of None \<Rightarrow> [] | Some p \<Rightarrow> stringValue (pfProviderConfigID p))
      in empty_provision\<lparr>poName := ''runner-'' @ sID session, poWorkspaceMount := workspacePath,
           poProfileID := (case profile of None \<Rightarrow> [] | Some p \<Rightarrow> pfID p),
           poProviderConfigID := cfgID,
           poProviderName := (if cfgID = [] then pvName prov else [])\<rparr>)"

definition resumeManaged :: "ctx \<Rightarrow> Session \<Rightarrow> Provider \<Rightarrow> Profile option \<Rightarrow> unit A" where
  "resumeManaged c session prov profile = do {
     cfg \<leftarrow> core (asks e_cfg);
     workspacePath \<leftarrow> (if cfgWorkspaceManager cfg then core (GetHostPath (sWorkspaceID session)) else ret []);
     pr \<leftarrow> env_asks ae_prov;
     (if \<not> prProvisioner pr then ret ()
      else do {
        p \<leftarrow> PrepareSpawn c (resume_provision session prov profile workspacePath);
        (case p of
           Inl _ \<Rightarrow> ret ()
         | Inr so0 \<Rightarrow> do {
             let so1 = so0\<lparr>spNetworkPolicy := network_policy session profile,
               spAllowedHosts := allowed_hosts session profile\<rparr>;
             let so = (case profile_resources profile of None \<Rightarrow> so1
               | Some rs \<Rightarrow> so1\<lparr>spCPUs := resCPU rs, spMemoryMB := parseMemorySize (resMemory rs),
                   spDiskMB := parseMemorySize (resDisk rs)\<rparr>);
             r \<leftarrow> prov_Resume prov so;
             (case r of
                Inl _ \<Rightarrow> DiscardPrepared c (spRunnerID so)
              | Inr inst \<Rightarrow> do {
                  _ \<leftarrow> (if riID inst \<noteq> spRunnerID so then DiscardPrepared c (spRunnerID so) else ret ());
                  recordProviderInstance c inst
                })
           })
      })
   }"

section \<open>Spawning for a session\<close>

definition AutoSpawnLabel :: string where "AutoSpawnLabel = ''marionette.dev/autospawn''"
definition AutoSpawnSessionLabel :: string where "AutoSpawnSessionLabel = ''marionette.dev/session''"
definition DefaultAutoSpawnMaxRunners :: int where "DefaultAutoSpawnMaxRunners = 10"
definition autoSpawnScanLimit :: int where "autoSpawnScanLimit = 200"
definition autoSpawnBootWindow :: int where "autoSpawnBootWindow = DefaultReapMinAge"
definition autoSpawnErrorAnnotation :: string where
  "autoSpawnErrorAnnotation = ''marionette.dev/autospawn-error''"
definition autoSpawnRetryAnnotation :: string where
  "autoSpawnRetryAnnotation = ''marionette.dev/autospawn-retry-after''"
definition autoSpawnAttemptsAnnotation :: string where
  "autoSpawnAttemptsAnnotation = ''marionette.dev/autospawn-attempts''"

definition maxRunners :: "provisioning \<Rightarrow> int" where
  "maxRunners p = (if prMaxRunners p = 0 then DefaultAutoSpawnMaxRunners else prMaxRunners p)"

text \<open>
  Annotations of a session: a Go map of strings, here with its values as the JSON strings they are
  (\<open>JStr\<close>, or \<open>JTime\<close> for an RFC 3339 timestamp); a null value decodes as the empty string.
\<close>

type_synonym annotations = "(string \<times> json) list"

fun string_value :: "json \<Rightarrow> json option" where
  "string_value (JStr s) = Some (JStr s)"
| "string_value (JTime t) = Some (JTime t)"
| "string_value JNull = Some (JStr [])"
| "string_value _ = None"

fun decode_pairs :: "(string \<times> json) list \<Rightarrow> annotations option" where
  "decode_pairs [] = Some []"
| "decode_pairs ((k, v) # rest) =
     (case string_value v of None \<Rightarrow> None | Some s \<Rightarrow> map_option (Cons (k, s)) (decode_pairs rest))"

fun decodeAnnotations :: "json \<Rightarrow> annotations" where
  "decodeAnnotations (JObj kvs) = (case decode_pairs kvs of None \<Rightarrow> [] | Some m \<Rightarrow> m)"
| "decodeAnnotations _ = []"

definition put_key :: "string \<Rightarrow> json \<Rightarrow> annotations \<Rightarrow> annotations" where
  "put_key k v m = (k, v) # filter (\<lambda>kv. fst kv \<noteq> k) m"

definition del_key :: "string \<Rightarrow> annotations \<Rightarrow> annotations" where
  "del_key k m = filter (\<lambda>kv. fst kv \<noteq> k) m"

text \<open>\<^verbatim>\<open>strconv.Atoi\<close>.\<close>

definition all_digits :: "string \<Rightarrow> bool" where
  "all_digits s \<longleftrightarrow> s \<noteq> [] \<and> list_all is_digit s"

definition digits_int :: "string \<Rightarrow> int" where
  "digits_int s = foldl (\<lambda>n ch. n * 10 + (of_char ch - 48)) 0 s"

definition Atoi :: "string \<Rightarrow> int option" where
  "Atoi s =
     (let neg = (case s of [] \<Rightarrow> False | ch # _ \<Rightarrow> ch = CHR ''-'');
          ds = (case s of [] \<Rightarrow> [] | ch # rest \<Rightarrow> if ch = CHR ''-'' \<or> ch = CHR ''+'' then rest else s);
          v = (if neg then - digits_int ds else digits_int ds)
      in if all_digits ds \<and> - (2 ^ 63) \<le> v \<and> v < 2 ^ 63 then Some v else None)"

definition writeAnnotations :: "ctx \<Rightarrow> Session \<Rightarrow> annotations \<Rightarrow> unit A" where
  "writeAnnotations c session m =
     core (ignore_err (UpdateSession c (sID session) (no_session_updates\<lparr>suAnnotations := Some (JObj m)\<rparr>)))"

definition spawn_attempts :: "annotations \<Rightarrow> int" where
  "spawn_attempts m =
     (case map_of m autoSpawnAttemptsAnnotation of
        Some (JStr raw) \<Rightarrow> (case Atoi raw of Some n \<Rightarrow> n | None \<Rightarrow> 0)
      | _ \<Rightarrow> 0)"

definition recordAutoSpawnFailure :: "ctx \<Rightarrow> Session \<Rightarrow> gerr \<Rightarrow> unit A" where
  "recordAutoSpawnFailure c session cause = do {
     let m = decodeAnnotations (sAnnotations session);
     let attempts = int64 (spawn_attempts m + 1);
     now \<leftarrow> core Now;
     txt \<leftarrow> env_asks ae_error_text;
     let retryAt = now + redispatchBackoff attempts;
     writeAnnotations c session
       (put_key autoSpawnAttemptsAnnotation (JStr (show_int attempts))
         (put_key autoSpawnRetryAnnotation (JTime (retryAt div Second * Second))
           (put_key autoSpawnErrorAnnotation (JStr (txt cause)) m)))
   }"

definition clearAutoSpawnFailure :: "ctx \<Rightarrow> Session \<Rightarrow> unit A" where
  "clearAutoSpawnFailure c session =
     (let m = decodeAnnotations (sAnnotations session) in
      if map_of m autoSpawnErrorAnnotation = None \<and> map_of m autoSpawnRetryAnnotation = None then ret ()
      else writeAnnotations c session
        (del_key autoSpawnAttemptsAnnotation (del_key autoSpawnRetryAnnotation
          (del_key autoSpawnErrorAnnotation m))))"

definition autoSpawnBackoff :: "Session \<Rightarrow> bool A" where
  "autoSpawnBackoff session =
     (case map_of (decodeAnnotations (sAnnotations session)) autoSpawnRetryAnnotation of
        Some (JTime retryAt) \<Rightarrow> do { now \<leftarrow> core Now; ret (now < retryAt) }
      | _ \<Rightarrow> ret False)"

text \<open>\<open>since\<close> is \<^verbatim>\<open>time.Since(runner.CreatedAt)\<close>, read for an offline runner.\<close>

definition autoSpawnCounts :: "Runner \<Rightarrow> bool A" where
  "autoSpawnCounts runner =
     (if rStatus runner \<in> {StatusIdle, StatusBusy, StatusPaused} then ret True
      else if rStatus runner = StatusOffline
        then do { now \<leftarrow> core Now; ret (time_Sub now (rCreatedAt runner) < autoSpawnBootWindow) }
      else ret False)"

fun any_counts :: "Runner list \<Rightarrow> bool A" where
  "any_counts [] = ret False"
| "any_counts (r # rest) = do { b \<leftarrow> autoSpawnCounts r; (if b then ret True else any_counts rest) }"

definition spawn_scan_opts :: "(string \<times> string) list \<Rightarrow> ListRunnersOptions" where
  "spawn_scan_opts labels = \<lparr>lnoBase = default_opts\<lparr>loLimit := autoSpawnScanLimit\<rparr>, lnoStatus = [],
     lnoPoolName = None, lnoTainted = None, lnoLabels = labels\<rparr>"

definition autoSpawnPending :: "ctx \<Rightarrow> Session \<Rightarrow> bool A" where
  "autoSpawnPending c session = do {
     r \<leftarrow> core (ListRunners c (spawn_scan_opts
       [(AutoSpawnLabel, ''true''), (AutoSpawnSessionLabel, sID session)]));
     (case r of Inl _ \<Rightarrow> ret True | Inr res \<Rightarrow> any_counts (lrItems res))
   }"

fun count_spawned :: "Session \<Rightarrow> string \<Rightarrow> Runner list \<Rightarrow> int \<Rightarrow> int A" where
  "count_spawned session provConfigID [] n = ret n"
| "count_spawned session provConfigID (r # rest) n =
     (if \<not> sameTenant (sTenantID session) (rTenantID r) then count_spawned session provConfigID rest n
      else if stringValue (rProviderConfigID r) \<noteq> provConfigID then count_spawned session provConfigID rest n
      else do {
        b \<leftarrow> autoSpawnCounts r;
        count_spawned session provConfigID rest (if b then n + 1 else n)
      })"

definition countAutoSpawned :: "ctx \<Rightarrow> Session \<Rightarrow> string \<Rightarrow> int A" where
  "countAutoSpawned c session provConfigID = do {
     p \<leftarrow> env_asks ae_prov;
     r \<leftarrow> core (ListRunners c (spawn_scan_opts [(AutoSpawnLabel, ''true'')]));
     (case r of Inl _ \<Rightarrow> ret (maxRunners p)
      | Inr res \<Rightarrow> count_spawned session provConfigID (lrItems res) 0)
   }"

definition managedProviderForSession :: "ctx \<Rightarrow> Profile option \<Rightarrow> (Provider \<times> string) option A" where
  "managedProviderForSession c profile = do {
     r \<leftarrow> (case profile of
        Some p \<Rightarrow>
          if nonempty (pfProviderConfigID p) then
            guard_ok (core (GetProviderConfig c (stringValue (pfProviderConfigID p)))) (\<lambda>cfg.
              guard_ok (core (registry_Get (pcName cfg))) (\<lambda>prov. ok (prov, pcID cfg)))
          else guard_ok registry_GetDefault (\<lambda>prov. ok (prov, []))
      | None \<Rightarrow> guard_ok registry_GetDefault (\<lambda>prov. ok (prov, [])));
     (case r of
        Inl _ \<Rightarrow> ret None
      | Inr (prov, provConfigID) \<Rightarrow>
          if pvType prov \<noteq> ProviderTypeManaged then ret None
          else if provConfigID \<noteq> [] then ret (Some (prov, provConfigID))
          else do {
            g \<leftarrow> GetProviderConfigByName c (pvName prov);
            ret (Some (prov, case g of Inl _ \<Rightarrow> [] | Inr cfg \<Rightarrow> pcID cfg))
          })
   }"

definition autoSpawnOptions ::
  "Session \<Rightarrow> Profile option \<Rightarrow> Provider \<Rightarrow> string \<Rightarrow> ProvisionOptions A" where
  "autoSpawnOptions session profile prov provConfigID = do {
     now \<leftarrow> core Now;
     cfg \<leftarrow> core (asks e_cfg);
     mount \<leftarrow> (if cfgWorkspaceManager cfg then core (GetHostPath (sWorkspaceID session)) else ret []);
     let labels = [(AutoSpawnLabel, ''true''), (AutoSpawnSessionLabel, sID session)] @
       (case profileSelector profile of None \<Rightarrow> [] | Some sel \<Rightarrow> selector_labels sel);
     let opts = empty_provision\<lparr>
       poName := ''auto-'' @ sID session @ ''-'' @ format_clock now, poProviderConfigID := provConfigID,
       poLabels := labels, poNetworkPolicy := network_policy session profile,
       poAllowedHosts := allowed_hosts session profile,
       poProviderName := (if provConfigID = [] then pvName prov else []), poWorkspaceMount := mount,
       poProfileID := (case profile of None \<Rightarrow> [] | Some p \<Rightarrow> pfID p),
       poClaimForSessionID := sID session\<rparr>;
     ret (case profile_resources profile of None \<Rightarrow> opts
       | Some rs \<Rightarrow> opts\<lparr>poCPUs := resCPU rs, poMemoryMB := parseMemorySize (resMemory rs),
           poDiskMB := parseMemorySize (resDisk rs)\<rparr>)
   }"

definition autoSpawnRunner :: "ctx \<Rightarrow> Session \<Rightarrow> Profile option \<Rightarrow> bool A" where
  "autoSpawnRunner c session profile = do {
     pr \<leftarrow> env_asks ae_prov;
     cfg \<leftarrow> core (asks e_cfg);
     (if \<not> prEnabled pr \<or> \<not> prProvisioner pr \<or> \<not> cfgProviderRegistry cfg then ret False
      else do {
        mp \<leftarrow> managedProviderForSession c profile;
        (case mp of
           None \<Rightarrow> ret False
         | Some (prov, provConfigID) \<Rightarrow> do {
             let c' = (if nonempty (sTenantID session) then WithTenant c (stringValue (sTenantID session)) else c);
             pending \<leftarrow> autoSpawnPending c' session;
             (if pending then ret False
              else do {
                waiting \<leftarrow> autoSpawnBackoff session;
                (if waiting then ret False
                 else do {
                   live \<leftarrow> countAutoSpawned c' session provConfigID;
                   (if maxRunners pr > 0 \<and> live \<ge> maxRunners pr then do {
                      _ \<leftarrow> recordAutoSpawnFailure c' session (ErrBudgetSpent live (maxRunners pr));
                      ret False
                    }
                    else do {
                      opts \<leftarrow> autoSpawnOptions session profile prov provConfigID;
                      r \<leftarrow> provisioner_Spawn c' opts;
                      (case r of
                         Inl e \<Rightarrow> do { _ \<leftarrow> recordAutoSpawnFailure c' session e; ret False }
                       | Inr _ \<Rightarrow> do { _ \<leftarrow> clearAutoSpawnFailure c' session; ret True })
                    })
                 })
              })
           })
      })
   }"

end
