(* ===== verification/Auth_Gate.thy ===== *)
theory Auth_Gate
  imports Provisioner
begin

text \<open>
  Where credentials are checked: the middleware of the HTTP API (\<^verbatim>\<open>pkg/server/api/middleware.go\<close>)
  and the authentication of a runner's control stream (\<^verbatim>\<open>validateRunnerAuth\<close> in
  \<^verbatim>\<open>pkg/server/grpc/control_channel.go\<close>). Both look the credential up with the context the request
  arrived with and bind the tenant of the credential afterwards.
\<close>

section \<open>The token of a request\<close>

text \<open>The parts of a request the middleware reads: three headers and the query parameter \<^verbatim>\<open>token\<close>.\<close>

record http_request =
  hqAuthorization :: string
  hqUpgrade :: string
  hqConnection :: string
  hqToken :: string

text \<open>
  \<^verbatim>\<open>strings.EqualFold\<close> against a lower case ASCII word: besides upper case letters, the long s and the
  Kelvin sign fold to ASCII letters.
\<close>

fun fold_bytes :: "nat list \<Rightarrow> nat list" where
  "fold_bytes (x # y # z # rest) =
     (if x = 0xC5 \<and> y = 0xBF then 115 # fold_bytes (z # rest)
      else if x = 0xE2 \<and> y = 0x84 \<and> z = 0xAA then 107 # fold_bytes rest
      else (if 65 \<le> x \<and> x \<le> 90 then x + 32 else x) # fold_bytes (y # z # rest))"
| "fold_bytes [x, y] =
     (if x = 0xC5 \<and> y = 0xBF then [115]
      else map (\<lambda>b. if 65 \<le> b \<and> b \<le> 90 then b + 32 else b) [x, y])"
| "fold_bytes [x] = [if 65 \<le> x \<and> x \<le> 90 then x + 32 else x]"
| "fold_bytes [] = []"

definition EqualFold :: "string \<Rightarrow> string \<Rightarrow> bool" where
  "EqualFold s word \<longleftrightarrow> fold_bytes (map of_char s) = fold_bytes (map of_char word)"

fun split_commas :: "string \<Rightarrow> string list" where
  "split_commas [] = [[]]"
| "split_commas (ch # rest) =
     (if ch = CHR '','' then [] # split_commas rest
      else case split_commas rest of [] \<Rightarrow> [[ch]] | w # ws \<Rightarrow> (ch # w) # ws)"

definition isWebSocketUpgrade :: "http_request \<Rightarrow> bool" where
  "isWebSocketUpgrade r =
     (if \<not> EqualFold (hqUpgrade r) ''websocket'' then False
      else list_ex (\<lambda>token. EqualFold (TrimSpace token) ''upgrade'') (split_commas (hqConnection r)))"

text \<open>\<open>Inl\<close> is the code of the error response.\<close>

definition tokenFromRequest :: "http_request \<Rightarrow> string + string" where
  "tokenFromRequest r =
     (if hqAuthorization r \<noteq> [] then
        (let scheme = takeWhile (\<lambda>ch. ch \<noteq> CHR '' '') (hqAuthorization r) in
         if CHR '' '' \<notin> set (hqAuthorization r) \<or> \<not> EqualFold scheme ''bearer'' then Inl ''invalid_auth''
         else Inr (drop (length scheme + 1) (hqAuthorization r)))
      else if isWebSocketUpgrade r then
        (if hqToken r \<noteq> [] then Inr (hqToken r) else Inl ''missing_auth'')
      else Inl ''missing_auth'')"

section \<open>The middleware\<close>

text \<open>A request is answered with a status and a code, or goes on with its key and context.\<close>

datatype gate_result = Denied nat string | Proceed APIKey ctx

definition auth_error :: "gerr \<Rightarrow> gate_result" where
  "auth_error e =
     (if e = ErrInvalidToken \<or> e = ErrInvalidPrefix then Denied 401 ''invalid_token''
      else if e = ErrTokenNotFound then Denied 401 ''token_not_found''
      else if e = ErrTokenRevoked then Denied 401 ''token_revoked''
      else if e = ErrTokenExpired then Denied 401 ''token_expired''
      else Denied 500 ''auth_error'')"

text \<open>
  \<open>svc\<close> says whether the key service is wired, \<open>mt\<close> is the server's multi-tenant flag, \<open>c\<close> the context the
  request arrived with. The write of the last use is a goroutine with a context of its own; here it
  runs before the handler.
\<close>

definition AuthMiddleware :: "bool \<Rightarrow> bool \<Rightarrow> ctx \<Rightarrow> http_request \<Rightarrow> gate_result A" where
  "AuthMiddleware svc mt c r =
     (case tokenFromRequest r of
        Inl code \<Rightarrow> ret (Denied 401 code)
      | Inr token \<Rightarrow>
          if \<not> svc then ret (Denied 500 ''config_error'')
          else do {
            v \<leftarrow> key_Validate c token;
            (case v of
               Inl e \<Rightarrow> ret (auth_error e)
             | Inr key \<Rightarrow> do {
                 _ \<leftarrow> ignore_err (key_UpdateLastUsed background_ctx (akID key));
                 ret (if nonempty (akTenantID key) then Proceed key (WithTenant c (stringValue (akTenantID key)))
                      else if mt then Denied 500 ''tenant_unresolved''
                      else Proceed key c)
               })
          })"

definition RequireScope :: "string \<Rightarrow> APIKey option \<Rightarrow> (nat \<times> string) option" where
  "RequireScope scope key =
     (case key of
        None \<Rightarrow> Some (401, ''not_authenticated'')
      | Some k \<Rightarrow> if \<not> HasScope (Some k) scope then Some (403, ''forbidden'') else None)"

section \<open>A runner's control stream\<close>

text \<open>\<open>token\<close> is what \<^verbatim>\<open>extractRunnerToken\<close> found in the metadata of the stream.\<close>

definition validateRunnerAuth :: "bool \<Rightarrow> ctx \<Rightarrow> gerr + string \<Rightarrow> string \<Rightarrow> ctx AG" where
  "validateRunnerAuth svc c token runnerID =
     (if \<not> svc then ok c
      else case token of
        Inl e \<Rightarrow> err e
      | Inr tok \<Rightarrow> guard_ok (token_Validate c tok) (\<lambda>tokenInfo.
          if rtRunnerID tokenInfo \<noteq> None \<and> rtRunnerID tokenInfo \<noteq> Some runnerID then err ErrTokenAlreadyBound
          else do {
            _ \<leftarrow> ignore_err (token_UpdateLastUsed c (rtID tokenInfo));
            ok (if nonempty (rtTenantID tokenInfo) then WithTenant c (stringValue (rtTenantID tokenInfo)) else c)
          }))"

end
