(* ===== verification/Auth_Laws.thy ===== *)
theory Auth_Laws
  imports Auth_Gate
begin

text \<open>
  The authentication tables as a state machine. Every operation of the credential services, of the
  provisioner and of the gates runs as a sequence of the statements below, whatever fails on the
  way; so what every statement keeps, every history of requests keeps.
\<close>

section \<open>Runs of the primitives\<close>

abbreviation adb :: "auth_world \<Rightarrow> auth_db" where
  "adb a \<equiv> (w_db (aw_core a), aw_tables a)"

lemma run_core [simp]:
  "run_state (core m) a = (case run_state m (aw_core a) of (x, w) \<Rightarrow> (x, a\<lparr>aw_core := w\<rparr>))"
  by (simp add: core_def)

lemma run_env_asks [simp]: "run_state (env_asks f) a = (f a, a)"
  by (simp add: env_asks_def)

lemma run_exec_auth_cases:
  assumes "run_state (exec_auth f) a = (r, a')"
  obtains (ok) x d t where "r = Inr x" "f (e_clock (aw_core a) (w_tick (aw_core a))) (adb a) = Inr (x, d, t)"
      "a' = a\<lparr>aw_core := (tick (aw_core a))\<lparr>w_db := d\<rparr>, aw_tables := t\<rparr>"
    | (failed) e where "r = Inl e" "a' = a\<lparr>aw_core := tick (aw_core a)\<rparr>"
  using assms by (auto simp: exec_auth_def Let_def split: option.splits sum.splits prod.splits)

lemma run_exec_auth_nofault:
  "e_fault (aw_core a) (w_tick (aw_core a)) = None \<Longrightarrow> run_state (exec_auth f) a =
     (case f (e_clock (aw_core a) (w_tick (aw_core a))) (adb a) of
        Inl e \<Rightarrow> (Inl e, a\<lparr>aw_core := tick (aw_core a)\<rparr>)
      | Inr (x, d, t) \<Rightarrow> (Inr x, a\<lparr>aw_core := (tick (aw_core a))\<lparr>w_db := d\<rparr>, aw_tables := t\<rparr>))"
  by (simp add: exec_auth_def Let_def)

lemma run_query_auth_nofault:
  "e_fault (aw_core a) (w_tick (aw_core a)) = None \<Longrightarrow>
     run_state (query_auth f) a = (f (adb a), a\<lparr>aw_core := tick (aw_core a)\<rparr>)"
  by (simp add: query_auth_def run_exec_auth_nofault split: sum.splits prod.splits)

lemma run_query_auth_Inr:
  assumes "run_state (query_auth f) a = (Inr x, a')"
  shows "f (adb a) = Inr x" and "a' = a\<lparr>aw_core := tick (aw_core a)\<rparr>"
  using assms unfolding query_auth_def
  by (auto simp: exec_auth_def Let_def split: option.splits sum.splits prod.splits)

section \<open>Statements as steps\<close>

datatype auth_stmt =
    ACore stmt
  | ACreateKey APIKey
  | AUpdateKey string APIKeyUpdates
  | ADeleteKey string
  | ACreateToken RunnerToken
  | AUpdateToken string RunnerTokenUpdates
  | ADeleteToken string
  | ADeleteRunner string

inductive auth_step :: "auth_stmt \<Rightarrow> auth_db \<Rightarrow> auth_db \<Rightarrow> bool" where
  a_core: "db_step l d d' \<Longrightarrow> auth_step (ACore l) (d, t) (d', t)"
| a_createKey: "createAPIKey now c k D = Inr (x, D') \<Longrightarrow> auth_step (ACreateKey k) D D'"
| a_updateKey: "updateAPIKey c kid ku D = Inr (y, D') \<Longrightarrow> auth_step (AUpdateKey kid ku) D D'"
| a_deleteKey: "deleteAPIKey c kid D = Inr (y, D') \<Longrightarrow> auth_step (ADeleteKey kid) D D'"
| a_createToken: "createRunnerToken now c tk D = Inr (z, D') \<Longrightarrow> auth_step (ACreateToken tk) D D'"
| a_updateToken: "updateRunnerToken c tid tu D = Inr (y, D') \<Longrightarrow> auth_step (AUpdateToken tid tu) D D'"
| a_deleteToken: "deleteRunnerToken c tid D = Inr (y, D') \<Longrightarrow> auth_step (ADeleteToken tid) D D'"
| a_deleteRunner: "deleteRunner c rid D = Inr (y, D') \<Longrightarrow> auth_step (ADeleteRunner rid) D D'"

inductive auth_run :: "auth_stmt list \<Rightarrow> auth_db \<Rightarrow> auth_db \<Rightarrow> bool" where
  run_none: "auth_run [] D D"
| run_more: "auth_run ls D D' \<Longrightarrow> auth_step l D' D'' \<Longrightarrow> auth_run (ls @ [l]) D D''"

lemma auth_run_trans: "auth_run ms D' D'' \<Longrightarrow> auth_run ls D D' \<Longrightarrow> auth_run (ls @ ms) D D''"
proof (induction rule: auth_run.induct)
  case (run_more ms D1 D2 l D3)
  then have "auth_run ((ls @ ms) @ [l]) D D3" by (intro auth_run.run_more) auto
  then show ?case by simp
qed simp

lemma auth_run_core: "db_reachable d d' \<Longrightarrow> \<exists>ls. auth_run ls (d, t) (d', t)"
  by (induction rule: db_reachable.induct) (auto intro: run_none run_more a_core)

section \<open>The schema\<close>

definition keys_ok :: "auth_tables \<Rightarrow> bool" where
  "keys_ok t \<longleftrightarrow> distinct (map akID (api_keys t)) \<and> distinct (map akKeyHash (api_keys t))"

definition tokens_ok :: "db \<Rightarrow> auth_tables \<Rightarrow> bool" where
  "tokens_ok d t \<longleftrightarrow>
     distinct (map rtID (runner_tokens t)) \<and> distinct (map rtTokenHash (runner_tokens t)) \<and>
     (\<forall>x \<in> set (runner_tokens t). runner_token_check x \<and> runner_token_fk d x)"

definition auth_inv :: "auth_db \<Rightarrow> bool" where
  "auth_inv D \<longleftrightarrow> db_inv (fst D) \<and> keys_ok (snd D) \<and> tokens_ok (fst D) (snd D)"

lemma db_step_runner_ids: "db_step l d d' \<Longrightarrow> rID ` set (runners d) \<subseteq> rID ` set (runners d')"
proof (induction rule: db_step.induct)
  case (step_updateRunner now c rid nu d y d')
  then show ?case by (cases "d' = d") (auto elim!: updateRunner_changes)
next
  case (step_claimRunner now c rid sid lease d b d')
  then show ?case by (auto dest!: claimRunner_changes)
next
  case (step_releaseRunnerClaim now c rid sid d y d')
  then show ?case
    by (auto simp: releaseRunnerClaim_def dest!: find_key_eq split: option.splits if_splits)
qed (auto simp: createSession_def updateSession_def createTask_def updateTask_def createTaskRun_def
  updateTaskRun_def createRunner_def createPermissionRequest_def updatePermissionRequest_def Let_def
  split: if_splits option.splits)

lemma runner_token_fk_mono:
  "runner_token_fk d x \<Longrightarrow> rID ` set (runners d) \<subseteq> rID ` set (runners d') \<Longrightarrow> runner_token_fk d' x"
  by (auto simp: runner_token_fk_def split: option.splits)

lemma distinct_filter_key: "distinct (map key rows) \<Longrightarrow> distinct (map key (filter P rows))"
  by (induction rows) auto

lemma put_row_Cons:
  "put_row key k r (x # rows) = (if key x = k then r else x) # put_row key k r rows"
  by (simp add: put_row_def)

lemma put_row_absent: "k \<notin> key ` set rows \<Longrightarrow> put_row key k r rows = rows"
  by (induction rows) (auto simp: put_row_def)

text \<open>Replacing a row keeps a second unique column when no other row has the new value.\<close>

lemma put_row_unique:
  assumes "distinct (map key rows)" and "distinct (map col rows)" and "key r' = k"
    and "\<And>x. x \<in> set rows \<Longrightarrow> key x \<noteq> k \<Longrightarrow> col x \<noteq> col r'"
  shows "distinct (map col (put_row key k r' rows))"
  using assms
proof (induction rows)
  case (Cons x rows)
  have tail: "put_row key k r' rows = rows" if "key x = k"
    using that Cons.prems(1) by (intro put_row_absent) auto
  show ?case
  proof (cases "key x = k")
    case True
    have "col r' \<noteq> col y" if "y \<in> set rows" for y
    proof -
      have "key y \<noteq> k" using that True Cons.prems(1) by (metis distinct.simps(2) image_eqI list.set_map list.simps(9))
      then show ?thesis using that Cons.prems(4) [of y] by simp
    qed
    then have "col r' \<notin> col ` set rows" by (metis imageE)
    then show ?thesis using True tail Cons.prems(2) by (simp add: put_row_Cons)
  next
    case False
    have "col x \<notin> col ` set (put_row key k r' rows)"
      using False Cons.prems(2,4) by (auto simp: set_put_row)
    moreover have "distinct (map col (put_row key k r' rows))"
      using Cons.prems by (intro Cons.IH) auto
    ultimately show ?thesis using False by (simp add: put_row_Cons)
  qed
qed (simp add: put_row_def)

lemma key_update_inv:
  assumes "keys_ok t" and "k \<in> set (api_keys t)"
  shows "keys_ok (t\<lparr>api_keys := put_row akID (akID k) (apply_key_updates u k) (api_keys t)\<rparr>)"
proof -
  have "akKeyHash x \<noteq> akKeyHash k" if "x \<in> set (api_keys t)" "akID x \<noteq> akID k" for x
    using that assms by (auto simp: keys_ok_def dest: distinct_keyD)
  with assms show ?thesis by (auto simp: keys_ok_def intro: put_row_unique)
qed

lemma token_update_inv:
  assumes "tokens_ok d t" and "k \<in> set (runner_tokens t)" and "rtID k' = rtID k"
    and "runner_token_check k'" and "runner_token_fk d k'" and "\<not> token_hash_conflict k' (runner_tokens t)"
  shows "tokens_ok d (t\<lparr>runner_tokens := put_row rtID (rtID k) k' (runner_tokens t)\<rparr>)"
proof -
  have "rtTokenHash x \<noteq> rtTokenHash k'" if "x \<in> set (runner_tokens t)" "rtID x \<noteq> rtID k" for x
    using that assms(3,6) by (auto simp: token_hash_conflict_def list_ex_iff)
  with assms show ?thesis by (auto simp: tokens_ok_def set_put_row intro: put_row_unique)
qed

lemma token_insert_inv:
  assumes "tokens_ok d t" and new: "rtID k \<notin> rtID ` set (runner_tokens t)"
    and "runner_token_check k" and "runner_token_fk d k" and nc: "\<not> token_hash_conflict k (runner_tokens t)"
  shows "tokens_ok d (t\<lparr>runner_tokens := k # runner_tokens t\<rparr>)"
proof -
  have "rtTokenHash x \<noteq> rtTokenHash k" if "x \<in> set (runner_tokens t)" for x
    using that new nc by (auto simp: token_hash_conflict_def list_ex_iff rev_image_eqI)
  then have "rtTokenHash k \<notin> rtTokenHash ` set (runner_tokens t)" by (metis imageE)
  with assms show ?thesis by (simp add: tokens_ok_def)
qed

lemma clear_runner_fk:
  assumes "case r of None \<Rightarrow> True | Some x \<Rightarrow> x \<in> rID ` set rows"
  shows "case clear_runner rid r of None \<Rightarrow> True | Some x \<Rightarrow> x \<in> rID ` set (filter (\<lambda>x. rID x \<noteq> rid) rows)"
  using assms by (auto simp: clear_runner_def split: option.splits)

lemma deleteRunner_inv:
  assumes inv: "auth_inv D" and run: "deleteRunner c rid D = Inr (y, D')"
  shows "auth_inv D'"
proof -
  obtain d t where D: "D = (d, t)" by (cases D)
  let ?rs = "filter (\<lambda>x. rID x \<noteq> rid) (runners d)"
  let ?ss = "map (\<lambda>s. s\<lparr>sRunnerID := clear_runner rid (sRunnerID s)\<rparr>) (sessions d)"
  let ?ts = "map (\<lambda>x. x\<lparr>trRunnerID := clear_runner rid (trRunnerID x)\<rparr>) (task_runs d)"
  let ?d = "d\<lparr>runners := ?rs, claims := (claims d)(rid := None), sessions := ?ss, task_runs := ?ts\<rparr>"
  from run have D': "D' = (?d, t\<lparr>runner_tokens := filter (\<lambda>x. rtRunnerID x \<noteq> Some rid) (runner_tokens t)\<rparr>)"
    by (auto simp: deleteRunner_def D split: option.splits)
  from inv have i: "sessions_ok d" "tasks_ok d" "task_runs_ok d" "runners_ok d" "permissions_ok d"
    "keys_ok t" "tokens_ok d t" by (auto simp: auth_inv_def db_inv_def D)
  have keys: "map sID ?ss = map sID (sessions d)" "map trID ?ts = map trID (task_runs d)"
    "map (\<lambda>r. (trTaskID r, trAttempt r)) ?ts = map (\<lambda>r. (trTaskID r, trAttempt r)) (task_runs d)"
    by (simp_all add: comp_def)
  have ids: "sID ` set ?ss = sID ` set (sessions d)" "trID ` set ?ts = trID ` set (task_runs d)"
    by (auto simp: image_image)
  have "sessions_ok ?d"
  proof -
    have fk: "session_fk ?d (s\<lparr>sRunnerID := clear_runner rid (sRunnerID s)\<rparr>)" if "session_fk d s" for s
      using that clear_runner_fk [where r = "sRunnerID s" and rows = "runners d"]
      by (simp add: session_fk_def cong: option.case_cong)
    have act: "active_on s r" if "active_on (s\<lparr>sRunnerID := clear_runner rid (sRunnerID s)\<rparr>) r" for s r
      using that by (auto simp: active_on_def clear_runner_def split: if_splits)
    have chk: "session_check (s\<lparr>sRunnerID := x\<rparr>) = session_check s" for s x
      by (simp add: session_check_def)
    have "distinct (map sID ?ss)" using i(1) keys(1) by (simp only: sessions_ok_def)
    then show ?thesis unfolding sessions_ok_def
      by (intro conjI)
        (use i(1) fk in \<open>auto simp: sessions_ok_def chk intro: active_unique [OF i(1)] dest!: act\<close>)
  qed
  moreover have "tasks_ok ?d" using i(2) ids(1) by (simp add: tasks_ok_def)
  moreover have "task_runs_ok ?d"
  proof -
    have "task_run_fk ?d (x\<lparr>trRunnerID := clear_runner rid (trRunnerID x)\<rparr>)" if "task_run_fk d x" for x
      using that clear_runner_fk [where r = "trRunnerID x" and rows = "runners d"]
      by (simp add: task_run_fk_def cong: option.case_cong)
    moreover have "task_run_check (x\<lparr>trRunnerID := y\<rparr>) = task_run_check x" for x y
      by (simp add: task_run_check_def)
    moreover have "distinct (map trID ?ts)" "distinct (map (\<lambda>r. (trTaskID r, trAttempt r)) ?ts)"
      using i(3) by (simp_all only: keys task_runs_ok_def)
    ultimately show ?thesis using i(3) by (simp add: task_runs_ok_def)
  qed
  moreover have "runners_ok ?d"
    using i(4) by (auto simp: runners_ok_def runner_fk_def distinct_filter_key split: if_splits cong: option.case_cong)
  moreover have "permissions_ok ?d" using i(5) ids by (simp add: permissions_ok_def permission_fk_def)
  moreover have "tokens_ok ?d (snd D')"
    using i(7) by (auto simp: D' tokens_ok_def distinct_filter_key runner_token_fk_def split: option.splits)
  ultimately show ?thesis using i(6) by (simp add: D' auth_inv_def db_inv_def keys_ok_def)
qed

lemma auth_step_inv: "auth_step l D D' \<Longrightarrow> auth_inv D \<Longrightarrow> auth_inv D'"
proof (induction rule: auth_step.induct)
  case (a_core l d d' t)
  then show ?case using db_step_runner_ids [OF a_core(1)]
    by (auto simp: auth_inv_def tokens_ok_def intro: db_step_inv runner_token_fk_mono)
next
  case (a_createKey now c k D x D')
  then show ?case by (cases D) (auto simp: createAPIKey_def auth_inv_def keys_ok_def tokens_ok_def Let_def split: if_splits)
next
  case (a_updateKey c kid ku D y D')
  then show ?case
    by (cases D) (auto simp: updateAPIKey_def auth_inv_def tokens_ok_def dest!: find_key_eq intro: key_update_inv
        split: if_splits option.splits)
next
  case (a_deleteKey c kid D y D')
  then show ?case
    by (cases D) (auto simp: deleteAPIKey_def auth_inv_def keys_ok_def tokens_ok_def distinct_filter_key split: option.splits)
next
  case (a_createToken now c tk D z D')
  then show ?case
    by (cases D) (auto simp: createRunnerToken_def auth_inv_def keys_ok_def Let_def
        intro!: token_insert_inv split: if_splits)
next
  case (a_updateToken c tid tu D y D')
  then show ?case
    by (cases D) (auto simp: updateRunnerToken_def auth_inv_def keys_ok_def Let_def dest!: find_key_eq
        intro!: token_update_inv split: if_splits option.splits)
next
  case (a_deleteToken c tid D y D')
  then show ?case
    by (cases D) (auto simp: deleteRunnerToken_def auth_inv_def keys_ok_def tokens_ok_def distinct_filter_key split: option.splits)
qed (rule deleteRunner_inv)

lemma auth_run_inv: "auth_run ls D D' \<Longrightarrow> auth_inv D \<Longrightarrow> auth_inv D'"
  by (induction rule: auth_run.induct) (auto intro: auth_step_inv)

section \<open>The contract of a credential client\<close>

text \<open>
  What a preorder on worlds must satisfy to be respected by everything built from the credential
  statements and from the store of the managers: \<open>C\<close> is the preorder the core world respects.
\<close>

locale auth_contract = state_preorder R + cc: server_contract C "\<lambda>_. True" "\<lambda>_ _. True"
  for R :: "auth_world \<Rightarrow> auth_world \<Rightarrow> bool" and C :: "world \<Rightarrow> world \<Rightarrow> bool" +
  assumes R_core: "C (aw_core a) w \<Longrightarrow> R a (a\<lparr>aw_core := w\<rparr>)"
    and R_stmt: "auth_step l (adb a) (d, t) \<Longrightarrow>
      R a (a\<lparr>aw_core := (aw_core a)\<lparr>w_tick := n, w_db := d\<rparr>, aw_tables := t\<rparr>)"
    and R_spawned: "R a (a\<lparr>aw_spawned := x\<rparr>)"
    and R_resumed: "R a (a\<lparr>aw_resumed := x\<rparr>)"
    and R_strays: "R a (a\<lparr>aw_strays := x\<rparr>)"
begin

lemma resp_core: "cc.resp m \<Longrightarrow> resp (core m)"
  by (rule respI) (auto intro!: R_core dest: cc.respD split: prod.splits)

lemma resp_env_asks: "resp (env_asks f)"
  by (rule respI) (simp add: R_refl)

lemma resp_exec_auth:
  assumes "\<And>now D x D'. f now D = Inr (x, D') \<Longrightarrow> D' = D \<or> (\<exists>l. auth_step l D D')"
  shows "resp (exec_auth f)"
proof (rule respI)
  fix a
  have T: "R a (a\<lparr>aw_core := tick (aw_core a)\<rparr>)" by (intro R_core cc.R_tick)
  obtain r a' where run: "run_state (exec_auth f) a = (r, a')" by (cases "run_state (exec_auth f) a")
  then show "R a (snd (run_state (exec_auth f) a))"
  proof (cases rule: run_exec_auth_cases)
    case (ok x d t)
    from assms [OF ok(2)] show ?thesis
    proof
      assume "(d, t) = adb a"
      then have "a' = a\<lparr>aw_core := tick (aw_core a)\<rparr>" using ok(3) by simp
      then show ?thesis using run T by simp
    qed (use run ok(3) in \<open>auto intro: R_stmt\<close>)
  qed (use run T in simp)
qed

lemma resp_query_auth: "resp (query_auth f)"
  unfolding query_auth_def by (rule resp_exec_auth) (auto split: sum.splits)

lemma resp_auth_store:
  "resp (CreateRunnerToken c tk)" "resp (GetRunnerToken c x)" "resp (GetRunnerTokenByHash c x)"
  "resp (ListRunnerTokens c lo)" "resp (UpdateRunnerToken c x tu)"
  "resp (CreateAPIKey c k)" "resp (GetAPIKey c x)" "resp (GetAPIKeyByHash c x)"
  "resp (ListAPIKeys c ko)" "resp (UpdateAPIKey c x ku)" "resp (DeleteRunner c x)"
  unfolding CreateRunnerToken_def GetRunnerToken_def GetRunnerTokenByHash_def ListRunnerTokens_def
    UpdateRunnerToken_def CreateAPIKey_def GetAPIKey_def GetAPIKeyByHash_def ListAPIKeys_def
    UpdateAPIKey_def DeleteRunner_def
  by (rule resp_query_auth resp_exec_auth; blast intro: auth_step.intros)+

lemma core_CreateRunner: "cc.resp (exec_stmt (\<lambda>now. createRunner now c r))"
  by (rule cc.resp_exec_stmt) (blast intro: db_step.intros)

lemmas core_resp = cc.server_resp TrueI core_CreateRunner

lemma resp_core_store:
  "resp (core Now)" "resp (core new_id)" "resp (core next_tick)" "resp (core (asks f))"
  "resp (CreateRunner c r)" "resp (GetRunnerByName c x)" "resp (GetProviderConfigByName c x)"
  "resp (core (GetRunner c x))" "resp (core (GetProviderConfig c x))" "resp (core (ListRunners c ro))"
  "resp (core (UpdateRunner c x ru))" "resp (core (ignore_err (UpdateRunner c x ru)))"
  "resp (core (ignore_err (ClaimRunner c x y lease)))" "resp (core (registry_Get x))"
  "resp (core (GetHostPath x))" "resp (core (ignore_err (UpdateSession c x su)))"
  "resp (core (provider_call e))"
  unfolding CreateRunner_def GetRunnerByName_def GetProviderConfigByName_def registry_Get_def GetHostPath_def
  by (intro resp_core core_resp)+

lemmas auth_resp = resp_intros resp_env_asks resp_auth_store resp_core_store

lemma resp_tokens_text: "resp (rand_Read n)" "resp (GenerateToken p)" "resp GenerateAPIKey"
  "resp GenerateRunnerToken" "resp (HashToken x)"
proof -
  show g: "resp (rand_Read n)" for n unfolding rand_Read_def by (intro auth_resp)
  show t: "resp (GenerateToken p)" for p unfolding GenerateToken_def by (intro auth_resp g)
  show "resp GenerateAPIKey" "resp GenerateRunnerToken"
    unfolding GenerateAPIKey_def GenerateRunnerToken_def by (rule t)+
  show "resp (HashToken x)" unfolding HashToken_def by (intro auth_resp)
qed

lemma resp_token_service:
  "resp (get_token c x)" "resp (token_Create c co)" "resp (token_alive t)" "resp (token_Validate c x)"
  "resp (token_Rotate c x)" "resp (token_CompleteRotation c x)" "resp (token_BindRunner c x y)"
  "resp (token_UnbindRunner c x)" "resp (token_Get c x)" "resp (token_List c lo)" "resp (token_Revoke c x why)"
  "resp (token_UpdateLastUsed c x)"
proof -
  show g: "resp (get_token c x)" for c x unfolding get_token_def by (intro auth_resp)
  show al: "resp (token_alive t)" for t unfolding token_alive_def by (intro auth_resp)
  show "resp (token_Create c co)" unfolding token_Create_def by (intro auth_resp resp_tokens_text)
  show "resp (token_Validate c x)" unfolding token_Validate_def by (intro auth_resp resp_tokens_text al)
  show "resp (token_Rotate c x)" unfolding token_Rotate_def rotation_running_def rotate_row_def
    by (intro auth_resp resp_tokens_text g)
  show "resp (token_CompleteRotation c x)" unfolding token_CompleteRotation_def by (intro auth_resp g)
  show "resp (token_BindRunner c x y)" unfolding token_BindRunner_def by (intro auth_resp g)
  show "resp (token_UnbindRunner c x)" unfolding token_UnbindRunner_def by (intro auth_resp g)
  show "resp (token_Get c x)" unfolding token_Get_def by (intro auth_resp g)
  show "resp (token_List c lo)" unfolding token_List_def by (intro auth_resp)
  show "resp (token_Revoke c x why)" unfolding token_Revoke_def by (intro auth_resp g)
  show "resp (token_UpdateLastUsed c x)" unfolding token_UpdateLastUsed_def by (intro auth_resp)
qed

lemma resp_key_service:
  "resp (key_Create c ko)" "resp (key_alive k)" "resp (key_Validate c x)" "resp (key_Get c x)"
  "resp (key_List c lo)" "resp (key_Revoke c x why)" "resp (key_UpdateLastUsed c x)"
proof -
  show al: "resp (key_alive k)" for k unfolding key_alive_def by (intro auth_resp)
  show "resp (key_Create c ko)" unfolding key_Create_def by (intro auth_resp resp_tokens_text)
  show "resp (key_Validate c x)" unfolding key_Validate_def by (intro auth_resp resp_tokens_text al)
  show "resp (key_Get c x)" unfolding key_Get_def by (intro auth_resp)
  show "resp (key_List c lo)" unfolding key_List_def by (intro auth_resp)
  show "resp (key_Revoke c x why)" unfolding key_Revoke_def by (intro auth_resp)
  show "resp (key_UpdateLastUsed c x)" unfolding key_UpdateLastUsed_def by (intro auth_resp)
qed

lemma resp_prov_start: "resp (prov_Spawn p so)" "resp (prov_Resume p so)"
  unfolding prov_Spawn_def prov_Resume_def provider_start_def
  by (intro auth_resp; rule respI; simp add: R_spawned R_resumed R_strays R_refl)+

lemma resp_provisioner:
  "resp (resolveProvider c o1)" "resp (rollback c x)" "resp (prepare c x o1)" "resp (claimFor c x y)"
  "resp (spawnOptions r x o1)" "resp (recordInstance c x y)" "resp registry_GetDefault"
proof -
  show gd: "resp registry_GetDefault" unfolding registry_GetDefault_def by (intro auth_resp)
  show rb: "resp (rollback c x)" for c x unfolding rollback_def by (intro auth_resp)
  show "resp (resolveProvider c o1)" unfolding resolveProvider_def by (intro auth_resp gd)
  show "resp (prepare c x o1)" unfolding prepare_def issue_token_def by (intro auth_resp resp_token_service rb)
  show "resp (claimFor c x y)" unfolding claimFor_def by (intro auth_resp)
  show "resp (spawnOptions r x o1)" unfolding spawnOptions_def by (intro auth_resp)
  show "resp (recordInstance c x y)" unfolding recordInstance_def by (intro auth_resp)
qed

lemma resp_provisioner_api:
  "resp (provisioner_Spawn c o1)" "resp (PrepareSpawn c o1)" "resp (DiscardPrepared c x)"
  "resp (provisioner_Destroy c x)"
  unfolding provisioner_Spawn_def PrepareSpawn_def DiscardPrepared_def provisioner_Destroy_def
  by (intro auth_resp resp_provisioner resp_prov_start resp_token_service)+

lemma resp_registration: "resp (registry_Register c rq)"
proof -
  have n: "resp (createNewRunner c rq t)" for c t
    unfolding createNewRunner_def by (intro auth_resp resp_token_service)
  have "resp (handleBoundToken c rq t)" "resp (handleUnboundToken c rq t)" for c t
    unfolding handleBoundToken_def handleUnboundToken_def by (intro auth_resp resp_token_service n)+
  then show ?thesis unfolding registry_Register_def by (intro auth_resp resp_token_service)
qed

lemma resp_resumeManaged: "resp (resumeManaged c s p pf)"
  unfolding resumeManaged_def recordProviderInstance_def
  by (intro auth_resp resp_provisioner_api resp_prov_start)

lemma resp_counting: "resp (autoSpawnCounts r)" "resp (any_counts rs)" "resp (count_spawned s x rs n)"
proof -
  show a: "resp (autoSpawnCounts r)" for r unfolding autoSpawnCounts_def by (intro auth_resp)
  show "resp (any_counts rs)" by (induction rs) (auto intro!: auth_resp a)
  show "resp (count_spawned s x rs n)" by (induction rs arbitrary: n) (auto intro!: auth_resp a)
qed

lemma resp_autoSpawnRunner: "resp (autoSpawnRunner c s pf)"
proof -
  have w: "resp (writeAnnotations c s m)" for c m unfolding writeAnnotations_def by (intro auth_resp)
  have f: "resp (recordAutoSpawnFailure c s e)" "resp (clearAutoSpawnFailure c s)" for c e
    unfolding recordAutoSpawnFailure_def clearAutoSpawnFailure_def by (intro auth_resp w)+
  have b: "resp (autoSpawnBackoff s)" unfolding autoSpawnBackoff_def
    by (intro auth_resp) (auto split: json.splits intro!: auth_resp)
  have p: "resp (autoSpawnPending c s)" "resp (countAutoSpawned c s x)" for c x
    unfolding autoSpawnPending_def countAutoSpawned_def by (intro auth_resp resp_counting)+
  have m: "resp (managedProviderForSession c pf)" for c
    unfolding managedProviderForSession_def by (intro auth_resp resp_provisioner)
  have o1: "resp (autoSpawnOptions s pf pv x)" for pv x
    unfolding autoSpawnOptions_def by (intro auth_resp)
  show ?thesis unfolding autoSpawnRunner_def
    by (intro auth_resp f b p m o1 resp_provisioner_api)
qed

lemma resp_gates: "resp (AuthMiddleware svc mt c rq)" "resp (validateRunnerAuth svc c tk x)"
  unfolding AuthMiddleware_def validateRunnerAuth_def
  by (intro auth_resp resp_key_service resp_token_service)+

end

section \<open>Histories of requests\<close>

definition auth_reaches :: "auth_world \<Rightarrow> auth_world \<Rightarrow> bool" where
  "auth_reaches a a' \<longleftrightarrow> (\<exists>ls. auth_run ls (adb a) (adb a'))"

lemma db_reachable_trans: "db_reachable d' d'' \<Longrightarrow> db_reachable d d' \<Longrightarrow> db_reachable d d''"
  by (induction rule: db_reachable.induct) (auto intro: db_more)

interpretation core_reach: server_contract "\<lambda>w w'. db_reachable (w_db w) (w_db w')" "\<lambda>_. True" "\<lambda>_ _. True"
  by unfold_locales (auto intro: db_start db_more db_reachable_trans)

interpretation reach: auth_contract auth_reaches "\<lambda>w w'. db_reachable (w_db w) (w_db w')"
proof unfold_locales
  fix a b c assume "auth_reaches a b" "auth_reaches b c"
  then show "auth_reaches a c" by (auto simp: auth_reaches_def intro: auth_run_trans)
next
  fix l d t n a assume "auth_step l (adb a) (d, t)"
  then have "auth_run ([] @ [l]) (adb a) (d, t)" by (rule run_more [OF run_none])
  then show "auth_reaches a (a\<lparr>aw_core := (aw_core a)\<lparr>w_tick := n, w_db := d\<rparr>, aw_tables := t\<rparr>)"
    by (auto simp: auth_reaches_def)
qed (auto simp: auth_reaches_def intro: run_none auth_run_core)

text \<open>The environment of a run is fixed.\<close>

definition auth_env_kept :: "auth_world \<Rightarrow> auth_world \<Rightarrow> bool" where
  "auth_env_kept a a' \<longleftrightarrow> env_kept (aw_core a) (aw_core a') \<and>
     a' = a\<lparr>aw_core := aw_core a', aw_tables := aw_tables a', aw_spawned := aw_spawned a',
       aw_resumed := aw_resumed a', aw_strays := aw_strays a'\<rparr>"

interpretation auth_env: auth_contract auth_env_kept env_kept
proof unfold_locales
  fix a b c assume "auth_env_kept a b" "auth_env_kept b c"
  then show "auth_env_kept a c"
    unfolding auth_env_kept_def by (cases a; cases b; cases c) (auto intro: env.R_trans)
qed (auto simp: auth_env_kept_def env_kept_def)

datatype auth_request =
    ReqTokenCreate ctx CreateRunnerTokenOptions | ReqTokenValidate ctx string | ReqTokenRotate ctx string
  | ReqTokenComplete ctx string | ReqTokenBind ctx string string | ReqTokenUnbind ctx string
  | ReqTokenRevoke ctx string string | ReqTokenUsed ctx string
  | ReqKeyCreate ctx CreateAPIKeyOptions | ReqKeyValidate ctx string | ReqKeyRevoke ctx string string
  | ReqKeyUsed ctx string
  | ReqSpawn ctx ProvisionOptions | ReqPrepareSpawn ctx ProvisionOptions | ReqDiscard ctx string
  | ReqDestroyRunner ctx string | ReqRegister ctx RegisterRequest
  | ReqAutoSpawn ctx Session "Profile option" | ReqResumeManaged ctx Session Provider "Profile option"
  | ReqHTTP bool bool ctx http_request | ReqStream bool ctx "gerr + string" string

fun serve_auth :: "auth_request \<Rightarrow> unit A" where
  "serve_auth (ReqTokenCreate c opts) = ignore_err (token_Create c opts)"
| "serve_auth (ReqTokenValidate c tok) = ignore_err (token_Validate c tok)"
| "serve_auth (ReqTokenRotate c tid) = ignore_err (token_Rotate c tid)"
| "serve_auth (ReqTokenComplete c tid) = ignore_err (token_CompleteRotation c tid)"
| "serve_auth (ReqTokenBind c tid rid) = ignore_err (token_BindRunner c tid rid)"
| "serve_auth (ReqTokenUnbind c tid) = ignore_err (token_UnbindRunner c tid)"
| "serve_auth (ReqTokenRevoke c tid why) = ignore_err (token_Revoke c tid why)"
| "serve_auth (ReqTokenUsed c tid) = ignore_err (token_UpdateLastUsed c tid)"
| "serve_auth (ReqKeyCreate c opts) = ignore_err (key_Create c opts)"
| "serve_auth (ReqKeyValidate c tok) = ignore_err (key_Validate c tok)"
| "serve_auth (ReqKeyRevoke c kid why) = ignore_err (key_Revoke c kid why)"
| "serve_auth (ReqKeyUsed c kid) = ignore_err (key_UpdateLastUsed c kid)"
| "serve_auth (ReqSpawn c opts) = ignore_err (provisioner_Spawn c opts)"
| "serve_auth (ReqPrepareSpawn c opts) = ignore_err (PrepareSpawn c opts)"
| "serve_auth (ReqDiscard c rid) = DiscardPrepared c rid"
| "serve_auth (ReqDestroyRunner c rid) = ignore_err (provisioner_Destroy c rid)"
| "serve_auth (ReqRegister c req) = ignore_err (registry_Register c req)"
| "serve_auth (ReqAutoSpawn c s pf) = do { _ \<leftarrow> autoSpawnRunner c s pf; ret () }"
| "serve_auth (ReqResumeManaged c s p pf) = resumeManaged c s p pf"
| "serve_auth (ReqHTTP svc mt c r) = do { _ \<leftarrow> AuthMiddleware svc mt c r; ret () }"
| "serve_auth (ReqStream svc c tok rid) = ignore_err (validateRunnerAuth svc c tok rid)"

context auth_contract
begin

lemma resp_serve_auth: "resp (serve_auth q)"
  by (cases q; simp only: serve_auth.simps; intro resp_ignore_err resp_bind resp_return resp_token_service
      resp_key_service resp_provisioner_api resp_registration resp_autoSpawnRunner resp_resumeManaged resp_gates)

end

text \<open>
  Every history of credential and provisioning requests, whatever statement, random read or
  provider call fails, keeps the schema: ids and hashes of keys and tokens are unique, the status
  of a token is one of the four, a token bound to a runner names a runner that exists (the
  deletion of a runner included), and the constraints of the other tables hold.
\<close>

theorem credentials_keep_schema:
  assumes "auth_inv (adb a)" and "run_state (for_each serve_auth qs) a = (u, a')"
  shows "auth_inv (adb a')"
proof -
  have "reach.resp (for_each serve_auth qs)" by (intro reach.resp_for_each reach.resp_serve_auth)
  from reach.respD [OF this assms(2)] assms(1) show ?thesis
    by (auto simp: auth_reaches_def intro: auth_run_inv)
qed

end
