(* ===== verification/Runner_Claims.thy ===== *)
theory Runner_Claims
  imports Auth_Laws Runner_Allocation
begin

text \<open>
  The claim on a runner over every statement of every server process, those on the credential
  tables and the deletion of a runner included.
\<close>

text \<open>
  C7. A claim changes hands only by the holder's own release, by the holder's own renewal, by a claim
  made after the lease ran out, or by the deletion of the claimed runner itself; no other statement
  that any server process can execute on the core and credential tables touches it.
\<close>

theorem claim_exclusive:
  assumes inv: "auth_inv D" and step: "auth_step l D D'" and held: "claims (fst D) rid = Some (holder, at)"
  shows "claims (fst D') rid = Some (holder, at) \<or>
     (claims (fst D') rid = None \<and> l = ACore (SReleaseRunnerClaim rid holder)) \<or>
     (claims (fst D') rid = None \<and> l = ADeleteRunner rid \<and> rid \<notin> rID ` set (runners (fst D'))) \<or>
     (\<exists>sid now lease. l = ACore (SClaimRunner rid sid now lease) \<and> claims (fst D') rid = Some (sid, now) \<and>
        (sid = holder \<or> at + effective_lease lease < now))"
  using step
proof cases
  case (a_core l' d d' t)
  have "db_inv d" using inv a_core by (simp add: auth_inv_def)
  from claim_step [OF this a_core(4)] held a_core show ?thesis by auto
qed (use held in \<open>auto simp: createAPIKey_def updateAPIKey_def deleteAPIKey_def createRunnerToken_def updateRunnerToken_def
    deleteRunnerToken_def deleteRunner_def Let_def split: if_splits option.splits prod.splits\<close>)

end
