(* ===== verification/Witnesses.thy ===== *)
theory Witnesses
  imports Sample Cas_Sample Runner_Claims
begin

text \<open>
  The properties applied to the sample deployment: each theorem below instantiates one property at
  a concrete world, evaluates the handler there, discharges the hypotheses and states what the
  property then says.
\<close>

section \<open>Dispatch\<close>

text \<open>A database that fails at the update inside the transaction, and a hop whose answer is lost.\<close>

definition faulty_world :: world where
  "faulty_world = sample_world\<lparr>e_fault := (\<lambda>t. if t = 6 then Some ''gone'' else None)\<rparr>"

definition lost_reply_world :: world where
  "lost_reply_world = undelivered_world\<lparr>e_lost := (\<lambda>_. True)\<rparr>"

definition no_credentials :: auth_tables where
  "no_credentials = \<lparr>api_keys = [], runner_tokens = []\<rparr>"

theorem dispatch_sends_recorded_run_witness:
  "\<exists>run w' task session runnerID.
     run_state (dispatch 6 app_ctx ''t-1'' False) sample_world = (Inr run, w') \<and>
     w_sent w' = w_sent sample_world @ [(runnerID, mk_ExecuteTask task run session)] \<and>
     run \<in> set (task_runs (w_db w')) \<and> trTaskID run = ''t-1''"
proof -
  obtain run w' where r: "run_state (dispatch 6 app_ctx ''t-1'' False) sample_world = (Inr run, w')"
    using returned [OF sample_dispatch_ok] by blast
  have inv: "db_inv (w_db sample_world)" using sample_db_inv by simp
  from dispatch_sends_recorded_run [OF inv r] r show ?thesis by blast
qed

theorem dispatch_error_atomic_witness:
  "\<exists>w1 w2 task session runnerID rn.
     run_state (dispatch 6 app_ctx ''t-1'' False) faulty_world = (Inl (ErrDatabase ''gone''), w1) \<and>
     w_db w1 = w_db faulty_world \<and> w_sent w1 = w_sent faulty_world \<and> w_unacked w1 = w_unacked faulty_world \<and>
     run_state (dispatch 6 app_ctx ''t-1'' False) lost_reply_world = (Inl (ErrSend ''no stream''), w2) \<and>
     w_sent w2 = w_sent lost_reply_world \<and>
     w_unacked w2 = w_unacked lost_reply_world @ [(runnerID, mk_ExecuteTask task rn session)] \<and> trTaskID rn = ''t-1''"
proof -
  have inv: "db_inv (w_db faulty_world)" "db_inv (w_db lost_reply_world)"
    using sample_db_inv by (simp_all add: faulty_world_def lost_reply_world_def undelivered_world_def)
  have "fst (run_state (dispatch 6 app_ctx ''t-1'' False) faulty_world) = Inl (ErrDatabase ''gone'')" by code_simp
  then obtain w1 where r1: "run_state (dispatch 6 app_ctx ''t-1'' False) faulty_world = (Inl (ErrDatabase ''gone''), w1)"
    by (metis fst_conv surj_pair)
  have "fst (run_state (dispatch 6 app_ctx ''t-1'' False) lost_reply_world) = Inl (ErrSend ''no stream'') \<and>
      w_unacked (snd (run_state (dispatch 6 app_ctx ''t-1'' False) lost_reply_world)) \<noteq> []" by code_simp
  then obtain w2 where r2: "run_state (dispatch 6 app_ctx ''t-1'' False) lost_reply_world = (Inl (ErrSend ''no stream''), w2)"
    and left: "w_unacked w2 \<noteq> []" by (metis fst_conv snd_conv surj_pair)
  have none: "w_unacked lost_reply_world = []"
    by (simp add: lost_reply_world_def undelivered_world_def sample_world_def)
  from dispatch_error_atomic [OF inv(1) r1] r1 dispatch_error_atomic [OF inv(2) r2] r2 left none
  show ?thesis by auto
qed

theorem dispatch_send_failure_unwound_witness:
  "\<exists>w' t' r. run_state (dispatch 6 app_ctx ''t-1'' False) undelivered_world = (Inl (ErrSend ''no stream''), w') \<and>
     task_tbl.lookup app_ctx ''t-1'' (w_db w') = Some t' \<and> tStatus t' = TaskStatusPending \<and>
     r \<in> set (task_runs (w_db w')) \<and> trTaskID r = ''t-1'' \<and> trStatus r = TaskRunStatusFailed"
proof -
  obtain w' where r: "run_state (dispatch 6 app_ctx ''t-1'' False) undelivered_world = (Inl (ErrSend ''no stream''), w')"
    using sample_dispatch_unsent by (metis fst_conv surj_pair)
  have "db_inv (w_db undelivered_world)" "e_fault undelivered_world = (\<lambda>_. None)"
    using sample_db_inv by (simp_all add: undelivered_world_def sample_world_def)
  from dispatch_send_failure_unwound [OF this r] r show ?thesis by blast
qed

theorem dispatchNext_oldest_first_witness:
  "\<exists>r w' task rn session runnerID. run_state (dispatchNext 6 app_ctx ''s-1'' False) sample_world = (r, w') \<and>
     w_sent w' = w_sent sample_world @ [(runnerID, mk_ExecuteTask task rn session)] \<and>
     task \<in> session_tasks sample_db app_ctx ''s-1'' TaskStatusPending \<and>
     session_tasks sample_db app_ctx ''s-1'' TaskStatusRunning = {}"
proof -
  obtain r w' where r: "run_state (dispatchNext 6 app_ctx ''s-1'' False) sample_world = (r, w')"
    by (cases "run_state (dispatchNext 6 app_ctx ''s-1'' False) sample_world")
  have "w_sent (snd (run_state (dispatchNext 6 app_ctx ''s-1'' False) sample_world)) \<noteq> w_sent sample_world"
    by code_simp
  with r have "w_sent w' \<noteq> w_sent sample_world" by simp
  with dispatchNext_oldest_first [OF _ r] r sample_db_inv show ?thesis unfolding sample_w_db by blast
qed

theorem redispatch_after_failed_send_blocked_witness:
  "\<exists>w1 r w3. run_state (Execute 6 app_ctx ''t-1'') undelivered_world = (Inl (ErrSend ''no stream''), w1) \<and>
     run_state (Execute 6 app_ctx ''t-1'') (w1\<lparr>e_send := (\<lambda>_. None)\<rparr>) = (r, w3) \<and>
     w_sent w3 = w_sent w1 \<and> w_unacked w3 = w_unacked w1 \<and> w_db w3 = w_db w1 \<and> r \<noteq> Inr ()"
proof -
  have "fst (run_state (Execute 6 app_ctx ''t-1'') undelivered_world) = Inl (ErrSend ''no stream'')"
    by code_simp
  then obtain w1 where first: "run_state (Execute 6 app_ctx ''t-1'') undelivered_world = (Inl (ErrSend ''no stream''), w1)"
    by (metis fst_conv surj_pair)
  obtain r w3 where again: "run_state (Execute 6 app_ctx ''t-1'') (w1\<lparr>e_send := (\<lambda>_. None)\<rparr>) = (r, w3)"
    by (cases "run_state (Execute 6 app_ctx ''t-1'') (w1\<lparr>e_send := (\<lambda>_. None)\<rparr>)")
  have inv: "db_inv (w_db undelivered_world)" using sample_db_inv by simp
  from redispatch_after_failed_send_blocked [OF inv first _ again] first again show ?thesis by simp
qed

section \<open>Sessions and runners\<close>

theorem activate_exclusive_witness:
  "\<exists>w' s'. run_state (Activate app_ctx ''s-3'' ''run-2'') sample_world = (Inr (), w') \<and>
     session_tbl.lookup app_ctx ''s-3'' (w_db w') = Some s' \<and> active_on s' ''run-2''"
proof -
  obtain w' where r: "run_state (Activate app_ctx ''s-3'' ''run-2'') sample_world = (Inr (), w')"
    using sample_activation by blast
  have "db_inv (w_db sample_world)" "''run-2'' \<noteq> []" using sample_db_inv by simp_all
  from activate_exclusive [OF this r] r show ?thesis by blast
qed

theorem claim_exclusive_witness:
  "\<exists>d'. auth_step (ACore (SClaimRunner ''run-2'' ''s-1'' 500 60)) (claimed_db, no_credentials) (d', no_credentials) \<and>
     claims d' ''run-2'' = Some (''s-3'', 490)"
proof -
  have run: "claimRunner 500 app_ctx ''run-2'' ''s-1'' 60 claimed_db = Inr (False, claimed_db)"
    by (simp add: claimRunner_def claimed_db_def sample_db_def sample_rows claim_free_def Let_def)
  have step: "auth_step (ACore (SClaimRunner ''run-2'' ''s-1'' 500 60)) (claimed_db, no_credentials) (claimed_db, no_credentials)"
    by (rule auth_step.a_core [OF db_step.step_claimRunner [OF run]])
  have inv: "auth_inv (claimed_db, no_credentials)"
    using claimed_db_inv by (simp add: auth_inv_def Auth_Laws.keys_ok_def tokens_ok_def no_credentials_def)
  have held: "claims (fst (claimed_db, no_credentials)) ''run-2'' = Some (''s-3'', 490)" by (simp add: claimed_db_def)
  from claim_exclusive [OF inv step held] step held show ?thesis by (auto simp: effective_lease_def)
qed

theorem selectIdleRunner_sound_witness:
  "\<exists>rid w' (runner :: Runner) at. run_state (selectIdleRunner app_ctx (sample_session ''s-3'' SessionStatusPending None) None)
       sample_world = (Inr rid, w') \<and> rID runner = rid \<and> rStatus runner = StatusIdle \<and>
     claims (w_db w') rid = Some (''s-3'', at)"
proof -
  let ?s = "sample_session ''s-3'' SessionStatusPending None"
  obtain rid w' where r: "run_state (selectIdleRunner app_ctx ?s None) sample_world = (Inr rid, w')"
    using sample_selection by blast
  have id: "sID ?s = ''s-3''" by (simp add: sample_session_def)
  from selectIdleRunner_sound [OF r] r show ?thesis unfolding id by blast
qed

theorem ensureRunner_cannot_repair_active_session_witness:
  "\<exists>e w'. run_state (EnsureRunner (\<lambda>_ _ _. ret False) app_ctx ''s-1'') detached_world = (Inl e, w')"
  by (rule ensureRunner_cannot_repair_active_session
      [where session = "sample_session ''s-1'' SessionStatusActive None"])
    (use detached_db_inv in \<open>auto simp: detached_world_def detached_db_def sample_rows nonempty_def
      session_tbl.lookup_def\<close>)

theorem activate_available_witness:
  "\<exists>w'. run_state (Activate app_ctx ''s-3'' ''run-2'') sample_world = (Inr (), w')"
  by (rule activate_available [where session = "sample_session ''s-3'' SessionStatusPending None"
        and runner = "sample_runner ''run-2'' StatusIdle"])
    (use sample_lookups sample_db_inv sample_nofault sample_run2_free sample_run2_fits in auto)

theorem selectIdleRunner_complete_witness:
  "\<exists>rid w'. run_state (selectIdleRunner app_ctx (sample_session ''s-3'' SessionStatusPending None) None) sample_world
     = (Inr rid, w')"
  by (rule selectIdleRunner_complete [OF sample_nofault(1) _ sample_idle_runner(1) _ sample_idle_runner(2,3) _ _ sample_idle_runner(4)])
    (use sample_db_inv sample_run2_free in \<open>auto simp: sample_runner_def\<close>)

section \<open>Paging and snapshots\<close>

theorem paging_complete_witness:
  "walk_pages 4 session_col sCreatedAt sID 2
     \<lparr>lpColumn = ''created_at'', lpDesc = True, lpCondition = None, lpCursorable = True\<rparr> (sessions sample_db) =
   Some (ordered_rows session_col sID
     \<lparr>lpColumn = ''created_at'', lpDesc = True, lpCondition = None, lpCursorable = True\<rparr> (sessions sample_db))"
  by (rule paging_complete) (simp_all add: sample_db_def sample_session_def session_col_def)

theorem merge_unions_permissions_witness:
  "\<exists>s'. Merge (NewContextSnapshot 1\<lparr>csPendingPermissions := [''p-1'', ''p-2'']\<rparr>)
       (Some (NewContextSnapshot 2\<lparr>csPendingPermissions := [''p-2'', ''p-3'']\<rparr>)) = Some s' \<and>
     distinct (csPendingPermissions s') \<and> set (csPendingPermissions s') = {''p-1'', ''p-2'', ''p-3''}"
proof -
  let ?s = "NewContextSnapshot 1\<lparr>csPendingPermissions := [''p-1'', ''p-2'']\<rparr>"
  let ?x = "NewContextSnapshot 2\<lparr>csPendingPermissions := [''p-2'', ''p-3'']\<rparr>"
  have "csEnvironment ?s = Some []" "distinct (csPendingPermissions ?s)"
    by (simp_all add: NewContextSnapshot_def)
  from merge_unions_permissions [OF this, of ?x] obtain s' where
    "Merge ?s (Some ?x) = Some s'" "distinct (csPendingPermissions s')"
    "set (csPendingPermissions s') = set (csPendingPermissions ?s) \<union> set (csPendingPermissions ?x)"
    by blast
  then show ?thesis by (intro exI [of _ s']) auto
qed

theorem merge_after_reload_panics_witness:
  "\<exists>s'. ParseContextSnapshot (Some (ToJSON (NewContextSnapshot 1))) = Inr (Some s') \<and>
     Merge s' (Some (NewContextSnapshot 2\<lparr>csEnvironment := Some [(''A'', ''1'')]\<rparr>)) = None"
proof -
  let ?s = "NewContextSnapshot 1" and ?x = "NewContextSnapshot 2\<lparr>csEnvironment := Some [(''A'', ''1'')]\<rparr>"
  have e: "env_entries ?s = []" "env_entries ?x \<noteq> []"
    by (simp_all add: NewContextSnapshot_def env_entries_def)
  from merge_after_reload_panics [OF e(1) snapshot_parsed e(2)] snapshot_parsed show ?thesis by blast
qed

section \<open>Content addressed storage\<close>

theorem sync_commits_complete_snapshot_witness:
  "\<exists>m' d' s' es obj. run_state (syncCDC DefaultConfig sample_manifest next_tree (Some flat_cursor) None) next_store = (Inr (m', d'), s') \<and>
     entries_of sample_env DefaultConfig {dir_entry, file_entry} next_tree es \<and>
     cw_blobs s' (manifestKey ''t'' ''ws-1'' ''m-1'') = Some obj \<and>
     object_holds sample_env ''t'' obj (ToHeader m') es \<and>
     (\<forall>f\<in>set es. \<forall>h\<in>set (mfChunks f). cw_blobs s' (chunkKey ''t'' h) \<noteq> None)"
proof -
  let ?sync = "syncCDC DefaultConfig sample_manifest next_tree (Some flat_cursor) None"
  obtain m' d' s' where r: "run_state ?sync next_store = (Inr (m', d'), s')" using next_sync_ok by blast
  have m: "mTenantID sample_manifest = ''t''" "mWorkspaceID sample_manifest = ''ws-1''" "mID sample_manifest = ''m-1''"
    by (simp_all add: sample_manifest_def)
  have "cw_blobs next_store (chunkKey ''t'' h) \<noteq> None" if "h \<in> set (mfChunks p)" "p \<in> {dir_entry, file_entry}" for p h
    using that by (auto simp: dir_entry_def file_entry_def next_store_def)
  with sync_commits_complete_snapshot [where s = next_store, OF _ _ _ r] r show ?thesis
    by (fastforce simp: next_env sample_encryptor sample_header_codec sample_file_codec sample_parent m)
qed

theorem sync_restore_roundtrip_witness:
  "\<exists>m' d' s' M. run_state (syncCDC DefaultConfig sample_manifest next_tree (Some flat_cursor) None) next_store = (Inr (m', d'), s') \<and>
     fst (run_state (LoadManifest ''t'' ''ws-1'' ''m-1'') s') = Inr M \<and>
     (\<exists>f\<in>set (mFiles M). mfPath f = ''src/b'' \<and> fst (run_state (writeChunks ''t'' (mfChunks f)) s') = Inr [9])"
proof -
  let ?sync = "syncCDC DefaultConfig sample_manifest next_tree (Some flat_cursor) None"
  obtain m' d' s' where r: "run_state ?sync next_store = (Inr (m', d'), s')" using next_sync_ok by blast
  have m: "mTenantID sample_manifest = ''t''" "mWorkspaceID sample_manifest = ''ws-1''" "mID sample_manifest = ''m-1''"
    by (simp_all add: sample_manifest_def)
  have e: "cw_env s' = sample_env" using next_sync_env [OF r] .
  have p: "\<forall>p\<in>{dir_entry, file_entry}. \<forall>h\<in>set (mfChunks p). cw_blobs next_store (chunkKey ''t'' h) \<noteq> None"
    by (simp add: dir_entry_def file_entry_def next_store_def)
  have f: "new_file \<in> set next_tree" "regular_file new_file" "fiRel new_file = ''src/b''" "fiData new_file = [9]"
    "mfPath dir_entry \<noteq> ''src/b''" "mfPath file_entry \<noteq> ''src/b''"
    by (simp_all add: next_tree_def new_file_def regular_file_def mode_IsRegular_def ModeSymlink_def ModeType_def dir_entry_def file_entry_def)
  from sync_restore_roundtrip [where s = next_store and s'' = s', OF _ _ _ r]
  have "\<exists>es M. entries_of sample_env DefaultConfig {dir_entry, file_entry} next_tree es \<and>
    fst (run_state (LoadManifest ''t'' ''ws-1'' ''m-1'') s') = Inr M \<and> mFiles M = es \<and>
    (\<forall>i\<in>set next_tree. regular_file i \<longrightarrow> (\<exists>f\<in>set es. mfPath f = fiRel i \<and>
      (fst (run_state (writeChunks ''t'' (mfChunks f)) s') = Inr (fiData i) \<or>
       (\<exists>p\<in>{dir_entry, file_entry}. mfPath p = fiRel i \<and> reusable p i \<and> f = copied_entry i p))))"
    using next_hash_inj sample_quiet(1) [OF e] p next_sound
    by (simp add: next_env sample_encryptor sample_header_codec sample_file_codec sample_parent m sample_split_ok e)
  then obtain M where M: "fst (run_state (LoadManifest ''t'' ''ws-1'' ''m-1'') s') = Inr M"
    "\<forall>i\<in>set next_tree. regular_file i \<longrightarrow> (\<exists>f\<in>set (mFiles M). mfPath f = fiRel i \<and>
      (fst (run_state (writeChunks ''t'' (mfChunks f)) s') = Inr (fiData i) \<or>
       (\<exists>p\<in>{dir_entry, file_entry}. mfPath p = fiRel i \<and> reusable p i \<and> f = copied_entry i p)))" by blast
  then show ?thesis using r f by fastforce
qed

theorem manifest_object_roundtrip_witness:
  "\<exists>w0 s1 w1 s2 w2 s3. run_state (OpenManifestWriter (Some written_manifest)) sample_store = (Inr w0, s1) \<and>
     run_state (append_all [dir_entry, file_entry] w0) s1 = ((w1, Inr ()), s2) \<and>
     run_state (Commit w1) s2 = ((w2, Inr ()), s3) \<and>
     fst (run_state (LoadManifest ''t'' ''ws-1'' ''m-1'') s3) =
       Inr (written_manifest\<lparr>mFileCount := 2, mFiles := [dir_entry, file_entry]\<rparr>)"
proof -
  obtain w0 s1 w1 s2 w2 s3 where
    r: "run_state (OpenManifestWriter (Some written_manifest)) sample_store = (Inr w0, s1)"
      "run_state (append_all [dir_entry, file_entry] w0) s1 = ((w1, Inr ()), s2)"
      "run_state (Commit w1) s2 = ((w2, Inr ()), s3)" and e: "cw_env s3 = sample_env"
    using sample_write_ok by blast
  have m: "mTenantID written_manifest = ''t''" "mWorkspaceID written_manifest = ''ws-1''" "mID written_manifest = ''m-1''"
    "mParentID written_manifest = None" "mChunkHash written_manifest = None"
    by (simp_all add: written_manifest_def sample_manifest_def)
  have "fst (run_state (LoadManifest ''t'' ''ws-1'' ''m-1'') s3) =
      Inr (written_manifest\<lparr>mFileCount := int (length [dir_entry, file_entry]), mFiles := [dir_entry, file_entry]\<rparr>)"
    using manifest_object_roundtrip [OF _ _ _ r, of s3]
    by (simp add: m sample_store_ok sample_encryptor sample_header_codec sample_file_codec e sample_quiet(2))
  with r show ?thesis by auto
qed

theorem truncated_manifest_accepted_witness:
  "fst (run_state (LoadManifest ''t'' ''ws-1'' ''m-1'') truncated_store) = Inr ((FromHeader sample_header)\<lparr>mFiles := []\<rparr>)"
  by (rule truncated_manifest_accepted [where hs = "[1, 104, newline]" and hl = "[104]" and ss = "[]" and pss = "[]"
        and ts = "[1 # text_of [[100], [102]]]" and qss = "[[[100], [102]]]" and stub = "[]"])
    (simp_all add: truncated_store_def sample_store_def sealed_as_def sample_env_def text_of_def line_ok_def newline_def
      maxFrameCiphertext_def readable_def)

theorem streaming_lookup_equals_index_witness:
  "\<exists>ls. newParentLookup sample_env (Some (as_ordered True sample_cursor)) = Inr ls \<and>
     fst (lookup_all sample_env [''src/a''] ls) = [Some file_entry] \<and>
     plSkipped (Drain sample_env (snd (lookup_all sample_env [''src/a''] (ls\<lparr>plOnSkip := True\<rparr>)))) = [dir_entry]"
proof -
  have i: "index_files [dir_entry, file_entry] ''src/a'' = Some file_entry"
    by (simp add: index_files_def dir_entry_def file_entry_def)
  have p: "mfPath dir_entry = ''src''" "mfPath file_entry = ''src/a''"
    by (simp_all add: dir_entry_def file_entry_def)
  from streaming_lookup_equals_index [OF sample_cursor_files sample_paths_ordered] show ?thesis
    by (auto simp: i p)
qed

theorem chunk_count_bounds_witness:
  "Distinct (fold Known [''aa'', ''bb'', ''aa''] (newChunkSink ''t'' DefaultConfig)) = 2"
proof -
  have "card (set [''aa'', ''bb'', ''aa'']) = 2" by (simp add: insert_commute)
  with chunk_count_bounds [of "[''aa'', ''bb'', ''aa'']" "''t''" DefaultConfig] show ?thesis
    by (simp add: DefaultConfig_def)
qed

theorem referenced_chunks_survive_gc_witness:
  "\<exists>db R. cas_step\<^sup>*\<^sup>* (empty_chunk_db, \<lambda>_. {}) (db, R) \<and> deleteChunkIfUnreferenced 1000 ''t'' ''aa11'' 0 db = (False, db)"
proof -
  let ?R = "(\<lambda>_. {})(''m-1'' := {''aa11''})"
  obtain db where r: "cas_step\<^sup>*\<^sup>* (empty_chunk_db, \<lambda>_. {}) (db, ?R)" and m: "sample_row \<in> set (cdManifests db)"
    using sample_commit_step by blast
  have "''aa11'' \<in> ?R (mrID sample_row)" "mrTenantID sample_row = ''t''" by (simp_all add: sample_row_def)
  with referenced_chunks_survive_gc [OF r, of 1000 0] m
  have "deleteChunkIfUnreferenced 1000 ''t'' ''aa11'' 0 db = (False, db)" by force
  with r show ?thesis by (intro exI conjI)
qed

theorem mark_ends_and_is_complete_witness:
  "\<exists>n errs g'. Mark (NewGC wet_cfg) ''t'' sample_gc = Some ((n, errs), g') \<and> ref_count (gwDb g') ''t'' ''aa11'' = 0"
proof -
  have "ref_count (gwDb sample_gc) ''t'' ''aa11'' = 0" by (simp add: sample_gc_def ref_count_def garbage_chunk_def)
  with mark_ends_and_is_complete [of wet_cfg sample_gc "''t''"] show ?thesis
    by (auto simp: wet_cfg_def sample_gc_ok)
qed

theorem sweep_ends_and_spares_references_witness:
  "\<exists>r g'. GC_Sweep wet_cfg ''t'' mixed_gc = Some (r, g') \<and> set (cdChunks (gwDb g')) \<subseteq> {garbage_chunk, used_chunk} \<and>
     used_chunk \<in> set (cdChunks (gwDb g')) \<and> cw_blobs (gwCas g') (chunkKey ''t'' ''bb22'') = Some [1, 9]"
proof -
  have c: "chRefCount used_chunk \<noteq> 0" "chTenantID used_chunk = ''t''" "chHash used_chunk = ''bb22''"
    by (simp_all add: used_chunk_def)
  have "\<not> gcDryRun wet_cfg" by (simp add: wet_cfg_def)
  from sweep_ends_and_spares_references [OF this, of mixed_gc "''t''"] show ?thesis
    using c mixed_gc_ok by auto
qed

theorem dry_run_sweep_never_ends_witness: "GC_Sweep (NewGC dry_cfg) ''t'' sample_gc = None"
  by (rule dry_run_sweep_never_ends)
    (simp_all add: dry_cfg_def NewGC_def sample_gc_ok sample_sweepable)

theorem sweep_can_lose_committed_chunk_witness:
  "\<exists>g4 :: gc_world. ref_count (gwDb g4) ''t'' ''aa11'' = 1 \<and>
     fst (run_state (GetChunk ''t'' ''aa11'') (gwCas g4)) = Inl ErrChunkNotFound"
proof -
  obtain r1 g1 r2 g2 db r4 g4 where
    s: "gc_stmt (\<lambda>now locked db. deleteChunkIfUnreferenced now ''t'' ''aa11'' 50 db) sample_gc = (r1, g1)"
      "gc_blob (upload_chunk ''t'' ''aa11'' sample_data) g1 = (r2, g2)"
      "CommitManifest 200 ''m-1'' (Some sample_row) [Some (''aa11'', 2)] (gwDb g2) = Inr db"
      "gc_blob (DeleteChunk ''t'' ''aa11'') (g2\<lparr>gwDb := db\<rparr>) = (r4, g4)"
    using sample_race by blast
  have c: "\<exists>c\<in>set (cdChunks (gwDb sample_gc)). chHash c = ''aa11'' \<and> sweepable (gwNow sample_gc (gw_tick sample_gc)) ''t'' 50 c"
    using sample_sweepable by (simp add: sample_gc_ok) (simp add: garbage_chunk_def)
  have b: "cw_blobs (gwCas sample_gc) (chunkKey ''t'' ''aa11'') \<noteq> None" by (simp add: sample_gc_def)
  have t: "mrTenantID sample_row = ''t''" by (simp add: sample_row_def)
  have f: "\<forall>i. ce_fault (cw_env (gwCas sample_gc)) i = None" by (simp add: sample_gc_ok)
  from sweep_can_lose_committed_chunk [OF f sample_gc_ok(1) c b s(1,2) t s(3,4)] show ?thesis by blast
qed

end
