(* ===== verification/Permission_Manager.thy ===== *)
theory Permission_Manager
  imports Session_Manager
begin

text \<open>
  Permission requests: \<^verbatim>\<open>permission_manager.go\<close> and the enforcer that suspends sessions whose
  request waits too long, \<^verbatim>\<open>permission_timeout_enforcer.go\<close>.
\<close>

definition RiskLevelMedium :: string where "RiskLevelMedium = ''medium''"

definition DefaultSuspendAfterSeconds :: int where "DefaultSuspendAfterSeconds = 1800"

record CreatePermissionRequestInput =
  cpiOriginalRequestID :: string
  cpiSessionID :: string
  cpiTaskID :: string
  cpiRunID :: string
  cpiTool :: string
  cpiAction :: string
  cpiContext :: string
  cpiRiskLevel :: string
  cpiSuspendAfterSeconds :: int
  cpiTenantID :: "string option"

definition new_permission :: "string \<Rightarrow> int \<Rightarrow> CreatePermissionRequestInput \<Rightarrow> PermissionRequest" where
  "new_permission pid now req =
     \<lparr>pID = pid, pOriginalRequestID = cpiOriginalRequestID req, pSessionID = cpiSessionID req,
      pTaskID = cpiTaskID req, pRunID = cpiRunID req, pTool = cpiTool req, pAction = cpiAction req,
      pContext = (if cpiContext req \<noteq> '''' then Some (cpiContext req) else None),
      pRiskLevel = (if cpiRiskLevel req = '''' then RiskLevelMedium else cpiRiskLevel req),
      pStatus = PermissionStatusPending,
      pSuspendAfterSeconds = (if cpiSuspendAfterSeconds req \<le> 0 then DefaultSuspendAfterSeconds
                              else cpiSuspendAfterSeconds req),
      pRespondedBy = None, pResponseReason = None, pRespondedAt = None, pDeliveredAt = None,
      pTenantID = cpiTenantID req, pCreatedAt = now, pUpdatedAt = now\<rparr>"

definition pm_Create :: "ctx \<Rightarrow> CreatePermissionRequestInput \<Rightarrow> PermissionRequest G" where
  "pm_Create c req = do {
     now \<leftarrow> Now;
     pid \<leftarrow> new_id;
     guard_ok (CreatePermissionRequest c (new_permission pid now req)) (\<lambda>perm. do {
       _ \<leftarrow> emit_webhook ''permission.requested'' (pID perm);
       ok perm
     })
   }"

section \<open>Responding\<close>

definition respond_updates :: "bool \<Rightarrow> string \<Rightarrow> string \<Rightarrow> int \<Rightarrow> PermissionRequestUpdates" where
  "respond_updates approved reason respondedBy now = no_permission_updates\<lparr>
     puStatus := Some (if approved then PermissionStatusApproved else PermissionStatusDenied),
     puRespondedAt := Some now,
     puRespondedBy := (if respondedBy \<noteq> '''' then Some respondedBy else None),
     puResponseReason := (if reason \<noteq> '''' then Some reason else None)\<rparr>"

definition markPermissionDelivered :: "ctx \<Rightarrow> string \<Rightarrow> unit M" where
  "markPermissionDelivered c permID = do {
     now \<leftarrow> Now;
     ignore_err (UpdatePermissionRequest c permID (no_permission_updates\<lparr>puDeliveredAt := Some now\<rparr>))
   }"

text \<open>The part of \<^verbatim>\<open>Respond\<close> after the update: resume, then tell the runner.\<close>

definition deliver_response :: "ctx \<Rightarrow> PermissionRequest \<Rightarrow> string \<Rightarrow> bool \<Rightarrow> string \<Rightarrow> unit G" where
  "deliver_response c perm permID approved reason = do {
     s \<leftarrow> GetSession c (pSessionID perm);
     (case s of
        Inl _ \<Rightarrow> ok ()
      | Inr session \<Rightarrow> do {
          cfg \<leftarrow> asks e_cfg;
          _ \<leftarrow> (if sStatus session = SessionStatusSuspended \<and> cfgSessionManager cfg
                then ignore_err (Resume c (sID session)) else ret ());
          (case sRunnerID session of
             Some runnerID \<Rightarrow>
               if cfgCmdSender cfg then do {
                 sent \<leftarrow> SendCommand runnerID (ApprovePermission (pOriginalRequestID perm) approved reason);
                 (case sent of
                    Inl _ \<Rightarrow> ok ()
                  | Inr _ \<Rightarrow> do { _ \<leftarrow> markPermissionDelivered c permID; ok () })
               } else ok ()
           | None \<Rightarrow> ok ())
        })
   }"

text \<open>\<^verbatim>\<open>Respond\<close> once the request was read and found pending.\<close>

definition respond_pending :: "ctx \<Rightarrow> PermissionRequest \<Rightarrow> string \<Rightarrow> bool \<Rightarrow> string \<Rightarrow> string \<Rightarrow> unit G" where
  "respond_pending c perm permID approved reason respondedBy = do {
     now \<leftarrow> Now;
     guard_ok (UpdatePermissionRequest c permID (respond_updates approved reason respondedBy now)) (\<lambda>_. do {
       _ \<leftarrow> emit_webhook (if approved then ''permission.approved'' else ''permission.denied'') permID;
       _ \<leftarrow> emit_audit (if approved then ''permission.approved'' else ''permission.denied'') permID;
       deliver_response c perm permID approved reason
     })
   }"

definition Respond :: "ctx \<Rightarrow> string \<Rightarrow> bool \<Rightarrow> string \<Rightarrow> string \<Rightarrow> unit G" where
  "Respond c permID approved reason respondedBy =
     guard_ok (map_err (not_found_as ErrPermissionNotFound) (GetPermissionRequest c permID)) (\<lambda>perm.
       if pStatus perm \<noteq> PermissionStatusPending then err ErrPermissionAlreadyResponded
       else respond_pending c perm permID approved reason respondedBy)"

definition pm_Get :: "ctx \<Rightarrow> string \<Rightarrow> PermissionRequest G" where
  "pm_Get c permID = map_err (not_found_as ErrPermissionNotFound) (GetPermissionRequest c permID)"

definition pm_Cancel :: "ctx \<Rightarrow> string \<Rightarrow> unit G" where
  "pm_Cancel c permID =
     guard_ok (map_err (not_found_as ErrPermissionNotFound) (GetPermissionRequest c permID)) (\<lambda>perm.
       if pStatus perm \<noteq> PermissionStatusPending then err ErrPermissionNotPending
       else do {
         now \<leftarrow> Now;
         guard_ok (UpdatePermissionRequest c permID (no_permission_updates\<lparr>
             puStatus := Some PermissionStatusCanceled, puRespondedAt := Some now\<rparr>)) (\<lambda>_. do {
           _ \<leftarrow> emit_webhook ''permission.canceled'' permID;
           _ \<leftarrow> emit_audit ''permission.canceled'' permID;
           ok ()
         })
       })"

section \<open>Timeouts\<close>

definition pending_permission_opts :: ListPermissionRequestsOptions where
  "pending_permission_opts =
     \<lparr>lpoBase = default_opts, lpoSessionID = None, lpoTaskID = None, lpoRunID = None,
      lpoStatus = [PermissionStatusPending], lpoRiskLevel = []\<rparr>"

definition permission_timeout :: "ctx \<Rightarrow> int \<Rightarrow> PermissionRequest \<Rightarrow> unit M" where
  "permission_timeout c now perm =
     (if time_Sub now (pCreatedAt perm) < int64 (pSuspendAfterSeconds perm * Second) then ret ()
      else do {
        s \<leftarrow> GetSession c (pSessionID perm);
        (case s of
           Inl _ \<Rightarrow> ret ()
         | Inr session \<Rightarrow>
             if sStatus session \<noteq> SessionStatusActive then ret ()
             else ignore_err (Suspend c (sID session) ''terminate_preserve_storage''))
      })"

definition pm_checkTimeouts :: "ctx \<Rightarrow> unit G" where
  "pm_checkTimeouts c =
     guard_ok (ListPermissionRequests c pending_permission_opts) (\<lambda>perms.
       if lrItems perms = [] then ok ()
       else do {
         now \<leftarrow> Now;
         _ \<leftarrow> for_each (permission_timeout c now) (lrItems perms);
         ok ()
       })"

end
