(* ===== verification/Dispatch_Waker.thy ===== *)
theory Dispatch_Waker
  imports Runner_Manager Permission_Manager
begin

text \<open>
  The remaining parts of the dispatch path: creating a task, \<^verbatim>\<open>TaskManager.Create\<close> and
  \<^verbatim>\<open>autoDispatch\<close>; the redispatch pass over parked sessions and the gate that coalesces wakes,
  \<^verbatim>\<open>redispatch_waker.go\<close>; and the bodies of the jobs the managers submit to the background pool.
  \<open>spawn\<close> stands for \<^verbatim>\<open>maybeAutoSpawn\<close> as in \<open>EnsureRunner\<close>. The context of a pass is not cancelled
  while it runs; the gate below has the cancellation.
\<close>

type_synonym spawner = "ctx \<Rightarrow> Session \<Rightarrow> Profile option \<Rightarrow> bool M"

section \<open>Creating a task\<close>

definition DefaultTaskTimeoutSeconds :: int where "DefaultTaskTimeoutSeconds = 3600"
definition DefaultMaxRetries :: int where "DefaultMaxRetries = 0"

record CreateTaskOptions =
  ctoSessionID :: string
  ctoPrompt :: string
  ctoTimeoutSeconds :: int
  ctoMaxRetries :: int
  ctoTenantID :: "string option"
  ctoLabels :: "(string \<times> string) list option"
  ctoAnnotations :: "(string \<times> string) list option"

definition autoDispatch :: "spawner \<Rightarrow> int \<Rightarrow> ctx \<Rightarrow> Task \<Rightarrow> unit M" where
  "autoDispatch spawn m c task = do {
     cfg \<leftarrow> asks e_cfg;
     (if \<not> cfgSessionManager cfg then ret ()
      else do {
        r \<leftarrow> EnsureRunner spawn c (tSessionID task);
        (case r of
           Inl _ \<Rightarrow> ret ()
         | Inr _ \<Rightarrow> ignore_err (DispatchNext m c (tSessionID task)))
      })
   }"

definition new_task :: "string \<Rightarrow> int \<Rightarrow> int \<Rightarrow> CreateTaskOptions \<Rightarrow> string option \<Rightarrow> Task" where
  "new_task tid created updated opts tenantID =
     \<lparr>tID = tid, tSessionID = ctoSessionID opts, tPrompt = ctoPrompt opts, tStatus = TaskStatusPending,
      tMaxRetries = (if ctoMaxRetries opts < 0 then DefaultMaxRetries else ctoMaxRetries opts),
      tRetryCount = 0,
      tTimeoutSeconds = (if ctoTimeoutSeconds opts \<le> 0 then DefaultTaskTimeoutSeconds else ctoTimeoutSeconds opts),
      tTenantID = tenantID, tLabels = json_of_map (ctoLabels opts), tAnnotations = json_of_map (ctoAnnotations opts),
      tNextDispatchAfter = None, tDispatchAttempts = 0, tDispatchParkedReason = None,
      tCreatedAt = created, tUpdatedAt = updated\<rparr>"

definition tm_Create :: "spawner \<Rightarrow> int \<Rightarrow> ctx \<Rightarrow> CreateTaskOptions \<Rightarrow> Task G" where
  "tm_Create spawn m c opts =
     (if ctoSessionID opts = '''' then err ErrSessionRequired
      else if ctoPrompt opts = '''' then err ErrPromptRequired
      else guard_ok (map_err (not_found_as ErrSessionNotFound) (GetSession c (ctoSessionID opts))) (\<lambda>session.
        case tenantFor c (ctoTenantID opts) of
          Inl e \<Rightarrow> err e
        | Inr _ \<Rightarrow> do {
            tid \<leftarrow> new_id;
            created \<leftarrow> Now;
            updated \<leftarrow> Now;
            guard_ok (CreateTask c (new_task tid created updated opts (sTenantID session))) (\<lambda>task. do {
              _ \<leftarrow> emit_audit ''task.created'' (tID task);
              _ \<leftarrow> emit_webhook ''task.created'' (tID task);
              _ \<leftarrow> autoDispatch spawn m c task;
              ok task
            })
          }))"

section \<open>The redispatch pass\<close>

definition redispatchBatch :: int where "redispatchBatch = 50"
definition redispatchMaxPages :: nat where "redispatchMaxPages = 4"
definition redispatchNoRunnerStreak :: nat where "redispatchNoRunnerStreak = 3"
definition WakeTriggerSweep :: string where "WakeTriggerSweep = ''sweep''"

definition backlog_opts :: "string \<Rightarrow> ListTasksOptions" where
  "backlog_opts sessionID = (session_tasks_opts sessionID TaskStatusPending dispatchScanLimit)
     \<lparr>ltoStatus := [TaskStatusPending, TaskStatusRunning]\<rparr>"

definition dueTask :: "ctx \<Rightarrow> string \<Rightarrow> Task option M" where
  "dueTask c sessionID = do {
     r \<leftarrow> ListTasks c (backlog_opts sessionID);
     ret (case r of
            Inl _ \<Rightarrow> None
          | Inr res \<Rightarrow>
              if list_ex (\<lambda>t. tStatus t = TaskStatusRunning) (lrItems res) then None
              else oldestTask (lrItems res))
   }"

definition waker_ensureRunner :: "spawner \<Rightarrow> ctx \<Rightarrow> Session \<Rightarrow> string G" where
  "waker_ensureRunner spawn c session =
     (if nonempty (sRunnerID session) then ok (stringValue (sRunnerID session))
      else do {
        cfg \<leftarrow> asks e_cfg;
        (if \<not> cfgSessionManager cfg then ok ''''
         else guard_ok (EnsureRunner spawn c (sID session)) (\<lambda>updated.
           ok (if nonempty (sRunnerID updated) then stringValue (sRunnerID updated) else '''')))
      })"

definition waker_dispatch :: "int \<Rightarrow> ctx \<Rightarrow> string \<Rightarrow> bool \<Rightarrow> bool M" where
  "waker_dispatch m c sessionID ignoreBackoff = do {
     r \<leftarrow> (if ignoreBackoff then DispatchNextNow m c sessionID else DispatchNext m c sessionID);
     ret (case r of Inl _ \<Rightarrow> False | Inr _ \<Rightarrow> True)
   }"

text \<open>One page of sessions: the sessions woken, the streak without a runner, and whether to stop.\<close>

fun pass_page :: "spawner \<Rightarrow> int \<Rightarrow> ctx \<Rightarrow> bool \<Rightarrow> Session list \<Rightarrow> nat \<Rightarrow> nat \<Rightarrow> (nat \<times> nat \<times> bool) M" where
  "pass_page spawn m c ignoreBackoff [] woken streak = ret (woken, streak, False)"
| "pass_page spawn m c ignoreBackoff (session # rest) woken streak = do {
     due \<leftarrow> dueTask c (sID session);
     (case due of
        None \<Rightarrow> pass_page spawn m c ignoreBackoff rest woken streak
      | Some task \<Rightarrow> do {
          now \<leftarrow> Now;
          (if \<not> eligibleForRedispatch task ignoreBackoff now
           then pass_page spawn m c ignoreBackoff rest woken streak
           else do {
             r \<leftarrow> waker_ensureRunner spawn c session;
             (case r of
                Inl e \<Rightarrow>
                  if e = ErrNoRunnerAvailable \<or> e = ErrRunnerSpawning then
                    (if streak + 1 \<ge> redispatchNoRunnerStreak then ret (woken, streak + 1, True)
                     else pass_page spawn m c ignoreBackoff rest woken (streak + 1))
                  else pass_page spawn m c ignoreBackoff rest woken streak
              | Inr runnerID \<Rightarrow>
                  if runnerID = [] then pass_page spawn m c ignoreBackoff rest woken streak
                  else do {
                    went \<leftarrow> waker_dispatch m c (sID session) ignoreBackoff;
                    pass_page spawn m c ignoreBackoff rest (if went then woken + 1 else woken) 0
                  })
           })
        })
   }"

definition parked_opts :: "(int \<times> string) option \<Rightarrow> ListSessionsOptions" where
  "parked_opts cursor = \<lparr>lsoBase = default_opts\<lparr>loLimit := redispatchBatch, loCursor := cursor\<rparr>,
     lsoStatus = [SessionStatusPending, SessionStatusActive], lsoRunnerID = None,
     lsoWorkspaceID = None, lsoAgent = None, lsoLifecycleMode = None\<rparr>"

text \<open>The page loop; the number is the pages left.\<close>

fun pass_pages :: "spawner \<Rightarrow> int \<Rightarrow> ctx \<Rightarrow> bool \<Rightarrow> nat \<Rightarrow> (int \<times> string) option \<Rightarrow> nat \<Rightarrow> nat \<Rightarrow> (gerr option \<times> nat) M" where
  "pass_pages spawn m c ignoreBackoff 0 cursor woken streak = ret (None, woken)"
| "pass_pages spawn m c ignoreBackoff (Suc n) cursor woken streak = do {
     r \<leftarrow> ListSessions c (parked_opts cursor);
     (case r of
        Inl e \<Rightarrow> ret (Some e, woken)
      | Inr res \<Rightarrow> do {
          (woken1, streak1, stop) \<leftarrow> pass_page spawn m c ignoreBackoff (lrItems res) woken streak;
          (if stop then ret (None, woken1)
           else if \<not> lrHasMore res \<or> lrNextCursor res = None then ret (None, woken1)
           else pass_pages spawn m c ignoreBackoff n (lrNextCursor res) woken1 streak1)
        })
   }"

definition pass :: "spawner \<Rightarrow> int \<Rightarrow> ctx \<Rightarrow> string \<Rightarrow> (gerr option \<times> nat) M" where
  "pass spawn m c trigger =
     pass_pages spawn m c (trigger \<noteq> WakeTriggerSweep) redispatchMaxPages None 0 0"

section \<open>Coalescing wakes\<close>

text \<open>
  The gate of the waker. A wake either starts a drain or is folded into the one under way; the
  end of a pass either starts another or opens the gate.
\<close>

record gate =
  gInFlight :: bool
  gPending :: bool
  gTrigger :: string

definition wake_gate :: "string \<Rightarrow> gate \<Rightarrow> bool \<times> gate" where
  "wake_gate trigger g =
     (if gInFlight g then (False, g\<lparr>gPending := True, gTrigger := trigger\<rparr>)
      else (True, g\<lparr>gInFlight := True\<rparr>))"

text \<open>The pool rejected the drain.\<close>

definition wake_rejected :: "gate \<Rightarrow> gate" where
  "wake_rejected g = g\<lparr>gInFlight := False, gPending := False\<rparr>"

text \<open>After a pass: \<open>Some t\<close> is the trigger of the next one. \<open>cancelled\<close> is \<^verbatim>\<open>ctx.Err() != nil\<close>.\<close>

definition pass_done :: "bool \<Rightarrow> gate \<Rightarrow> string option \<times> gate" where
  "pass_done cancelled g =
     (if \<not> gPending g \<or> cancelled then (None, g\<lparr>gInFlight := False, gPending := False\<rparr>)
      else (Some (gTrigger g), g\<lparr>gPending := False\<rparr>))"

section \<open>Background jobs\<close>

definition dispatchPendingTask :: "int \<Rightarrow> ctx \<Rightarrow> string \<Rightarrow> unit M" where
  "dispatchPendingTask m c sessionID = do {
     cfg \<leftarrow> asks e_cfg;
     (if cfgTaskManager cfg then ignore_err (DispatchNextNow m c sessionID) else ret ())
   }"

definition session_running_opts :: "string \<Rightarrow> ListTasksOptions" where
  "session_running_opts sessionID = session_tasks_opts sessionID TaskStatusRunning 0"

definition reExecuteRunningTasks :: "ctx \<Rightarrow> string \<Rightarrow> unit M" where
  "reExecuteRunningTasks c sessionID = do {
     cfg \<leftarrow> asks e_cfg;
     (if \<not> cfgTaskManager cfg then ret ()
      else do {
        r \<leftarrow> ListTasks c (session_running_opts sessionID);
        (case r of
           Inl _ \<Rightarrow> ret ()
         | Inr res \<Rightarrow> for_each (\<lambda>task. ignore_err (ReExecute c (tID task))) (lrItems res))
      })
   }"

text \<open>
  \<open>resumeManaged\<close> is the managed branch of \<^verbatim>\<open>requestRunnerForResume\<close>; that job runs with
  \<^verbatim>\<open>context.Background()\<close>, the others with the pool's context.
\<close>

definition run_job :: "(ctx \<Rightarrow> Session \<Rightarrow> Provider \<Rightarrow> Profile option \<Rightarrow> Runner \<Rightarrow> unit M) \<Rightarrow> int \<Rightarrow> job \<Rightarrow> unit M" where
  "run_job resumeManaged m j =
     (case j of
        JobSessionReexecute sessionID runnerID \<Rightarrow> do {
          _ \<leftarrow> reExecuteRunningTasks app_ctx sessionID;
          dispatchPendingTask m app_ctx sessionID
        }
      | JobSessionDispatch sessionID \<Rightarrow> dispatchPendingTask m app_ctx sessionID
      | JobTaskRetry taskID delay \<Rightarrow> ignore_err (Retry m app_ctx taskID)
      | JobDispatchAfterCompletion sessionID \<Rightarrow> ignore_err (DispatchNextNow m app_ctx sessionID)
      | JobRequestRunnerForResume session \<Rightarrow> requestRunnerForResume resumeManaged background_ctx session
      | JobRunnerAttachResuming runnerID \<Rightarrow> do {
          _ \<leftarrow> tryAttachToResumingSession app_ctx runnerID;
          rm_wake WakeTriggerRunnerJoined
        })"

end
