(* ===== verification/Manager_Laws.thy ===== *)
theory Manager_Laws
  imports Dispatch_Waker Task_Laws Session_Lifecycle
begin

text \<open>
  The server as one system. \<open>manager_client\<close> joins the contracts of the task and the session
  manager with the permission statements and carries every handler of the permission manager, the
  runner manager, the reaper, the waker and the background jobs. \<open>request\<close> lists the entry points
  of the server and \<open>serve\<close> runs one; a history of requests is \<open>serve_all\<close>.
\<close>

section \<open>Every handler respects a contract that allows its statements\<close>

locale manager_client = task_client R A S + session_owner R A S
  for R :: "world \<Rightarrow> world \<Rightarrow> bool" and A :: "stmt \<Rightarrow> bool"
    and S :: "string \<Rightarrow> ServerCommand \<Rightarrow> bool" +
  assumes A_permission: "A (SCreatePermission p)" "A (SUpdatePermission pid pu)"
    and S_permission: "S r (ApprovePermission q b t)"
begin

lemma resp_Suspend: "resp (Suspend c x st)"
  unfolding Suspend_def by (intro resp_SuspendWithOptions) simp

lemma resp_Resume: "resp (Resume c x)"
  unfolding Resume_def by (intro server_resp resp_ResumeWithResult) simp

lemma resp_pm_Create: "resp (pm_Create c req)"
  unfolding pm_Create_def by (intro server_resp A_permission)

lemma resp_respond_pending: "resp (respond_pending c perm pid b reason by)"
  unfolding respond_pending_def deliver_response_def markPermissionDelivered_def
  by (intro server_resp resp_Resume A_permission S_permission)

lemma resp_Respond: "resp (Respond c pid b reason by)"
  unfolding Respond_def by (intro server_resp resp_respond_pending)

lemma resp_pm_Cancel: "resp (pm_Cancel c pid)"
  unfolding pm_Cancel_def by (intro server_resp A_permission)

lemma resp_pm_checkTimeouts: "resp (pm_checkTimeouts c)"
  unfolding pm_checkTimeouts_def permission_timeout_def by (intro server_resp resp_Suspend)

lemma resp_rm_helpers: "resp (rm_wake t)" "resp (webhook_runner c e r)"
  unfolding rm_wake_def webhook_runner_def by (intro server_resp)+

lemma resp_OnConnect: "resp (OnConnect c r)"
  unfolding OnConnect_def by (intro server_resp resp_rm_helpers A_runner)

lemma resp_attach_first: "resp (attach_first c r ss)"
  by (induction ss) (auto intro!: server_resp resp_AttachRunner)

lemma resp_tryAttach: "resp (tryAttachToResumingSession c r)"
  unfolding tryAttachToResumingSession_def by (intro server_resp resp_attach_first)

lemma resp_fail_runs: "resp (fail_runs c rs acc)"
  by (induction rs arbitrary: acc) (auto intro!: server_resp resp_FailRun)

lemma resp_handleInFlightTasks: "resp (handleInFlightTasks c r)"
  unfolding handleInFlightTasks_def by (intro server_resp resp_fail_runs resp_ShouldRetry)

lemma resp_detachSessions: "resp (detachSessions c r)"
  unfolding detachSessions_def by (intro server_resp resp_Suspend)

lemma resp_OnDisconnect: "resp (OnDisconnect c r)"
  unfolding OnDisconnect_def
  by (intro server_resp resp_handleInFlightTasks resp_detachSessions resp_rm_helpers A_runner)

lemma resp_OnHeartbeat: "resp (OnHeartbeat c r st)"
  unfolding OnHeartbeat_def by (intro server_resp A_runner)

lemma resp_SetStatus: "resp (SetStatus c r st)"
  unfolding SetStatus_def by (intro server_resp resp_rm_helpers A_runner)

lemma resp_checkStaleRunners: "resp (checkStaleRunners rm th c)"
  unfolding checkStaleRunners_def check_stale_def markStale_def
  by (intro server_resp resp_OnDisconnect A_runner)

lemma resp_shouldReap: "resp (shouldReap rp c r now)"
  unfolding shouldReap_def hasLiveSession_def by (intro server_resp)

lemma resp_reap: "resp (reap c r rp)"
  unfolding reap_def reaper_providerFor_def Let_def by (intro server_resp resp_helpers A_runner)

lemma resp_reap_each: "resp (reap_each c now rs rp)"
  by (induction rs arbitrary: rp) (auto intro!: server_resp resp_shouldReap resp_reap)

lemma resp_reaper_Sweep: "resp (reaper_Sweep c rp)"
  unfolding reaper_Sweep_def by (intro server_resp resp_reap_each)

lemma resp_DispatchNext: "resp (DispatchNext m c x)" "resp (DispatchNextNow m c x)"
  unfolding DispatchNext_def DispatchNextNow_def by (intro resp_dispatchNext)+

lemma resp_reExecute: "resp (reExecuteRunningTasks c x)"
  unfolding reExecuteRunningTasks_def by (intro server_resp resp_ReExecute)

lemma resp_dispatchPendingTask: "resp (dispatchPendingTask m c x)"
  unfolding dispatchPendingTask_def by (intro server_resp resp_DispatchNext)

lemma resp_run_job:
  assumes "\<And>c s prov p r. resp (resumeManaged c s prov p r)"
  shows "resp (run_job resumeManaged m j)"
  unfolding run_job_def
  by (cases j; simp; intro server_resp resp_reExecute resp_dispatchPendingTask resp_Retry
      resp_DispatchNext resp_requestRunnerForResume resp_tryAttach resp_rm_helpers assms)

lemma resp_tm_Create:
  "(\<And>c s p. resp (spawn c s p)) \<Longrightarrow> resp (tm_Create spawn m c opts)"
  unfolding tm_Create_def autoDispatch_def
  by (intro server_resp resp_EnsureRunner resp_DispatchNext A_task)

lemma resp_pass_page:
  assumes "\<And>c s p. resp (spawn c s p)"
  shows "resp (pass_page spawn m c ib ss n k)"
proof (induction ss arbitrary: n k)
  case (Cons s ss)
  show ?case
    unfolding pass_page.simps dueTask_def waker_ensureRunner_def waker_dispatch_def
    by (intro server_resp resp_EnsureRunner resp_DispatchNext assms Cons.IH)
qed (simp add: resp_return)

lemma resp_pass_pages:
  "(\<And>c s p. resp (spawn c s p)) \<Longrightarrow> resp (pass_pages spawn m c ib p cur n k)"
  by (induction p arbitrary: cur n k) (auto intro!: server_resp resp_pass_page)

lemma resp_pass: "(\<And>c s p. resp (spawn c s p)) \<Longrightarrow> resp (pass spawn m c t)"
  unfolding pass_def by (rule resp_pass_pages)

end

section \<open>Requests\<close>

text \<open>
  The entry points: calls of the API, events of the runners, the periodic enforcers and the jobs of
  the pool. Each carries its context and arguments.
\<close>

datatype request =
    ReqCreateTask int ctx CreateTaskOptions
  | ReqExecute int ctx string | ReqRetry int ctx string
  | ReqDispatchNext int ctx string | ReqDispatchNextNow int ctx string
  | ReqCancelTask ctx string | ReqReExecute ctx string | ReqCreateRun ctx string
  | ReqTaskAccepted ctx string | ReqTaskStarted ctx string | ReqTaskCompleted ctx TaskCompletedResult
  | ReqFailRun ctx string string | ReqTaskTimeouts ctx
  | ReqCreateSession ctx CreateSessionOptions | ReqActivate ctx string string
  | ReqSuspend ctx string SuspendOptions | ReqResume ctx string | ReqTerminate ctx string
  | ReqAttachRunner ctx string string | ReqDetachRunner ctx string | ReqEnsureRunner ctx string
  | ReqContextSnapshot ctx string "ContextSnapshot option"
  | ReqCreatePermission ctx CreatePermissionRequestInput | ReqRespond ctx string bool string string
  | ReqCancelPermission ctx string | ReqPermissionTimeouts ctx
  | ReqRunnerConnected ctx string | ReqRunnerDisconnected ctx string
  | ReqHeartbeat ctx string string | ReqSetStatus ctx string string
  | ReqStaleRunners bool int ctx | ReqReap Reaper ctx
  | ReqRedispatch int ctx string | ReqJob int job

type_synonym resumer = "ctx \<Rightarrow> Session \<Rightarrow> Provider \<Rightarrow> Profile option \<Rightarrow> Runner \<Rightarrow> unit M"

fun serve :: "spawner \<Rightarrow> resumer \<Rightarrow> request \<Rightarrow> unit M" where
  "serve sp rs (ReqCreateTask m c opts) = ignore_err (tm_Create sp m c opts)"
| "serve sp rs (ReqExecute m c t) = ignore_err (Execute m c t)"
| "serve sp rs (ReqRetry m c t) = ignore_err (Retry m c t)"
| "serve sp rs (ReqDispatchNext m c x) = ignore_err (DispatchNext m c x)"
| "serve sp rs (ReqDispatchNextNow m c x) = ignore_err (DispatchNextNow m c x)"
| "serve sp rs (ReqCancelTask c t) = ignore_err (Cancel c t)"
| "serve sp rs (ReqReExecute c t) = ignore_err (ReExecute c t)"
| "serve sp rs (ReqCreateRun c t) = ignore_err (CreateRun c t)"
| "serve sp rs (ReqTaskAccepted c r) = ignore_err (OnTaskAccepted c r)"
| "serve sp rs (ReqTaskStarted c r) = ignore_err (OnTaskStarted c r)"
| "serve sp rs (ReqTaskCompleted c res) = ignore_err (OnTaskCompleted c res)"
| "serve sp rs (ReqFailRun c r why) = ignore_err (FailRun c r why)"
| "serve sp rs (ReqTaskTimeouts c) = ignore_err (checkTimeouts c)"
| "serve sp rs (ReqCreateSession c opts) = ignore_err (sm_Create c opts)"
| "serve sp rs (ReqActivate c x r) = ignore_err (Activate c x r)"
| "serve sp rs (ReqSuspend c x opts) = ignore_err (SuspendWithOptions c x opts)"
| "serve sp rs (ReqResume c x) = ignore_err (Resume c x)"
| "serve sp rs (ReqTerminate c x) = ignore_err (Terminate c x)"
| "serve sp rs (ReqAttachRunner c x r) = ignore_err (AttachRunner c x r)"
| "serve sp rs (ReqDetachRunner c x) = ignore_err (DetachRunner c x)"
| "serve sp rs (ReqEnsureRunner c x) = ignore_err (EnsureRunner sp c x)"
| "serve sp rs (ReqContextSnapshot c x sn) = ignore_err (UpdateContextSnapshot c x sn)"
| "serve sp rs (ReqCreatePermission c req) = ignore_err (pm_Create c req)"
| "serve sp rs (ReqRespond c p b why by) = ignore_err (Respond c p b why by)"
| "serve sp rs (ReqCancelPermission c p) = ignore_err (pm_Cancel c p)"
| "serve sp rs (ReqPermissionTimeouts c) = ignore_err (pm_checkTimeouts c)"
| "serve sp rs (ReqRunnerConnected c r) = ignore_err (OnConnect c r)"
| "serve sp rs (ReqRunnerDisconnected c r) = ignore_err (OnDisconnect c r)"
| "serve sp rs (ReqHeartbeat c r st) = ignore_err (OnHeartbeat c r st)"
| "serve sp rs (ReqSetStatus c r st) = ignore_err (SetStatus c r st)"
| "serve sp rs (ReqStaleRunners rm th c) = ignore_err (checkStaleRunners rm th c)"
| "serve sp rs (ReqReap rp c) = do { _ \<leftarrow> reaper_Sweep c rp; ret () }"
| "serve sp rs (ReqRedispatch m c t) = do { _ \<leftarrow> pass sp m c t; ret () }"
| "serve sp rs (ReqJob m j) = run_job rs m j"

definition serve_all :: "spawner \<Rightarrow> resumer \<Rightarrow> request list \<Rightarrow> unit M" where
  "serve_all sp rs reqs = for_each (serve sp rs) reqs"

context manager_client
begin

lemma resp_serve:
  assumes "\<And>c s p. resp (sp c s p)" "\<And>c s prov p r. resp (rs c s prov p r)"
  shows "resp (serve sp rs q)"
  by (cases q; simp only: serve.simps; intro resp_ignore_err resp_bind resp_return task_resp
      resp_tm_Create resp_DispatchNext resp_sm_Create resp_Activate resp_SuspendWithOptions resp_Resume
      resp_Terminate resp_AttachRunner resp_DetachRunner resp_EnsureRunner resp_UpdateContextSnapshot
      resp_pm_Create resp_Respond resp_pm_Cancel resp_pm_checkTimeouts resp_OnConnect resp_OnDisconnect
      resp_OnHeartbeat resp_SetStatus resp_checkStaleRunners resp_reaper_Sweep resp_pass resp_run_job
      assms TrueI)

lemma resp_serve_all:
  assumes "\<And>c s p. resp (sp c s p)" "\<And>c s prov p r. resp (rs c s prov p r)"
  shows "resp (serve_all sp rs qs)"
  unfolding serve_all_def by (intro resp_for_each resp_serve assms)

end

interpretation server_db: manager_client "\<lambda>w w'. db_inv (w_db w) \<longrightarrow> db_inv (w_db w')" "\<lambda>_. True" "\<lambda>_ _. True"
  by unfold_locales auto

interpretation server_env: manager_client env_kept "\<lambda>_. True" "\<lambda>_ _. True"
  by unfold_locales auto

text \<open>
  Every history of requests keeps the database well typed: identifiers are unique, statuses are
  the ones of the schema, references point to rows that exist, attempts of a task are distinct and
  a runner has at most one active session. The spawner and the managed resume are arguments that
  keep the schema themselves.
\<close>

theorem server_keeps_schema:
  assumes "db_inv (w_db w)" and "run_state (serve_all sp rs qs) w = (u, w')"
    and "\<forall>c s p v. db_inv (w_db v) \<longrightarrow> db_inv (w_db (snd (run_state (sp c s p) v)))"
    and "\<forall>c s prov p r v. db_inv (w_db v) \<longrightarrow> db_inv (w_db (snd (run_state (rs c s prov p r) v)))"
  shows "db_inv (w_db w')"
proof -
  have "any_stmt.resp (serve_all sp rs qs)"
    using assms(3,4) by (intro server_db.resp_serve_all any_stmt.respI) auto
  from any_stmt.respD [OF this assms(2)] assms(1) show ?thesis by simp
qed

end
