(* ===== verification/Runner_Laws.thy ===== *)
theory Runner_Laws
  imports Manager_Laws Task_Queue Availability
begin

text \<open>
  What the runner manager, the stale detector and the reaper guarantee: what a disconnect does to
  the work in flight, and which instances the reaper may destroy.
\<close>

section \<open>Lists read in one page\<close>

lemma default_page:
  assumes "lpCondition p = None" and "length rows \<le> nat limit" and "0 \<le> limit"
  shows "set (lrItems (list_rows col key rid limit p rows)) = set rows"
proof -
  have "after_cursor p key rid = (\<lambda>_. True)" using assms(1) by (auto simp: after_cursor_def)
  with assms(2,3) show ?thesis by (simp add: list_rows_items)
qed

lemma list_rows_distinct:
  assumes "distinct (map key' rows)"
  shows "distinct (map key' (lrItems (list_rows col key rid limit p rows)))"
proof -
  let ?L = "ordered_rows col rid p (filter (after_cursor p key rid) rows)"
  have "distinct (map key' ?L)"
    using assms by (auto simp: distinct_map ordered_rows_def Let_def intro: inj_on_subset)
  then show ?thesis by (auto simp: list_rows_def Let_def take_map [symmetric])
qed







section \<open>Failing the runs in flight\<close>





section \<open>Disconnects\<close>
















section \<open>The reaper\<close>

text \<open>No session visible to the reaper has a use for the runner.\<close>

definition orphan :: "db \<Rightarrow> ctx \<Rightarrow> string \<Rightarrow> bool" where
  "orphan d c rid \<longleftrightarrow> (\<forall>s \<in> set (sessions d). rls_visible d c (sTenantID s) \<longrightarrow>
     \<not> (sRunnerID s = Some rid \<and> sStatus s \<in> set liveSessionStatuses) \<and>
     \<not> (sPreviousRunnerID s = Some rid \<and> sStatus s \<in> {SessionStatusSuspended, SessionStatusResuming}))"

definition asleep :: "db \<Rightarrow> ctx \<Rightarrow> Session \<Rightarrow> bool" where
  "asleep d c s \<longleftrightarrow> rls_visible d c (sTenantID s) \<and> sStatus s \<in> {SessionStatusSuspended, SessionStatusResuming}"

lemma suspended_listed:
  assumes "listSessions c suspended_opts d = Inr res" and "length (filter (asleep d c) (sessions d)) \<le> 200"
  shows "set (lrItems res) = {s \<in> set (sessions d). asleep d c s}"
proof -
  have m: "(rls_visible d c (sTenantID s) \<and> session_matches suspended_opts s) = asleep d c s" for s
    by (auto simp: asleep_def session_matches_def suspended_opts_def any_of_def)
  have l: "defaultLimit (loLimit (lsoBase suspended_opts)) = 200"
    by (simp add: suspended_opts_def reapBatchSize_def defaultLimit_def)
  have p: "page sessionSortColumns (lsoBase suspended_opts) =
      Inr \<lparr>lpColumn = ''created_at'', lpDesc = False, lpCondition = None, lpCursorable = True\<rparr>"
    by (simp add: session_page suspended_opts_def default_opts_def)
  show ?thesis using assms by (auto simp: listSessions_def m l p default_page Let_def)
qed

lemma hasLiveSession_False:
  assumes run: "run_state (hasLiveSession c rid) w = (Inr False, w')"
    and few: "length (filter (asleep (w_db w) c) (sessions (w_db w))) \<le> 200"
  shows "orphan (w_db w) c rid"
proof -
  obtain r1 r2 where l1: "listSessions c (owner_opts rid) (w_db w) = Inr r1" "lrItems r1 = []"
    and l2: "listSessions c suspended_opts (w_db w) = Inr r2"
      "\<not> list_ex (\<lambda>s. sPreviousRunnerID s = Some rid) (lrItems r2)"
    using run by (auto simp: hasLiveSession_def ListSessions_def run_query_Inr dest!: run_query_Inl
        split: prod.splits sum.splits if_splits)
  have "\<not> (rls_visible (w_db w) c (sTenantID s) \<and> session_matches (owner_opts rid) s)"
    if "s \<in> set (sessions (w_db w))" for s
    using listSessions_limit1 [OF l1(1)] l1(2) that by (simp add: owner_opts_def)
  then show ?thesis
    using l2(2) suspended_listed [OF l2(1) few]
    by (auto simp: orphan_def asleep_def list_ex_iff session_matches_def owner_opts_def any_of_def)
qed

interpretation runner_rows: server_contract
  "\<lambda>w w'. sessions (w_db w') = sessions (w_db w) \<and> multi_tenant (w_db w') = multi_tenant (w_db w) \<and>
     provider_configs (w_db w') = provider_configs (w_db w) \<and> e_provider w' = e_provider w"
  "\<lambda>l. \<exists>x u. l = SUpdateRunner x u" "\<lambda>_ _. True"
  by unfold_locales (auto elim!: db_step.cases simp: updateRunner_def Let_def split: if_splits option.splits)

lemma runner_rows_reap: "runner_rows.resp (reap c r rp)"
  unfolding reap_def reaper_providerFor_def registry_Get_def Let_def
  by (intro runner_rows.server_resp) auto

lemma runner_rows_shouldReap: "runner_rows.resp (shouldReap rp c r now)"
  unfolding shouldReap_def hasLiveSession_def by (intro runner_rows.server_resp)

lemma orphan_cong:
  "sessions d' = sessions d \<Longrightarrow> multi_tenant d' = multi_tenant d \<Longrightarrow> orphan d' c rid = orphan d c rid"
  "sessions d' = sessions d \<Longrightarrow> multi_tenant d' = multi_tenant d \<Longrightarrow> asleep d' c = asleep d c"
  using rls_visible_cong [of d' d] by (simp_all add: orphan_def asleep_def fun_eq_iff)

definition due_orphan :: "Reaper \<Rightarrow> db \<Rightarrow> ctx \<Rightarrow> int \<Rightarrow> Runner \<Rightarrow> bool" where
  "due_orphan rp d c now r \<longleftrightarrow> nonempty (rProviderConfigID r) \<and> \<not> nonempty (rPoolName r) \<and>
     rpMinAge rp \<le> time_Sub now (rCreatedAt r) \<and> orphan d c (rID r)"

text \<open>The runner's provider configuration names a registered provider of the managed type, called \<open>n\<close>.\<close>

definition managed_by :: "world \<Rightarrow> ctx \<Rightarrow> Runner \<Rightarrow> string \<Rightarrow> bool" where
  "managed_by w c r n \<longleftrightarrow> (\<exists>pc prov. getProviderConfig c (stringValue (rProviderConfigID r)) (w_db w) = Inr pc \<and>
     e_provider w (pcName pc) = Some prov \<and> pvType prov = ProviderTypeManaged \<and> pvName prov = n)"

text \<open>What a sweep may ask the provider \<open>n\<close> to destroy.\<close>

definition reapable :: "Reaper \<Rightarrow> world \<Rightarrow> ctx \<Rightarrow> int \<Rightarrow> string \<Rightarrow> Runner \<Rightarrow> bool" where
  "reapable rp w c now n r \<longleftrightarrow> due_orphan rp (w_db w) c now r \<and> managed_by w c r n"

lemma managed_by_cong:
  "provider_configs (w_db w') = provider_configs (w_db w) \<Longrightarrow> multi_tenant (w_db w') = multi_tenant (w_db w) \<Longrightarrow>
     e_provider w' = e_provider w \<Longrightarrow> managed_by w' c r n = managed_by w c r n"
  using rls_visible_cong [of "w_db w'" "w_db w"] by (simp add: managed_by_def getProviderConfig_def)

lemma shouldReap_True:
  assumes "run_state (shouldReap rp c r now) w = (True, w')"
    and "length (filter (asleep (w_db w) c) (sessions (w_db w))) \<le> 200"
  shows "due_orphan rp (w_db w) c now r" "rpAttempts rp (rID r) < rpMaxAttempts rp"
  using assms hasLiveSession_False [OF _ assms(2), of "rID r"]
  by (auto simp: shouldReap_def due_orphan_def split: if_splits prod.splits sum.splits)

lemma log_kept:
  "run_state (exec_stmt f) w = (a, w') \<Longrightarrow> w_log w' = w_log w"
  "run_state (query g) w = (b, w') \<Longrightarrow> w_log w' = w_log w"
  by (auto simp: query_def exec_stmt_def Let_def split: option.splits sum.splits prod.splits)

lemma reap_effects:
  assumes "run_state (reap c r rp) w = (q, w')"
  shows "\<exists>es. w_log w' = w_log w @ es \<and> (\<forall>n x. ProviderDestroy n x \<in> set es \<longrightarrow> x = rID r \<and> managed_by w c r n)"
    and "rpMinAge (snd q) = rpMinAge rp" "rpMaxAttempts (snd q) = rpMaxAttempts rp"
    and "rpAttempts (snd q) (rID r) \<le> Suc (rpAttempts rp (rID r))"
    and "x \<noteq> rID r \<Longrightarrow> rpAttempts (snd q) x = rpAttempts rp x"
  using assms
  by (auto simp: reap_def reaper_providerFor_def registry_Get_def GetProviderConfig_def UpdateRunner_def
      provider_call_def emit_audit_def emit_def asks_def next_tick_def Let_def ignore_err_def managed_by_def run_query_Inr
      dest!: log_kept split: prod.splits sum.splits if_splits option.splits)

lemma shouldReap_log: "run_state (shouldReap rp c r now) w = (b, w') \<Longrightarrow> w_log w' = w_log w"
  by (auto simp: shouldReap_def hasLiveSession_def ListSessions_def dest!: log_kept
      split: prod.splits sum.splits if_splits)

lemma reap_each_effects:
  assumes "run_state (reap_each c now rs rp) w = (rp', w')" and "distinct (map rID rs)"
    and "length (filter (asleep (w_db w) c) (sessions (w_db w))) \<le> 200"
  shows "(\<exists>es. w_log w' = w_log w @ es \<and> (\<forall>n x. ProviderDestroy n x \<in> set es \<longrightarrow>
       (\<exists>r \<in> set rs. rID r = x \<and> reapable rp w c now n r \<and> rpAttempts rp x < rpMaxAttempts rp))) \<and>
     (\<forall>x. rpAttempts rp' x \<le> max (rpAttempts rp x) (rpMaxAttempts rp))"
  using assms
proof (induction rs arbitrary: rp w)
  case (Cons r rs)
  obtain b w1 where b: "run_state (shouldReap rp c r now) w = (b, w1)" by fastforce
  have f1: "sessions (w_db w1) = sessions (w_db w)" "multi_tenant (w_db w1) = multi_tenant (w_db w)"
    and p1: "provider_configs (w_db w1) = provider_configs (w_db w)" "e_provider w1 = e_provider w"
    using runner_rows.respD [OF runner_rows_shouldReap b] by auto
  have log1: "w_log w1 = w_log w" using shouldReap_log [OF b] .
  have dist: "distinct (map rID rs)" "\<And>x. x \<in> set rs \<Longrightarrow> rID x \<noteq> rID r"
    using Cons.prems(2) by (auto simp: image_iff)
  show ?case
  proof (cases b)
    case False
    then have "run_state (reap_each c now rs rp) w1 = (rp', w')" using Cons.prems(1) b by simp
    from Cons.IH [OF this dist(1)] f1 log1 Cons.prems(3) orphan_cong [OF f1] managed_by_cong [OF p1(1) f1(2) p1(2)]
    show ?thesis by (auto simp: reapable_def due_orphan_def)
  next
    case True
    then have bT: "run_state (shouldReap rp c r now) w = (True, w1)" using b by simp
    note ok = shouldReap_True [OF bT Cons.prems(3)]
    obtain q w2 where q: "run_state (reap c r rp) w1 = (q, w2)" by fastforce
    have f2: "sessions (w_db w2) = sessions (w_db w)" "multi_tenant (w_db w2) = multi_tenant (w_db w)"
      and p2: "provider_configs (w_db w2) = provider_configs (w_db w)" "e_provider w2 = e_provider w"
      using runner_rows.respD [OF runner_rows_reap q] f1 p1 by auto
    note e = reap_effects [OF q]
    obtain es where es: "w_log w2 = w_log w @ es" "\<And>n x. ProviderDestroy n x \<in> set es \<Longrightarrow> x = rID r \<and> managed_by w c r n"
      using e(1) log1 managed_by_cong [OF p1(1) f1(2) p1(2)] by auto
    have "run_state (reap_each c now rs (snd q)) w2 = (rp', w')" using Cons.prems(1) b True q by simp
    from Cons.IH [OF this dist(1)] obtain es' where
      es': "w_log w' = w_log w2 @ es'" "\<And>n x. ProviderDestroy n x \<in> set es' \<Longrightarrow> \<exists>r' \<in> set rs. rID r' = x \<and>
        reapable (snd q) w2 c now n r' \<and> rpAttempts (snd q) x < rpMaxAttempts (snd q)"
      and att: "\<And>x. rpAttempts rp' x \<le> max (rpAttempts (snd q) x) (rpMaxAttempts (snd q))"
      using Cons.prems(3) f2 orphan_cong(2) [OF f2] by auto
    have "rpAttempts rp' x \<le> max (rpAttempts rp x) (rpMaxAttempts rp)" for x
      using att [of x] e(3-5) ok(2) by (cases "x = rID r") auto
    moreover have "\<exists>r' \<in> set (r # rs). rID r' = x \<and> reapable rp w c now n r' \<and>
        rpAttempts rp x < rpMaxAttempts rp" if "ProviderDestroy n x \<in> set (es @ es')" for n x
    proof (cases "ProviderDestroy n x \<in> set es")
      case True
      then show ?thesis using es(2) [OF True] ok by (auto simp: reapable_def)
    next
      case False
      with that es'(2) obtain r' where r': "r' \<in> set rs" "rID r' = x" "reapable (snd q) w2 c now n r'"
        "rpAttempts (snd q) x < rpMaxAttempts (snd q)" by auto
      then show ?thesis
        using e(2,3) e(5) [of x] dist(2) [OF r'(1)] orphan_cong(1) [OF f2] managed_by_cong [OF p2(1) f2(2) p2(2)]
        by (auto simp: reapable_def due_orphan_def)
    qed
    ultimately show ?thesis
      unfolding es'(1) es(1) append.assoc by (intro conjI exI [of _ "es @ es'"]) simp_all
  qed
qed auto

text \<open>
  C22. The reaper destroys managed orphans only. With at most 200 suspended or resuming sessions
  visible to its context, every instance a sweep asks a provider to destroy, whether the provider
  then reports success or not, belongs to a listed runner whose provider configuration names a
  registered provider of the managed type, namely the one asked; the runner has no pool, is at least
  the minimum age and had attempts left; and of the sessions visible to the context it is the
  current runner of none that may still use it and the previous runner of none that may resume
  onto it. The failed attempts counted for a runner never exceed the configured maximum.
\<close>

theorem reaper_destroys_only_orphans:
  assumes "run_state (reaper_Sweep c rp) w = ((e, rp'), w')" and "db_inv (w_db w)"
    and "length (filter (asleep (w_db w) c) (sessions (w_db w))) \<le> 200"
  shows "(\<exists>es. w_log w' = w_log w @ es \<and> (\<forall>n x. ProviderDestroy n x \<in> set es \<longrightarrow>
       (\<exists>r \<in> set (runners (w_db w)). rID r = x \<and> reapable rp w c (e_clock w (Suc (w_tick w))) n r \<and>
          rpAttempts rp x < rpMaxAttempts rp))) \<and>
     (\<forall>x. rpAttempts rp' x \<le> max (rpAttempts rp x) (rpMaxAttempts rp))"
proof (cases "run_state (ListRunners c all_runners_opts) w")
  case (Pair q w1)
  have w1: "w1 = tick w"
    using Pair snd_run_query [of "listRunners c all_runners_opts" w] by (simp add: ListRunners_def)
  show ?thesis
  proof (cases q)
    case (Inr res)
    let ?now = "e_clock w (Suc (w_tick w))"
    have run: "run_state (reap_each c ?now (lrItems res) rp) (tick (tick w)) = (rp', w')"
      using assms(1) Pair Inr w1 by (auto simp: reaper_Sweep_def split: prod.splits)
    have list: "listRunners c all_runners_opts (w_db w) = Inr res"
      using Pair Inr by (simp add: ListRunners_def run_query_Inr)
    have sub: "set (lrItems res) \<subseteq> set (runners (w_db w))"
      using list list_rows_subset by (fastforce simp: listRunners_def Let_def split: sum.splits)
    have dist: "distinct (map rID (lrItems res))"
      using list db_inv_keys(4) [OF assms(2)]
      by (auto simp: listRunners_def Let_def distinct_map_filter list_rows_distinct split: sum.splits)
    from reap_each_effects [OF run dist] assms(3) sub managed_by_cong [of "tick (tick w)" w]
    show ?thesis by (auto simp: reapable_def; meson subsetD)
  qed (use assms(1) Pair w1 in \<open>auto simp: reaper_Sweep_def\<close>)
qed

section \<open>The context of a disconnect\<close>

text \<open>
  The stream reports a disconnect with a context that has neither tenant nor system access: on a
  database that isolates tenants the report fails and changes nothing, so the runner keeps its status.
\<close>

lemma disconnect_unseen_under_isolation:
  assumes "multi_tenant (w_db w)"
  shows "fst (run_state (OnDisconnect background_ctx rid) w) \<noteq> Inr () \<and> w_db (snd (run_state (OnDisconnect background_ctx rid) w)) = w_db w"
proof -
  have "\<not> rls_visible (w_db w) background_ctx t" for t
    using assms by (simp add: rls_visible_def background_ctx_def IsSystemAccess_def TenantFromContext_def)
  then have "find (\<lambda>r. rID r = rid \<and> rls_visible (w_db w) background_ctx (rTenantID r)) (runners (w_db w)) = None"
    by (simp add: find_None_iff)
  then have "updateRunner now background_ctx rid (no_runner_updates\<lparr>ruStatus := Some StatusOffline\<rparr>) (w_db w) =
      Inl (ErrNotFound ''runner'' rid)" for now
    by (simp add: updateRunner_def) (simp add: no_runner_updates_def)
  then show ?thesis by (simp add: OnDisconnect_def UpdateRunner_def exec_stmt_def Let_def split: option.split)
qed

end
