(* ===== verification/Permission_Laws.thy ===== *)
theory Permission_Laws
  imports Manager_Laws
begin

text \<open>
  What the permission manager guarantees: an answer is recorded before anything is told to the
  runner, it is marked delivered only after it was sent, and what happens when two callers answer
  the same request at once.
\<close>

text \<open>Handlers that write sessions only.\<close>

interpretation session_rows: server_contract
  "\<lambda>w w'. permission_requests (w_db w') = permission_requests (w_db w) \<and>
     multi_tenant (w_db w') = multi_tenant (w_db w) \<and> w_sent w' = w_sent w"
  "\<lambda>l. \<exists>x u. l = SUpdateSession x u" "\<lambda>_ _. False"
  by unfold_locales (auto elim!: db_step.cases simp: updateSession_def Let_def split: if_splits option.splits)

lemma session_rows_Resume: "session_rows.resp (Resume c x)"
  unfolding Resume_def ResumeWithResult_def by (intro session_rows.server_resp) auto

lemma permission_lookup_cong:
  "permission_requests d' = permission_requests d \<Longrightarrow> multi_tenant d' = multi_tenant d \<Longrightarrow>
     permission_tbl.lookup c pid d' = permission_tbl.lookup c pid d"
  using rls_visible_cong [of d' d] by (simp add: permission_tbl.lookup_def)

lemma UpdatePermissionRequest_run:
  assumes run: "run_state (UpdatePermissionRequest c pid u) w = (Inr (), w')"
    and u: "u \<noteq> no_permission_updates" and keys: "distinct (map pID (permission_requests (w_db w)))"
    and look: "permission_tbl.lookup c pid (w_db w) = Some p"
  shows "permission_tbl.lookup c pid (w_db w') = Some (apply_permission_updates (e_clock w (w_tick w)) u p)"
    and "distinct (map pID (permission_requests (w_db w')))"
    and "w_sent w' = w_sent w" "sessions (w_db w') = sessions (w_db w)" "multi_tenant (w_db w') = multi_tenant (w_db w)"
proof -
  let ?p = "apply_permission_updates (e_clock w (w_tick w)) u p"
  have p: "pID p = pid" "rls_visible (w_db w) c (pTenantID p)"
    using permission_tbl.lookup_SomeD [OF look] by auto
  have w': "w' = (tick w)\<lparr>w_db := (w_db w)\<lparr>permission_requests :=
      put_row pID pid ?p (permission_requests (w_db w))\<rparr>\<rparr>"
    using run look u
    by (auto simp: UpdatePermissionRequest_def run_exec_stmt_Inr updatePermissionRequest_def
        permission_tbl.lookup_def Let_def split: if_splits option.splits)
  show "permission_tbl.lookup c pid (w_db w') = Some ?p"
    using permission_tbl.lookup_put [OF keys look, of ?p c] p by (simp add: w')
  show "distinct (map pID (permission_requests (w_db w')))"
    using keys p(1) by (simp add: w' put_row_keys)
  show "w_sent w' = w_sent w" "sessions (w_db w') = sessions (w_db w)" "multi_tenant (w_db w') = multi_tenant (w_db w)"
    by (simp_all add: w')
qed

lemma UpdatePermissionRequest_failed:
  "run_state (UpdatePermissionRequest c pid u) w = (Inl e, w') \<Longrightarrow> w' = tick w"
  unfolding UpdatePermissionRequest_def by (rule run_exec_stmt_Inl)

lemma markPermissionDelivered_run:
  assumes run: "run_state (markPermissionDelivered c pid) w = (x, w')"
    and keys: "distinct (map pID (permission_requests (w_db w)))"
    and look: "permission_tbl.lookup c pid (w_db w) = Some p"
  shows "\<exists>p'. permission_tbl.lookup c pid (w_db w') = Some p' \<and> pStatus p' = pStatus p \<and>
     pRespondedAt p' = pRespondedAt p" and "w_sent w' = w_sent w"
proof -
  let ?u = "no_permission_updates\<lparr>puDeliveredAt := Some (e_clock w (w_tick w))\<rparr>"
  have u: "?u \<noteq> no_permission_updates" by (simp add: no_permission_updates_def)
  obtain q where q: "run_state (UpdatePermissionRequest c pid ?u) (tick w) = (q, w')"
    using run by (auto simp: markPermissionDelivered_def ignore_err_def split: prod.splits)
  have "(\<exists>p'. permission_tbl.lookup c pid (w_db w') = Some p' \<and> pStatus p' = pStatus p \<and>
     pRespondedAt p' = pRespondedAt p) \<and> w_sent w' = w_sent w"
  proof (cases q)
    case (Inl e)
    then have "w' = tick (tick w)" using UpdatePermissionRequest_failed q by blast
    then show ?thesis using look by simp
  next
    case (Inr x)
    then have "run_state (UpdatePermissionRequest c pid ?u) (tick w) = (Inr (), w')" using q by simp
    from UpdatePermissionRequest_run [OF this u] keys look show ?thesis
      by (simp add: no_permission_updates_def)
  qed
  then show "\<exists>p'. permission_tbl.lookup c pid (w_db w') = Some p' \<and> pStatus p' = pStatus p \<and>
     pRespondedAt p' = pRespondedAt p" "w_sent w' = w_sent w" by auto
qed

lemma emit_run:
  "\<exists>w'. run_state (emit_webhook e x) w = ((), w') \<and> w_db w' = w_db w \<and> w_sent w' = w_sent w"
  "\<exists>w'. run_state (emit_audit e x) w = ((), w') \<and> w_db w' = w_db w \<and> w_sent w' = w_sent w"
  by (auto simp: emit_webhook_def emit_audit_def emit_def asks_def)

text \<open>The session of the request, as the delivery reads it.\<close>

definition delivered_to :: "PermissionRequest \<Rightarrow> ctx \<Rightarrow> db \<Rightarrow> string \<Rightarrow> bool" where
  "delivered_to perm c d rid \<longleftrightarrow>
     (\<exists>s. session_tbl.lookup c (pSessionID perm) d = Some s \<and> sRunnerID s = Some rid)"

lemma deliver_response_run:
  assumes run: "run_state (deliver_response c perm pid b why) w = (r, w')"
    and keys: "distinct (map pID (permission_requests (w_db w)))"
    and look: "permission_tbl.lookup c pid (w_db w) = Some p"
  shows "r = Inr () \<and> (\<exists>p'. permission_tbl.lookup c pid (w_db w') = Some p' \<and> pStatus p' = pStatus p \<and>
     pRespondedAt p' = pRespondedAt p \<and>
     (w_sent w' = w_sent w \<and> p' = p \<or>
      (\<exists>rid. delivered_to perm c (w_db w) rid \<and>
        w_sent w' = w_sent w @ [(rid, ApprovePermission (pOriginalRequestID perm) b why)])))"
proof -
  obtain q w1 where q: "run_state (GetSession c (pSessionID perm)) w = (q, w1)" by fastforce
  have w1: "w1 = tick w"
    using q snd_run_query [of "getSession c (pSessionID perm)" w] by (simp add: GetSession_def)
  show ?thesis
  proof (cases q)
    case (Inl e)
    then show ?thesis using run q w1 look by (auto simp: deliver_response_def)
  next
    case (Inr s)
    let ?resume = "if sStatus s = SessionStatusSuspended \<and> cfgSessionManager (e_cfg w)
        then ignore_err (Resume c (sID s)) else ret ()"
    obtain w2 where w2: "run_state ?resume (tick w) = ((), w2)" by fastforce
    have "session_rows.resp ?resume"
      by (intro session_rows.server_resp session_rows_Resume)
    from session_rows.respD [OF this w2]
    have f2: "permission_requests (w_db w2) = permission_requests (w_db w)"
      "multi_tenant (w_db w2) = multi_tenant (w_db w)" "w_sent w2 = w_sent w" by auto
    have look2: "permission_tbl.lookup c pid (w_db w2) = Some p"
      using look permission_lookup_cong [OF f2(1,2)] by simp
    have sess: "session_tbl.lookup c (pSessionID perm) (w_db w) = Some s"
      using q Inr by (simp add: GetSession_def run_query_Inr)
    show ?thesis
    proof (cases "sRunnerID s")
      case None
      then show ?thesis using run q Inr w1 w2 look2 f2(3) by (auto simp: deliver_response_def)
    next
      case (Some rid)
      let ?send = "SendCommand rid (ApprovePermission (pOriginalRequestID perm) b why)"
      obtain q3 w3 where q3: "run_state ?send w2 = (q3, w3)" by fastforce
      have w3: "w_db w3 = w_db w2" "q3 = Inl e \<Longrightarrow> w_sent w3 = w_sent w2" "q3 = Inr u \<Longrightarrow>
          w_sent w3 = w_sent w2 @ [(rid, ApprovePermission (pOriginalRequestID perm) b why)]" for e u
        using q3 by (auto simp: run_SendCommand split: option.splits)
      have look3: "permission_tbl.lookup c pid (w_db w3) = Some p" using look2 w3(1) by simp
      have keys3: "distinct (map pID (permission_requests (w_db w3)))" using keys f2 w3(1) by simp
      have del: "delivered_to perm c (w_db w) rid" using sess Some by (simp add: delivered_to_def)
      show ?thesis
        using run q Inr w1 w2 Some q3 look2 look3 w3 f2(3) del
          markPermissionDelivered_run [OF _ keys3 look3]
        by (auto simp: deliver_response_def split: if_splits sum.splits prod.splits) 
    qed
  qed
qed

text \<open>\<open>Respond\<close> after its read, whatever the row has become since.\<close>

lemma respond_updates_simps [simp]:
  "puStatus (respond_updates b why by now) =
     Some (if b then PermissionStatusApproved else PermissionStatusDenied)"
  "puRespondedAt (respond_updates b why by now) = Some now"
  "puDeliveredAt (respond_updates b why by now) = None"
  "respond_updates b why by now \<noteq> no_permission_updates"
  by (simp_all add: respond_updates_def no_permission_updates_def)

lemma respond_pending_run:
  assumes run: "run_state (respond_pending c perm pid b why by) w = (Inr (), w')"
    and keys: "distinct (map pID (permission_requests (w_db w)))"
    and look: "permission_tbl.lookup c pid (w_db w) = Some p"
  shows "\<exists>p'. permission_tbl.lookup c pid (w_db w') = Some p' \<and>
     pStatus p' = (if b then PermissionStatusApproved else PermissionStatusDenied) \<and>
     pRespondedAt p' = Some (e_clock w (w_tick w)) \<and>
     (w_sent w' = w_sent w \<and> pDeliveredAt p' = pDeliveredAt p \<or>
      (\<exists>rid. delivered_to perm c (w_db w) rid \<and>
        w_sent w' = w_sent w @ [(rid, ApprovePermission (pOriginalRequestID perm) b why)]))"
proof -
  let ?u = "respond_updates b why by (e_clock w (w_tick w))"
  let ?ev = "if b then ''permission.approved'' else ''permission.denied''"
  obtain w1 where w1: "run_state (UpdatePermissionRequest c pid ?u) (tick w) = (Inr (), w1)"
    using run by (auto simp: respond_pending_def split: prod.splits sum.splits)
  obtain w1' w2 where w2: "run_state (emit_webhook ?ev pid) w1 = ((), w1')"
      "run_state (emit_audit ?ev pid) w1' = ((), w2)"
    and f2: "w_db w2 = w_db w1" "w_sent w2 = w_sent w1"
    using emit_run(1) [of ?ev pid w1] emit_run(2) [of ?ev pid] by metis
  have d: "run_state (deliver_response c perm pid b why) w2 = (Inr (), w')"
    using run w1 w2 by (auto simp: respond_pending_def split: prod.splits)
  have up: "permission_tbl.lookup c pid (w_db w1) =
      Some (apply_permission_updates (e_clock w (Suc (w_tick w))) ?u p)"
    "distinct (map pID (permission_requests (w_db w1)))" "w_sent w1 = w_sent w"
    "sessions (w_db w1) = sessions (w_db w)" "multi_tenant (w_db w1) = multi_tenant (w_db w)"
    using UpdatePermissionRequest_run [OF w1, of p] keys look by simp_all
  have del: "delivered_to perm c (w_db w1) rid = delivered_to perm c (w_db w) rid" for rid
    using up(4) rls_visible_cong [OF up(5)] by (simp add: delivered_to_def session_tbl.lookup_def)
  from deliver_response_run [OF d] up(1-3) f2 show ?thesis by (auto simp: del)
qed

text \<open>
  C21. An answer is recorded first and marked delivered only after it was sent. A successful
  \<open>Respond\<close> found the request pending; afterwards the row has the answer and the time of it, and
  either no delivery was acknowledged and the row is as undelivered as before (a runner that got
  the answer over a hop whose reply was lost may be told again), or exactly one
  \<open>ApprovePermission\<close> with this answer was sent, to the runner attached to the request's session.
\<close>

theorem respond_records_then_delivers:
  assumes run: "run_state (Respond c pid b why by) w = (Inr (), w')" and inv: "db_inv (w_db w)"
  shows "\<exists>p p'. permission_tbl.lookup c pid (w_db w) = Some p \<and> pStatus p = PermissionStatusPending \<and>
     permission_tbl.lookup c pid (w_db w') = Some p' \<and>
     pStatus p' = (if b then PermissionStatusApproved else PermissionStatusDenied) \<and> pRespondedAt p' \<noteq> None \<and>
     (w_sent w' = w_sent w \<and> pDeliveredAt p' = pDeliveredAt p \<or>
      (\<exists>rid. delivered_to p c (w_db w) rid \<and>
        w_sent w' = w_sent w @ [(rid, ApprovePermission (pOriginalRequestID p) b why)]))"
proof -
  obtain p where p: "permission_tbl.lookup c pid (w_db w) = Some p" "pStatus p = PermissionStatusPending"
    "run_state (respond_pending c p pid b why by) (tick w) = (Inr (), w')"
    using run by (auto simp: Respond_def GetPermissionRequest_def run_query_Inr
        split: prod.splits sum.splits if_splits)
  from respond_pending_run [OF p(3)] p(1,2) db_inv_keys [OF inv] show ?thesis by auto
qed

text \<open>
  Two answers to one request race. \<open>Respond\<close> reads the request, and writes it without naming
  the status it read: when another answer or a cancellation commits in between, the write goes
  through whatever the row says by then, replaces the first answer, and the runner is told the
  second one.
\<close>

theorem late_answer_overwrites:
  assumes nf: "e_fault w = (\<lambda>_. None)" and inv: "db_inv (w_db w)"
    and look: "permission_tbl.lookup c pid (w_db w) = Some p"
  shows "\<exists>w' p'. run_state (respond_pending c stale pid b why by) w = (Inr (), w') \<and>
     permission_tbl.lookup c pid (w_db w') = Some p' \<and>
     pStatus p' = (if b then PermissionStatusApproved else PermissionStatusDenied)"
proof -
  let ?u = "respond_updates b why by (e_clock w (w_tick w))"
  let ?p = "apply_permission_updates (e_clock w (Suc (w_tick w))) ?u p"
  have "permission_check p"
    using inv permission_tbl.lookup_SomeD [OF look] by (simp add: db_inv_def permissions_ok_def)
  then have "permission_check ?p" by (simp add: permission_check_def)
  then obtain w1 where w1: "run_state (UpdatePermissionRequest c pid ?u) (tick w) = (Inr (), w1)"
    using nf look by (simp add: UpdatePermissionRequest_def run_exec_stmt_nofault updatePermissionRequest_def
        permission_tbl.lookup_def Let_def)
  let ?ev = "if b then ''permission.approved'' else ''permission.denied''"
  obtain w1' w2 where w2: "run_state (emit_webhook ?ev pid) w1 = ((), w1')"
      "run_state (emit_audit ?ev pid) w1' = ((), w2)" and db2: "w_db w2 = w_db w1"
    using emit_run(1) [of ?ev pid w1] emit_run(2) [of ?ev pid] by metis
  have keys: "distinct (map pID (permission_requests (w_db w)))" using db_inv_keys [OF inv] by simp
  obtain r w' where d: "run_state (deliver_response c stale pid b why) w2 = (r, w')" by fastforce
  have "r = Inr ()"
    using deliver_response_run [OF d] UpdatePermissionRequest_run [OF w1, of p] look keys db2 by simp
  then have "run_state (respond_pending c stale pid b why by) w = (Inr (), w')"
    using w1 w2 d by (auto simp: respond_pending_def split: prod.splits)
  with respond_pending_run [OF this keys look] show ?thesis by auto
qed

end
