(* ===== verification/Waker_Laws.thy ===== *)
theory Waker_Laws
  imports Dispatch_Waker
begin

text \<open>
  The timing of the dispatch path: the delays before a retry and a redispatch, and the gate that
  folds wakes into passes. A run of the gate is a sequence of wakes, rejections by the background
  pool and ends of passes, in any order the lock admits.
\<close>

section \<open>Delays\<close>

lemma capped_delay:
  "4 dvd min retryMaxDelay (retryBaseDelay * 2 ^ n)"
  "retryBaseDelay \<le> min retryMaxDelay (retryBaseDelay * 2 ^ n)"
  "min retryMaxDelay (retryBaseDelay * 2 ^ n) \<le> retryMaxDelay"
  "0 < min retryMaxDelay (retryBaseDelay * 2 ^ n)"
proof -
  have "retryBaseDelay * 1 \<le> retryBaseDelay * 2 ^ n"
    by (intro mult_left_mono) (simp_all add: retryBaseDelay_def Second_def)
  then show "retryBaseDelay \<le> min retryMaxDelay (retryBaseDelay * 2 ^ n)"
    "min retryMaxDelay (retryBaseDelay * 2 ^ n) \<le> retryMaxDelay"
    "0 < min retryMaxDelay (retryBaseDelay * 2 ^ n)"
    by (simp_all add: retryBaseDelay_def retryMaxDelay_def Second_def Minute_def)
  have "4 dvd retryBaseDelay" "4 dvd retryMaxDelay"
    by (simp_all add: retryBaseDelay_def retryMaxDelay_def Second_def Minute_def)
  then show "4 dvd min retryMaxDelay (retryBaseDelay * 2 ^ n)" by (simp add: min_def)
qed

text \<open>The jitter is symmetric when a quarter of the delay is exact.\<close>

lemma jitter_bound:
  assumes "4 dvd b" and "0 < (b :: int)"
  shows "\<bar>b + (rnd mod (b div 2 + 1) - b div 4) - b\<bar> * 4 \<le> b"
proof -
  obtain k where k: "b = 4 * k" using assms(1) by blast
  have "b div 2 = 2 * k" "b div 4 = k" using k by simp_all
  moreover have "0 \<le> rnd mod (2 * k + 1)" "rnd mod (2 * k + 1) < 2 * k + 1"
    using assms(2) k pos_mod_bound [of "2 * k + 1" rnd] pos_mod_sign [of "2 * k + 1" rnd] by simp_all
  ultimately show ?thesis using k by auto
qed

lemma quarter_bound:
  fixes x b lo hi :: int
  assumes "\<bar>x - b\<bar> * 4 \<le> b" and "lo \<le> b" and "b \<le> hi"
  shows "3 * lo \<le> 4 * x" "4 * x \<le> 5 * hi"
  using assms by (simp_all add: abs_if split: if_splits)

lemma redispatchBackoff_values:
  "5 * Second \<le> redispatchBackoff n \<and> redispatchBackoff n \<le> 5 * Minute \<and>
   redispatchBackoff n \<le> redispatchBackoff (n + 1)"
proof -
  consider "n < 1" | "n = 1" | "n = 2" | "n = 3" | "n = 4" | "n > 4" by linarith
  then show ?thesis
    by cases (simp_all add: redispatchBackoff_def redispatch_schedule_def Second_def Minute_def Let_def)
qed

text \<open>
  Delays are bounded. The delay before a retry is within a quarter of the capped doubling of
  one base delay, so between 3/4 of the base and 5/4 of the cap; the delay before a redispatch is
  at least five seconds, at most five minutes and does not shrink as attempts grow.
\<close>

theorem backoff_bounds:
  "\<bar>retryDelay attempt rnd - min retryMaxDelay (retryBaseDelay * 2 ^ nat attempt)\<bar> * 4
     \<le> min retryMaxDelay (retryBaseDelay * 2 ^ nat attempt) \<and>
   3 * retryBaseDelay \<le> 4 * retryDelay attempt rnd \<and> 4 * retryDelay attempt rnd \<le> 5 * retryMaxDelay \<and>
   5 * Second \<le> redispatchBackoff n \<and> redispatchBackoff n \<le> 5 * Minute \<and>
   redispatchBackoff n \<le> redispatchBackoff (n + 1)"
proof -
  let ?b = "min retryMaxDelay (retryBaseDelay * 2 ^ nat attempt)"
  have d: "\<bar>retryDelay attempt rnd - ?b\<bar> * 4 \<le> ?b"
    unfolding retryDelay_eq Let_def by (intro jitter_bound capped_delay)
  moreover have "3 * retryBaseDelay \<le> 4 * retryDelay attempt rnd" "4 * retryDelay attempt rnd \<le> 5 * retryMaxDelay"
    by (rule quarter_bound [OF d capped_delay(2,3)])+
  ultimately show ?thesis using redispatchBackoff_values by auto
qed

section \<open>Coalescing wakes\<close>

datatype gate_event = Woken string | Rejected | PassEnd bool

text \<open>A trace pairs each event with the trigger of the pass it starts, if any.\<close>

type_synonym gate_trace = "(gate_event \<times> string option) list"

definition idle_gate :: gate where
  "idle_gate = \<lparr>gInFlight = False, gPending = False, gTrigger = []\<rparr>"

inductive gate_run :: "gate_trace \<Rightarrow> gate \<Rightarrow> bool" where
  gate_start: "gate_run [] idle_gate"
| gate_wake: "gate_run tr g \<Longrightarrow> wake_gate t g = (b, g') \<Longrightarrow>
     gate_run (tr @ [(Woken t, if b then Some t else None)]) g'"
| gate_reject: "gate_run tr g \<Longrightarrow> gInFlight g \<Longrightarrow> gate_run (tr @ [(Rejected, None)]) (wake_rejected g)"
| gate_end: "gate_run tr g \<Longrightarrow> gInFlight g \<Longrightarrow> pass_done cancelled g = (n, g') \<Longrightarrow>
     gate_run (tr @ [(PassEnd cancelled, n)]) g'"

definition is_wake :: "gate_event \<times> string option \<Rightarrow> bool" where
  "is_wake x = (case fst x of Woken _ \<Rightarrow> True | _ \<Rightarrow> False)"

definition is_start :: "gate_event \<times> string option \<Rightarrow> bool" where
  "is_start x = (snd x \<noteq> None)"

definition is_end :: "gate_event \<times> string option \<Rightarrow> bool" where
  "is_end x = (case fst x of Woken _ \<Rightarrow> False | _ \<Rightarrow> True)"

lemmas trace_defs = is_wake_def is_start_def is_end_def

definition occurrences :: "('a \<Rightarrow> bool) \<Rightarrow> 'a list \<Rightarrow> nat" where
  "occurrences P xs = length (filter P xs)"

lemma occurrences_simps [simp]: "occurrences P [] = 0" "occurrences P (xs @ [x]) = occurrences P xs + (if P x then 1 else 0)"
  by (simp_all add: occurrences_def)

text \<open>One pass is in flight at a time, and a wake costs at most one pass.\<close>

lemma gate_counts:
  assumes "gate_run tr g"
  shows "occurrences is_start tr = occurrences is_end tr + (if gInFlight g then 1 else 0)"
    and "occurrences is_start tr + (if gPending g then 1 else 0) \<le> occurrences is_wake tr" and "gPending g \<longrightarrow> gInFlight g"
  using assms
  by (induction rule: gate_run.induct)
    (auto simp: trace_defs idle_gate_def wake_gate_def wake_rejected_def pass_done_def split: if_splits)

text \<open>Nothing was rejected or cancelled.\<close>

definition undisturbed :: "gate_trace \<Rightarrow> bool" where
  "undisturbed tr \<longleftrightarrow> (\<forall>x \<in> set tr. fst x \<noteq> Rejected \<and> fst x \<noteq> PassEnd True)"

lemma gate_serves:
  assumes "gate_run tr g" and "undisturbed tr" and "tr = pre @ x # post" and "is_wake x"
  shows "(\<exists>y \<in> set (x # post). is_start y) \<or> gPending g"
  using assms
proof (induction arbitrary: post rule: gate_run.induct)
  case (gate_wake tr g t b g')
  show ?case
  proof (cases post rule: rev_cases)
    case Nil
    then show ?thesis
      using gate_wake by (auto simp: trace_defs wake_gate_def split: if_splits)
  next
    case (snoc ps y)
    then show ?thesis
      using gate_wake.IH [of ps] gate_wake.prems gate_wake.hyps
      by (auto simp: undisturbed_def trace_defs wake_gate_def split: if_splits)
  qed
next
  case (gate_end tr g cancelled n g')
  obtain ps where "post = ps @ [(PassEnd cancelled, n)]" "tr = pre @ x # ps"
    using gate_end.prems by (cases post rule: rev_cases) (auto simp: is_wake_def)
  then show ?case
    using gate_end.IH [of ps] gate_end.prems gate_end.hyps
    by (auto simp: undisturbed_def trace_defs pass_done_def split: if_splits)
next
  case (gate_reject tr g)
  from gate_reject.prems(1) show ?case by (simp add: undisturbed_def)
qed simp

text \<open>
  C24. No wake is lost and none costs more than one pass. In every run of the gate the passes
  started are the passes ended, plus one exactly while the gate is closed, and at most as many as
  the wakes; and when no drain was rejected or cancelled and the gate is open again, every wake was
  followed by the start of a pass.
\<close>

theorem wakes_coalesce_without_loss:
  assumes "gate_run tr g"
  shows "occurrences is_start tr = occurrences is_end tr + (if gInFlight g then 1 else 0) \<and>
    occurrences is_start tr \<le> occurrences is_wake tr \<and>
    (undisturbed tr \<and> \<not> gInFlight g \<longrightarrow>
      (\<forall>pre x post. tr = pre @ x # post \<and> is_wake x \<longrightarrow> (\<exists>y \<in> set (x # post). is_start y)))"
  using gate_counts [OF assms] gate_serves [OF assms] by fastforce

end
