(* ===== verification/Run_Ledger.thy ===== *)
theory Run_Ledger
  imports Prelude
begin

text \<open>
  The runner's ledger of run ids, \<^verbatim>\<open>pkg/agent/run_ledger.go\<close>, and the gate in front of the executor,
  \<^verbatim>\<open>TaskRunner.Execute\<close>. Executions overlap: a command is delivered, and the execution it started
  ends later, in any order. The terminal message of a run is a value of the type \<open>'m\<close>.

  The ledger refines a log: an unbounded list of the results produced so far, of which the last
  \<^verbatim>\<open>window\<close> are looked up.
\<close>

section \<open>The ledger\<close>

definition completedRunsWindow :: int where "completedRunsWindow = 64"

datatype runDecision = runFresh | runInFlight | runCompleted

record 'm runLedger =
  inFlight :: "string set"
  completed :: "string \<rightharpoonup> 'm"
  order :: "string list"
  window :: nat

definition newRunLedger :: "int \<Rightarrow> 'm runLedger" where
  "newRunLedger w = \<lparr>inFlight = {}, completed = Map.empty, order = [], window = nat (if w < 1 then 1 else w)\<rparr>"

definition ledger_begin :: "string \<Rightarrow> 'm runLedger \<Rightarrow> (runDecision \<times> 'm option) \<times> 'm runLedger" where
  "ledger_begin runID l =
     (if runID = '''' then ((runFresh, None), l)
      else if runID \<in> inFlight l then ((runInFlight, None), l)
      else (case completed l runID of
              Some result \<Rightarrow> ((runCompleted, Some result), l)
            | None \<Rightarrow> ((runFresh, None), l\<lparr>inFlight := insert runID (inFlight l)\<rparr>)))"

text \<open>The eviction loop at the end of \<^verbatim>\<open>finish\<close>.\<close>

function evict :: "'m runLedger \<Rightarrow> 'm runLedger" where
  "evict l =
     (if length (order l) > window l
      then evict (l\<lparr>completed := (completed l)(hd (order l) := None), order := tl (order l)\<rparr>)
      else l)"
  by pat_completeness auto

termination
  by (relation "measure (\<lambda>l. length (order l))") auto

declare evict.simps [simp del]

definition finish :: "string \<Rightarrow> 'm option \<Rightarrow> 'm runLedger \<Rightarrow> 'm runLedger" where
  "finish runID result l =
     (if runID = '''' then l
      else
        (let l1 = l\<lparr>inFlight := inFlight l - {runID}\<rparr>
         in case result of
              None \<Rightarrow> l1
            | Some r \<Rightarrow>
                evict (l1\<lparr>order := (if completed l1 runID = None then order l1 @ [runID] else order l1),
                          completed := (completed l1)(runID \<mapsto> r)\<rparr>)))"

section \<open>The gate\<close>

text \<open>
  \<^verbatim>\<open>TaskRunner.Execute\<close> from its entry to the executor: the answer given without executing (a
  message, or nothing), or the start of an execution, which \<^verbatim>\<open>defer\<close> makes end with \<open>finish\<close>.
\<close>

datatype 'm answer = Run | Ignore | Resend 'm

definition Execute_gate :: "string \<Rightarrow> 'm runLedger \<Rightarrow> 'm answer \<times> 'm runLedger" where
  "Execute_gate runID l =
     (case ledger_begin runID l of
        ((runInFlight, _), l1) \<Rightarrow> (Ignore, l1)
      | ((runCompleted, Some recorded), l1) \<Rightarrow> (Resend recorded, l1)
      | ((runCompleted, None), l1) \<Rightarrow> (Ignore, l1)
      | ((runFresh, _), l1) \<Rightarrow> (Run, l1))"

datatype 'm event = Delivered string "'m answer" | Ended string "'m option"

text \<open>A state of the process: the ledger and the run ids of the executions under way.\<close>

inductive agent_step :: "'m runLedger \<times> string list \<Rightarrow> 'm event \<Rightarrow> 'm runLedger \<times> string list \<Rightarrow> bool" where
  deliver: "Execute_gate runID l = (a, l') \<Longrightarrow>
    agent_step (l, rs) (Delivered runID a) (l', if a = Run then runID # rs else rs)"
| finished: "runID \<in> set rs \<Longrightarrow>
    agent_step (l, rs) (Ended runID result) (finish runID result l, remove1 runID rs)"

inductive agent_run :: "'m runLedger \<times> string list \<Rightarrow> 'm event list \<Rightarrow> 'm runLedger \<times> string list \<Rightarrow> bool" where
  none: "agent_run s [] s"
| more: "agent_run s es t \<Longrightarrow> agent_step t e u \<Longrightarrow> agent_run s (es @ [e]) u"

inductive_cases agent_run_Nil: "agent_run s [] t"
inductive_cases agent_run_snoc: "agent_run s (es @ [e]) t"

section \<open>The log\<close>

record 'm run_log =
  rlRunning :: "string set"
  rlResults :: "(string \<times> 'm) list"
  rlWindow :: nat

definition last_n :: "nat \<Rightarrow> 'a list \<Rightarrow> 'a list" where
  "last_n n xs = drop (length xs - n) xs"

definition recent :: "'m run_log \<Rightarrow> string \<rightharpoonup> 'm" where
  "recent g = map_of (last_n (rlWindow g) (rlResults g))"

text \<open>Runs without an id are not tracked.\<close>

inductive log_step :: "'m run_log \<Rightarrow> 'm event \<Rightarrow> 'm run_log \<Rightarrow> bool" where
  untracked: "log_step g (Delivered '''' Run) g"
| untracked_end: "log_step g (Ended '''' result) g"
| ignore: "runID \<noteq> '''' \<Longrightarrow> runID \<in> rlRunning g \<Longrightarrow> log_step g (Delivered runID Ignore) g"
| resend: "runID \<noteq> '''' \<Longrightarrow> runID \<notin> rlRunning g \<Longrightarrow> recent g runID = Some m \<Longrightarrow>
    log_step g (Delivered runID (Resend m)) g"
| run: "runID \<noteq> '''' \<Longrightarrow> runID \<notin> rlRunning g \<Longrightarrow> recent g runID = None \<Longrightarrow>
    log_step g (Delivered runID Run) (g\<lparr>rlRunning := insert runID (rlRunning g)\<rparr>)"
| interrupted: "runID \<noteq> '''' \<Longrightarrow> runID \<in> rlRunning g \<Longrightarrow>
    log_step g (Ended runID None) (g\<lparr>rlRunning := rlRunning g - {runID}\<rparr>)"
| recorded: "runID \<noteq> '''' \<Longrightarrow> runID \<in> rlRunning g \<Longrightarrow>
    log_step g (Ended runID (Some m))
      (g\<lparr>rlRunning := rlRunning g - {runID}, rlResults := rlResults g @ [(runID, m)]\<rparr>)"

inductive log_run :: "'m run_log \<Rightarrow> 'm event list \<Rightarrow> 'm run_log \<Rightarrow> bool" where
  log_none: "log_run s [] s"
| log_more: "log_run s es t \<Longrightarrow> log_step t e u \<Longrightarrow> log_run s (es @ [e]) u"

definition new_log :: "int \<Rightarrow> 'm run_log" where
  "new_log w = \<lparr>rlRunning = {}, rlResults = [], rlWindow = nat (if w < 1 then 1 else w)\<rparr>"

section \<open>The ledger refines the log\<close>

lemma last_n_snoc:
  "0 < n \<Longrightarrow> last_n n (xs @ [x]) = (if length xs < n then last_n n xs else tl (last_n n xs)) @ [x]"
  by (auto simp: last_n_def tl_drop Suc_diff_le drop_Suc simp flip: drop_Suc)

lemma length_last_n [simp]: "length (last_n n xs) = min n (length xs)"
  by (simp add: last_n_def)

lemma map_of_snoc_fresh: "k \<notin> fst ` set ys \<Longrightarrow> map_of (ys @ [(k, m)]) = (map_of ys)(k \<mapsto> m)"
  by (induction ys) auto

lemma map_of_tl:
  assumes "distinct (map fst ys)" and "ys \<noteq> []"
  shows "map_of (tl ys) = (map_of ys)(fst (hd ys) := None)"
proof (cases ys)
  case (Cons y zs)
  with assms(1) have "map_of zs (fst y) = None" by (simp add: map_of_eq_None_iff)
  with Cons show ?thesis by (auto simp: fun_eq_iff)
qed (use assms in simp)

lemma evict_small: "length (order l) \<le> window l \<Longrightarrow> evict l = l"
  by (subst evict.simps) simp

lemma evict_one:
  "length (order l) = Suc (window l) \<Longrightarrow>
     evict l = l\<lparr>completed := (completed l)(hd (order l) := None), order := tl (order l)\<rparr>"
  by (subst evict.simps) (simp add: evict_small)

definition tracked :: "string list \<Rightarrow> string list" where
  "tracked rs = filter (\<lambda>r. r \<noteq> '''') rs"

lemma tracked_simps [simp]:
  "tracked [] = []" "tracked ('''' # rs) = tracked rs" "r \<noteq> '''' \<Longrightarrow> tracked (r # rs) = r # tracked rs"
  by (simp_all add: tracked_def)

lemma tracked_remove1: "tracked (remove1 r rs) = remove1 r (tracked rs)"
  by (simp add: tracked_def filter_remove1)

lemma set_tracked: "set (tracked rs) = set rs - {''''}" "remove1 '''' (tracked rs) = tracked rs"
  by (auto simp: tracked_def remove1_idem)

definition represents :: "'m runLedger \<times> string list \<Rightarrow> 'm run_log \<Rightarrow> bool" where
  "represents s g \<longleftrightarrow> (case s of (l, rs) \<Rightarrow>
     (let kept = last_n (rlWindow g) (rlResults g) in
      0 < rlWindow g \<and> window l = rlWindow g \<and> inFlight l = rlRunning g \<and> completed l = recent g \<and>
      order l = map fst kept \<and> distinct (map fst kept) \<and> rlRunning g \<inter> fst ` set kept = {} \<and>
      set (tracked rs) = rlRunning g \<and> distinct (tracked rs)))"

lemma finish_recorded:
  assumes "represents (l, rs) g" and "runID \<in> set rs" and "runID \<noteq> ''''"
  shows "represents (finish runID (Some m) l, remove1 runID rs)
     (g\<lparr>rlRunning := rlRunning g - {runID}, rlResults := rlResults g @ [(runID, m)]\<rparr>)"
proof -
  let ?kept = "last_n (rlWindow g) (rlResults g)"
  let ?full = "length (rlResults g) < rlWindow g"
  let ?new = "(if ?full then ?kept else tl ?kept) @ [(runID, m)]"
  from assms have w: "0 < rlWindow g" and l: "window l = rlWindow g" "inFlight l = rlRunning g"
      "completed l = map_of ?kept" "order l = map fst ?kept"
    and d: "distinct (map fst ?kept)" and disj: "rlRunning g \<inter> fst ` set ?kept = {}"
    and rs: "set (tracked rs) = rlRunning g" "distinct (tracked rs)"
    by (auto simp: represents_def recent_def Let_def)
  have run: "runID \<in> rlRunning g" using assms(2,3) rs(1) by (auto simp: set_tracked)
  then have fresh: "runID \<notin> fst ` set ?kept" using disj by auto
  have none: "map_of ?kept runID = None" using fresh by (simp add: map_of_eq_None_iff)
  have sub: "set (if ?full then ?kept else tl ?kept) \<subseteq> set ?kept" by (cases ?kept) auto
  let ?l2 = "l\<lparr>inFlight := inFlight l - {runID}, order := order l @ [runID], completed := (completed l)(runID \<mapsto> m)\<rparr>"
  have fin: "finish runID (Some m) l = evict ?l2"
    using assms(3) none l(3) by (simp add: finish_def Let_def)
  have l2: "evict ?l2 = l\<lparr>inFlight := rlRunning g - {runID}, order := map fst ?new, completed := map_of ?new\<rparr>"
  proof (cases ?full)
    case True
    then have "evict ?l2 = ?l2" using l by (intro evict_small) simp
    with True l fresh show ?thesis by (simp add: map_of_snoc_fresh del: map_of_append)
  next
    case False
    have ne: "?kept \<noteq> []" using False w by (metis length_last_n length_0_conv min_def not_less less_numeral_extra(3))
    have "evict ?l2 = ?l2\<lparr>completed := (completed ?l2)(hd (order ?l2) := None), order := tl (order ?l2)\<rparr>"
      using False l w by (intro evict_one) simp
    moreover have "runID \<noteq> fst (hd ?kept)" using fresh ne by (metis hd_in_set imageI)
    moreover have "map_of (tl ?kept @ [(runID, m)]) = ((map_of ?kept)(fst (hd ?kept) := None))(runID \<mapsto> m)"
      using fresh sub False map_of_tl[OF d ne] by (subst map_of_snoc_fresh) auto
    ultimately show ?thesis using False l ne by (simp add: hd_map map_tl fun_upd_twist del: map_of_append)
  qed
  have "distinct (map fst ?new)" using d fresh sub by (auto simp: distinct_tl map_tl)
  moreover have "(rlRunning g - {runID}) \<inter> fst ` set ?new = {}" using disj sub by fastforce
  ultimately show ?thesis
    using w l rs assms(3) unfolding fin l2
    by (simp add: represents_def recent_def Let_def last_n_snoc tracked_remove1)
qed

lemma agent_step_refines:
  assumes "agent_step s e s'" and "represents s g"
  shows "\<exists>g'. log_step g e g' \<and> represents s' g' \<and> rlWindow g' = rlWindow g"
  using assms
proof (cases rule: agent_step.cases)
  case (deliver runID l a l' rs)
  show ?thesis
  proof (cases "runID = ''''")
    case True
    with deliver assms(2) show ?thesis
      by (intro exI[of _ g]) (auto simp: Execute_gate_def ledger_begin_def represents_def Let_def intro: log_step.untracked)
  next
    case named: False
    have l: "inFlight l = rlRunning g" "completed l = recent g" using deliver assms(2) by (auto simp: represents_def Let_def)
    consider "runID \<in> rlRunning g" | m where "runID \<notin> rlRunning g" "recent g runID = Some m"
      | "runID \<notin> rlRunning g" "recent g runID = None" by (cases "recent g runID") auto
    then show ?thesis
    proof cases
      case 1
      with deliver named l have "a = Ignore" "l' = l" by (auto simp: Execute_gate_def ledger_begin_def)
      with 1 deliver named assms(2) show ?thesis by (auto intro: log_step.ignore)
    next
      case 2
      with deliver named l have "a = Resend m" "l' = l" by (auto simp: Execute_gate_def ledger_begin_def)
      with 2 deliver named assms(2) show ?thesis by (auto intro: log_step.resend)
    next
      case 3
      with deliver named l have a: "a = Run" "l' = l\<lparr>inFlight := insert runID (inFlight l)\<rparr>"
        by (auto simp: Execute_gate_def ledger_begin_def)
      have "runID \<notin> fst ` set (last_n (rlWindow g) (rlResults g))" using 3(2) by (simp add: recent_def map_of_eq_None_iff)
      with 3 a deliver named assms(2) have "represents s' (g\<lparr>rlRunning := insert runID (rlRunning g)\<rparr>)"
        by (auto simp: represents_def recent_def Let_def)
      with 3 a deliver named show ?thesis by (intro exI[of _ "g\<lparr>rlRunning := insert runID (rlRunning g)\<rparr>"]) (auto intro: log_step.run)
    qed
  qed
next
  case (finished runID rs l result)
  show ?thesis
  proof (cases "runID = ''''")
    case True
    with finished assms(2) show ?thesis
      by (intro exI[of _ g]) (auto simp: finish_def represents_def Let_def tracked_remove1 set_tracked(2) intro: log_step.untracked_end)
  next
    case named: False
    have run: "runID \<in> rlRunning g" using finished named assms(2) by (auto simp: represents_def Let_def set_tracked)
    show ?thesis
    proof (cases result)
      case None
      have "represents s' (g\<lparr>rlRunning := rlRunning g - {runID}\<rparr>)"
        using finished named None assms(2)
        by (auto simp: represents_def Let_def finish_def recent_def tracked_remove1 distinct_remove1)
      with None finished run named show ?thesis by (auto intro: log_step.interrupted)
    next
      case (Some m)
      from finish_recorded[of l rs g runID m] finished named Some assms(2) run show ?thesis
        by (auto intro: log_step.recorded)
    qed
  qed
qed

lemma agent_run_refines:
  assumes "agent_run s es s'" and "represents s g"
  shows "\<exists>g'. log_run g es g' \<and> represents s' g' \<and> rlWindow g' = rlWindow g"
  using assms
proof (induction rule: agent_run.induct)
  case (more s es t e u)
  then show ?case using agent_step_refines log_more by metis
qed (auto intro: log_none)

lemma represents_new: "represents (newRunLedger w, []) (new_log w)"
  by (auto simp: represents_def newRunLedger_def new_log_def recent_def last_n_def Let_def fun_eq_iff)

text \<open>
  C20. The ledger refines the log. Within one agent process, which starts with an empty ledger, and
  whatever the order in which commands are delivered and executions end, the ledger gives exactly the answers of the log
  that keeps every result and looks up the last \<^verbatim>\<open>window\<close> of them; its in-flight set is the set of
  executions under way, and it never holds more than \<^verbatim>\<open>window\<close> results.
\<close>

theorem ledger_refines_log:
  assumes "agent_run (newRunLedger w, []) es (l, rs)"
  shows "\<exists>g. log_run (new_log w) es g \<and> inFlight l = rlRunning g \<and>
      rlRunning g = set rs - {''''} \<and> completed l = recent g \<and>
      card (dom (completed l)) \<le> window l"
proof -
  from agent_run_refines[OF assms represents_new] obtain g where g: "log_run (new_log w) es g" "represents (l, rs) g" by blast
  have "dom (completed l) = fst ` set (last_n (rlWindow g) (rlResults g))" "window l = rlWindow g"
    "length (last_n (rlWindow g) (rlResults g)) \<le> rlWindow g"
    using g(2) by (auto simp: represents_def Let_def recent_def dom_map_of_conv_image_fst)
  then have "card (dom (completed l)) \<le> window l"
    by (metis card_image_le card_length finite_set le_trans)
  with g show ?thesis by (auto simp: represents_def Let_def set_tracked)
qed

section \<open>At most once\<close>

definition event_result :: "'m event \<Rightarrow> (string \<times> 'm) option" where
  "event_result e = (case e of Ended r (Some m) \<Rightarrow> if r = '''' then None else Some (r, m) | _ \<Rightarrow> None)"

definition results_of :: "'m event list \<Rightarrow> (string \<times> 'm) list" where
  "results_of es = List.map_filter event_result es"

lemma event_result_Some: "event_result e = Some (r, m) \<longleftrightarrow> e = Ended r (Some m) \<and> r \<noteq> ''''"
  by (auto simp: event_result_def split: event.splits option.splits if_splits)

lemma results_of_append [simp]: "results_of (es @ fs) = results_of es @ results_of fs"
  by (simp add: results_of_def List.map_filter_def)

lemma results_of_one [simp]: "results_of [e] = (case event_result e of None \<Rightarrow> [] | Some x \<Rightarrow> [x])"
  by (simp add: results_of_def List.map_filter_def split: option.split)

lemma results_of_in: "(r, m) \<in> set (results_of es) \<longleftrightarrow> Ended r (Some m) \<in> set es \<and> r \<noteq> ''''"
proof (induction es rule: rev_induct)
  case (snoc e es)
  have "Some (r, m) = event_result e \<longleftrightarrow> e = Ended r (Some m) \<and> r \<noteq> []"
    using event_result_Some[of e r m] by auto
  with snoc show ?case by (auto split: option.split)
qed (simp add: results_of_def List.map_filter_def)

lemma log_run_split: "log_run g (es @ fs) k \<Longrightarrow> \<exists>h. log_run g es h \<and> log_run h fs k"
proof (induction fs arbitrary: k rule: rev_induct)
  case Nil
  then show ?case by (auto intro: log_none)
next
  case (snoc e fs)
  then obtain t where t: "log_run g (es @ fs) t" "log_step t e k"
    by (auto elim: log_run.cases simp flip: append_assoc)
  from snoc.IH[OF t(1)] t(2) show ?case by (blast intro: log_more)
qed

lemma log_run_Nil: "log_run g [] h \<longleftrightarrow> g = h"
  by (auto intro: log_none elim: log_run.cases)

lemma log_run_one: "log_run g [e] h \<longleftrightarrow> log_step g e h"
  using log_run.log_more[OF log_none, of g e h] by (auto elim: log_run.cases simp: log_run_Nil)

lemma log_run_window: "log_run g es h \<Longrightarrow> rlWindow h = rlWindow g"
  by (induction rule: log_run.induct) (auto elim: log_step.cases)

lemma log_run_running:
  "log_run g es h \<Longrightarrow> r \<in> rlRunning g \<Longrightarrow> \<forall>x. Ended r x \<notin> set es \<Longrightarrow> r \<in> rlRunning h"
proof (induction rule: log_run.induct)
  case (log_more s es t e u)
  then have "r \<in> rlRunning t" and ne: "\<forall>x. e \<noteq> Ended r x" by auto
  from log_more(2) this show ?case by cases auto
qed simp

lemma log_run_results: "log_run g es h \<Longrightarrow> rlResults h = rlResults g @ results_of es"
proof (induction rule: log_run.induct)
  case (log_more s es t e u)
  from log_more(2) have "rlResults u = rlResults t @ results_of [e]"
    by cases (auto simp: event_result_def split: option.split)
  with log_more.IH show ?case by simp
qed (simp add: results_of_def List.map_filter_def)

lemma last_n_append: "set (last_n n (xs @ ys)) \<subseteq> set (last_n n xs) \<union> set ys"
proof -
  have "set (drop (length xs + length ys - n) xs) \<subseteq> set (last_n n xs)"
    unfolding last_n_def by (rule set_drop_subset_set_drop) simp
  moreover have "last_n n (xs @ ys) = drop (length xs + length ys - n) xs @ drop (length ys - n) ys"
    by (simp add: last_n_def)
  ultimately show ?thesis using set_drop_subset[of "length ys - n" ys] by auto
qed

lemma last_n_suffix: "length ys \<le> n \<Longrightarrow> set ys \<subseteq> set (last_n n (xs @ ys))"
  by (auto simp: last_n_def)

lemma log_redelivery:
  assumes "log_step a (Delivered r Run) h" and "log_run h mid k" and "log_step k (Delivered r ans) k'"
    and "r \<noteq> ''''" and "Ended r None \<notin> set mid" and "length (results_of mid) \<le> rlWindow k"
  shows "ans = Ignore \<or> (\<exists>m. ans = Resend m \<and> Ended r (Some m) \<in> set mid)"
proof -
  let ?kept = "last_n (rlWindow k) (rlResults k)"
  from assms(1,4) have h: "r \<in> rlRunning h" "recent h r = None" by (auto elim!: log_step.cases simp: recent_def)
  have res: "rlResults k = rlResults h @ results_of mid" "rlWindow k = rlWindow h"
    using log_run_results[OF assms(2)] log_run_window[OF assms(2)] by auto
  have old: "(r, m) \<notin> set (last_n (rlWindow k) (rlResults h))" for m
    using h(2) res(2) by (auto simp: recent_def map_of_eq_None_iff rev_image_eqI)
  from assms(3) show ?thesis
  proof cases
    case (resend m)
    then have "(r, m) \<in> set ?kept" by (auto simp: recent_def dest: map_of_SomeD)
    with last_n_append[of "rlWindow k" "rlResults h" "results_of mid"] old res have "(r, m) \<in> set (results_of mid)" by auto
    with resend show ?thesis by (simp add: results_of_in)
  next
    case run
    from log_run_running[OF assms(2) h(1)] run(4) obtain x where "Ended r x \<in> set mid" by blast
    with assms(5) obtain m where "Ended r (Some m) \<in> set mid" by (cases x) auto
    with assms(4) have "(r, m) \<in> set (results_of mid)" by (simp add: results_of_in)
    with last_n_suffix[OF assms(6)] res have "(r, m) \<in> set ?kept" by auto
    with run(5) show ?thesis by (auto simp: recent_def map_of_eq_None_iff rev_image_eqI)
  qed (use assms(4) in auto)
qed

text \<open>
  A re-delivered run is not executed again. Let a process execute a run, and let the command
  be delivered again before more than 64 results were produced since. Unless the execution was
  interrupted without a result, the second delivery is ignored, or answered with the result the
  execution produced; executions of one run never overlap.
\<close>

theorem redelivery_not_executed:
  assumes "agent_run (newRunLedger completedRunsWindow, []) (pre @ Delivered r Run # mid @ [Delivered r ans]) s"
    and "r \<noteq> ''''" and "Ended r None \<notin> set mid" and "length (results_of mid) \<le> 64"
  shows "ans = Ignore \<or> (\<exists>m. ans = Resend m \<and> Ended r (Some m) \<in> set mid)"
proof -
  from agent_run_refines[OF assms(1) represents_new] obtain k' where
    "log_run (new_log completedRunsWindow) (pre @ [Delivered r Run] @ mid @ [Delivered r ans]) k'" by auto
  then obtain a h k where run: "log_run (new_log completedRunsWindow) pre a" "log_step a (Delivered r Run) h"
      "log_run h mid k" "log_step k (Delivered r ans) k'"
    by (metis log_run_split log_run_one)
  have "rlWindow h = rlWindow a" using run(2) assms(2) by (auto elim: log_step.cases)
  then have "rlWindow k = 64" using log_run_window[OF run(1)] log_run_window[OF run(3)]
    by (simp add: new_log_def completedRunsWindow_def)
  with log_redelivery[OF run(2-4) assms(2,3)] assms(4) show ?thesis by simp
qed

end
