(* ===== verification/Server_Witnesses.thy ===== *)
theory Server_Witnesses
  imports Sample Runner_Laws Permission_Laws Waker_Laws Run_Ledger
begin

text \<open>
  The properties of the runner manager, the reaper, the permission manager, the waker, the run
  ledger and the server as a whole, applied to concrete deployments.
\<close>

section \<open>The server\<close>

theorem server_keeps_schema_witness:
  "\<exists>w'. run_state (serve_all (\<lambda>_ _ _. ret False) (\<lambda>_ _ _ _ _. ret ())
     [ReqActivate app_ctx ''s-3'' ''run-2'', ReqRunnerDisconnected app_ctx ''run-1'']) sample_world = ((), w') \<and>
     db_inv (w_db w')"
proof -
  let ?m = "serve_all (\<lambda>_ _ _. ret False) (\<lambda>_ _ _ _ _. ret ())
     [ReqActivate app_ctx ''s-3'' ''run-2'', ReqRunnerDisconnected app_ctx ''run-1'']"
  obtain w' where r: "run_state ?m sample_world = ((), w')" by (cases "run_state ?m sample_world") auto
  have "db_inv (w_db w')" by (rule server_keeps_schema [OF _ r]) (use sample_db_inv in auto)
  with r show ?thesis by blast
qed

section \<open>Runners\<close>





text \<open>An old managed runner nobody uses.\<close>

definition orphan_world :: world where
  "orphan_world = sample_world\<lparr>w_db := sample_db\<lparr>
     runners := [sample_runner ''run-1'' StatusBusy,
       (sample_runner ''run-2'' StatusIdle)\<lparr>rProviderConfigID := Some ''pc-1''\<rparr>],
     provider_configs := [\<lparr>pcID = ''pc-1'', pcName = ''docker'', pcTenantID = None\<rparr>]\<rparr>,
     e_provider := (\<lambda>_. Some \<lparr>pvName = ''docker'', pvType = ProviderTypeManaged, pvPoolAcquirer = False,
       pvSuspendable = False, pvPausable = False\<rparr>)\<rparr>"

definition sample_reaper :: Reaper where
  "sample_reaper = \<lparr>rpMinAge = 100, rpMaxAttempts = 5, rpAttempts = (\<lambda>_. 0)\<rparr>"

lemma orphan_inv: "db_inv (w_db orphan_world)"
  by (auto simp: orphan_world_def sample_inv_defs)

theorem reaper_destroys_only_orphans_witness:
  "\<exists>e rp' w'. run_state (reaper_Sweep app_ctx sample_reaper) orphan_world = ((e, rp'), w') \<and>
     ProviderDestroy ''docker'' ''run-2'' \<in> set (w_log w') \<and> orphan (w_db orphan_world) app_ctx ''run-2''"
proof -
  obtain e rp' w' where r: "run_state (reaper_Sweep app_ctx sample_reaper) orphan_world = ((e, rp'), w')"
    by (metis surj_pair)
  have "ProviderDestroy ''docker'' ''run-2'' \<in> set (w_log (snd (run_state (reaper_Sweep app_ctx sample_reaper) orphan_world)))"
    by code_simp
  then have d: "ProviderDestroy ''docker'' ''run-2'' \<in> set (w_log w')" using r by simp
  have "w_log orphan_world = []" by (simp add: orphan_world_def sample_world_def)
  moreover have "length (filter (asleep (w_db orphan_world) app_ctx) (sessions (w_db orphan_world))) \<le> 200"
    by (simp add: orphan_world_def sample_db_def)
  ultimately have "orphan (w_db orphan_world) app_ctx ''run-2''"
    using reaper_destroys_only_orphans [OF r orphan_inv] d by (fastforce simp: reapable_def due_orphan_def)
  with r d show ?thesis by blast
qed

section \<open>Permissions\<close>

definition sample_permission :: PermissionRequest where
  "sample_permission = new_permission ''p-1'' 5 \<lparr>cpiOriginalRequestID = ''q-1'', cpiSessionID = ''s-1'',
     cpiTaskID = ''t-3'', cpiRunID = ''tr-3'', cpiTool = ''bash'', cpiAction = ''rm'', cpiContext = [],
     cpiRiskLevel = [], cpiSuspendAfterSeconds = 0, cpiTenantID = None\<rparr>"

definition permission_world :: world where
  "permission_world = sample_world\<lparr>w_db := sample_db\<lparr>permission_requests := [sample_permission]\<rparr>\<rparr>"

lemma permission_inv: "db_inv (w_db permission_world)"
  by (auto simp: permission_world_def sample_permission_def sample_inv_defs new_permission_def permission_check_def permission_fk_def
      RiskLevelMedium_def)

lemma permission_answered:
  "\<not> isl (fst (run_state (Respond app_ctx ''p-1'' True [] ''ann'') permission_world))"
  by code_simp

theorem respond_records_then_delivers_witness:
  "\<exists>w' p'. run_state (Respond app_ctx ''p-1'' True [] ''ann'') permission_world = (Inr (), w') \<and>
     permission_tbl.lookup app_ctx ''p-1'' (w_db w') = Some p' \<and> pStatus p' = PermissionStatusApproved"
proof -
  obtain w' where r: "run_state (Respond app_ctx ''p-1'' True [] ''ann'') permission_world = (Inr (), w')"
    using returned [OF permission_answered] by auto
  from respond_records_then_delivers [OF r permission_inv] r show ?thesis by auto
qed

text \<open>A cancelled request, answered by somebody who had read it before.\<close>

theorem late_answer_overwrites_witness:
  "\<exists>w1 w' p'. run_state (pm_Cancel app_ctx ''p-1'') permission_world = (Inr (), w1) \<and>
     run_state (respond_pending app_ctx sample_permission ''p-1'' True [] ''ann'') w1 = (Inr (), w') \<and>
     permission_tbl.lookup app_ctx ''p-1'' (w_db w') = Some p' \<and> pStatus p' = PermissionStatusApproved"
proof -
  have "\<not> isl (fst (run_state (pm_Cancel app_ctx ''p-1'') permission_world))" by code_simp
  then obtain w1 where c: "run_state (pm_Cancel app_ctx ''p-1'') permission_world = (Inr (), w1)"
    using returned by fastforce
  have inv: "db_inv (w_db w1)" using any_stmt.respD [OF server_db.resp_pm_Cancel c] permission_inv by simp
  have nf: "e_fault w1 = (\<lambda>_. None)"
    using env_kept_simps(1) [OF env.respD [OF server_env.resp_pm_Cancel c]]
    by (simp add: permission_world_def sample_world_def)
  have "map pID (permission_requests (w_db (snd (run_state (pm_Cancel app_ctx ''p-1'') permission_world)))) = [''p-1'']"
    by code_simp
  then obtain p where "permission_requests (w_db w1) = [p]" "pID p = ''p-1''" using c by auto
  then have "permission_tbl.lookup app_ctx ''p-1'' (w_db w1) = Some p" by (simp add: permission_tbl.lookup_def)
  from late_answer_overwrites [OF nf inv this, of sample_permission True "[]" "''ann''"] c
  show ?thesis unfolding if_True by blast
qed

section \<open>The gate and the ledger\<close>

theorem wakes_coalesce_without_loss_witness:
  "\<exists>g. gate_run [(Woken ''a'', Some ''a''), (Woken ''b'', None), (PassEnd False, Some ''b''), (PassEnd False, None)] g \<and>
     \<not> gInFlight g \<and> occurrences is_start [(Woken ''a'', Some ''a''), (Woken ''b'', None),
       (PassEnd False, Some ''b''), (PassEnd False, None)] = 2"
proof -
  let ?tr = "[(Woken ''a'', Some ''a''), (Woken ''b'', None), (PassEnd False, Some ''b''), (PassEnd False, None)]"
  have "gate_run [(Woken ''a'', Some ''a'')] \<lparr>gInFlight = True, gPending = False, gTrigger = []\<rparr>"
    using gate_wake [OF gate_start, of "''a''"] by (simp add: wake_gate_def idle_gate_def)
  from gate_wake [OF this, of "''b''" False]
  have "gate_run [(Woken ''a'', Some ''a''), (Woken ''b'', None)] \<lparr>gInFlight = True, gPending = True, gTrigger = ''b''\<rparr>"
    by (simp add: wake_gate_def)
  from gate_end [OF this, of False]
  have "gate_run [(Woken ''a'', Some ''a''), (Woken ''b'', None), (PassEnd False, Some ''b'')]
      \<lparr>gInFlight = True, gPending = False, gTrigger = ''b''\<rparr>"
    by (simp add: pass_done_def)
  from gate_end [OF this, of False]
  have r: "gate_run ?tr \<lparr>gInFlight = False, gPending = False, gTrigger = ''b''\<rparr>"
    by (simp add: pass_done_def)
  have "occurrences is_end ?tr = 2" by (simp add: occurrences_def is_end_def)
  then have "occurrences is_start ?tr = 2" using wakes_coalesce_without_loss [OF r] by simp
  with r show ?thesis by fastforce
qed

lemma ledger_sample:
  "\<exists>s :: nat runLedger \<times> string list.
     agent_run (newRunLedger completedRunsWindow, []) ([] @ Delivered ''r-1'' Run # [] @ [Delivered ''r-1'' Ignore]) s"
proof -
  let ?l0 = "newRunLedger completedRunsWindow :: nat runLedger"
  obtain a1 l1 where g1: "Execute_gate ''r-1'' ?l0 = (a1, l1)" by (cases "Execute_gate ''r-1'' ?l0")
  have a1: "a1 = Run" and g2: "fst (Execute_gate ''r-1'' l1) = Ignore"
    using g1 by (auto simp: Execute_gate_def ledger_begin_def newRunLedger_def Let_def split: prod.splits)
  obtain l2 where l2: "Execute_gate ''r-1'' l1 = (Ignore, l2)" using g2 by (metis prod.collapse)
  have "agent_run (?l0, []) [Delivered ''r-1'' Run] (l1, [''r-1''])"
    using agent_run.more [OF agent_run.none agent_step.deliver [OF g1]] a1 by simp
  from agent_run.more [OF this agent_step.deliver [OF l2]] show ?thesis by auto
qed

theorem ledger_refines_log_witness:
  "\<exists>(g :: nat run_log). log_run (new_log completedRunsWindow) [Delivered ''r-1'' Run, Delivered ''r-1'' Ignore] g"
proof -
  obtain s :: "nat runLedger \<times> string list" where
    "agent_run (newRunLedger completedRunsWindow, []) [Delivered ''r-1'' Run, Delivered ''r-1'' Ignore] s"
    using ledger_sample by auto
  then show ?thesis using ledger_refines_log by (metis surj_pair)
qed

theorem redelivery_not_executed_witness:
  "\<exists>ans s :: nat runLedger \<times> string list.
     agent_run (newRunLedger completedRunsWindow, []) [Delivered ''r-1'' Run, Delivered ''r-1'' ans] s \<and> ans \<noteq> Run"
proof -
  obtain s :: "nat runLedger \<times> string list" where
    r: "agent_run (newRunLedger completedRunsWindow, []) ([] @ Delivered ''r-1'' Run # [] @ [Delivered ''r-1'' Ignore]) s"
    using ledger_sample by blast
  have "(Ignore :: nat answer) = Ignore \<or> (\<exists>m. (Ignore :: nat answer) = Resend m \<and> Ended ''r-1'' (Some m) \<in> set [])"
    by (rule redelivery_not_executed [OF r]) (simp_all add: results_of_def)
  then have "(Ignore :: nat answer) \<noteq> Run" by simp
  with r show ?thesis unfolding append_Nil by blast
qed

end
