(* ===== verification/Credential_Laws.thy ===== *)
theory Credential_Laws
  imports Auth_Laws Store_Paging
begin

text \<open>
  What a credential is worth: a token that was issued is accepted, one that was revoked never is
  again, and which credentials the context of an unauthenticated request can see at all.
\<close>

section \<open>The text of generated tokens\<close>

lemma length_RawURLEncoding: "length (RawURLEncoding bs) = (4 * length bs + 2) div 3"
  by (induction bs rule: RawURLEncoding.induct) auto

lemma length_generated [simp]: "length (RawURLEncoding (map f [0..<tokenRandomBytes])) = 43"
  by (simp add: length_RawURLEncoding tokenRandomBytes_def)

lemma ExtractPrefix_known [simp]:
  "ExtractPrefix (PrefixRunnerToken @ s) = PrefixRunnerToken"
  "ExtractPrefix (PrefixAPIKey @ s) = PrefixAPIKey"
  by (simp_all add: ExtractPrefix_def prefix_defs)

lemma run_GenerateToken:
  "run_state (GenerateToken pre) a =
     (let t = w_tick (aw_core a); a' = a\<lparr>aw_core := tick (aw_core a)\<rparr>;
          enc = RawURLEncoding (map (\<lambda>i. ae_random a t i mod 256) [0..<tokenRandomBytes])
      in case ae_random_err a t of
           Some m \<Rightarrow> (Inl (ErrRandom m), a')
         | None \<Rightarrow> (Inr (pre @ enc, display_prefix pre enc, sha256Hex (ae_sha256 a) (pre @ enc), CurrentHashVersion), a'))"
  by (simp add: GenerateToken_def rand_Read_def Let_def split: option.split)

section \<open>What a validation accepts\<close>

lemma run_token_alive:
  "run_state (token_alive rt) a = (r, a') \<Longrightarrow> r = Inr x \<Longrightarrow>
     x = rt \<and> rtRevokedAt rt = None \<and> rtStatus rt \<notin> {TokenStatusRevoked, TokenStatusExpired}"
  by (auto simp: token_alive_def split: if_splits option.splits)

lemma run_key_alive:
  "run_state (key_alive k) a = (r, a') \<Longrightarrow> r = Inr x \<Longrightarrow> x = k \<and> akRevokedAt k = None"
  by (auto simp: key_alive_def split: if_splits option.splits)

lemma token_Validate_accepts:
  assumes "fst (run_state (token_Validate c tok) a) = Inr rt"
  shows "rt \<in> set (runner_tokens (aw_tables a))" "rtTokenHash rt = sha256Hex (ae_sha256 a) tok"
    "rls_visible (w_db (aw_core a)) c (rtTenantID rt)" "rtRevokedAt rt = None"
proof -
  obtain a' where "run_state (token_Validate c tok) a = (Inr rt, a')"
    using assms by (cases "run_state (token_Validate c tok) a") auto
  then obtain x b where g: "run_state (GetRunnerTokenByHash c (sha256Hex (ae_sha256 a) tok)) a = (Inr x, b)"
    and al: "run_state (token_alive x) b = (Inr rt, a')"
    by (auto simp: token_Validate_def HashToken_def Let_def split: if_splits prod.splits sum.splits)
  from run_token_alive [OF al] have x: "x = rt" "rtRevokedAt rt = None" by auto
  from run_query_auth_Inr(1) [OF g [unfolded GetRunnerTokenByHash_def]] x show
    "rt \<in> set (runner_tokens (aw_tables a))" "rtTokenHash rt = sha256Hex (ae_sha256 a) tok"
    "rls_visible (w_db (aw_core a)) c (rtTenantID rt)" "rtRevokedAt rt = None"
    by (auto simp: getRunnerTokenByHash_def dest!: find_key_eq split: option.splits)
qed

lemma key_Validate_accepts:
  assumes "fst (run_state (key_Validate c tok) a) = Inr k"
  shows "k \<in> set (api_keys (aw_tables a))" "akKeyHash k = sha256Hex (ae_sha256 a) tok"
    "rls_visible (w_db (aw_core a)) c (akTenantID k)" "akRevokedAt k = None"
proof -
  obtain a' where "run_state (key_Validate c tok) a = (Inr k, a')"
    using assms by (cases "run_state (key_Validate c tok) a") auto
  then obtain x b where g: "run_state (GetAPIKeyByHash c (sha256Hex (ae_sha256 a) tok)) a = (Inr x, b)"
    and al: "run_state (key_alive x) b = (Inr k, a')"
    by (auto simp: key_Validate_def HashToken_def Let_def split: if_splits prod.splits sum.splits)
  from run_key_alive [OF al] have x: "x = k" "akRevokedAt k = None" by auto
  from run_query_auth_Inr(1) [OF g [unfolded GetAPIKeyByHash_def]] x show
    "k \<in> set (api_keys (aw_tables a))" "akKeyHash k = sha256Hex (ae_sha256 a) tok"
    "rls_visible (w_db (aw_core a)) c (akTenantID k)" "akRevokedAt k = None"
    by (auto simp: getAPIKeyByHash_def dest!: find_key_eq split: option.splits)
qed

section \<open>Revocation\<close>

text \<open>
  The interface a kind of credential offers: rows with an id that may be revoked. The law says
  that a statement other than the creation of a row with that id can only leave a revoked row
  revoked or remove it.
\<close>

locale credential =
  fixes rows :: "auth_tables \<Rightarrow> 'r list"
    and ident :: "'r \<Rightarrow> string"
    and revoked :: "'r \<Rightarrow> bool"
    and creates :: "string \<Rightarrow> auth_stmt \<Rightarrow> bool"
  assumes step_keeps: "\<lbrakk>auth_step l D D'; \<not> creates k l; r' \<in> set (rows (snd D')); ident r' = k\<rbrakk>
      \<Longrightarrow> \<exists>r \<in> set (rows (snd D)). ident r = k \<and> (revoked r \<longrightarrow> revoked r')"
begin

definition dead :: "string \<Rightarrow> auth_db \<Rightarrow> bool" where
  "dead k D \<longleftrightarrow> (\<forall>r \<in> set (rows (snd D)). ident r = k \<longrightarrow> revoked r)"

lemma dead_forever:
  "auth_run ls D D' \<Longrightarrow> \<forall>l \<in> set ls. \<not> creates k l \<Longrightarrow> dead k D \<Longrightarrow> dead k D'"
proof (induction rule: auth_run.induct)
  case (run_more ls D D' l D'')
  then have "dead k D'" "\<not> creates k l" by auto
  with run_more.hyps(2) show ?case unfolding dead_def by (metis step_keeps)
qed simp

lemma dead_row: "distinct (map ident (rows (snd D))) \<Longrightarrow> r \<in> set (rows (snd D)) \<Longrightarrow> revoked r \<Longrightarrow> dead (ident r) D"
  by (auto simp: dead_def dest: distinct_keyD)

end

fun creates_token :: "string \<Rightarrow> auth_stmt \<Rightarrow> bool" where
  "creates_token k (ACreateToken t) \<longleftrightarrow> rtID t = k"
| "creates_token k _ = False"

fun creates_key :: "string \<Rightarrow> auth_stmt \<Rightarrow> bool" where
  "creates_key k (ACreateKey x) \<longleftrightarrow> akID x = k"
| "creates_key k _ = False"

definition token_revoked :: "RunnerToken \<Rightarrow> bool" where
  "token_revoked t \<longleftrightarrow> rtRevokedAt t \<noteq> None"

definition key_revoked :: "APIKey \<Rightarrow> bool" where
  "key_revoked k \<longleftrightarrow> akRevokedAt k \<noteq> None"

lemma put_row_keeps:
  assumes "r' \<in> set (put_row key k x' rows)" "x \<in> set rows" "key x = k" "key x' = k" "P x \<longrightarrow> P x'"
  shows "\<exists>r \<in> set rows. key r = key r' \<and> (P r \<longrightarrow> P r')"
  using assms by (auto simp: set_put_row)

lemma updates_keep_revoked:
  "token_revoked t \<longrightarrow> token_revoked (apply_token_updates tu t)"
  "key_revoked k \<longrightarrow> key_revoked (apply_key_updates ku k)"
  by (cases "rtuRevokedAt tu"; cases "auRevokedAt ku"; simp add: token_revoked_def key_revoked_def)+

interpretation token_cred: credential runner_tokens rtID token_revoked creates_token
proof
  fix l D D' k r'
  assume "auth_step l D D'" "\<not> creates_token k l" "r' \<in> set (runner_tokens (snd D'))" "rtID r' = k"
  then show "\<exists>r \<in> set (runner_tokens (snd D)). rtID r = k \<and> (token_revoked r \<longrightarrow> token_revoked r')"
  proof (induction rule: auth_step.induct)
    case (a_updateToken c tid tu D y D')
    then show ?case using updates_keep_revoked(1)
      by (cases D) (auto simp: updateRunnerToken_def Let_def dest!: find_key_eq split: if_splits option.splits
          intro: put_row_keeps)
  qed (auto simp: createAPIKey_def updateAPIKey_def deleteAPIKey_def createRunnerToken_def deleteRunnerToken_def
      deleteRunner_def Let_def split: if_splits option.splits prod.splits)
qed

interpretation key_cred: credential api_keys akID key_revoked creates_key
proof
  fix l D D' k r'
  assume "auth_step l D D'" "\<not> creates_key k l" "r' \<in> set (api_keys (snd D'))" "akID r' = k"
  then show "\<exists>r \<in> set (api_keys (snd D)). akID r = k \<and> (key_revoked r \<longrightarrow> key_revoked r')"
  proof (induction rule: auth_step.induct)
    case (a_updateKey c kid ku D y D')
    then show ?case using updates_keep_revoked(2)
      by (cases D) (auto simp: updateAPIKey_def Let_def dest!: find_key_eq split: if_splits option.splits
          intro: put_row_keeps)
  qed (auto simp: createAPIKey_def deleteAPIKey_def createRunnerToken_def updateRunnerToken_def deleteRunnerToken_def
      deleteRunner_def Let_def split: if_splits option.splits prod.splits)
qed

text \<open>
  C25. Revocation is final. After a row of either kind carries a revocation time, no sequence of
  statements of any number of processes, in any order and with any arguments, makes a validation
  return that row again, as long as its id is not generated a second time: rotation, completion
  of a rotation, binding and deletion included.
\<close>

theorem revocation_is_final:
  assumes "auth_inv D" and "auth_run ls D (adb a)"
  shows "(t \<in> set (runner_tokens (snd D)) \<and> rtRevokedAt t \<noteq> None \<and>
        (\<forall>l \<in> set ls. \<not> creates_token (rtID t) l) \<and>
        fst (run_state (token_Validate c tok) a) = Inr rt \<longrightarrow> rtID rt \<noteq> rtID t) \<and>
     (k \<in> set (api_keys (snd D)) \<and> akRevokedAt k \<noteq> None \<and>
        (\<forall>l \<in> set ls. \<not> creates_key (akID k) l) \<and>
        fst (run_state (key_Validate c tok) a) = Inr key \<longrightarrow> akID key \<noteq> akID k)"
proof (intro conjI impI; elim conjE)
  assume t: "t \<in> set (runner_tokens (snd D))" "rtRevokedAt t \<noteq> None" "\<forall>l \<in> set ls. \<not> creates_token (rtID t) l"
    and v: "fst (run_state (token_Validate c tok) a) = Inr rt"
  from assms(1) t have "token_cred.dead (rtID t) D"
    by (intro token_cred.dead_row) (auto simp: auth_inv_def tokens_ok_def token_revoked_def)
  with token_cred.dead_forever [OF assms(2) t(3)] token_Validate_accepts [OF v] show "rtID rt \<noteq> rtID t"
    by (auto simp: token_cred.dead_def token_revoked_def)
next
  assume k: "k \<in> set (api_keys (snd D))" "akRevokedAt k \<noteq> None" "\<forall>l \<in> set ls. \<not> creates_key (akID k) l"
    and v: "fst (run_state (key_Validate c tok) a) = Inr key"
  from assms(1) k have "key_cred.dead (akID k) D"
    by (intro key_cred.dead_row) (auto simp: auth_inv_def keys_ok_def key_revoked_def)
  with key_cred.dead_forever [OF assms(2) k(3)] key_Validate_accepts [OF v] show "akID key \<noteq> akID k"
    by (auto simp: key_cred.dead_def key_revoked_def)
qed

section \<open>Tenants\<close>

lemma rls_bare: "\<not> IsSystemAccess c \<Longrightarrow> TenantFromContext c = None \<Longrightarrow>
    rls_visible d c t \<longleftrightarrow> \<not> multi_tenant d \<and> t = None"
  by (simp add: rls_visible_def)

text \<open>
  C26. A request that arrives without a tenant and without system access, which is every request
  before it is authenticated, can only be authenticated with a credential that has no tenant, and
  with none at all in a multi-tenant database: the look-up of the credential is itself filtered by
  row level security. So the middleware never binds a tenant, and no runner registers or opens a
  stream with the token of a tenant.
\<close>

theorem authentication_binds_no_tenant:
  assumes "\<not> IsSystemAccess c" and "TenantFromContext c = None"
  shows "(fst (run_state (AuthMiddleware svc mt c r) a) = Proceed k c' \<longrightarrow>
        c' = c \<and> akTenantID k = None \<and> \<not> multi_tenant (w_db (aw_core a))) \<and>
     (fst (run_state (registry_Register c req) a) = Inr res \<longrightarrow> \<not> multi_tenant (w_db (aw_core a))) \<and>
     (fst (run_state (validateRunnerAuth True c tk rid) a) = Inr c'' \<longrightarrow>
        c'' = c \<and> \<not> multi_tenant (w_db (aw_core a)))"
proof (intro conjI)
  have key: "akTenantID k = None \<and> \<not> multi_tenant (w_db (aw_core a))"
    if "run_state (key_Validate c tok) a = (Inr k, b)" for tok k b
    using key_Validate_accepts(3) [of c tok a k] that rls_bare [OF assms] by simp
  have tok: "rtTenantID rt = None \<and> \<not> multi_tenant (w_db (aw_core a))"
    if "run_state (token_Validate c tok) a = (Inr rt, b)" for tok rt b
    using token_Validate_accepts(3) [of c tok a rt] that rls_bare [OF assms] by simp
  show "fst (run_state (AuthMiddleware svc mt c r) a) = Proceed k c' \<longrightarrow>
      c' = c \<and> akTenantID k = None \<and> \<not> multi_tenant (w_db (aw_core a))"
    by (auto simp: AuthMiddleware_def nonempty_def dest!: key simp: auth_error_def
        split: sum.splits prod.splits if_splits)
  show "fst (run_state (registry_Register c req) a) = Inr res \<longrightarrow> \<not> multi_tenant (w_db (aw_core a))"
    by (auto simp: registry_Register_def dest!: tok split: sum.splits prod.splits if_splits)
  show "fst (run_state (validateRunnerAuth True c tk rid) a) = Inr c'' \<longrightarrow>
      c'' = c \<and> \<not> multi_tenant (w_db (aw_core a))"
    by (auto simp: validateRunnerAuth_def nonempty_def dest!: tok split: sum.splits prod.splits if_splits)
qed

section \<open>Rotation and unbinding\<close>

lemma auth_env_kept_simps:
  assumes "auth_env_kept a a'"
  shows "ae_sha256 a' = ae_sha256 a" "ae_random_err a' = ae_random_err a" "ae_prov a' = ae_prov a"
    "e_fault (aw_core a') = e_fault (aw_core a)" "e_provider_err (aw_core a') = e_provider_err (aw_core a)"
proof -
  have e: "env_kept (aw_core a) (aw_core a')" using assms by (simp add: auth_env_kept_def)
  then show "e_fault (aw_core a') = e_fault (aw_core a)" by (rule env_kept_simps)
  from e show "e_provider_err (aw_core a') = e_provider_err (aw_core a)"
    by (cases "aw_core a"; cases "aw_core a'") (simp add: env_kept_def)
qed (use assms in \<open>cases a; cases a'; simp add: auth_env_kept_def\<close>)+

lemma run_exec_auth_Inr:
  assumes "run_state (exec_auth f) a = (Inr x, a')"
  obtains d t where "f (e_clock (aw_core a) (w_tick (aw_core a))) (adb a) = Inr (x, d, t)"
    "a' = a\<lparr>aw_core := (tick (aw_core a))\<lparr>w_db := d\<rparr>, aw_tables := t\<rparr>"
  using assms by (auto elim: run_exec_auth_cases)

lemma rotate_row_effect:
  assumes "run_state (rotate_row c t) a = (Inr new, a')"
    and "find (\<lambda>x. rtID x = rtID t \<and> rls_visible (w_db (aw_core a)) c (rtTenantID x)) (runner_tokens (aw_tables a)) = Some t"
  obtains p n where "aw_tables a' = (aw_tables a)\<lparr>runner_tokens := put_row rtID (rtID t)
      (apply_token_updates (no_token_updates\<lparr>rtuPreviousTokenHash := Some (rtTokenHash t),
         rtuTokenHash := Some (sha256Hex (ae_sha256 a) new), rtuTokenPrefix := Some p,
         rtuStatus := Some TokenStatusRotating, rtuRotationDeadline := Some n\<rparr>) t) (runner_tokens (aw_tables a))\<rparr>"
  using assms
  by (auto simp: rotate_row_def GenerateRunnerToken_def run_GenerateToken Let_def UpdateRunnerToken_def
      updateRunnerToken_def no_token_updates_def elim!: run_exec_auth_Inr
      split: prod.splits sum.splits option.splits if_splits)

lemma token_Rotate_effect:
  assumes run: "run_state (token_Rotate c tid) a = (Inr new, a')"
  obtains t t' where "t \<in> set (runner_tokens (aw_tables a))" "rtID t = tid" "rtID t' = tid"
    "rtTokenHash t' = sha256Hex (ae_sha256 a) new" "rtPreviousTokenHash t' = Some (rtTokenHash t)"
    "aw_tables a' = (aw_tables a)\<lparr>runner_tokens := put_row rtID tid t' (runner_tokens (aw_tables a))\<rparr>"
proof -
  from run obtain t b b1 where g: "run_state (GetRunnerToken c tid) a = (Inr t, b)"
    and w: "run_state (rotation_running t) b = (False, b1)" and r: "run_state (rotate_row c t) b1 = (Inr new, a')"
    by (auto simp: token_Rotate_def get_token_def split: prod.splits sum.splits if_splits)
  note q = run_query_auth_Inr [OF g [unfolded GetRunnerToken_def]]
  have t: "find (\<lambda>x. rtID x = tid \<and> rls_visible (w_db (aw_core a)) c (rtTenantID x)) (runner_tokens (aw_tables a)) = Some t"
    using q(1) by (auto simp: getRunnerToken_def split: option.splits)
  then have t': "t \<in> set (runner_tokens (aw_tables a))" "rtID t = tid" by (auto dest: find_key_eq)
  have b1: "aw_tables b1 = aw_tables a" "ae_sha256 b1 = ae_sha256 a" "w_db (aw_core b1) = w_db (aw_core a)"
    using w q(2) by (auto simp: rotation_running_def split: option.splits if_splits)
  obtain p n where "aw_tables a' = (aw_tables b1)\<lparr>runner_tokens := put_row rtID (rtID t)
      (apply_token_updates (no_token_updates\<lparr>rtuPreviousTokenHash := Some (rtTokenHash t),
         rtuTokenHash := Some (sha256Hex (ae_sha256 b1) new), rtuTokenPrefix := Some p,
         rtuStatus := Some TokenStatusRotating, rtuRotationDeadline := Some n\<rparr>) t) (runner_tokens (aw_tables b1))\<rparr>"
    using t t'(2) by (auto simp: b1 intro: rotate_row_effect [OF r])
  then show thesis using t' by (intro that) (auto simp: b1)
qed

text \<open>
  A rotation that succeeds takes effect at once: with another digest for the new token, the old one
  is not accepted any more, although the deadline up to which it should be lies ahead.
\<close>

theorem rotation_cuts_off_old_token:
  assumes inv: "auth_inv (adb a)" and t: "t \<in> set (runner_tokens (aw_tables a))"
    and old: "rtTokenHash t = sha256Hex (ae_sha256 a) old"
    and run: "run_state (token_Rotate c (rtID t)) a = (Inr new, a')"
    and fresh: "sha256Hex (ae_sha256 a) new \<noteq> sha256Hex (ae_sha256 a) old"
  shows "fst (run_state (token_Validate c' old) a') \<noteq> Inr rt"
proof
  assume v: "fst (run_state (token_Validate c' old) a') = Inr rt"
  have "auth_env_kept a a'" using auth_env.respD [OF auth_env.resp_token_service(5) run] .
  then have env: "ae_sha256 a' = ae_sha256 a" by (rule auth_env_kept_simps)
  from run obtain t' where t': "rtID t' = rtID t" "rtTokenHash t' = sha256Hex (ae_sha256 a) new"
    "aw_tables a' = (aw_tables a)\<lparr>runner_tokens := put_row rtID (rtID t) t' (runner_tokens (aw_tables a))\<rparr>"
    by (rule token_Rotate_effect)
  from token_Validate_accepts(1,2) [OF v] have "rt \<in> set (runner_tokens (aw_tables a))" "rtID rt \<noteq> rtID t"
    "rtTokenHash rt = rtTokenHash t"
    using t' env old fresh by (auto simp: set_put_row)
  with inv t show False by (auto simp: auth_inv_def tokens_ok_def dest: distinct_keyD)
qed

text \<open>Unbinding writes the empty string into a column that references the runners.\<close>

theorem unbind_always_fails:
  assumes "[] \<notin> rID ` set (runners (w_db (aw_core a)))"
  shows "fst (run_state (token_UnbindRunner c tid) a) \<noteq> Inr ()"
proof
  assume "fst (run_state (token_UnbindRunner c tid) a) = Inr ()"
  then obtain t b b' where "run_state (GetRunnerToken c tid) a = (Inr t, b)"
    and u: "run_state (UpdateRunnerToken c tid (no_token_updates\<lparr>rtuRunnerID := Some []\<rparr>)) b = (Inr (), b')"
    by (auto simp: token_UnbindRunner_def get_token_def split: prod.splits sum.splits) (metis prod.collapse)
  then have "w_db (aw_core b) = w_db (aw_core a)" by (auto simp: GetRunnerToken_def dest: run_query_auth_Inr(2))
  with u assms show False
    by (auto simp: UpdateRunnerToken_def updateRunnerToken_def no_token_updates_def runner_token_fk_def Let_def
        elim!: run_exec_auth_Inr split: option.splits if_splits)
qed

end
