(* ===== verification/Provision_Laws.thy ===== *)
theory Provision_Laws
  imports Credential_Laws
begin

text \<open>
  Provisioning end to end: what a spawn leaves behind when it fails, and that the agent in a
  spawned instance can register as the runner that was prepared for it.
\<close>

section \<open>Runs without database faults\<close>

definition quiet :: "auth_world \<Rightarrow> bool" where
  "quiet a \<longleftrightarrow> (\<forall>n. e_fault (aw_core a) n = None)"

lemma quiet_simps [simp]:
  "quiet (a\<lparr>aw_tables := t\<rparr>) = quiet a" "quiet (a\<lparr>aw_spawned := x\<rparr>) = quiet a"
  "quiet (a\<lparr>aw_strays := x\<rparr>) = quiet a"
  "quiet (a\<lparr>aw_core := (aw_core a)\<lparr>w_tick := n\<rparr>\<rparr>) = quiet a"
  "quiet (a\<lparr>aw_core := (aw_core a)\<lparr>w_tick := n, w_db := d\<rparr>\<rparr>) = quiet a"
  "quiet (a\<lparr>aw_core := (aw_core a)\<lparr>w_db := d, w_tick := n\<rparr>\<rparr>) = quiet a"
  by (simp_all add: quiet_def)

lemma quiet_fault [simp]: "quiet a \<Longrightarrow> e_fault (aw_core a) n = None"
  by (simp add: quiet_def)

lemma quiet_kept: "auth_env_kept a a' \<Longrightarrow> quiet a' = quiet a"
  by (simp add: quiet_def auth_env_kept_simps)

lemma run_core_stmt_quiet:
  "quiet a \<Longrightarrow> run_state (core (exec_stmt f)) a =
     (case f (e_clock (aw_core a) (w_tick (aw_core a))) (w_db (aw_core a)) of
        Inl e \<Rightarrow> (Inl e, a\<lparr>aw_core := tick (aw_core a)\<rparr>)
      | Inr (x, d) \<Rightarrow> (Inr x, a\<lparr>aw_core := (tick (aw_core a))\<lparr>w_db := d\<rparr>\<rparr>))"
  by (simp add: run_exec_stmt_nofault split: sum.split prod.split)

lemma run_exec_auth_quiet:
  "quiet a \<Longrightarrow> run_state (exec_auth f) a =
     (case f (e_clock (aw_core a) (w_tick (aw_core a))) (adb a) of
        Inl e \<Rightarrow> (Inl e, a\<lparr>aw_core := tick (aw_core a)\<rparr>)
      | Inr (x, d, t) \<Rightarrow> (Inr x, a\<lparr>aw_core := (tick (aw_core a))\<lparr>w_db := d\<rparr>, aw_tables := t\<rparr>))"
  by (simp add: run_exec_auth_nofault)

lemma run_query_auth_quiet:
  "quiet a \<Longrightarrow> run_state (query_auth f) a = (f (adb a), a\<lparr>aw_core := tick (aw_core a)\<rparr>)"
  by (simp add: run_query_auth_nofault)

section \<open>Issuing and binding a token\<close>

text \<open>A token row as \<^verbatim>\<open>Create\<close> writes it for a plaintext.\<close>

definition issued :: "auth_world \<Rightarrow> string option \<Rightarrow> RunnerToken \<Rightarrow> string \<Rightarrow> bool" where
  "issued a tenant t token \<longleftrightarrow>
     rtTokenHash t = sha256Hex (ae_sha256 a) token \<and> rtStatus t = TokenStatusActive \<and> rtRevokedAt t = None \<and>
     rtTenantID t = tenant \<and>
     rtID t \<notin> rtID ` set (runner_tokens (aw_tables a)) \<and>
     \<not> token_hash_conflict t (runner_tokens (aw_tables a)) \<and>
     (\<exists>enc. token = PrefixRunnerToken @ enc \<and> length enc = 43)"

lemma token_Create_run:
  assumes q: "quiet a" and run: "run_state (token_Create c opts) a = (r, a')"
  obtains (failed) e n where "r = Inl e" "a' = a\<lparr>aw_core := (aw_core a)\<lparr>w_tick := n\<rparr>\<rparr>"
    | (created) t token n where "r = Inr (t, token)" "issued a (crtTenantID opts) t token"
        "rtRunnerID t = None" "rtExpiresAt t = crtExpiresAt opts" "rtPoolName t = TrimSpace (crtPoolName opts)"
        "rls_visible (w_db (aw_core a)) c (crtTenantID opts)"
        "a' = a\<lparr>aw_core := (aw_core a)\<lparr>w_tick := n\<rparr>,
           aw_tables := (aw_tables a)\<lparr>runner_tokens := t # runner_tokens (aw_tables a)\<rparr>\<rparr>"
proof -
  let ?w = "aw_core a"
  let ?enc = "RawURLEncoding (map (\<lambda>i. ae_random a (w_tick ?w) i mod 256) [0..<tokenRandomBytes])"
  let ?tok = "PrefixRunnerToken @ ?enc"
  let ?t = "\<lparr>rtID = e_id ?w (Suc (w_tick ?w)), rtTokenHash = sha256Hex (ae_sha256 a) ?tok,
      rtTokenPrefix = display_prefix PrefixRunnerToken ?enc, rtHashVersion = CurrentHashVersion,
      rtRunnerID = None, rtPoolName = TrimSpace (crtPoolName opts), rtStatus = TokenStatusActive,
      rtPreviousTokenHash = None, rtRotationDeadline = None, rtTenantID = crtTenantID opts,
      rtLabels = marshal_map (crtLabels opts), rtCreatedAt = e_clock ?w (Suc (Suc (w_tick ?w))),
      rtCreatedBy = crtCreatedBy opts, rtLastUsedAt = None, rtExpiresAt = crtExpiresAt opts, rtRevokedAt = None,
      rtRevokeReason = None\<rparr>"
  let ?now = "e_clock ?w (Suc (Suc (Suc (w_tick ?w))))"
  let ?b = "a\<lparr>aw_core := ?w\<lparr>w_tick := Suc (Suc (Suc (Suc (w_tick ?w))))\<rparr>\<rparr>"
  consider (pool) "TrimSpace (crtPoolName opts) = []"
    | (rnd) m where "TrimSpace (crtPoolName opts) \<noteq> []" "ae_random_err a (w_tick ?w) = Some m"
    | (gen) "TrimSpace (crtPoolName opts) \<noteq> []" "ae_random_err a (w_tick ?w) = None" by blast
  then show thesis
  proof cases
    case pool
    then show thesis using run failed [of ErrInvalidPoolName "w_tick ?w"] by (simp add: token_Create_def)
  next
    case rnd
    then show thesis using run failed [of "ErrRandom m" "Suc (w_tick ?w)"]
      by (simp add: token_Create_def GenerateRunnerToken_def run_GenerateToken Let_def)
  next
    case gen
    then have r: "(r, a') = (case createRunnerToken ?now c ?t (adb a) of
        Inl e \<Rightarrow> (Inl e, ?b)
      | Inr (x, d, T) \<Rightarrow> (Inr (x, ?tok), ?b\<lparr>aw_core := (aw_core ?b)\<lparr>w_db := d\<rparr>, aw_tables := T\<rparr>))"
      using run q by (simp add: token_Create_def GenerateRunnerToken_def run_GenerateToken Let_def CreateRunnerToken_def
          run_exec_auth_quiet split: sum.splits prod.splits)
    show thesis
    proof (cases "createRunnerToken ?now c ?t (adb a)")
      case (Inl e)
      then show thesis using r by (intro failed) auto
    next
      case (Inr y)
      then have "y = (?t\<lparr>rtCreatedAt := ?now\<rparr>, w_db ?w,
          (aw_tables a)\<lparr>runner_tokens := ?t\<lparr>rtCreatedAt := ?now\<rparr> # runner_tokens (aw_tables a)\<rparr>)"
        and ok: "rls_visible (w_db ?w) c (crtTenantID opts)"
          "e_id ?w (Suc (w_tick ?w)) \<notin> rtID ` set (runner_tokens (aw_tables a))"
          "\<not> token_hash_conflict (?t\<lparr>rtCreatedAt := ?now\<rparr>) (runner_tokens (aw_tables a))"
        by (auto simp: createRunnerToken_def Let_def split: if_splits)
      then show thesis using r Inr
        by (intro created [of "?t\<lparr>rtCreatedAt := ?now\<rparr>" ?tok]) (auto simp: issued_def)
    qed
  qed
qed

text \<open>Binding a token that is the newest row.\<close>

lemma find_head: "P x \<Longrightarrow> find P (x # xs) = Some x"
  by simp

lemma token_BindRunner_fresh:
  assumes q: "quiet a" and rows: "runner_tokens (aw_tables a) = t # rows"
    and t: "rtRunnerID t = None" "rls_visible (w_db (aw_core a)) c (rtTenantID t)" "runner_token_check t"
      "rtID t \<notin> rtID ` set rows" "\<not> token_hash_conflict t rows"
    and r: "rid \<in> rID ` set (runners (w_db (aw_core a)))"
  shows "run_state (token_BindRunner c (rtID t) rid) a =
     (Inr (), a\<lparr>aw_core := (aw_core a)\<lparr>w_tick := Suc (Suc (w_tick (aw_core a)))\<rparr>,
        aw_tables := (aw_tables a)\<lparr>runner_tokens := t\<lparr>rtRunnerID := Some rid\<rparr> # rows\<rparr>\<rparr>)"
proof -
  have up: "apply_token_updates (no_token_updates\<lparr>rtuRunnerID := Some rid\<rparr>) t = t\<lparr>rtRunnerID := Some rid\<rparr>"
    by (simp add: apply_token_updates_def no_token_updates_def)
  have "updateRunnerToken c (rtID t) (no_token_updates\<lparr>rtuRunnerID := Some rid\<rparr>) (adb a) =
      Inr ((), w_db (aw_core a), (aw_tables a)\<lparr>runner_tokens := t\<lparr>rtRunnerID := Some rid\<rparr> # rows\<rparr>)"
    using t r unfolding updateRunnerToken_def
    by (simp add: rows Let_def up runner_token_fk_def runner_token_check_def token_hash_conflict_def put_row_Cons
        put_row_absent) (simp add: no_token_updates_def)
  then show ?thesis using q t
    by (simp add: token_BindRunner_def get_token_def GetRunnerToken_def UpdateRunnerToken_def run_query_auth_quiet
        getRunnerToken_def rows run_exec_auth_quiet)
qed

section \<open>Undoing a preparation\<close>

lemma map_id_fk:
  assumes "\<And>x. x \<in> set xs \<Longrightarrow> f x = x" shows "map f xs = xs"
  using assms by (simp add: map_idI)

text \<open>Deleting a runner that was just added gives the tables back as they were.\<close>

lemma deleteRunner_restores:
  assumes inv: "auth_inv (d, T)" and new: "rID r \<notin> rID ` set (runners d)"
    and vis: "rls_visible d c (rTenantID r)" and keys: "api_keys T' = api_keys T"
    and toks: "filter (\<lambda>x. rtRunnerID x \<noteq> Some (rID r)) (runner_tokens T') = runner_tokens T"
  shows "deleteRunner c (rID r) (d\<lparr>runners := r # runners d, claims := (claims d)(rID r := x)\<rparr>, T') = Inr ((), d, T)"
proof -
  let ?d = "d\<lparr>runners := r # runners d, claims := (claims d)(rID r := x)\<rparr>"
  have s: "map (\<lambda>s. s\<lparr>sRunnerID := clear_runner (rID r) (sRunnerID s)\<rparr>) (sessions d) = sessions d"
    using inv new by (intro map_id_fk)
      (auto simp: auth_inv_def db_inv_def sessions_ok_def session_fk_def clear_runner_def split: option.splits)
  have ts: "map (\<lambda>s. s\<lparr>trRunnerID := clear_runner (rID r) (trRunnerID s)\<rparr>) (task_runs d) = task_runs d"
    using inv new by (intro map_id_fk)
      (auto simp: auth_inv_def db_inv_def task_runs_ok_def task_run_fk_def clear_runner_def split: option.splits)
  have rs: "filter (\<lambda>x. rID x \<noteq> rID r) (runners d) = runners d"
    using new by (intro filter_True) (auto simp: rev_image_eqI)
  have "dom (claims d) \<subseteq> rID ` set (runners d)" using inv by (simp add: auth_inv_def db_inv_def runners_ok_def)
  with new have "claims d (rID r) = None" by (metis domIff in_mono)
  then have cl: "(claims d)(rID r := None) = claims d" by (simp add: fun_upd_idem)
  have vis': "rls_visible ?d c (rTenantID r)" using vis rls_visible_cong [of ?d d] by simp
  have T: "T'\<lparr>runner_tokens := runner_tokens T\<rparr> = T" using keys by (cases T; cases T') simp
  show ?thesis using vis' by (simp add: deleteRunner_def s ts rs toks cl T)
qed

section \<open>Preparing a runner\<close>

abbreviation ticked :: "nat \<Rightarrow> auth_world \<Rightarrow> auth_world" where
  "ticked n a \<equiv> a\<lparr>aw_core := (aw_core a)\<lparr>w_tick := n\<rparr>\<rparr>"

text \<open>The database with a new runner in it.\<close>

definition with_runner :: "Runner \<Rightarrow> (string \<times> int) option \<Rightarrow> db \<Rightarrow> db" where
  "with_runner r cl d = d\<lparr>runners := r # runners d, claims := (claims d)(rID r := cl)\<rparr>"

lemma with_runner_simps [simp]:
  "runners (with_runner r cl d) = r # runners d" "multi_tenant (with_runner r cl d) = multi_tenant d"
  "rls_visible (with_runner r cl d) c t = rls_visible d c t" "claims (with_runner r cl d) = (claims d)(rID r := cl)"
  by (simp_all add: with_runner_def rls_visible_def)

definition admissible :: "db \<Rightarrow> ctx \<Rightarrow> Runner \<Rightarrow> bool" where
  "admissible d c r \<longleftrightarrow> rls_visible d c (rTenantID r) \<and> rID r \<notin> rID ` set (runners d) \<and>
     \<not> runner_name_conflict r (runners d) \<and> runner_check r \<and> runner_fk d r"

lemma CreateRunner_run:
  assumes q: "quiet a" and run: "run_state (CreateRunner c r) a = (x, a')"
  obtains (failed) e n where "x = Inl e" "a' = ticked n a"
    | (created) runner n where "x = Inr runner" "admissible (w_db (aw_core a)) c runner"
        "rTenantID runner = rTenantID r" "rPoolName runner = rPoolName r" "rProviderConfigID runner = rProviderConfigID r"
        "a' = a\<lparr>aw_core := (aw_core a)\<lparr>w_tick := n, w_db := with_runner runner None (w_db (aw_core a))\<rparr>\<rparr>"
proof -
  let ?w = "aw_core a"
  obtain rid n where "run_state (CreateRunner c r) a =
      run_state (core (exec_stmt (\<lambda>now. createRunner now c (r\<lparr>rID := rid\<rparr>)))) (ticked n a)"
  proof (cases "rID r = []")
    case True
    then show thesis using that [of "e_id ?w (w_tick ?w)" "Suc (w_tick ?w)"] by (simp add: CreateRunner_def)
  next
    case False
    then show thesis using that [of "rID r" "w_tick ?w"] by (simp add: CreateRunner_def)
  qed
  then have r: "(x, a') = run_state (core (exec_stmt (\<lambda>now. createRunner now c (r\<lparr>rID := rid\<rparr>)))) (ticked n a)"
    using run by simp
  let ?now = "e_clock ?w n"
  let ?r = "r\<lparr>rID := rid, rCreatedAt := ?now, rUpdatedAt := ?now\<rparr>"
  show thesis
  proof (cases "createRunner ?now c (r\<lparr>rID := rid\<rparr>) (w_db ?w)")
    case (Inl e)
    then show thesis using r q by (intro failed [of e "Suc n"]) (auto simp: run_core_stmt_quiet simp del: run_core)
  next
    case (Inr y)
    then have "y = (?r, with_runner ?r None (w_db ?w))" and "admissible (w_db ?w) c ?r"
      by (auto simp: createRunner_def Let_def with_runner_def admissible_def split: if_splits)
    then show thesis using r q Inr
      by (intro created [of ?r "Suc n"]) (auto simp: run_core_stmt_quiet simp del: run_core)
  qed
qed

lemma rollback_restores:
  assumes q: "quiet a" and inv: "auth_inv (d, T)" and r: "admissible d c r"
    and db: "w_db (aw_core a) = with_runner r cl d" and keys: "api_keys (aw_tables a) = api_keys T"
    and toks: "filter (\<lambda>x. rtRunnerID x \<noteq> Some (rID r)) (runner_tokens (aw_tables a)) = runner_tokens T"
  shows "adb (snd (run_state (rollback c (rID r)) a)) = (d, T) \<and>
    aw_spawned (snd (run_state (rollback c (rID r)) a)) = aw_spawned a \<and>
    aw_strays (snd (run_state (rollback c (rID r)) a)) = aw_strays a"
proof -
  have "deleteRunner c (rID r) (adb a) = Inr ((), d, T)"
    using deleteRunner_restores [OF inv _ _ keys toks] r unfolding db with_runner_def admissible_def by blast
  then show ?thesis using q by (simp add: rollback_def DeleteRunner_def run_exec_auth_quiet)
qed

lemma unbound_filter:
  assumes "auth_inv (d, T)" and "rid \<notin> rID ` set (runners d)"
  shows "filter (\<lambda>x. rtRunnerID x \<noteq> Some rid) (runner_tokens T) = runner_tokens T"
  using assms by (intro filter_True) (auto simp: auth_inv_def tokens_ok_def runner_token_fk_def split: option.splits)

text \<open>A runner prepared in \<open>a\<close>: its row and the token bound to it.\<close>

definition prepared :: "auth_world \<Rightarrow> ctx \<Rightarrow> Runner \<Rightarrow> string \<Rightarrow> RunnerToken \<Rightarrow> bool" where
  "prepared a c runner token t \<longleftrightarrow>
     admissible (w_db (aw_core a)) c runner \<and> issued a (rTenantID runner) t token \<and>
     rtRunnerID t = Some (rID runner) \<and> rtExpiresAt t = None \<and> rtPoolName t = runnerProvisionPool \<and>
     rTenantID runner = TenantFromContext c \<and> rPoolName runner = Some runnerProvisionPool"

lemma TrimSpace_pool: "TrimSpace runnerProvisionPool = runnerProvisionPool"
  by code_simp

lemma issue_token_run:
  assumes q: "quiet b" and inv: "auth_inv (d, T)" and r: "admissible d c runner" "rTenantID runner = TenantFromContext c"
      "rPoolName runner = Some runnerProvisionPool"
    and b: "w_db (aw_core b) = with_runner runner None d" "aw_tables b = T"
    and run: "run_state (issue_token c opts runner) b = (x, b')"
  obtains (failed) e where "x = Inl e" "adb b' = (d, T)" "aw_spawned b' = aw_spawned b" "aw_strays b' = aw_strays b"
    | (finished) token t n where "x = Inr (runner, token)" "issued b (rTenantID runner) t token"
        "rtRunnerID t = Some (rID runner)" "rtExpiresAt t = None" "rtPoolName t = runnerProvisionPool"
        "b' = b\<lparr>aw_core := (aw_core b)\<lparr>w_tick := n\<rparr>, aw_tables := T\<lparr>runner_tokens := t # runner_tokens T\<rparr>\<rparr>"
proof -
  let ?o = "\<lparr>crtPoolName = runnerProvisionPool, crtTenantID = rTenantID runner,
       crtLabels = (if poLabels opts = [] then None else Some (poLabels opts)),
       crtExpiresAt = None, crtCreatedBy = None\<rparr>"
  obtain y b1 where y: "run_state (token_Create c ?o) b = (y, b1)" by (cases "run_state (token_Create c ?o) b")
  from q y show thesis
  proof (cases rule: token_Create_run)
    case (failed e n)
    have "quiet b1" using q failed(2) by simp
    from rollback_restores [OF this inv r(1)] have "adb (snd (run_state (rollback c (rID runner)) b1)) = (d, T) \<and>
        aw_spawned (snd (run_state (rollback c (rID runner)) b1)) = aw_spawned b \<and>
        aw_strays (snd (run_state (rollback c (rID runner)) b1)) = aw_strays b"
      using b failed(2) unbound_filter [OF inv] r(1) by (simp add: admissible_def)
    then show thesis using run y failed that(1) by (auto simp: issue_token_def split: prod.splits)
  next
    case (created t token n)
    let ?t = "t\<lparr>rtRunnerID := Some (rID runner)\<rparr>"
    have "run_state (token_BindRunner c (rtID t) (rID runner)) b1 =
       (Inr (), b1\<lparr>aw_core := (aw_core b1)\<lparr>w_tick := Suc (Suc (w_tick (aw_core b1)))\<rparr>,
          aw_tables := (aw_tables b1)\<lparr>runner_tokens := ?t # runner_tokens T\<rparr>\<rparr>)"
      using created q b by (intro token_BindRunner_fresh) (auto simp: issued_def runner_token_check_def)
    then have x: "x = Inr (runner, token)" and b': "b' = b\<lparr>aw_core := (aw_core b)\<lparr>w_tick := Suc (Suc n)\<rparr>,
        aw_tables := T\<lparr>runner_tokens := ?t # runner_tokens T\<rparr>\<rparr>"
      using run y created b by (auto simp: issue_token_def)
    show thesis
      by (rule that(2) [OF x _ _ _ _ b'])
        (use created in \<open>auto simp: issued_def token_hash_conflict_def TrimSpace_pool\<close>)
  qed
qed

lemma prepare_run:
  assumes q: "quiet a" and inv: "auth_inv (adb a)" and run: "run_state (prepare c pcid opts) a = (r, a')"
  obtains (failed) e where "r = Inl e" "adb a' = adb a" "aw_spawned a' = aw_spawned a" "aw_strays a' = aw_strays a"
    | (finished) runner token t n where "r = Inr (runner, token)" "prepared a c runner token t"
        "a' = a\<lparr>aw_core := (aw_core a)\<lparr>w_tick := n, w_db := with_runner runner None (w_db (aw_core a))\<rparr>,
          aw_tables := (aw_tables a)\<lparr>runner_tokens := t # runner_tokens (aw_tables a)\<rparr>\<rparr>"
proof (cases "prTokens (ae_prov a)")
  case False
  then show thesis using run failed [of ErrRunnerTokenSvcRequired] by (auto simp: prepare_def)
next
  case True
  obtain name rid m where eq: "run_state (prepare c pcid opts) a =
      run_state (guard_ok (CreateRunner c (provisioned_runner rid name c pcid opts)) (issue_token c opts)) (ticked m a)"
    using True by (cases "poName opts = []") (auto simp: prepare_def)
  obtain x b where cr: "run_state (CreateRunner c (provisioned_runner rid name c pcid opts)) (ticked m a) = (x, b)"
    by (cases "run_state (CreateRunner c (provisioned_runner rid name c pcid opts)) (ticked m a)")
  have "quiet (ticked m a)" using q by simp
  from this cr show thesis
  proof (cases rule: CreateRunner_run)
    case (failed e n)
    then show thesis using run eq cr that(1) [of e] by auto
  next
    case (created runner n)
    have rest: "run_state (issue_token c opts runner) b = (r, a')" using run eq cr created(1) by simp
    have b: "b = a\<lparr>aw_core := (aw_core a)\<lparr>w_tick := n, w_db := with_runner runner None (w_db (aw_core a))\<rparr>\<rparr>"
      using created(6) by simp
    have pre: "quiet b" "admissible (w_db (aw_core a)) c runner" "rTenantID runner = TenantFromContext c"
      "rPoolName runner = Some runnerProvisionPool" "w_db (aw_core b) = with_runner runner None (w_db (aw_core a))"
      "aw_tables b = aw_tables a" using q created b by (simp_all add: provisioned_runner_def)
    from pre(1) inv pre(2-6) rest show thesis
    proof (cases rule: issue_token_run)
      case (finished token t n')
      have "prepared a c runner token t"
        using finished created b by (auto simp: prepared_def issued_def provisioned_runner_def)
      then show thesis using finished b by (intro that(2) [where n = n']) auto
    qed (use that(1) b in auto)
  qed
qed

section \<open>Spawning\<close>

lemma run_registry_Get [simp]:
  "run_state (core (registry_Get x)) a =
     (case e_provider (aw_core a) x of None \<Rightarrow> Inl (ErrProvider x) | Some p \<Rightarrow> Inr p, a)"
  by (simp add: registry_Get_def split: option.split)

text \<open>Operations that only read let time pass and nothing else.\<close>

interpretation read_only: state_preorder "\<lambda>a a'. \<exists>n. a' = ticked n a"
proof
  fix a :: auth_world
  show "\<exists>n. a = ticked n a" by (rule exI [of _ "w_tick (aw_core a)"]) simp
qed auto

lemma read_only_resp:
  "read_only.resp (core (query f))" "read_only.resp (core (asks g))" "read_only.resp (env_asks h)"
  "read_only.resp (core (registry_Get x))"
proof -
  show "read_only.resp (core (query f))" for f :: "db \<Rightarrow> gerr + 'z"
    by (rule read_only.respI) (auto split: prod.splits dest!: arg_cong [where f = snd])
  show "read_only.resp (core (registry_Get x))"
    by (rule read_only.respI) (use read_only.R_refl in \<open>simp del: run_core\<close>)
qed (rule read_only.respI; use read_only.R_refl in simp)+

lemma read_only_resolveProvider: "read_only.resp (resolveProvider c opts)"
  unfolding resolveProvider_def registry_GetDefault_def GetProviderConfig_def GetProviderConfigByName_def
  by (intro read_only.resp_intros read_only_resp)

lemma read_only_adb: "read_only.resp m \<Longrightarrow> run_state m a = (x, a') \<Longrightarrow>
    adb a' = adb a \<and> aw_spawned a' = aw_spawned a \<and> aw_strays a' = aw_strays a \<and> ae_sha256 a' = ae_sha256 a \<and>
    quiet a' = quiet a"
  by (auto dest!: read_only.respD)

lemma name_conflict_cong:
  "\<lbrakk>rID r' = rID r; rName r' = rName r; rTenantID r' = rTenantID r\<rbrakk>
    \<Longrightarrow> runner_name_conflict r' rows = runner_name_conflict r rows"
  by (simp add: runner_name_conflict_def)

lemma with_runner_fk [simp]: "runner_fk (with_runner x cl d) r = runner_fk d r"
  by (simp add: with_runner_def)

lemma claimFor_run:
  assumes q: "quiet b" and db: "w_db (aw_core b) = with_runner r None d" and new: "rID r \<notin> rID ` set (runners d)"
  obtains n u cl where "snd (run_state (claimFor c (rID r) sid) b) =
    b\<lparr>aw_core := (aw_core b)\<lparr>w_tick := n, w_db := with_runner (r\<lparr>rUpdatedAt := u\<rparr>) cl d\<rparr>\<rparr>"
proof (cases "sid \<noteq> [] \<and> rls_visible d c (rTenantID r)")
  case True
  let ?now = "e_clock (aw_core b) (w_tick (aw_core b))"
  have "claimRunner ?now c (rID r) sid DefaultRunnerClaimLease (with_runner r None d) =
      Inr (True, with_runner (r\<lparr>rUpdatedAt := ?now\<rparr>) (Some (sid, ?now)) d)"
    using True new unfolding claimRunner_def
    by (simp add: claim_free_def put_row_Cons put_row_absent) (simp add: with_runner_def)
  then show thesis using q True db
    by (intro that [where n = "Suc (w_tick (aw_core b))" and u = ?now and cl = "Some (sid, ?now)"])
      (simp add: claimFor_def ClaimRunner_def run_exec_stmt_nofault)
next
  case False
  have "claimRunner now c (rID r) sid lease (w_db (aw_core b)) = Inr (False, w_db (aw_core b))"
    if "\<not> rls_visible d c (rTenantID r)" for now lease
    using that new by (auto simp: db claimRunner_def rev_image_eqI split: option.split dest!: find_key_eq)
  then have n: "snd (run_state (claimFor c (rID r) sid) b) =
      ticked (if sid = [] then w_tick (aw_core b) else Suc (w_tick (aw_core b))) b" (is "_ = ticked ?n b")
    using False q by (auto simp: claimFor_def ClaimRunner_def run_exec_stmt_nofault)
  show thesis by (rule that [where n = ?n and u = "rUpdatedAt r" and cl = None]) (simp add: n db [symmetric])
qed

lemma recordInstance_run:
  assumes q: "quiet b" and db: "w_db (aw_core b) = with_runner r cl d" and r: "admissible d c r"
  obtains n r' where "snd (run_state (recordInstance c (rID r) inst) b) =
      b\<lparr>aw_core := (aw_core b)\<lparr>w_tick := n, w_db := with_runner r' cl d\<rparr>\<rparr>"
    "admissible d c r'" "rID r' = rID r" "rTenantID r' = rTenantID r" "rPoolName r' = rPoolName r"
proof (cases "inst = []")
  case True
  show thesis by (rule that [where n = "w_tick (aw_core b)" and r' = r]) (use True r in \<open>simp_all add: recordInstance_def db [symmetric]\<close>)
next
  case False
  let ?now = "e_clock (aw_core b) (w_tick (aw_core b))"
  let ?u = "no_runner_updates\<lparr>ruProviderInstanceID := Some inst\<rparr>"
  let ?r = "apply_runner_updates ?now ?u r"
  have u: "?u \<noteq> no_runner_updates" by (simp add: no_runner_updates_def)
  have ok: "admissible d c ?r"
    using r name_conflict_cong [of ?r r "runners d"]
    by (simp add: admissible_def runner_check_def runner_fk_def apply_runner_updates_def)
  have "updateRunner ?now c (rID r) ?u (with_runner r cl d) = Inr ((), with_runner ?r cl d)"
    using u r ok unfolding updateRunner_def
    by (simp add: Let_def admissible_def put_row_Cons put_row_absent runner_name_conflict_def) (simp add: with_runner_def)
  then show thesis using q False db ok
    by (intro that [where n = "Suc (w_tick (aw_core b))" and r' = ?r]) (simp_all add: recordInstance_def UpdateRunner_def run_exec_stmt_nofault apply_runner_updates_def)
qed

lemma admissible_touch [simp]: "admissible d c (r\<lparr>rUpdatedAt := u\<rparr>) = admissible d c r"
  using name_conflict_cong [of "r\<lparr>rUpdatedAt := u\<rparr>" r "runners d"]
  by (simp add: admissible_def runner_check_def runner_fk_def)

lemma run_prov_Spawn:
  "run_state (prov_Spawn p so) a =
     (let t = w_tick (aw_core a); a' = ticked (Suc t) a in
      case e_provider_err (aw_core a) t of
        Some m \<Rightarrow> (Inl (ErrProvider m), a'\<lparr>aw_strays := aw_strays a @ (if ae_stray a t then [(pvName p, so)] else [])\<rparr>)
      | None \<Rightarrow> (Inr (ae_instance a t), a'\<lparr>aw_spawned := aw_spawned a @ [(pvName p, so)]\<rparr>))"
  by (cases a) (simp add: prov_Spawn_def provider_start_def Let_def split: option.split)

text \<open>An instance whose agent has no runner to be and no token to show: its id names no row, its token no hash.\<close>

definition disowned :: "auth_world \<Rightarrow> SpawnOptions \<Rightarrow> bool" where
  "disowned a so \<longleftrightarrow> spRunnerID so \<notin> rID ` set (runners (w_db (aw_core a))) \<and>
     (\<forall>t \<in> set (runner_tokens (aw_tables a)). rtTokenHash t \<noteq> sha256Hex (ae_sha256 a) (spRunnerToken so))"

text \<open>What a spawn without a database fault comes to.\<close>

lemma provisioner_Spawn_run:
  assumes q: "quiet a" and inv: "auth_inv (adb a)" and run: "run_state (provisioner_Spawn c opts) a = (x, a')"
  obtains (failed) e where "x = Inl e" "adb a' = adb a" "aw_spawned a' = aw_spawned a"
        "aw_strays a' = aw_strays a \<or> (\<exists>m pn so. e = ErrProvider m \<and> aw_strays a' = aw_strays a @ [(pn, so)] \<and> disowned a so)"
    | (spawned) runner r t pn so cl where "x = Inr runner" "prepared a c r (spRunnerToken so) t" "rID r = rID runner"
        "rTenantID r = rTenantID runner"
        "aw_spawned a' = aw_spawned a @ [(pn, so)]" "spRunnerID so = rID runner"
        "w_db (aw_core a') = with_runner r cl (w_db (aw_core a))"
        "aw_tables a' = (aw_tables a)\<lparr>runner_tokens := t # runner_tokens (aw_tables a)\<rparr>"
proof -
  obtain y a1 where res: "run_state (resolveProvider c opts) a = (y, a1)" by (cases "run_state (resolveProvider c opts) a")
  note a1 = read_only_adb [OF read_only_resolveProvider res]
  show thesis
  proof (cases "\<exists>p pcid. y = Inr (p, pcid) \<and> pvType p = ProviderTypeManaged")
    case False
    then show thesis using run res a1 that(1) by (auto simp: provisioner_Spawn_def split: sum.splits if_splits)
  next
    case True
    then obtain p pcid where y: "y = Inr (p, pcid)" "pvType p = ProviderTypeManaged" by blast
    obtain z a2 where pr: "run_state (prepare c pcid opts) a1 = (z, a2)" by (cases "run_state (prepare c pcid opts) a1")
    have "quiet a1" "auth_inv (adb a1)" using a1 q inv by auto
    from this pr show thesis
    proof (cases rule: prepare_run)
      case (failed e)
      then show thesis using run res y pr a1 that(1) by (auto simp: provisioner_Spawn_def)
    next
      case (finished runner token t n)
      let ?d = "w_db (aw_core a)" and ?T = "aw_tables a"
      have adm: "admissible ?d c runner" "issued a (rTenantID runner) t token" "rtRunnerID t = Some (rID runner)"
        using finished(2) a1 by (auto simp: prepared_def issued_def)
      have a2: "quiet a2" "w_db (aw_core a2) = with_runner runner None ?d"
        "aw_tables a2 = ?T\<lparr>runner_tokens := t # runner_tokens ?T\<rparr>" "aw_spawned a2 = aw_spawned a"
        "aw_strays a2 = aw_strays a"
        using finished(3) a1 q by auto
      have "rID runner \<notin> rID ` set (runners ?d)" using adm(1) by (simp add: admissible_def)
      from claimFor_run [OF a2(1,2) this] obtain m u cl where
        a3: "snd (run_state (claimFor c (rID runner) (poClaimForSessionID opts)) a2) =
          a2\<lparr>aw_core := (aw_core a2)\<lparr>w_tick := m, w_db := with_runner (runner\<lparr>rUpdatedAt := u\<rparr>) cl ?d\<rparr>\<rparr>" (is "_ = ?a3")
        by metis
      let ?r = "runner\<lparr>rUpdatedAt := u\<rparr>"
      obtain so where so: "run_state (spawnOptions runner token opts) ?a3 = (so, ?a3)"
        "spRunnerToken so = token" "spRunnerID so = rID runner" by (simp add: spawnOptions_def)
      have eq: "(x, a') = run_state (do { r \<leftarrow> prov_Spawn p so;
         (case r of
            Inl e \<Rightarrow> do { _ \<leftarrow> rollback c (rID runner); err e }
          | Inr inst \<Rightarrow> do {
              _ \<leftarrow> recordInstance c (rID runner) (riProviderID inst);
              ok (runner\<lparr>rProviderInstanceID := Some (riProviderID inst)\<rparr>)
            }) }) ?a3"
        using run res y pr finished(1) a3 so(1)
        by (simp add: provisioner_Spawn_def split: prod.splits)
      show thesis
      proof (cases "e_provider_err (aw_core ?a3) m")
        case (Some msg)
        let ?left = "if ae_stray ?a3 m then [(pvName p, so)] else []"
        let ?a4 = "(ticked (Suc m) ?a3)\<lparr>aw_strays := aw_strays a @ ?left\<rparr>"
        have "filter (\<lambda>x. rtRunnerID x \<noteq> Some (rID ?r)) (runner_tokens (aw_tables ?a4)) = runner_tokens ?T"
          using adm unbound_filter [OF inv] a2(3) by (simp add: admissible_def)
        from rollback_restores [where r = ?r and a = ?a4 and cl = cl and c = c, OF _ inv _ _ _ this] have
          undone: "adb (snd (run_state (rollback c (rID runner)) ?a4)) = adb a \<and>
           aw_spawned (snd (run_state (rollback c (rID runner)) ?a4)) = aw_spawned a \<and>
           aw_strays (snd (run_state (rollback c (rID runner)) ?a4)) = aw_strays a @ ?left"
          using a2 adm by simp
        have x: "x = Inl (ErrProvider msg)" and a': "a' = snd (run_state (rollback c (rID runner)) ?a4)"
          using eq Some a2(5) by (auto simp: run_prov_Spawn Let_def split: prod.splits)
        have dis: "disowned a so"
          using adm(1,2) so(2,3) unfolding disowned_def issued_def token_hash_conflict_def admissible_def list_ex_iff
          by (metis image_eqI)
        show thesis by (rule that(1) [OF x]) (use undone a' dis in \<open>auto split: if_splits\<close>)
      next
        case None
        let ?a4 = "(ticked (Suc m) ?a3)\<lparr>aw_spawned := aw_spawned a @ [(pvName p, so)]\<rparr>"
        have "quiet ?a4" "w_db (aw_core ?a4) = with_runner ?r cl ?d" "admissible ?d c ?r" using a2 adm by simp_all
        then obtain k r' where rec: "snd (run_state (recordInstance c (rID ?r) (riProviderID (ae_instance ?a3 m))) ?a4) =
            ?a4\<lparr>aw_core := (aw_core ?a4)\<lparr>w_tick := k, w_db := with_runner r' cl ?d\<rparr>\<rparr>"
          and r': "admissible ?d c r'" "rID r' = rID runner" "rTenantID r' = rTenantID runner"
            "rPoolName r' = rPoolName runner"
          by (rule recordInstance_run) auto
        have x: "x = Inr (runner\<lparr>rProviderInstanceID := Some (riProviderID (ae_instance ?a3 m))\<rparr>)"
          and a': "a' = ?a4\<lparr>aw_core := (aw_core ?a4)\<lparr>w_tick := k, w_db := with_runner r' cl ?d\<rparr>\<rparr>"
          using eq None rec a2(4) by (auto simp: run_prov_Spawn Let_def split: prod.splits)
        show thesis
          by (rule that(2) [where r = r' and t = t and so = so and pn = "pvName p" and cl = cl, OF x])
            (use x a' r' a2 so adm finished(2) in \<open>auto simp: prepared_def\<close>)
      qed
    qed
  qed
qed

text \<open>
  C27. A spawn that fails leaves no trace in the database: without database faults, whatever made it
  fail (an unknown or unmanaged provider, a name or an id that is taken, the random source, the
  provider), every table is exactly what it was and no instance counts as started. Unless the
  provider's own call failed, no instance runs either. A provider whose call fails may leave its
  instance running: then there is at most one, and it is disowned, since no row has its runner id
  and no token row its token's hash.
\<close>

theorem failed_spawn_leaves_no_trace:
  assumes "quiet a" and "auth_inv (adb a)" and "run_state (provisioner_Spawn c opts) a = (Inl e, a')"
  shows "adb a' = adb a \<and> aw_spawned a' = aw_spawned a \<and>
     (aw_strays a' = aw_strays a \<or> (\<exists>m pn so. e = ErrProvider m \<and> aw_strays a' = aw_strays a @ [(pn, so)] \<and>
        spRunnerID so \<notin> rID ` set (runners (w_db (aw_core a'))) \<and>
        (\<forall>t \<in> set (runner_tokens (aw_tables a')). rtTokenHash t \<noteq> sha256Hex (ae_sha256 a) (spRunnerToken so))))"
  using assms by (cases rule: provisioner_Spawn_run) (auto simp: disowned_def)

section \<open>Registration of a spawned agent\<close>

definition sandbox_modes :: "string set" where
  "sandbox_modes = {[], ''runner-is-sandbox'', ''runner-creates-sandbox'', ''none''}"

definition bound_ctx :: "ctx \<Rightarrow> string option \<Rightarrow> ctx" where
  "bound_ctx c tenant = (if nonempty tenant then WithTenant c (stringValue tenant) else c)"

lemma rls_bound_ctx: "rls_visible d c tenant \<Longrightarrow> rls_visible d (bound_ctx c tenant) tenant"
  by (auto simp: rls_visible_def bound_ctx_def WithTenant_def nonempty_def stringValue_def IsSystemAccess_def
      TenantFromContext_def split: option.splits if_splits)

text \<open>A token row that is unique in its hash is found by its plaintext.\<close>

lemma token_Validate_issued:
  assumes q: "quiet a" and rows: "runner_tokens (aw_tables a) = t # ts"
    and hash: "rtTokenHash t = sha256Hex (ae_sha256 a) token" "rtStatus t = TokenStatusActive" "rtRevokedAt t = None"
      "rtExpiresAt t = None"
    and form: "token = PrefixRunnerToken @ enc" "length enc = 43"
    and vis: "rls_visible (w_db (aw_core a)) c (rtTenantID t)"
  shows "\<exists>n. run_state (token_Validate c token) a = (Inr t, ticked n a)"
proof -
  have "ValidateTokenFormat token PrefixRunnerToken" "ExtractPrefix token = PrefixRunnerToken"
    using form by (simp_all add: ValidateTokenFormat_def)
  then have "run_state (token_Validate c token) a = (Inr t, ticked (Suc (w_tick (aw_core a))) a)" using q hash vis
    by (simp add: token_Validate_def HashToken_def GetRunnerTokenByHash_def run_query_auth_quiet getRunnerTokenByHash_def
        rows token_alive_def)
  then show ?thesis by blast
qed

lemma handleBoundToken_run:
  assumes q: "quiet a" and db: "w_db (aw_core a) = with_runner r cl d" and r: "admissible d c' r"
    and vis: "rls_visible d c (rTenantID r)" and t: "rtRunnerID t = Some (rID r)" and m: "rqSandboxMode req \<in> sandbox_modes"
  shows "\<exists>a'. run_state (handleBoundToken c req t) a =
    (Inr \<lparr>rrRunnerID = rID r, rrIsNew = False, rrPoolName = rtPoolName t\<rparr>, a') \<and>
    map rID (runners (w_db (aw_core a'))) = rID r # map rID (runners d)"
proof -
  let ?u = "no_runner_updates\<lparr>
              ruHostname := Some (rqHostname req),
              ruSandboxMode := (if rqSandboxMode req = [] then None else Some (rqSandboxMode req)),
              ruSandboxTypes := (if rqSandboxTypes req = [] then None else Some (rqSandboxTypes req)),
              ruCapabilities := (if rqCapabilities req = [] then None else Some (rqCapabilities req))\<rparr>"
  have u: "?u \<noteq> no_runner_updates" by (simp add: no_runner_updates_def)
  have "\<exists>d'. updateRunner now c (rID r) ?u (with_runner r cl d) = Inr ((), d') \<and>
      map rID (runners d') = rID r # map rID (runners d)" for now
  proof -
    let ?r = "apply_runner_updates now ?u r"
    have "runner_check ?r"
      using r m by (auto simp: admissible_def runner_check_def apply_runner_updates_def sandbox_modes_def)
    moreover have "\<not> runner_name_conflict ?r (runners (with_runner r cl d))"
      using r name_conflict_cong [of ?r r "runners d"]
      by (simp add: admissible_def runner_name_conflict_def apply_runner_updates_def)
    moreover have "runner_fk d ?r" using r by (simp add: admissible_def runner_fk_def apply_runner_updates_def)
    ultimately have "updateRunner now c (rID r) ?u (with_runner r cl d) =
        Inr ((), (with_runner r cl d)\<lparr>runners := put_row rID (rID r) ?r (r # runners d)\<rparr>)"
      using u vis by (simp add: updateRunner_def Let_def)
    moreover have "map rID (put_row rID (rID r) ?r rows) = map rID rows" for rows
      by (simp add: put_row_def apply_runner_updates_def)
    ultimately show ?thesis by simp
  qed
  from this [of "e_clock (aw_core a) (Suc (w_tick (aw_core a)))"] obtain d' where
    up: "updateRunner (e_clock (aw_core a) (Suc (w_tick (aw_core a)))) c (rID r) ?u (with_runner r cl d) = Inr ((), d')"
    and ids: "map rID (runners d') = rID r # map rID (runners d)" by (elim exE conjE)
  let ?x = "\<lparr>rrRunnerID = rID r, rrIsNew = False, rrPoolName = rtPoolName t\<rparr>"
  have get: "getRunner c (rID r) (with_runner r cl d) = Inr r" using vis by (simp add: getRunner_def)
  have "run_state (handleBoundToken c req t) a =
      (Inr ?x, a\<lparr>aw_core := (aw_core a)\<lparr>w_tick := Suc (Suc (w_tick (aw_core a))), w_db := d'\<rparr>\<rparr>)"
    using q t db unfolding handleBoundToken_def GetRunner_def UpdateRunner_def
    by (simp add: run_query_nofault stringValue_def run_exec_stmt_nofault up get)
  with ids show ?thesis by simp
qed

text \<open>
  C28. The agent of a spawned instance registers as the runner prepared for it: after a successful
  spawn the provider was handed exactly one set of options, and a registration with the token in
  them answers with the id of that runner; the table of runners then has exactly the rows it had
  before the spawn and the one prepared for it, no second one. It is assumed that no statement
  fails, that the registration runs in a context that sees the tenant of the runner (no
  authenticated stream has one on a database that isolates tenants), that the id generator returns
  no empty id, and that the agent reports a sandbox mode the schema knows, or none.
\<close>

theorem spawned_runner_registers:
  assumes "quiet a" and "auth_inv (adb a)" and "run_state (provisioner_Spawn c opts) a = (Inr runner, a')"
    and "rls_visible (w_db (aw_core a)) c2 (rTenantID runner)" and "rqSandboxMode req \<in> sandbox_modes"
    and "rID runner \<noteq> []"
  shows "\<exists>pn so. aw_spawned a' = aw_spawned a @ [(pn, so)] \<and> spRunnerID so = rID runner \<and>
     (\<exists>a2. run_state (registry_Register c2 (req\<lparr>rqToken := spRunnerToken so\<rparr>)) a' =
       (Inr \<lparr>rrRunnerID = rID runner, rrIsNew = False, rrPoolName = ''managed''\<rparr>, a2) \<and>
       map rID (runners (w_db (aw_core a2))) = rID runner # map rID (runners (w_db (aw_core a))))"
  using assms(1-3)
proof (cases rule: provisioner_Spawn_run)
  case (spawned runner' r t pn so cl)
  then have run: "runner' = runner" by simp
  let ?d = "w_db (aw_core a)" and ?req = "req\<lparr>rqToken := spRunnerToken so\<rparr>"
  have env: "auth_env_kept a a'" using auth_env.respD [OF auth_env.resp_provisioner_api(1) assms(3)] .
  have q: "quiet a'" using quiet_kept [OF env] assms(1) by simp
  have r: "admissible ?d c r" and t: "rtRunnerID t = Some (rID r)" "rtPoolName t = ''managed''" "rtTenantID t = rTenantID r"
    and i: "issued a (rTenantID r) t (spRunnerToken so)" "rtExpiresAt t = None"
    using spawned(2) by (auto simp: prepared_def issued_def runnerProvisionPool_def)
  have vis: "rls_visible (w_db (aw_core a')) c2 (rtTenantID t)"
    using assms(4) spawned(4,7) run t(3) by simp
  obtain enc where enc: "spRunnerToken so = PrefixRunnerToken @ enc" "length enc = 43" using i by (auto simp: issued_def)
  obtain n where v: "run_state (token_Validate c2 (spRunnerToken so)) a' = (Inr t, ticked n a')"
    using token_Validate_issued [OF q _ _ _ _ i(2) enc vis] i spawned(8) env
    by (auto simp: issued_def auth_env_kept_simps)
  have "rls_visible ?d (bound_ctx c2 (rTenantID r)) (rTenantID r)"
    using assms(4) spawned(4) run by (intro rls_bound_ctx) simp
  then have "\<exists>a2. run_state (handleBoundToken (bound_ctx c2 (rTenantID r)) ?req t) (ticked n a') =
      (Inr \<lparr>rrRunnerID = rID r, rrIsNew = False, rrPoolName = rtPoolName t\<rparr>, a2) \<and>
      map rID (runners (w_db (aw_core a2))) = rID r # map rID (runners ?d)"
    using q spawned(7) r t assms(5) by (intro handleBoundToken_run) auto
  then obtain a2 where a2: "run_state (handleBoundToken (bound_ctx c2 (rTenantID r)) ?req t) (ticked n a') =
      (Inr \<lparr>rrRunnerID = rID r, rrIsNew = False, rrPoolName = ''managed''\<rparr>, a2)"
      "map rID (runners (w_db (aw_core a2))) = rID r # map rID (runners ?d)" using t(2) by auto
  moreover have "nonempty (rtRunnerID t)" using t assms(6) spawned(3) run by (simp add: nonempty_def)
  ultimately have "run_state (registry_Register c2 ?req) a' = (Inr \<lparr>rrRunnerID = rID r, rrIsNew = False, rrPoolName = ''managed''\<rparr>, a2)"
    using v enc t by (cases "nonempty (rTenantID r)") (simp_all add: registry_Register_def bound_ctx_def prefix_defs)
  then show ?thesis using spawned(3,5,6) run a2(2) by auto
qed simp

section \<open>What a provisioned row does later\<close>

text \<open>
  The reaper leaves every row with a pool name alone, and provisioning gives its rows one: whatever
  their age, no provisioned runner is ever reaped.
\<close>

theorem provisioned_runner_never_reaped:
  assumes "rPoolName r = rPoolName (provisioned_runner rid name c pcid opts)"
  shows "run_state (shouldReap rp c' r now) w = (False, w)"
  using assms by (simp add: shouldReap_def provisioned_runner_def nonempty_def runnerProvisionPool_def)

text \<open>
  A resume names its runner after the session. While a row of an earlier resume with that name
  exists, the insert fails by the unique index, with or without faults, so nothing is started.
\<close>

definition name_taken :: "ctx \<Rightarrow> string \<Rightarrow> db \<Rightarrow> bool" where
  "name_taken c name d \<longleftrightarrow>
     (\<exists>x \<in> set (runners d). rName x = name \<and> stringValue (rTenantID x) = stringValue (TenantFromContext c))"

lemma run_exec_stmt_refused:
  assumes "\<And>now. \<exists>e. f now (w_db w) = Inl e"
  shows "\<exists>e. run_state (exec_stmt f) w = (Inl e, tick w)"
proof -
  obtain r w' where run: "run_state (exec_stmt f) w = (r, w')" by (cases "run_state (exec_stmt f) w")
  then have "\<exists>e. r = Inl e \<and> w' = tick w"
    using assms [of "e_clock w (w_tick w)"] by (cases rule: run_exec_stmt_cases) auto
  with run show ?thesis by auto
qed

lemma CreateRunner_taken:
  assumes "name_taken c (rName r) (w_db (aw_core a))" and "rTenantID r = TenantFromContext c"
  shows "\<exists>e n. run_state (CreateRunner c r) a = (Inl e, ticked n a)"
proof -
  have refused: "\<exists>e. createRunner now c (r\<lparr>rID := rid\<rparr>) (w_db (aw_core a)) = Inl e" for now rid
    using assms by (auto simp: createRunner_def Let_def runner_name_conflict_def list_ex_iff name_taken_def rev_image_eqI)
  have stmt: "\<exists>e. run_state (exec_stmt (\<lambda>now. createRunner now c (r\<lparr>rID := rid\<rparr>))) w = (Inl e, tick w)"
    if "w_db w = w_db (aw_core a)" for w rid
    by (rule run_exec_stmt_refused) (simp add: that refused)
  show ?thesis
  proof (cases "rID r = []")
    case True
    obtain e where "run_state (exec_stmt (\<lambda>now. createRunner now c (r\<lparr>rID := e_id (aw_core a) (w_tick (aw_core a))\<rparr>)))
        (tick (aw_core a)) = (Inl e, tick (tick (aw_core a)))" using stmt [of "tick (aw_core a)"] by auto
    then show ?thesis using True by (auto simp: CreateRunner_def)
  next
    case False
    then show ?thesis using stmt [of "aw_core a" "rID r"] by (auto simp: CreateRunner_def)
  qed
qed

lemma PrepareSpawn_taken:
  assumes "name_taken c (poName opts) (w_db (aw_core a))" and "poName opts \<noteq> []"
  shows "\<exists>e n. run_state (PrepareSpawn c opts) a = (Inl e, ticked n a)"
proof -
  have prep: "\<exists>e n. run_state (prepare c pcid opts) (ticked m a) = (Inl e, ticked n a)" for pcid m
  proof (cases "prTokens (ae_prov a)")
    case True
    let ?r = "provisioned_runner (e_id (aw_core a) m) (poName opts) c pcid opts"
    obtain e n where "run_state (CreateRunner c ?r) (ticked (Suc m) a) = (Inl e, ticked n a)"
      using CreateRunner_taken [of c ?r "ticked (Suc m) a"] assms(1) by (auto simp: provisioned_runner_def)
    then show ?thesis using True assms(2) by (auto simp: prepare_def)
  qed (auto simp: prepare_def)
  obtain r b where run: "run_state (resolveProvider c opts) a = (r, b)" by (cases "run_state (resolveProvider c opts) a")
  with read_only.respD [OF read_only_resolveProvider] obtain m where b: "b = ticked m a" by blast
  show ?thesis
  proof (cases r)
    case (Inr x)
    obtain e n where "run_state (prepare c (snd x) opts) b = (Inl e, ticked n a)" using prep b by blast
    then show ?thesis using run Inr b by (auto simp: PrepareSpawn_def split: prod.split)
  qed (use run b in \<open>auto simp: PrepareSpawn_def\<close>)
qed

theorem second_resume_starts_nothing:
  assumes "name_taken c (''runner-'' @ sID session) (w_db (aw_core a))"
  shows "aw_resumed (snd (run_state (resumeManaged c session prov profile) a)) = aw_resumed a"
proof -
  have "\<exists>e n. run_state (PrepareSpawn c (resume_provision session prov profile path)) a = (Inl e, ticked n a)" for path
    using assms by (intro PrepareSpawn_taken) (auto simp: resume_provision_def Let_def)
  then obtain e n where "\<And>path. run_state (PrepareSpawn c (resume_provision session prov profile path)) a =
      (Inl (e path), ticked (n path) a)" by metis
  then show ?thesis by (simp add: resumeManaged_def GetHostPath_def)
qed

end
