(* ===== verification/Auth_Witnesses.thy ===== *)
theory Auth_Witnesses
  imports Sample Provision_Laws
begin

text \<open>
  A deployment with a managed provider and a few credentials, and the laws of credentials and
  provisioning applied to it. The digest is a function that tells these texts apart; the random
  source counts.
\<close>

definition sample_digest :: "string \<Rightarrow> nat list" where
  "sample_digest s = [of_char (last s)]"

definition sample_secret :: "string \<Rightarrow> char \<Rightarrow> string" where
  "sample_secret pre x = pre @ replicate 43 x"

definition sample_key :: "string \<Rightarrow> char \<Rightarrow> int option \<Rightarrow> APIKey" where
  "sample_key i x revoked = \<lparr>akID = i, akName = i,
     akKeyHash = sha256Hex sample_digest (sample_secret PrefixAPIKey x), akKeyPrefix = PrefixAPIKey,
     akHashVersion = HashV1SHA256, akScopes = [''sessions:read''], akTenantID = None, akLabels = JObj [],
     akAnnotations = JObj [], akCreatedAt = 1, akCreatedBy = None, akLastUsedAt = None, akExpiresAt = None,
     akRevokedAt = revoked, akRevokeReason = None\<rparr>"

definition sample_token :: "string \<Rightarrow> char \<Rightarrow> int option \<Rightarrow> RunnerToken" where
  "sample_token i x revoked = \<lparr>rtID = i,
     rtTokenHash = sha256Hex sample_digest (sample_secret PrefixRunnerToken x),
     rtTokenPrefix = PrefixRunnerToken, rtHashVersion = HashV1SHA256, rtRunnerID = Some ''run-2'',
     rtPoolName = ''p'', rtStatus = TokenStatusActive, rtPreviousTokenHash = None, rtRotationDeadline = None,
     rtTenantID = None, rtLabels = JObj [], rtCreatedAt = 1, rtCreatedBy = None, rtLastUsedAt = None,
     rtExpiresAt = None, rtRevokedAt = revoked, rtRevokeReason = None\<rparr>"

definition sample_tables :: auth_tables where
  "sample_tables = \<lparr>api_keys = [sample_key ''k-1'' CHR ''a'' (Some 7), sample_key ''k-2'' CHR ''b'' None],
     runner_tokens = [sample_token ''tk-1'' CHR ''a'' (Some 7), sample_token ''tk-2'' CHR ''b'' None]\<rparr>"

definition older_tables :: auth_tables where
  "older_tables = sample_tables\<lparr>runner_tokens := sample_token ''tk-3'' CHR ''c'' None # runner_tokens sample_tables\<rparr>"

definition managed_provider :: Provider where
  "managed_provider = \<lparr>pvName = ''docker'', pvType = ProviderTypeManaged, pvPoolAcquirer = False,
     pvSuspendable = True, pvPausable = False\<rparr>"

definition spawn_world :: "(nat \<Rightarrow> string option) \<Rightarrow> auth_world" where
  "spawn_world provider_err =
    \<lparr>aw_core = sample_world\<lparr>e_cfg := sample_config\<lparr>cfgProviderRegistry := True\<rparr>,
       e_provider := (\<lambda>n. if n = ''docker'' then Some managed_provider else None),
       e_provider_err := provider_err\<rparr>,
     aw_tables = sample_tables, aw_spawned = [], aw_resumed = [], aw_strays = [],
     ae_random = (\<lambda>t i. t + i), ae_random_err = (\<lambda>_. None), ae_sha256 = sample_digest,
     ae_rotation_window = 3600,
     ae_prov = \<lparr>prTokens = True, prProvisioner = True, prEnabled = True, prMaxRunners = 2,
       prServerURL = ''server:443'', prDefault = ''docker''\<rparr>,
     ae_error_text = (\<lambda>_. ''failed''), ae_instance = (\<lambda>_. \<lparr>riID = ''i-1'', riProviderID = ''c-1''\<rparr>),
     ae_stray = (\<lambda>_. True)\<rparr>"

definition spawn_opts :: ProvisionOptions where
  "spawn_opts = empty_provision\<lparr>poName := ''worker'', poClaimForSessionID := ''s-3''\<rparr>"

lemma spawn_quiet: "quiet (spawn_world f)"
  by (simp add: quiet_def spawn_world_def sample_world_def)

lemma spawn_adb: "adb (spawn_world f) = (sample_db, sample_tables)"
  by (simp add: spawn_world_def sample_world_def)

lemma older_auth_inv: "auth_inv (sample_db, older_tables)"
proof -
  have "keys_ok older_tables" unfolding keys_ok_def by code_simp
  moreover have "tokens_ok sample_db older_tables" unfolding tokens_ok_def by code_simp
  ultimately show ?thesis using sample_db_inv by (simp add: auth_inv_def)
qed

lemma older_run: "auth_run [ADeleteToken ''tk-3''] (sample_db, older_tables) (sample_db, sample_tables)"
proof -
  have "deleteRunnerToken app_ctx ''tk-3'' (sample_db, older_tables) = Inr ((), sample_db, sample_tables)"
    by (simp add: deleteRunnerToken_def older_tables_def sample_tables_def sample_token_def)
  from auth_run.run_more [OF auth_run.run_none auth_step.a_deleteToken [OF this]] show ?thesis by simp
qed

lemma sample_auth_inv: "auth_inv (sample_db, sample_tables)"
  by (rule auth_run_inv [OF older_run older_auth_inv])

lemma sample_spawned_id:
  "(case fst (run_state (provisioner_Spawn app_ctx spawn_opts) (spawn_world (\<lambda>_. None))) of
      Inl _ \<Rightarrow> False | Inr r \<Rightarrow> rID r \<noteq> [] \<and> rTenantID r = None)"
  by code_simp

lemma sample_spawn_fails:
  "fst (run_state (provisioner_Spawn app_ctx spawn_opts) (spawn_world (\<lambda>_. Some ''no quota''))) = Inl (ErrProvider ''no quota'')"
  by code_simp

theorem credentials_keep_schema_witness:
  "auth_inv (adb (snd (run_state (for_each serve_auth
     [ReqSpawn app_ctx spawn_opts, ReqTokenRotate app_ctx ''tk-2'', ReqDestroyRunner app_ctx ''run-1''])
     (spawn_world (\<lambda>_. None)))))"
  using credentials_keep_schema [of "spawn_world (\<lambda>_. None)"] sample_auth_inv spawn_adb [of "\<lambda>_. None"]
  by (metis prod.collapse)

lemma sample_validations:
  "fst (run_state (token_Validate app_ctx (sample_secret PrefixRunnerToken CHR ''b'')) (spawn_world (\<lambda>_. None))) =
     Inr (sample_token ''tk-2'' CHR ''b'' None)"
  "fst (run_state (key_Validate app_ctx (sample_secret PrefixAPIKey CHR ''b'')) (spawn_world (\<lambda>_. None))) =
     Inr (sample_key ''k-2'' CHR ''b'' None)"
  by code_simp+

theorem revocation_is_final_witness:
  "rtID (sample_token ''tk-2'' CHR ''b'' None) \<noteq> rtID (sample_token ''tk-1'' CHR ''a'' (Some 7)) \<and>
   akID (sample_key ''k-2'' CHR ''b'' None) \<noteq> akID (sample_key ''k-1'' CHR ''a'' (Some 7)) \<and>
   auth_run [ADeleteToken ''tk-3''] (sample_db, older_tables) (adb (spawn_world (\<lambda>_. None)))"
proof -
  have run: "auth_run [ADeleteToken ''tk-3''] (sample_db, older_tables) (adb (spawn_world (\<lambda>_. None)))"
    using older_run by (simp only: spawn_adb)
  have "rtID (sample_token ''tk-2'' CHR ''b'' None) \<noteq> rtID (sample_token ''tk-1'' CHR ''a'' (Some 7)) \<and>
    akID (sample_key ''k-2'' CHR ''b'' None) \<noteq> akID (sample_key ''k-1'' CHR ''a'' (Some 7))"
    using revocation_is_final [OF older_auth_inv run, of "sample_token ''tk-1'' CHR ''a'' (Some 7)" app_ctx
        "sample_secret PrefixRunnerToken CHR ''b''" "sample_token ''tk-2'' CHR ''b'' None"]
      revocation_is_final [OF older_auth_inv run, of _ app_ctx "sample_secret PrefixAPIKey CHR ''b''" _
        "sample_key ''k-1'' CHR ''a'' (Some 7)" "sample_key ''k-2'' CHR ''b'' None"] sample_validations
    by (simp add: older_tables_def sample_tables_def sample_token_def sample_key_def)
  with run show ?thesis by blast
qed

definition sample_http :: http_request where
  "sample_http = \<lparr>hqAuthorization = ''Bearer '' @ sample_secret PrefixAPIKey CHR ''b'', hqUpgrade = [],
     hqConnection = [], hqToken = []\<rparr>"

definition sample_req :: RegisterRequest where
  "sample_req = \<lparr>rqToken = sample_secret PrefixRunnerToken CHR ''b'', rqName = ''r'', rqHostname = ''h'',
     rqSandboxMode = [], rqSandboxTypes = [], rqCapabilities = []\<rparr>"

lemma sample_gate: "fst (run_state (AuthMiddleware True False background_ctx sample_http) (spawn_world (\<lambda>_. None))) =
    Proceed (sample_key ''k-2'' CHR ''b'' None) background_ctx"
  by code_simp

theorem authentication_binds_no_tenant_witness:
  "\<not> multi_tenant (w_db (aw_core (spawn_world (\<lambda>_. None)))) \<and>
   fst (run_state (AuthMiddleware True False background_ctx sample_http) (spawn_world (\<lambda>_. None))) =
     Proceed (sample_key ''k-2'' CHR ''b'' None) background_ctx"
  using authentication_binds_no_tenant [of background_ctx True False sample_http "spawn_world (\<lambda>_. None)"
      "sample_key ''k-2'' CHR ''b'' None" background_ctx] sample_gate
  by (simp add: background_ctx_def IsSystemAccess_def TenantFromContext_def)

theorem failed_spawn_leaves_no_trace_witness:
  "\<exists>a' pn so. run_state (provisioner_Spawn app_ctx spawn_opts) (spawn_world (\<lambda>_. Some ''no quota'')) =
       (Inl (ErrProvider ''no quota''), a') \<and>
     adb a' = (sample_db, sample_tables) \<and> aw_strays a' = [(pn, so)] \<and>
     spRunnerID so \<notin> rID ` set (runners (w_db (aw_core a')))"
proof -
  let ?a = "spawn_world (\<lambda>_. Some ''no quota'')"
  obtain a' where run: "run_state (provisioner_Spawn app_ctx spawn_opts) ?a = (Inl (ErrProvider ''no quota''), a')"
    using sample_spawn_fails by (metis prod.collapse)
  have "auth_inv (adb ?a)" using sample_auth_inv by (simp only: spawn_adb)
  note facts = failed_spawn_leaves_no_trace [OF spawn_quiet this run]
  have "aw_strays (snd (run_state (provisioner_Spawn app_ctx spawn_opts) ?a)) \<noteq> []" by code_simp
  with run have "aw_strays a' \<noteq> []" by simp
  then show ?thesis using facts run by (auto simp: spawn_adb spawn_world_def)
qed

theorem spawned_runner_registers_witness:
  "\<exists>runner a' pn so. run_state (provisioner_Spawn app_ctx spawn_opts) (spawn_world (\<lambda>_. None)) = (Inr runner, a') \<and>
     aw_spawned a' = [(pn, so)] \<and>
     (\<exists>a2. run_state (registry_Register background_ctx (sample_req\<lparr>rqToken := spRunnerToken so\<rparr>)) a' =
       (Inr \<lparr>rrRunnerID = rID runner, rrIsNew = False, rrPoolName = ''managed''\<rparr>, a2) \<and>
       map rID (runners (w_db (aw_core a2))) = rID runner # map rID (runners (w_db (aw_core (spawn_world (\<lambda>_. None))))))"
proof -
  let ?a = "spawn_world (\<lambda>_. None)"
  obtain runner a' where run: "run_state (provisioner_Spawn app_ctx spawn_opts) ?a = (Inr runner, a')"
    using sample_spawned_id by (cases "run_state (provisioner_Spawn app_ctx spawn_opts) ?a"; cases "fst (run_state (provisioner_Spawn app_ctx spawn_opts) ?a)") auto
  have r: "rID runner \<noteq> []" "rTenantID runner = None" using sample_spawned_id run by simp_all
  have "auth_inv (adb ?a)" using sample_auth_inv by (simp only: spawn_adb)
  moreover have "rls_visible (w_db (aw_core ?a)) background_ctx (rTenantID runner)" unfolding r by code_simp
  moreover have "rqSandboxMode sample_req \<in> sandbox_modes" by (simp add: sample_req_def sandbox_modes_def)
  ultimately have "\<exists>pn so. aw_spawned a' = aw_spawned ?a @ [(pn, so)] \<and> spRunnerID so = rID runner \<and>
     (\<exists>a2. run_state (registry_Register background_ctx (sample_req\<lparr>rqToken := spRunnerToken so\<rparr>)) a' =
       (Inr \<lparr>rrRunnerID = rID runner, rrIsNew = False, rrPoolName = ''managed''\<rparr>, a2) \<and>
       map rID (runners (w_db (aw_core a2))) = rID runner # map rID (runners (w_db (aw_core ?a))))"
    using spawned_runner_registers [OF spawn_quiet _ run] r by blast
  with run show ?thesis by (auto simp: spawn_world_def)
qed

end
