(* ===== verification/Webhook_Text.thy ===== *)
theory Webhook_Text
  imports Provisioner Context_Snapshot
begin

text \<open>
  The parts of \<^verbatim>\<open>pkg/webhook\<close> that compute on values: event names and subscription patterns
  (\<^verbatim>\<open>matcher.go\<close>), signatures (\<^verbatim>\<open>signature.go\<close>), payloads and configuration (\<^verbatim>\<open>types.go\<close>), the
  retry schedule and the headers of a request (\<^verbatim>\<open>dispatcher.go\<close>), and the standard base64 text in
  which a secret is stored. HMAC-SHA256 is a parameter.
\<close>

section \<open>Event names\<close>

definition EventSessionCreated :: string where "EventSessionCreated = ''session.created''"
definition EventSessionSuspended :: string where "EventSessionSuspended = ''session.suspended''"
definition EventSessionResumed :: string where "EventSessionResumed = ''session.resumed''"
definition EventSessionTerminated :: string where "EventSessionTerminated = ''session.terminated''"
definition EventTaskCreated :: string where "EventTaskCreated = ''task.created''"
definition EventTaskStarted :: string where "EventTaskStarted = ''task.started''"
definition EventTaskCompleted :: string where "EventTaskCompleted = ''task.completed''"
definition EventTaskFailed :: string where "EventTaskFailed = ''task.failed''"
definition EventTaskCanceled :: string where "EventTaskCanceled = ''task.canceled''"
definition EventRunnerConnected :: string where "EventRunnerConnected = ''runner.connected''"
definition EventRunnerDisconnected :: string where "EventRunnerDisconnected = ''runner.disconnected''"
definition EventRunnerAssigned :: string where "EventRunnerAssigned = ''runner.assigned''"
definition EventRunnerReleased :: string where "EventRunnerReleased = ''runner.released''"
definition EventPermissionRequested :: string where "EventPermissionRequested = ''permission.requested''"
definition EventPermissionApproved :: string where "EventPermissionApproved = ''permission.approved''"
definition EventPermissionDenied :: string where "EventPermissionDenied = ''permission.denied''"
definition EventPermissionCanceled :: string where "EventPermissionCanceled = ''permission.canceled''"

definition KnownEventTypes :: "string list" where
  "KnownEventTypes = [EventSessionCreated, EventSessionSuspended, EventSessionResumed,
     EventSessionTerminated, EventTaskCreated, EventTaskStarted, EventTaskCompleted, EventTaskFailed,
     EventTaskCanceled, EventRunnerConnected, EventRunnerDisconnected, EventRunnerAssigned,
     EventRunnerReleased, EventPermissionRequested, EventPermissionApproved, EventPermissionDenied,
     EventPermissionCanceled]"

section \<open>Subscription patterns\<close>

definition matchPattern :: "string \<Rightarrow> string \<Rightarrow> bool" where
  "matchPattern eventType pattern \<longleftrightarrow>
     (if eventType = pattern then True
      else if suffix ''.*'' pattern \<and> prefix (take (length pattern - 2) pattern @ ''.'') eventType then True
      else if CHR ''.'' \<notin> set pattern \<and> CHR ''*'' \<notin> set pattern \<and> prefix (pattern @ ''.'') eventType then True
      else pattern = ''*'')"

definition Matches :: "string \<Rightarrow> string list \<Rightarrow> bool" where
  "Matches eventType patterns = list_ex (matchPattern eventType) patterns"

definition MatchesAny :: "string \<Rightarrow> string list list \<Rightarrow> nat list" where
  "MatchesAny eventType webhookEvents =
     map fst (filter (\<lambda>(_, events). Matches eventType events) (enumerate 0 webhookEvents))"

definition ParseEventCategory :: "string \<Rightarrow> string" where
  "ParseEventCategory eventType = takeWhile (\<lambda>c. c \<noteq> CHR ''.'') eventType"

definition ParseEventAction :: "string \<Rightarrow> string" where
  "ParseEventAction eventType = drop 1 (dropWhile (\<lambda>c. c \<noteq> CHR ''.'') eventType)"

definition in_range :: "char \<Rightarrow> char \<Rightarrow> char \<Rightarrow> bool" where
  "in_range lo hi c \<longleftrightarrow> lo \<le> c \<and> c \<le> hi"

definition isValidPatternChar :: "char \<Rightarrow> bool" where
  "isValidPatternChar c \<longleftrightarrow> in_range CHR ''a'' CHR ''z'' c \<or> in_range CHR ''A'' CHR ''Z'' c \<or>
     in_range CHR ''0'' CHR ''9'' c \<or> c = CHR ''.'' \<or> c = CHR ''*'' \<or> c = CHR ''_'' \<or> c = CHR ''-''"

definition ValidateEventPattern :: "string \<Rightarrow> bool" where
  "ValidateEventPattern pattern \<longleftrightarrow>
     (if pattern = [] then False
      else if pattern = ''*'' then True
      else if \<not> list_all isValidPatternChar pattern then False
      else if CHR ''*'' \<in> set pattern \<and> \<not> suffix ''*'' pattern then False
      else if suffix ''.*'' pattern \<and> length pattern < 3 then False
      else True)"

section \<open>Signatures\<close>

type_synonym hmac = "string \<Rightarrow> string \<Rightarrow> nat list"

definition SignatureHeader :: string where "SignatureHeader = ''X-Webhook-Signature''"
definition TimestampHeader :: string where "TimestampHeader = ''X-Webhook-Timestamp''"
definition IDHeader :: string where "IDHeader = ''X-Webhook-ID''"
definition secretLength :: nat where "secretLength = 32"
definition signatureTimestampTolerance :: int where "signatureTimestampTolerance = 5 * Minute"

definition HashSecret :: "(string \<Rightarrow> nat list) \<Rightarrow> string \<Rightarrow> string" where
  "HashSecret sha256 secret = hex_encode (sha256 secret)"

text \<open>\<^verbatim>\<open>t.Unix()\<close>\<close>

definition unix_seconds :: "int \<Rightarrow> int" where
  "unix_seconds t = t div Second"

definition Sign :: "hmac \<Rightarrow> string \<Rightarrow> string \<Rightarrow> int \<Rightarrow> string" where
  "Sign hm payload secret timestamp =
     ''sha256='' @ hex_encode (hm secret (show_int (unix_seconds timestamp) @ ''.'' @ payload))"

definition Verify :: "hmac \<Rightarrow> int \<Rightarrow> string \<Rightarrow> string \<Rightarrow> string \<Rightarrow> int \<Rightarrow> bool" where
  "Verify hm now payload signature secret timestamp \<longleftrightarrow>
     (if timestamp < now - signatureTimestampTolerance \<or> timestamp > now + signatureTimestampTolerance then False
      else signature = Sign hm payload secret timestamp)"

definition ParseTimestamp :: "string \<Rightarrow> int option" where
  "ParseTimestamp ts = (case Atoi ts of None \<Rightarrow> None | Some unix \<Rightarrow> Some (unix * Second))"

section \<open>Retry schedule\<close>

definition maxRetryDelay :: int where "maxRetryDelay = 24 * 60 * Minute"

text \<open>\<^verbatim>\<open>time.Duration(1<<uint(attempt))\<close>: the shift of a 64 bit integer.\<close>

definition shifted_one :: "int \<Rightarrow> int" where
  "shifted_one attempt = (if 0 \<le> attempt \<and> attempt < 64 then int64 (2 ^ nat attempt) else 0)"

definition CalculateNextRetry :: "int \<Rightarrow> int \<Rightarrow> int \<Rightarrow> int" where
  "CalculateNextRetry now attempt baseDelay =
     (let delay = int64 (baseDelay * shifted_one attempt) in
      now + (if delay > maxRetryDelay then maxRetryDelay else delay))"

definition hook_ShouldRetry :: "int \<Rightarrow> bool" where
  "hook_ShouldRetry statusCode \<longleftrightarrow>
     (if statusCode \<ge> 500 then True else if statusCode = 408 then True else if statusCode = 429 then True else False)"

section \<open>Payloads\<close>

record ResourceInfo =
  rfID :: string
  rfType :: string
  rfLabels :: "(string \<times> string) list option"
  rfAnnotations :: "(string \<times> string) list option"

record Payload =
  plEvent :: string
  plTimestamp :: int
  plResource :: ResourceInfo
  plData :: json

record DeliveryResult =
  drSuccess :: bool
  drStatusCode :: int
  drError :: "string option"

record WebhookConfig =
  wcDefaultMaxRetries :: int
  wcDefaultRetryDelaySeconds :: int
  wcDefaultTimeoutSeconds :: int
  wcMaxPayloadSize :: int
  wcUserAgent :: string
  wcEncryptionKey :: string

definition hook_DefaultConfig :: WebhookConfig where
  "hook_DefaultConfig = \<lparr>wcDefaultMaxRetries = 3, wcDefaultRetryDelaySeconds = 60, wcDefaultTimeoutSeconds = 30,
     wcMaxPayloadSize = 10 * 1024 * 1024, wcUserAgent = ''Marionette-Webhook/1.0'', wcEncryptionKey = []\<rparr>"

text \<open>\<^verbatim>\<open>omitempty\<close> of a map, and the JSON of a payload.\<close>

definition opt_map :: "string \<Rightarrow> (string \<times> string) list option \<Rightarrow> (string \<times> json) list" where
  "opt_map k m = (case m of None \<Rightarrow> [] | Some kvs \<Rightarrow> if kvs = [] then [] else [(k, marshal_map (Some kvs))])"

definition resource_json :: "ResourceInfo \<Rightarrow> json" where
  "resource_json r = JObj ([(''id'', JStr (rfID r)), (''type'', JStr (rfType r))] @
     opt_map ''labels'' (rfLabels r) @ opt_map ''annotations'' (rfAnnotations r))"

definition payload_json :: "Payload \<Rightarrow> json" where
  "payload_json p = JObj [(''event'', JStr (plEvent p)), (''timestamp'', JTime (plTimestamp p)),
     (''resource'', resource_json (plResource p)), (''data'', plData p)]"

text \<open>\<^verbatim>\<open>json.Unmarshal\<close> into a payload; the zero time is \<open>None\<close> of the decoder and 0 here.\<close>

definition parse_resource :: "(string \<times> json) list \<Rightarrow> gerr + ResourceInfo" where
  "parse_resource fs =
     and_then (dec_str fs ''id'') (\<lambda>i. and_then (dec_str fs ''type'') (\<lambda>t.
     and_then (dec_str_map fs ''labels'') (\<lambda>l. and_then (dec_str_map fs ''annotations'') (\<lambda>a.
       Inr \<lparr>rfID = i, rfType = t, rfLabels = l, rfAnnotations = a\<rparr>))))"

definition dec_resource :: "(string \<times> json) list \<Rightarrow> gerr + ResourceInfo" where
  "dec_resource fs =
     (case map_of fs ''resource'' of
        None \<Rightarrow> parse_resource [] | Some JNull \<Rightarrow> parse_resource [] | Some (JObj gs) \<Rightarrow> parse_resource gs
      | Some _ \<Rightarrow> Inl json_err)"

definition parse_payload :: "json \<Rightarrow> gerr + Payload" where
  "parse_payload j =
     (case j of
        JObj fs \<Rightarrow>
          and_then (dec_str fs ''event'') (\<lambda>ev. and_then (dec_time fs ''timestamp'') (\<lambda>ts.
          and_then (dec_resource fs) (\<lambda>r.
            Inr \<lparr>plEvent = ev, plTimestamp = (case ts of None \<Rightarrow> 0 | Some t \<Rightarrow> t), plResource = r,
              plData = (case map_of fs ''data'' of None \<Rightarrow> JNull | Some d \<Rightarrow> d)\<rparr>)))
      | JNull \<Rightarrow> and_then (parse_resource []) (\<lambda>r. Inr \<lparr>plEvent = [], plTimestamp = 0, plResource = r, plData = JNull\<rparr>)
      | _ \<Rightarrow> Inl json_err)"

section \<open>Headers of a request\<close>

type_synonym headers = "(string \<times> string) list"

text \<open>\<^verbatim>\<open>http.Header.Set\<close> stores under the canonical form of the key.\<close>

definition token_char :: "char \<Rightarrow> bool" where
  "token_char c \<longleftrightarrow> in_range CHR ''a'' CHR ''z'' c \<or> in_range CHR ''A'' CHR ''Z'' c \<or>
     in_range CHR ''0'' CHR ''9'' c \<or> c \<in> set ''!#$%&*+-.^_|~'' \<or> c = CHR 0x27 \<or> c = CHR 0x60"

definition upper :: "char \<Rightarrow> char" where
  "upper c = (if in_range CHR ''a'' CHR ''z'' c then char_of ((of_char c :: nat) - 32) else c)"

definition lower :: "char \<Rightarrow> char" where
  "lower c = (if in_range CHR ''A'' CHR ''Z'' c then char_of ((of_char c :: nat) + 32) else c)"

fun canonical_from :: "bool \<Rightarrow> string \<Rightarrow> string" where
  "canonical_from up [] = []"
| "canonical_from up (c # cs) = (if up then upper c else lower c) # canonical_from (c = CHR ''-'') cs"

definition canonical_key :: "string \<Rightarrow> string" where
  "canonical_key k = (if list_all token_char k then canonical_from True k else k)"

definition header_Set :: "string \<Rightarrow> string \<Rightarrow> headers \<Rightarrow> headers" where
  "header_Set k v h = (canonical_key k, v) # filter (\<lambda>kv. fst kv \<noteq> canonical_key k) h"

definition header_Get :: "string \<Rightarrow> headers \<Rightarrow> string" where
  "header_Get k h = (case map_of h (canonical_key k) of None \<Rightarrow> [] | Some v \<Rightarrow> v)"

section \<open>Standard base64\<close>

definition std_alphabet :: string where
  "std_alphabet = ''ABCDEFGHIJKLMNOPQRSTUVWXYZabcdefghijklmnopqrstuvwxyz0123456789+/''"

definition std_digit :: "nat \<Rightarrow> char" where
  "std_digit i = std_alphabet ! (i mod 64)"

fun StdEncoding :: "nat list \<Rightarrow> string" where
  "StdEncoding (x # y # z # rest) =
     [std_digit (x div 4), std_digit (x mod 4 * 16 + y div 16),
      std_digit (y mod 16 * 4 + z div 64), std_digit (z mod 64)] @ StdEncoding rest"
| "StdEncoding [x, y] =
     [std_digit (x div 4), std_digit (x mod 4 * 16 + y div 16), std_digit (y mod 16 * 4), CHR ''='']"
| "StdEncoding [x] = [std_digit (x div 4), std_digit (x mod 4 * 16), CHR ''='', CHR ''='']"
| "StdEncoding [] = []"

definition std_value :: "char \<Rightarrow> nat option" where
  "std_value c = (case find (\<lambda>i. std_alphabet ! i = c) [0..<64] of None \<Rightarrow> None | Some i \<Rightarrow> Some i)"

definition quad :: "nat \<Rightarrow> nat \<Rightarrow> nat \<Rightarrow> nat \<Rightarrow> nat list" where
  "quad a b c d = [a * 4 + b div 16, b mod 16 * 16 + c div 4, c mod 4 * 64 + d]"

fun std_decode :: "string \<Rightarrow> nat list option" where
  "std_decode (a # b # c # d # rest) =
     (case (std_value a, std_value b) of
        (Some i, Some j) \<Rightarrow>
          if rest = [] \<and> c = CHR ''='' \<and> d = CHR ''='' then Some (take 1 (quad i j 0 0))
          else (case std_value c of
             None \<Rightarrow> None
           | Some k \<Rightarrow>
               if rest = [] \<and> d = CHR ''='' then Some (take 2 (quad i j k 0))
               else (case std_value d of None \<Rightarrow> None | Some l \<Rightarrow> map_option ((@) (quad i j k l)) (std_decode rest)))
      | _ \<Rightarrow> None)"
| "std_decode [] = Some []"
| "std_decode _ = None"

definition StdDecode :: "string \<Rightarrow> nat list option" where
  "StdDecode s = std_decode (filter (\<lambda>c. c \<noteq> CHR 0x0A \<and> c \<noteq> CHR 0x0D) s)"

definition string_bytes :: "string \<Rightarrow> nat list" where
  "string_bytes s = map of_char s"

definition bytes_string :: "nat list \<Rightarrow> string" where
  "bytes_string bs = map char_of bs"

end
