(* ===== verification/Webhook_Store.thy ===== *)
theory Webhook_Store
  imports Webhook_Text
begin

text \<open>
  Webhooks and the queue of their events: the rows of \<^verbatim>\<open>models.go\<close>, the constraints of migration
  006, and one function per statement of \<^verbatim>\<open>postgres/webhooks.go\<close>. Statements see the rows that row
  level security shows to their context; integers written to an INT column must fit in 32 bits.
\<close>

section \<open>Rows\<close>

record Webhook =
  whID :: string
  whName :: string
  whURL :: string
  whEvents :: "string list option" \<comment> \<open>nil is NULL, which the column refuses\<close>
  whSecretEncrypted :: string
  whSecretHash :: string
  whSecretPrefix :: string
  whIsActive :: bool
  whMaxRetries :: int
  whRetryDelaySeconds :: int
  whTimeoutSeconds :: int
  whHeaders :: json
  whTenantID :: "string option"
  whLabels :: json
  whAnnotations :: json
  whCreatedAt :: int
  whUpdatedAt :: int

record WebhookUpdates =
  wuName :: "string option"
  wuURL :: "string option"
  wuEvents :: "string list option"
  wuSecretEncrypted :: "string option"
  wuSecretHash :: "string option"
  wuSecretPrefix :: "string option"
  wuIsActive :: "bool option"
  wuMaxRetries :: "int option"
  wuRetryDelaySeconds :: "int option"
  wuTimeoutSeconds :: "int option"
  wuHeaders :: "json option"
  wuLabels :: "json option"
  wuAnnotations :: "json option"

definition no_webhook_updates :: WebhookUpdates where
  "no_webhook_updates = \<lparr>wuName = None, wuURL = None, wuEvents = None, wuSecretEncrypted = None,
     wuSecretHash = None, wuSecretPrefix = None, wuIsActive = None, wuMaxRetries = None,
     wuRetryDelaySeconds = None, wuTimeoutSeconds = None, wuHeaders = None, wuLabels = None,
     wuAnnotations = None\<rparr>"

definition WebhookEventStatusPending :: string where "WebhookEventStatusPending = ''pending''"
definition WebhookEventStatusDelivered :: string where "WebhookEventStatusDelivered = ''delivered''"
definition WebhookEventStatusFailed :: string where "WebhookEventStatusFailed = ''failed''"
definition WebhookEventStatusExhausted :: string where "WebhookEventStatusExhausted = ''exhausted''"
definition WebhookEventStatusCanceled :: string where "WebhookEventStatusCanceled = ''canceled''"

lemmas event_status_defs [distinct_names] = WebhookEventStatusPending_def WebhookEventStatusDelivered_def
  WebhookEventStatusFailed_def WebhookEventStatusExhausted_def WebhookEventStatusCanceled_def

record WebhookEvent =
  weID :: string
  weWebhookID :: string
  weEventType :: string
  wePayload :: json
  weStatus :: string
  weAttempts :: int
  weLastError :: "string option"
  weLastStatusCode :: "int option"
  weNextRetryAt :: "int option"
  weDeliveredAt :: "int option"
  weTenantID :: "string option"
  weCreatedAt :: int
  weUpdatedAt :: int

record WebhookEventUpdates =
  weuStatus :: "string option"
  weuAttempts :: "int option"
  weuLastError :: "string option"
  weuLastStatusCode :: "int option"
  weuNextRetryAt :: "int option"
  weuDeliveredAt :: "int option"

definition no_event_updates :: WebhookEventUpdates where
  "no_event_updates = \<lparr>weuStatus = None, weuAttempts = None, weuLastError = None, weuLastStatusCode = None,
     weuNextRetryAt = None, weuDeliveredAt = None\<rparr>"

record hook_tables =
  webhooks :: "Webhook list"
  webhook_events :: "WebhookEvent list"

section \<open>Constraints\<close>

definition webhook_check :: "Webhook \<Rightarrow> bool" where
  "webhook_check w \<longleftrightarrow> whEvents w \<noteq> None \<and> fits_int4 (whMaxRetries w) \<and> fits_int4 (whRetryDelaySeconds w) \<and>
     fits_int4 (whTimeoutSeconds w)"

definition webhook_name_conflict :: "Webhook \<Rightarrow> Webhook list \<Rightarrow> bool" where
  "webhook_name_conflict w rows =
     list_ex (\<lambda>x. whID x \<noteq> whID w \<and> whName x = whName w \<and>
                  stringValue (whTenantID x) = stringValue (whTenantID w)) rows"

definition event_check :: "WebhookEvent \<Rightarrow> bool" where
  "event_check e \<longleftrightarrow> weStatus e \<in> {WebhookEventStatusPending, WebhookEventStatusDelivered,
     WebhookEventStatusFailed, WebhookEventStatusExhausted, WebhookEventStatusCanceled} \<and>
     fits_int4 (weAttempts e) \<and> (case weLastStatusCode e of None \<Rightarrow> True | Some n \<Rightarrow> fits_int4 n)"

definition event_fk :: "hook_tables \<Rightarrow> WebhookEvent \<Rightarrow> bool" where
  "event_fk t e \<longleftrightarrow> weWebhookID e \<in> whID ` set (webhooks t)"

section \<open>Statements on webhooks\<close>

definition createWebhook :: "int \<Rightarrow> ctx \<Rightarrow> Webhook \<Rightarrow> db \<Rightarrow> hook_tables \<Rightarrow> gerr + Webhook \<times> hook_tables" where
  "createWebhook now c w d t =
     (let w' = w\<lparr>whCreatedAt := now, whUpdatedAt := now\<rparr> in
      if \<not> webhook_check w' then Inl (ErrDatabase ''webhook column'')
      else if \<not> rls_visible d c (whTenantID w) then Inl (ErrDatabase ''row-level security'')
      else if whID w \<in> whID ` set (webhooks t) then Inl (ErrAlreadyExists ''webhook'')
      else if webhook_name_conflict w' (webhooks t) then Inl (ErrAlreadyExists ''webhook'')
      else Inr (w', t\<lparr>webhooks := w' # webhooks t\<rparr>))"

definition getWebhook :: "ctx \<Rightarrow> string \<Rightarrow> db \<Rightarrow> hook_tables \<Rightarrow> gerr + Webhook" where
  "getWebhook c wid d t =
     (case find (\<lambda>w. whID w = wid \<and> rls_visible d c (whTenantID w)) (webhooks t) of
        None \<Rightarrow> Inl (ErrNotFound ''webhook'' wid) | Some w \<Rightarrow> Inr w)"

definition getWebhookByName :: "ctx \<Rightarrow> string \<Rightarrow> string option \<Rightarrow> db \<Rightarrow> hook_tables \<Rightarrow> gerr + Webhook" where
  "getWebhookByName c name tenantID d t =
     (case find (\<lambda>w. whName w = name \<and> stringValue (whTenantID w) = stringValue tenantID \<and>
                     rls_visible d c (whTenantID w)) (webhooks t) of
        None \<Rightarrow> Inl (ErrNotFound ''webhook'' name) | Some w \<Rightarrow> Inr w)"

text \<open>Both listings page by cursor or by offset, newest first.\<close>

definition webhookOffset :: "int \<Rightarrow> (int \<times> string) option \<Rightarrow> int" where
  "webhookOffset offset cursor = (if cursor \<noteq> None \<or> offset < 0 then 0 else offset)"

definition webhookSortColumns :: "string list" where "webhookSortColumns = [''created_at'']"
definition webhookEventSortColumns :: "string list" where "webhookEventSortColumns = [''created_at'']"

definition list_limit :: "int \<Rightarrow> int" where
  "list_limit limit = (if limit > 0 \<and> limit < 100 then limit else 100)"

definition newest_first ::
  "string list \<Rightarrow> ('r \<Rightarrow> int) \<Rightarrow> ('r \<Rightarrow> string) \<Rightarrow> int \<Rightarrow> int \<Rightarrow> (int \<times> string) option \<Rightarrow> 'r list \<Rightarrow> gerr + 'r ListResult" where
  "newest_first allowed key rid limit offset cursor rows =
     (case page allowed (default_opts\<lparr>loCursor := cursor, loOrderDesc := True\<rparr>) of
        Inl e \<Rightarrow> Inl e
      | Inr p \<Rightarrow>
          let got = take (nat (limit + 1)) (drop (nat (webhookOffset offset cursor))
                (ordered_rows (\<lambda>_ r. (0, key r, [])) rid p (filter (after_cursor p key rid) rows)));
              hasMore = int (length got) > limit;
              items = (if hasMore then take (nat limit) got else got)
          in Inr \<lparr>lrItems = items, lrTotalCount = length rows, lrHasMore = hasMore,
               lrNextCursor = (if items = [] \<or> \<not> hasMore then None else Some (key (last items), rid (last items)))\<rparr>)"

record ListWebhooksOptions =
  lwTenantID :: "string option"
  lwActiveOnly :: bool
  lwLabels :: "(string \<times> string) list"
  lwLimit :: int
  lwOffset :: int
  lwCursor :: "(int \<times> string) option"

text \<open>\<^verbatim>\<open>labels->>'key' = value\<close> on an object of strings.\<close>

definition has_label :: "json \<Rightarrow> string \<times> string \<Rightarrow> bool" where
  "has_label labels = (\<lambda>(k, v). case labels of JObj kvs \<Rightarrow> map_of kvs k = Some (JStr v) | _ \<Rightarrow> False)"

definition webhook_matches :: "ListWebhooksOptions \<Rightarrow> Webhook \<Rightarrow> bool" where
  "webhook_matches opts w \<longleftrightarrow>
     (case lwTenantID opts of None \<Rightarrow> True | Some x \<Rightarrow> whTenantID w = Some x) \<and>
     (lwActiveOnly opts \<longrightarrow> whIsActive w) \<and> list_all (has_label (whLabels w)) (lwLabels opts)"

definition listWebhooks :: "ctx \<Rightarrow> ListWebhooksOptions \<Rightarrow> db \<Rightarrow> hook_tables \<Rightarrow> gerr + Webhook ListResult" where
  "listWebhooks c opts d t =
     newest_first webhookSortColumns whCreatedAt whID (list_limit (lwLimit opts)) (lwOffset opts) (lwCursor opts)
       (filter (\<lambda>w. rls_visible d c (whTenantID w) \<and> webhook_matches opts w) (webhooks t))"

definition upd :: "'a option \<Rightarrow> 'a \<Rightarrow> 'a" where
  "upd u x = (case u of None \<Rightarrow> x | Some y \<Rightarrow> y)"

definition apply_webhook_updates :: "int \<Rightarrow> WebhookUpdates \<Rightarrow> Webhook \<Rightarrow> Webhook" where
  "apply_webhook_updates now u w = w\<lparr>
     whName := upd (wuName u) (whName w), whURL := upd (wuURL u) (whURL w),
     whEvents := (case wuEvents u of None \<Rightarrow> whEvents w | Some e \<Rightarrow> Some e),
     whSecretEncrypted := upd (wuSecretEncrypted u) (whSecretEncrypted w),
     whSecretHash := upd (wuSecretHash u) (whSecretHash w),
     whSecretPrefix := upd (wuSecretPrefix u) (whSecretPrefix w),
     whIsActive := upd (wuIsActive u) (whIsActive w),
     whMaxRetries := upd (wuMaxRetries u) (whMaxRetries w),
     whRetryDelaySeconds := upd (wuRetryDelaySeconds u) (whRetryDelaySeconds w),
     whTimeoutSeconds := upd (wuTimeoutSeconds u) (whTimeoutSeconds w),
     whHeaders := upd (wuHeaders u) (whHeaders w), whLabels := upd (wuLabels u) (whLabels w),
     whAnnotations := upd (wuAnnotations u) (whAnnotations w), whUpdatedAt := now\<rparr>"

definition updateWebhook :: "int \<Rightarrow> ctx \<Rightarrow> string \<Rightarrow> WebhookUpdates \<Rightarrow> db \<Rightarrow> hook_tables \<Rightarrow> gerr + unit \<times> hook_tables" where
  "updateWebhook now c wid u d t =
     (if u = no_webhook_updates then Inr ((), t)
      else case find (\<lambda>w. whID w = wid \<and> rls_visible d c (whTenantID w)) (webhooks t) of
        None \<Rightarrow> Inl (ErrNotFound ''webhook'' wid)
      | Some w \<Rightarrow>
          let w' = apply_webhook_updates now u w in
          if \<not> webhook_check w' then Inl (ErrDatabase ''webhook column'')
          else if webhook_name_conflict w' (webhooks t) then Inl (ErrAlreadyExists ''webhook'')
          else Inr ((), t\<lparr>webhooks := put_row whID wid w' (webhooks t)\<rparr>))"

text \<open>The events of a webhook go with it (\<^verbatim>\<open>ON DELETE CASCADE\<close>).\<close>

definition deleteWebhook :: "ctx \<Rightarrow> string \<Rightarrow> db \<Rightarrow> hook_tables \<Rightarrow> gerr + unit \<times> hook_tables" where
  "deleteWebhook c wid d t =
     (case find (\<lambda>w. whID w = wid \<and> rls_visible d c (whTenantID w)) (webhooks t) of
        None \<Rightarrow> Inl (ErrNotFound ''webhook'' wid)
      | Some _ \<Rightarrow> Inr ((), t\<lparr>webhooks := filter (\<lambda>w. whID w \<noteq> wid) (webhooks t),
                          webhook_events := filter (\<lambda>e. weWebhookID e \<noteq> wid) (webhook_events t)\<rparr>))"

text \<open>
  The query has no \<^verbatim>\<open>ORDER BY\<close>, so the database may return its rows in any order; the model returns
  them in the order of the table, and no law but the order of the queued events depends on it.
\<close>

definition getActiveWebhooksForEvent :: "ctx \<Rightarrow> string option \<Rightarrow> db \<Rightarrow> hook_tables \<Rightarrow> gerr + Webhook list" where
  "getActiveWebhooksForEvent c tenantID d t =
     Inr (filter (\<lambda>w. rls_visible d c (whTenantID w) \<and> whIsActive w \<and>
       stringValue (whTenantID w) = stringValue tenantID) (webhooks t))"

section \<open>Statements on events\<close>

definition createWebhookEvent ::
  "int \<Rightarrow> ctx \<Rightarrow> WebhookEvent \<Rightarrow> db \<Rightarrow> hook_tables \<Rightarrow> gerr + WebhookEvent \<times> hook_tables" where
  "createWebhookEvent now c e d t =
     (let e' = e\<lparr>weCreatedAt := now, weUpdatedAt := now\<rparr> in
      if \<not> rls_visible d c (weTenantID e) then Inl (ErrDatabase ''row-level security'')
      else if \<not> event_check e' then Inl (ErrInvalidInput ''webhook_event'')
      else if weID e \<in> weID ` set (webhook_events t) then Inl (ErrAlreadyExists ''webhook_event'')
      else if \<not> event_fk t e' then Inl (ErrForeignKeyViolation ''webhook_event'')
      else Inr (e', t\<lparr>webhook_events := e' # webhook_events t\<rparr>))"

definition getWebhookEvent :: "ctx \<Rightarrow> string \<Rightarrow> db \<Rightarrow> hook_tables \<Rightarrow> gerr + WebhookEvent" where
  "getWebhookEvent c eid d t =
     (case find (\<lambda>e. weID e = eid \<and> rls_visible d c (weTenantID e)) (webhook_events t) of
        None \<Rightarrow> Inl (ErrNotFound ''webhook_event'' eid) | Some e \<Rightarrow> Inr e)"

record ListWebhookEventsOptions =
  lweWebhookID :: string
  lweTenantID :: "string option"
  lweStatus :: "string option"
  lweEventType :: "string option"
  lweLimit :: int
  lweOffset :: int
  lweCursor :: "(int \<times> string) option"

definition event_matches :: "ListWebhookEventsOptions \<Rightarrow> WebhookEvent \<Rightarrow> bool" where
  "event_matches opts e \<longleftrightarrow>
     (lweWebhookID opts \<noteq> [] \<longrightarrow> weWebhookID e = lweWebhookID opts) \<and>
     (case lweTenantID opts of None \<Rightarrow> True | Some x \<Rightarrow> weTenantID e = Some x) \<and>
     (case lweStatus opts of None \<Rightarrow> True | Some x \<Rightarrow> weStatus e = x) \<and>
     (case lweEventType opts of None \<Rightarrow> True | Some x \<Rightarrow> weEventType e = x)"

definition listWebhookEvents ::
  "ctx \<Rightarrow> ListWebhookEventsOptions \<Rightarrow> db \<Rightarrow> hook_tables \<Rightarrow> gerr + WebhookEvent ListResult" where
  "listWebhookEvents c opts d t =
     newest_first webhookEventSortColumns weCreatedAt weID (list_limit (lweLimit opts)) (lweOffset opts) (lweCursor opts)
       (filter (\<lambda>e. rls_visible d c (weTenantID e) \<and> event_matches opts e) (webhook_events t))"

definition apply_event_updates :: "int \<Rightarrow> WebhookEventUpdates \<Rightarrow> WebhookEvent \<Rightarrow> WebhookEvent" where
  "apply_event_updates now u e = e\<lparr>
     weStatus := upd (weuStatus u) (weStatus e), weAttempts := upd (weuAttempts u) (weAttempts e),
     weLastError := (case weuLastError u of None \<Rightarrow> weLastError e | Some x \<Rightarrow> Some x),
     weLastStatusCode := (case weuLastStatusCode u of None \<Rightarrow> weLastStatusCode e | Some x \<Rightarrow> Some x),
     weNextRetryAt := (case weuNextRetryAt u of None \<Rightarrow> weNextRetryAt e | Some x \<Rightarrow> Some x),
     weDeliveredAt := (case weuDeliveredAt u of None \<Rightarrow> weDeliveredAt e | Some x \<Rightarrow> Some x),
     weUpdatedAt := now\<rparr>"

definition updateWebhookEvent ::
  "int \<Rightarrow> ctx \<Rightarrow> string \<Rightarrow> WebhookEventUpdates \<Rightarrow> db \<Rightarrow> hook_tables \<Rightarrow> gerr + unit \<times> hook_tables" where
  "updateWebhookEvent now c eid u d t =
     (if u = no_event_updates then Inr ((), t)
      else case find (\<lambda>e. weID e = eid \<and> rls_visible d c (weTenantID e)) (webhook_events t) of
        None \<Rightarrow> Inl (ErrNotFound ''webhook_event'' eid)
      | Some e \<Rightarrow>
          let e' = apply_event_updates now u e in
          if \<not> event_check e' then Inl (ErrInvalidInput ''webhook_event'')
          else Inr ((), t\<lparr>webhook_events := put_row weID eid e' (webhook_events t)\<rparr>))"

definition webhookEventClaimLease :: int where "webhookEventClaimLease = 5 * Minute"

text \<open>
  The claim of a batch: due pending events, oldest first, that no other transaction holds locked
  (\<^verbatim>\<open>SKIP LOCKED\<close>); claiming one moves its next attempt behind the lease.
\<close>

definition claimable :: "int \<Rightarrow> ctx \<Rightarrow> (string \<Rightarrow> bool) \<Rightarrow> db \<Rightarrow> WebhookEvent \<Rightarrow> bool" where
  "claimable now c locked d e \<longleftrightarrow> rls_visible d c (weTenantID e) \<and> weStatus e = WebhookEventStatusPending \<and>
     (case weNextRetryAt e of None \<Rightarrow> True | Some n \<Rightarrow> n \<le> now) \<and> \<not> locked (weID e)"

definition leased :: "int \<Rightarrow> WebhookEvent \<Rightarrow> WebhookEvent" where
  "leased now e = e\<lparr>weNextRetryAt := Some (now + webhookEventClaimLease), weUpdatedAt := now\<rparr>"

definition getPendingWebhookEvents ::
  "int \<Rightarrow> ctx \<Rightarrow> (string \<Rightarrow> bool) \<Rightarrow> int \<Rightarrow> db \<Rightarrow> hook_tables \<Rightarrow> gerr + WebhookEvent list \<times> hook_tables" where
  "getPendingWebhookEvents now c locked limit d t =
     (if limit < 0 then Inl (ErrDatabase ''LIMIT must not be negative'')
      else let claimed = take (nat limit) (sort_key weCreatedAt (filter (claimable now c locked d) (webhook_events t)));
               ids = map weID claimed
           in Inr (map (leased now) claimed,
                t\<lparr>webhook_events := map (\<lambda>e. if weID e \<in> set ids then leased now e else e) (webhook_events t)\<rparr>))"

definition cancelWebhookEventsByWebhook ::
  "int \<Rightarrow> ctx \<Rightarrow> string \<Rightarrow> db \<Rightarrow> hook_tables \<Rightarrow> gerr + unit \<times> hook_tables" where
  "cancelWebhookEventsByWebhook now c wid d t =
     Inr ((), t\<lparr>webhook_events := map (\<lambda>e.
        if rls_visible d c (weTenantID e) \<and> weWebhookID e = wid \<and> weStatus e = WebhookEventStatusPending
        then e\<lparr>weStatus := WebhookEventStatusCanceled, weUpdatedAt := now\<rparr> else e) (webhook_events t)\<rparr>)"

end
