(* ===== verification/Webhook_Manager.thy ===== *)
theory Webhook_Manager
  imports Webhook_Store
begin

text \<open>
  The webhook manager (\<^verbatim>\<open>core/webhook_manager.go\<close>), the delivery of one request
  (\<^verbatim>\<open>webhook/dispatcher.go\<close>), the events the other managers report (\<^verbatim>\<open>core/webhook_integration.go\<close>)
  and the periodic job (\<^verbatim>\<open>jobs/webhook_delivery.go\<close>).

  The world adds to the one of the managers the webhook tables and the requests that were posted.
  Its environment answers requests, reads randomness, computes SHA-256, HMAC and AES-GCM, prints JSON
  and times, and says which rows other transactions hold locked.
\<close>

section \<open>World\<close>

datatype http_outcome = HttpFailed string | HttpStatus int

record http_post =
  hpEventID :: string
  hpURL :: string
  hpHeaders :: headers
  hpBody :: string

record hook_world =
  hw_core :: world
  hw_tables :: hook_tables
  hw_posts :: "http_post list"
  he_config :: WebhookConfig
  he_http :: "nat \<Rightarrow> http_outcome"
  he_url_err :: "string \<Rightarrow> string option"
  he_random :: "nat \<Rightarrow> nat \<Rightarrow> nat"
  he_random_err :: "nat \<Rightarrow> string option"
  he_sha256 :: "string \<Rightarrow> nat list"
  he_hmac :: hmac
  he_seal :: "string \<Rightarrow> nat list \<Rightarrow> string \<Rightarrow> nat list" \<comment> \<open>key, nonce, plaintext\<close>
  he_open :: "string \<Rightarrow> nat list \<Rightarrow> nat list \<Rightarrow> string option"
  he_json_text :: "json \<Rightarrow> string"
  he_time_text :: "int \<Rightarrow> string"
  he_locked :: "nat \<Rightarrow> string \<Rightarrow> bool"

type_synonym 'a H = "(hook_world, 'a) state"
type_synonym 'a HG = "(hook_world, gerr + 'a) state"

definition hcore :: "'a M \<Rightarrow> 'a H" where
  "hcore m = State (\<lambda>a. case run_state m (hw_core a) of (x, w) \<Rightarrow> (x, a\<lparr>hw_core := w\<rparr>))"

definition hasks :: "(hook_world \<Rightarrow> 'a) \<Rightarrow> 'a H" where
  "hasks f = State (\<lambda>a. (f a, a))"

text \<open>A statement on the webhook tables; it also learns its tick.\<close>

definition exec_hook :: "(nat \<Rightarrow> int \<Rightarrow> db \<Rightarrow> hook_tables \<Rightarrow> gerr + 'a \<times> hook_tables) \<Rightarrow> 'a HG" where
  "exec_hook f = State (\<lambda>a.
     (let w = hw_core a; t = w_tick w; a' = a\<lparr>hw_core := w\<lparr>w_tick := Suc t\<rparr>\<rparr> in
      case e_fault w t of
        Some m \<Rightarrow> (Inl (ErrDatabase m), a')
      | None \<Rightarrow>
          (case f t (e_clock w t) (w_db w) (hw_tables a) of
             Inl e \<Rightarrow> (Inl e, a')
           | Inr (x, tb) \<Rightarrow> (Inr x, a'\<lparr>hw_tables := tb\<rparr>))))"

definition query_hook :: "(db \<Rightarrow> hook_tables \<Rightarrow> gerr + 'a) \<Rightarrow> 'a HG" where
  "query_hook f = exec_hook (\<lambda>_ _ d t. case f d t of Inl e \<Rightarrow> Inl e | Inr x \<Rightarrow> Inr (x, t))"

section \<open>Store methods\<close>

definition CreateWebhook :: "ctx \<Rightarrow> Webhook \<Rightarrow> Webhook HG" where
  "CreateWebhook c w = do {
     wid \<leftarrow> (if whID w = [] then hcore new_id else ret (whID w));
     exec_hook (\<lambda>_ now. createWebhook now c (w\<lparr>whID := wid\<rparr>))
   }"

definition GetWebhook :: "ctx \<Rightarrow> string \<Rightarrow> Webhook HG" where
  "GetWebhook c wid = query_hook (getWebhook c wid)"

definition GetWebhookByName :: "ctx \<Rightarrow> string \<Rightarrow> string option \<Rightarrow> Webhook HG" where
  "GetWebhookByName c name tenantID = query_hook (getWebhookByName c name tenantID)"

definition ListWebhooks :: "ctx \<Rightarrow> ListWebhooksOptions \<Rightarrow> Webhook ListResult HG" where
  "ListWebhooks c opts = query_hook (listWebhooks c opts)"

definition UpdateWebhook :: "ctx \<Rightarrow> string \<Rightarrow> WebhookUpdates \<Rightarrow> unit HG" where
  "UpdateWebhook c wid u = exec_hook (\<lambda>_ now. updateWebhook now c wid u)"

definition DeleteWebhook :: "ctx \<Rightarrow> string \<Rightarrow> unit HG" where
  "DeleteWebhook c wid = exec_hook (\<lambda>_ _. deleteWebhook c wid)"

definition GetActiveWebhooksForEvent :: "ctx \<Rightarrow> string \<Rightarrow> string option \<Rightarrow> Webhook list HG" where
  "GetActiveWebhooksForEvent c eventType tenantID = query_hook (getActiveWebhooksForEvent c tenantID)"

definition CreateWebhookEvent :: "ctx \<Rightarrow> WebhookEvent \<Rightarrow> WebhookEvent HG" where
  "CreateWebhookEvent c e = do {
     eid \<leftarrow> (if weID e = [] then hcore new_id else ret (weID e));
     exec_hook (\<lambda>_ now. createWebhookEvent now c (e\<lparr>weID := eid\<rparr>))
   }"

definition GetWebhookEvent :: "ctx \<Rightarrow> string \<Rightarrow> WebhookEvent HG" where
  "GetWebhookEvent c eid = query_hook (getWebhookEvent c eid)"

definition ListWebhookEvents :: "ctx \<Rightarrow> ListWebhookEventsOptions \<Rightarrow> WebhookEvent ListResult HG" where
  "ListWebhookEvents c opts = query_hook (listWebhookEvents c opts)"

definition UpdateWebhookEvent :: "ctx \<Rightarrow> string \<Rightarrow> WebhookEventUpdates \<Rightarrow> unit HG" where
  "UpdateWebhookEvent c eid u = exec_hook (\<lambda>_ now. updateWebhookEvent now c eid u)"

definition GetPendingWebhookEvents :: "ctx \<Rightarrow> int \<Rightarrow> WebhookEvent list HG" where
  "GetPendingWebhookEvents c limit = do {
     locked \<leftarrow> hasks he_locked;
     exec_hook (\<lambda>t now. getPendingWebhookEvents now c (locked t) limit)
   }"

definition CancelWebhookEventsByWebhook :: "ctx \<Rightarrow> string \<Rightarrow> unit HG" where
  "CancelWebhookEventsByWebhook c wid = exec_hook (\<lambda>_ now. cancelWebhookEventsByWebhook now c wid)"

section \<open>Secrets\<close>

definition read_random :: "nat \<Rightarrow> nat list HG" where
  "read_random n = do {
     t \<leftarrow> hcore next_tick;
     e \<leftarrow> hasks he_random_err;
     r \<leftarrow> hasks he_random;
     (case e t of Some m \<Rightarrow> err (ErrRandom m) | None \<Rightarrow> ok (map (\<lambda>i. r t i mod 256) [0..<n]))
   }"

definition GenerateSecret :: "(string \<times> string \<times> string) HG" where
  "GenerateSecret = guard_ok (read_random secretLength) (\<lambda>bytes. do {
     sha \<leftarrow> hasks he_sha256;
     let secret = hex_encode bytes;
     ok (secret, HashSecret sha secret, take 8 secret)
   })"

text \<open>\<^verbatim>\<open>aes.NewCipher\<close> refuses a key of another length; the nonce of GCM has 12 bytes.\<close>

definition aes_key_ok :: "string \<Rightarrow> bool" where
  "aes_key_ok key \<longleftrightarrow> length key \<in> {16, 24, 32}"

definition gcm_NonceSize :: nat where "gcm_NonceSize = 12"

definition encryptSecret :: "string \<Rightarrow> string HG" where
  "encryptSecret secret = do {
     cfg \<leftarrow> hasks he_config;
     seal \<leftarrow> hasks he_seal;
     let key = wcEncryptionKey cfg;
     (if key = [] then ok (StdEncoding (string_bytes secret))
      else if \<not> aes_key_ok key then err (ErrCipher ''invalid key size'')
      else guard_ok (read_random gcm_NonceSize) (\<lambda>nonce. ok (StdEncoding (nonce @ seal key nonce secret))))
   }"

definition decryptSecret :: "string \<Rightarrow> string HG" where
  "decryptSecret encrypted = do {
     cfg \<leftarrow> hasks he_config;
     unseal \<leftarrow> hasks he_open;
     let key = wcEncryptionKey cfg;
     (case StdDecode encrypted of
        None \<Rightarrow> err (ErrCipher ''illegal base64 data'')
      | Some data \<Rightarrow>
          if key = [] then ok (bytes_string data)
          else if \<not> aes_key_ok key then err (ErrCipher ''invalid key size'')
          else if length data < gcm_NonceSize then err (ErrCipher ''ciphertext too short'')
          else case unseal key (take gcm_NonceSize data) (drop gcm_NonceSize data) of
            None \<Rightarrow> err (ErrCipher ''message authentication failed'')
          | Some plaintext \<Rightarrow> ok plaintext)
   }"

section \<open>Webhooks\<close>

record CreateWebhookInput =
  cwName :: string
  cwURL :: string
  cwEvents :: "string list option"
  cwMaxRetries :: "int option"
  cwRetryDelaySeconds :: "int option"
  cwTimeoutSeconds :: "int option"
  cwHeaders :: "(string \<times> string) list option"
  cwTenantID :: "string option"
  cwLabels :: "(string \<times> string) list option"
  cwAnnotations :: "(string \<times> string) list option"

record UpdateWebhookInput =
  uwName :: "string option"
  uwURL :: "string option"
  uwEvents :: "string list option"
  uwIsActive :: "bool option"
  uwMaxRetries :: "int option"
  uwRetryDelaySeconds :: "int option"
  uwTimeoutSeconds :: "int option"
  uwHeaders :: "(string \<times> string) list option"
  uwLabels :: "(string \<times> string) list option"
  uwAnnotations :: "(string \<times> string) list option"

definition patterns_ok :: "string list option \<Rightarrow> bool" where
  "patterns_ok events = (case events of None \<Rightarrow> True | Some ps \<Rightarrow> list_all ValidateEventPattern ps)"

definition new_webhook ::
  "string \<Rightarrow> int \<Rightarrow> WebhookConfig \<Rightarrow> string \<times> string \<times> string \<Rightarrow> string \<Rightarrow> CreateWebhookInput \<Rightarrow> Webhook" where
  "new_webhook wid now cfg = (\<lambda>(secret, secretHash, secretPrefix) secretEncrypted input.
     \<lparr>whID = wid, whName = cwName input, whURL = cwURL input, whEvents = cwEvents input,
      whSecretEncrypted = secretEncrypted, whSecretHash = secretHash, whSecretPrefix = secretPrefix,
      whIsActive = True,
      whMaxRetries = upd (cwMaxRetries input) (wcDefaultMaxRetries cfg),
      whRetryDelaySeconds = upd (cwRetryDelaySeconds input) (wcDefaultRetryDelaySeconds cfg),
      whTimeoutSeconds = upd (cwTimeoutSeconds input) (wcDefaultTimeoutSeconds cfg),
      whHeaders = marshal_map (cwHeaders input), whTenantID = cwTenantID input,
      whLabels = marshal_map (cwLabels input), whAnnotations = marshal_map (cwAnnotations input),
      whCreatedAt = now, whUpdatedAt = now\<rparr>)"

definition wh_Create :: "ctx \<Rightarrow> CreateWebhookInput \<Rightarrow> (Webhook \<times> string) HG" where
  "wh_Create c input =
     (if \<not> patterns_ok (cwEvents input) then err ErrInvalidEventPattern
      else do {
        r \<leftarrow> GetWebhookByName c (cwName input) (cwTenantID input);
        (case r of
           Inr _ \<Rightarrow> err ErrWebhookNameExists
         | Inl e \<Rightarrow>
             if \<not> is_not_found e then err e
             else guard_ok GenerateSecret (\<lambda>secret.
               guard_ok (encryptSecret (fst secret)) (\<lambda>secretEncrypted. do {
                 now \<leftarrow> hcore Now;
                 wid \<leftarrow> hcore new_id;
                 cfg \<leftarrow> hasks he_config;
                 guard_ok (CreateWebhook c (new_webhook wid now cfg secret secretEncrypted input)) (\<lambda>wh.
                   ok (wh, fst secret))
               })))
      })"

definition wh_Get :: "ctx \<Rightarrow> string \<Rightarrow> Webhook HG" where
  "wh_Get c wid = map_err (not_found_as ErrWebhookNotFound) (GetWebhook c wid)"

definition wh_GetByName :: "ctx \<Rightarrow> string \<Rightarrow> string option \<Rightarrow> Webhook HG" where
  "wh_GetByName c name tenantID = map_err (not_found_as ErrWebhookNotFound) (GetWebhookByName c name tenantID)"

definition wh_List :: "ctx \<Rightarrow> ListWebhooksOptions \<Rightarrow> Webhook ListResult HG" where
  "wh_List c opts = ListWebhooks c opts"

definition wh_updates :: "UpdateWebhookInput \<Rightarrow> WebhookUpdates" where
  "wh_updates input = no_webhook_updates\<lparr>
     wuName := uwName input, wuURL := uwURL input, wuEvents := uwEvents input, wuIsActive := uwIsActive input,
     wuMaxRetries := uwMaxRetries input, wuRetryDelaySeconds := uwRetryDelaySeconds input,
     wuTimeoutSeconds := uwTimeoutSeconds input,
     wuHeaders := map_option (\<lambda>m. marshal_map (Some m)) (uwHeaders input),
     wuLabels := map_option (\<lambda>m. marshal_map (Some m)) (uwLabels input),
     wuAnnotations := map_option (\<lambda>m. marshal_map (Some m)) (uwAnnotations input)\<rparr>"

definition wh_Update :: "ctx \<Rightarrow> string \<Rightarrow> UpdateWebhookInput \<Rightarrow> unit HG" where
  "wh_Update c wid input =
     (if \<not> patterns_ok (uwEvents input) then err ErrInvalidEventPattern
      else guard_ok (wh_Get c wid) (\<lambda>_. UpdateWebhook c wid (wh_updates input)))"

definition wh_Delete :: "ctx \<Rightarrow> string \<Rightarrow> unit HG" where
  "wh_Delete c wid = guard_ok (wh_Get c wid) (\<lambda>_. do {
     _ \<leftarrow> ignore_err (CancelWebhookEventsByWebhook c wid);
     DeleteWebhook c wid
   })"

definition RotateSecret :: "ctx \<Rightarrow> string \<Rightarrow> string HG" where
  "RotateSecret c wid = guard_ok (wh_Get c wid) (\<lambda>_.
     guard_ok GenerateSecret (\<lambda>(secret, secretHash, secretPrefix).
       guard_ok (encryptSecret secret) (\<lambda>secretEncrypted.
         guard_ok (UpdateWebhook c wid (no_webhook_updates\<lparr>wuSecretEncrypted := Some secretEncrypted,
             wuSecretHash := Some secretHash, wuSecretPrefix := Some secretPrefix\<rparr>)) (\<lambda>_. ok secret))))"

section \<open>Queueing events\<close>

definition BuildPayload :: "string \<Rightarrow> ResourceInfo \<Rightarrow> json \<Rightarrow> Payload H" where
  "BuildPayload eventType resource data = do {
     now \<leftarrow> hcore Now;
     ret \<lparr>plEvent = eventType, plTimestamp = now, plResource = resource, plData = data\<rparr>
   }"

definition new_event :: "string \<Rightarrow> int \<Rightarrow> string \<Rightarrow> Webhook \<Rightarrow> json \<Rightarrow> string option \<Rightarrow> WebhookEvent" where
  "new_event eid now eventType wh payload tenantID =
     \<lparr>weID = eid, weWebhookID = whID wh, weEventType = eventType, wePayload = payload,
      weStatus = WebhookEventStatusPending, weAttempts = 0, weLastError = None, weLastStatusCode = None,
      weNextRetryAt = None, weDeliveredAt = None, weTenantID = tenantID, weCreatedAt = now, weUpdatedAt = now\<rparr>"

definition subscribed :: "string \<Rightarrow> Webhook \<Rightarrow> bool" where
  "subscribed eventType wh = Matches eventType (case whEvents wh of None \<Rightarrow> [] | Some ps \<Rightarrow> ps)"

definition queue_event :: "ctx \<Rightarrow> string \<Rightarrow> int \<Rightarrow> json \<Rightarrow> string option \<Rightarrow> Webhook \<Rightarrow> unit H" where
  "queue_event c eventType now payload tenantID wh =
     (if \<not> subscribed eventType wh then ret ()
      else do {
        eid \<leftarrow> hcore new_id;
        ignore_err (CreateWebhookEvent c (new_event eid now eventType wh payload tenantID))
      })"

definition Dispatch :: "ctx \<Rightarrow> string \<Rightarrow> ResourceInfo \<Rightarrow> json \<Rightarrow> string option \<Rightarrow> unit HG" where
  "Dispatch c eventType resource data tenantID =
     guard_ok (GetActiveWebhooksForEvent c eventType tenantID) (\<lambda>whs.
       if whs = [] then ok ()
       else do {
         payload \<leftarrow> BuildPayload eventType resource data;
         now \<leftarrow> hcore Now;
         _ \<leftarrow> for_each (queue_event c eventType now (payload_json payload) tenantID) whs;
         ok ()
       })"

definition GetEvent :: "ctx \<Rightarrow> string \<Rightarrow> WebhookEvent HG" where
  "GetEvent c eid = map_err (not_found_as ErrWebhookEventNotFound) (GetWebhookEvent c eid)"

definition ListEvents :: "ctx \<Rightarrow> ListWebhookEventsOptions \<Rightarrow> WebhookEvent ListResult HG" where
  "ListEvents c opts = ListWebhookEvents c opts"

definition RetryEvent :: "ctx \<Rightarrow> string \<Rightarrow> unit HG" where
  "RetryEvent c eid = guard_ok (GetEvent c eid) (\<lambda>event.
     if weStatus event \<noteq> WebhookEventStatusFailed \<and> weStatus event \<noteq> WebhookEventStatusExhausted
     then err ErrEventNotRetryable
     else do {
       now \<leftarrow> hcore Now;
       UpdateWebhookEvent c eid (no_event_updates\<lparr>weuStatus := Some WebhookEventStatusPending, weuNextRetryAt := Some now\<rparr>)
     })"

section \<open>Events of the other managers\<close>

definition opt_str :: "string \<Rightarrow> string option \<Rightarrow> (string \<times> json) list" where
  "opt_str k v = (case v of None \<Rightarrow> [] | Some s \<Rightarrow> [(k, JStr s)])"

definition opt_int :: "string \<Rightarrow> int option \<Rightarrow> (string \<times> json) list" where
  "opt_int k v = (case v of None \<Rightarrow> [] | Some n \<Rightarrow> [(k, JInt n)])"

definition nonblank :: "string \<Rightarrow> string \<Rightarrow> (string \<times> json) list" where
  "nonblank k v = (if v = [] then [] else [(k, JStr v)])"

definition plain_resource :: "string \<Rightarrow> string \<Rightarrow> ResourceInfo" where
  "plain_resource i type = \<lparr>rfID = i, rfType = type, rfLabels = None, rfAnnotations = None\<rparr>"

definition SessionEventData :: "Session \<Rightarrow> json" where
  "SessionEventData s = JObj ([(''workspace_id'', JStr (sWorkspaceID s)), (''agent'', JStr (sAgent s)),
     (''status'', JStr (sStatus s))] @ opt_str ''runner_id'' (sRunnerID s) @ nonblank ''lifecycle_mode'' (sLifecycleMode s))"

definition DispatchSessionEvent :: "ctx \<Rightarrow> string \<Rightarrow> Session \<Rightarrow> unit H" where
  "DispatchSessionEvent c eventType s =
     ignore_err (Dispatch c eventType (plain_resource (sID s) ''session'') (SessionEventData s) (sTenantID s))"

definition truncated_prompt :: "string \<Rightarrow> string" where
  "truncated_prompt prompt = (if length prompt > 100 then take 100 prompt @ ''...'' else prompt)"

text \<open>\<^verbatim>\<open>int64(d.Seconds())\<close>\<close>

definition whole_seconds :: "int \<Rightarrow> int" where
  "whole_seconds d = (if d < 0 then - ((- d) div Second) else d div Second)"

definition run_duration :: "TaskRun \<Rightarrow> int option" where
  "run_duration r =
     (case (trStartedAt r, trEndedAt r) of
        (Some s, Some e) \<Rightarrow> Some (whole_seconds (time_Sub e s)) | _ \<Rightarrow> None)"

definition TaskEventData :: "Task \<Rightarrow> TaskRun option \<Rightarrow> json" where
  "TaskEventData task run = JObj ([(''session_id'', JStr (tSessionID task))] @
     nonblank ''prompt'' (truncated_prompt (tPrompt task)) @ [(''status'', JStr (tStatus task))] @
     (case run of None \<Rightarrow> []
      | Some r \<Rightarrow> opt_int ''duration_seconds'' (run_duration r) @ opt_int ''exit_code'' (trExitCode r) @
          opt_str ''error'' (trError r) @ opt_int ''tokens_input'' (trTokensInput r) @
          opt_int ''tokens_output'' (trTokensOutput r)))"

definition DispatchTaskEvent :: "ctx \<Rightarrow> string \<Rightarrow> Task \<Rightarrow> TaskRun option \<Rightarrow> unit H" where
  "DispatchTaskEvent c eventType task run =
     ignore_err (Dispatch c eventType (plain_resource (tID task) ''task'') (TaskEventData task run) (tTenantID task))"

definition RunnerEventData :: "Runner \<Rightarrow> string option \<Rightarrow> json" where
  "RunnerEventData r sessionID = JObj ([(''name'', JStr (rName r)), (''status'', JStr (rStatus r))] @
     opt_str ''pool_name'' (rPoolName r) @ opt_str ''session_id'' sessionID @ nonblank ''sandbox_mode'' (rSandboxMode r))"

definition DispatchRunnerEvent :: "ctx \<Rightarrow> string \<Rightarrow> Runner \<Rightarrow> string option \<Rightarrow> unit H" where
  "DispatchRunnerEvent c eventType r sessionID =
     ignore_err (Dispatch c eventType (plain_resource (rID r) ''runner'') (RunnerEventData r sessionID) (rTenantID r))"

definition PermissionEventData :: "PermissionRequest \<Rightarrow> json" where
  "PermissionEventData p = JObj ([(''session_id'', JStr (pSessionID p)), (''task_id'', JStr (pTaskID p)),
     (''tool'', JStr (pTool p)), (''action'', JStr (pAction p)), (''risk_level'', JStr (pRiskLevel p)),
     (''status'', JStr (pStatus p))] @ opt_str ''responded_by'' (pRespondedBy p) @
     opt_str ''response_reason'' (pResponseReason p))"

definition DispatchPermissionEvent :: "ctx \<Rightarrow> string \<Rightarrow> PermissionRequest \<Rightarrow> unit H" where
  "DispatchPermissionEvent c eventType p =
     ignore_err (Dispatch c eventType (plain_resource (pID p) ''permission_request'') (PermissionEventData p) (pTenantID p))"

section \<open>One request\<close>

record WebhookInfo =
  wiID :: string
  wiURL :: string
  wiHeaders :: headers
  wiTimeoutSeconds :: int

definition failed_result :: "string \<Rightarrow> DeliveryResult" where
  "failed_result e = \<lparr>drSuccess = False, drStatusCode = 0, drError = Some e\<rparr>"

definition request_headers :: "string \<Rightarrow> string \<Rightarrow> headers \<Rightarrow> string \<Rightarrow> int \<Rightarrow> headers" where
  "request_headers userAgent eventID custom signature timestamp =
     (let h1 = header_Set IDHeader eventID (header_Set ''User-Agent'' userAgent
                 (header_Set ''Content-Type'' ''application/json'' []));
          h2 = fold (\<lambda>(k, v). header_Set k v) custom h1
      in header_Set TimestampHeader (show_int (unix_seconds timestamp)) (header_Set SignatureHeader signature h2))"

definition http_result :: "int \<Rightarrow> DeliveryResult" where
  "http_result code =
     (let success = (code \<ge> 200 \<and> code < 300)
      in \<lparr>drSuccess = success, drStatusCode = code,
          drError = (if success then None else Some (''webhook returned status '' @ show_int code))\<rparr>)"

text \<open>
  One call of \<^verbatim>\<open>http.Client.Do\<close>, recorded as one request. Redirects, which the client follows by itself
  and, for statuses 307 and 308, by posting the body again, are within the call and not modelled.
\<close>

definition post :: "http_post \<Rightarrow> DeliveryResult H" where
  "post req = do {
     t \<leftarrow> hcore next_tick;
     http \<leftarrow> hasks he_http;
     _ \<leftarrow> State (\<lambda>a. ((), a\<lparr>hw_posts := hw_posts a @ [req]\<rparr>));
     ret (case http t of HttpFailed m \<Rightarrow> failed_result (''request failed: '' @ m) | HttpStatus code \<Rightarrow> http_result code)
   }"

definition deliver :: "WebhookInfo \<Rightarrow> Payload \<Rightarrow> string \<Rightarrow> string \<Rightarrow> DeliveryResult H" where
  "deliver wh payload eventID secret = do {
     cfg \<leftarrow> hasks he_config;
     print \<leftarrow> hasks he_json_text;
     url_err \<leftarrow> hasks he_url_err;
     hm \<leftarrow> hasks he_hmac;
     let body = print (payload_json payload);
     (if int (length body) > wcMaxPayloadSize cfg then
        ret (failed_result (''payload size '' @ show_int (int (length body)) @ '' exceeds max '' @ show_int (wcMaxPayloadSize cfg)))
      else case url_err (wiURL wh) of
        Some m \<Rightarrow> ret (failed_result (''failed to create request: '' @ m))
      | None \<Rightarrow> do {
          timestamp \<leftarrow> hcore Now;
          let signature = Sign hm body secret timestamp;
          post \<lparr>hpEventID = eventID, hpURL = wiURL wh,
            hpHeaders = request_headers (wcUserAgent cfg) eventID (wiHeaders wh) signature timestamp, hpBody = body\<rparr>
        })
   }"

section \<open>Delivering the queue\<close>

fun header_value :: "(int \<Rightarrow> string) \<Rightarrow> json \<Rightarrow> string option" where
  "header_value f (JStr s) = Some s"
| "header_value f (JTime t) = Some (f t)"
| "header_value f JNull = Some []"
| "header_value f _ = None"

fun header_pairs :: "(int \<Rightarrow> string) \<Rightarrow> (string \<times> json) list \<Rightarrow> headers option" where
  "header_pairs f [] = Some []"
| "header_pairs f ((k, v) # rest) =
     (case header_value f v of None \<Rightarrow> None | Some s \<Rightarrow> map_option (Cons (k, s)) (header_pairs f rest))"

fun parse_headers :: "(int \<Rightarrow> string) \<Rightarrow> json \<Rightarrow> headers" where
  "parse_headers f (JObj kvs) = (case header_pairs f kvs of None \<Rightarrow> [] | Some h \<Rightarrow> h)"
| "parse_headers f _ = []"

definition cancel_updates :: WebhookEventUpdates where
  "cancel_updates = no_event_updates\<lparr>weuStatus := Some WebhookEventStatusCanceled\<rparr>"

definition outcome_updates :: "int \<Rightarrow> int \<Rightarrow> Webhook \<Rightarrow> WebhookEvent \<Rightarrow> DeliveryResult \<Rightarrow> WebhookEventUpdates" where
  "outcome_updates now retryNow wh event result =
     (let attempts = weAttempts event + 1 in
      if drSuccess result then
        no_event_updates\<lparr>weuStatus := Some WebhookEventStatusDelivered, weuAttempts := Some attempts,
          weuDeliveredAt := Some now\<rparr>
      else
        let u = no_event_updates\<lparr>weuAttempts := Some attempts, weuLastError := drError result,
              weuLastStatusCode := (if drStatusCode result > 0 then Some (drStatusCode result) else None)\<rparr>
        in if attempts \<ge> whMaxRetries wh then u\<lparr>weuStatus := Some WebhookEventStatusExhausted\<rparr>
           else if hook_ShouldRetry (drStatusCode result) \<or> drStatusCode result = 0 then
             u\<lparr>weuStatus := Some WebhookEventStatusPending,
               weuNextRetryAt := Some (CalculateNextRetry retryNow attempts (int64 (whRetryDelaySeconds wh * Second)))\<rparr>
           else u\<lparr>weuStatus := Some WebhookEventStatusFailed\<rparr>)"

definition deliverEvent :: "ctx \<Rightarrow> WebhookEvent \<Rightarrow> unit HG" where
  "deliverEvent c event = do {
     r \<leftarrow> GetWebhook c (weWebhookID event);
     (case r of
        Inl e \<Rightarrow> if is_not_found e then UpdateWebhookEvent c (weID event) cancel_updates else err e
      | Inr wh \<Rightarrow>
          if \<not> whIsActive wh then UpdateWebhookEvent c (weID event) cancel_updates
          else do {
            time_text \<leftarrow> hasks he_time_text;
            (case parse_payload (wePayload event) of
               Inl e \<Rightarrow> err e
             | Inr payload \<Rightarrow> guard_ok (decryptSecret (whSecretEncrypted wh)) (\<lambda>secret. do {
                 result \<leftarrow> deliver \<lparr>wiID = whID wh, wiURL = whURL wh, wiHeaders = parse_headers time_text (whHeaders wh),
                   wiTimeoutSeconds = whTimeoutSeconds wh\<rparr> payload (weID event) secret;
                 now \<leftarrow> hcore Now;
                 retryNow \<leftarrow> hcore Now;
                 UpdateWebhookEvent c (weID event) (outcome_updates now retryNow wh event result)
               }))
          })
   }"

fun deliver_each :: "ctx \<Rightarrow> WebhookEvent list \<Rightarrow> int \<Rightarrow> int H" where
  "deliver_each c [] delivered = ret delivered"
| "deliver_each c (event # rest) delivered = do {
     r \<leftarrow> deliverEvent c event;
     deliver_each c rest (case r of Inl _ \<Rightarrow> delivered | Inr _ \<Rightarrow> delivered + 1)
   }"

definition DeliverPendingEvents :: "ctx \<Rightarrow> int \<Rightarrow> int HG" where
  "DeliverPendingEvents c limit = guard_ok (GetPendingWebhookEvents c limit) (\<lambda>events. do {
     delivered \<leftarrow> deliver_each c events 0;
     ok delivered
   })"

section \<open>The delivery job\<close>

record WebhookDeliveryJob =
  wjBatchSize :: int
  wjLastRun :: int
  wjLastDelivered :: int
  wjTotalDelivered :: int
  wjConsecutiveErrs :: int

definition NewWebhookDeliveryJob :: "int \<Rightarrow> WebhookDeliveryJob" where
  "NewWebhookDeliveryJob batchSize = \<lparr>wjBatchSize = (if batchSize \<le> 0 then 100 else batchSize), wjLastRun = 0,
     wjLastDelivered = 0, wjTotalDelivered = 0, wjConsecutiveErrs = 0\<rparr>"

definition runDelivery :: "ctx \<Rightarrow> WebhookDeliveryJob \<Rightarrow> (int \<times> WebhookDeliveryJob) HG" where
  "runDelivery c j = guard_ok (DeliverPendingEvents c (wjBatchSize j)) (\<lambda>delivered. do {
     now \<leftarrow> hcore Now;
     ok (delivered, j\<lparr>wjLastRun := now, wjLastDelivered := delivered,
       wjTotalDelivered := int64 (wjTotalDelivered j + delivered)\<rparr>)
   })"

definition job_tick :: "ctx \<Rightarrow> WebhookDeliveryJob \<Rightarrow> WebhookDeliveryJob H" where
  "job_tick c j = do {
     r \<leftarrow> runDelivery c j;
     ret (case r of Inl _ \<Rightarrow> j\<lparr>wjConsecutiveErrs := wjConsecutiveErrs j + 1\<rparr> | Inr (_, j') \<Rightarrow> j'\<lparr>wjConsecutiveErrs := 0\<rparr>)
   }"

end
