(* ===== verification/Webhook_Text_Laws.thy ===== *)
theory Webhook_Text_Laws
  imports Webhook_Manager
begin

text \<open>
  Facts on the texts of the webhook subsystem: base64 and decimal numbers round trip, headers, the
  retry schedule, patterns.
\<close>

section \<open>Standard base64\<close>

lemma std_digits: "list_all (\<lambda>i. std_value (std_alphabet ! i) = Some i \<and> std_alphabet ! i \<noteq> CHR ''='' \<and>
    std_alphabet ! i \<noteq> CHR 0x0A \<and> std_alphabet ! i \<noteq> CHR 0x0D) [0..<64]"
  by code_simp

lemma std_digit [simp]:
  "std_value (std_digit i) = Some (i mod 64)" "std_digit i \<noteq> CHR ''=''" "CHR ''='' \<noteq> std_digit i"
  "std_digit i \<noteq> CHR 0x0A" "std_digit i \<noteq> CHR 0x0D"
proof -
  have "i mod 64 \<in> set [0..<64]" by simp
  with std_digits have "std_value (std_alphabet ! (i mod 64)) = Some (i mod 64) \<and> std_alphabet ! (i mod 64) \<noteq> CHR ''='' \<and>
      std_alphabet ! (i mod 64) \<noteq> CHR 0x0A \<and> std_alphabet ! (i mod 64) \<noteq> CHR 0x0D"
    unfolding list_all_iff by blast
  then show "std_value (std_digit i) = Some (i mod 64)" "std_digit i \<noteq> CHR ''=''" "CHR ''='' \<noteq> std_digit i"
    "std_digit i \<noteq> CHR 0x0A" "std_digit i \<noteq> CHR 0x0D" by (auto simp: std_digit_def)
qed

lemma split_digit:
  fixes r q m n :: nat
  assumes "r < m" "q < n"
  shows "(r * n + q) mod (m * n) = r * n + q" "(r * n + q) div n = r" "(r * n + q) mod n = q"
proof -
  have "r * n + q < Suc r * n" using assms(2) by simp
  also have "\<dots> \<le> m * n" using assms(1) by (intro mult_right_mono) simp_all
  finally show "(r * n + q) mod (m * n) = r * n + q" by simp
qed (use assms in simp_all)

lemma quad_digits:
  fixes x y z :: nat
  assumes "x < 256" "y < 256" "z < 256"
  shows "quad (x div 4 mod 64) ((x mod 4 * 16 + y div 16) mod 64) ((y mod 16 * 4 + z div 64) mod 64) (z mod 64 mod 64) = [x, y, z]"
proof -
  have b: "(x mod 4 * 16 + y div 16) mod 64 = x mod 4 * 16 + y div 16" "(y mod 16 * 4 + z div 64) mod 64 = y mod 16 * 4 + z div 64"
    using assms split_digit [of "x mod 4" 4 "y div 16" 16] split_digit [of "y mod 16" 16 "z div 64" 4] by simp_all
  have "(x mod 4 * 16 + y div 16) div 16 = x mod 4" "(x mod 4 * 16 + y div 16) mod 16 = y div 16"
    "(y mod 16 * 4 + z div 64) div 4 = y mod 16" "(y mod 16 * 4 + z div 64) mod 4 = z div 64"
    using assms split_digit [of "x mod 4" 4 "y div 16" 16] split_digit [of "y mod 16" 16 "z div 64" 4] by simp_all
  moreover have "x div 4 mod 64 = x div 4" using assms by simp
  ultimately show ?thesis unfolding quad_def b by simp
qed

lemma std_decode_encoding: "\<forall>b \<in> set bs. b < 256 \<Longrightarrow> std_decode (StdEncoding bs) = Some bs"
proof (induction bs rule: StdEncoding.induct)
  case (1 x y z rest)
  then show ?case using quad_digits [of x y z] by simp
next
  case (2 x y)
  then show ?case using quad_digits [of x y 0] by (simp add: quad_def)
next
  case (3 x)
  then show ?case using quad_digits [of x 0 0] by (simp add: quad_def)
qed simp

lemma StdEncoding_one_line: "filter (\<lambda>c. c \<noteq> CHR 0x0A \<and> c \<noteq> CHR 0x0D) (StdEncoding bs) = StdEncoding bs"
  by (induction bs rule: StdEncoding.induct) simp_all

lemma StdDecode_StdEncoding: "\<forall>b \<in> set bs. b < 256 \<Longrightarrow> StdDecode (StdEncoding bs) = Some bs"
  unfolding StdDecode_def StdEncoding_one_line by (rule std_decode_encoding)

lemma string_bytes_less: "\<forall>b \<in> set (string_bytes s). b < 256"
  by (auto simp: string_bytes_def)

lemma bytes_string_bytes [simp]: "bytes_string (string_bytes s) = s"
  by (simp add: string_bytes_def bytes_string_def comp_def)

section \<open>Decimal numbers\<close>

lemma digit_char:
  assumes "n < 10" shows "of_char (char_of (48 + n :: nat)) = (48 + int n :: int)"
proof -
  have "(of_char (char_of (48 + n :: nat)) :: nat) = 48 + n" using assms by simp
  from arg_cong [OF this, where f = int] show ?thesis by (simp only: of_nat_of_char of_nat_add of_nat_numeral)
qed

lemma show_nat_digits: "list_all is_digit (show_nat n)"
proof (induction n rule: show_nat.induct)
  case (1 n)
  have "is_digit (char_of (48 + k))" if "k < 10" for k :: nat
    using that by (simp add: is_digit_def digit_char)
  with 1 show ?case by (subst show_nat.simps) simp
qed

lemma digits_int_append: "digits_int (s @ [ch]) = digits_int s * 10 + (of_char ch - 48)"
  by (simp add: digits_int_def)

lemma digits_int_show_nat: "digits_int (show_nat n) = int n"
proof (induction n rule: show_nat.induct)
  case (1 n)
  show ?case
  proof (cases "n < 10")
    case True
    then show ?thesis by (subst show_nat.simps) (simp add: digits_int_def digit_char)
  next
    case False
    with 1 have "digits_int (show_nat (n div 10)) = int (n div 10)" by simp
    moreover have "int (n div 10) * 10 + int (n mod 10) = int n" by presburger
    ultimately show ?thesis using False by (subst show_nat.simps) (simp add: digits_int_append digit_char)
  qed
qed

lemma digit_no_sign: "is_digit ch \<Longrightarrow> ch \<noteq> CHR ''-'' \<and> ch \<noteq> CHR ''+''"
  by (auto simp: is_digit_def)

lemma Atoi_show_int:
  assumes "- (2 ^ 63) \<le> i" "i < 2 ^ 63" shows "Atoi (show_int i) = Some i"
proof (cases "i < 0")
  case True
  then show ?thesis using assms show_nat_digits [of "nat (- i)"]
    by (simp add: Atoi_def show_int_def all_digits_def digits_int_show_nat)
next
  case False
  obtain ch cs where s: "show_nat (nat i) = ch # cs" by (cases "show_nat (nat i)") simp_all
  then have "ch \<noteq> CHR ''-'' \<and> ch \<noteq> CHR ''+''" using show_nat_digits [of "nat i"] digit_no_sign [of ch] by simp
  then show ?thesis using False assms s show_nat_digits [of "nat i"] digits_int_show_nat [of "nat i"]
    by (simp add: Atoi_def show_int_def all_digits_def)
qed

section \<open>Headers\<close>

lemma header_Get_Set [simp]:
  "header_Get k (header_Set k' v h) = (if canonical_key k = canonical_key k' then v else header_Get k h)"
proof -
  have "map_of (filter (\<lambda>kv. fst kv \<noteq> x) h) y = map_of h y" if "y \<noteq> x" for x y
    using that by (induction h) auto
  then show ?thesis by (auto simp: header_Get_def header_Set_def)
qed

lemma signed_headers:
  "header_Get SignatureHeader (request_headers ua eid custom sig ts) = sig"
  "header_Get TimestampHeader (request_headers ua eid custom sig ts) = show_int (unix_seconds ts)"
proof -
  have "canonical_key SignatureHeader \<noteq> canonical_key TimestampHeader" by code_simp
  then show "header_Get SignatureHeader (request_headers ua eid custom sig ts) = sig"
    "header_Get TimestampHeader (request_headers ua eid custom sig ts) = show_int (unix_seconds ts)"
    by (simp_all add: request_headers_def Let_def)
qed

end
