(* ===== verification/Webhook_Laws.thy ===== *)
theory Webhook_Laws
  imports Webhook_Text_Laws
begin

text \<open>
  The webhook tables as a state machine: the statements of any number of processes as steps, the
  schema they keep, the lease of a claimed event, and the contract of everything built from them.
\<close>

section \<open>Statements as steps\<close>

datatype hook_stmt =
    HWebhook string \<comment> \<open>creation, update or deletion of a webhook\<close>
  | HCreateEvent WebhookEvent
  | HUpdateEvent string WebhookEventUpdates
  | HClaim int "string list"
  | HCancelEvents string

inductive hook_step :: "hook_stmt \<Rightarrow> hook_tables \<Rightarrow> hook_tables \<Rightarrow> bool" where
  h_create: "createWebhook now c w d t = Inr (x, t') \<Longrightarrow> hook_step (HWebhook (whID w)) t t'"
| h_update: "updateWebhook now c wid u d t = Inr (y, t') \<Longrightarrow> hook_step (HWebhook wid) t t'"
| h_delete: "deleteWebhook c wid d t = Inr (y, t') \<Longrightarrow> hook_step (HWebhook wid) t t'"
| h_createEvent: "createWebhookEvent now c e d t = Inr (z, t') \<Longrightarrow> hook_step (HCreateEvent e) t t'"
| h_updateEvent: "updateWebhookEvent now c eid eu d t = Inr (y, t') \<Longrightarrow> hook_step (HUpdateEvent eid eu) t t'"
| h_claim: "getPendingWebhookEvents now c locked limit d t = Inr (es, t') \<Longrightarrow> hook_step (HClaim now (map weID es)) t t'"
| h_cancel: "cancelWebhookEventsByWebhook now c wid d t = Inr (y, t') \<Longrightarrow> hook_step (HCancelEvents wid) t t'"

inductive_cases hook_stepE:
  "hook_step (HWebhook wid) t t'" "hook_step (HCreateEvent e) t t'" "hook_step (HUpdateEvent eid eu) t t'"
  "hook_step (HClaim now ids) t t'" "hook_step (HCancelEvents wid) t t'"

inductive hook_run :: "hook_stmt list \<Rightarrow> hook_tables \<Rightarrow> hook_tables \<Rightarrow> bool" where
  hook_none: "hook_run [] t t"
| hook_more: "hook_run ls t t' \<Longrightarrow> hook_step l t' t'' \<Longrightarrow> hook_run (ls @ [l]) t t''"

lemma hook_run_snoc: "hook_run (ls @ [l]) t t'' \<longleftrightarrow> (\<exists>t'. hook_run ls t t' \<and> hook_step l t' t'')"
  by (auto elim: hook_run.cases intro: hook_more)

lemma hook_run_Nil [simp]: "hook_run [] t t' \<longleftrightarrow> t' = t"
  by (auto elim: hook_run.cases intro: hook_none)

lemma hook_run_append: "hook_run (ls @ ms) t t'' \<longleftrightarrow> (\<exists>t'. hook_run ls t t' \<and> hook_run ms t' t'')"
proof (induction ms arbitrary: t'' rule: rev_induct)
  case (snoc m ms)
  show ?case using snoc by (auto simp: hook_run_snoc simp flip: append_assoc)
qed simp

section \<open>The schema\<close>

definition hooks_ok :: "hook_tables \<Rightarrow> bool" where
  "hooks_ok t \<longleftrightarrow> distinct (map whID (webhooks t)) \<and>
     (\<forall>w \<in> set (webhooks t). webhook_check w \<and> \<not> webhook_name_conflict w (webhooks t)) \<and>
     distinct (map weID (webhook_events t)) \<and>
     (\<forall>e \<in> set (webhook_events t). event_check e \<and> event_fk t e)"

lemma leased_simps [simp]:
  "weID (leased now e) = weID e" "weWebhookID (leased now e) = weWebhookID e" "weStatus (leased now e) = weStatus e"
  "weAttempts (leased now e) = weAttempts e" "weTenantID (leased now e) = weTenantID e"
  "weLastStatusCode (leased now e) = weLastStatusCode e" "wePayload (leased now e) = wePayload e"
  "weNextRetryAt (leased now e) = Some (now + webhookEventClaimLease)" "weCreatedAt (leased now e) = weCreatedAt e"
  by (simp_all add: leased_def)

lemma apply_event_updates_keys [simp]:
  "weID (apply_event_updates now u e) = weID e" "weWebhookID (apply_event_updates now u e) = weWebhookID e"
  "weTenantID (apply_event_updates now u e) = weTenantID e" "wePayload (apply_event_updates now u e) = wePayload e"
  by (simp_all add: apply_event_updates_def)

lemma apply_webhook_updates_keys [simp]:
  "whID (apply_webhook_updates now u w) = whID w" "whTenantID (apply_webhook_updates now u w) = whTenantID w"
  by (simp_all add: apply_webhook_updates_def)

lemma event_check_cong:
  "\<lbrakk>weStatus e' = weStatus e; weAttempts e' = weAttempts e; weLastStatusCode e' = weLastStatusCode e\<rbrakk>
    \<Longrightarrow> event_check e' = event_check e"
  by (simp add: event_check_def)

lemma hooks_ok_map:
  assumes "hooks_ok t" and "\<And>e. weID (f e) = weID e" and "\<And>e. weWebhookID (f e) = weWebhookID e"
    and "\<And>e. event_check e \<Longrightarrow> event_check (f e)"
  shows "hooks_ok (t\<lparr>webhook_events := map f (webhook_events t)\<rparr>)"
proof -
  have "weID \<circ> f = weID" using assms(2) by auto
  then show ?thesis using assms by (auto simp: hooks_ok_def event_fk_def)
qed

lemma name_conflict_put:
  assumes d: "distinct (map whID ws)" and w: "find (\<lambda>x. whID x = wid \<and> P x) ws = Some w0" and id: "whID w' = wid"
    and t: "\<not> webhook_name_conflict w' ws" and old: "\<forall>x \<in> set ws. \<not> webhook_name_conflict x ws"
    and x: "x \<in> set (put_row whID wid w' ws)"
  shows "\<not> webhook_name_conflict x (put_row whID wid w' ws)"
proof -
  have sub: "set (put_row whID wid w' ws) \<subseteq> insert w' {y \<in> set ws. whID y \<noteq> wid}"
    using id by (auto simp: put_row_def)
  have "\<not> (whID y \<noteq> whID z \<and> whName y = whName z \<and> stringValue (whTenantID y) = stringValue (whTenantID z))"
    if "y \<in> insert w' {y \<in> set ws. whID y \<noteq> wid}" "z \<in> insert w' {y \<in> set ws. whID y \<noteq> wid}" for y z
    using that t old by (auto simp: webhook_name_conflict_def list_ex_iff)
  then show ?thesis using sub x unfolding webhook_name_conflict_def list_ex_iff by blast
qed

lemma hook_step_ok: "hook_step l t t' \<Longrightarrow> hooks_ok t \<Longrightarrow> hooks_ok t'"
proof (induction rule: hook_step.induct)
  case (h_create now c w d t x t')
  then show ?case
    by (auto simp: createWebhook_def Let_def hooks_ok_def event_fk_def webhook_name_conflict_def list_ex_iff
        split: if_splits; metis)
next
  case (h_update now c wid u d t y t')
  show ?case
  proof (cases "u = no_webhook_updates")
    case False
    then obtain w where w: "find (\<lambda>w. whID w = wid \<and> rls_visible d c (whTenantID w)) (webhooks t) = Some w"
      and chk: "webhook_check (apply_webhook_updates now u w)"
        "\<not> webhook_name_conflict (apply_webhook_updates now u w) (webhooks t)"
      and t': "t' = t\<lparr>webhooks := put_row whID wid (apply_webhook_updates now u w) (webhooks t)\<rparr>"
      using h_update(1) by (auto simp: updateWebhook_def Let_def split: option.splits if_splits)
    have id: "whID (apply_webhook_updates now u w) = wid" using find_key_eq [OF w] by simp
    have keys: "map whID (webhooks t') = map whID (webhooks t)" using t' id by simp
    then have "event_fk t' = event_fk t" by (auto simp: event_fk_def fun_eq_iff simp flip: set_map)
    moreover have "webhook_check x" if "x \<in> set (webhooks t')" for x
      using that chk(1) h_update(2) t' by (auto simp: put_row_def hooks_ok_def split: if_splits)
    moreover have "\<not> webhook_name_conflict x (webhooks t')" if "x \<in> set (webhooks t')" for x
      using name_conflict_put [OF _ w id chk(2)] that h_update(2) t' by (auto simp: hooks_ok_def)
    ultimately show ?thesis using h_update(2) keys t' by (auto simp: hooks_ok_def)
  qed (use h_update in \<open>simp add: updateWebhook_def\<close>)
next
  case (h_delete c wid d t y t')
  then have t': "t' = t\<lparr>webhooks := filter (\<lambda>w. whID w \<noteq> wid) (webhooks t),
      webhook_events := filter (\<lambda>e. weWebhookID e \<noteq> wid) (webhook_events t)\<rparr>"
    by (auto simp: deleteWebhook_def split: option.splits)
  have "webhook_name_conflict w (webhooks t)" if "webhook_name_conflict w (filter P (webhooks t))" for w P
    using that by (auto simp: webhook_name_conflict_def list_ex_iff)
  then show ?case using h_delete(2) t' by (auto simp: hooks_ok_def event_fk_def distinct_map_filter)
next
  case (h_createEvent now c e d t z t')
  then show ?case
    by (auto simp: createWebhookEvent_def Let_def hooks_ok_def event_fk_def split: if_splits)
next
  case (h_updateEvent now c eid eu d t y t')
  show ?case
  proof (cases "eu = no_event_updates")
    case False
    then obtain e where e: "find (\<lambda>e. weID e = eid \<and> rls_visible d c (weTenantID e)) (webhook_events t) = Some e"
      and chk: "event_check (apply_event_updates now eu e)"
      and t': "t' = t\<lparr>webhook_events := put_row weID eid (apply_event_updates now eu e) (webhook_events t)\<rparr>"
      using h_updateEvent(1) by (auto simp: updateWebhookEvent_def Let_def split: option.splits if_splits)
    have "weID e = eid" "e \<in> set (webhook_events t)" using find_key_eq [OF e] by auto
    then show ?thesis using h_updateEvent(2) chk t'
      by (auto simp: hooks_ok_def event_fk_def) (auto simp: put_row_def split: if_splits)
  qed (use h_updateEvent in \<open>simp add: updateWebhookEvent_def\<close>)
next
  case (h_claim now c locked limit d t es t')
  then obtain I where "t' = t\<lparr>webhook_events := map (\<lambda>e. if weID e \<in> I then leased now e else e) (webhook_events t)\<rparr>"
    by (auto simp: getPendingWebhookEvents_def Let_def split: if_splits)
  then show ?case using h_claim(2) by (auto intro!: hooks_ok_map simp: event_check_def)
next
  case (h_cancel now c wid d t y t')
  then show ?case by (auto simp: cancelWebhookEventsByWebhook_def intro!: hooks_ok_map) (auto simp: event_check_def)
qed

lemma hook_run_ok: "hook_run ls t t' \<Longrightarrow> hooks_ok t \<Longrightarrow> hooks_ok t'"
  by (induction rule: hook_run.induct) (auto intro: hook_step_ok)

section \<open>The contract of the webhook manager\<close>

text \<open>
  A preorder on worlds that the core world's time, every statement and every posted request respect
  is respected by every operation of the manager.
\<close>

lemma run_hcore [simp]:
  "run_state (hcore m) a = (case run_state m (hw_core a) of (x, w) \<Rightarrow> (x, a\<lparr>hw_core := w\<rparr>))"
  by (simp add: hcore_def)

lemma run_hasks [simp]: "run_state (hasks f) a = (f a, a)"
  by (simp add: hasks_def)

lemma run_exec_hook_cases:
  assumes "run_state (exec_hook f) a = (r, a')"
  obtains (ok) x t where "r = Inr x"
      "f (w_tick (hw_core a)) (e_clock (hw_core a) (w_tick (hw_core a))) (w_db (hw_core a)) (hw_tables a) = Inr (x, t)"
      "a' = a\<lparr>hw_core := tick (hw_core a), hw_tables := t\<rparr>"
    | (failed) e where "r = Inl e" "a' = a\<lparr>hw_core := tick (hw_core a)\<rparr>"
  using assms by (auto simp: exec_hook_def Let_def split: option.splits sum.splits prod.splits)

locale hook_contract = state_preorder R for R :: "hook_world \<Rightarrow> hook_world \<Rightarrow> bool" +
  assumes R_tick: "R a (a\<lparr>hw_core := (hw_core a)\<lparr>w_tick := n\<rparr>\<rparr>)"
    and R_stmt: "hook_step l (hw_tables a) t \<Longrightarrow> R a (a\<lparr>hw_core := (hw_core a)\<lparr>w_tick := n\<rparr>, hw_tables := t\<rparr>)"
    and R_post: "R a (a\<lparr>hw_posts := hw_posts a @ [p]\<rparr>)"
begin

lemma resp_time: "resp (hcore Now)" "resp (hcore new_id)" "resp (hcore next_tick)" "resp (hasks f)"
  by (rule respI; simp add: R_tick R_refl)+

lemma resp_exec_hook:
  assumes "\<And>n now d t x t'. f n now d t = Inr (x, t') \<Longrightarrow> t' = t \<or> (\<exists>l. hook_step l t t')"
  shows "resp (exec_hook f)"
proof (rule respI)
  fix a
  obtain r a' where run: "run_state (exec_hook f) a = (r, a')" by (cases "run_state (exec_hook f) a")
  then show "R a (snd (run_state (exec_hook f) a))"
  proof (cases rule: run_exec_hook_cases)
    case (ok x t)
    from assms [OF ok(2)] show ?thesis
    proof
      assume "t = hw_tables a"
      then have "a' = a\<lparr>hw_core := tick (hw_core a)\<rparr>" using ok(3) by simp
      then show ?thesis using run R_tick [of a] by simp
    qed (use run ok(3) in \<open>auto intro: R_stmt\<close>)
  qed (use run R_tick [of a] in simp)
qed

lemma resp_query_hook: "resp (query_hook f)"
  unfolding query_hook_def by (rule resp_exec_hook) (auto split: sum.splits)

lemma resp_hook_store:
  "resp (CreateWebhook c w)" "resp (GetWebhook c x)" "resp (GetWebhookByName c x y)" "resp (ListWebhooks c lo)"
  "resp (UpdateWebhook c x wu)" "resp (DeleteWebhook c x)" "resp (GetActiveWebhooksForEvent c x y)"
  "resp (CreateWebhookEvent c e)" "resp (GetWebhookEvent c x)" "resp (ListWebhookEvents c eo)"
  "resp (UpdateWebhookEvent c x eu)" "resp (GetPendingWebhookEvents c n)" "resp (CancelWebhookEventsByWebhook c x)"
  unfolding CreateWebhook_def GetWebhook_def GetWebhookByName_def ListWebhooks_def UpdateWebhook_def DeleteWebhook_def
    GetActiveWebhooksForEvent_def CreateWebhookEvent_def GetWebhookEvent_def ListWebhookEvents_def
    UpdateWebhookEvent_def GetPendingWebhookEvents_def CancelWebhookEventsByWebhook_def
  by ((intro resp_intros resp_time)?; (rule resp_query_hook resp_exec_hook; blast intro: hook_step.intros)?)+

lemmas hook_resp = resp_intros resp_time resp_hook_store

lemma resp_secrets: "resp (read_random n)" "resp GenerateSecret" "resp (encryptSecret x)" "resp (decryptSecret x)"
proof -
  show r: "resp (read_random n)" for n unfolding read_random_def by (intro hook_resp)
  show "resp GenerateSecret" unfolding GenerateSecret_def by (intro hook_resp r)
  show "resp (encryptSecret x)" unfolding encryptSecret_def by (intro hook_resp r)
  show "resp (decryptSecret x)" unfolding decryptSecret_def by (intro hook_resp)
qed

lemma resp_webhook_api:
  "resp (wh_Get c x)" "resp (wh_Create c ci)" "resp (wh_Update c x ui)" "resp (wh_Delete c x)" "resp (RotateSecret c x)"
proof -
  show g: "resp (wh_Get c x)" for c x unfolding wh_Get_def by (intro hook_resp)
  show "resp (wh_Create c ci)" unfolding wh_Create_def by (intro hook_resp resp_secrets)
  show "resp (wh_Update c x ui)" unfolding wh_Update_def by (intro hook_resp g)
  show "resp (wh_Delete c x)" unfolding wh_Delete_def by (intro hook_resp g)
  show "resp (RotateSecret c x)" unfolding RotateSecret_def by (intro hook_resp g resp_secrets)
qed

lemma resp_events: "resp (Dispatch c x ri j y)" "resp (GetEvent c x)" "resp (RetryEvent c x)"
proof -
  show g: "resp (GetEvent c x)" for c x unfolding GetEvent_def by (intro hook_resp)
  show "resp (RetryEvent c x)" unfolding RetryEvent_def by (intro hook_resp g)
  have "resp (queue_event c x now p y w)" for now p w unfolding queue_event_def by (intro hook_resp)
  then show "resp (Dispatch c x ri j y)" unfolding Dispatch_def BuildPayload_def by (intro hook_resp)
qed

lemma resp_delivery: "resp (deliver wi p x y)" "resp (deliverEvent c e)" "resp (DeliverPendingEvents c n)"
proof -
  have po: "resp (post rq)" for rq
    unfolding post_def by (intro hook_resp) (rule respI, simp add: R_post)
  show d: "resp (deliver wi p x y)" for wi p x y unfolding deliver_def by (intro hook_resp po)
  show e: "resp (deliverEvent c e)" for c e unfolding deliverEvent_def by (intro hook_resp resp_secrets d)
  have "resp (deliver_each c es k)" for es k by (induction es arbitrary: k) (auto intro!: hook_resp e)
  then show "resp (DeliverPendingEvents c n)" unfolding DeliverPendingEvents_def by (intro hook_resp)
qed

end

section \<open>Histories of requests\<close>

datatype hook_request =
    ReqHookCreate ctx CreateWebhookInput | ReqHookUpdate ctx string UpdateWebhookInput | ReqHookDelete ctx string
  | ReqHookRotate ctx string | ReqHookDispatch ctx string ResourceInfo json "string option"
  | ReqHookRetry ctx string | ReqHookDeliver ctx int

fun serve_hook :: "hook_request \<Rightarrow> unit H" where
  "serve_hook (ReqHookCreate c input) = ignore_err (wh_Create c input)"
| "serve_hook (ReqHookUpdate c wid input) = ignore_err (wh_Update c wid input)"
| "serve_hook (ReqHookDelete c wid) = ignore_err (wh_Delete c wid)"
| "serve_hook (ReqHookRotate c wid) = ignore_err (RotateSecret c wid)"
| "serve_hook (ReqHookDispatch c ev res data tenant) = ignore_err (Dispatch c ev res data tenant)"
| "serve_hook (ReqHookRetry c eid) = ignore_err (RetryEvent c eid)"
| "serve_hook (ReqHookDeliver c limit) = ignore_err (DeliverPendingEvents c limit)"

context hook_contract
begin

lemma resp_serve_hook: "resp (serve_hook q)"
  by (cases q; simp only: serve_hook.simps; intro resp_ignore_err resp_webhook_api resp_events resp_delivery)

end

interpretation hook_reach: hook_contract "\<lambda>a a'. \<exists>ls. hook_run ls (hw_tables a) (hw_tables a')"
proof
  fix a b c :: hook_world
  assume "\<exists>ls. hook_run ls (hw_tables a) (hw_tables b)" "\<exists>ls. hook_run ls (hw_tables b) (hw_tables c)"
  then show "\<exists>ls. hook_run ls (hw_tables a) (hw_tables c)" using hook_run_append by blast
next
  fix l and a :: hook_world and t n assume "hook_step l (hw_tables a) t"
  then have "hook_run ([] @ [l]) (hw_tables a) t" by (rule hook_more [OF hook_none])
  then show "\<exists>ls. hook_run ls (hw_tables a) (hw_tables (a\<lparr>hw_core := (hw_core a)\<lparr>w_tick := n\<rparr>, hw_tables := t\<rparr>))" by auto
qed (auto intro: hook_none)

text \<open>The environment is fixed, and requests posted stay posted.\<close>

definition hook_env_kept :: "hook_world \<Rightarrow> hook_world \<Rightarrow> bool" where
  "hook_env_kept a a' \<longleftrightarrow>
     a' = a\<lparr>hw_core := (hw_core a)\<lparr>w_tick := w_tick (hw_core a')\<rparr>, hw_tables := hw_tables a', hw_posts := hw_posts a'\<rparr> \<and>
     (\<exists>ps. hw_posts a' = hw_posts a @ ps)"

interpretation hook_env: hook_contract hook_env_kept
proof
  fix a b c assume ab: "hook_env_kept a b" and bc: "hook_env_kept b c"
  obtain n t ps where b: "b = a\<lparr>hw_core := (hw_core a)\<lparr>w_tick := n\<rparr>, hw_tables := t, hw_posts := hw_posts a @ ps\<rparr>"
    using ab unfolding hook_env_kept_def by metis
  obtain m u qs where "c = b\<lparr>hw_core := (hw_core b)\<lparr>w_tick := m\<rparr>, hw_tables := u, hw_posts := hw_posts b @ qs\<rparr>"
    using bc unfolding hook_env_kept_def by metis
  then have "c = a\<lparr>hw_core := (hw_core a)\<lparr>w_tick := m\<rparr>, hw_tables := u, hw_posts := hw_posts a @ ps @ qs\<rparr>" using b by simp
  then show "hook_env_kept a c" by (auto simp: hook_env_kept_def)
qed (auto simp: hook_env_kept_def)

text \<open>Every history of requests, whatever fails, keeps the schema.\<close>

lemma webhooks_keep_schema:
  assumes "hooks_ok (hw_tables a)" and "run_state (for_each serve_hook qs) a = (u, a')"
  shows "hooks_ok (hw_tables a')"
proof -
  have "hook_reach.resp (for_each serve_hook qs)" by (intro hook_reach.resp_for_each hook_reach.resp_serve_hook)
  from hook_reach.respD [OF this assms(2)] assms(1) show ?thesis by (auto intro: hook_run_ok)
qed

section \<open>The lease\<close>

text \<open>Statements that set the next attempt of an event, or write a new row under its id.\<close>

fun reschedules :: "string \<Rightarrow> hook_stmt \<Rightarrow> bool" where
  "reschedules eid (HUpdateEvent x u) \<longleftrightarrow> x = eid \<and> weuNextRetryAt u \<noteq> None"
| "reschedules eid (HCreateEvent e) \<longleftrightarrow> weID e = eid"
| "reschedules eid _ \<longleftrightarrow> False"

definition held_until :: "string \<Rightarrow> int \<Rightarrow> hook_tables \<Rightarrow> bool" where
  "held_until eid u t \<longleftrightarrow>
     (\<forall>e \<in> set (webhook_events t). weID e = eid \<longrightarrow> (\<exists>n. weNextRetryAt e = Some n \<and> u \<le> n))"

lemma lease_pos: "0 < webhookEventClaimLease"
  by (simp add: webhookEventClaimLease_def duration_defs)

lemma claim_run:
  assumes "hook_step (HClaim now ids) t t'"
  obtains c locked d where
    "\<And>i. i \<in> set ids \<Longrightarrow> \<exists>e \<in> set (webhook_events t). weID e = i \<and> claimable now c locked d e"
    "webhook_events t' = map (\<lambda>e. if weID e \<in> set ids then leased now e else e) (webhook_events t)"
proof -
  from assms obtain c locked limit d es where r: "getPendingWebhookEvents now c locked limit d t = Inr (es, t')"
    and ids: "ids = map weID es" by (auto elim: hook_step.cases)
  let ?cl = "take (nat limit) (sort_key weCreatedAt (filter (claimable now c locked d) (webhook_events t)))"
  have es: "es = map (leased now) ?cl" and t': "t' = t\<lparr>webhook_events :=
      map (\<lambda>e. if weID e \<in> set (map weID ?cl) then leased now e else e) (webhook_events t)\<rparr>"
    using r by (auto simp: getPendingWebhookEvents_def Let_def split: if_splits)
  have same: "set ids = set (map weID ?cl)" using es ids by (simp add: image_image)
  have "\<exists>e \<in> set (webhook_events t). weID e = i \<and> claimable now c locked d e" if "i \<in> set ids" for i
  proof -
    from that same obtain e where "e \<in> set ?cl" "weID e = i" by auto
    from in_set_takeD [OF this(1)] this(2) show ?thesis by auto
  qed
  moreover have "webhook_events t' = map (\<lambda>e. if weID e \<in> set ids then leased now e else e) (webhook_events t)"
    unfolding t' same by simp
  ultimately show thesis by (rule that)
qed

lemma held_step:
  assumes "hook_step l t t'" and "\<not> reschedules eid l" and "held_until eid u t"
  shows "held_until eid u t'"
  using assms(1)
proof cases
  case (h_claim now c locked limit d es)
  with assms(1) have "hook_step (HClaim now (map weID es)) t t'" by simp
  then show ?thesis
  proof (rule claim_run)
    fix c' locked' d'
    assume cl: "\<And>i. i \<in> set (map weID es) \<Longrightarrow> \<exists>e \<in> set (webhook_events t). weID e = i \<and> claimable now c' locked' d' e"
      and t': "webhook_events t' = map (\<lambda>e. if weID e \<in> set (map weID es) then leased now e else e) (webhook_events t)"
    have "u \<le> now" if "eid \<in> set (map weID es)"
      using cl [OF that] assms(3) by (fastforce simp: held_until_def claimable_def)
    then show ?thesis using assms(3) t' lease_pos unfolding held_until_def by fastforce
  qed
next
  case (h_updateEvent now c x eu d y)
  then show ?thesis using assms(2,3)
    by (auto simp: updateWebhookEvent_def Let_def held_until_def put_row_def apply_event_updates_def
        split: if_splits option.splits dest!: find_key_eq)
qed (use assms(2,3) in \<open>auto simp: held_until_def createWebhook_def updateWebhook_def deleteWebhook_def
    createWebhookEvent_def cancelWebhookEventsByWebhook_def Let_def split: if_splits option.splits\<close>)

lemma held_run: "hook_run ls t t' \<Longrightarrow> \<forall>l \<in> set ls. \<not> reschedules eid l \<Longrightarrow> held_until eid u t \<Longrightarrow> held_until eid u t'"
  by (induction rule: hook_run.induct) (auto intro: held_step)

text \<open>
  C33. A claimed event is leased: in every interleaving of the statements of all processes, two claims
  that both return an event are at least the lease of five minutes apart, unless the event was
  rescheduled in between (the outcome of a delivery or a manual retry) or its id was used again.
\<close>

theorem claim_leases_event:
  assumes "hook_run (ls @ HClaim t1 ids1 # ms @ [HClaim t2 ids2]) t t'" and "eid \<in> set ids1" and "eid \<in> set ids2"
    and "\<forall>l \<in> set ms. \<not> reschedules eid l"
  shows "t1 + webhookEventClaimLease \<le> t2"
proof -
  from assms(1) obtain a b e where c1: "hook_step (HClaim t1 ids1) a b" and ms: "hook_run ms b e"
    and c2: "hook_step (HClaim t2 ids2) e t'"
    using hook_run_append [of "ls @ [HClaim t1 ids1]" "ms @ [HClaim t2 ids2]" t t'] by (auto simp: hook_run_snoc)
  from c1 have "held_until eid (t1 + webhookEventClaimLease) b"
    by (rule claim_run) (use assms(2) in \<open>auto simp: held_until_def split: if_splits\<close>)
  with held_run [OF ms assms(4)] have h: "held_until eid (t1 + webhookEventClaimLease) e" by blast
  from c2 show ?thesis
  proof (rule claim_run)
    fix c locked d assume "\<And>i. i \<in> set ids2 \<Longrightarrow> \<exists>x \<in> set (webhook_events e). weID x = i \<and> claimable t2 c locked d x"
    from this [OF assms(3)] h show ?thesis by (fastforce simp: held_until_def claimable_def)
  qed
qed

end
