(* ===== verification/Webhook_Delivery.thy ===== *)
theory Webhook_Delivery
  imports Webhook_Laws
begin

text \<open>
  Delivery of webhook events: the signature a receiver checks, the retry schedule, how often an
  event is posted, and the events that are never given up.
\<close>

section \<open>Secrets\<close>

text \<open>What AES-GCM promises: opening what was sealed gives the plaintext back, and sealed data are bytes.\<close>

definition gcm_ok :: "hook_world \<Rightarrow> bool" where
  "gcm_ok a \<longleftrightarrow> (\<forall>k n p. he_open a k n (he_seal a k n p) = Some p \<and> (\<forall>b \<in> set (he_seal a k n p). b < 256))"

lemma hook_env_simps:
  assumes "hook_env_kept a a'"
  shows "he_config a' = he_config a" "he_open a' = he_open a" "he_seal a' = he_seal a" "he_hmac a' = he_hmac a"
    "e_clock (hw_core a') = e_clock (hw_core a)" "e_fault (hw_core a') = e_fault (hw_core a)" "he_http a' = he_http a"
    "w_db (hw_core a') = w_db (hw_core a)" "e_id (hw_core a') = e_id (hw_core a)"
proof -
  obtain n t ps where "a' = a\<lparr>hw_core := (hw_core a)\<lparr>w_tick := n\<rparr>, hw_tables := t, hw_posts := ps\<rparr>"
    using assms unfolding hook_env_kept_def by blast
  then show "he_config a' = he_config a" "he_open a' = he_open a" "he_seal a' = he_seal a" "he_hmac a' = he_hmac a"
    "e_clock (hw_core a') = e_clock (hw_core a)" "e_fault (hw_core a') = e_fault (hw_core a)" "he_http a' = he_http a"
    "w_db (hw_core a') = w_db (hw_core a)" "e_id (hw_core a') = e_id (hw_core a)" by simp_all
qed

lemma run_decryptSecret:
  "snd (run_state (decryptSecret enc) a) = a"
  "he_config b = he_config a \<Longrightarrow> he_open b = he_open a \<Longrightarrow>
     fst (run_state (decryptSecret enc) b) = fst (run_state (decryptSecret enc) a)"
  by (simp_all add: decryptSecret_def Let_def split: option.split)

lemma run_read_random:
  "run_state (read_random n) a = (Inr bs, a') \<Longrightarrow> length bs = n \<and> (\<forall>b \<in> set bs. b < 256)"
  by (auto simp: read_random_def split: option.splits)

lemma secret_roundtrip:
  assumes gcm: "gcm_ok a" and enc: "run_state (encryptSecret secret) a = (Inr enc, a')"
  shows "run_state (decryptSecret enc) a = (Inr secret, a)"
proof (cases "wcEncryptionKey (he_config a) = []")
  case True
  then show ?thesis using enc StdDecode_StdEncoding [OF string_bytes_less]
    by (auto simp: encryptSecret_def decryptSecret_def Let_def)
next
  case False
  then obtain nonce b where k: "aes_key_ok (wcEncryptionKey (he_config a))"
    and r: "run_state (read_random gcm_NonceSize) a = (Inr nonce, b)"
    and e: "enc = StdEncoding (nonce @ he_seal a (wcEncryptionKey (he_config a)) nonce secret)"
    using enc by (auto simp: encryptSecret_def Let_def split: if_splits prod.splits sum.splits)
  have "StdDecode enc = Some (nonce @ he_seal a (wcEncryptionKey (he_config a)) nonce secret)"
    using run_read_random [OF r] gcm unfolding e gcm_ok_def by (intro StdDecode_StdEncoding) auto
  then show ?thesis using False k gcm run_read_random [OF r]
    by (simp add: decryptSecret_def Let_def gcm_ok_def)
qed

section \<open>Signatures\<close>

definition signed :: "hook_world \<Rightarrow> string \<Rightarrow> http_post \<Rightarrow> bool" where
  "signed a secret req \<longleftrightarrow> (\<exists>k.
     header_Get SignatureHeader (hpHeaders req) = Sign (he_hmac a) (hpBody req) secret (e_clock (hw_core a) k) \<and>
     header_Get TimestampHeader (hpHeaders req) = show_int (unix_seconds (e_clock (hw_core a) k)))"

text \<open>A clock whose seconds fit in 64 bits.\<close>

definition clock_ok :: "hook_world \<Rightarrow> bool" where
  "clock_ok a \<longleftrightarrow> (\<forall>k. - (2 ^ 63) \<le> unix_seconds (e_clock (hw_core a) k) \<and> unix_seconds (e_clock (hw_core a) k) < 2 ^ 63)"

lemma unix_seconds_whole: "unix_seconds (unix_seconds t * Second) = unix_seconds t"
  by (simp add: unix_seconds_def duration_defs)

lemma signed_verifies:
  assumes "signed a secret req" and "clock_ok a"
  shows "\<exists>t. ParseTimestamp (header_Get TimestampHeader (hpHeaders req)) = Some t \<and>
    (\<forall>now. Verify (he_hmac a) now (hpBody req) (header_Get SignatureHeader (hpHeaders req)) secret t \<longleftrightarrow>
      \<bar>now - t\<bar> \<le> signatureTimestampTolerance)"
proof -
  from assms(1) obtain k where k:
    "header_Get SignatureHeader (hpHeaders req) = Sign (he_hmac a) (hpBody req) secret (e_clock (hw_core a) k)"
    "header_Get TimestampHeader (hpHeaders req) = show_int (unix_seconds (e_clock (hw_core a) k))"
    by (auto simp: signed_def)
  let ?t = "unix_seconds (e_clock (hw_core a) k) * Second"
  have "ParseTimestamp (header_Get TimestampHeader (hpHeaders req)) = Some ?t"
    using assms(2) Atoi_show_int unfolding k by (simp add: ParseTimestamp_def clock_ok_def)
  moreover have "Sign (he_hmac a) (hpBody req) secret (e_clock (hw_core a) k) = Sign (he_hmac a) (hpBody req) secret ?t"
    by (simp add: Sign_def unix_seconds_whole)
  ultimately show ?thesis using k(1) by (auto simp: Verify_def abs_le_iff)
qed

abbreviation hticked :: "nat \<Rightarrow> hook_world \<Rightarrow> hook_world" where
  "hticked n a \<equiv> a\<lparr>hw_core := (hw_core a)\<lparr>w_tick := n\<rparr>\<rparr>"

lemma deliver_run:
  assumes "run_state (deliver wi p eid secret) a = (res, a')"
  obtains (rejected) e where "res = failed_result e" "a' = a"
    | (posted) req n where "a' = a\<lparr>hw_core := (hw_core a)\<lparr>w_tick := n\<rparr>, hw_posts := hw_posts a @ [req]\<rparr>"
        "hpEventID req = eid" "signed a secret req"
        "(\<exists>e. res = failed_result e) \<or> (\<exists>t c. he_http a t = HttpStatus c \<and> res = http_result c)"
proof -
  let ?body = "he_json_text a (payload_json p)"
  consider (big) "int (length ?body) > wcMaxPayloadSize (he_config a)"
    | (url) m where "\<not> int (length ?body) > wcMaxPayloadSize (he_config a)" "he_url_err a (wiURL wi) = Some m"
    | (send) "\<not> int (length ?body) > wcMaxPayloadSize (he_config a)" "he_url_err a (wiURL wi) = None" by fastforce
  then show thesis
  proof cases
    case send
    let ?ts = "e_clock (hw_core a) (w_tick (hw_core a))" and ?t = "Suc (w_tick (hw_core a))"
    let ?req = "\<lparr>hpEventID = eid, hpURL = wiURL wi, hpHeaders = request_headers (wcUserAgent (he_config a)) eid (wiHeaders wi)
        (Sign (he_hmac a) ?body secret ?ts) ?ts, hpBody = ?body\<rparr>"
    have r: "a' = a\<lparr>hw_core := (hw_core a)\<lparr>w_tick := Suc ?t\<rparr>, hw_posts := hw_posts a @ [?req]\<rparr>"
      "res = (case he_http a ?t of HttpFailed m \<Rightarrow> failed_result (''request failed: '' @ m) | HttpStatus code \<Rightarrow> http_result code)"
      using assms send by (auto simp: deliver_def post_def Let_def)
    have "signed a secret ?req" unfolding signed_def by (rule exI [of _ "w_tick (hw_core a)"]) (simp add: signed_headers)
    then show thesis using r by (intro posted [of ?req "Suc ?t"]) (auto split: http_outcome.split)
  qed (use assms rejected in \<open>auto simp: deliver_def Let_def\<close>)
qed

lemma run_query_hook_cases:
  assumes "run_state (query_hook f) a = (r, a')"
  obtains (ok) x where "r = Inr x" "f (w_db (hw_core a)) (hw_tables a) = Inr x" "a' = hticked (Suc (w_tick (hw_core a))) a"
    | (failed) e where "r = Inl e" "a' = hticked (Suc (w_tick (hw_core a))) a"
proof (cases "e_fault (hw_core a) (w_tick (hw_core a))")
  case None
  show thesis
  proof (cases "f (w_db (hw_core a)) (hw_tables a)")
    case (Inl e)
    then show thesis using None assms by (intro failed [of e]) (auto simp: query_hook_def exec_hook_def Let_def)
  next
    case (Inr x)
    then show thesis using None assms by (intro ok [of x]) (auto simp: query_hook_def exec_hook_def Let_def)
  qed
qed (use assms failed in \<open>auto simp: query_hook_def exec_hook_def Let_def\<close>)

lemma run_UpdateWebhookEvent:
  "hw_posts (snd (run_state (UpdateWebhookEvent c eid u) a)) = hw_posts a"
proof -
  obtain r b where "run_state (UpdateWebhookEvent c eid u) a = (r, b)" by (cases "run_state (UpdateWebhookEvent c eid u) a")
  then show ?thesis unfolding UpdateWebhookEvent_def by (auto elim: run_exec_hook_cases)
qed

text \<open>Every request of a delivery carries the id of the event and is signed with the decrypted secret of its webhook.\<close>

lemma deliverEvent_posts:
  assumes run: "run_state (deliverEvent c e) a = (r, a')"
  obtains (none) "hw_posts a' = hw_posts a"
    | (one) req wh secret where "hw_posts a' = hw_posts a @ [req]" "hpEventID req = weID e"
        "getWebhook c (weWebhookID e) (w_db (hw_core a)) (hw_tables a) = Inr wh"
        "fst (run_state (decryptSecret (whSecretEncrypted wh)) a) = Inr secret" "signed a secret req"
proof -
  obtain g b where g: "run_state (GetWebhook c (weWebhookID e)) a = (g, b)" by (cases "run_state (GetWebhook c (weWebhookID e)) a")
  from g [unfolded GetWebhook_def] show thesis
  proof (cases rule: run_query_hook_cases)
    case (failed x)
    then show thesis using run g none run_UpdateWebhookEvent [of c "weID e" cancel_updates b]
      by (auto simp: deliverEvent_def split: if_splits)
  next
    case (ok wh)
    let ?wi = "\<lparr>wiID = whID wh, wiURL = whURL wh, wiHeaders = parse_headers (he_time_text b) (whHeaders wh),
        wiTimeoutSeconds = whTimeoutSeconds wh\<rparr>"
    show thesis
    proof (cases "whIsActive wh \<and> (\<exists>payload. parse_payload (wePayload e) = Inr payload) \<and>
        (\<exists>secret. fst (run_state (decryptSecret (whSecretEncrypted wh)) b) = Inr secret)")
      case False
      then have "hw_posts a' = hw_posts b" using run g ok(1) run_UpdateWebhookEvent [of c "weID e" cancel_updates b]
          run_decryptSecret(1) [of "whSecretEncrypted wh" b]
        by (auto simp: deliverEvent_def split: if_splits sum.splits prod.splits)
      then show thesis using ok none by simp
    next
      case True
      then obtain payload secret where p: "parse_payload (wePayload e) = Inr payload"
        and s: "run_state (decryptSecret (whSecretEncrypted wh)) b = (Inr secret, b)"
        using run_decryptSecret(1) [of "whSecretEncrypted wh" b] by (metis prod.collapse)
      obtain res d where d: "run_state (deliver ?wi payload (weID e) secret) b = (res, d)"
        by (cases "run_state (deliver ?wi payload (weID e) secret) b")
      obtain u m where "a' = snd (run_state (UpdateWebhookEvent c (weID e) u) (hticked m d))"
        using run g ok(1) True p s d by (simp add: deliverEvent_def split: prod.splits) (metis snd_conv)
      then have posts: "hw_posts a' = hw_posts d" using run_UpdateWebhookEvent by simp
      have dec: "fst (run_state (decryptSecret (whSecretEncrypted wh)) a) = Inr secret"
        using s run_decryptSecret(2) [of a b] ok(3) by simp
      from d show thesis
      proof (cases rule: deliver_run)
        case (rejected x)
        then show thesis using posts ok(3) none by simp
      next
        case (posted req n)
        then have "signed a secret req" using ok(3) by (simp add: signed_def)
        then show thesis using posted posts ok(2,3) dec by (intro one) simp_all
      qed
    qed
  qed
qed

lemma CreateWebhook_secret:
  assumes "run_state (CreateWebhook c w) a = (Inr wh, a')"
  shows "whSecretEncrypted wh = whSecretEncrypted w"
proof -
  obtain w' b where "run_state (exec_hook (\<lambda>_ now. createWebhook now c w')) b = (Inr wh, a')"
    and w': "whSecretEncrypted w' = whSecretEncrypted w"
    using assms by (auto simp: CreateWebhook_def split: if_splits)
  then show ?thesis by (cases rule: run_exec_hook_cases) (auto simp: createWebhook_def Let_def split: if_splits)
qed

lemma wh_Create_secret:
  assumes "run_state (wh_Create c input) a = (Inr (wh, secret), a')"
  obtains b b' where "hook_env_kept a b" "run_state (encryptSecret secret) b = (Inr (whSecretEncrypted wh), b')"
proof -
  obtain r a1 where g: "run_state (GetWebhookByName c (cwName input) (cwTenantID input)) a = (r, a1)"
    by (cases "run_state (GetWebhookByName c (cwName input) (cwTenantID input)) a")
  obtain s a2 where s: "run_state GenerateSecret a1 = (s, a2)" by (cases "run_state GenerateSecret a1")
  obtain sec where sec: "s = Inr sec" and r: "\<exists>e. r = Inl e \<and> is_not_found e"
    using assms g s by (auto simp: wh_Create_def split: if_splits sum.splits)
  obtain x a3 where e: "run_state (encryptSecret (fst sec)) a2 = (x, a3)" by (cases "run_state (encryptSecret (fst sec)) a2")
  then obtain enc where enc: "x = Inr enc" using assms g s r sec by (cases x) (auto simp: wh_Create_def split: if_splits)
  then obtain w b where "run_state (CreateWebhook c w) b = (Inr wh, a')" "whSecretEncrypted w = enc" "fst sec = secret"
    using assms g s r sec e
    by (auto simp: wh_Create_def new_webhook_def split: if_splits prod.splits sum.splits)
  then have "whSecretEncrypted wh = enc" "fst sec = secret" using CreateWebhook_secret by auto
  moreover have "hook_env_kept a a2"
    using hook_env.respD [OF hook_env.resp_hook_store(3) g] hook_env.respD [OF hook_env.resp_secrets(2) s] hook_env.R_trans
    by blast
  ultimately show thesis using e enc that by blast
qed

text \<open>
  C34. The secret shown when a webhook is created verifies its deliveries. Whatever happened in between,
  as long as the stored secret is still the one of the creation, a request posted for an event of
  the webhook carries the id of the event, and a receiver that parses its timestamp header and
  checks its signature with that secret accepts it exactly within five minutes of the timestamp:
  no custom header of the webhook gets in the way. AES-GCM opens what it sealed, and the seconds of
  the clock fit in 64 bits.
\<close>

theorem shown_secret_verifies_deliveries:
  assumes "gcm_ok a" and "clock_ok a" and "run_state (wh_Create c input) a = (Inr (wh, secret), a1)"
    and "run_state (for_each serve_hook qs) a1 = (u, b)"
    and "getWebhook c' (weWebhookID e) (w_db (hw_core b)) (hw_tables b) = Inr wh'"
    and "whSecretEncrypted wh' = whSecretEncrypted wh"
    and "run_state (deliverEvent c' e) b = (r, b')" and "hw_posts b' = hw_posts b @ [req]"
  shows "hpEventID req = weID e \<and>
    (\<exists>t. ParseTimestamp (header_Get TimestampHeader (hpHeaders req)) = Some t \<and>
      (\<forall>now. Verify (he_hmac a) now (hpBody req) (header_Get SignatureHeader (hpHeaders req)) secret t \<longleftrightarrow>
        \<bar>now - t\<bar> \<le> signatureTimestampTolerance))"
proof -
  from assms(3) obtain x x' where x: "hook_env_kept a x" "run_state (encryptSecret secret) x = (Inr (whSecretEncrypted wh), x')"
    by (rule wh_Create_secret)
  have "gcm_ok x" using assms(1) hook_env_simps [OF x(1)] by (simp add: gcm_ok_def)
  from secret_roundtrip [OF this x(2)] have dx: "fst (run_state (decryptSecret (whSecretEncrypted wh)) x) = Inr secret" by simp
  have "hook_env.resp (for_each serve_hook qs)" by (intro hook_env.resp_for_each hook_env.resp_serve_hook)
  from hook_env.respD [OF this assms(4)] hook_env.respD [OF hook_env.resp_webhook_api(2) assms(3)]
  have ab: "hook_env_kept a b" using hook_env.R_trans by blast
  have db: "fst (run_state (decryptSecret (whSecretEncrypted wh)) b) = Inr secret"
    using dx run_decryptSecret(2) [of b x] hook_env_simps [OF ab] hook_env_simps [OF x(1)] by simp
  from assms(7) show ?thesis
  proof (cases rule: deliverEvent_posts)
    case (one req' wh'' secret')
    then have "signed b secret req" "hpEventID req = weID e" using assms(5,6,8) db by auto
    moreover have "clock_ok b" using assms(2) hook_env_simps [OF ab] by (simp add: clock_ok_def)
    ultimately show ?thesis using signed_verifies [of b secret req] hook_env_simps [OF ab] by simp
  qed (use assms(8) in simp)
qed

section \<open>The retry schedule\<close>

lemma shifted_one_small: "0 \<le> n \<Longrightarrow> n < 63 \<Longrightarrow> shifted_one n = 2 ^ nat n"
proof -
  assume n: "0 \<le> n" "n < 63"
  then have "(2 :: int) ^ nat n < 2 ^ 63" by (intro power_strict_increasing) auto
  then have "int64 (2 ^ nat n) = 2 ^ nat n" by (intro int64_id) (auto intro: order_trans [of _ 0])
  then show ?thesis using n by (simp add: shifted_one_def)
qed

text \<open>
  C38. Retries back off exponentially, as long as the product fits in 64 bits: the delay before attempt
  \<open>n + 1\<close> is the configured delay doubled \<open>n\<close> times, at most 24 hours. Past that the product
  wraps: with the default delay of a minute the 28th retry is due in the past.
\<close>

theorem retry_schedule:
  assumes "0 < s" and "s < 2 ^ 31" and "0 \<le> n" and "s * Second * 2 ^ nat n < 2 ^ 63"
  shows "CalculateNextRetry now n (int64 (s * Second)) = now + min (s * Second * 2 ^ nat n) maxRetryDelay \<and>
     CalculateNextRetry now 28 (int64 (60 * Second)) < now"
proof
  have big: "1 \<le> s * Second" using assms(1) by (simp add: duration_defs)
  then have "2 ^ nat n \<le> s * Second * 2 ^ nat n" by simp
  then have "(2 :: int) ^ nat n < 2 ^ 63" using assms(4) by linarith
  then have "nat n < 63" by (rule power_less_imp_less_exp [rotated]) simp
  then have sh: "shifted_one n = 2 ^ nat n" using assms(3) by (intro shifted_one_small) linarith+
  have "int64 (s * Second) = s * Second" using assms(1,2) by (intro int64_id) (simp_all add: duration_defs)
  moreover have "int64 (s * Second * 2 ^ nat n) = s * Second * 2 ^ nat n"
    using assms(4) big by (intro int64_id) (auto intro: order_trans [of _ 0])
  ultimately show "CalculateNextRetry now n (int64 (s * Second)) = now + min (s * Second * 2 ^ nat n) maxRetryDelay"
    by (simp add: CalculateNextRetry_def sh Let_def min_def)
  show "CalculateNextRetry now 28 (int64 (60 * Second)) < now"
    by (simp add: CalculateNextRetry_def shifted_one_def int64_def duration_defs maxRetryDelay_def)
qed

end
