(* ===== verification/Webhook_Runs.thy ===== *)
theory Webhook_Runs
  imports Webhook_Delivery
begin

text \<open>
  Runs of the delivery job when the database answers: how often an event is posted, which events
  are never given up, and that a dispatched event reaches the queue of every subscriber.
\<close>

section \<open>Runs without faults\<close>

text \<open>No statement fails, and a response has a status of three digits.\<close>

definition calm :: "hook_world \<Rightarrow> bool" where
  "calm a \<longleftrightarrow> (\<forall>n. e_fault (hw_core a) n = None) \<and> (\<forall>t n. he_http a t = HttpStatus n \<longrightarrow> 0 \<le> n \<and> n \<le> 999)"

lemma calm_kept: "hook_env_kept a a' \<Longrightarrow> calm a' = calm a"
  by (simp add: calm_def hook_env_simps)

lemma calm_simps [simp]:
  "calm (hticked n a) = calm a" "calm (a\<lparr>hw_tables := t\<rparr>) = calm a" "calm (a\<lparr>hw_posts := p\<rparr>) = calm a"
  "calm (a\<lparr>hw_core := (hw_core a)\<lparr>w_tick := n\<rparr>, hw_tables := t\<rparr>) = calm a"
  "calm (a\<lparr>hw_core := (hw_core a)\<lparr>w_tick := n\<rparr>, hw_posts := p\<rparr>) = calm a"
  by (simp_all add: calm_def)

lemma run_exec_hook_calm:
  "calm a \<Longrightarrow> run_state (exec_hook f) a =
     (case f (w_tick (hw_core a)) (e_clock (hw_core a) (w_tick (hw_core a))) (w_db (hw_core a)) (hw_tables a) of
        Inl e \<Rightarrow> (Inl e, hticked (Suc (w_tick (hw_core a))) a)
      | Inr (x, t) \<Rightarrow> (Inr x, a\<lparr>hw_core := tick (hw_core a), hw_tables := t\<rparr>))"
  by (simp add: exec_hook_def Let_def calm_def)

lemma run_query_hook_calm:
  "calm a \<Longrightarrow> run_state (query_hook f) a = (f (w_db (hw_core a)) (hw_tables a), hticked (Suc (w_tick (hw_core a))) a)"
  by (simp add: query_hook_def run_exec_hook_calm split: sum.split)

definition put_event :: "WebhookEvent \<Rightarrow> hook_tables \<Rightarrow> hook_tables" where
  "put_event e t = t\<lparr>webhook_events := put_row weID (weID e) e (webhook_events t)\<rparr>"

lemma put_event_simps [simp]:
  "webhooks (put_event e t) = webhooks t" "webhook_events (put_event e t) = put_row weID (weID e) e (webhook_events t)"
  by (simp_all add: put_event_def)

lemma find_event:
  assumes "distinct (map weID es)" "e \<in> set es" "P e"
  shows "find (\<lambda>x. weID x = weID e \<and> P x) es = Some e"
  using assms find_unique_key by fastforce

lemma UpdateWebhookEvent_calm:
  assumes calm: "calm a" and row: "distinct (map weID (webhook_events (hw_tables a)))" "e \<in> set (webhook_events (hw_tables a))"
      "rls_visible (w_db (hw_core a)) c (weTenantID e)"
    and u: "u \<noteq> no_event_updates"
  obtains (written) now n where "event_check (apply_event_updates now u e)"
      "run_state (UpdateWebhookEvent c (weID e) u) a = (Inr (), a\<lparr>hw_core := (hw_core a)\<lparr>w_tick := n\<rparr>,
         hw_tables := put_event (apply_event_updates now u e) (hw_tables a)\<rparr>)"
    | (refused) now n x where "\<not> event_check (apply_event_updates now u e)"
        "run_state (UpdateWebhookEvent c (weID e) u) a = (Inl x, hticked n a)"
proof -
  let ?now = "e_clock (hw_core a) (w_tick (hw_core a))" and ?e = "apply_event_updates (e_clock (hw_core a) (w_tick (hw_core a))) u e"
  have f: "find (\<lambda>x. weID x = weID e \<and> rls_visible (w_db (hw_core a)) c (weTenantID x)) (webhook_events (hw_tables a)) = Some e"
    using row by (intro find_event) auto
  show thesis
  proof (cases "event_check ?e")
    case True
    then show thesis using calm u f
      by (intro written [of ?now "Suc (w_tick (hw_core a))"])
        (simp_all add: UpdateWebhookEvent_def run_exec_hook_calm updateWebhookEvent_def put_event_def)
  next
    case False
    then show thesis using calm u f
      by (intro refused [of ?now "ErrInvalidInput ''webhook_event''" "Suc (w_tick (hw_core a))"])
        (simp_all add: UpdateWebhookEvent_def run_exec_hook_calm updateWebhookEvent_def)
  qed
qed

lemma outcome_check:
  assumes "event_check e" and "fits_int4 (weAttempts e + 1)" and "0 \<le> drStatusCode res" "drStatusCode res \<le> 999"
  shows "event_check (apply_event_updates now (outcome_updates n k wh e res) e)"
  using assms by (auto simp: event_check_def apply_event_updates_def outcome_updates_def Let_def upd_def no_event_updates_def
      fits_int4_def split: option.splits)

lemma cancel_check: "event_check e \<Longrightarrow> event_check (apply_event_updates now cancel_updates e)"
  by (simp add: event_check_def apply_event_updates_def cancel_updates_def upd_def no_event_updates_def)

lemma updates_written: "cancel_updates \<noteq> no_event_updates" "outcome_updates n k wh e res \<noteq> no_event_updates"
  by (simp_all add: cancel_updates_def outcome_updates_def no_event_updates_def Let_def)

section \<open>One delivery\<close>

text \<open>The requests of a delivery and what became of the row of its event.\<close>

definition own_posts :: "string \<Rightarrow> http_post list \<Rightarrow> bool" where
  "own_posts eid ps \<longleftrightarrow> length ps \<le> 1 \<and> (\<forall>p \<in> set ps. hpEventID p = eid)"

definition result_ok :: "DeliveryResult \<Rightarrow> bool" where
  "result_ok res \<longleftrightarrow> 0 \<le> drStatusCode res \<and> drStatusCode res \<le> 999"

lemma deliver_calm:
  assumes "calm a" and "run_state (deliver wi p eid secret) a = (res, a')"
  obtains n ps where "a' = a\<lparr>hw_core := (hw_core a)\<lparr>w_tick := n\<rparr>, hw_posts := hw_posts a @ ps\<rparr>" "own_posts eid ps" "result_ok res"
  using assms(2)
proof (cases rule: deliver_run)
  case (rejected e)
  then show thesis by (intro that [where n = "w_tick (hw_core a)" and ps = "[]"]) (simp_all add: own_posts_def result_ok_def failed_result_def)
next
  case (posted req n)
  then have "result_ok res" using assms(1) by (auto simp: result_ok_def failed_result_def http_result_def Let_def calm_def)
  then show thesis using posted by (intro that [where n = n and ps = "[req]"]) (simp_all add: own_posts_def)
qed

text \<open>A delivery that could be attempted: the webhook is there and active, payload and secret can be read.\<close>

definition deliverable :: "ctx \<Rightarrow> hook_world \<Rightarrow> WebhookEvent \<Rightarrow> Webhook \<Rightarrow> bool" where
  "deliverable c a e wh \<longleftrightarrow> getWebhook c (weWebhookID e) (w_db (hw_core a)) (hw_tables a) = Inr wh \<and> whIsActive wh \<and>
     \<not> isl (parse_payload (wePayload e)) \<and> \<not> isl (fst (run_state (decryptSecret (whSecretEncrypted wh)) a))"

lemma deliverEvent_calm:
  assumes calm: "calm a" and ok: "hooks_ok (hw_tables a)" and row: "e \<in> set (webhook_events (hw_tables a))"
    and vis: "rls_visible (w_db (hw_core a)) c (weTenantID e)" and run: "run_state (deliverEvent c e) a = (r, a')"
  obtains (kept) n wh where "a' = hticked n a" "getWebhook c (weWebhookID e) (w_db (hw_core a)) (hw_tables a) = Inr wh"
      "whIsActive wh" "\<not> deliverable c a e wh"
    | (canceled) n now where "a' = a\<lparr>hw_core := (hw_core a)\<lparr>w_tick := n\<rparr>,
        hw_tables := put_event (apply_event_updates now cancel_updates e) (hw_tables a)\<rparr>"
        "\<forall>wh. getWebhook c (weWebhookID e) (w_db (hw_core a)) (hw_tables a) = Inr wh \<longrightarrow> \<not> whIsActive wh"
    | (attempted) n now wh k l res ps where "deliverable c a e wh" "result_ok res" "own_posts (weID e) ps"
        "a' = a\<lparr>hw_core := (hw_core a)\<lparr>w_tick := n\<rparr>, hw_posts := hw_posts a @ ps,
           hw_tables := put_event (apply_event_updates now (outcome_updates k l wh e res) e) (hw_tables a)\<rparr>"
    | (refused) n wh ps where "deliverable c a e wh" "own_posts (weID e) ps" "\<not> fits_int4 (weAttempts e + 1)"
        "a' = a\<lparr>hw_core := (hw_core a)\<lparr>w_tick := n\<rparr>, hw_posts := hw_posts a @ ps\<rparr>"
proof -
  let ?d = "w_db (hw_core a)" and ?t = "hw_tables a" and ?b = "hticked (Suc (w_tick (hw_core a))) a"
  have dist: "distinct (map weID (webhook_events ?t))" and chk: "event_check e" using ok row by (auto simp: hooks_ok_def)
  have b: "calm ?b" "distinct (map weID (webhook_events (hw_tables ?b)))" "e \<in> set (webhook_events (hw_tables ?b))"
    "rls_visible (w_db (hw_core ?b)) c (weTenantID e)" using calm dist row vis by simp_all
  have get: "run_state (GetWebhook c (weWebhookID e)) a = (getWebhook c (weWebhookID e) ?d ?t, ?b)"
    using calm by (simp add: GetWebhook_def run_query_hook_calm)
  have cancel: thesis if "run_state (UpdateWebhookEvent c (weID e) cancel_updates) ?b = (r, a')"
      "\<forall>wh. getWebhook c (weWebhookID e) ?d ?t = Inr wh \<longrightarrow> \<not> whIsActive wh"
    using b updates_written(1)
  proof (cases rule: UpdateWebhookEvent_calm)
    case (written now n)
    then show thesis using that by (intro canceled [where n = n and now = now]) auto
  qed (use cancel_check [OF chk] in auto)
  show thesis
  proof (cases "getWebhook c (weWebhookID e) ?d ?t")
    case (Inl x)
    then have "is_not_found x" by (auto simp: getWebhook_def split: option.splits)
    then have "run_state (UpdateWebhookEvent c (weID e) cancel_updates) ?b = (r, a')"
      using run get Inl by (simp add: deliverEvent_def)
    then show thesis by (rule cancel) (simp add: Inl)
  next
    case (Inr wh)
    let ?s = "run_state (decryptSecret (whSecretEncrypted wh)) ?b"
    have dec: "fst ?s = fst (run_state (decryptSecret (whSecretEncrypted wh)) a)" "snd ?s = ?b"
      using run_decryptSecret(2) [of a ?b] run_decryptSecret(1) by simp_all
    consider (off) "\<not> whIsActive wh" | (bad) "whIsActive wh" "\<not> deliverable c a e wh" | (good) "deliverable c a e wh"
      by blast
    then show thesis
    proof cases
      case off
      then have "run_state (UpdateWebhookEvent c (weID e) cancel_updates) ?b = (r, a')"
        using run get Inr by (simp add: deliverEvent_def)
      then show thesis by (rule cancel) (simp add: Inr off)
    next
      case bad
      then have "a' = ?b" using run get Inr dec
        by (auto simp: deliverEvent_def deliverable_def split: sum.splits prod.splits)
      then show thesis using bad Inr by (intro kept [where wh = wh]) auto
    next
      case good
      then obtain payload secret where p: "parse_payload (wePayload e) = Inr payload" and s: "?s = (Inr secret, ?b)"
        using dec by (auto simp: deliverable_def Inr isl_def) (metis prod.collapse sum.collapse(2) isl_def)
      let ?wi = "\<lparr>wiID = whID wh, wiURL = whURL wh, wiHeaders = parse_headers (he_time_text ?b) (whHeaders wh),
          wiTimeoutSeconds = whTimeoutSeconds wh\<rparr>"
      obtain res d where d: "run_state (deliver ?wi payload (weID e) secret) ?b = (res, d)"
        by (cases "run_state (deliver ?wi payload (weID e) secret) ?b")
      from b(1) d obtain n ps where d': "d = ?b\<lparr>hw_core := (hw_core ?b)\<lparr>w_tick := n\<rparr>, hw_posts := hw_posts ?b @ ps\<rparr>"
        and ps: "own_posts (weID e) ps" "result_ok res" by (rule deliver_calm)
      let ?d2 = "hticked (Suc (Suc n)) d" and ?u = "outcome_updates (e_clock (hw_core d) n) (e_clock (hw_core d) (Suc n)) wh e res"
      have upd: "run_state (UpdateWebhookEvent c (weID e) ?u) ?d2 = (r, a')"
        using run get Inr good p s d d' by (simp add: deliverEvent_def deliverable_def)
      have d2: "calm ?d2" "distinct (map weID (webhook_events (hw_tables ?d2)))" "e \<in> set (webhook_events (hw_tables ?d2))"
        "rls_visible (w_db (hw_core ?d2)) c (weTenantID e)" using b d' by (simp_all add: calm_def)
      have "?u \<noteq> no_event_updates" by (rule updates_written)
      from d2 this show thesis
      proof (cases rule: UpdateWebhookEvent_calm)
        case (written now m)
        then have "a' = a\<lparr>hw_core := (hw_core a)\<lparr>w_tick := m\<rparr>, hw_posts := hw_posts a @ ps,
            hw_tables := put_event (apply_event_updates now ?u e) (hw_tables a)\<rparr>"
          using upd d' by (cases a) simp
        then show thesis by (rule attempted [OF good ps(2,1)])
      next
        case (refused now m x)
        then have "\<not> fits_int4 (weAttempts e + 1)" using outcome_check [OF chk] ps(2) by (auto simp: result_ok_def)
        moreover have "a' = a\<lparr>hw_core := (hw_core a)\<lparr>w_tick := m\<rparr>, hw_posts := hw_posts a @ ps\<rparr>"
          using refused upd d' by (cases a) simp
        ultimately show thesis by (rule that(4) [OF good ps(1)])
      qed
    qed
  qed
qed

section \<open>Runs of the job\<close>

lemma claim_calm:
  assumes calm: "calm a" and ok: "hooks_ok (hw_tables a)" and run: "run_state (GetPendingWebhookEvents c limit) a = (r, b)"
  obtains (failed) x n where "r = Inl x" "b = hticked n a"
    | (claimed) es n now I where "r = Inr es"
        "b = a\<lparr>hw_core := (hw_core a)\<lparr>w_tick := n\<rparr>, hw_tables := (hw_tables a)\<lparr>webhook_events :=
           map (\<lambda>e. if weID e \<in> I then leased now e else e) (webhook_events (hw_tables a))\<rparr>\<rparr>"
        "distinct (map weID es)"
        "\<forall>e \<in> set es. e \<in> set (webhook_events (hw_tables b)) \<and> weStatus e = WebhookEventStatusPending \<and>
           rls_visible (w_db (hw_core a)) c (weTenantID e)"
proof (cases "limit < 0")
  case True
  then show thesis using run calm
    by (intro failed) (auto simp: GetPendingWebhookEvents_def run_exec_hook_calm getPendingWebhookEvents_def)
next
  case False
  let ?now = "e_clock (hw_core a) (w_tick (hw_core a))" and ?E = "webhook_events (hw_tables a)"
  let ?cl = "take (nat limit) (sort_key weCreatedAt (filter (claimable ?now c (he_locked a (w_tick (hw_core a))) (w_db (hw_core a))) ?E))"
  let ?I = "weID ` set ?cl"
  let ?b = "a\<lparr>hw_core := (hw_core a)\<lparr>w_tick := Suc (w_tick (hw_core a))\<rparr>,
      hw_tables := (hw_tables a)\<lparr>webhook_events := map (\<lambda>e. if weID e \<in> ?I then leased ?now e else e) ?E\<rparr>\<rparr>"
  have "run_state (GetPendingWebhookEvents c limit) a = (Inr (map (leased ?now) ?cl), ?b)"
    using calm False by (simp add: GetPendingWebhookEvents_def run_exec_hook_calm getPendingWebhookEvents_def Let_def)
  then have r: "r = Inr (map (leased ?now) ?cl)" and b: "b = ?b" using run by simp_all
  have cl: "e \<in> set ?E \<and> claimable ?now c (he_locked a (w_tick (hw_core a))) (w_db (hw_core a)) e" if "e \<in> set ?cl" for e
    using in_set_takeD [OF that] by simp
  have "distinct (map weID (sort_key weCreatedAt (filter P ?E)))" for P
    using ok by (simp add: hooks_ok_def distinct_map inj_on_def)
  then have "distinct (take (nat limit) (map weID (sort_key weCreatedAt (filter P ?E))))" for P by (rule distinct_take)
  then have "distinct (map weID (map (leased ?now) ?cl))" by (simp add: comp_def take_map)
  moreover have "leased ?now e \<in> set (webhook_events (hw_tables b))" if "e \<in> set ?cl" for e
    using cl [OF that] that unfolding b by (auto intro!: image_eqI [of _ _ e])
  moreover have "weStatus e = WebhookEventStatusPending \<and> rls_visible (w_db (hw_core a)) c (weTenantID e)" if "e \<in> set ?cl" for e
    using cl [OF that] by (simp add: claimable_def)
  ultimately show thesis by (intro claimed [OF r b]) auto
qed

text \<open>
  What holds of a world before and after a batch of deliveries: a property of worlds that a claim and the
  delivery of a single pending event keep.
\<close>

locale delivery_invariant =
  fixes J :: "hook_world \<Rightarrow> bool" and c :: ctx
  assumes J_calm: "J a \<Longrightarrow> calm a \<and> hooks_ok (hw_tables a)"
    and J_tick: "J a \<Longrightarrow> J (hticked n a)"
    and J_claim: "J a \<Longrightarrow> J (a\<lparr>hw_core := (hw_core a)\<lparr>w_tick := n\<rparr>, hw_tables := (hw_tables a)\<lparr>webhook_events :=
           map (\<lambda>e. if weID e \<in> I then leased now e else e) (webhook_events (hw_tables a))\<rparr>\<rparr>)"
    and J_deliver: "\<lbrakk>J a; e \<in> set (webhook_events (hw_tables a)); weStatus e = WebhookEventStatusPending;
        rls_visible (w_db (hw_core a)) c (weTenantID e); run_state (deliverEvent c e) a = (r, b)\<rbrakk> \<Longrightarrow> J b"
begin

lemma deliver_each_J:
  assumes "J a" and "distinct (map weID es)"
    and "\<forall>e \<in> set es. e \<in> set (webhook_events (hw_tables a)) \<and> weStatus e = WebhookEventStatusPending \<and>
       rls_visible (w_db (hw_core a)) c (weTenantID e)"
    and "run_state (deliver_each c es k) a = (r, b)"
  shows "J b"
  using assms
proof (induction es arbitrary: a k)
  case (Cons e es)
  obtain x d where x: "run_state (deliverEvent c e) a = (x, d)" by (cases "run_state (deliverEvent c e) a")
  have e: "e \<in> set (webhook_events (hw_tables a))" "rls_visible (w_db (hw_core a)) c (weTenantID e)"
    and calm: "calm a" "hooks_ok (hw_tables a)" using Cons.prems(3) J_calm [OF Cons.prems(1)] by auto
  have "f \<in> set (webhook_events (hw_tables d))" if "f \<in> set (webhook_events (hw_tables a))" "weID f \<noteq> weID e" for f
    using calm e x
  proof (cases rule: deliverEvent_calm)
  qed (use that in \<open>auto simp: set_put_row\<close>)
  moreover have "w_db (hw_core d) = w_db (hw_core a)"
    using hook_env_simps(8) [OF hook_env.respD [OF hook_env.resp_delivery(2) x]] .
  moreover have "weID f \<noteq> weID e" if "f \<in> set es" for f using Cons.prems(2) that by (auto simp: rev_image_eqI)
  ultimately have "\<forall>e \<in> set es. e \<in> set (webhook_events (hw_tables d)) \<and> weStatus e = WebhookEventStatusPending \<and>
      rls_visible (w_db (hw_core d)) c (weTenantID e)" using Cons.prems(3) by simp
  moreover have "J d" using J_deliver [OF Cons.prems(1) e(1) _ e(2) x] Cons.prems(3) by simp
  ultimately show ?case using Cons.IH Cons.prems(2,4) x by simp
qed simp

lemma run_J:
  assumes "J a" and "run_state (DeliverPendingEvents c limit) a = (r, b)" shows "J b"
proof -
  obtain x d where x: "run_state (GetPendingWebhookEvents c limit) a = (x, d)"
    by (cases "run_state (GetPendingWebhookEvents c limit) a")
  from J_calm [OF assms(1)] have "calm a" "hooks_ok (hw_tables a)" by auto
  from this x show ?thesis
  proof (cases rule: claim_calm)
    case (failed y n)
    then show ?thesis using assms x J_tick by (auto simp: DeliverPendingEvents_def)
  next
    case (claimed es n now I)
    obtain k b' where each: "run_state (deliver_each c es 0) d = (k, b')" by (cases "run_state (deliver_each c es 0) d")
    have "J d" unfolding claimed(2) by (rule J_claim [OF assms(1)])
    moreover have "\<forall>e \<in> set es. e \<in> set (webhook_events (hw_tables d)) \<and> weStatus e = WebhookEventStatusPending \<and>
        rls_visible (w_db (hw_core d)) c (weTenantID e)" using claimed(2,4) by simp
    ultimately have "J b'" using deliver_each_J claimed(3) each by blast
    then show ?thesis using assms(2) x claimed(1) each by (simp add: DeliverPendingEvents_def)
  qed
qed

lemma runs_J:
  "J a \<Longrightarrow> run_state (for_each (\<lambda>limit. ignore_err (DeliverPendingEvents c limit)) limits) a = (u, a') \<Longrightarrow> J a'"
proof (induction limits arbitrary: a)
  case (Cons limit limits)
  obtain r b where b: "run_state (DeliverPendingEvents c limit) a = (r, b)" by (cases "run_state (DeliverPendingEvents c limit) a")
  have "J b" by (rule run_J [OF Cons.prems(1) b])
  then show ?case using Cons.IH Cons.prems(2) b by simp
qed simp

end

section \<open>How often an event is posted\<close>

definition posts_of :: "string \<Rightarrow> hook_world \<Rightarrow> nat" where
  "posts_of eid a = length (filter (\<lambda>p. hpEventID p = eid) (hw_posts a))"

lemma posts_of_simps [simp]:
  "posts_of eid (hticked n a) = posts_of eid a" "posts_of eid (a\<lparr>hw_tables := t\<rparr>) = posts_of eid a"
  "posts_of eid (a\<lparr>hw_core := (hw_core a)\<lparr>w_tick := n\<rparr>, hw_tables := t\<rparr>) = posts_of eid a"
  by (simp_all add: posts_of_def)

lemma posts_of_own:
  assumes "own_posts i ps" and "hw_posts b = hw_posts a @ ps"
  shows "posts_of eid b \<le> posts_of eid a + (if i = eid then 1 else 0)"
  using assms by (cases ps) (auto simp: posts_of_def own_posts_def)

text \<open>How many requests an event may still cause.\<close>

definition remaining :: "int \<Rightarrow> WebhookEvent \<Rightarrow> nat" where
  "remaining m e = (if weStatus e = WebhookEventStatusPending then nat (max 1 (m - weAttempts e)) else 0)"

lemma remaining_leased [simp]: "remaining m (leased now e) = remaining m e"
  by (simp add: remaining_def)

lemma outcome_status:
  "\<exists>s. weuStatus (outcome_updates n k wh e res) = Some s \<and> (s = WebhookEventStatusPending \<longrightarrow> weAttempts e + 1 < whMaxRetries wh)"
  by (cases "drSuccess res \<or> weAttempts e + 1 \<ge> whMaxRetries wh")
    (auto simp: outcome_updates_def Let_def event_status_defs)

lemma outcome_attempts: "weuAttempts (outcome_updates n k wh e res) = Some (weAttempts e + 1)"
  by (simp add: outcome_updates_def Let_def)

lemma outcome_remaining:
  assumes "weStatus e = WebhookEventStatusPending"
  shows "remaining (whMaxRetries wh) (apply_event_updates now (outcome_updates n k wh e res) e) + 1 \<le> remaining (whMaxRetries wh) e"
    and "weStatus (apply_event_updates now (outcome_updates n k wh e res) e) = WebhookEventStatusPending \<Longrightarrow>
      weAttempts (apply_event_updates now (outcome_updates n k wh e res) e) < whMaxRetries wh"
proof -
  obtain s where "weuStatus (outcome_updates n k wh e res) = Some s"
    "s = WebhookEventStatusPending \<longrightarrow> weAttempts e + 1 < whMaxRetries wh" using outcome_status by blast
  then show "remaining (whMaxRetries wh) (apply_event_updates now (outcome_updates n k wh e res) e) + 1 \<le> remaining (whMaxRetries wh) e"
    "weStatus (apply_event_updates now (outcome_updates n k wh e res) e) = WebhookEventStatusPending \<Longrightarrow>
      weAttempts (apply_event_updates now (outcome_updates n k wh e res) e) < whMaxRetries wh"
    using assms by (auto simp: remaining_def apply_event_updates_def upd_def outcome_attempts)
qed

lemma canceled_remaining: "remaining m (apply_event_updates now cancel_updates e) = 0"
  by (simp add: remaining_def apply_event_updates_def cancel_updates_def upd_def no_event_updates_def event_status_defs)

definition budgeted :: "string \<Rightarrow> string \<Rightarrow> int \<Rightarrow> nat \<Rightarrow> hook_world \<Rightarrow> WebhookEvent \<Rightarrow> bool" where
  "budgeted eid wid m B a e \<longleftrightarrow> e \<in> set (webhook_events (hw_tables a)) \<and> weID e = eid \<and> weWebhookID e = wid \<and>
     (weStatus e = WebhookEventStatusPending \<longrightarrow> weAttempts e < 2 ^ 31 - 1) \<and> posts_of eid a + remaining m e \<le> B"

definition within_budget :: "string \<Rightarrow> string \<Rightarrow> int \<Rightarrow> nat \<Rightarrow> hook_world \<Rightarrow> bool" where
  "within_budget eid wid m B a \<longleftrightarrow> calm a \<and> hooks_ok (hw_tables a) \<and>
     (\<forall>w \<in> set (webhooks (hw_tables a)). whID w = wid \<longrightarrow> whMaxRetries w = m) \<and> (\<exists>e. budgeted eid wid m B a e)"

lemma deliverEvent_schema: "run_state (deliverEvent c e) a = (r, b) \<Longrightarrow> calm a \<Longrightarrow> hooks_ok (hw_tables a) \<Longrightarrow> calm b \<and> hooks_ok (hw_tables b)"
  using hook_reach.respD [OF hook_reach.resp_delivery(2)] hook_env.respD [OF hook_env.resp_delivery(2)]
  by (metis calm_kept hook_run_ok)

lemma deliverable_webhook: "deliverable c a e wh \<Longrightarrow> wh \<in> set (webhooks (hw_tables a)) \<and> whID wh = weWebhookID e"
  by (auto simp: deliverable_def getWebhook_def split: option.splits dest!: find_key_eq)

lemma budgeted_deliver:
  assumes inv: "within_budget eid wid m B a" and bud: "budgeted eid wid m B a row"
    and e: "e \<in> set (webhook_events (hw_tables a))" "weStatus e = WebhookEventStatusPending"
      "rls_visible (w_db (hw_core a)) c (weTenantID e)"
    and run: "run_state (deliverEvent c e) a = (r, b)"
  shows "\<exists>row'. budgeted eid wid m B b row'"
proof -
  have ok: "calm a" "hooks_ok (hw_tables a)" using inv by (auto simp: within_budget_def)
  have row: "row \<in> set (webhook_events (hw_tables a))" "weID row = eid" using bud by (auto simp: budgeted_def)
  have same: "e = row" if "weID e = eid"
    using ok(2) row e(1) that distinct_keyD by (fastforce simp: hooks_ok_def)
  have keep: "budgeted eid wid m B b row" if "row \<in> set (webhook_events (hw_tables b))" "posts_of eid b \<le> posts_of eid a"
    using bud that by (auto simp: budgeted_def)
  from ok e(1,3) run show ?thesis
  proof (cases rule: deliverEvent_calm)
    case (kept n wh)
    then show ?thesis using keep row by auto
  next
    case (canceled n now)
    show ?thesis
    proof (cases "weID e = eid")
      case True
      then show ?thesis using canceled bud e(1) same canceled_remaining [of m now e]
        by (intro exI [of _ "apply_event_updates now cancel_updates e"])
          (auto simp: budgeted_def set_put_row apply_event_updates_def cancel_updates_def upd_def no_event_updates_def event_status_defs)
    qed (use canceled keep row in \<open>auto simp: set_put_row\<close>)
  next
    case (attempted n now wh k l res ps)
    have posts: "posts_of eid b \<le> posts_of eid a + (if weID e = eid then 1 else 0)"
      using attempted(3,4) by (intro posts_of_own) auto
    show ?thesis
    proof (cases "weID e = eid")
      case True
      let ?e = "apply_event_updates now (outcome_updates k l wh e res) e"
      have wh: "wh \<in> set (webhooks (hw_tables a))" "whID wh = wid"
        using deliverable_webhook [OF attempted(1)] bud same [OF True] by (auto simp: budgeted_def)
      then have m: "whMaxRetries wh = m" and "whMaxRetries wh < 2 ^ 31"
        using inv by (auto simp: within_budget_def hooks_ok_def webhook_check_def fits_int4_def)
      then have "weStatus ?e = WebhookEventStatusPending \<longrightarrow> weAttempts ?e < 2 ^ 31 - 1"
        using outcome_remaining(2) [OF e(2), of now k l wh res] by linarith
      moreover have "posts_of eid b + remaining m ?e \<le> B"
        using posts outcome_remaining(1) [OF e(2), of wh now k l res] m True bud same [OF True] by (simp add: budgeted_def)
      moreover have "?e \<in> set (webhook_events (hw_tables b))" using attempted(4) e(1) by (auto simp: set_put_row)
      ultimately show ?thesis using True bud same [OF True] by (intro exI [of _ ?e]) (simp add: budgeted_def)
    qed (use attempted posts keep row in \<open>auto simp: set_put_row\<close>)
  next
    case (refused n wh ps)
    have "weID e \<noteq> eid"
    proof
      assume "weID e = eid"
      then have "weAttempts e < 2 ^ 31 - 1" using bud e(2) same by (simp add: budgeted_def)
      moreover have "event_check e" using ok(2) e(1) by (simp add: hooks_ok_def)
      ultimately show False using refused(3) by (simp add: fits_int4_def event_check_def)
    qed
    moreover have "posts_of eid b \<le> posts_of eid a + (if weID e = eid then 1 else 0)"
      using refused(2,4) by (intro posts_of_own) auto
    ultimately show ?thesis using keep refused(4) row by auto
  qed
qed

interpretation budget: delivery_invariant "within_budget eid wid m B" c for eid wid m B c
proof
  fix a assume "within_budget eid wid m B a"
  then show "calm a \<and> hooks_ok (hw_tables a)" by (simp add: within_budget_def)
next
  fix a n assume "within_budget eid wid m B a"
  then show "within_budget eid wid m B (hticked n a)" by (simp add: within_budget_def budgeted_def)
next
  fix a n I now assume inv: "within_budget eid wid m B a"
  let ?f = "\<lambda>e. if weID e \<in> I then leased now e else e"
  have ok: "hooks_ok ((hw_tables a)\<lparr>webhook_events := map ?f (webhook_events (hw_tables a))\<rparr>)"
    using inv by (intro hooks_ok_map) (auto simp: within_budget_def event_check_def)
  from inv obtain e where "budgeted eid wid m B a e" by (auto simp: within_budget_def)
  then have "budgeted eid wid m B (a\<lparr>hw_core := (hw_core a)\<lparr>w_tick := n\<rparr>,
      hw_tables := (hw_tables a)\<lparr>webhook_events := map ?f (webhook_events (hw_tables a))\<rparr>\<rparr>) (?f e)"
    by (auto simp: budgeted_def)
  then show "within_budget eid wid m B (a\<lparr>hw_core := (hw_core a)\<lparr>w_tick := n\<rparr>,
      hw_tables := (hw_tables a)\<lparr>webhook_events := map ?f (webhook_events (hw_tables a))\<rparr>\<rparr>)"
    using inv ok unfolding within_budget_def by auto
next
  fix a e r b
  assume inv: "within_budget eid wid m B a" and e: "e \<in> set (webhook_events (hw_tables a))"
    "weStatus e = WebhookEventStatusPending" "rls_visible (w_db (hw_core a)) c (weTenantID e)"
    and run: "run_state (deliverEvent c e) a = (r, b)"
  from inv obtain row where "budgeted eid wid m B a row" by (auto simp: within_budget_def)
  from budgeted_deliver [OF inv this e run] have row: "\<exists>row'. budgeted eid wid m B b row'" .
  have ok: "calm a" "hooks_ok (hw_tables a)" using inv by (auto simp: within_budget_def)
  have "webhooks (hw_tables b) = webhooks (hw_tables a)"
    using ok e(1,3) run by (cases rule: deliverEvent_calm) auto
  then show "within_budget eid wid m B b" using row inv deliverEvent_schema [OF run ok] by (simp add: within_budget_def)
qed

text \<open>
  C35. An event is posted a bounded number of times while the database answers and the runs of the
  delivery job follow one another: over any number of such runs the requests for an event are at most
  its remaining retries, or one when none is left, and an event that is not pending causes none. With
  faults there is no bound: a post whose result could not be recorded is repeated uncounted, and
  runs that overlap for longer than a lease may post the same event (delivery is at least once).
\<close>

theorem posts_bounded:
  assumes "calm a" and "hooks_ok (hw_tables a)" and "e \<in> set (webhook_events (hw_tables a))" and "weAttempts e < 2 ^ 31 - 1"
    and "w \<in> set (webhooks (hw_tables a))" and "whID w = weWebhookID e"
    and "run_state (for_each (\<lambda>limit. ignore_err (DeliverPendingEvents c limit)) limits) a = (u, a')"
  shows "posts_of (weID e) a' \<le> posts_of (weID e) a +
     (if weStatus e = WebhookEventStatusPending then nat (max 1 (whMaxRetries w - weAttempts e)) else 0)"
proof -
  let ?B = "posts_of (weID e) a + remaining (whMaxRetries w) e"
  have "\<forall>x \<in> set (webhooks (hw_tables a)). whID x = weWebhookID e \<longrightarrow> whMaxRetries x = whMaxRetries w"
    using assms(2,5,6) distinct_keyD by (fastforce simp: hooks_ok_def)
  then have "within_budget (weID e) (weWebhookID e) (whMaxRetries w) ?B a"
    using assms(1-4) by (auto simp: within_budget_def budgeted_def)
  from budget.runs_J [OF this assms(7)] have "posts_of (weID e) a' \<le> ?B" by (auto simp: within_budget_def budgeted_def)
  then show ?thesis by (simp add: remaining_def)
qed

section \<open>Events that are never given up\<close>

text \<open>The event, its webhook, and that the secret of the webhook cannot be read.\<close>

definition stuck_row :: "WebhookEvent \<Rightarrow> hook_world \<Rightarrow> bool" where
  "stuck_row e a \<longleftrightarrow> (\<exists>row \<in> set (webhook_events (hw_tables a)). weID row = weID e \<and> weWebhookID row = weWebhookID e \<and>
     weStatus row = WebhookEventStatusPending \<and> weAttempts row = weAttempts e)"

definition stuck :: "ctx \<Rightarrow> WebhookEvent \<Rightarrow> Webhook \<Rightarrow> nat \<Rightarrow> hook_world \<Rightarrow> bool" where
  "stuck c e w N a \<longleftrightarrow> calm a \<and> hooks_ok (hw_tables a) \<and> stuck_row e a \<and> posts_of (weID e) a = N \<and>
     w \<in> set (webhooks (hw_tables a)) \<and> whID w = weWebhookID e \<and> whIsActive w \<and>
     rls_visible (w_db (hw_core a)) c (whTenantID w) \<and> isl (fst (run_state (decryptSecret (whSecretEncrypted w)) a))"

lemma stuck_deliver:
  assumes s: "stuck c e w N a" and f: "f \<in> set (webhook_events (hw_tables a))"
      "rls_visible (w_db (hw_core a)) c (weTenantID f)"
    and run: "run_state (deliverEvent c f) a = (r, b)"
  shows "stuck_row e b \<and> posts_of (weID e) b = N"
proof -
  have ok: "calm a" "hooks_ok (hw_tables a)" using s by (auto simp: stuck_def)
  obtain row where row: "row \<in> set (webhook_events (hw_tables a))" "weID row = weID e" "weWebhookID row = weWebhookID e"
    "weStatus row = WebhookEventStatusPending" "weAttempts row = weAttempts e" using s by (auto simp: stuck_def stuck_row_def)
  have get: "getWebhook c (weWebhookID e) (w_db (hw_core a)) (hw_tables a) = Inr w"
  proof -
    have "find (\<lambda>x. whID x = weWebhookID e \<and> rls_visible (w_db (hw_core a)) c (whTenantID x)) (webhooks (hw_tables a)) = Some w"
      using s by (intro find_unique_key [where key = whID]) (auto simp: stuck_def hooks_ok_def)
    then show ?thesis by (simp add: getWebhook_def)
  qed
  have bad: "\<not> deliverable c a f wh" and act: "getWebhook c (weWebhookID f) (w_db (hw_core a)) (hw_tables a) = Inr wh \<longrightarrow> whIsActive wh"
    if "weWebhookID f = weWebhookID e" for wh using that get s by (auto simp: deliverable_def stuck_def)
  have same: "weWebhookID f = weWebhookID e" if "weID f = weID e"
    using ok(2) row that f(1) distinct_keyD by (fastforce simp: hooks_ok_def)
  have stay: ?thesis if "row \<in> set (webhook_events (hw_tables b))" "posts_of (weID e) b = posts_of (weID e) a"
    using that row s by (auto simp: stuck_row_def stuck_def)
  from ok f run show ?thesis
  proof (cases rule: deliverEvent_calm)
    case (kept n wh)
    then show ?thesis using stay row by simp
  next
    case (canceled n now)
    then have "weID f \<noteq> weID e" using act same get by auto
    then show ?thesis using canceled stay row by (auto simp: set_put_row)
  next
    case (attempted n now wh k l res ps)
    then have ne: "weID f \<noteq> weID e" using bad same by auto
    moreover have "posts_of (weID e) b = posts_of (weID e) a"
      using attempted(3,4) ne by (cases ps) (auto simp: posts_of_def own_posts_def)
    ultimately show ?thesis using attempted(4) stay row by (auto simp: set_put_row)
  next
    case (refused n wh ps)
    then have ne: "weID f \<noteq> weID e" using bad same by auto
    moreover have "posts_of (weID e) b = posts_of (weID e) a"
      using refused(2,4) ne by (cases ps) (auto simp: posts_of_def own_posts_def)
    ultimately show ?thesis using refused(4) stay row by auto
  qed
qed

interpretation stuck_event: delivery_invariant "stuck c e w N" c for c e w N
proof
  fix a assume "stuck c e w N a"
  then show "calm a \<and> hooks_ok (hw_tables a)" by (simp add: stuck_def)
next
  fix a n assume "stuck c e w N a"
  then show "stuck c e w N (hticked n a)"
    using run_decryptSecret(2) [of a "hticked n a"] by (simp add: stuck_def stuck_row_def)
next
  fix a n I now assume s: "stuck c e w N a"
  let ?f = "\<lambda>e. if weID e \<in> I then leased now e else e"
  let ?b = "a\<lparr>hw_core := (hw_core a)\<lparr>w_tick := n\<rparr>, hw_tables := (hw_tables a)\<lparr>webhook_events := map ?f (webhook_events (hw_tables a))\<rparr>\<rparr>"
  have "hooks_ok ((hw_tables a)\<lparr>webhook_events := map ?f (webhook_events (hw_tables a))\<rparr>)"
    using s by (intro hooks_ok_map) (auto simp: stuck_def event_check_def)
  moreover have "stuck_row e ?b"
  proof -
    obtain row where "row \<in> set (webhook_events (hw_tables a))" "weID row = weID e" "weWebhookID row = weWebhookID e"
      "weStatus row = WebhookEventStatusPending" "weAttempts row = weAttempts e" using s by (auto simp: stuck_def stuck_row_def)
    then show ?thesis unfolding stuck_row_def by (intro bexI [of _ "?f row"]) auto
  qed
  moreover have "fst (run_state (decryptSecret (whSecretEncrypted w)) ?b) = fst (run_state (decryptSecret (whSecretEncrypted w)) a)"
    by (rule run_decryptSecret(2)) simp_all
  ultimately show "stuck c e w N ?b" using s by (simp add: stuck_def)
next
  fix a f r b
  assume s: "stuck c e w N a" and f: "f \<in> set (webhook_events (hw_tables a))" "rls_visible (w_db (hw_core a)) c (weTenantID f)"
    and run: "run_state (deliverEvent c f) a = (r, b)"
  have ok: "calm a" "hooks_ok (hw_tables a)" using s by (auto simp: stuck_def)
  have env: "hook_env_kept a b" using hook_env.respD [OF hook_env.resp_delivery(2) run] .
  have "fst (run_state (decryptSecret (whSecretEncrypted w)) b) = fst (run_state (decryptSecret (whSecretEncrypted w)) a)"
    using hook_env_simps [OF env] by (intro run_decryptSecret(2)) simp_all
  moreover have "webhooks (hw_tables b) = webhooks (hw_tables a)" using ok f run by (cases rule: deliverEvent_calm) auto
  ultimately show "stuck c e w N b"
    using stuck_deliver [OF s f run] deliverEvent_schema [OF run ok] s hook_env_simps(8) [OF env] by (simp add: stuck_def)
qed

text \<open>
  C37. An event whose secret cannot be decrypted is never given up: while the database answers, a pending
  event of an active webhook that the job's context sees stays pending with the same count of
  attempts and without a request, however often the delivery job runs. The retry limit of its
  webhook does not apply, because the delivery returns before it counts an attempt.
\<close>

theorem undecryptable_event_never_exhausted:
  assumes "calm a" and "hooks_ok (hw_tables a)" and "e \<in> set (webhook_events (hw_tables a))"
    and "weStatus e = WebhookEventStatusPending" and "w \<in> set (webhooks (hw_tables a))" and "whID w = weWebhookID e"
    and "whIsActive w" and "rls_visible (w_db (hw_core a)) c (whTenantID w)"
    and "isl (fst (run_state (decryptSecret (whSecretEncrypted w)) a))"
    and "run_state (for_each (\<lambda>limit. ignore_err (DeliverPendingEvents c limit)) limits) a = (u, a')"
  shows "(\<exists>e' \<in> set (webhook_events (hw_tables a')). weID e' = weID e \<and> weStatus e' = WebhookEventStatusPending \<and>
       weAttempts e' = weAttempts e) \<and> posts_of (weID e) a' = posts_of (weID e) a"
proof -
  have "stuck c e w (posts_of (weID e) a) a" using assms by (auto simp: stuck_def stuck_row_def)
  from stuck_event.runs_J [OF this assms(10)] show ?thesis by (auto simp: stuck_def stuck_row_def)
qed

section \<open>Queueing\<close>

definition queued_for :: "string \<Rightarrow> string option \<Rightarrow> Webhook list \<Rightarrow> WebhookEvent list \<Rightarrow> bool" where
  "queued_for ev tenant whs new \<longleftrightarrow> map weWebhookID (rev new) = map whID whs \<and>
     (\<forall>e \<in> set new. weEventType e = ev \<and> weStatus e = WebhookEventStatusPending \<and> weAttempts e = 0 \<and>
        weNextRetryAt e = None \<and> weTenantID e = tenant)"

text \<open>Ids that were not handed out yet do not occur in the queue.\<close>

definition fresh_ids :: "hook_world \<Rightarrow> bool" where
  "fresh_ids a \<longleftrightarrow> inj (e_id (hw_core a)) \<and>
     (\<forall>k \<ge> w_tick (hw_core a). e_id (hw_core a) k \<noteq> [] \<and> e_id (hw_core a) k \<notin> weID ` set (webhook_events (hw_tables a)))"

lemma queue_event_run:
  assumes calm: "calm a" and vis: "rls_visible (w_db (hw_core a)) c tenant" and ids: "fresh_ids a"
    and fk: "whID wh \<in> whID ` set (webhooks (hw_tables a))" and sub: "subscribed ev wh"
  obtains e n where "run_state (queue_event c ev now payload tenant wh) a = ((), a\<lparr>hw_core := (hw_core a)\<lparr>w_tick := n\<rparr>,
      hw_tables := (hw_tables a)\<lparr>webhook_events := e # webhook_events (hw_tables a)\<rparr>\<rparr>)"
    "queued_for ev tenant [wh] [e]" "weID e = e_id (hw_core a) (w_tick (hw_core a))" "w_tick (hw_core a) < n"
proof -
  let ?k = "w_tick (hw_core a)" and ?id = "e_id (hw_core a) (w_tick (hw_core a))" and ?now = "e_clock (hw_core a) (Suc (w_tick (hw_core a)))"
  let ?e = "(new_event ?id now ev wh payload tenant)\<lparr>weCreatedAt := ?now, weUpdatedAt := ?now\<rparr>"
  have "?id \<noteq> [] \<and> ?id \<notin> weID ` set (webhook_events (hw_tables a))" using ids by (auto simp: fresh_ids_def)
  then have "run_state (queue_event c ev now payload tenant wh) a = ((), a\<lparr>hw_core := (hw_core a)\<lparr>w_tick := Suc (Suc ?k)\<rparr>,
      hw_tables := (hw_tables a)\<lparr>webhook_events := ?e # webhook_events (hw_tables a)\<rparr>\<rparr>)"
    using calm vis fk sub by (simp add: queue_event_def CreateWebhookEvent_def run_exec_hook_calm createWebhookEvent_def Let_def
        new_event_def event_check_def event_fk_def fits_int4_def)
  then show thesis by (rule that) (simp_all add: queued_for_def new_event_def)
qed

lemma queue_all:
  assumes "calm a" and "rls_visible (w_db (hw_core a)) c tenant" and "fresh_ids a"
    and "\<forall>wh \<in> set whs. whID wh \<in> whID ` set (webhooks (hw_tables a))"
  obtains new n where "run_state (for_each (queue_event c ev now payload tenant) whs) a = ((), a\<lparr>hw_core := (hw_core a)\<lparr>w_tick := n\<rparr>,
      hw_tables := (hw_tables a)\<lparr>webhook_events := new @ webhook_events (hw_tables a)\<rparr>\<rparr>)"
    "queued_for ev tenant (filter (subscribed ev) whs) new"
  using assms
proof (induction whs arbitrary: a thesis)
  case Nil
  then show ?case by (intro Nil.prems(1) [where n = "w_tick (hw_core a)" and new = "[]"]) (simp_all add: queued_for_def)
next
  case (Cons wh whs)
  show ?case
  proof (cases "subscribed ev wh")
    case False
    then have q: "run_state (queue_event c ev now payload tenant wh) a = ((), a)" by (simp add: queue_event_def)
    show ?thesis
    proof (rule Cons.IH [OF _ Cons.prems(2-4)])
      fix n new
      assume r: "run_state (for_each (queue_event c ev now payload tenant) whs) a = ((), a\<lparr>hw_core := (hw_core a)\<lparr>w_tick := n\<rparr>,
        hw_tables := (hw_tables a)\<lparr>webhook_events := new @ webhook_events (hw_tables a)\<rparr>\<rparr>)"
        and "queued_for ev tenant (filter (subscribed ev) whs) new"
      then show ?thesis using Cons.prems(1) q False by simp
    qed (use Cons.prems(5) in simp)
  next
    case True
    from Cons.prems(2-4) _ True obtain e n where
      q: "run_state (queue_event c ev now payload tenant wh) a = ((), a\<lparr>hw_core := (hw_core a)\<lparr>w_tick := n\<rparr>,
        hw_tables := (hw_tables a)\<lparr>webhook_events := e # webhook_events (hw_tables a)\<rparr>\<rparr>)" (is "_ = ((), ?b)")
      and e: "queued_for ev tenant [wh] [e]" "weID e = e_id (hw_core a) (w_tick (hw_core a))" "w_tick (hw_core a) < n"
      by (rule queue_event_run) (use Cons.prems(5) in simp)
    have "e_id (hw_core a) k \<noteq> weID e" if "k \<ge> n" for k
      using that e(2,3) Cons.prems(4) injD [of "e_id (hw_core a)" k "w_tick (hw_core a)"] by (auto simp: fresh_ids_def)
    then have "fresh_ids ?b" using Cons.prems(4) e(3) by (auto simp: fresh_ids_def)
    then show ?thesis
    proof (rule Cons.IH [rotated 3])
      fix m new
      assume r: "run_state (for_each (queue_event c ev now payload tenant) whs) ?b = ((), ?b\<lparr>hw_core := (hw_core ?b)\<lparr>w_tick := m\<rparr>,
        hw_tables := (hw_tables ?b)\<lparr>webhook_events := new @ webhook_events (hw_tables ?b)\<rparr>\<rparr>)"
        and new: "queued_for ev tenant (filter (subscribed ev) whs) new"
      show ?thesis
        by (rule Cons.prems(1) [where n = m and new = "new @ [e]"]) (use q r new e(1) True in \<open>auto simp: queued_for_def\<close>)
    qed (use Cons.prems in auto)
  qed
qed

text \<open>
  C36. A dispatched event reaches the queue of every subscriber: when the database answers and ids are
  fresh, one pending event with no attempts is added for each active webhook of the tenant that the
  caller can see and whose patterns match, in order, and nothing else changes in the tables.
\<close>

theorem dispatch_queues_for_subscribers:
  assumes "calm a" and "hooks_ok (hw_tables a)" and "rls_visible (w_db (hw_core a)) c tenant" and "fresh_ids a"
    and "run_state (Dispatch c ev res data tenant) a = (r, a')"
  shows "r = Inr () \<and> (\<exists>new. hw_tables a' = (hw_tables a)\<lparr>webhook_events := new @ webhook_events (hw_tables a)\<rparr> \<and>
     queued_for ev tenant (filter (\<lambda>w. rls_visible (w_db (hw_core a)) c (whTenantID w) \<and> whIsActive w \<and>
       stringValue (whTenantID w) = stringValue tenant \<and> subscribed ev w) (webhooks (hw_tables a))) new)"
proof -
  let ?P = "\<lambda>w. rls_visible (w_db (hw_core a)) c (whTenantID w) \<and> whIsActive w \<and> stringValue (whTenantID w) = stringValue tenant"
  let ?whs = "filter ?P (webhooks (hw_tables a))" and ?b = "hticked (Suc (w_tick (hw_core a))) a"
  have get: "run_state (GetActiveWebhooksForEvent c ev tenant) a = (Inr ?whs, ?b)"
    using assms(1) by (simp add: GetActiveWebhooksForEvent_def run_query_hook_calm getActiveWebhooksForEvent_def)
  have ff: "filter (subscribed ev) ?whs = filter (\<lambda>w. rls_visible (w_db (hw_core a)) c (whTenantID w) \<and> whIsActive w \<and>
       stringValue (whTenantID w) = stringValue tenant \<and> subscribed ev w) (webhooks (hw_tables a))"
    by (simp add: conj_ac)
  show ?thesis
  proof (cases "?whs = []")
    case True
    then have r: "r = Inr ()" "a' = ?b" using assms(5) get by (simp_all add: Dispatch_def)
    have "queued_for ev tenant (filter (subscribed ev) ?whs) []" unfolding True by (simp add: queued_for_def)
    then show ?thesis using r unfolding ff by (intro conjI exI [of _ "[]"]) simp_all
  next
    case False
    let ?d = "hticked (Suc (Suc (Suc (w_tick (hw_core a))))) a"
    let ?p = "payload_json \<lparr>plEvent = ev, plTimestamp = e_clock (hw_core a) (Suc (w_tick (hw_core a))), plResource = res, plData = data\<rparr>"
      and ?now = "e_clock (hw_core a) (Suc (Suc (w_tick (hw_core a))))"
    have d: "calm ?d" "rls_visible (w_db (hw_core ?d)) c tenant" "fresh_ids ?d" using assms(1,3,4) by (auto simp: fresh_ids_def)
    have "\<forall>wh \<in> set ?whs. whID wh \<in> whID ` set (webhooks (hw_tables ?d))" by auto
    with d obtain new n where q: "run_state (for_each (queue_event c ev ?now ?p tenant) ?whs) ?d = ((), ?d\<lparr>hw_core := (hw_core ?d)\<lparr>w_tick := n\<rparr>,
        hw_tables := (hw_tables ?d)\<lparr>webhook_events := new @ webhook_events (hw_tables ?d)\<rparr>\<rparr>)"
      "queued_for ev tenant (filter (subscribed ev) ?whs) new" by (rule queue_all)
    have r: "r = Inr ()" "a' = snd (run_state (for_each (queue_event c ev ?now ?p tenant) ?whs) ?d)"
      using assms(5) get False by (auto simp: Dispatch_def BuildPayload_def split: prod.splits)
    then show ?thesis using q unfolding ff by (intro conjI exI [of _ new]) simp_all
  qed
qed

end
