(* ===== verification/Webhook_Witnesses.thy ===== *)
theory Webhook_Witnesses
  imports Sample Webhook_Runs
begin

text \<open>
  A deployment with one webhook and one queued event, and the laws of webhooks applied to it. The
  receiver answers with a given status, ten minutes pass at every tick, and the cipher keeps the
  plaintext readable.
\<close>

definition sample_hook :: "string \<Rightarrow> string \<Rightarrow> Webhook" where
  "sample_hook i enc = \<lparr>whID = i, whName = i, whURL = ''https://hooks.example'', whEvents = Some [''task.*''],
     whSecretEncrypted = enc, whSecretHash = [], whSecretPrefix = [], whIsActive = True, whMaxRetries = 3,
     whRetryDelaySeconds = 60, whTimeoutSeconds = 30, whHeaders = JObj [], whTenantID = None, whLabels = JObj [],
     whAnnotations = JObj [], whCreatedAt = 1, whUpdatedAt = 1\<rparr>"

definition sample_payload :: json where
  "sample_payload = payload_json \<lparr>plEvent = EventTaskCompleted, plTimestamp = 5, plResource = plain_resource ''t-1'' ''task'',
     plData = JObj []\<rparr>"

definition sample_event :: WebhookEvent where
  "sample_event = new_event ''ev-1'' 5 EventTaskCompleted (sample_hook ''wh-1'' []) sample_payload None"

definition hook_rows :: "string \<Rightarrow> hook_tables" where
  "hook_rows enc = \<lparr>webhooks = [sample_hook ''wh-1'' enc], webhook_events = [sample_event]\<rparr>"

definition hooked :: "hook_tables \<Rightarrow> int \<Rightarrow> hook_world" where
  "hooked tb code = \<lparr>hw_core = sample_world\<lparr>e_clock := \<lambda>t. 600 * Second * min (int t) 1000000, e_id := \<lambda>t. replicate (Suc t) CHR ''i''\<rparr>,
     hw_tables = tb, hw_posts = [], he_config = hook_DefaultConfig, he_http = (\<lambda>_. HttpStatus code), he_url_err = (\<lambda>_. None),
     he_random = (\<lambda>t i. t + i), he_random_err = (\<lambda>_. None), he_sha256 = string_bytes,
     he_hmac = (\<lambda>k m. [length k mod 256, length m mod 256]), he_seal = (\<lambda>_ _. string_bytes), he_open = (\<lambda>_ _ d. Some (bytes_string d)),
     he_json_text = (\<lambda>_. ''{}''), he_time_text = (\<lambda>_. []), he_locked = (\<lambda>_ _. False)\<rparr>"

lemma hooked_calm: "0 \<le> code \<Longrightarrow> code \<le> 999 \<Longrightarrow> calm (hooked tb code)"
  by (simp add: calm_def hooked_def sample_world_def)

lemma hooked_simps [simp]: "hw_tables (hooked tb code) = tb" "w_db (hw_core (hooked tb code)) = sample_db" "hw_posts (hooked tb code) = []"
  by (simp_all add: hooked_def sample_world_def)

lemma hook_rows_ok: "hooks_ok (hook_rows enc)"
  by (simp add: hooks_ok_def hook_rows_def sample_hook_def sample_event_def new_event_def webhook_check_def fits_int4_def
      webhook_name_conflict_def event_check_def event_fk_def)

theorem claim_leases_event_witness:
  "\<exists>t. hook_run ([] @ HClaim 10 [''ev-1''] # [] @ [HClaim (10 + 5 * Minute) [''ev-1'']]) (hook_rows []) t \<and>
     10 + webhookEventClaimLease \<le> 10 + 5 * Minute"
proof -
  have e: "weID sample_event = ''ev-1''" "weTenantID sample_event = None" "weStatus sample_event = WebhookEventStatusPending"
    "weNextRetryAt sample_event = None" by (simp_all add: sample_event_def new_event_def)
  have 1: "getPendingWebhookEvents 10 app_ctx (\<lambda>_. False) 5 sample_db (hook_rows []) =
      Inr ([leased 10 sample_event], (hook_rows [])\<lparr>webhook_events := [leased 10 sample_event]\<rparr>)"
    by (simp add: getPendingWebhookEvents_def hook_rows_def claimable_def e Let_def)
  have 2: "getPendingWebhookEvents (10 + 5 * Minute) app_ctx (\<lambda>_. False) 5 sample_db ((hook_rows [])\<lparr>webhook_events := [leased 10 sample_event]\<rparr>) =
      Inr ([leased (10 + 5 * Minute) (leased 10 sample_event)],
        (hook_rows [])\<lparr>webhook_events := [leased (10 + 5 * Minute) (leased 10 sample_event)]\<rparr>)"
    by (simp add: getPendingWebhookEvents_def claimable_def e Let_def webhookEventClaimLease_def)
  have "hook_run ([] @ HClaim 10 [''ev-1''] # [] @ [HClaim (10 + 5 * Minute) [''ev-1'']]) (hook_rows [])
     ((hook_rows [])\<lparr>webhook_events := [leased (10 + 5 * Minute) (leased 10 sample_event)]\<rparr>)"
    using hook_more [OF hook_more [OF hook_none h_claim [OF 1]] h_claim [OF 2]] by (simp add: e)
  with claim_leases_event [OF this, of "''ev-1''"] show ?thesis by auto
qed

definition hook_input :: CreateWebhookInput where
  "hook_input = \<lparr>cwName = ''ci'', cwURL = ''https://hooks.example'', cwEvents = Some [''task.*''], cwMaxRetries = None,
     cwRetryDelaySeconds = None, cwTimeoutSeconds = None, cwHeaders = None, cwTenantID = None, cwLabels = None,
     cwAnnotations = None\<rparr>"

definition no_hooks :: hook_tables where
  "no_hooks = \<lparr>webhooks = [], webhook_events = []\<rparr>"

definition hook_requests :: "hook_request list" where
  "hook_requests = [ReqHookDispatch app_ctx EventTaskCompleted (plain_resource ''t-1'' ''task'') (JObj []) None]"

lemma deliverable_posted:
  assumes "calm a" and "getWebhook c (weWebhookID e) (w_db (hw_core a)) (hw_tables a) = Inr wh" and "whIsActive wh"
    and "parse_payload (wePayload e) = Inr p" and "fst (run_state (decryptSecret (whSecretEncrypted wh)) a) = Inr secret"
    and "int (length (he_json_text a (payload_json p))) \<le> wcMaxPayloadSize (he_config a)" and "he_url_err a (whURL wh) = None"
  shows "\<exists>req. hw_posts (snd (run_state (deliverEvent c e) a)) = hw_posts a @ [req]"
proof -
  let ?b = "hticked (Suc (w_tick (hw_core a))) a"
  have g: "run_state (GetWebhook c (weWebhookID e)) a = (Inr wh, ?b)"
    using assms(1,2) by (simp add: GetWebhook_def run_query_hook_calm)
  have d: "run_state (decryptSecret (whSecretEncrypted wh)) ?b = (Inr secret, ?b)"
    using run_decryptSecret(1) [of "whSecretEncrypted wh" ?b] run_decryptSecret(2) [of ?b a] assms(5) by (simp add: prod_eq_iff)
  show ?thesis using g d assms(3,4,6,7)
    by (auto simp: deliverEvent_def deliver_def post_def Let_def run_UpdateWebhookEvent split: prod.split)
qed

text \<open>A webhook is created, an event is dispatched to it, and the queued event can be delivered.\<close>

definition hook_story :: bool where
  "hook_story = (case run_state (wh_Create app_ctx hook_input) (hooked no_hooks 200) of
       (Inl _, _) \<Rightarrow> False
     | (Inr (wh, secret), a1) \<Rightarrow>
         (case run_state (for_each serve_hook hook_requests) a1 of (_, b) \<Rightarrow>
           (case webhook_events (hw_tables b) of
              [] \<Rightarrow> False
            | e # _ \<Rightarrow>
                getWebhook app_ctx (weWebhookID e) (w_db (hw_core b)) (hw_tables b) = Inr wh \<and> whIsActive wh \<and>
                \<not> isl (parse_payload (wePayload e)) \<and> \<not> isl (fst (run_state (decryptSecret (whSecretEncrypted wh)) b)))))"

lemma hook_story: hook_story
  by code_simp

lemma hooked_gcm: "gcm_ok (hooked tb code)"
  by (simp add: gcm_ok_def hooked_def string_bytes_less)

lemma hooked_clock: "clock_ok (hooked tb code)"
  by (auto simp: clock_ok_def hooked_def unix_seconds_def duration_defs min_def)

theorem shown_secret_verifies_deliveries_witness:
  "\<exists>wh secret a1 b e b' req t. run_state (wh_Create app_ctx hook_input) (hooked no_hooks 200) = (Inr (wh, secret), a1) \<and>
     run_state (for_each serve_hook hook_requests) a1 = ((), b) \<and>
     snd (run_state (deliverEvent app_ctx e) b) = b' \<and> hw_posts b' = hw_posts b @ [req] \<and>
     Verify (he_hmac (hooked no_hooks 200)) t (hpBody req) (header_Get SignatureHeader (hpHeaders req)) secret t"
proof -
  let ?a = "hooked no_hooks 200"
  obtain x a1 where r1: "run_state (wh_Create app_ctx hook_input) ?a = (x, a1)" by fastforce
  obtain b where served: "run_state (for_each serve_hook hook_requests) a1 = ((), b)"
    by (cases "run_state (for_each serve_hook hook_requests) a1") simp
  obtain wh secret where run: "run_state (wh_Create app_ctx hook_input) ?a = (Inr (wh, secret), a1)"
    using hook_story r1 by (cases x) (auto simp: hook_story_def)
  have story: "case webhook_events (hw_tables b) of [] \<Rightarrow> False | e # _ \<Rightarrow>
      getWebhook app_ctx (weWebhookID e) (w_db (hw_core b)) (hw_tables b) = Inr wh \<and> whIsActive wh \<and>
      \<not> isl (parse_payload (wePayload e)) \<and> \<not> isl (fst (run_state (decryptSecret (whSecretEncrypted wh)) b))"
    using hook_story by (simp add: hook_story_def run served)
  then obtain e es where ev: "webhook_events (hw_tables b) = e # es" by (cases "webhook_events (hw_tables b)") auto
  with story have g: "getWebhook app_ctx (weWebhookID e) (w_db (hw_core b)) (hw_tables b) = Inr wh" "whIsActive wh"
    and "\<not> isl (parse_payload (wePayload e))" "\<not> isl (fst (run_state (decryptSecret (whSecretEncrypted wh)) b))"
    by simp_all
  then obtain p s where p: "parse_payload (wePayload e) = Inr p"
    and s: "fst (run_state (decryptSecret (whSecretEncrypted wh)) b) = Inr s" by (metis sum.collapse(2))
  have "hook_env.resp (for_each serve_hook hook_requests)" by (intro hook_env.resp_for_each hook_env.resp_serve_hook)
  with served run have env: "hook_env_kept ?a b"
    by (blast intro: hook_env.R_trans dest: hook_env.respD hook_env.respD [OF hook_env.resp_webhook_api(2)])
  then have "calm b" using hooked_calm [of 200 no_hooks] calm_kept by simp
  moreover obtain n t ps where "b = ?a\<lparr>hw_core := (hw_core ?a)\<lparr>w_tick := n\<rparr>, hw_tables := t, hw_posts := ps\<rparr>"
    using env unfolding hook_env_kept_def by blast
  then have "he_json_text b = he_json_text ?a" "he_config b = he_config ?a" "he_url_err b = he_url_err ?a" by simp_all
  ultimately obtain req where req: "hw_posts (snd (run_state (deliverEvent app_ctx e) b)) = hw_posts b @ [req]"
    using deliverable_posted [OF _ g p s] by (auto simp: hooked_def hook_DefaultConfig_def)
  obtain r b' where d: "run_state (deliverEvent app_ctx e) b = (r, b')" by fastforce
  have posted: "hw_posts b' = hw_posts b @ [req]" using req d by simp
  from shown_secret_verifies_deliveries [OF hooked_gcm hooked_clock run served g(1) refl d posted]
  obtain t where "\<bar>t - t\<bar> \<le> signatureTimestampTolerance \<longrightarrow>
      Verify (he_hmac ?a) t (hpBody req) (header_Get SignatureHeader (hpHeaders req)) secret t" by blast
  moreover have "(0 :: int) \<le> signatureTimestampTolerance" by (simp add: signatureTimestampTolerance_def duration_defs)
  ultimately have v: "Verify (he_hmac ?a) t (hpBody req) (header_Get SignatureHeader (hpHeaders req)) secret t" by simp
  show ?thesis
    by (rule exI [of _ wh], rule exI [of _ secret], rule exI [of _ a1], rule exI [of _ b], rule exI [of _ e], rule exI [of _ b'],
        rule exI [of _ req], rule exI [of _ t]) (use run served d posted v in simp)
qed

theorem retry_schedule_witness:
  "CalculateNextRetry 0 2 (int64 (60 * Second)) = 240 * Second \<and> CalculateNextRetry 0 28 (int64 (60 * Second)) < 0"
  using retry_schedule [of 60 2 0] by (simp add: maxRetryDelay_def duration_defs)

theorem posts_bounded_witness:
  "posts_of ''ev-1'' (snd (run_state (for_each (\<lambda>limit. ignore_err (DeliverPendingEvents app_ctx limit)) (replicate 9 50))
     (hooked (hook_rows []) 503))) \<le> 3"
proof -
  have e: "sample_event \<in> set (webhook_events (hw_tables (hooked (hook_rows []) 503)))"
    "sample_hook ''wh-1'' [] \<in> set (webhooks (hw_tables (hooked (hook_rows []) 503)))" by (simp_all add: hook_rows_def)
  have i: "weID sample_event = ''ev-1''" "weAttempts sample_event = 0" "weWebhookID sample_event = ''wh-1''"
    "whID (sample_hook ''wh-1'' []) = ''wh-1''" "whMaxRetries (sample_hook ''wh-1'' []) = 3"
    by (simp_all add: sample_event_def new_event_def sample_hook_def)
  have "hooks_ok (hw_tables (hooked (hook_rows []) 503))" by (simp add: hook_rows_ok)
  from posts_bounded [OF hooked_calm this e(1) _ e(2) _ prod.collapse [symmetric],
      where c = app_ctx and limits = "replicate 9 50"]
  show ?thesis by (simp add: i posts_of_def split: if_splits)
qed

theorem undecryptable_event_never_exhausted_witness:
  "\<exists>e' \<in> set (webhook_events (hw_tables (snd (run_state (for_each (\<lambda>limit. ignore_err (DeliverPendingEvents app_ctx limit))
     (replicate 9 50)) (hooked (hook_rows ''?'') 200))))). weID e' = ''ev-1'' \<and> weStatus e' = WebhookEventStatusPending \<and> weAttempts e' = 0"
proof -
  let ?a = "hooked (hook_rows ''?'') 200"
  have e: "sample_event \<in> set (webhook_events (hw_tables ?a))" "sample_hook ''wh-1'' ''?'' \<in> set (webhooks (hw_tables ?a))"
    by (simp_all add: hook_rows_def)
  have i: "weID sample_event = ''ev-1''" "weAttempts sample_event = 0" "weStatus sample_event = WebhookEventStatusPending"
    "whID (sample_hook ''wh-1'' ''?'') = weWebhookID sample_event" "whIsActive (sample_hook ''wh-1'' ''?'')"
    "whSecretEncrypted (sample_hook ''wh-1'' ''?'') = ''?''"
    by (simp_all add: sample_event_def new_event_def sample_hook_def)
  have bad: "isl (fst (run_state (decryptSecret (whSecretEncrypted (sample_hook ''wh-1'' ''?''))) ?a))"
    unfolding i by code_simp
  have "hooks_ok (hw_tables ?a)" by (simp add: hook_rows_ok)
  from undecryptable_event_never_exhausted [OF hooked_calm this e(1) i(3) e(2) i(4,5) app_ctx_sees_all bad prod.collapse [symmetric],
      where limits = "replicate 9 50"]
  show ?thesis by (simp add: i)
qed

lemma hooked_fresh: "fresh_ids (hooked (hook_rows enc) code)"
  unfolding fresh_ids_def
proof (intro conjI allI impI)
  show "inj (e_id (hw_core (hooked (hook_rows enc) code)))"
    by (rule injI) (auto simp: hooked_def dest: arg_cong [where f = length])
next
  fix k
  show "e_id (hw_core (hooked (hook_rows enc) code)) k \<notin> weID ` set (webhook_events (hw_tables (hooked (hook_rows enc) code)))"
    by (simp add: hooked_def hook_rows_def sample_event_def new_event_def)
qed (simp add: hooked_def)

theorem dispatch_queues_for_subscribers_witness:
  "\<exists>new. webhook_events (hw_tables (snd (run_state (Dispatch app_ctx EventTaskCompleted (plain_resource ''t-1'' ''task'') (JObj []) None)
       (hooked (hook_rows []) 200)))) = new @ [sample_event] \<and> map weWebhookID new = [''wh-1'']"
proof -
  let ?a = "hooked (hook_rows []) 200"
  have ok: "hooks_ok (hw_tables ?a)" by (simp add: hook_rows_ok)
  have sub: "subscribed EventTaskCompleted (sample_hook ''wh-1'' [])" by code_simp
  from dispatch_queues_for_subscribers [OF hooked_calm ok app_ctx_sees_all hooked_fresh prod.collapse [symmetric],
      where ev = EventTaskCompleted and res = "plain_resource ''t-1'' ''task''" and data = "JObj []" and tenant = None]
  obtain new where n: "webhook_events (hw_tables (snd (run_state (Dispatch app_ctx EventTaskCompleted (plain_resource ''t-1'' ''task'') (JObj []) None) ?a))) =
      new @ [sample_event]" "map weWebhookID (rev new) = [''wh-1'']"
    using sub by (auto simp: hook_rows_def queued_for_def sample_hook_def)
  then show ?thesis by (intro exI [of _ new]) (cases new; auto)
qed

end
