(* ===== verification/Schedule_Store.thy ===== *)
theory Schedule_Store
  imports Manager_Laws
begin

text \<open>
  Scheduled tasks: the rows of \<^verbatim>\<open>models.go\<close>, the constraints of migration 001 and one function per
  statement of \<^verbatim>\<open>postgres/tasks.go\<close> on them, and the query of due sessions of \<^verbatim>\<open>postgres/sessions.go\<close>.
  The table is a list of rows beside the database; a statement sees the rows that row level security
  shows to its context.
\<close>

section \<open>Rows\<close>

record ScheduledTask =
  stID :: string
  stSessionID :: string
  stName :: string
  stDescription :: "string option"
  stCronExpression :: string
  stTimezone :: string
  stPromptTemplate :: string
  stTimeoutSeconds :: int
  stMaxRetries :: int
  stStatus :: string
  stNextRunAt :: "int option"
  stLastRunAt :: "int option"
  stLastTaskID :: "string option"
  stRunCount :: int
  stFailureCount :: int
  stOnFailure :: string
  stMaxConsecutiveFailures :: "int option"
  stConsecutiveFailures :: int
  stTenantID :: "string option"
  stLabels :: json
  stAnnotations :: json
  stCreatedAt :: int
  stUpdatedAt :: int

record ScheduledTaskUpdates =
  stuName :: "string option"
  stuDescription :: "string option"
  stuCronExpression :: "string option"
  stuTimezone :: "string option"
  stuPromptTemplate :: "string option"
  stuTimeoutSeconds :: "int option"
  stuMaxRetries :: "int option"
  stuStatus :: "string option"
  stuNextRunAt :: "int option"
  stuLastRunAt :: "int option"
  stuExpectedNextRunAt :: "int option"
  stuLastTaskID :: "string option"
  stuRunCount :: "int option"
  stuFailureCount :: "int option"
  stuOnFailure :: "string option"
  stuMaxConsecutiveFailures :: "int option"
  stuConsecutiveFailures :: "int option"
  stuLabels :: "json option"
  stuAnnotations :: "json option"

definition no_schedule_updates :: ScheduledTaskUpdates where
  "no_schedule_updates = \<lparr>stuName = None, stuDescription = None, stuCronExpression = None, stuTimezone = None,
     stuPromptTemplate = None, stuTimeoutSeconds = None, stuMaxRetries = None, stuStatus = None, stuNextRunAt = None,
     stuLastRunAt = None, stuExpectedNextRunAt = None, stuLastTaskID = None, stuRunCount = None, stuFailureCount = None,
     stuOnFailure = None, stuMaxConsecutiveFailures = None, stuConsecutiveFailures = None, stuLabels = None,
     stuAnnotations = None\<rparr>"

definition ScheduledTaskStatusActive :: string where "ScheduledTaskStatusActive = ''active''"
definition ScheduledTaskStatusPaused :: string where "ScheduledTaskStatusPaused = ''paused''"
definition ScheduledTaskStatusDisabled :: string where "ScheduledTaskStatusDisabled = ''disabled''"
definition OnFailureContinue :: string where "OnFailureContinue = ''continue''"
definition OnFailurePauseOnFailure :: string where "OnFailurePauseOnFailure = ''pause_on_failure''"
definition OnFailureDisableOnFailure :: string where "OnFailureDisableOnFailure = ''disable_on_failure''"

lemmas schedule_names [distinct_names] = ScheduledTaskStatusActive_def ScheduledTaskStatusPaused_def
  ScheduledTaskStatusDisabled_def OnFailureContinue_def OnFailurePauseOnFailure_def OnFailureDisableOnFailure_def

section \<open>Statements\<close>

definition schedule_check :: "ScheduledTask \<Rightarrow> bool" where
  "schedule_check t \<longleftrightarrow>
     stStatus t \<in> {ScheduledTaskStatusActive, ScheduledTaskStatusPaused, ScheduledTaskStatusDisabled} \<and>
     stOnFailure t \<in> {OnFailureContinue, OnFailurePauseOnFailure, OnFailureDisableOnFailure}"

definition schedule_ints :: "ScheduledTask \<Rightarrow> bool" where
  "schedule_ints t \<longleftrightarrow> fits_int4 (stTimeoutSeconds t) \<and> fits_int4 (stMaxRetries t) \<and> fits_int4 (stRunCount t) \<and>
     fits_int4 (stFailureCount t) \<and> fits_int4 (stConsecutiveFailures t) \<and>
     (case stMaxConsecutiveFailures t of None \<Rightarrow> True | Some n \<Rightarrow> fits_int4 n)"

definition schedule_fk :: "db \<Rightarrow> ScheduledTask \<Rightarrow> bool" where
  "schedule_fk d t \<longleftrightarrow> stSessionID t \<in> sID ` set (sessions d) \<and>
     (case stLastTaskID t of None \<Rightarrow> True | Some x \<Rightarrow> x \<in> tID ` set (tasks d))"

definition createScheduledTask ::
  "int \<Rightarrow> ctx \<Rightarrow> ScheduledTask \<Rightarrow> db \<Rightarrow> ScheduledTask list \<Rightarrow> gerr + ScheduledTask \<times> ScheduledTask list" where
  "createScheduledTask now c t d rows =
     (let t' = t\<lparr>stCreatedAt := now, stUpdatedAt := now\<rparr> in
      if \<not> schedule_ints t' then Inl (ErrDatabase ''integer out of range'')
      else if \<not> rls_visible d c (stTenantID t) then Inl (ErrDatabase ''row-level security'')
      else if \<not> schedule_check t' then Inl (ErrInvalidInput ''scheduled_task'')
      else if stID t \<in> stID ` set rows then Inl (ErrAlreadyExists ''scheduled_task'')
      else if \<not> schedule_fk d t' then Inl (ErrForeignKeyViolation ''scheduled_task'')
      else Inr (t', t' # rows))"

definition getScheduledTask :: "ctx \<Rightarrow> string \<Rightarrow> db \<Rightarrow> ScheduledTask list \<Rightarrow> gerr + ScheduledTask" where
  "getScheduledTask c tid d rows =
     (case find (\<lambda>t. stID t = tid \<and> rls_visible d c (stTenantID t)) rows of
        None \<Rightarrow> Inl (ErrNotFound ''scheduled_task'' tid) | Some t \<Rightarrow> Inr t)"

record ListScheduledTasksOptions =
  lstBase :: BaseListOptions
  lstSessionID :: "string option"
  lstStatus :: "string list"

definition scheduledTaskSortColumns :: "string list" where
  "scheduledTaskSortColumns = [''created_at'', ''updated_at'', ''name'', ''status'', ''next_run_at'', ''last_run_at'']"

definition scheduled_task_col :: "string \<Rightarrow> ScheduledTask \<Rightarrow> sortval" where
  "scheduled_task_col col t =
     (if col = ''updated_at'' then sv_int (stUpdatedAt t)
      else if col = ''name'' then sv_str (stName t)
      else if col = ''status'' then sv_str (stStatus t)
      else if col = ''next_run_at'' then sv_opt sv_int (stNextRunAt t)
      else if col = ''last_run_at'' then sv_opt sv_int (stLastRunAt t)
      else sv_int (stCreatedAt t))"

definition schedule_matches :: "ListScheduledTasksOptions \<Rightarrow> ScheduledTask \<Rightarrow> bool" where
  "schedule_matches opts t \<longleftrightarrow> opt_match (lstSessionID opts) (stSessionID t) \<and> any_of (lstStatus opts) (stStatus t)"

definition listScheduledTasks ::
  "ctx \<Rightarrow> ListScheduledTasksOptions \<Rightarrow> db \<Rightarrow> ScheduledTask list \<Rightarrow> gerr + ScheduledTask ListResult" where
  "listScheduledTasks c opts d rows =
     (let limit = defaultLimit (loLimit (lstBase opts)) in
      case page scheduledTaskSortColumns (lstBase opts) of
        Inl e \<Rightarrow> Inl e
      | Inr p \<Rightarrow> Inr (list_rows scheduled_task_col stCreatedAt stID limit p
          (filter (\<lambda>t. rls_visible d c (stTenantID t) \<and> schedule_matches opts t) rows)))"

definition apply_schedule_updates :: "int \<Rightarrow> ScheduledTaskUpdates \<Rightarrow> ScheduledTask \<Rightarrow> ScheduledTask" where
  "apply_schedule_updates now u t = t\<lparr>
     stName := set_col (stuName u) (stName t),
     stDescription := set_null_col (stuDescription u) (stDescription t),
     stCronExpression := set_col (stuCronExpression u) (stCronExpression t),
     stTimezone := set_col (stuTimezone u) (stTimezone t),
     stPromptTemplate := set_col (stuPromptTemplate u) (stPromptTemplate t),
     stTimeoutSeconds := set_col (stuTimeoutSeconds u) (stTimeoutSeconds t),
     stMaxRetries := set_col (stuMaxRetries u) (stMaxRetries t),
     stStatus := set_col (stuStatus u) (stStatus t),
     stNextRunAt := set_null_col (stuNextRunAt u) (stNextRunAt t),
     stLastRunAt := set_null_col (stuLastRunAt u) (stLastRunAt t),
     stLastTaskID := set_null_col (stuLastTaskID u) (stLastTaskID t),
     stRunCount := set_col (stuRunCount u) (stRunCount t),
     stFailureCount := set_col (stuFailureCount u) (stFailureCount t),
     stOnFailure := set_col (stuOnFailure u) (stOnFailure t),
     stMaxConsecutiveFailures := set_null_col (stuMaxConsecutiveFailures u) (stMaxConsecutiveFailures t),
     stConsecutiveFailures := set_col (stuConsecutiveFailures u) (stConsecutiveFailures t),
     stLabels := set_col (stuLabels u) (stLabels t),
     stAnnotations := set_col (stuAnnotations u) (stAnnotations t),
     stUpdatedAt := now\<rparr>"

text \<open>The arguments of a statement are encoded for their columns before it is sent.\<close>

definition schedule_update_ints :: "ScheduledTaskUpdates \<Rightarrow> bool" where
  "schedule_update_ints u \<longleftrightarrow> list_all (\<lambda>n. case n of None \<Rightarrow> True | Some x \<Rightarrow> fits_int4 x)
     [stuTimeoutSeconds u, stuMaxRetries u, stuRunCount u, stuFailureCount u, stuMaxConsecutiveFailures u, stuConsecutiveFailures u]"

text \<open>An update without a column to set returns before the statement, whatever it expects.\<close>

definition updateScheduledTask ::
  "int \<Rightarrow> ctx \<Rightarrow> string \<Rightarrow> ScheduledTaskUpdates \<Rightarrow> db \<Rightarrow> ScheduledTask list \<Rightarrow> gerr + unit \<times> ScheduledTask list" where
  "updateScheduledTask now c tid u d rows =
     (if u\<lparr>stuExpectedNextRunAt := None\<rparr> = no_schedule_updates then Inr ((), rows)
      else if \<not> schedule_update_ints u then Inl (ErrDatabase ''integer out of range'')
      else case find (\<lambda>t. stID t = tid \<and> rls_visible d c (stTenantID t) \<and>
                 (stuExpectedNextRunAt u = None \<or> stNextRunAt t = stuExpectedNextRunAt u)) rows of
        None \<Rightarrow> Inl (if stuExpectedNextRunAt u = None then ErrNotFound ''scheduled_task'' tid else ErrConflict)
      | Some t \<Rightarrow>
          let t' = apply_schedule_updates now u t in
          if \<not> schedule_check t' then Inl (ErrInvalidInput ''scheduled_task'')
          else if \<not> schedule_fk d t' then Inl (ErrForeignKeyViolation ''scheduled_task'')
          else Inr ((), put_row stID tid t' rows))"

definition deleteScheduledTask ::
  "ctx \<Rightarrow> string \<Rightarrow> db \<Rightarrow> ScheduledTask list \<Rightarrow> gerr + unit \<times> ScheduledTask list" where
  "deleteScheduledTask c tid d rows =
     (case find (\<lambda>t. stID t = tid \<and> rls_visible d c (stTenantID t)) rows of
        None \<Rightarrow> Inl (ErrNotFound ''scheduled_task'' tid)
      | Some _ \<Rightarrow> Inr ((), filter (\<lambda>t. stID t \<noteq> tid) rows))"

definition due_limit :: "int \<Rightarrow> nat" where
  "due_limit limit = (if limit \<le> 0 then 100 else nat limit)"

definition task_due :: "int \<Rightarrow> ScheduledTask \<Rightarrow> bool" where
  "task_due now t \<longleftrightarrow> stStatus t = ScheduledTaskStatusActive \<and>
     (case stNextRunAt t of None \<Rightarrow> False | Some n \<Rightarrow> n \<le> now)"

definition getDueScheduledTasks ::
  "ctx \<Rightarrow> int \<Rightarrow> int \<Rightarrow> db \<Rightarrow> ScheduledTask list \<Rightarrow> gerr + ScheduledTask list" where
  "getDueScheduledTasks c now limit d rows =
     Inr (take (due_limit limit) (sort_key (\<lambda>t. the (stNextRunAt t))
       (filter (\<lambda>t. rls_visible d c (stTenantID t) \<and> task_due now t) rows)))"

definition session_due :: "int \<Rightarrow> Session \<Rightarrow> bool" where
  "session_due now s \<longleftrightarrow> sLifecycleMode s = ''scheduled'' \<and> sStatus s = SessionStatusSuspended \<and>
     (case sNextScheduledAt s of None \<Rightarrow> False | Some n \<Rightarrow> n \<le> now)"

definition getDueScheduledSessions :: "ctx \<Rightarrow> int \<Rightarrow> int \<Rightarrow> db \<Rightarrow> gerr + Session list" where
  "getDueScheduledSessions c now limit d =
     Inr (take (due_limit limit) (sort_key (\<lambda>s. the (sNextScheduledAt s))
       (filter (\<lambda>s. rls_visible d c (sTenantID s) \<and> session_due now s) (sessions d))))"

end
