(* ===== verification/Schedule_Service.thy ===== *)
theory Schedule_Service
  imports Schedule_Store
begin

text \<open>
  The scheduled task service (\<^verbatim>\<open>core/scheduled_task_service.go\<close>), the executor that polls for due
  tasks (\<^verbatim>\<open>core/scheduled_task_executor.go\<close>) and the activator of scheduled sessions
  (\<^verbatim>\<open>core/scheduled_session_activator.go\<close>).

  The world adds the table of scheduled tasks. The cron library, the time zone database, the
  formatting of times and the text templates are fields of its environment: \<open>se_next e z x\<close> is the
  first time after \<open>x\<close> that the expression matches in the zone, or the zero time when there is none.
  A replica that lacks a time zone gets a nil location, and converting a time to it panics.
\<close>

section \<open>World\<close>

record PromptTemplateData =
  ptDate :: string
  ptDateTime :: string
  ptRunNumber :: int
  ptTaskName :: string
  ptSessionID :: string
  ptScheduledFor :: string

record sched_world =
  sw_core :: world
  sw_rows :: "ScheduledTask list"
  se_cron :: "string \<Rightarrow> bool"
  se_zone :: "string \<Rightarrow> bool"
  se_next :: "string \<Rightarrow> string \<Rightarrow> int \<Rightarrow> int"
  se_date :: "int \<Rightarrow> string"
  se_rfc3339 :: "int \<Rightarrow> string"
  se_template :: "string \<Rightarrow> PromptTemplateData \<Rightarrow> string + string" \<comment> \<open>an error text or the prompt\<close>

type_synonym 'a SM = "(sched_world, 'a) state"
type_synonym 'a SG = "(sched_world, gerr + 'a) state"

definition score :: "'a M \<Rightarrow> 'a SM" where
  "score m = State (\<lambda>a. case run_state m (sw_core a) of (x, w) \<Rightarrow> (x, a\<lparr>sw_core := w\<rparr>))"

definition sasks :: "(sched_world \<Rightarrow> 'a) \<Rightarrow> 'a SM" where
  "sasks f = State (\<lambda>a. (f a, a))"

definition exec_sched :: "(int \<Rightarrow> db \<Rightarrow> ScheduledTask list \<Rightarrow> gerr + 'a \<times> ScheduledTask list) \<Rightarrow> 'a SG" where
  "exec_sched f = State (\<lambda>a.
     (let w = sw_core a; t = w_tick w; a' = a\<lparr>sw_core := w\<lparr>w_tick := Suc t\<rparr>\<rparr> in
      case e_fault w t of
        Some m \<Rightarrow> (Inl (ErrDatabase m), a')
      | None \<Rightarrow>
          (case f (e_clock w t) (w_db w) (sw_rows a) of
             Inl e \<Rightarrow> (Inl e, a')
           | Inr (x, rows) \<Rightarrow> (Inr x, a'\<lparr>sw_rows := rows\<rparr>))))"

definition query_sched :: "(db \<Rightarrow> ScheduledTask list \<Rightarrow> gerr + 'a) \<Rightarrow> 'a SG" where
  "query_sched f = exec_sched (\<lambda>_ d rows. case f d rows of Inl e \<Rightarrow> Inl e | Inr x \<Rightarrow> Inr (x, rows))"

section \<open>Store methods\<close>

definition CreateScheduledTask :: "ctx \<Rightarrow> ScheduledTask \<Rightarrow> ScheduledTask SG" where
  "CreateScheduledTask c t = do {
     tid \<leftarrow> (if stID t = [] then score new_id else ret (stID t));
     exec_sched (\<lambda>now. createScheduledTask now c (t\<lparr>stID := tid\<rparr>))
   }"

definition GetScheduledTask :: "ctx \<Rightarrow> string \<Rightarrow> ScheduledTask SG" where
  "GetScheduledTask c tid = query_sched (getScheduledTask c tid)"

definition ListScheduledTasks :: "ctx \<Rightarrow> ListScheduledTasksOptions \<Rightarrow> ScheduledTask ListResult SG" where
  "ListScheduledTasks c opts = query_sched (listScheduledTasks c opts)"

definition UpdateScheduledTask :: "ctx \<Rightarrow> string \<Rightarrow> ScheduledTaskUpdates \<Rightarrow> unit SG" where
  "UpdateScheduledTask c tid u = exec_sched (\<lambda>now. updateScheduledTask now c tid u)"

definition DeleteScheduledTask :: "ctx \<Rightarrow> string \<Rightarrow> unit SG" where
  "DeleteScheduledTask c tid = exec_sched (\<lambda>_. deleteScheduledTask c tid)"

definition GetDueScheduledTasks :: "ctx \<Rightarrow> int \<Rightarrow> int \<Rightarrow> ScheduledTask list SG" where
  "GetDueScheduledTasks c now limit = query_sched (getDueScheduledTasks c now limit)"

definition GetDueScheduledSessions :: "ctx \<Rightarrow> int \<Rightarrow> int \<Rightarrow> Session list G" where
  "GetDueScheduledSessions c now limit = query (getDueScheduledSessions c now limit)"

section \<open>Schedules and prompts\<close>

definition CalculateNextRunAt :: "string \<Rightarrow> string \<Rightarrow> int \<Rightarrow> int SG" where
  "CalculateNextRunAt cronExpr timezone after = do {
     parses \<leftarrow> sasks se_cron;
     known \<leftarrow> sasks se_zone;
     next_run \<leftarrow> sasks se_next;
     (if \<not> parses cronExpr then err ErrInvalidCronExpression
      else if \<not> known timezone then err ErrInvalidTimezone
      else ok (next_run cronExpr timezone after))
   }"

text \<open>\<^verbatim>\<open>loc, _ := time.LoadLocation(tz); now.In(loc)\<close>: a nil location panics.\<close>

definition in_location :: "string \<Rightarrow> unit SG" where
  "in_location timezone = do {
     known \<leftarrow> sasks se_zone;
     (if known timezone then ok () else err (ErrPanic ''time: missing Location in call to Time.In''))
   }"

definition renderPromptTemplate :: "ScheduledTask \<Rightarrow> string SG" where
  "renderPromptTemplate t = do {
     now \<leftarrow> score Now;
     date \<leftarrow> sasks se_date;
     stamp \<leftarrow> sasks se_rfc3339;
     render \<leftarrow> sasks se_template;
     let data = \<lparr>ptDate = date now, ptDateTime = stamp now, ptRunNumber = stRunCount t + 1, ptTaskName = stName t,
       ptSessionID = stSessionID t, ptScheduledFor = stamp (case stNextRunAt t of None \<Rightarrow> now | Some n \<Rightarrow> n)\<rparr>;
     (case render (stPromptTemplate t) data of Inl e \<Rightarrow> err (ErrTemplate e) | Inr prompt \<Rightarrow> ok prompt)
   }"

definition mapToJSON :: "(string \<times> string) list option \<Rightarrow> json" where
  "mapToJSON m = (case m of None \<Rightarrow> JObj [] | Some kvs \<Rightarrow> JObj (map (\<lambda>(k, v). (k, JStr v)) (sort_key fst kvs)))"

fun json_string :: "(int \<Rightarrow> string) \<Rightarrow> json \<Rightarrow> string option" where
  "json_string f (JStr s) = Some s"
| "json_string f (JTime t) = Some (f t)"
| "json_string f JNull = Some []"
| "json_string f _ = None"

fun json_pairs :: "(int \<Rightarrow> string) \<Rightarrow> (string \<times> json) list \<Rightarrow> (string \<times> string) list option" where
  "json_pairs f [] = Some []"
| "json_pairs f ((k, v) # rest) =
     (case json_string f v of None \<Rightarrow> None | Some s \<Rightarrow> map_option (Cons (k, s)) (json_pairs f rest))"

fun jsonToMap :: "(int \<Rightarrow> string) \<Rightarrow> json \<Rightarrow> (string \<times> string) list option" where
  "jsonToMap f (JObj kvs) = (if kvs = [] then None else json_pairs f kvs)"
| "jsonToMap f _ = None"

section \<open>The service\<close>

definition DefaultScheduledTaskTimeoutSeconds :: int where "DefaultScheduledTaskTimeoutSeconds = 3600"
definition DefaultMaxConsecutiveFailures :: int where "DefaultMaxConsecutiveFailures = 3"
definition DefaultScheduledTaskTimezone :: string where "DefaultScheduledTaskTimezone = ''UTC''"

record CreateScheduledTaskOptions =
  csSessionID :: string
  csName :: string
  csDescription :: string
  csCronExpression :: string
  csTimezone :: string
  csPromptTemplate :: string
  csTimeoutSeconds :: int
  csMaxRetries :: int
  csOnFailure :: string
  csMaxConsecutiveFailures :: "int option"
  csTenantID :: "string option"
  csLabels :: "(string \<times> string) list option"
  csAnnotations :: "(string \<times> string) list option"

record UpdateScheduledTaskOptions =
  usName :: "string option"
  usDescription :: "string option"
  usCronExpression :: "string option"
  usTimezone :: "string option"
  usPromptTemplate :: "string option"
  usTimeoutSeconds :: "int option"
  usMaxRetries :: "int option"
  usOnFailure :: "string option"
  usMaxConsecutiveFailures :: "int option"
  usLabels :: "(string \<times> string) list option"
  usAnnotations :: "(string \<times> string) list option"

definition new_schedule :: "string \<Rightarrow> string \<Rightarrow> int \<Rightarrow> CreateScheduledTaskOptions \<Rightarrow> ScheduledTask" where
  "new_schedule tid tz nextRunAt opts =
     \<lparr>stID = tid, stSessionID = csSessionID opts, stName = csName opts,
      stDescription = (if csDescription opts = [] then None else Some (csDescription opts)),
      stCronExpression = csCronExpression opts, stTimezone = tz, stPromptTemplate = csPromptTemplate opts,
      stTimeoutSeconds = (if csTimeoutSeconds opts \<le> 0 then DefaultScheduledTaskTimeoutSeconds else csTimeoutSeconds opts),
      stMaxRetries = csMaxRetries opts, stStatus = ScheduledTaskStatusActive, stNextRunAt = Some nextRunAt,
      stLastRunAt = None, stLastTaskID = None, stRunCount = 0, stFailureCount = 0,
      stOnFailure = (if csOnFailure opts = [] then OnFailureContinue else csOnFailure opts),
      stMaxConsecutiveFailures = Some (case csMaxConsecutiveFailures opts of None \<Rightarrow> DefaultMaxConsecutiveFailures | Some n \<Rightarrow> n),
      stConsecutiveFailures = 0, stTenantID = csTenantID opts, stLabels = mapToJSON (csLabels opts),
      stAnnotations = mapToJSON (csAnnotations opts), stCreatedAt = 0, stUpdatedAt = 0\<rparr>"

definition sched_Create :: "ctx \<Rightarrow> CreateScheduledTaskOptions \<Rightarrow> ScheduledTask SG" where
  "sched_Create c opts =
     (if csSessionID opts = [] then err ErrSessionRequired
      else if csName opts = [] then err ErrScheduledTaskNameRequired
      else if csCronExpression opts = [] then err ErrScheduledTaskCronRequired
      else if csPromptTemplate opts = [] then err ErrScheduledTaskPromptRequired
      else guard_ok (map_err (not_found_as ErrSessionNotFound) (score (GetSession c (csSessionID opts)))) (\<lambda>_. do {
        parses \<leftarrow> sasks se_cron;
        known \<leftarrow> sasks se_zone;
        let tz = (if csTimezone opts = [] then DefaultScheduledTaskTimezone else csTimezone opts);
        (if \<not> parses (csCronExpression opts) then err ErrInvalidCronExpression
         else if \<not> known tz then err ErrInvalidTimezone
         else do {
           now \<leftarrow> score Now;
           guard_ok (CalculateNextRunAt (csCronExpression opts) tz now) (\<lambda>nextRunAt. do {
             tid \<leftarrow> score new_id;
             CreateScheduledTask c (new_schedule tid tz nextRunAt opts)
           })
         })
      }))"

definition sched_Get :: "ctx \<Rightarrow> string \<Rightarrow> ScheduledTask SG" where
  "sched_Get c tid = map_err (not_found_as ErrScheduledTaskNotFound) (GetScheduledTask c tid)"

definition sched_List :: "ctx \<Rightarrow> ListScheduledTasksOptions \<Rightarrow> ScheduledTask ListResult SG" where
  "sched_List c opts = ListScheduledTasks c opts"

definition schedule_updates :: "UpdateScheduledTaskOptions \<Rightarrow> int option \<Rightarrow> ScheduledTaskUpdates" where
  "schedule_updates opts nextRunAt = no_schedule_updates\<lparr>
     stuName := usName opts, stuDescription := usDescription opts, stuCronExpression := usCronExpression opts,
     stuTimezone := usTimezone opts, stuPromptTemplate := usPromptTemplate opts, stuTimeoutSeconds := usTimeoutSeconds opts,
     stuMaxRetries := usMaxRetries opts, stuOnFailure := usOnFailure opts,
     stuMaxConsecutiveFailures := usMaxConsecutiveFailures opts,
     stuLabels := map_option (\<lambda>m. mapToJSON (Some m)) (usLabels opts),
     stuAnnotations := map_option (\<lambda>m. mapToJSON (Some m)) (usAnnotations opts),
     stuNextRunAt := nextRunAt\<rparr>"

text \<open>The next run when the expression or the zone of an active task changed.\<close>

definition recalculated :: "ScheduledTask \<Rightarrow> UpdateScheduledTaskOptions \<Rightarrow> int option SG" where
  "recalculated task opts =
     (if (usCronExpression opts \<noteq> None \<or> usTimezone opts \<noteq> None) \<and> stStatus task = ScheduledTaskStatusActive then
        let cronExpr = set_col (usCronExpression opts) (stCronExpression task);
            tz = set_col (usTimezone opts) (stTimezone task)
        in do {
          now \<leftarrow> score Now;
          guard_ok (in_location tz) (\<lambda>_. guard_ok (CalculateNextRunAt cronExpr tz now) (\<lambda>n. ok (Some n)))
        }
      else ok None)"

definition sched_Update :: "ctx \<Rightarrow> string \<Rightarrow> UpdateScheduledTaskOptions \<Rightarrow> ScheduledTask SG" where
  "sched_Update c tid opts = guard_ok (sched_Get c tid) (\<lambda>task. do {
     parses \<leftarrow> sasks se_cron;
     known \<leftarrow> sasks se_zone;
     (if \<not> (case usCronExpression opts of None \<Rightarrow> True | Some e \<Rightarrow> parses e) then err ErrInvalidCronExpression
      else if \<not> (case usTimezone opts of None \<Rightarrow> True | Some z \<Rightarrow> known z) then err ErrInvalidTimezone
      else guard_ok (recalculated task opts) (\<lambda>nextRunAt.
        guard_ok (UpdateScheduledTask c tid (schedule_updates opts nextRunAt)) (\<lambda>_. GetScheduledTask c tid)))
   })"

definition sched_Delete :: "ctx \<Rightarrow> string \<Rightarrow> unit SG" where
  "sched_Delete c tid = map_err (not_found_as ErrScheduledTaskNotFound) (DeleteScheduledTask c tid)"

definition Pause :: "ctx \<Rightarrow> string \<Rightarrow> unit SG" where
  "Pause c tid = guard_ok (sched_Get c tid) (\<lambda>task.
     if stStatus task = ScheduledTaskStatusPaused then err ErrScheduledTaskAlreadyPaused
     else if stStatus task = ScheduledTaskStatusDisabled then err ErrScheduledTaskDisabled
     else UpdateScheduledTask c tid (no_schedule_updates\<lparr>stuStatus := Some ScheduledTaskStatusPaused\<rparr>))"

definition sched_Resume :: "ctx \<Rightarrow> string \<Rightarrow> unit SG" where
  "sched_Resume c tid = guard_ok (sched_Get c tid) (\<lambda>task.
     if stStatus task = ScheduledTaskStatusActive then err ErrScheduledTaskAlreadyActive
     else if stStatus task = ScheduledTaskStatusDisabled then err ErrScheduledTaskDisabled
     else do {
       known \<leftarrow> sasks se_zone;
       (if \<not> known (stTimezone task) then err (ErrOS ''unknown time zone'')
        else do {
          now \<leftarrow> score Now;
          guard_ok (CalculateNextRunAt (stCronExpression task) (stTimezone task) now) (\<lambda>nextRunAt.
            UpdateScheduledTask c tid (no_schedule_updates\<lparr>stuStatus := Some ScheduledTaskStatusActive,
              stuNextRunAt := Some nextRunAt, stuConsecutiveFailures := Some 0\<rparr>))
        })
     })"

section \<open>Executing a schedule\<close>

definition scheduled_options :: "(int \<Rightarrow> string) \<Rightarrow> ScheduledTask \<Rightarrow> string \<Rightarrow> CreateTaskOptions" where
  "scheduled_options stamp t prompt =
     \<lparr>ctoSessionID = stSessionID t, ctoPrompt = prompt, ctoTimeoutSeconds = stTimeoutSeconds t,
      ctoMaxRetries = stMaxRetries t, ctoTenantID = stTenantID t, ctoLabels = jsonToMap stamp (stLabels t),
      ctoAnnotations = jsonToMap stamp (stAnnotations t)\<rparr>"

definition executed_updates :: "ScheduledTask \<Rightarrow> string \<Rightarrow> int \<Rightarrow> int option \<Rightarrow> ScheduledTaskUpdates" where
  "executed_updates t taskID now nextRunAt = no_schedule_updates\<lparr>stuLastRunAt := Some now, stuLastTaskID := Some taskID,
     stuRunCount := Some (stRunCount t + 1), stuNextRunAt := nextRunAt\<rparr>"

text \<open>A next run whose error is dropped: nil when there is none.\<close>

definition next_or_nil :: "ScheduledTask \<Rightarrow> int \<Rightarrow> int option SG" where
  "next_or_nil t now = guard_ok (in_location (stTimezone t)) (\<lambda>_. do {
     r \<leftarrow> CalculateNextRunAt (stCronExpression t) (stTimezone t) now;
     ok (case r of Inl _ \<Rightarrow> None | Inr n \<Rightarrow> Some n)
   })"

definition executeScheduledTask :: "spawner \<Rightarrow> int \<Rightarrow> ctx \<Rightarrow> ScheduledTask \<Rightarrow> bool \<Rightarrow> Task SG" where
  "executeScheduledTask spawn m c t advanceSchedule = guard_ok (renderPromptTemplate t) (\<lambda>prompt. do {
     stamp \<leftarrow> sasks se_rfc3339;
     guard_ok (score (tm_Create spawn m c (scheduled_options stamp t prompt))) (\<lambda>task. do {
       now \<leftarrow> score Now;
       guard_ok (if advanceSchedule then next_or_nil t now else ok None) (\<lambda>nextRunAt. do {
         _ \<leftarrow> ignore_err (UpdateScheduledTask c (stID t) (executed_updates t (tID task) now nextRunAt));
         ok task
       })
     })
   })"

definition ExecuteScheduledTask :: "spawner \<Rightarrow> int \<Rightarrow> ctx \<Rightarrow> ScheduledTask \<Rightarrow> Task SG" where
  "ExecuteScheduledTask spawn m c t = executeScheduledTask spawn m c t True"

definition Trigger :: "spawner \<Rightarrow> int \<Rightarrow> ctx \<Rightarrow> string \<Rightarrow> Task SG" where
  "Trigger spawn m c tid = guard_ok (sched_Get c tid) (\<lambda>t.
     if stStatus t = ScheduledTaskStatusDisabled then err ErrScheduledTaskDisabled
     else ExecuteScheduledTask spawn m c t)"

definition GetDue :: "ctx \<Rightarrow> int \<Rightarrow> ScheduledTask list SG" where
  "GetDue c limit = do { now \<leftarrow> score Now; GetDueScheduledTasks c now limit }"

definition claim_updates :: "ScheduledTask \<Rightarrow> int option \<Rightarrow> ScheduledTaskUpdates" where
  "claim_updates t nextRunAt = no_schedule_updates\<lparr>stuNextRunAt := nextRunAt, stuExpectedNextRunAt := stNextRunAt t\<rparr>"

definition ExecuteDue :: "spawner \<Rightarrow> int \<Rightarrow> ctx \<Rightarrow> ScheduledTask \<Rightarrow> Task SG" where
  "ExecuteDue spawn m c t =
     (if stNextRunAt t = None then ExecuteScheduledTask spawn m c t
      else do {
        now \<leftarrow> score Now;
        guard_ok (next_or_nil t now) (\<lambda>nextRunAt.
          guard_ok (map_err (\<lambda>e. if e = ErrConflict then ErrScheduledTickTaken else e)
              (UpdateScheduledTask c (stID t) (claim_updates t nextRunAt))) (\<lambda>_.
            executeScheduledTask spawn m c (t\<lparr>stNextRunAt := None\<rparr>) False))
      })"

definition failure_status :: "ScheduledTask \<Rightarrow> string option" where
  "failure_status t =
     (if stOnFailure t = OnFailurePauseOnFailure then Some ScheduledTaskStatusPaused
      else if stOnFailure t = OnFailureDisableOnFailure \<and>
        stConsecutiveFailures t + 1 \<ge> (case stMaxConsecutiveFailures t of None \<Rightarrow> DefaultMaxConsecutiveFailures | Some n \<Rightarrow> n)
      then Some ScheduledTaskStatusDisabled else None)"

definition completion_updates :: "ScheduledTask \<Rightarrow> bool \<Rightarrow> ScheduledTaskUpdates" where
  "completion_updates t success =
     (if success then no_schedule_updates\<lparr>stuConsecutiveFailures := Some 0\<rparr>
      else no_schedule_updates\<lparr>stuFailureCount := Some (stFailureCount t + 1),
        stuConsecutiveFailures := Some (stConsecutiveFailures t + 1), stuStatus := failure_status t\<rparr>)"

definition MarkTaskCompleted :: "ctx \<Rightarrow> string \<Rightarrow> bool \<Rightarrow> unit SG" where
  "MarkTaskCompleted c tid success = guard_ok (GetScheduledTask c tid) (\<lambda>t.
     UpdateScheduledTask c tid (completion_updates t success))"

section \<open>The executor\<close>

definition DefaultScheduledTaskBatchSize :: int where "DefaultScheduledTaskBatchSize = 50"

fun is_panic :: "gerr \<Rightarrow> bool" where
  "is_panic (ErrPanic _) = True"
| "is_panic _ = False"

text \<open>Only a panic leaves \<^verbatim>\<open>executeTask\<close>; every error is logged, and a failed execution is recorded.\<close>

definition executeTask :: "spawner \<Rightarrow> int \<Rightarrow> ctx \<Rightarrow> string \<Rightarrow> unit SG" where
  "executeTask spawn m c tid = do {
     r \<leftarrow> sched_Get c tid;
     (case r of
        Inl _ \<Rightarrow> ok ()
      | Inr t \<Rightarrow>
          if stStatus t \<noteq> ScheduledTaskStatusActive then ok ()
          else do {
            now \<leftarrow> score Now;
            (if \<not> (case stNextRunAt t of None \<Rightarrow> False | Some n \<Rightarrow> n \<le> now) then ok ()
             else do {
               x \<leftarrow> ExecuteDue spawn m c t;
               (case x of
                  Inr _ \<Rightarrow> ok ()
                | Inl e \<Rightarrow>
                    if is_panic e then err e
                    else if e = ErrScheduledTickTaken then ok ()
                    else do { _ \<leftarrow> ignore_err (MarkTaskCompleted c tid False); ok () })
             })
          })
   }"

text \<open>A panic in one of the goroutines ends the process: nothing after it runs.\<close>

fun execute_each :: "spawner \<Rightarrow> int \<Rightarrow> ctx \<Rightarrow> ScheduledTask list \<Rightarrow> unit SG" where
  "execute_each spawn m c [] = ok ()"
| "execute_each spawn m c (t # ts) = guard_ok (executeTask spawn m c (stID t)) (\<lambda>_. execute_each spawn m c ts)"

definition processDueTasks :: "spawner \<Rightarrow> int \<Rightarrow> ctx \<Rightarrow> int \<Rightarrow> unit SG" where
  "processDueTasks spawn m c batchSize = guard_ok (GetDue c batchSize) (\<lambda>due. execute_each spawn m c due)"

section \<open>The activator of scheduled sessions\<close>

definition activator_batch :: "int \<Rightarrow> int" where
  "activator_batch configured = (if configured = 0 then 50 else configured)"

definition calculateNextScheduledAt :: "Session \<Rightarrow> int SG" where
  "calculateNextScheduledAt session =
     (if \<not> nonempty (sScheduleCron session) then err ErrScheduleCronRequired
      else do {
        parses \<leftarrow> sasks se_cron;
        known \<leftarrow> sasks se_zone;
        next_run \<leftarrow> sasks se_next;
        let timezone = (if nonempty (sScheduleTimezone session) then stringValue (sScheduleTimezone session) else ''UTC'');
        let loc = (if known timezone then timezone else ''UTC'');
        (if \<not> parses (stringValue (sScheduleCron session)) then err ErrInvalidCronExpression
         else do { now \<leftarrow> score Now; ok (next_run (stringValue (sScheduleCron session)) loc now) })
      })"

definition activateSession :: "ctx \<Rightarrow> Session \<Rightarrow> unit SM" where
  "activateSession c session = do {
     r \<leftarrow> score (Resume c (sID session));
     (case r of
        Inl _ \<Rightarrow> ret ()
      | Inr _ \<Rightarrow> do {
          n \<leftarrow> calculateNextScheduledAt session;
          (case n of
             Inl _ \<Rightarrow> ret ()
           | Inr nextRunAt \<Rightarrow> ignore_err (score (UpdateSession c (sID session) (no_session_updates\<lparr>suNextScheduledAt := Some nextRunAt\<rparr>))))
        })
   }"

text \<open>The run starts from \<^verbatim>\<open>context.Background()\<close>.\<close>

definition checkAndActivate :: "int \<Rightarrow> unit SM" where
  "checkAndActivate batchSize = do {
     now \<leftarrow> score Now;
     r \<leftarrow> score (GetDueScheduledSessions background_ctx now batchSize);
     (case r of Inl _ \<Rightarrow> ret () | Inr ss \<Rightarrow> for_each (activateSession background_ctx) ss)
   }"

end
