(* ===== verification/Triples.thy ===== *)
theory Triples
  imports Prelude
begin

text \<open>
  Hoare triples for handlers. \<open>keeps I m Q\<close>: from a world that satisfies \<open>I\<close> the computation ends in
  one that satisfies \<open>I\<close>, with a result that satisfies \<open>Q\<close>.
\<close>

section \<open>Rules\<close>

definition keeps :: "('s \<Rightarrow> bool) \<Rightarrow> ('s, 'a) state \<Rightarrow> ('a \<Rightarrow> bool) \<Rightarrow> bool" where
  "keeps I m Q \<longleftrightarrow> (\<forall>a x b. I a \<longrightarrow> run_state m a = (x, b) \<longrightarrow> I b \<and> Q x)"

lemma keepsI: "(\<And>a x b. I a \<Longrightarrow> run_state m a = (x, b) \<Longrightarrow> I b \<and> Q x) \<Longrightarrow> keeps I m Q"
  by (auto simp: keeps_def)

lemma keepsD: "keeps I m Q \<Longrightarrow> I a \<Longrightarrow> run_state m a = (x, b) \<Longrightarrow> I b \<and> Q x"
  by (auto simp: keeps_def)

lemma keeps_weaken: "keeps I m P \<Longrightarrow> (\<And>x. P x \<Longrightarrow> Q x) \<Longrightarrow> keeps I m Q"
  unfolding keeps_def by blast

lemma keeps_return: "Q x \<Longrightarrow> keeps I (ret x) Q"
  by (simp add: keeps_def)

lemma keeps_bind:
  assumes "keeps I m P" and "\<And>x. P x \<Longrightarrow> keeps I (f x) Q"
  shows "keeps I (State_Monad.bind m f) Q"
proof (rule keepsI)
  fix a y c assume "I a" and r: "run_state (State_Monad.bind m f) a = (y, c)"
  obtain x b where m: "run_state m a = (x, b)" by (cases "run_state m a")
  with r have f: "run_state (f x) b = (y, c)" by simp
  from keepsD [OF assms(1) \<open>I a\<close> m] have "I b" and "P x" by auto
  from keepsD [OF assms(2) [OF this(2)] this(1) f] show "I c \<and> Q y" .
qed

text \<open>The error of a guarded call is any error of the call.\<close>

definition good :: "('a \<Rightarrow> bool) \<Rightarrow> 'e + 'a \<Rightarrow> bool" where
  "good Q r \<longleftrightarrow> (case r of Inl _ \<Rightarrow> True | Inr x \<Rightarrow> Q x)"

lemma good_simps [simp]: "good Q (Inl e)" "good Q (Inr x) \<longleftrightarrow> Q x"
  by (simp_all add: good_def)

lemma keeps_guard_ok:
  assumes "keeps I m (good P)" and "\<And>x. P x \<Longrightarrow> keeps I (k x) (good Q)"
  shows "keeps I (guard_ok m k) (good Q)"
  unfolding guard_ok_def
proof (rule keeps_bind [OF assms(1)])
  fix r :: "'b + 'c" assume "good P r"
  then show "keeps I (case r of Inl e \<Rightarrow> err e | Inr x \<Rightarrow> k x) (good Q)"
    using assms(2) by (cases r) (auto intro: keeps_return)
qed

lemma keeps_map_err: "keeps I m (good P) \<Longrightarrow> keeps I (map_err f m) (good P)"
  unfolding map_err_def by (erule keeps_bind) (auto intro!: keeps_return simp: good_def split: sum.splits)

lemma keeps_ignore_err: "keeps I m P \<Longrightarrow> keeps I (ignore_err m) (\<lambda>_. True)"
  unfolding ignore_err_def by (erule keeps_bind) (auto intro: keeps_return)

lemma keeps_if: "keeps I m Q \<Longrightarrow> keeps I n Q \<Longrightarrow> keeps I (if b then m else n) Q"
  by simp

lemma keeps_cond: "(b \<Longrightarrow> keeps I m Q) \<Longrightarrow> (\<not> b \<Longrightarrow> keeps I n Q) \<Longrightarrow> keeps I (if b then m else n) Q"
  by simp

lemma keeps_case_sum:
  "(\<And>e. r = Inl e \<Longrightarrow> keeps I (f e) Q) \<Longrightarrow> (\<And>x. r = Inr x \<Longrightarrow> keeps I (g x) Q) \<Longrightarrow> keeps I (case r of Inl e \<Rightarrow> f e | Inr x \<Rightarrow> g x) Q"
  by (cases r) simp_all

lemma keeps_for_each: "(\<And>x. keeps I (f x) (\<lambda>_. True)) \<Longrightarrow> keeps I (for_each f xs) (\<lambda>_. True)"
  by (induction xs) (auto intro: keeps_return keeps_bind)

end
