(* ===== verification/Schedule_Laws.thy ===== *)
theory Schedule_Laws
  imports Schedule_Service Triples
begin

text \<open>
  What every operation on scheduled tasks keeps. The locale \<open>schedule_invariant\<close> lists what an
  invariant has to withstand; the operations of the service, the executor and the activator are
  analysed once inside it.
\<close>

section \<open>Runs of the primitives\<close>

lemma run_score [simp]: "run_state (score m) a = (case run_state m (sw_core a) of (x, w) \<Rightarrow> (x, a\<lparr>sw_core := w\<rparr>))"
  by (simp add: score_def)

lemma run_sasks [simp]: "run_state (sasks f) a = (f a, a)"
  by (simp add: sasks_def)

abbreviation sticked :: "nat \<Rightarrow> sched_world \<Rightarrow> sched_world" where
  "sticked n a \<equiv> a\<lparr>sw_core := (sw_core a)\<lparr>w_tick := n\<rparr>\<rparr>"

lemma run_exec_sched_cases:
  assumes "run_state (exec_sched f) a = (r, b)"
  obtains (ok) x rows where "r = Inr x" "f (e_clock (sw_core a) (w_tick (sw_core a))) (w_db (sw_core a)) (sw_rows a) = Inr (x, rows)"
      "b = (sticked (Suc (w_tick (sw_core a))) a)\<lparr>sw_rows := rows\<rparr>"
    | (failed) e where "r = Inl e" "b = sticked (Suc (w_tick (sw_core a))) a"
        "f (e_clock (sw_core a) (w_tick (sw_core a))) (w_db (sw_core a)) (sw_rows a) = Inl e \<or> (\<exists>m. e = ErrDatabase m)"
  using assms by (auto simp: exec_sched_def Let_def split: option.splits sum.splits prod.splits)

lemma run_query_sched_cases:
  assumes "run_state (query_sched f) a = (r, b)"
  obtains (ok) x where "r = Inr x" "f (w_db (sw_core a)) (sw_rows a) = Inr x" "b = sticked (Suc (w_tick (sw_core a))) a"
    | (failed) e where "r = Inl e" "b = sticked (Suc (w_tick (sw_core a))) a"
        "f (w_db (sw_core a)) (sw_rows a) = Inl e \<or> (\<exists>m. e = ErrDatabase m)"
  using assms unfolding query_sched_def by (rule run_exec_sched_cases) (auto split: sum.splits)

section \<open>What the managers keep\<close>

text \<open>The environment stays, and no session and no task disappears.\<close>

definition core_kept :: "world \<Rightarrow> world \<Rightarrow> bool" where
  "core_kept w w' \<longleftrightarrow> env_kept w w' \<and> sID ` set (sessions (w_db w)) \<subseteq> sID ` set (sessions (w_db w')) \<and>
     tID ` set (tasks (w_db w)) \<subseteq> tID ` set (tasks (w_db w')) \<and> multi_tenant (w_db w') = multi_tenant (w_db w) \<and>
     (db_inv (w_db w) \<longrightarrow> db_inv (w_db w'))"

lemma ids_put_row: "find P rows = Some x \<Longrightarrow> (\<And>y. P y \<Longrightarrow> key y = k) \<Longrightarrow> key r = key x \<Longrightarrow>
    key ` set (put_row key k r rows) = key ` set rows"
  using find_key_eq [of P rows x] put_row_keys [of key r k rows] by (metis set_map)

lemma db_step_ids:
  "db_step l d d' \<Longrightarrow> sID ` set (sessions d) \<subseteq> sID ` set (sessions d') \<and> tID ` set (tasks d) \<subseteq> tID ` set (tasks d') \<and>
     multi_tenant d' = multi_tenant d"
proof (induction rule: db_step.induct)
  case (step_updateSession now c sid u d y d')
  then show ?case by (auto simp: updateSession_def Let_def ids_put_row split: if_splits option.splits)
next
  case (step_updateTask now c tid tu d y d')
  then show ?case by (auto simp: updateTask_def Let_def ids_put_row split: if_splits option.splits)
next
  case (step_claimRunner now c rid sid lease d b d')
  then show ?case by (auto dest!: claimRunner_changes)
next
  case (step_releaseRunnerClaim now c rid sid d y d')
  then show ?case by (auto simp: releaseRunnerClaim_def split: option.splits if_splits)
qed (auto simp: createSession_def createTask_def createTaskRun_def updateTaskRun_def createRunner_def updateRunner_def
  createPermissionRequest_def updatePermissionRequest_def Let_def split: if_splits option.splits)

interpretation kept: manager_client core_kept "\<lambda>_. True" "\<lambda>_ _. True"
proof unfold_locales
  fix s t u :: world
  assume "core_kept s t" "core_kept t u"
  then show "core_kept s u" using env.R_trans unfolding core_kept_def by (metis (no_types) subset_trans)
next
  fix l d n and w :: world assume "db_step l (w_db w) d"
  then show "core_kept w (w\<lparr>w_tick := n, w_db := d\<rparr>)"
    using db_step_ids db_step_inv by (auto simp: core_kept_def env_kept_def)
next
  fix w w' :: world assume "core_kept w w'"
  then show "core_kept w (w'\<lparr>w_db := w_db w\<rparr>)" using env.R_rollback by (simp add: core_kept_def)
qed (auto simp: core_kept_def env_kept_def)

definition spawner_ok :: "spawner \<Rightarrow> bool" where
  "spawner_ok spawn \<longleftrightarrow> (\<forall>c s p w. core_kept w (snd (run_state (spawn c s p) w)))"

lemma tm_Create_kept: "spawner_ok spawn \<Longrightarrow> kept.resp (tm_Create spawn m c opts)"
  by (intro kept.resp_tm_Create kept.respI) (simp add: spawner_ok_def)

section \<open>Invariants of scheduled tasks\<close>

text \<open>
  \<open>T\<close> holds of every time the clock shows, \<open>G\<close> of every time computed as a next run. Statements may
  write what their callers write: any row or change whose next run satisfies \<open>G\<close>.
\<close>

definition next_ok :: "(int \<Rightarrow> bool) \<Rightarrow> int option \<Rightarrow> bool" where
  "next_ok G n \<longleftrightarrow> (\<forall>x. n = Some x \<longrightarrow> G x)"

locale schedule_invariant =
  fixes I :: "sched_world \<Rightarrow> bool" and T G :: "int \<Rightarrow> bool"
  assumes I_core: "I a \<Longrightarrow> core_kept (sw_core a) w \<Longrightarrow> I (a\<lparr>sw_core := w\<rparr>)"
    and I_clock: "I a \<Longrightarrow> T (e_clock (sw_core a) k)"
    and I_next: "I a \<Longrightarrow> T x \<Longrightarrow> G (se_next a e z x)"
    and I_create: "I a \<Longrightarrow> createScheduledTask now c t (w_db (sw_core a)) (sw_rows a) = Inr (y, rows) \<Longrightarrow>
        (\<And>n. stNextRunAt t = Some n \<Longrightarrow> G n) \<Longrightarrow> I (a\<lparr>sw_rows := rows\<rparr>)"
    and I_update: "I a \<Longrightarrow> updateScheduledTask now c tid u (w_db (sw_core a)) (sw_rows a) = Inr (v, rows) \<Longrightarrow>
        (\<And>n. stuNextRunAt u = Some n \<Longrightarrow> G n) \<Longrightarrow> I (a\<lparr>sw_rows := rows\<rparr>)"
    and I_delete: "I a \<Longrightarrow> deleteScheduledTask c tid (w_db (sw_core a)) (sw_rows a) = Inr (v, rows) \<Longrightarrow> I (a\<lparr>sw_rows := rows\<rparr>)"
begin

lemma I_tick: "I a \<Longrightarrow> I (sticked n a)"
  by (rule I_core) (simp_all add: kept.R_tick)

lemma keeps_core: "kept.resp m \<Longrightarrow> keeps I (score m) (\<lambda>_. True)"
  by (rule keepsI) (auto dest: kept.respD intro: I_core split: prod.splits)

lemma keeps_Now: "keeps I (score Now) T"
  by (rule keepsI) (auto simp: I_clock I_tick)

lemma keeps_sasks: "keeps I (sasks f) (\<lambda>_. True)"
  by (rule keepsI) simp

lemma keeps_exec:
  assumes "\<And>a x rows now. I a \<Longrightarrow> f now (w_db (sw_core a)) (sw_rows a) = Inr (x, rows) \<Longrightarrow> I (a\<lparr>sw_rows := rows\<rparr>)"
  shows "keeps I (exec_sched f) (\<lambda>_. True)"
proof (rule keepsI)
  fix a r b assume "I a" and "run_state (exec_sched f) a = (r, b)"
  from this(2) show "I b \<and> True"
  proof (cases rule: run_exec_sched_cases)
    case (ok x rows)
    with assms [OF \<open>I a\<close>] have "I (a\<lparr>sw_rows := rows\<rparr>)" by blast
    from I_tick [OF this, of "Suc (w_tick (sw_core a))"] ok(3) show ?thesis by (cases a) simp
  qed (use \<open>I a\<close> I_tick in simp)
qed

lemma keeps_query: "keeps I (query_sched f) (good (\<lambda>_. True))"
  unfolding query_sched_def
  by (rule keeps_weaken, rule keeps_exec) (auto split: sum.splits simp: good_def)

lemma keeps_update: "(\<And>n. stuNextRunAt u = Some n \<Longrightarrow> G n) \<Longrightarrow> keeps I (UpdateScheduledTask c tid u) (good (\<lambda>_. True))"
  unfolding UpdateScheduledTask_def
  by (rule keeps_weaken, rule keeps_exec) (auto intro: I_update simp: good_def split: sum.splits)

lemma keeps_create:
  assumes "\<And>n. stNextRunAt t = Some n \<Longrightarrow> G n"
  shows "keeps I (CreateScheduledTask c t) (good (\<lambda>_. True))"
proof -
  have "keeps I (exec_sched (\<lambda>now. createScheduledTask now c (t\<lparr>stID := tid\<rparr>))) (good (\<lambda>_. True))" for tid
    by (rule keeps_weaken, rule keeps_exec) (auto intro!: I_create assms simp: good_def split: sum.splits)
  then show ?thesis unfolding CreateScheduledTask_def
    by (intro keeps_bind [where P = "\<lambda>_. True"] keeps_if keeps_core keeps_return kept.resp_new_id) auto
qed

lemma keeps_delete: "keeps I (DeleteScheduledTask c tid) (good (\<lambda>_. True))"
  unfolding DeleteScheduledTask_def
  by (rule keeps_weaken, rule keeps_exec) (auto intro: I_delete simp: good_def split: sum.splits)

lemma keeps_Get: "keeps I (sched_Get c tid) (good (\<lambda>_. True))" "keeps I (GetScheduledTask c tid) (good (\<lambda>_. True))"
  unfolding sched_Get_def GetScheduledTask_def by (intro keeps_map_err keeps_query)+

lemma keeps_next: "T x \<Longrightarrow> keeps I (CalculateNextRunAt e z x) (good G)"
  unfolding CalculateNextRunAt_def by (rule keepsI) (auto intro: I_next split: if_splits)

lemma keeps_location: "keeps I (in_location z) (good (\<lambda>_. True))"
  unfolding in_location_def by (rule keepsI) (auto split: if_splits)

lemma keeps_asked: "(\<And>x. keeps I (f x) Q) \<Longrightarrow> keeps I (State_Monad.bind (sasks g) f) Q"
  by (rule keeps_bind [OF keeps_sasks])

lemma keeps_at: "(\<And>x. T x \<Longrightarrow> keeps I (f x) Q) \<Longrightarrow> keeps I (State_Monad.bind (score Now) f) Q"
  by (rule keeps_bind [OF keeps_Now])

lemma keeps_core_ok: "kept.resp m \<Longrightarrow> keeps I (score m) (good (\<lambda>_. True))"
  by (rule keeps_weaken [OF keeps_core]) (auto simp: good_def split: sum.splits)

lemma keeps_next_or_nil: "T x \<Longrightarrow> keeps I (next_or_nil t x) (good (next_ok G))"
  unfolding next_or_nil_def
  by (intro keeps_guard_ok [OF keeps_location] keeps_bind [OF keeps_next] keeps_return)
    (auto simp: good_def next_ok_def split: sum.splits)

lemmas keeps_intros = keeps_asked keeps_at keeps_if keeps_return

lemma keeps_sched_Create: "keeps I (sched_Create c opts) (good (\<lambda>_. True))"
  unfolding sched_Create_def Let_def
  by (intro keeps_intros keeps_guard_ok [OF keeps_map_err [OF keeps_core_ok]] keeps_guard_ok [OF keeps_next]
      keeps_bind [OF keeps_core] keeps_create kept.resp_new_id kept.server_resp)
    (auto simp: new_schedule_def)

lemma keeps_recalculated: "keeps I (recalculated t opts) (good (next_ok G))"
  unfolding recalculated_def Let_def
  by (intro keeps_intros keeps_guard_ok [OF keeps_location] keeps_guard_ok [OF keeps_next]) (auto simp: next_ok_def)

lemma keeps_sched_Update: "keeps I (sched_Update c tid opts) (good (\<lambda>_. True))"
  unfolding sched_Update_def
  by (intro keeps_guard_ok [OF keeps_Get(1)] keeps_intros keeps_guard_ok [OF keeps_recalculated]
      keeps_guard_ok [OF keeps_update] keeps_Get) (auto simp: schedule_updates_def next_ok_def)

lemma keeps_sched_Delete: "keeps I (sched_Delete c tid) (good (\<lambda>_. True))"
  unfolding sched_Delete_def by (intro keeps_map_err keeps_delete)

lemma keeps_Pause: "keeps I (Pause c tid) (good (\<lambda>_. True))"
  unfolding Pause_def by (intro keeps_guard_ok [OF keeps_Get(1)] keeps_intros keeps_update) (auto simp: no_schedule_updates_def)

lemma keeps_sched_Resume: "keeps I (sched_Resume c tid) (good (\<lambda>_. True))"
  unfolding sched_Resume_def
  by (intro keeps_guard_ok [OF keeps_Get(1)] keeps_intros keeps_guard_ok [OF keeps_next] keeps_update) auto

lemma keeps_render: "keeps I (renderPromptTemplate t) (good (\<lambda>_. True))"
  unfolding renderPromptTemplate_def Let_def
  by (intro keeps_intros) (auto intro!: keeps_return simp: good_def split: sum.split)

lemma keeps_executeScheduledTask:
  assumes "spawner_ok spawn"
  shows "keeps I (executeScheduledTask spawn m c t b) (good (\<lambda>_. True))"
proof -
  have n: "keeps I (if b then next_or_nil t x else ok None) (good (next_ok G))" if "T x" for x
    using keeps_next_or_nil [OF that] by (auto intro: keeps_return simp: next_ok_def)
  show ?thesis unfolding executeScheduledTask_def
    by (intro keeps_guard_ok [OF keeps_render] keeps_asked keeps_guard_ok [OF keeps_core_ok [OF tm_Create_kept [OF assms]]]
        keeps_at keeps_guard_ok [OF n] keeps_bind [OF keeps_ignore_err [OF keeps_update]] keeps_return)
      (auto simp: executed_updates_def next_ok_def)
qed

lemma keeps_ExecuteDue:
  assumes "spawner_ok spawn"
  shows "keeps I (ExecuteDue spawn m c t) (good (\<lambda>_. True))"
  unfolding ExecuteDue_def ExecuteScheduledTask_def
  by (intro keeps_if keeps_at keeps_executeScheduledTask [OF assms] keeps_guard_ok [OF keeps_next_or_nil]
      keeps_guard_ok [OF keeps_map_err [OF keeps_update]]) (auto simp: claim_updates_def next_ok_def)

lemma keeps_Trigger: "spawner_ok spawn \<Longrightarrow> keeps I (Trigger spawn m c tid) (good (\<lambda>_. True))"
  unfolding Trigger_def ExecuteScheduledTask_def
  by (intro keeps_guard_ok [OF keeps_Get(1)] keeps_intros keeps_executeScheduledTask) auto

lemma keeps_MarkTaskCompleted: "keeps I (MarkTaskCompleted c tid b) (good (\<lambda>_. True))"
  unfolding MarkTaskCompleted_def
  by (intro keeps_guard_ok [OF keeps_Get(2)] keeps_update) (auto simp: completion_updates_def no_schedule_updates_def split: if_splits)

lemma keeps_executeTask:
  assumes "spawner_ok spawn"
  shows "keeps I (executeTask spawn m c tid) (good (\<lambda>_. True))"
  unfolding executeTask_def
  by (intro keeps_bind [OF keeps_Get(1)] keeps_case_sum keeps_intros keeps_bind [OF keeps_ExecuteDue [OF assms]]
      keeps_bind [OF keeps_ignore_err [OF keeps_MarkTaskCompleted]]) auto

lemma keeps_processDueTasks:
  assumes "spawner_ok spawn"
  shows "keeps I (processDueTasks spawn m c n) (good (\<lambda>_. True))"
proof -
  have "keeps I (execute_each spawn m c ts) (good (\<lambda>_. True))" for ts
    by (induction ts) (auto intro: keeps_return keeps_guard_ok [OF keeps_executeTask [OF assms]])
  then show ?thesis unfolding processDueTasks_def GetDue_def GetDueScheduledTasks_def
    by (intro keeps_guard_ok [where P = "\<lambda>_. True"] keeps_at keeps_query) auto
qed

lemma keeps_checkAndActivate: "keeps I (checkAndActivate n) (\<lambda>_. True)"
proof -
  have "keeps I (calculateNextScheduledAt s) (\<lambda>_. True)" for s
    unfolding calculateNextScheduledAt_def Let_def by (intro keeps_intros) auto
  then have "keeps I (activateSession c s) (\<lambda>_. True)" for c s
    unfolding activateSession_def
    by (intro keeps_bind [OF keeps_core] keeps_bind [where P = "\<lambda>_. True"] keeps_case_sum keeps_return
        keeps_ignore_err [OF keeps_core] kept.resp_Resume kept.server_resp) auto
  then show ?thesis unfolding checkAndActivate_def GetDueScheduledSessions_def
    by (intro keeps_at keeps_bind [OF keeps_core] keeps_case_sum keeps_return keeps_for_each kept.server_resp) auto
qed

end

section \<open>Requests\<close>

datatype sched_request =
    ReqSchedCreate ctx CreateScheduledTaskOptions | ReqSchedUpdate ctx string UpdateScheduledTaskOptions
  | ReqSchedDelete ctx string | ReqSchedPause ctx string | ReqSchedResume ctx string
  | ReqSchedTrigger int ctx string | ReqSchedPass int ctx int | ReqSchedDone ctx string bool
  | ReqSchedActivate int | ReqServer request

fun serve_sched :: "spawner \<Rightarrow> resumer \<Rightarrow> sched_request \<Rightarrow> unit SM" where
  "serve_sched sp rs (ReqSchedCreate c opts) = ignore_err (sched_Create c opts)"
| "serve_sched sp rs (ReqSchedUpdate c tid opts) = ignore_err (sched_Update c tid opts)"
| "serve_sched sp rs (ReqSchedDelete c tid) = ignore_err (sched_Delete c tid)"
| "serve_sched sp rs (ReqSchedPause c tid) = ignore_err (Pause c tid)"
| "serve_sched sp rs (ReqSchedResume c tid) = ignore_err (sched_Resume c tid)"
| "serve_sched sp rs (ReqSchedTrigger m c tid) = ignore_err (Trigger sp m c tid)"
| "serve_sched sp rs (ReqSchedPass m c n) = ignore_err (processDueTasks sp m c n)"
| "serve_sched sp rs (ReqSchedDone c tid b) = ignore_err (MarkTaskCompleted c tid b)"
| "serve_sched sp rs (ReqSchedActivate n) = checkAndActivate n"
| "serve_sched sp rs (ReqServer q) = score (serve sp rs q)"

definition resumer_ok :: "resumer \<Rightarrow> bool" where
  "resumer_ok rs \<longleftrightarrow> (\<forall>c s prov p r w. core_kept w (snd (run_state (rs c s prov p r) w)))"

context schedule_invariant
begin

lemma keeps_serve_sched:
  assumes "spawner_ok sp" and "resumer_ok rs"
  shows "keeps I (serve_sched sp rs q) (\<lambda>_. True)"
proof -
  have "kept.resp (serve sp rs r)" for r
    using assms by (intro kept.resp_serve kept.respI) (simp_all add: spawner_ok_def resumer_ok_def)
  then show ?thesis
    using assms(1) by (cases q) (auto intro!: keeps_ignore_err keeps_sched_Create keeps_sched_Update keeps_sched_Delete keeps_Pause
      keeps_sched_Resume keeps_Trigger keeps_processDueTasks keeps_MarkTaskCompleted keeps_checkAndActivate keeps_core)
qed

lemma I_history:
  assumes "spawner_ok sp" and "resumer_ok rs" and "I a" and "run_state (for_each (serve_sched sp rs) qs) a = (u, b)"
  shows "I b"
  using keepsD [OF keeps_for_each [OF keeps_serve_sched [OF assms(1,2)]] assms(3,4)] by blast

end

section \<open>The schema\<close>

definition schedules_ok :: "db \<Rightarrow> ScheduledTask list \<Rightarrow> bool" where
  "schedules_ok d rows \<longleftrightarrow> distinct (map stID rows) \<and>
     (\<forall>t \<in> set rows. schedule_ints t \<and> schedule_check t \<and> schedule_fk d t)"

definition sched_inv :: "sched_world \<Rightarrow> bool" where
  "sched_inv a \<longleftrightarrow> db_inv (w_db (sw_core a)) \<and> schedules_ok (w_db (sw_core a)) (sw_rows a)"

lemma schedule_fk_mono:
  "schedule_fk d t \<Longrightarrow> sID ` set (sessions d) \<subseteq> sID ` set (sessions d') \<Longrightarrow> tID ` set (tasks d) \<subseteq> tID ` set (tasks d') \<Longrightarrow>
     schedule_fk d' t"
  by (auto simp: schedule_fk_def split: option.splits)

lemma apply_schedule_keys [simp]:
  "stID (apply_schedule_updates now u t) = stID t" "stSessionID (apply_schedule_updates now u t) = stSessionID t"
  "stTenantID (apply_schedule_updates now u t) = stTenantID t"
  "stNextRunAt (apply_schedule_updates now u t) = set_null_col (stuNextRunAt u) (stNextRunAt t)"
  "stStatus (apply_schedule_updates now u t) = set_col (stuStatus u) (stStatus t)"
  "stOnFailure (apply_schedule_updates now u t) = set_col (stuOnFailure u) (stOnFailure t)"
  "stCronExpression (apply_schedule_updates now u t) = set_col (stuCronExpression u) (stCronExpression t)"
  "stTimezone (apply_schedule_updates now u t) = set_col (stuTimezone u) (stTimezone t)"
  "stConsecutiveFailures (apply_schedule_updates now u t) = set_col (stuConsecutiveFailures u) (stConsecutiveFailures t)"
  by (simp_all add: apply_schedule_updates_def)

lemma apply_schedule_ints: "schedule_ints t \<Longrightarrow> schedule_update_ints u \<Longrightarrow> schedule_ints (apply_schedule_updates now u t)"
  by (simp add: schedule_ints_def schedule_update_ints_def apply_schedule_updates_def set_col_def set_null_col_def split: option.splits)

lemma updateScheduledTask_cases:
  assumes "updateScheduledTask now c tid u d rows = Inr (v, rows')"
  obtains (same) "rows' = rows" "u\<lparr>stuExpectedNextRunAt := None\<rparr> = no_schedule_updates"
    | (written) t where "t \<in> set rows" "stID t = tid" "rls_visible d c (stTenantID t)"
        "stuExpectedNextRunAt u = None \<or> stNextRunAt t = stuExpectedNextRunAt u"
        "rows' = put_row stID tid (apply_schedule_updates now u t) rows"
        "schedule_update_ints u" "schedule_check (apply_schedule_updates now u t)"
        "schedule_fk d (apply_schedule_updates now u t)"
proof (cases "u\<lparr>stuExpectedNextRunAt := None\<rparr> = no_schedule_updates")
  case True
  with assms show thesis by (intro same) (simp_all add: updateScheduledTask_def)
next
  case False
  then obtain t where f: "find (\<lambda>t. stID t = tid \<and> rls_visible d c (stTenantID t) \<and>
       (stuExpectedNextRunAt u = None \<or> stNextRunAt t = stuExpectedNextRunAt u)) rows = Some t"
    using assms by (auto simp: updateScheduledTask_def split: option.splits if_splits)
  then have "t \<in> set rows \<and> stID t = tid \<and> rls_visible d c (stTenantID t) \<and>
       (stuExpectedNextRunAt u = None \<or> stNextRunAt t = stuExpectedNextRunAt u)"
    unfolding find_Some_iff by fastforce
  then show thesis using assms False f by (intro written [of t]) (auto simp: updateScheduledTask_def Let_def split: if_splits)
qed

interpretation schema: schedule_invariant sched_inv "\<lambda>_. True" "\<lambda>_. True"
proof
  fix a w assume "sched_inv a" "core_kept (sw_core a) w"
  then show "sched_inv (a\<lparr>sw_core := w\<rparr>)"
    by (auto simp: sched_inv_def schedules_ok_def core_kept_def intro: schedule_fk_mono)
next
  fix a now c t y rows
  assume "sched_inv a" "createScheduledTask now c t (w_db (sw_core a)) (sw_rows a) = Inr (y, rows)"
  then show "sched_inv (a\<lparr>sw_rows := rows\<rparr>)"
    by (auto simp: sched_inv_def schedules_ok_def createScheduledTask_def Let_def split: if_splits)
next
  fix a now c tid u v rows
  assume a: "sched_inv a" and "updateScheduledTask now c tid u (w_db (sw_core a)) (sw_rows a) = Inr (v, rows)"
  from this(2) show "sched_inv (a\<lparr>sw_rows := rows\<rparr>)"
  proof (cases rule: updateScheduledTask_cases)
    case (written t)
    then have "map stID rows = map stID (sw_rows a)" by simp
    moreover have "schedule_ints (apply_schedule_updates now u t)"
      using a written by (intro apply_schedule_ints) (auto simp: sched_inv_def schedules_ok_def)
    ultimately show ?thesis using a written by (auto simp: sched_inv_def schedules_ok_def set_put_row)
  qed (use a in simp)
next
  fix a c tid v rows
  assume "sched_inv a" "deleteScheduledTask c tid (w_db (sw_core a)) (sw_rows a) = Inr (v, rows)"
  then show "sched_inv (a\<lparr>sw_rows := rows\<rparr>)"
    by (auto simp: sched_inv_def schedules_ok_def deleteScheduledTask_def distinct_map_filter split: option.splits)
qed simp_all

text \<open>
  Every history of requests on scheduled tasks, executor and activator runs and all other requests of
  the server included, keeps the schema: ids are unique, status and failure policy are the legal
  ones, counters fit their columns, and session and last task exist.
\<close>

theorem schedules_keep_schema:
  assumes "sched_inv a" and "spawner_ok sp" and "resumer_ok rs"
    and "run_state (for_each (serve_sched sp rs) qs) a = (u, b)"
  shows "sched_inv b"
  by (rule schema.I_history [OF assms(2,3,1,4)])

section \<open>A tick runs once\<close>

text \<open>
  What the cron library documents of the next run after \<open>x\<close>: it is later than \<open>x\<close>, or it is the zero
  time, when the expression matches no time it looks at.
\<close>

definition zero_instant :: int where "zero_instant = - 62135596800 * Second"

definition cron_next_ok :: "sched_world \<Rightarrow> bool" where
  "cron_next_ok a \<longleftrightarrow> (\<forall>e z x. x < se_next a e z x \<or> se_next a e z x = zero_instant)"

lemma cron_next_ok_simps [simp]:
  "cron_next_ok (a\<lparr>sw_core := w\<rparr>) = cron_next_ok a" "cron_next_ok (a\<lparr>sw_rows := rows\<rparr>) = cron_next_ok a"
  by (simp_all add: cron_next_ok_def)

lemma cron_next_not: "cron_next_ok a \<Longrightarrow> t \<noteq> zero_instant \<Longrightarrow> t \<le> x \<Longrightarrow> se_next a e z x \<noteq> t"
  unfolding cron_next_ok_def by (metis leD)

text \<open>The tick \<open>t\<close> of a task is past, and its row has moved on; the expression and zone of the task are known.\<close>

definition moved_on :: "ScheduledTask \<Rightarrow> int \<Rightarrow> sched_world \<Rightarrow> bool" where
  "moved_on st t a \<longleftrightarrow> (\<forall>k. t \<le> e_clock (sw_core a) k) \<and> cron_next_ok a \<and> t \<noteq> zero_instant \<and>
     se_cron a (stCronExpression st) \<and> se_zone a (stTimezone st) \<and>
     (\<forall>r \<in> set (sw_rows a). stID r = stID st \<longrightarrow> stNextRunAt r \<noteq> Some t)"

lemma core_kept_clock: "core_kept w w' \<Longrightarrow> e_clock w' = e_clock w" "core_kept w w' \<Longrightarrow> e_fault w' = e_fault w"
  by (simp_all add: core_kept_def env_kept_simps)

interpretation tick: schedule_invariant "moved_on st t" "\<lambda>x. t \<le> x" "\<lambda>n. n \<noteq> t" for st t
proof
  fix a w assume "moved_on st t a" "core_kept (sw_core a) w"
  then show "moved_on st t (a\<lparr>sw_core := w\<rparr>)" by (simp add: moved_on_def core_kept_clock)
next
  fix a x e z assume "moved_on st t a" "t \<le> x"
  then show "se_next a e z x \<noteq> t" by (intro cron_next_not) (auto simp: moved_on_def)
next
  fix a now c r y rows
  assume "moved_on st t a" "createScheduledTask now c r (w_db (sw_core a)) (sw_rows a) = Inr (y, rows)"
    "\<And>n. stNextRunAt r = Some n \<Longrightarrow> n \<noteq> t"
  then show "moved_on st t (a\<lparr>sw_rows := rows\<rparr>)"
    by (auto simp: moved_on_def createScheduledTask_def Let_def split: if_splits)
next
  fix a now c tid u v rows
  assume a: "moved_on st t a" and "updateScheduledTask now c tid u (w_db (sw_core a)) (sw_rows a) = Inr (v, rows)"
    and n: "\<And>n. stuNextRunAt u = Some n \<Longrightarrow> n \<noteq> t"
  from this(2) show "moved_on st t (a\<lparr>sw_rows := rows\<rparr>)"
  proof (cases rule: updateScheduledTask_cases)
    case (written r)
    then show ?thesis using a n by (cases "stuNextRunAt u") (auto simp: moved_on_def set_put_row set_null_col_def)
  qed (use a in simp)
next
  fix a c tid v rows
  assume "moved_on st t a" "deleteScheduledTask c tid (w_db (sw_core a)) (sw_rows a) = Inr (v, rows)"
  then show "moved_on st t (a\<lparr>sw_rows := rows\<rparr>)" by (auto simp: moved_on_def deleteScheduledTask_def split: option.splits)
qed (simp add: moved_on_def)

lemma run_next_or_nil:
  "run_state (next_or_nil st x) a = (if \<not> se_zone a (stTimezone st)
     then (Inl (ErrPanic ''time: missing Location in call to Time.In''), a)
     else (Inr (if se_cron a (stCronExpression st) then Some (se_next a (stCronExpression st) (stTimezone st) x) else None), a))"
  by (simp add: next_or_nil_def in_location_def CalculateNextRunAt_def)

lemma claim_not_empty: "(claim_updates st (Some n))\<lparr>stuExpectedNextRunAt := None\<rparr> \<noteq> no_schedule_updates"
  by (simp add: claim_updates_def no_schedule_updates_def)

lemma claim_fits: "schedule_update_ints (claim_updates st n)"
  by (simp add: schedule_update_ints_def claim_updates_def no_schedule_updates_def)

text \<open>The two halves of \<^verbatim>\<open>ExecuteDue\<close>: the claim, and the execution of a copy without its tick.\<close>

definition claimed :: "ScheduledTask \<Rightarrow> ScheduledTask" where
  "claimed st = st\<lparr>stNextRunAt := None\<rparr>"

lemma ExecuteDue_run:
  assumes tick: "stNextRunAt st = Some t" and zone: "se_zone a (stTimezone st)"
    and run: "run_state (ExecuteDue sp m c st) a = (r, b)"
  defines "now \<equiv> e_clock (sw_core a) (w_tick (sw_core a))"
  defines "u \<equiv> claim_updates st (if se_cron a (stCronExpression st) then Some (se_next a (stCronExpression st) (stTimezone st) now) else None)"
  obtains (lost) e where "run_state (UpdateScheduledTask c (stID st) u) (sticked (Suc (w_tick (sw_core a))) a) = (Inl e, b)"
      "r = Inl (if e = ErrConflict then ErrScheduledTickTaken else e)"
    | (won) b' where "run_state (UpdateScheduledTask c (stID st) u) (sticked (Suc (w_tick (sw_core a))) a) = (Inr (), b')"
      "run_state (executeScheduledTask sp m c (claimed st) False) b' = (r, b)"
proof -
  obtain x b' where up: "run_state (UpdateScheduledTask c (stID st) u) (sticked (Suc (w_tick (sw_core a))) a) = (x, b')"
    by fastforce
  have "run_state (ExecuteDue sp m c st) a = run_state (guard_ok (map_err (\<lambda>e. if e = ErrConflict then ErrScheduledTickTaken else e)
       (UpdateScheduledTask c (stID st) u)) (\<lambda>_. executeScheduledTask sp m c (claimed st) False)) (sticked (Suc (w_tick (sw_core a))) a)"
    using tick zone by (simp add: ExecuteDue_def run_next_or_nil u_def now_def claimed_def)
  then show thesis using run up that by (cases x) auto
qed

lemma claim_moves_on:
  assumes "run_state (UpdateScheduledTask c (stID st) (claim_updates st (Some n))) a = (Inr (), b)" and "n \<noteq> t"
    and "\<forall>k. t \<le> e_clock (sw_core a) k" and "cron_next_ok a" and "t \<noteq> zero_instant"
    and "se_cron a (stCronExpression st)" and "se_zone a (stTimezone st)"
  shows "moved_on st t b"
  using assms(1) unfolding UpdateScheduledTask_def
proof (cases rule: run_exec_sched_cases)
  case (ok x rows)
  from ok(2) show ?thesis
  proof (cases rule: updateScheduledTask_cases)
    case (written r)
    then show ?thesis using ok(3) assms(2-) by (auto simp: moved_on_def set_put_row claim_updates_def)
  qed (use claim_not_empty in blast)
qed simp

lemma stale_claim_lost:
  assumes "run_state (UpdateScheduledTask c (stID st) (claim_updates st (Some n))) a = (r, b)" and "stNextRunAt st = Some t"
    and "moved_on st t a"
  shows "b = sticked (Suc (w_tick (sw_core a))) a \<and> (r = Inl ErrConflict \<or> (\<exists>m. r = Inl (ErrDatabase m)))"
proof -
  let ?P = "\<lambda>x. stID x = stID st \<and> rls_visible (w_db (sw_core a)) c (stTenantID x) \<and> stNextRunAt x = Some t"
  have "find ?P (sw_rows a) = None" using assms(3) by (auto simp: find_None_iff moved_on_def)
  then have "updateScheduledTask now c (stID st) (claim_updates st (Some n)) (w_db (sw_core a)) (sw_rows a) = Inl ErrConflict" for now
    using assms(2) claim_not_empty claim_fits by (simp add: updateScheduledTask_def) (simp add: claim_updates_def)
  with assms(1) show ?thesis unfolding UpdateScheduledTask_def by (auto elim!: run_exec_sched_cases)
qed

text \<open>
  C39. A cron tick is executed once: when one replica executed the tick of a scheduled task, every other
  replica that holds a copy of the row with the same id, tick, expression and zone is refused,
  whatever requests of any process ran in between, and it creates no task, sends no command and
  changes no row. It is assumed that the expression parses, that no clock shows a time before
  the tick, that the tick is a real time and not the zero time, and of the cron library only what it
  documents: the next run is later than the time given, or the zero time. (For a task whose stored
  tick is itself the zero time the claim does not hold, see \<open>Schedule_Failures\<close>.)
\<close>

theorem tick_runs_once:
  assumes "spawner_ok sp" and "resumer_ok rs" and "\<forall>k. t \<le> e_clock (sw_core a) k" and "cron_next_ok a" and "t \<noteq> zero_instant"
    and "se_cron a (stCronExpression st)" and "stNextRunAt st = Some t" and "run_state (ExecuteDue sp m c st) a = (Inr task, b)"
    and "run_state (for_each (serve_sched sp rs) qs) b = (v, d)"
    and "stID st' = stID st \<and> stNextRunAt st' = Some t \<and> stCronExpression st' = stCronExpression st \<and> stTimezone st' = stTimezone st"
    and "run_state (ExecuteDue sp m' c' st') d = (r, d')"
  shows "(r = Inl ErrScheduledTickTaken \<or> (\<exists>x. r = Inl (ErrDatabase x))) \<and> sw_rows d' = sw_rows d \<and>
     w_db (sw_core d') = w_db (sw_core d) \<and> w_sent (sw_core d') = w_sent (sw_core d) \<and>
     w_unacked (sw_core d') = w_unacked (sw_core d) \<and> w_jobs (sw_core d') = w_jobs (sw_core d)"
proof -
  have zone: "se_zone a (stTimezone st)" using assms(7,8) by (auto simp: ExecuteDue_def run_next_or_nil split: if_splits)
  from assms(7) zone assms(8) have "moved_on st t b"
  proof (cases rule: ExecuteDue_run)
    case (won b')
    have "se_next a (stCronExpression st) (stTimezone st) (e_clock (sw_core a) (w_tick (sw_core a))) \<noteq> t"
      using assms(3-5) by (intro cron_next_not) auto
    from claim_moves_on [OF _ this] won(1) have "moved_on st t b'" using assms(3-6) zone by simp
    from keepsD [OF tick.keeps_executeScheduledTask [OF assms(1)] this won(2)] show ?thesis by blast
  qed simp
  from tick.I_history [OF assms(1,2) this assms(9)] have d: "moved_on st t d" .
  then have d': "moved_on st' t (sticked n d)" for n using assms(10) by (simp add: moved_on_def)
  have known: "se_zone d (stTimezone st')" "se_cron d (stCronExpression st')" "stNextRunAt st' = Some t"
    using d assms(10) by (auto simp: moved_on_def)
  from known(3,1) assms(11) show ?thesis
  proof (cases rule: ExecuteDue_run)
    case (lost e)
    then show ?thesis using stale_claim_lost [OF _ known(3) d'] known by fastforce
  next
    case (won b')
    then show ?thesis using stale_claim_lost [OF _ known(3) d'] known by fastforce
  qed
qed

end
