(* ===== verification/Schedule_Failures.thy ===== *)
theory Schedule_Failures
  imports Schedule_Laws
begin

text \<open>
  Failures of scheduled tasks: how recorded failures reach the policy of a task, ticks that no
  replica can take away from another, and the scheduled sessions that the activator sees.
\<close>

section \<open>Recorded failures\<close>

text \<open>What \<open>n\<close> recorded failures make of a row, up to its time of change.\<close>

definition after_failures :: "nat \<Rightarrow> ScheduledTask \<Rightarrow> ScheduledTask \<Rightarrow> bool" where
  "after_failures n t r \<longleftrightarrow> r\<lparr>stUpdatedAt := stUpdatedAt t\<rparr> = t\<lparr>
     stFailureCount := stFailureCount t + int n, stConsecutiveFailures := stConsecutiveFailures t + int n,
     stStatus := (if n = 0 then stStatus t
       else if stOnFailure t = OnFailurePauseOnFailure then ScheduledTaskStatusPaused
       else if stOnFailure t = OnFailureDisableOnFailure \<and>
         stConsecutiveFailures t + int n \<ge> (case stMaxConsecutiveFailures t of None \<Rightarrow> 3 | Some k \<Rightarrow> k)
       then ScheduledTaskStatusDisabled else stStatus t)\<rparr>"

lemma after_failures_step:
  assumes "after_failures n t r"
  shows "after_failures (Suc n) t (apply_schedule_updates now (completion_updates r False) r)"
proof -
  have "r\<lparr>stUpdatedAt := stUpdatedAt t\<rparr> = x \<Longrightarrow> r = x\<lparr>stUpdatedAt := stUpdatedAt r\<rparr>" for x
    by (cases r) auto
  from this [OF assms [unfolded after_failures_def]] show ?thesis
    unfolding after_failures_def
    by (cases t, cases r) (auto simp: apply_schedule_updates_def completion_updates_def no_schedule_updates_def failure_status_def
      DefaultMaxConsecutiveFailures_def set_null_col_def schedule_names split: option.splits)
qed

lemma find_schedule:
  assumes "sched_inv a" and "r \<in> set (sw_rows a)" and "P r"
  shows "find (\<lambda>t. stID t = stID r \<and> P t) (sw_rows a) = Some r"
  using assms by (intro find_unique_key [where key = stID]) (auto simp: sched_inv_def schedules_ok_def)

lemma failure_legal:
  assumes "schedule_check r" and "schedule_fk d r"
    and "fits_int4 (stFailureCount r + 1)" and "fits_int4 (stConsecutiveFailures r + 1)"
  shows "schedule_update_ints (completion_updates r False)"
    "schedule_check (apply_schedule_updates now (completion_updates r False) r)"
    "schedule_fk d (apply_schedule_updates now (completion_updates r False) r)"
  using assms by (auto simp: schedule_update_ints_def schedule_check_def schedule_fk_def apply_schedule_updates_def completion_updates_def
      no_schedule_updates_def failure_status_def set_null_col_def split: option.splits)

text \<open>One recorded failure, when the database answers.\<close>

lemma failure_recorded:
  assumes inv: "sched_inv a" and quiet: "\<forall>k. e_fault (sw_core a) k = None" and r: "r \<in> set (sw_rows a)"
    and vis: "rls_visible (w_db (sw_core a)) c (stTenantID r)"
    and fit: "fits_int4 (stFailureCount r + 1)" "fits_int4 (stConsecutiveFailures r + 1)"
  obtains now where "run_state (MarkTaskCompleted c (stID r) False) a = (Inr (), (sticked (w_tick (sw_core a) + 2) a)\<lparr>sw_rows :=
      put_row stID (stID r) (apply_schedule_updates now (completion_updates r False) r) (sw_rows a)\<rparr>)"
proof
  let ?u = "completion_updates r False"
  have u: "?u\<lparr>stuExpectedNextRunAt := None\<rparr> \<noteq> no_schedule_updates" "stuExpectedNextRunAt ?u = None"
    by (simp_all add: completion_updates_def no_schedule_updates_def)
  have "find (\<lambda>t. stID t = stID r \<and> rls_visible (w_db (sw_core a)) c (stTenantID t)) (sw_rows a) = Some r"
    using find_schedule [OF inv r, where P = "\<lambda>t. rls_visible (w_db (sw_core a)) c (stTenantID t)"] vis by simp
  moreover from inv r have "schedule_check r" "schedule_fk (w_db (sw_core a)) r"
    by (auto simp: sched_inv_def schedules_ok_def)
  note failure_legal [OF this fit]
  ultimately show "run_state (MarkTaskCompleted c (stID r) False) a = (Inr (), (sticked (w_tick (sw_core a) + 2) a)\<lparr>sw_rows :=
      put_row stID (stID r) (apply_schedule_updates (e_clock (sw_core a) (Suc (w_tick (sw_core a)))) ?u r) (sw_rows a)\<rparr>)"
    using u quiet
    by (simp add: MarkTaskCompleted_def GetScheduledTask_def query_sched_def UpdateScheduledTask_def exec_sched_def
        getScheduledTask_def updateScheduledTask_def Let_def)
qed

lemma after_failures_fields:
  assumes "after_failures n t r"
  shows "stID r = stID t" "stTenantID r = stTenantID t" "stFailureCount r = stFailureCount t + int n"
    "stConsecutiveFailures r = stConsecutiveFailures t + int n"
  using assms by (cases t; cases r; simp add: after_failures_def)+

lemma put_row_present: "distinct (map key rows) \<Longrightarrow> r \<in> set rows \<Longrightarrow> key r = k \<Longrightarrow> put_row key k r rows = rows"
  unfolding put_row_def distinct_map by (intro map_idI) (simp add: inj_on_def)

lemma put_row_again: "key r = k \<Longrightarrow> put_row key k r' (put_row key k r rows) = put_row key k r' rows"
  by (induction rows) (auto simp: put_row_def)

lemma failures_counted:
  assumes "after_failures n t r" "r \<in> set (sw_rows a)" "sched_inv a" "\<forall>k. e_fault (sw_core a) k = None"
    and "\<forall>c \<in> set cs. rls_visible (w_db (sw_core a)) c (stTenantID t)" "0 \<le> stFailureCount t" "0 \<le> stConsecutiveFailures t"
    and "stFailureCount t + int (n + length cs) < 2147483648" "stConsecutiveFailures t + int (n + length cs) < 2147483648"
    and "run_state (for_each (\<lambda>c. ignore_err (MarkTaskCompleted c (stID t) False)) cs) a = (u, b)"
  shows "\<exists>r'. after_failures (n + length cs) t r' \<and> sw_rows b = put_row stID (stID t) r' (sw_rows a) \<and>
     w_db (sw_core b) = w_db (sw_core a)"
  using assms
proof (induction cs arbitrary: n r a)
  case Nil
  then have "put_row stID (stID t) r (sw_rows a) = sw_rows a"
    using after_failures_fields(1) [of n t r] by (auto simp: sched_inv_def schedules_ok_def put_row_present)
  then show ?case using Nil by auto
next
  case (Cons c cs)
  note f = after_failures_fields [OF Cons.prems(1)]
  let ?r = "\<lambda>now. apply_schedule_updates now (completion_updates r False) r"
  obtain now where m: "run_state (MarkTaskCompleted c (stID r) False) a =
      (Inr (), (sticked (w_tick (sw_core a) + 2) a)\<lparr>sw_rows := put_row stID (stID r) (?r now) (sw_rows a)\<rparr>)"
    using Cons.prems f by (elim failure_recorded [rotated 2, where a = a and c = c]) (auto simp: fits_int4_def)
  let ?a = "(sticked (w_tick (sw_core a) + 2) a)\<lparr>sw_rows := put_row stID (stID r) (?r now) (sw_rows a)\<rparr>"
  from keepsD [OF schema.keeps_MarkTaskCompleted Cons.prems(3) m] have "sched_inv ?a" by blast
  moreover have "?r now \<in> set (sw_rows ?a)" using Cons.prems(2) by (auto simp: set_put_row)
  moreover have "run_state (for_each (\<lambda>c. ignore_err (MarkTaskCompleted c (stID t) False)) cs) ?a = (u, b)"
    using Cons.prems(10) m f(1) by (simp add: ignore_err_def)
  ultimately have "\<exists>r'. after_failures (Suc n + length cs) t r' \<and> sw_rows b = put_row stID (stID t) r' (sw_rows ?a) \<and>
     w_db (sw_core b) = w_db (sw_core ?a)"
    using Cons.prems by (intro Cons.IH [OF after_failures_step [OF Cons.prems(1)]]) auto
  then show ?case using f(1) by (auto simp: put_row_again)
qed

text \<open>
  C40. Recorded failures reach the policy of the task: when the database answers, after any number of
  failures reported by callers that see the task, both counters have grown by that number, the task
  is paused under \<^verbatim>\<open>pause_on_failure\<close> and disabled under \<^verbatim>\<open>disable_on_failure\<close> once the consecutive failures
  reached the limit of the row (three when it has none), and its status is unchanged otherwise. No
  other row and no other table changes.
\<close>

theorem failures_reach_policy:
  assumes "sched_inv a" and "\<forall>k. e_fault (sw_core a) k = None" and "t \<in> set (sw_rows a)"
    and "\<forall>c \<in> set cs. rls_visible (w_db (sw_core a)) c (stTenantID t)"
    and "0 \<le> stFailureCount t" "stFailureCount t + int (length cs) < 2147483648"
    and "0 \<le> stConsecutiveFailures t" "stConsecutiveFailures t + int (length cs) < 2147483648"
    and "run_state (for_each (\<lambda>c. ignore_err (MarkTaskCompleted c (stID t) False)) cs) a = (u, b)"
  shows "\<exists>r. after_failures (length cs) t r \<and> sw_rows b = put_row stID (stID t) r (sw_rows a) \<and>
     w_db (sw_core b) = w_db (sw_core a)"
proof -
  have "after_failures 0 t t" by (simp add: after_failures_def)
  from failures_counted [OF this assms(3,1,2,4,5,7) _ _ assms(9)] assms(6,8) show ?thesis by simp
qed

section \<open>Ticks that cannot be taken\<close>

lemma endless_claim:
  assumes "sched_inv a" and "st \<in> set (sw_rows a)" and "rls_visible (w_db (sw_core a)) c (stTenantID st)"
    and "stNextRunAt st = Some z" and "\<forall>k. e_fault (sw_core a) k = None" and "n = None \<or> n = Some z"
  shows "\<exists>b. run_state (UpdateScheduledTask c (stID st) (claim_updates st n)) a = (Inr (), b) \<and>
     (\<exists>r \<in> set (sw_rows b). r\<lparr>stUpdatedAt := stUpdatedAt st\<rparr> = st) \<and> w_db (sw_core b) = w_db (sw_core a)"
proof -
  have f: "find (\<lambda>t. stID t = stID st \<and> rls_visible (w_db (sw_core a)) c (stTenantID t) \<and> stNextRunAt t = Some z) (sw_rows a) = Some st"
    using find_schedule [OF assms(1,2), where P = "\<lambda>t. rls_visible (w_db (sw_core a)) c (stTenantID t) \<and> stNextRunAt t = Some z"]
      assms(3,4) by simp
  have row: "apply_schedule_updates now (claim_updates st (Some z)) st = st\<lparr>stUpdatedAt := now\<rparr>" for now
    using assms(4) by (cases st) (simp add: apply_schedule_updates_def claim_updates_def no_schedule_updates_def set_null_col_def)
  have legal: "schedule_check (st\<lparr>stUpdatedAt := now\<rparr>) \<and>
      schedule_fk (w_db (sw_core a)) (st\<lparr>stUpdatedAt := now\<rparr>)" for now
    using assms(1,2) by (auto simp: sched_inv_def schedules_ok_def schedule_check_def schedule_fk_def)
  have up: "updateScheduledTask now c (stID st) (claim_updates st n) (w_db (sw_core a)) (sw_rows a) =
      Inr ((), if n = None then sw_rows a else put_row stID (stID st) (st\<lparr>stUpdatedAt := now\<rparr>) (sw_rows a))" for now
    using f legal row claim_not_empty claim_fits assms(4,6)
    by (auto simp: updateScheduledTask_def Let_def) (auto simp: claim_updates_def no_schedule_updates_def)
  have "\<exists>r \<in> set (if n = None then sw_rows a else put_row stID (stID st) (st\<lparr>stUpdatedAt := now\<rparr>) (sw_rows a)).
      r\<lparr>stUpdatedAt := stUpdatedAt st\<rparr> = st" for now
    using assms(2) by (auto simp: set_put_row intro: bexI [where x = st] bexI [where x = "st\<lparr>stUpdatedAt := now\<rparr>"])
  then show ?thesis using assms(5) by (simp add: UpdateScheduledTask_def exec_sched_def up Let_def)
qed

text \<open>
  A tick whose task has no later run excludes nobody: when the expression cannot be parsed by this replica or its next run
  is again the tick the row holds, as the zero time is for an expression that never matches, the
  claim of every replica that sees the row succeeds, the tick is executed, and the row that the claim
  leaves still holds the same tick, with its status, so that the next replica claims it just the same.
\<close>

theorem endless_tick_never_taken:
  assumes "sched_inv a" and "st \<in> set (sw_rows a)" and "rls_visible (w_db (sw_core a)) c (stTenantID st)"
    and "stNextRunAt st = Some z" and "se_zone a (stTimezone st)"
    and "se_cron a (stCronExpression st) \<longrightarrow> (\<forall>x. se_next a (stCronExpression st) (stTimezone st) x = z)"
    and "\<forall>k. e_fault (sw_core a) k = None"
  shows "\<exists>b. run_state (ExecuteDue sp m c st) a = run_state (executeScheduledTask sp m c (claimed st) False) b \<and>
     (\<exists>r \<in> set (sw_rows b). r\<lparr>stUpdatedAt := stUpdatedAt st\<rparr> = st) \<and> w_db (sw_core b) = w_db (sw_core a)"
proof -
  let ?a = "sticked (Suc (w_tick (sw_core a))) a"
  let ?n = "if se_cron a (stCronExpression st) then Some z else None"
  have inv: "sched_inv ?a" by (rule schema.I_tick [OF assms(1)])
  obtain b where b: "run_state (UpdateScheduledTask c (stID st) (claim_updates st ?n)) ?a = (Inr (), b)"
      "\<exists>r \<in> set (sw_rows b). r\<lparr>stUpdatedAt := stUpdatedAt st\<rparr> = st" "w_db (sw_core b) = w_db (sw_core a)"
    using endless_claim [OF inv, of st c z ?n] assms(2-4,7) by fastforce
  have "run_state (ExecuteDue sp m c st) a = run_state (executeScheduledTask sp m c (claimed st) False) b"
    using assms(4-6) b(1) by (auto simp: ExecuteDue_def run_next_or_nil claimed_def)
  with b(2,3) show ?thesis by blast
qed

section \<open>Sessions the activator sees\<close>

text \<open>
  The activator of scheduled sessions starts from a context without tenant and without system
  access: on a database that isolates tenants its run finds no session, whatever is due, and
  changes nothing.
\<close>

theorem activator_idle_under_isolation:
  assumes "multi_tenant (w_db (sw_core a))"
  shows "run_state (checkAndActivate n) a = ((), sticked (w_tick (sw_core a) + 2) a)"
proof -
  have "\<not> rls_visible (w_db (sw_core a)) background_ctx t" for t
    using assms by (simp add: rls_visible_def background_ctx_def IsSystemAccess_def TenantFromContext_def)
  then have "getDueScheduledSessions background_ctx now n (w_db (sw_core a)) = Inr []" for now
    by (simp add: getDueScheduledSessions_def)
  then show ?thesis
    by (simp add: checkAndActivate_def GetDueScheduledSessions_def query_def exec_stmt_def Let_def split: option.splits)
qed

end
