(* ===== verification/Schedule_Witnesses.thy ===== *)
theory Schedule_Witnesses
  imports Sample Schedule_Failures
begin

text \<open>
  A deployment with one scheduled task that is due, and the laws of schedules applied to it. The
  expression matches every minute, or never when a witness says so.
\<close>

definition sample_schedule :: ScheduledTask where
  "sample_schedule = \<lparr>stID = ''st-1'', stSessionID = ''s-1'', stName = ''nightly'', stDescription = None,
     stCronExpression = ''0 2 * * *'', stTimezone = ''UTC'', stPromptTemplate = ''go'', stTimeoutSeconds = 3600, stMaxRetries = 0,
     stStatus = ScheduledTaskStatusActive, stNextRunAt = Some 500, stLastRunAt = None, stLastTaskID = None, stRunCount = 0,
     stFailureCount = 1, stOnFailure = OnFailureDisableOnFailure, stMaxConsecutiveFailures = None, stConsecutiveFailures = 1,
     stTenantID = None, stLabels = JObj [], stAnnotations = JObj [], stCreatedAt = 1, stUpdatedAt = 1\<rparr>"

definition sched_sample :: "(int \<Rightarrow> int) \<Rightarrow> sched_world" where
  "sched_sample next_run = \<lparr>sw_core = sample_world, sw_rows = [sample_schedule], se_cron = (\<lambda>_. True), se_zone = (\<lambda>_. True),
     se_next = (\<lambda>_ _. next_run), se_date = (\<lambda>_. []), se_rfc3339 = (\<lambda>_. []), se_template = (\<lambda>p _. Inr p)\<rparr>"

lemma sample_schedule_inv: "sched_inv (sched_sample f)"
  using sample_db_inv
  by (simp add: sched_inv_def schedules_ok_def sched_sample_def sample_schedule_def schedule_ints_def schedule_check_def
      schedule_fk_def fits_int4_def) (simp add: sample_db_def sample_rows)

lemma sample_spawner: "spawner_ok (\<lambda>_ _ _. ret False)" "resumer_ok (\<lambda>_ _ _ _ _. ret ())"
  by (simp_all add: spawner_ok_def resumer_ok_def kept.R_refl)

theorem schedules_keep_schema_witness:
  "\<exists>b. run_state (for_each (serve_sched (\<lambda>_ _ _. ret False) (\<lambda>_ _ _ _ _. ret ())) [ReqSchedPass 6 app_ctx 50, ReqSchedPause app_ctx ''st-1''])
     (sched_sample (\<lambda>x. x + 60)) = ((), b) \<and> sched_inv b"
proof -
  obtain b where b: "run_state (for_each (serve_sched (\<lambda>_ _ _. ret False) (\<lambda>_ _ _ _ _. ret ()))
      [ReqSchedPass 6 app_ctx 50, ReqSchedPause app_ctx ''st-1'']) (sched_sample (\<lambda>x. x + 60)) = ((), b)" by fastforce
  from schedules_keep_schema [OF sample_schedule_inv sample_spawner b] b show ?thesis by blast
qed

lemma sample_tick_runs: "\<not> isl (fst (run_state (ExecuteDue (\<lambda>_ _ _. ret False) 6 app_ctx sample_schedule) (sched_sample (\<lambda>x. x + 60))))"
  by code_simp

theorem tick_runs_once_witness:
  "\<exists>task b d r d'. run_state (ExecuteDue (\<lambda>_ _ _. ret False) 6 app_ctx sample_schedule) (sched_sample (\<lambda>x. x + 60)) = (Inr task, b) \<and>
     run_state (for_each (serve_sched (\<lambda>_ _ _. ret False) (\<lambda>_ _ _ _ _. ret ())) [ReqSchedPause app_ctx ''st-1'']) b = ((), d) \<and>
     run_state (ExecuteDue (\<lambda>_ _ _. ret False) 6 app_ctx sample_schedule) d = (r, d') \<and>
     (r = Inl ErrScheduledTickTaken \<or> (\<exists>x. r = Inl (ErrDatabase x))) \<and> sw_rows d' = sw_rows d"
proof -
  let ?a = "sched_sample (\<lambda>x. x + 60)"
  obtain task b where b: "run_state (ExecuteDue (\<lambda>_ _ _. ret False) 6 app_ctx sample_schedule) ?a = (Inr task, b)"
    using sample_tick_runs by (cases "run_state (ExecuteDue (\<lambda>_ _ _. ret False) 6 app_ctx sample_schedule) ?a";
      cases "fst (run_state (ExecuteDue (\<lambda>_ _ _. ret False) 6 app_ctx sample_schedule) ?a)") auto
  obtain d where d: "run_state (for_each (serve_sched (\<lambda>_ _ _. ret False) (\<lambda>_ _ _ _ _. ret ())) [ReqSchedPause app_ctx ''st-1'']) b = ((), d)"
    by fastforce
  obtain r d' where r: "run_state (ExecuteDue (\<lambda>_ _ _. ret False) 6 app_ctx sample_schedule) d = (r, d')" by fastforce
  have "\<forall>k. 500 \<le> e_clock (sw_core ?a) k" "cron_next_ok ?a" "(500::int) \<noteq> zero_instant" "se_cron ?a (stCronExpression sample_schedule)"
    "stNextRunAt sample_schedule = Some 500"
    by (simp_all add: sched_sample_def sample_world_def sample_schedule_def cron_next_ok_def zero_instant_def duration_defs)
  from tick_runs_once [OF sample_spawner this b d _ r] \<open>stNextRunAt sample_schedule = Some 500\<close> b d r show ?thesis by auto
qed

lemma sample_schedule_seen:
  "\<forall>k. e_fault (sw_core (sched_sample f)) k = None" "sample_schedule \<in> set (sw_rows (sched_sample f))"
  "rls_visible (w_db (sw_core (sched_sample f))) app_ctx (stTenantID sample_schedule)"
  by (simp_all add: sched_sample_def sample_nofault)

theorem failures_reach_policy_witness:
  "\<exists>b r. run_state (for_each (\<lambda>c. ignore_err (MarkTaskCompleted c (stID sample_schedule) False)) [app_ctx, app_ctx]) (sched_sample id) = ((), b) \<and>
     sw_rows b = [r] \<and> stStatus r = ScheduledTaskStatusDisabled \<and> stConsecutiveFailures r = 3"
proof -
  obtain b where b: "run_state (for_each (\<lambda>c. ignore_err (MarkTaskCompleted c (stID sample_schedule) False)) [app_ctx, app_ctx])
      (sched_sample id) = ((), b)" by fastforce
  have "\<forall>c \<in> set [app_ctx, app_ctx]. rls_visible (w_db (sw_core (sched_sample id))) c (stTenantID sample_schedule)"
    using sample_schedule_seen(3) by simp
  from failures_reach_policy [OF sample_schedule_inv sample_schedule_seen(1,2) this _ _ _ _ b] obtain r
    where "after_failures 2 sample_schedule r" "sw_rows b = put_row stID (stID sample_schedule) r (sw_rows (sched_sample id))"
    by (auto simp: sample_schedule_def numeral_2_eq_2)
  with b show ?thesis
    by (cases r) (auto simp: after_failures_def sample_schedule_def sched_sample_def put_row_def schedule_names)
qed

theorem endless_tick_never_taken_witness:
  "\<exists>b. run_state (ExecuteDue (\<lambda>_ _ _. ret False) 6 app_ctx sample_schedule) (sched_sample (\<lambda>_. 500)) =
       run_state (executeScheduledTask (\<lambda>_ _ _. ret False) 6 app_ctx (claimed sample_schedule) False) b \<and>
     (\<exists>r \<in> set (sw_rows b). r\<lparr>stUpdatedAt := 1\<rparr> = sample_schedule)"
proof -
  have "stNextRunAt sample_schedule = Some 500" "se_zone (sched_sample (\<lambda>_. 500)) (stTimezone sample_schedule)"
    "se_cron (sched_sample (\<lambda>_. 500)) (stCronExpression sample_schedule) \<longrightarrow>
       (\<forall>x. se_next (sched_sample (\<lambda>_. 500)) (stCronExpression sample_schedule) (stTimezone sample_schedule) x = 500)"
    "stUpdatedAt sample_schedule = 1"
    by (simp_all add: sample_schedule_def sched_sample_def)
  with endless_tick_never_taken [OF sample_schedule_inv sample_schedule_seen(2,3) this(1-3) sample_schedule_seen(1),
      of "\<lambda>_ _ _. ret False" 6] show ?thesis by auto
qed

definition isolated_sample :: sched_world where
  "isolated_sample = (sched_sample id)\<lparr>sw_core := sample_world\<lparr>w_db := sample_db\<lparr>multi_tenant := True,
     sessions := [(sample_session ''s-2'' SessionStatusSuspended None)\<lparr>sLifecycleMode := ''scheduled'', sNextScheduledAt := Some 5,
       sTenantID := Some ''acme''\<rparr>]\<rparr>\<rparr>\<rparr>"

theorem activator_idle_under_isolation_witness:
  "list_ex (session_due 1000) (sessions (w_db (sw_core isolated_sample))) \<and>
   sessions (w_db (sw_core (snd (run_state (checkAndActivate 50) isolated_sample)))) = sessions (w_db (sw_core isolated_sample))"
proof -
  have "multi_tenant (w_db (sw_core isolated_sample))" by (simp add: isolated_sample_def)
  from activator_idle_under_isolation [OF this, of 50] show ?thesis
    by (simp add: isolated_sample_def session_due_def sample_session_def)
qed

end
