(* ===== verification/Replica_Routing.thy ===== *)
theory Replica_Routing
  imports Core_Base
begin

text \<open>
  Routing of commands between server processes: the statements of \<^verbatim>\<open>postgres/replicas.go\<close>, the
  registry of \<^verbatim>\<open>core/replica_registry.go\<close>, the connections of \<^verbatim>\<open>grpc/connection.go\<close>, the hop of
  \<^verbatim>\<open>grpc/command_router.go\<close> and the ends of a control stream in \<^verbatim>\<open>grpc/control_channel.go\<close>.

  A deployment is a database, the processes that run, each known by its replica id, and an
  environment that decides clocks, database faults, who listens at an address, and whether the
  request or the reply of a hop is lost. Every statement runs with system access, so row level
  security does not show. Replica ids are drawn anew by every process.
\<close>

section \<open>Rows and statements\<close>

record ServerReplica =
  srID :: string
  srAdvertiseAddr :: string
  srVersion :: "string option"
  srStartedAt :: int
  srLastHeartbeatAt :: int

text \<open>The columns of \<^verbatim>\<open>runners\<close> that migration 014 added, and the id.\<close>

record runner_route =
  roRunnerID :: string
  roReplicaID :: "string option"
  roConnectedAt :: "int option"

record routing_db =
  server_replicas :: "ServerReplica list"
  routes :: "runner_route list"

record HeldConnection =
  hcRunnerID :: string
  hcReplicaID :: string
  hcAdvertiseAddr :: string
  hcConnectedAt :: "int option"
  hcLastHeartbeatAt :: int

definition registerServerReplica :: "int \<Rightarrow> ServerReplica \<Rightarrow> routing_db \<Rightarrow> gerr + unit \<times> routing_db" where
  "registerServerReplica now r d = Inr ((),
     (case find (\<lambda>x. srID x = srID r) (server_replicas d) of
        None \<Rightarrow> d\<lparr>server_replicas := r\<lparr>srStartedAt := now, srLastHeartbeatAt := now\<rparr> # server_replicas d\<rparr>
      | Some x \<Rightarrow> d\<lparr>server_replicas := put_row srID (srID r) (x\<lparr>srAdvertiseAddr := srAdvertiseAddr r,
          srVersion := srVersion r, srLastHeartbeatAt := now\<rparr>) (server_replicas d)\<rparr>))"

definition heartbeatServerReplica :: "int \<Rightarrow> string \<Rightarrow> routing_db \<Rightarrow> gerr + unit \<times> routing_db" where
  "heartbeatServerReplica now i d =
     (case find (\<lambda>x. srID x = i) (server_replicas d) of
        None \<Rightarrow> Inl (ErrNotFound ''server_replica'' i)
      | Some x \<Rightarrow> Inr ((), d\<lparr>server_replicas := put_row srID i (x\<lparr>srLastHeartbeatAt := now\<rparr>) (server_replicas d)\<rparr>))"

text \<open>Deleting replicas: the foreign key sets the pointers to them, and only these, to null.\<close>

definition without_replicas :: "(ServerReplica \<Rightarrow> bool) \<Rightarrow> routing_db \<Rightarrow> routing_db" where
  "without_replicas gone d =
     (let ids = map srID (filter gone (server_replicas d)) in
      d\<lparr>server_replicas := filter (\<lambda>x. \<not> gone x) (server_replicas d),
        routes := map (\<lambda>ro. case roReplicaID ro of
          None \<Rightarrow> ro | Some i \<Rightarrow> if i \<in> set ids then ro\<lparr>roReplicaID := None\<rparr> else ro) (routes d)\<rparr>)"

definition deleteServerReplica :: "string \<Rightarrow> routing_db \<Rightarrow> gerr + unit \<times> routing_db" where
  "deleteServerReplica i d = Inr ((), without_replicas (\<lambda>x. srID x = i) d)"

definition deleteExpiredServerReplicas :: "int \<Rightarrow> int \<Rightarrow> routing_db \<Rightarrow> gerr + nat \<times> routing_db" where
  "deleteExpiredServerReplicas now olderThan d =
     (if olderThan \<le> 0 then Inl (ErrOS ''replica expiry must be positive'')
      else let expired = (\<lambda>x. srLastHeartbeatAt x < now - olderThan) in
        Inr (length (filter expired (server_replicas d)), without_replicas expired d))"

definition listServerReplicas :: "routing_db \<Rightarrow> gerr + ServerReplica list" where
  "listServerReplicas d = Inr (rev (sort_key srLastHeartbeatAt (server_replicas d)))"

definition bindRunnerConnection :: "int \<Rightarrow> string \<Rightarrow> string \<Rightarrow> routing_db \<Rightarrow> gerr + unit \<times> routing_db" where
  "bindRunnerConnection now rid replicaID d =
     (case find (\<lambda>ro. roRunnerID ro = rid) (routes d) of
        None \<Rightarrow> Inl (ErrNotFound ''runner'' rid)
      | Some ro \<Rightarrow>
          if replicaID \<notin> srID ` set (server_replicas d) then Inl (ErrForeignKeyViolation ''runner'')
          else Inr ((), d\<lparr>routes := put_row roRunnerID rid
            (ro\<lparr>roReplicaID := Some replicaID, roConnectedAt := Some now\<rparr>) (routes d)\<rparr>))"

definition releaseRunnerConnection :: "string \<Rightarrow> string \<Rightarrow> routing_db \<Rightarrow> gerr + unit \<times> routing_db" where
  "releaseRunnerConnection rid replicaID d = Inr ((), d\<lparr>routes := map (\<lambda>ro.
     if roRunnerID ro = rid \<and> roReplicaID ro = Some replicaID
     then ro\<lparr>roReplicaID := None, roConnectedAt := None\<rparr> else ro) (routes d)\<rparr>)"

definition getRunnerConnection :: "string \<Rightarrow> routing_db \<Rightarrow> gerr + HeldConnection" where
  "getRunnerConnection rid d =
     (case find (\<lambda>ro. roRunnerID ro = rid) (routes d) of
        None \<Rightarrow> Inl (ErrNotFound ''runner_connection'' rid)
      | Some ro \<Rightarrow>
          (case find (\<lambda>x. Some (srID x) = roReplicaID ro) (server_replicas d) of
             None \<Rightarrow> Inl (ErrNotFound ''runner_connection'' rid)
           | Some x \<Rightarrow> Inr \<lparr>hcRunnerID = rid, hcReplicaID = srID x, hcAdvertiseAddr = srAdvertiseAddr x,
               hcConnectedAt = roConnectedAt ro, hcLastHeartbeatAt = srLastHeartbeatAt x\<rparr>))"

section \<open>Processes\<close>

record Peer =
  peReplicaID :: string
  peAddr :: string

record locateEntry =
  lePeer :: Peer
  lePresent :: bool
  leAt :: int

text \<open>
  \<^verbatim>\<open>RunnerConnection\<close>: \<open>cnCommands\<close> is the buffered channel, \<open>cnDone\<close> says whether \<^verbatim>\<open>done\<close> is closed, \<open>cnSent\<close>
  is what was written to the stream.
\<close>

record RunnerConnection =
  cnName :: string
  cnHostname :: string
  cnStatus :: string
  cnConnectedAt :: int
  cnLastSeen :: int
  cnCommands :: "ServerCommand list"
  cnDone :: bool
  cnSent :: "ServerCommand list"

text \<open>The registry and the connection manager of one process.\<close>

record replica_proc =
  rpAdvertiseAddr :: string
  rpVersion :: string
  rpExpiry :: int
  rpObserved :: "nat list option" \<comment> \<open>the gauge, when one is wired\<close>
  rpRegistered :: bool
  rpCache :: "string \<rightharpoonup> locateEntry"
  rpClosed :: bool
  rpConns :: "string \<rightharpoonup> RunnerConnection"
  rpRouter :: bool \<comment> \<open>whether \<^verbatim>\<open>SetRouter\<close> was called\<close>
  rpCredential :: string

datatype hop = HopAnswered | HopRequestLost string | HopReplyLost string

record route_world =
  rw_db :: routing_db
  rw_procs :: "string \<rightharpoonup> replica_proc"
  rw_tick :: nat
  re_clock :: "nat \<Rightarrow> int"
  re_fault :: "nat \<Rightarrow> string option"
  re_listener :: "string \<Rightarrow> string option" \<comment> \<open>the process behind an address\<close>
  re_hop :: "nat \<Rightarrow> hop"
  re_stream_err :: "nat \<Rightarrow> bool"
  re_select :: "nat \<Rightarrow> bool" \<comment> \<open>whether a \<^verbatim>\<open>select\<close> takes the command when the stream is closed too\<close>
  re_hostname :: "string option"

type_synonym 'a R = "(route_world, 'a) state"
type_synonym 'a RG = "(route_world, gerr + 'a) state"

definition route_tick :: "(route_world \<Rightarrow> nat \<Rightarrow> 'a) \<Rightarrow> 'a R" where
  "route_tick f = State (\<lambda>w. (f w (rw_tick w), w\<lparr>rw_tick := Suc (rw_tick w)\<rparr>))"

definition route_now :: "int R" where
  "route_now = route_tick re_clock"

definition exec_route :: "(int \<Rightarrow> routing_db \<Rightarrow> gerr + 'a \<times> routing_db) \<Rightarrow> 'a RG" where
  "exec_route f = State (\<lambda>w.
     (let t = rw_tick w; w' = w\<lparr>rw_tick := Suc t\<rparr> in
      case re_fault w t of
        Some m \<Rightarrow> (Inl (ErrDatabase m), w')
      | None \<Rightarrow> (case f (re_clock w t) (rw_db w) of Inl e \<Rightarrow> (Inl e, w') | Inr (x, d) \<Rightarrow> (Inr x, w'\<lparr>rw_db := d\<rparr>))))"

definition query_route :: "(routing_db \<Rightarrow> gerr + 'a) \<Rightarrow> 'a RG" where
  "query_route f = exec_route (\<lambda>_ d. case f d of Inl e \<Rightarrow> Inl e | Inr x \<Rightarrow> Inr (x, d))"

text \<open>What runs in a process that is not there does nothing.\<close>

definition in_proc :: "string \<Rightarrow> 'a \<Rightarrow> (replica_proc \<Rightarrow> 'a R) \<Rightarrow> 'a R" where
  "in_proc p none k = State (\<lambda>w. case rw_procs w p of None \<Rightarrow> (none, w) | Some x \<Rightarrow> run_state (k x) w)"

definition set_proc :: "string \<Rightarrow> (replica_proc \<Rightarrow> replica_proc) \<Rightarrow> unit R" where
  "set_proc p f = State (\<lambda>w. ((), w\<lparr>rw_procs := (rw_procs w)(p := map_option f (rw_procs w p))\<rparr>))"

section \<open>Store methods\<close>

definition RegisterServerReplica :: "ServerReplica \<Rightarrow> unit RG" where
  "RegisterServerReplica r = exec_route (\<lambda>now. registerServerReplica now r)"

definition HeartbeatServerReplica :: "string \<Rightarrow> unit RG" where
  "HeartbeatServerReplica i = exec_route (\<lambda>now. heartbeatServerReplica now i)"

definition DeleteServerReplica :: "string \<Rightarrow> unit RG" where
  "DeleteServerReplica i = exec_route (\<lambda>_. deleteServerReplica i)"

definition DeleteExpiredServerReplicas :: "int \<Rightarrow> nat RG" where
  "DeleteExpiredServerReplicas olderThan = exec_route (\<lambda>now. deleteExpiredServerReplicas now olderThan)"

definition ListServerReplicas :: "ServerReplica list RG" where
  "ListServerReplicas = query_route listServerReplicas"

definition BindRunnerConnection :: "string \<Rightarrow> string \<Rightarrow> unit RG" where
  "BindRunnerConnection rid i = exec_route (\<lambda>now. bindRunnerConnection now rid i)"

definition ReleaseRunnerConnection :: "string \<Rightarrow> string \<Rightarrow> unit RG" where
  "ReleaseRunnerConnection rid i = exec_route (\<lambda>_. releaseRunnerConnection rid i)"

definition GetRunnerConnection :: "string \<Rightarrow> HeldConnection RG" where
  "GetRunnerConnection rid = query_route (getRunnerConnection rid)"

section \<open>The registry\<close>

definition DefaultReplicaHeartbeatInterval :: int where "DefaultReplicaHeartbeatInterval = 10 * Second"
definition DefaultReplicaExpiry :: int where "DefaultReplicaExpiry = 3 * DefaultReplicaHeartbeatInterval"
definition replicaLocateCacheTTL :: int where "replicaLocateCacheTTL = Second"

record ReplicaRegistryConfig =
  rcAdvertiseAddr :: string
  rcVersion :: string
  rcExpiry :: int
  rcObserve :: bool

definition NewReplicaRegistry :: "ReplicaRegistryConfig \<Rightarrow> bool \<Rightarrow> string \<Rightarrow> string option \<Rightarrow> gerr + replica_proc" where
  "NewReplicaRegistry cfg router cred hostname =
     (if rcAdvertiseAddr cfg = [] then Inl ErrAdvertiseAddrRequired
      else Inr \<lparr>rpAdvertiseAddr = rcAdvertiseAddr cfg,
        rpVersion = (if rcVersion cfg \<noteq> [] then rcVersion cfg else case hostname of None \<Rightarrow> [] | Some h \<Rightarrow> h),
        rpExpiry = (if rcExpiry cfg \<le> 0 then DefaultReplicaExpiry else rcExpiry cfg),
        rpObserved = (if rcObserve cfg then Some [] else None), rpRegistered = False, rpCache = Map.empty,
        rpClosed = False, rpConns = Map.empty, rpRouter = router, rpCredential = cred\<rparr>)"

definition replica_row :: "string \<Rightarrow> replica_proc \<Rightarrow> ServerReplica" where
  "replica_row p x = \<lparr>srID = p, srAdvertiseAddr = rpAdvertiseAddr x,
     srVersion = (if rpVersion x = [] then None else Some (rpVersion x)), srStartedAt = 0, srLastHeartbeatAt = 0\<rparr>"

definition registry_register :: "string \<Rightarrow> unit RG" where
  "registry_register p = in_proc p (Inr ()) (\<lambda>x. guard_ok (RegisterServerReplica (replica_row p x)) (\<lambda>_. do {
     set_proc p (\<lambda>y. y\<lparr>rpRegistered := True\<rparr>);
     ok ()
   }))"

definition registry_Start :: "string \<Rightarrow> unit R" where
  "registry_Start p = ignore_err (registry_register p)"

definition registry_Stop :: "string \<Rightarrow> unit R" where
  "registry_Stop p = in_proc p () (\<lambda>x.
     if rpClosed x then ret ()
     else do {
       set_proc p (\<lambda>y. y\<lparr>rpClosed := True\<rparr>);
       ignore_err (DeleteServerReplica p);
       set_proc p (\<lambda>y. y\<lparr>rpRegistered := False\<rparr>)
     })"

text \<open>The part of \<^verbatim>\<open>tick\<close> that keeps the row of this process: its error ends the tick.\<close>

definition keep_alive :: "string \<Rightarrow> replica_proc \<Rightarrow> unit RG" where
  "keep_alive p x =
     (if \<not> rpRegistered x then registry_register p
      else do {
        r \<leftarrow> HeartbeatServerReplica p;
        (case r of
           Inr _ \<Rightarrow> ok ()
         | Inl e \<Rightarrow> do { set_proc p (\<lambda>y. y\<lparr>rpRegistered := False\<rparr>); err e })
      })"

text \<open>\<^verbatim>\<open>run\<close> leaves its loop when the registry is closed.\<close>

definition registry_tick :: "string \<Rightarrow> unit R" where
  "registry_tick p = in_proc p () (\<lambda>x.
     if rpClosed x then ret ()
     else ignore_err (guard_ok (keep_alive p x) (\<lambda>_. guard_ok (DeleteExpiredServerReplicas (rpExpiry x)) (\<lambda>_.
       if rpObserved x = None then ok ()
       else guard_ok ListServerReplicas (\<lambda>rs. do {
         set_proc p (\<lambda>y. y\<lparr>rpObserved := map_option (\<lambda>ns. ns @ [length rs]) (rpObserved y)\<rparr>);
         ok ()
       })))))"

definition invalidate :: "string \<Rightarrow> string \<Rightarrow> unit R" where
  "invalidate p rid = set_proc p (\<lambda>y. y\<lparr>rpCache := (rpCache y)(rid := None)\<rparr>)"

definition registry_BindRunner :: "string \<Rightarrow> string \<Rightarrow> unit R" where
  "registry_BindRunner p rid = in_proc p () (\<lambda>x.
     if \<not> rpRegistered x then ret ()
     else do {
       r \<leftarrow> BindRunnerConnection rid p;
       (case r of Inl _ \<Rightarrow> ret () | Inr _ \<Rightarrow> invalidate p rid)
     })"

definition registry_ReleaseRunner :: "string \<Rightarrow> string \<Rightarrow> unit R" where
  "registry_ReleaseRunner p rid = in_proc p () (\<lambda>_. do {
     ignore_err (ReleaseRunnerConnection rid p);
     invalidate p rid
   })"

text \<open>The peer of an answer, when there is one to hop to.\<close>

definition no_peer :: Peer where "no_peer = \<lparr>peReplicaID = [], peAddr = []\<rparr>"

definition cached :: "replica_proc \<Rightarrow> string \<Rightarrow> locateEntry option R" where
  "cached x rid =
     (case rpCache x rid of
        None \<Rightarrow> ret None
      | Some entry \<Rightarrow> do { now \<leftarrow> route_now; ret (if now - leAt entry > replicaLocateCacheTTL then None else Some entry) })"

definition remember :: "string \<Rightarrow> string \<Rightarrow> Peer \<Rightarrow> bool \<Rightarrow> (Peer \<times> bool) R" where
  "remember p rid peer present = do {
     now \<leftarrow> route_now;
     set_proc p (\<lambda>y. y\<lparr>rpCache := (rpCache y)(rid \<mapsto> \<lparr>lePeer = peer, lePresent = present, leAt = now\<rparr>)\<rparr>);
     ret (peer, present)
   }"

definition Locate :: "string \<Rightarrow> string \<Rightarrow> (Peer \<times> bool) R" where
  "Locate p rid = in_proc p (no_peer, False) (\<lambda>x. do {
     c \<leftarrow> cached x rid;
     (case c of
        Some entry \<Rightarrow> ret (lePeer entry, lePresent entry)
      | None \<Rightarrow> do {
          r \<leftarrow> GetRunnerConnection rid;
          (case r of
             Inl e \<Rightarrow> if is_not_found e then remember p rid no_peer False else ret (no_peer, False)
           | Inr conn \<Rightarrow>
               if hcReplicaID conn = p then remember p rid no_peer False
               else do {
                 now \<leftarrow> route_now;
                 (if now - hcLastHeartbeatAt conn > rpExpiry x then remember p rid no_peer False
                  else remember p rid \<lparr>peReplicaID = hcReplicaID conn, peAddr = hcAdvertiseAddr conn\<rparr> True)
               })
        })
   })"

section \<open>Connections\<close>

datatype send_error = ErrRunnerAlreadyConnected | ErrRunnerNotFound | ErrCommandQueueFull | ErrRunnerDisconnected
  | ErrReplicaUnreachable string

definition commandBufferSize :: nat where "commandBufferSize = 100"

definition newRunnerConnection :: "string \<Rightarrow> string \<Rightarrow> int \<Rightarrow> RunnerConnection" where
  "newRunnerConnection name hostname now = \<lparr>cnName = name, cnHostname = hostname, cnStatus = ''idle'', cnConnectedAt = now,
     cnLastSeen = now, cnCommands = [], cnDone = False, cnSent = []\<rparr>"

definition set_conn :: "string \<Rightarrow> string \<Rightarrow> (RunnerConnection \<Rightarrow> RunnerConnection) \<Rightarrow> unit R" where
  "set_conn p rid f = set_proc p (\<lambda>y. y\<lparr>rpConns := (rpConns y)(rid := map_option f (rpConns y rid))\<rparr>)"

definition cm_Register :: "string \<Rightarrow> string \<Rightarrow> RunnerConnection \<Rightarrow> (route_world, send_error + unit) state" where
  "cm_Register p rid conn = in_proc p (Inl ErrRunnerNotFound) (\<lambda>x.
     if rpConns x rid \<noteq> None then err ErrRunnerAlreadyConnected
     else do { set_proc p (\<lambda>y. y\<lparr>rpConns := (rpConns y)(rid \<mapsto> conn)\<rparr>); ok () })"

definition cm_Unregister :: "string \<Rightarrow> string \<Rightarrow> unit R" where
  "cm_Unregister p rid = set_proc p (\<lambda>y. y\<lparr>rpConns := (rpConns y)(rid := None)\<rparr>)"

definition conn_Close :: "string \<Rightarrow> string \<Rightarrow> unit R" where
  "conn_Close p rid = set_conn p rid (\<lambda>c. c\<lparr>cnDone := True\<rparr>)"

definition cm_UpdateLastSeen :: "string \<Rightarrow> string \<Rightarrow> (route_world, send_error + unit) state" where
  "cm_UpdateLastSeen p rid = in_proc p (Inl ErrRunnerNotFound) (\<lambda>x.
     if rpConns x rid = None then err ErrRunnerNotFound
     else do { now \<leftarrow> route_now; set_conn p rid (\<lambda>c. c\<lparr>cnLastSeen := now\<rparr>); ok () })"

definition cm_UpdateStatus :: "string \<Rightarrow> string \<Rightarrow> string \<Rightarrow> (route_world, send_error + unit) state" where
  "cm_UpdateStatus p rid st = in_proc p (Inl ErrRunnerNotFound) (\<lambda>x.
     if rpConns x rid = None then err ErrRunnerNotFound
     else do { set_conn p rid (\<lambda>c. c\<lparr>cnStatus := st\<rparr>); ok () })"

definition cm_IsConnected :: "string \<Rightarrow> string \<Rightarrow> bool R" where
  "cm_IsConnected p rid = in_proc p False (\<lambda>x.
     if rpConns x rid \<noteq> None then ret True
     else if \<not> rpRouter x then ret False
     else do { (_, held) \<leftarrow> Locate p rid; ret held })"

definition sendLocal :: "string \<Rightarrow> string \<Rightarrow> ServerCommand \<Rightarrow> (route_world, send_error + unit) state" where
  "sendLocal p rid cmd = in_proc p (Inl ErrRunnerNotFound) (\<lambda>x.
     case rpConns x rid of
       None \<Rightarrow> err ErrRunnerNotFound
     | Some conn \<Rightarrow>
         if cnDone conn then err ErrRunnerDisconnected
         else if length (cnCommands conn) < commandBufferSize
         then do { set_conn p rid (\<lambda>c. c\<lparr>cnCommands := cnCommands c @ [cmd]\<rparr>); ok () }
         else err ErrCommandQueueFull)"

section \<open>The hop\<close>

datatype DeliveryStatus = DELIVERED | NOT_CONNECTED | QUEUE_FULL | DISCONNECTED

text \<open>The credential a peer presents; an empty one of its own disables the service.\<close>

definition authenticate :: "string \<Rightarrow> string \<Rightarrow> string + unit" where
  "authenticate own presented =
     (if own = [] then Inl ''Unimplemented'' else if own \<noteq> presented then Inl ''Unauthenticated'' else Inr ())"

definition DeliverCommand :: "string \<Rightarrow> string \<Rightarrow> string \<Rightarrow> ServerCommand \<Rightarrow> (route_world, string + DeliveryStatus) state" where
  "DeliverCommand q presented rid cmd = in_proc q (Inl ''Unavailable'') (\<lambda>x.
     case authenticate (rpCredential x) presented of
       Inl e \<Rightarrow> err e
     | Inr _ \<Rightarrow>
         if rid = [] then err ''InvalidArgument''
         else do {
           r \<leftarrow> sendLocal q rid cmd;
           (case r of
              Inr _ \<Rightarrow> ok DELIVERED
            | Inl ErrRunnerNotFound \<Rightarrow> ok NOT_CONNECTED
            | Inl ErrCommandQueueFull \<Rightarrow> ok QUEUE_FULL
            | Inl ErrRunnerDisconnected \<Rightarrow> ok DISCONNECTED
            | Inl _ \<Rightarrow> err ''Internal'')
         })"

text \<open>One call over the network: the request or the reply may be lost, and the address may lead nowhere.\<close>

definition call_peer :: "string \<Rightarrow> string \<Rightarrow> string \<Rightarrow> ServerCommand \<Rightarrow> (route_world, string + DeliveryStatus) state" where
  "call_peer addr cred rid cmd = do {
     (fate, listener) \<leftarrow> route_tick (\<lambda>w t. (re_hop w t, re_listener w addr));
     (case (fate, listener) of
        (HopRequestLost e, _) \<Rightarrow> err e
      | (_, None) \<Rightarrow> err ''Unavailable''
      | (HopAnswered, Some q) \<Rightarrow> DeliverCommand q cred rid cmd
      | (HopReplyLost e, Some q) \<Rightarrow> do { _ \<leftarrow> DeliverCommand q cred rid cmd; err e })
   }"

definition Forward :: "string \<Rightarrow> Peer \<Rightarrow> string \<Rightarrow> ServerCommand \<Rightarrow> (route_world, send_error + unit) state" where
  "Forward cred peer rid cmd =
     (if cred = [] then err (ErrReplicaUnreachable ''no peer credential configured'')
      else do {
        r \<leftarrow> call_peer (peAddr peer) cred rid cmd;
        (case r of
           Inl e \<Rightarrow> err (ErrReplicaUnreachable e)
         | Inr DELIVERED \<Rightarrow> ok ()
         | Inr NOT_CONNECTED \<Rightarrow> err ErrRunnerNotFound
         | Inr QUEUE_FULL \<Rightarrow> err ErrCommandQueueFull
         | Inr DISCONNECTED \<Rightarrow> err ErrRunnerDisconnected)
      })"

definition cm_SendCommand :: "string \<Rightarrow> string \<Rightarrow> ServerCommand \<Rightarrow> (route_world, send_error + unit) state" where
  "cm_SendCommand p rid cmd = do {
     r \<leftarrow> sendLocal p rid cmd;
     (if r \<noteq> Inl ErrRunnerNotFound then ret r
      else in_proc p r (\<lambda>x.
        if \<not> rpRouter x then ret r
        else do {
          (peer, held) \<leftarrow> Locate p rid;
          (if \<not> held then ret r else Forward (rpCredential x) peer rid cmd)
        }))
   }"

section \<open>The control stream\<close>

text \<open>
  The start of a stream up to the call of the runner manager: the connection is registered, then the
  pointer is published. \<open>handleDisconnect\<close> is its end up to the same call.
\<close>

definition open_stream :: "string \<Rightarrow> string \<Rightarrow> string \<Rightarrow> string \<Rightarrow> (route_world, send_error + unit) state" where
  "open_stream p rid name hostname = do {
     now \<leftarrow> route_now;
     guard_ok (cm_Register p rid (newRunnerConnection name hostname now)) (\<lambda>_. do {
       registry_BindRunner p rid;
       ok ()
     })
   }"

definition handleDisconnect :: "string \<Rightarrow> string \<Rightarrow> unit R" where
  "handleDisconnect p rid = do {
     conn_Close p rid;
     cm_Unregister p rid;
     registry_ReleaseRunner p rid
   }"

text \<open>One turn of the loop of \<^verbatim>\<open>sendCommands\<close>.\<close>

definition sendCommands :: "string \<Rightarrow> string \<Rightarrow> unit R" where
  "sendCommands p rid = in_proc p () (\<lambda>x.
     case rpConns x rid of
       None \<Rightarrow> ret ()
     | Some conn \<Rightarrow>
         (case cnCommands conn of
            [] \<Rightarrow> ret ()
          | cmd # rest \<Rightarrow> do {
              (failed, taken) \<leftarrow> route_tick (\<lambda>w t. (re_stream_err w t, re_select w t));
              (if cnDone conn \<and> \<not> taken then ret ()
               else if failed then set_conn p rid (\<lambda>c. c\<lparr>cnCommands := rest, cnDone := True\<rparr>)
               else set_conn p rid (\<lambda>c. c\<lparr>cnCommands := rest, cnSent := cnSent c @ [cmd]\<rparr>))
            }))"

end
