(* ===== verification/Replica_Laws.thy ===== *)
theory Replica_Laws
  imports Replica_Routing Triples
begin

text \<open>
  What a deployment of several processes keeps. The steps of all processes are requests; a history
  is any sequence of them, so every interleaving of the steps of concurrent streams, senders,
  registries and crashes is covered. The locale \<open>route_invariant\<close> lists what a property of the
  database must withstand.
\<close>

section \<open>Runs of the primitives\<close>

abbreviation rticked :: "nat \<Rightarrow> route_world \<Rightarrow> route_world" where
  "rticked n w \<equiv> w\<lparr>rw_tick := n\<rparr>"

lemma run_in_proc [simp]:
  "run_state (in_proc p none k) w = (case rw_procs w p of None \<Rightarrow> (none, w) | Some x \<Rightarrow> run_state (k x) w)"
  by (simp add: in_proc_def)

lemma run_set_proc [simp]:
  "run_state (set_proc p f) w = ((), w\<lparr>rw_procs := (rw_procs w)(p := map_option f (rw_procs w p))\<rparr>)"
  by (simp add: set_proc_def)

lemma run_route_tick [simp]: "run_state (route_tick f) w = (f w (rw_tick w), rticked (Suc (rw_tick w)) w)"
  by (simp add: route_tick_def)

lemma run_route_now [simp]: "run_state route_now w = (re_clock w (rw_tick w), rticked (Suc (rw_tick w)) w)"
  by (simp add: route_now_def)

lemma run_exec_route_cases:
  assumes "run_state (exec_route f) w = (r, w')"
  obtains (ok) x d where "r = Inr x" "f (re_clock w (rw_tick w)) (rw_db w) = Inr (x, d)" "re_fault w (rw_tick w) = None"
      "w' = (rticked (Suc (rw_tick w)) w)\<lparr>rw_db := d\<rparr>"
    | (failed) e where "r = Inl e" "w' = rticked (Suc (rw_tick w)) w"
        "f (re_clock w (rw_tick w)) (rw_db w) = Inl e \<or> (\<exists>m. e = ErrDatabase m)"
  using assms by (auto simp: exec_route_def Let_def split: option.splits sum.splits prod.splits)

lemma run_query_route_cases:
  assumes "run_state (query_route f) w = (r, w')"
  obtains (ok) x where "r = Inr x" "f (rw_db w) = Inr x" "w' = rticked (Suc (rw_tick w)) w"
    | (failed) e where "r = Inl e" "w' = rticked (Suc (rw_tick w)) w" "f (rw_db w) = Inl e \<or> (\<exists>m. e = ErrDatabase m)"
  using assms unfolding query_route_def by (rule run_exec_route_cases) (auto split: sum.splits)

lemma run_query_route: "re_fault w (rw_tick w) = None \<Longrightarrow> run_state (query_route f) w = (f (rw_db w), rticked (Suc (rw_tick w)) w)"
  by (simp add: query_route_def exec_route_def Let_def split: sum.splits)

section \<open>The steps of a deployment\<close>

datatype route_request =
    RtSpawn string ReplicaRegistryConfig bool string
  | RtCrash string
  | RtStart string | RtTick string | RtStop string
  | RtRegister string string string string | RtBind string string | RtClose string string
  | RtUnregister string string | RtRelease string string
  | RtPump string string | RtSeen string string | RtStatus string string string
  | RtLocate string string | RtSend string string ServerCommand
  | RtNewRunner string | RtDropRunner string

definition spawn_process :: "string \<Rightarrow> ReplicaRegistryConfig \<Rightarrow> bool \<Rightarrow> string \<Rightarrow> unit R" where
  "spawn_process p cfg router cred = State (\<lambda>w. ((),
     if rw_procs w p \<noteq> None then w
     else case NewReplicaRegistry cfg router cred (re_hostname w) of
       Inl _ \<Rightarrow> w | Inr x \<Rightarrow> w\<lparr>rw_procs := (rw_procs w)(p \<mapsto> x)\<rparr>))"

definition crash_process :: "string \<Rightarrow> unit R" where
  "crash_process p = State (\<lambda>w. ((), w\<lparr>rw_procs := (rw_procs w)(p := None)\<rparr>))"

definition new_route :: "string \<Rightarrow> routing_db \<Rightarrow> gerr + unit \<times> routing_db" where
  "new_route rid d = (if rid \<in> roRunnerID ` set (routes d) then Inl (ErrAlreadyExists ''runner'')
     else Inr ((), d\<lparr>routes := \<lparr>roRunnerID = rid, roReplicaID = None, roConnectedAt = None\<rparr> # routes d\<rparr>))"

definition drop_route :: "string \<Rightarrow> routing_db \<Rightarrow> gerr + unit \<times> routing_db" where
  "drop_route rid d = Inr ((), d\<lparr>routes := filter (\<lambda>ro. roRunnerID ro \<noteq> rid) (routes d)\<rparr>)"

fun serve_route :: "route_request \<Rightarrow> unit R" where
  "serve_route (RtSpawn p cfg router cred) = spawn_process p cfg router cred"
| "serve_route (RtCrash p) = crash_process p"
| "serve_route (RtStart p) = registry_Start p"
| "serve_route (RtTick p) = registry_tick p"
| "serve_route (RtStop p) = registry_Stop p"
| "serve_route (RtRegister p rid name host) =
     do { now \<leftarrow> route_now; ignore_err (cm_Register p rid (newRunnerConnection name host now)) }"
| "serve_route (RtBind p rid) = registry_BindRunner p rid"
| "serve_route (RtClose p rid) = conn_Close p rid"
| "serve_route (RtUnregister p rid) = cm_Unregister p rid"
| "serve_route (RtRelease p rid) = registry_ReleaseRunner p rid"
| "serve_route (RtPump p rid) = sendCommands p rid"
| "serve_route (RtSeen p rid) = ignore_err (cm_UpdateLastSeen p rid)"
| "serve_route (RtStatus p rid st) = ignore_err (cm_UpdateStatus p rid st)"
| "serve_route (RtLocate p rid) = do { _ \<leftarrow> cm_IsConnected p rid; ret () }"
| "serve_route (RtSend p rid cmd) = ignore_err (cm_SendCommand p rid cmd)"
| "serve_route (RtNewRunner rid) = ignore_err (exec_route (\<lambda>_. new_route rid))"
| "serve_route (RtDropRunner rid) = ignore_err (exec_route (\<lambda>_. drop_route rid))"

section \<open>Invariants\<close>

text \<open>A process expires nobody early, never holds more commands than its buffers, and never hops to itself.\<close>

definition proc_ok :: "int \<Rightarrow> string \<Rightarrow> replica_proc \<Rightarrow> bool" where
  "proc_ok X p x \<longleftrightarrow> X \<le> rpExpiry x \<and>
     (\<forall>rid c. rpConns x rid = Some c \<longrightarrow> length (cnCommands c) \<le> commandBufferSize) \<and>
     (\<forall>rid e. rpCache x rid = Some e \<longrightarrow> lePresent e \<longrightarrow> peReplicaID (lePeer e) \<noteq> p)"

definition deployed :: "(routing_db \<Rightarrow> bool) \<Rightarrow> int \<Rightarrow> (int \<Rightarrow> bool) \<Rightarrow> route_world \<Rightarrow> bool" where
  "deployed J X T w \<longleftrightarrow> J (rw_db w) \<and> (\<forall>p x. rw_procs w p = Some x \<longrightarrow> proc_ok X p x) \<and> (\<forall>k. T (re_clock w k))"

lemma fresh_proc_ok: "NewReplicaRegistry cfg router cred h = Inr x \<Longrightarrow> X \<le> rpExpiry x \<Longrightarrow> proc_ok X p x"
  by (auto simp: NewReplicaRegistry_def proc_ok_def split: if_splits)

locale route_invariant =
  fixes J :: "routing_db \<Rightarrow> bool" and X :: int and T :: "int \<Rightarrow> bool" and A :: "route_request \<Rightarrow> bool"
  assumes J_register: "J d \<Longrightarrow> T now \<Longrightarrow> registerServerReplica now r d = Inr (u, d') \<Longrightarrow> J d'"
    and J_heartbeat: "J d \<Longrightarrow> T now \<Longrightarrow> heartbeatServerReplica now p d = Inr (u, d') \<Longrightarrow> J d'"
    and J_expired: "J d \<Longrightarrow> T now \<Longrightarrow> X \<le> e \<Longrightarrow> deleteExpiredServerReplicas now e d = Inr (n, d') \<Longrightarrow> J d'"
    and J_stop: "A (RtStop p) \<Longrightarrow> J d \<Longrightarrow> deleteServerReplica p d = Inr (u, d') \<Longrightarrow> J d'"
    and J_bind: "A (RtBind p rid) \<Longrightarrow> J d \<Longrightarrow> bindRunnerConnection now rid p d = Inr (u, d') \<Longrightarrow> J d'"
    and J_release: "A (RtRelease p rid) \<Longrightarrow> J d \<Longrightarrow> releaseRunnerConnection rid p d = Inr (u, d') \<Longrightarrow> J d'"
    and J_new: "J d \<Longrightarrow> new_route rid d = Inr (u, d') \<Longrightarrow> J d'"
    and J_drop: "A (RtDropRunner rid) \<Longrightarrow> J d \<Longrightarrow> drop_route rid d = Inr (u, d') \<Longrightarrow> J d'"
    and A_spawn: "A (RtSpawn p cfg router cred) \<Longrightarrow> NewReplicaRegistry cfg router cred h = Inr x \<Longrightarrow> X \<le> rpExpiry x"
begin

lemma keeps_exec_route:
  assumes "\<And>d now x d'. J d \<Longrightarrow> T now \<Longrightarrow> f now d = Inr (x, d') \<Longrightarrow> J d'"
  shows "keeps (deployed J X T) (exec_route f) (good (\<lambda>_. True))"
proof (rule keepsI)
  fix w r w' assume i: "deployed J X T w" and "run_state (exec_route f) w = (r, w')"
  from this(2) show "deployed J X T w' \<and> good (\<lambda>_. True) r"
  proof (cases rule: run_exec_route_cases)
    case (ok x d)
    with assms [of "rw_db w" "re_clock w (rw_tick w)" x d] i show ?thesis by (simp add: deployed_def)
  qed (use i in \<open>simp add: deployed_def\<close>)
qed

lemma keeps_query_route: "keeps (deployed J X T) (query_route f) (good (\<lambda>_. True))"
  unfolding query_route_def by (rule keeps_exec_route) (auto split: sum.splits)

lemma keeps_set_proc: "(\<And>x. proc_ok X p x \<Longrightarrow> proc_ok X p (f x)) \<Longrightarrow> keeps (deployed J X T) (set_proc p f) (\<lambda>_. True)"
  by (rule keepsI) (auto simp: deployed_def split: if_splits)

lemma keeps_in_proc:
  "Q none \<Longrightarrow> (\<And>x. proc_ok X p x \<Longrightarrow> keeps (deployed J X T) (k x) Q) \<Longrightarrow> keeps (deployed J X T) (in_proc p none k) Q"
proof (rule keepsI)
  fix w r w' assume "Q none" and k: "\<And>x. proc_ok X p x \<Longrightarrow> keeps (deployed J X T) (k x) Q" and w: "deployed J X T w"
    and run: "run_state (in_proc p none k) w = (r, w')"
  show "deployed J X T w' \<and> Q r"
  proof (cases "rw_procs w p")
    case (Some x)
    with w have "proc_ok X p x" by (simp add: deployed_def)
    from keepsD [OF k [OF this] w] Some run show ?thesis by simp
  qed (use \<open>Q none\<close> w run in simp)
qed

lemma keeps_tick: "keeps (deployed J X T) (route_tick f) (\<lambda>_. True)" "keeps (deployed J X T) route_now (\<lambda>_. True)"
  by (rule keepsI; simp add: deployed_def)+

lemma keeps_set_conn:
  assumes "\<And>c. length (cnCommands c) \<le> commandBufferSize \<Longrightarrow> length (cnCommands (f c)) \<le> commandBufferSize"
  shows "keeps (deployed J X T) (set_conn p rid f) (\<lambda>_. True)"
  unfolding set_conn_def using assms by (intro keeps_set_proc) (auto simp: proc_ok_def)

lemmas keeps_steps = keeps_in_proc keeps_if keeps_return keeps_case_sum

lemma keeps_registry_register: "keeps (deployed J X T) (registry_register p) (good (\<lambda>_. True))"
  unfolding registry_register_def RegisterServerReplica_def
  by (intro keeps_in_proc keeps_guard_ok [OF keeps_exec_route] keeps_bind [OF keeps_set_proc] keeps_return)
    (auto intro: J_register simp: proc_ok_def)

lemma keeps_alive: "keeps (deployed J X T) (keep_alive p x) (good (\<lambda>_. True))"
  unfolding keep_alive_def HeartbeatServerReplica_def
  by (intro keeps_if keeps_registry_register keeps_bind [OF keeps_exec_route] keeps_case_sum keeps_bind [OF keeps_set_proc] keeps_return)
    (auto intro: J_heartbeat simp: proc_ok_def)

lemma keeps_registry_tick: "keeps (deployed J X T) (registry_tick p) (\<lambda>_. True)"
  unfolding registry_tick_def DeleteExpiredServerReplicas_def ListServerReplicas_def
proof (intro keeps_in_proc keeps_if keeps_return keeps_ignore_err)
  fix x assume x: "proc_ok X p x"
  show "keeps (deployed J X T) (guard_ok (keep_alive p x) (\<lambda>_. guard_ok (exec_route (\<lambda>now. deleteExpiredServerReplicas now (rpExpiry x)))
       (\<lambda>_. if rpObserved x = None then ok () else guard_ok (query_route listServerReplicas) (\<lambda>rs. do {
          set_proc p (\<lambda>y. y\<lparr>rpObserved := map_option (\<lambda>ns. ns @ [length rs]) (rpObserved y)\<rparr>); ok () })))) (good (\<lambda>_. True))"
    using x by (intro keeps_guard_ok [OF keeps_alive] keeps_guard_ok [OF keeps_exec_route] keeps_if keeps_return
        keeps_guard_ok [OF keeps_query_route] keeps_bind [OF keeps_set_proc]) (auto intro: J_expired simp: proc_ok_def)
qed simp_all

lemma keeps_invalidate: "keeps (deployed J X T) (invalidate p rid) (\<lambda>_. True)"
  unfolding invalidate_def by (intro keeps_set_proc) (auto simp: proc_ok_def)

lemma keeps_registry_Stop: "A (RtStop p) \<Longrightarrow> keeps (deployed J X T) (registry_Stop p) (\<lambda>_. True)"
  unfolding registry_Stop_def DeleteServerReplica_def
  by (intro keeps_steps keeps_bind [OF keeps_set_proc] keeps_bind [OF keeps_ignore_err [OF keeps_exec_route]] keeps_set_proc)
    (auto intro: J_stop simp: proc_ok_def)

lemma keeps_BindRunner: "A (RtBind p rid) \<Longrightarrow> keeps (deployed J X T) (registry_BindRunner p rid) (\<lambda>_. True)"
  unfolding registry_BindRunner_def BindRunnerConnection_def
  by (intro keeps_steps keeps_bind [OF keeps_exec_route] keeps_invalidate) (auto intro: J_bind)

lemma keeps_ReleaseRunner: "A (RtRelease p rid) \<Longrightarrow> keeps (deployed J X T) (registry_ReleaseRunner p rid) (\<lambda>_. True)"
  unfolding registry_ReleaseRunner_def ReleaseRunnerConnection_def
  by (intro keeps_steps keeps_bind [OF keeps_ignore_err [OF keeps_exec_route]] keeps_invalidate) (auto intro: J_release)

lemma keeps_remember:
  "(present \<Longrightarrow> peReplicaID peer \<noteq> p) \<Longrightarrow> keeps (deployed J X T) (remember p rid peer present) (\<lambda>_. True)"
  unfolding remember_def by (intro keeps_bind [OF keeps_tick(2)] keeps_bind [OF keeps_set_proc] keeps_return) (auto simp: proc_ok_def)

lemma keeps_Locate: "keeps (deployed J X T) (Locate p rid) (\<lambda>_. True)"
proof -
  have c: "keeps (deployed J X T) (cached x rid) (\<lambda>_. True)" for x
    unfolding cached_def by (cases "rpCache x rid") (auto intro: keeps_return keeps_bind [OF keeps_tick(2)])
  show ?thesis unfolding Locate_def GetRunnerConnection_def
    by (intro keeps_in_proc keeps_bind [OF c])
      (auto intro!: keeps_return keeps_bind [OF keeps_query_route] keeps_bind [OF keeps_tick(2)] keeps_remember keeps_case_sum keeps_cond
        simp del: if_split split: option.split)
qed

lemma keeps_sendLocal: "keeps (deployed J X T) (sendLocal p rid cmd) (\<lambda>_. True)"
  by (rule keepsI) (auto simp: sendLocal_def set_conn_def deployed_def proc_ok_def split: option.splits if_splits)

lemma keeps_DeliverCommand: "keeps (deployed J X T) (DeliverCommand q cred rid cmd) (\<lambda>_. True)"
  unfolding DeliverCommand_def
  by (intro keeps_in_proc keeps_case_sum keeps_if keeps_return keeps_bind [OF keeps_sendLocal])
    (auto intro: keeps_return split: sum.split send_error.split)

lemma keeps_call_peer: "keeps (deployed J X T) (call_peer addr cred rid cmd) (\<lambda>_. True)"
  unfolding call_peer_def
  by (intro keeps_bind [OF keeps_tick(1)])
    (auto intro!: keeps_return keeps_DeliverCommand keeps_bind [OF keeps_DeliverCommand] split: prod.split hop.split option.split)

lemma keeps_SendCommand: "keeps (deployed J X T) (cm_SendCommand p rid cmd) (\<lambda>_. True)"
proof -
  have "keeps (deployed J X T) (Forward cred peer rid cmd) (\<lambda>_. True)" for cred peer
    unfolding Forward_def by (intro keeps_if keeps_bind [OF keeps_call_peer] keeps_return)
      (auto intro: keeps_return split: sum.split DeliveryStatus.split)
  then show ?thesis unfolding cm_SendCommand_def
    by (intro keeps_bind [OF keeps_sendLocal] keeps_if keeps_return keeps_in_proc keeps_bind [OF keeps_Locate])
      (auto intro: keeps_return split: prod.split)
qed

lemma keeps_sendCommands: "keeps (deployed J X T) (sendCommands p rid) (\<lambda>_. True)"
  unfolding sendCommands_def
proof (intro keeps_in_proc)
  fix x assume x: "proc_ok X p x"
  show "keeps (deployed J X T) (case rpConns x rid of None \<Rightarrow> ret () | Some conn \<Rightarrow> (case cnCommands conn of [] \<Rightarrow> ret ()
      | cmd # rest \<Rightarrow> do {
          (failed, taken) \<leftarrow> route_tick (\<lambda>w t. (re_stream_err w t, re_select w t));
          (if cnDone conn \<and> \<not> taken then ret ()
           else if failed then set_conn p rid (\<lambda>c. c\<lparr>cnCommands := rest, cnDone := True\<rparr>)
           else set_conn p rid (\<lambda>c. c\<lparr>cnCommands := rest, cnSent := cnSent c @ [cmd]\<rparr>)) })) (\<lambda>_. True)"
  proof (cases "rpConns x rid")
    case (Some conn)
    with x have "length (cnCommands conn) \<le> commandBufferSize" by (simp add: proc_ok_def)
    then show ?thesis using Some
      by (cases "cnCommands conn") (auto intro!: keeps_return keeps_bind [OF keeps_tick(1)] keeps_set_conn split: prod.split)
  qed (simp add: keeps_return)
qed simp

lemma keeps_processes:
  "A (RtSpawn p cfg router cred) \<Longrightarrow> keeps (deployed J X T) (spawn_process p cfg router cred) (\<lambda>_. True)"
  "keeps (deployed J X T) (crash_process p) (\<lambda>_. True)"
  using A_spawn fresh_proc_ok
  by (auto intro!: keepsI simp: spawn_process_def crash_process_def deployed_def split: if_splits sum.splits)

lemma keeps_serve_route:
  assumes "A q"
  shows "keeps (deployed J X T) (serve_route q) (\<lambda>_. True)"
  using assms
proof (cases q)
  case (RtRegister p rid name host)
  have "keeps (deployed J X T) (cm_Register p rid (newRunnerConnection name host now)) (\<lambda>_. True)" for now
    unfolding cm_Register_def by (intro keeps_in_proc keeps_if keeps_return keeps_bind [OF keeps_set_proc])
      (auto simp: proc_ok_def newRunnerConnection_def)
  with RtRegister show ?thesis by (auto intro: keeps_bind [OF keeps_tick(2)] keeps_ignore_err)
next
  case (RtSeen p rid)
  then show ?thesis
    by (auto simp: cm_UpdateLastSeen_def intro!: keeps_ignore_err [where P = "\<lambda>_. True"] keeps_in_proc keeps_return
        keeps_bind [OF keeps_tick(2)] keeps_bind [OF keeps_set_conn])
next
  case (RtStatus p rid st)
  then show ?thesis
    by (auto simp: cm_UpdateStatus_def intro!: keeps_ignore_err [where P = "\<lambda>_. True"] keeps_in_proc keeps_return
        keeps_bind [OF keeps_set_conn])
next
  case (RtUnregister p rid)
  then show ?thesis by (auto simp: cm_Unregister_def proc_ok_def intro!: keeps_set_proc split: if_splits)
next
  case (RtLocate p rid)
  have "keeps (deployed J X T) (cm_IsConnected p rid) (\<lambda>_. True)" unfolding cm_IsConnected_def
    by (intro keeps_steps keeps_bind [OF keeps_Locate]) (auto intro: keeps_return split: prod.split)
  with RtLocate show ?thesis by (auto intro: keeps_bind keeps_return)
next
  case (RtNewRunner rid)
  then show ?thesis by (auto intro!: keeps_ignore_err keeps_exec_route dest: J_new)
next
  case (RtDropRunner rid)
  then show ?thesis using assms by (auto intro!: keeps_ignore_err keeps_exec_route dest: J_drop)
qed (auto simp: registry_Start_def conn_Close_def
  intro!: keeps_ignore_err keeps_registry_register keeps_registry_tick keeps_registry_Stop keeps_BindRunner keeps_ReleaseRunner
    keeps_sendCommands keeps_SendCommand keeps_processes keeps_set_conn keeps_bind [OF keeps_tick(2)])

lemma invariant_history:
  assumes "list_all A qs" and "deployed J X T w" and "run_state (for_each serve_route qs) w = (u, w')"
  shows "deployed J X T w'"
  using assms
proof (induction qs arbitrary: w)
  case (Cons q qs)
  obtain w1 where q: "run_state (serve_route q) w = ((), w1)" by (cases "run_state (serve_route q) w") simp
  from keepsD [OF keeps_serve_route Cons.prems(2) q] Cons.prems(1) have "deployed J X T w1" by simp
  with Cons q show ?case by simp
qed simp

end

section \<open>The routing table\<close>

definition route_ok :: "routing_db \<Rightarrow> bool" where
  "route_ok d \<longleftrightarrow> distinct (map srID (server_replicas d)) \<and> distinct (map roRunnerID (routes d)) \<and>
     (\<forall>ro i. ro \<in> set (routes d) \<longrightarrow> roReplicaID ro = Some i \<longrightarrow> i \<in> srID ` set (server_replicas d))"

text \<open>The replica a runner's row points at.\<close>

definition holder :: "routing_db \<Rightarrow> string \<Rightarrow> string option" where
  "holder d rid = Option.bind (find (\<lambda>ro. roRunnerID ro = rid) (routes d)) roReplicaID"

lemma register_cases:
  assumes "registerServerReplica now r d = Inr (u, d')"
  obtains (fresh) "srID r \<notin> srID ` set (server_replicas d)"
      "d' = d\<lparr>server_replicas := r\<lparr>srStartedAt := now, srLastHeartbeatAt := now\<rparr> # server_replicas d\<rparr>"
    | (known) x where "x \<in> set (server_replicas d)" "srID x = srID r"
      "d' = d\<lparr>server_replicas := put_row srID (srID r) (x\<lparr>srAdvertiseAddr := srAdvertiseAddr r, srVersion := srVersion r,
         srLastHeartbeatAt := now\<rparr>) (server_replicas d)\<rparr>"
proof (cases "find (\<lambda>x. srID x = srID r) (server_replicas d)")
  case None
  then have "srID r \<notin> srID ` set (server_replicas d)" by (auto simp: find_None_iff image_iff)
  with None assms fresh show thesis by (simp add: registerServerReplica_def)
next
  case (Some x)
  with known [of x] assms show thesis by (auto simp: registerServerReplica_def dest: find_key_eq)
qed

lemma heartbeat_cases:
  assumes "heartbeatServerReplica now p d = Inr (u, d')"
  obtains x where "x \<in> set (server_replicas d)" "srID x = p"
    "d' = d\<lparr>server_replicas := put_row srID p (x\<lparr>srLastHeartbeatAt := now\<rparr>) (server_replicas d)\<rparr>"
  using assms by (auto simp: heartbeatServerReplica_def dest: find_key_eq split: option.splits)

lemma without_replicas_simps:
  "server_replicas (without_replicas gone d) = filter (\<lambda>x. \<not> gone x) (server_replicas d)"
  "map roRunnerID (routes (without_replicas gone d)) = map roRunnerID (routes d)"
  by (auto simp: without_replicas_def Let_def split: option.splits)

lemma without_replicas_pointer:
  assumes "ro \<in> set (routes (without_replicas gone d))" and "roReplicaID ro = Some i"
  shows "ro \<in> set (routes d) \<and> i \<notin> srID ` {x \<in> set (server_replicas d). gone x}"
  using assms by (auto simp: without_replicas_def Let_def split: option.splits if_splits)

lemma without_replicas_ok: "route_ok d \<Longrightarrow> route_ok (without_replicas gone d)"
  unfolding route_ok_def without_replicas_simps
  by (auto simp: distinct_map_filter dest!: without_replicas_pointer) (simp add: image_iff; blast)

lemma release_ids: "releaseRunnerConnection rid p d = Inr (u, d') \<Longrightarrow> map roRunnerID (routes d') = map roRunnerID (routes d)"
  by (auto simp: releaseRunnerConnection_def)

interpretation table: route_invariant route_ok 1 "\<lambda>_. True" "\<lambda>_. True"
proof
  fix d d' :: routing_db and now :: int and r u assume d: "route_ok d" and "registerServerReplica now r d = Inr (u, d')"
  from this(2) show "route_ok d'"
    by (cases rule: register_cases) (use d in \<open>auto simp: route_ok_def set_put_row image_iff\<close>)
next
  fix d d' :: routing_db and now :: int and p u assume d: "route_ok d" and "heartbeatServerReplica now p d = Inr (u, d')"
  from this(2) show "route_ok d'" by (rule heartbeat_cases) (use d in \<open>auto simp: route_ok_def set_put_row image_iff\<close>)
next
  fix d d' :: routing_db and now e n assume "route_ok d" "deleteExpiredServerReplicas now e d = Inr (n, d')"
  then show "route_ok d'" by (auto simp: deleteExpiredServerReplicas_def Let_def intro: without_replicas_ok split: if_splits)
next
  fix d d' :: routing_db and p u assume "route_ok d" "deleteServerReplica p d = Inr (u, d')"
  then show "route_ok d'" by (auto simp: deleteServerReplica_def intro: without_replicas_ok)
next
  fix d d' :: routing_db and p rid now u assume "route_ok d" "bindRunnerConnection now rid p d = Inr (u, d')"
  then show "route_ok d'" by (auto simp: bindRunnerConnection_def route_ok_def set_put_row dest: find_key_eq split: option.splits if_splits)
next
  fix d d' :: routing_db and p rid u assume "route_ok d" "releaseRunnerConnection rid p d = Inr (u, d')"
  then show "route_ok d'" using release_ids [of rid p d u d']
    by (auto simp: route_ok_def) (auto simp: releaseRunnerConnection_def split: if_splits)
next
  fix d d' :: routing_db and rid u assume "route_ok d" "new_route rid d = Inr (u, d')"
  then show "route_ok d'" by (auto simp: new_route_def route_ok_def split: if_splits)
next
  fix d d' :: routing_db and rid u assume "route_ok d" "drop_route rid d = Inr (u, d')"
  then show "route_ok d'" by (auto simp: drop_route_def route_ok_def distinct_map_filter)
next
  fix p cfg router cred h x assume "NewReplicaRegistry cfg router cred h = Inr x"
  then show "1 \<le> rpExpiry x"
    by (auto simp: NewReplicaRegistry_def DefaultReplicaExpiry_def DefaultReplicaHeartbeatInterval_def duration_defs split: if_splits)
qed

text \<open>
  In every history of the processes of a deployment, with crashes, restarts and database faults,
  replica ids and runner ids stay unique, every routing pointer names a registered replica, no
  stream queues more commands than its buffer holds, and no process ever remembers itself as the
  peer to hop to.
\<close>

theorem routing_keeps_table:
  assumes "route_ok (rw_db w)" and "\<forall>p x. rw_procs w p = Some x \<longrightarrow> proc_ok 1 p x"
    and "run_state (for_each serve_route qs) w = (u, w')"
  shows "route_ok (rw_db w') \<and> (\<forall>p x. rw_procs w' p = Some x \<longrightarrow> proc_ok 1 p x)"
  using table.invariant_history [OF _ _ assms(3)] assms(1,2) by (simp add: deployed_def list_all_iff)

section \<open>Pointers\<close>

lemma find_map_same_key: "(\<And>x. key (f x) = key x) \<Longrightarrow> find (\<lambda>x. key x = k) (map f xs) = map_option f (find (\<lambda>x. key x = k) xs)"
  by (induction xs) auto

lemma find_filter_key: "find (\<lambda>x. key x = k) (filter (\<lambda>x. key x \<noteq> j) xs) = (if k = j then None else find (\<lambda>x. key x = k) xs)"
  by (induction xs) (auto simp: find_None_iff)

lemma holder_without: "holder (without_replicas gone d) rid =
    (case holder d rid of None \<Rightarrow> None | Some i \<Rightarrow> if i \<in> srID ` {x \<in> set (server_replicas d). gone x} then None else Some i)"
proof -
  let ?f = "\<lambda>ro. case roReplicaID ro of None \<Rightarrow> ro | Some i \<Rightarrow>
      if i \<in> srID ` {x \<in> set (server_replicas d). gone x} then ro\<lparr>roReplicaID := None\<rparr> else ro"
  have "routes (without_replicas gone d) = map ?f (routes d)" by (auto simp: without_replicas_def Let_def split: option.split)
  then have "find (\<lambda>ro. roRunnerID ro = rid) (routes (without_replicas gone d)) = map_option ?f (find (\<lambda>ro. roRunnerID ro = rid) (routes d))"
    using find_map_same_key [of roRunnerID ?f rid "routes d"] by (simp split: option.split)
  then show ?thesis
    by (cases "find (\<lambda>ro. roRunnerID ro = rid) (routes d)") (auto simp: holder_def split: option.split)
qed

lemma holder_release: "releaseRunnerConnection rid p d = Inr (u, d') \<Longrightarrow>
    holder d' r = (if r = rid \<and> holder d r = Some p then None else holder d r)"
proof -
  let ?f = "\<lambda>ro. if roRunnerID ro = rid \<and> roReplicaID ro = Some p then ro\<lparr>roReplicaID := None, roConnectedAt := None\<rparr> else ro"
  assume "releaseRunnerConnection rid p d = Inr (u, d')"
  then have "routes d' = map ?f (routes d)" by (auto simp: releaseRunnerConnection_def)
  then have "find (\<lambda>ro. roRunnerID ro = r) (routes d') = map_option ?f (find (\<lambda>ro. roRunnerID ro = r) (routes d))"
    using find_map_same_key [of roRunnerID ?f r "routes d"] by simp
  then show ?thesis by (cases "find (\<lambda>ro. roRunnerID ro = r) (routes d)") (auto simp: holder_def dest: find_key_eq)
qed

lemma holder_bind: "bindRunnerConnection now rid p d = Inr (u, d') \<Longrightarrow> holder d' r = (if r = rid then Some p else holder d r)"
  by (auto simp: bindRunnerConnection_def holder_def find_put_row_other dest: find_key_eq split: option.splits if_splits)
    (subst find_put_row_same; auto dest: find_key_eq)

lemma holder_new: "new_route rid d = Inr (u, d') \<Longrightarrow> holder d' r = holder d r"
proof -
  assume n: "new_route rid d = Inr (u, d')"
  then have "find (\<lambda>ro. roRunnerID ro = rid) (routes d) = None" by (auto simp: new_route_def find_None_iff image_iff split: if_splits)
  with n show ?thesis by (auto simp: new_route_def holder_def split: if_splits)
qed

lemma holder_drop: "drop_route rid d = Inr (u, d') \<Longrightarrow> holder d' r = (if r = rid then None else holder d r)"
  by (auto simp: holder_def drop_route_def find_filter_key)

lemma holder_replicas [simp]: "holder (d\<lparr>server_replicas := rs\<rparr>) r = holder d r"
  by (simp add: holder_def)

text \<open>
  While the heartbeats of \<open>q\<close> are at most \<open>X\<close> old, which steps may take the pointer of \<open>rid\<close> from \<open>q\<close>:
  another process binding the runner, the release or the stop of \<open>q\<close> itself, the deletion of the runner.
\<close>

fun leaves_pointer :: "int \<Rightarrow> string \<Rightarrow> string \<Rightarrow> route_request \<Rightarrow> bool" where
  "leaves_pointer X q rid (RtBind p r) \<longleftrightarrow> r \<noteq> rid \<or> p = q"
| "leaves_pointer X q rid (RtRelease p r) \<longleftrightarrow> r \<noteq> rid \<or> p \<noteq> q"
| "leaves_pointer X q rid (RtStop p) \<longleftrightarrow> p \<noteq> q"
| "leaves_pointer X q rid (RtDropRunner r) \<longleftrightarrow> r \<noteq> rid"
| "leaves_pointer X q rid (RtSpawn p cfg router cred) \<longleftrightarrow> X \<le> DefaultReplicaExpiry \<and> (0 < rcExpiry cfg \<longrightarrow> X \<le> rcExpiry cfg)"
| "leaves_pointer X q rid _ \<longleftrightarrow> True"

definition held :: "int \<Rightarrow> string \<Rightarrow> string \<Rightarrow> routing_db \<Rightarrow> bool" where
  "held h q rid d \<longleftrightarrow> holder d rid = Some q \<and> (\<forall>x \<in> set (server_replicas d). srID x = q \<longrightarrow> h \<le> srLastHeartbeatAt x)"

interpretation lease: route_invariant "held h q rid" X "\<lambda>t. h \<le> t \<and> t \<le> h + X" "leaves_pointer X q rid" for h q rid X
proof
  fix d d' :: routing_db and now :: int and r u
  assume d: "held h q rid d" and t: "h \<le> now \<and> now \<le> h + X" and "registerServerReplica now r d = Inr (u, d')"
  from this(3) show "held h q rid d'"
    by (cases rule: register_cases) (use d t in \<open>auto simp: held_def set_put_row\<close>)
next
  fix d d' :: routing_db and now :: int and p u
  assume d: "held h q rid d" and t: "h \<le> now \<and> now \<le> h + X" and "heartbeatServerReplica now p d = Inr (u, d')"
  from this(3) show "held h q rid d'" by (rule heartbeat_cases) (use d t in \<open>auto simp: held_def set_put_row\<close>)
next
  fix d d' :: routing_db and now e n
  assume "held h q rid d" "h \<le> now \<and> now \<le> h + X" "X \<le> e" "deleteExpiredServerReplicas now e d = Inr (n, d')"
  then show "held h q rid d'"
    by (fastforce simp: deleteExpiredServerReplicas_def Let_def held_def holder_without without_replicas_simps split: if_splits)
next
  fix d d' :: routing_db and p u
  assume "leaves_pointer X q rid (RtStop p)" "held h q rid d" "deleteServerReplica p d = Inr (u, d')"
  then show "held h q rid d'" by (auto simp: deleteServerReplica_def held_def holder_without without_replicas_simps)
next
  fix d d' :: routing_db and p r now u
  assume "leaves_pointer X q rid (RtBind p r)" "held h q rid d" and b: "bindRunnerConnection now r p d = Inr (u, d')"
  moreover from b have "server_replicas d' = server_replicas d" by (auto simp: bindRunnerConnection_def split: option.splits if_splits)
  ultimately show "held h q rid d'" by (auto simp: held_def holder_bind [OF b])
next
  fix d d' :: routing_db and p r u
  assume "leaves_pointer X q rid (RtRelease p r)" "held h q rid d" and b: "releaseRunnerConnection r p d = Inr (u, d')"
  moreover from b have "server_replicas d' = server_replicas d" by (auto simp: releaseRunnerConnection_def)
  ultimately show "held h q rid d'" by (auto simp: held_def holder_release [OF b])
next
  fix d d' :: routing_db and r u assume "held h q rid d" and b: "new_route r d = Inr (u, d')"
  then show "held h q rid d'" using b by (auto simp: held_def holder_new [OF b]) (auto simp: new_route_def split: if_splits)
next
  fix d d' :: routing_db and r u assume "leaves_pointer X q rid (RtDropRunner r)" "held h q rid d" and b: "drop_route r d = Inr (u, d')"
  then show "held h q rid d'" using b by (auto simp: held_def holder_drop [OF b]) (auto simp: drop_route_def)
next
  fix p cfg router cred hn x assume "leaves_pointer X q rid (RtSpawn p cfg router cred)" "NewReplicaRegistry cfg router cred hn = Inr x"
  then show "X \<le> rpExpiry x" by (auto simp: NewReplicaRegistry_def split: if_splits)
qed

text \<open>
  C29. A routing pointer is a lease with a fence: while every clock reading stays within the expiry after the last
  heartbeat of the holder, no step of any process takes the pointer away but another process
  opening a stream of the same runner, the holder's own release or stop, and the deletion of the
  runner. In particular the late disconnect of a stream that moved to another replica does not.
\<close>

theorem pointer_leased:
  assumes "holder (rw_db w) rid = Some q" and "\<forall>x \<in> set (server_replicas (rw_db w)). srID x = q \<longrightarrow> h \<le> srLastHeartbeatAt x"
    and "\<forall>k. h \<le> re_clock w k \<and> re_clock w k \<le> h + X" and "\<forall>p x. rw_procs w p = Some x \<longrightarrow> proc_ok X p x"
    and "list_all (leaves_pointer X q rid) qs" and "run_state (for_each serve_route qs) w = (u, w')"
  shows "holder (rw_db w') rid = Some q"
  using lease.invariant_history [of X q rid qs h w u w'] assms by (simp add: deployed_def held_def)

section \<open>Lost pointers\<close>

fun binds :: "string \<Rightarrow> route_request \<Rightarrow> bool" where
  "binds rid (RtBind p r) \<longleftrightarrow> r = rid"
| "binds rid _ \<longleftrightarrow> False"

interpretation lost: route_invariant "\<lambda>d. holder d rid = None" 1 "\<lambda>_. True" "\<lambda>q. \<not> binds rid q" for rid
proof
  fix d d' :: routing_db and now :: int and r u assume "holder d rid = None" "registerServerReplica now r d = Inr (u, d')"
  then show "holder d' rid = None" by (auto elim!: register_cases)
next
  fix d d' :: routing_db and now :: int and p u assume "holder d rid = None" "heartbeatServerReplica now p d = Inr (u, d')"
  then show "holder d' rid = None" by (auto elim!: heartbeat_cases)
next
  fix d d' :: routing_db and p r now u assume "\<not> binds rid (RtBind p r)" "holder d rid = None" "bindRunnerConnection now r p d = Inr (u, d')"
  then show "holder d' rid = None" by (auto simp: holder_bind)
qed (auto simp: deleteExpiredServerReplicas_def deleteServerReplica_def Let_def holder_without holder_release holder_new holder_drop
  intro: table.A_spawn split: if_splits)

lemma holder_None_connection:
  "holder d rid = None \<Longrightarrow> getRunnerConnection rid d = Inl (ErrNotFound ''runner_connection'' rid)"
  by (auto simp: getRunnerConnection_def holder_def dest: find_key_eq split: option.splits)

text \<open>
  C32. A pointer that was lost is not restored by anything but a new stream of the runner: once no
  route names a process for the runner (a replica was taken for dead and its pointers were cleared),
  and in every later history in which no stream of the runner is opened, ticks and registrations
  of the replica that still holds the open stream included, a command is refused as if the runner
  were connected nowhere, when sent from a process that has no stream of the runner itself and whose
  cache does not hold an answer naming a peer that is younger than the cache's lifetime. (A younger
  one still leads to the peer until it ages out.)
\<close>

theorem lost_pointer_stays_lost:
  assumes "holder (rw_db w) rid = None" and "\<forall>p x. rw_procs w p = Some x \<longrightarrow> proc_ok 1 p x"
    and "list_all (\<lambda>q. \<not> binds rid q) qs" and "run_state (for_each serve_route qs) w = (u, w')"
    and "rw_procs w' p = Some x" and "rpConns x rid = None"
    and aged: "\<And>entry. rpCache x rid = Some entry \<Longrightarrow> lePresent entry \<Longrightarrow> leAt entry + replicaLocateCacheTTL < re_clock w' (rw_tick w')"
  shows "holder (rw_db w') rid = None \<and> fst (run_state (cm_SendCommand p rid cmd) w') = Inl ErrRunnerNotFound"
proof -
  have h: "holder (rw_db w') rid = None"
    using lost.invariant_history [of rid qs w u w'] assms(1-4) by (simp add: deployed_def)
  have miss: "\<exists>e v'. run_state (GetRunnerConnection rid) v = (Inl e, v')" if "rw_db v = rw_db w'" for v
  proof -
    obtain r v' where g: "run_state (GetRunnerConnection rid) v = (r, v')" by fastforce
    then have "\<exists>e. r = Inl e" unfolding GetRunnerConnection_def
      by (cases rule: run_query_route_cases) (use holder_None_connection [OF h] that in auto)
    with g show ?thesis by auto
  qed
  obtain o1 v where c: "run_state (cached x rid) w' = (o1, v)" by fastforce
  have v: "rw_db v = rw_db w'" "rw_procs v = rw_procs w'"
    and none: "\<And>entry. o1 = Some entry \<Longrightarrow> \<not> lePresent entry"
    using c aged by (force simp: cached_def route_now_def route_tick_def split: option.splits if_splits)+
  obtain e v' where g: "run_state (GetRunnerConnection rid) v = (Inl e, v')" using miss [OF v(1)] by blast
  have "snd (fst (run_state (Locate p rid) w')) = False"
    using c g none assms(5) by (cases o1) (auto simp: Locate_def remember_def no_peer_def split: if_splits)
  then show ?thesis using h assms(5,6)
    by (auto simp: cm_SendCommand_def sendLocal_def split: prod.splits)
qed

end
