(* ===== verification/Replica_Delivery.thy ===== *)
theory Replica_Delivery
  imports Replica_Laws
begin

text \<open>
  Sending a command through the deployment: it is queued at most once, wherever the runner's stream
  is held, and it is queued when the routing table is right and the hop is answered.
\<close>

section \<open>Queues\<close>

definition queues :: "route_world \<Rightarrow> string \<Rightarrow> string \<Rightarrow> ServerCommand list option" where
  "queues w q rid = (case rw_procs w q of None \<Rightarrow> None | Some x \<Rightarrow> map_option cnCommands (rpConns x rid))"

text \<open>The process holds an open stream of the runner, with these commands queued and room for another.\<close>

definition room :: "route_world \<Rightarrow> string \<Rightarrow> string \<Rightarrow> ServerCommand list \<Rightarrow> bool" where
  "room w q rid cs \<longleftrightarrow> (\<exists>x c. rw_procs w q = Some x \<and> rpConns x rid = Some c \<and> \<not> cnDone c \<and> cnCommands c = cs \<and>
     length cs < commandBufferSize)"

definition queued :: "route_world \<Rightarrow> string \<Rightarrow> string \<Rightarrow> ServerCommand \<Rightarrow> route_world \<Rightarrow> bool" where
  "queued w q rid cmd w' \<longleftrightarrow> (\<exists>cs. room w q rid cs \<and> queues w' = (queues w)(q := (queues w q)(rid \<mapsto> cs @ [cmd])))"

definition same_streams :: "route_world \<Rightarrow> route_world \<Rightarrow> bool" where
  "same_streams w w' \<longleftrightarrow> (\<forall>q. map_option rpConns (rw_procs w' q) = map_option rpConns (rw_procs w q))"

lemma same_streams_queues: "same_streams w w' \<Longrightarrow> queues w' = queues w"
proof (intro ext)
  fix q rid assume "same_streams w w'"
  then have "map_option rpConns (rw_procs w' q) = map_option rpConns (rw_procs w q)" by (simp add: same_streams_def)
  then show "queues w' q rid = queues w q rid" by (auto simp: queues_def split: option.splits)
qed

lemma same_streams_room: "same_streams w w' \<Longrightarrow> room w' q rid cs \<longleftrightarrow> room w q rid cs"
proof -
  assume "same_streams w w'"
  then have "map_option rpConns (rw_procs w' q) = map_option rpConns (rw_procs w q)" by (simp add: same_streams_def)
  then show ?thesis by (cases "rw_procs w q"; cases "rw_procs w' q") (auto simp: room_def)
qed

lemma queued_same: "same_streams w v \<Longrightarrow> queued v q rid cmd w' \<Longrightarrow> queued w q rid cmd w'"
  by (auto simp: queued_def same_streams_queues same_streams_room)

lemma sendLocal_room:
  assumes "room w p rid cs"
  shows "\<exists>w'. run_state (sendLocal p rid cmd) w = (Inr (), w') \<and> queues w' = (queues w)(p := (queues w p)(rid \<mapsto> cs @ [cmd]))"
proof -
  from assms obtain x c where x: "rw_procs w p = Some x" "rpConns x rid = Some c" "\<not> cnDone c" "length (cnCommands c) < commandBufferSize"
    and cs: "cs = cnCommands c" by (auto simp: room_def)
  let ?w = "w\<lparr>rw_procs := (rw_procs w)(p \<mapsto> x\<lparr>rpConns := (rpConns x)(rid \<mapsto> c\<lparr>cnCommands := cnCommands c @ [cmd]\<rparr>)\<rparr>)\<rparr>"
  from x have "run_state (sendLocal p rid cmd) w = (Inr (), ?w)" by (auto simp: sendLocal_def set_conn_def)
  moreover have "queues ?w = (queues w)(p := (queues w p)(rid \<mapsto> cs @ [cmd]))" using x cs by (auto simp: queues_def fun_eq_iff)
  ultimately show ?thesis by blast
qed

lemma sendLocal_cases:
  assumes "run_state (sendLocal p rid cmd) w = (res, w')"
  obtains (sent) "res = Inr ()" "queued w p rid cmd w'"
    | (refused) e where "res = Inl e" "w' = w" "e = ErrRunnerNotFound \<longleftrightarrow> queues w p rid = None" "\<forall>m. e \<noteq> ErrReplicaUnreachable m"
proof (cases "\<exists>cs. room w p rid cs")
  case True
  then have "res = Inr () \<and> queued w p rid cmd w'" using sendLocal_room [of w p rid _ cmd] assms by (fastforce simp: queued_def)
  then show thesis by (elim conjE) (rule sent)
next
  case False
  then have "\<exists>e. res = Inl e \<and> w' = w \<and> (e = ErrRunnerNotFound \<longleftrightarrow> queues w p rid = None) \<and> (\<forall>m. e \<noteq> ErrReplicaUnreachable m)"
    using assms by (auto simp: sendLocal_def room_def queues_def split: option.splits if_splits)
  then show thesis by (elim exE conjE) (rule refused)
qed

interpretation streams: state_preorder same_streams
  by unfold_locales (simp_all add: same_streams_def)

lemma streams_resp:
  "streams.resp (route_tick f)" "streams.resp route_now" "streams.resp (exec_route g)"
  by (auto intro!: streams.respI simp: same_streams_def exec_route_def Let_def split: option.splits sum.splits prod.splits)

lemma streams_remember: "streams.resp (remember p rid peer b)"
  by (rule streams.respI) (simp add: remember_def same_streams_def option.map_comp comp_def)

lemma streams_in_proc: "(\<And>x. streams.resp (k x)) \<Longrightarrow> streams.resp (in_proc p none k)"
  by (rule streams.respI) (auto simp: streams.R_refl dest: streams.respD split: option.split prod.splits intro: prod.collapse [symmetric])

lemma Locate_streams: "streams.resp (Locate p rid)"
  unfolding Locate_def cached_def GetRunnerConnection_def query_route_def
  by (intro streams_in_proc streams_remember streams_resp streams.resp_intros)

lemma queued_room: "queued w q rid cmd w' \<Longrightarrow> queues w q rid \<noteq> None"
  by (auto simp: queued_def room_def queues_def)

lemma DeliverCommand_cases:
  assumes "run_state (DeliverCommand q cred rid cmd) w = (r, w')"
  shows "(w' = w \<and> r \<noteq> Inr DELIVERED) \<or> (r = Inr DELIVERED \<and> queued w q rid cmd w')"
proof -
  obtain x w1 where l: "run_state (sendLocal q rid cmd) w = (x, w1)" by fastforce
  then show ?thesis
    by (cases rule: sendLocal_cases)
      (use assms l in \<open>auto simp: DeliverCommand_def split: option.splits sum.splits if_splits send_error.splits\<close>)
qed

lemma call_peer_cases:
  assumes "run_state (call_peer addr cred rid cmd) w = (r, w')"
  shows "(queues w' = queues w \<and> r \<noteq> Inr DELIVERED) \<or> (\<exists>q. queued w q rid cmd w' \<and> (r = Inr DELIVERED \<or> (\<exists>e. r = Inl e)))"
proof -
  let ?w = "rticked (Suc (rw_tick w)) w"
  have s: "same_streams w ?w" by (simp add: same_streams_def)
  have d: "(w2 = ?w \<and> y \<noteq> Inr DELIVERED) \<or> (y = Inr DELIVERED \<and> queued w q rid cmd w2)"
    if "run_state (DeliverCommand q cred rid cmd) ?w = (y, w2)" for q y w2
    using DeliverCommand_cases [OF that] queued_same [OF s] by blast
  show ?thesis using assms same_streams_queues [OF s]
    by (auto simp: call_peer_def dest!: d split: hop.splits option.splits prod.splits)
qed

lemma Forward_cases:
  assumes "run_state (Forward cred peer rid cmd) w = (r, w')"
  shows "(queues w' = queues w \<and> r \<noteq> Inr ()) \<or> (\<exists>q. queued w q rid cmd w' \<and> (r = Inr () \<or> (\<exists>e. r = Inl (ErrReplicaUnreachable e))))"
proof (cases "cred = []")
  case False
  obtain y w1 where c: "run_state (call_peer (peAddr peer) cred rid cmd) w = (y, w1)" by fastforce
  from call_peer_cases [OF c] show ?thesis using assms c False
    by (auto simp: Forward_def split: sum.splits DeliveryStatus.splits)
qed (use assms in \<open>auto simp: Forward_def\<close>)

text \<open>
  C30. A command is queued at most once: sending it either leaves every queue of the deployment as it
  was, and then it returns an error, or appends it once to the queue of one open stream of the
  runner. Then it returns success, unless only the reply of the hop was lost; the stream is that of
  the sending process whenever this process holds one, and no process forwards a forwarded command.
\<close>

theorem send_at_most_once:
  assumes "run_state (cm_SendCommand p rid cmd) w = (res, w')"
  shows "(queues w' = queues w \<and> res \<noteq> Inr ()) \<or>
     (\<exists>q. queued w q rid cmd w' \<and> (res = Inr () \<or> q \<noteq> p \<and> (\<exists>e. res = Inl (ErrReplicaUnreachable e))) \<and>
        (q = p \<or> queues w p rid = None))"
proof -
  obtain l w1 where l: "run_state (sendLocal p rid cmd) w = (l, w1)" by fastforce
  then show ?thesis
  proof (cases rule: sendLocal_cases)
    case (refused e)
    show ?thesis
    proof (cases "e = ErrRunnerNotFound \<and> (\<exists>x. rw_procs w p = Some x \<and> rpRouter x)")
      case True
      then obtain x where x: "rw_procs w p = Some x" "rpRouter x" and e: "e = ErrRunnerNotFound" by blast
      obtain peer h v where loc: "run_state (Locate p rid) w = ((peer, h), v)" by (metis prod.exhaust)
      from streams.respD [OF Locate_streams loc] have v: "same_streams w v" .
      have none: "queues w p rid = None" using refused(3) e by simp
      show ?thesis
      proof (cases h)
        case True
        then have "run_state (Forward (rpCredential x) peer rid cmd) v = (res, w')"
          using assms l refused(1,2) e x loc by (simp add: cm_SendCommand_def)
        from Forward_cases [OF this] none show ?thesis
          using same_streams_queues [OF v] queued_same [OF v] queued_room by metis
      qed (use assms l refused(1,2) e x loc same_streams_queues [OF v] in \<open>auto simp: cm_SendCommand_def\<close>)
    qed (use assms l refused(1,2) in \<open>auto simp: cm_SendCommand_def split: option.splits if_splits\<close>)
  qed (use assms l in \<open>auto simp: cm_SendCommand_def\<close>)
qed

section \<open>Reaching the holder\<close>

lemma holder_connection:
  assumes "route_ok d" and "holder d rid = Some q" and "y \<in> set (server_replicas d)" and "srID y = q"
  shows "\<exists>at. getRunnerConnection rid d = Inr \<lparr>hcRunnerID = rid, hcReplicaID = q, hcAdvertiseAddr = srAdvertiseAddr y,
     hcConnectedAt = at, hcLastHeartbeatAt = srLastHeartbeatAt y\<rparr>"
proof -
  from assms(2) obtain ro where ro: "find (\<lambda>ro. roRunnerID ro = rid) (routes d) = Some ro" "roReplicaID ro = Some q"
    by (auto simp: holder_def bind_eq_Some_conv)
  have "find (\<lambda>x. Some (srID x) = roReplicaID ro) (server_replicas d) = Some y"
    using assms(1,3,4) ro(2) by (intro find_unique_key [where key = srID]) (auto simp: route_ok_def)
  with ro assms(4) show ?thesis by (simp add: getRunnerConnection_def)
qed

text \<open>
  C31. When the database answers, the routing table names the process that holds the stream, its
  heartbeats have not expired, its address leads to it, both processes share a credential, the hop
  is answered and the queue has room, a command sent from any other process that has no cached
  answer for the runner is queued on that stream, and nowhere else.
\<close>

theorem routed_to_holder:
  assumes "route_ok (rw_db w)" and "\<forall>k. re_fault w k = None \<and> re_hop w k = HopAnswered"
    and "rw_procs w p = Some x" "rpRouter x" "rpConns x rid = None" "rpCache x rid = None"
    and "holder (rw_db w) rid = Some q" "q \<noteq> p" "y \<in> set (server_replicas (rw_db w))" "srID y = q"
    and "\<forall>k. re_clock w k - srLastHeartbeatAt y \<le> rpExpiry x" "re_listener w (srAdvertiseAddr y) = Some q"
    and "rw_procs w q = Some z" "rpCredential x \<noteq> []" "rpCredential z = rpCredential x" "rid \<noteq> []" "room w q rid cs"
  shows "\<exists>w'. run_state (cm_SendCommand p rid cmd) w = (Inr (), w') \<and> queues w' = (queues w)(q := (queues w q)(rid \<mapsto> cs @ [cmd]))"
proof -
  let ?peer = "\<lparr>peReplicaID = q, peAddr = srAdvertiseAddr y\<rparr>"
  obtain at' where g: "getRunnerConnection rid (rw_db w) = Inr \<lparr>hcRunnerID = rid, hcReplicaID = q, hcAdvertiseAddr = srAdvertiseAddr y,
     hcConnectedAt = at', hcLastHeartbeatAt = srLastHeartbeatAt y\<rparr>" using holder_connection [OF assms(1,7,9,10)] by blast
  obtain t e where loc: "run_state (Locate p rid) w = ((?peer, True), (rticked t w)\<lparr>rw_procs := (rw_procs w)(p \<mapsto> x\<lparr>rpCache := e\<rparr>)\<rparr>)"
    using assms(2,3,6,8,11) g
    by (auto simp: Locate_def cached_def GetRunnerConnection_def run_query_route remember_def not_less)
  let ?v = "(rticked t w)\<lparr>rw_procs := (rw_procs w)(p \<mapsto> x\<lparr>rpCache := e\<rparr>)\<rparr>"
  let ?u = "rticked (Suc t) ?v"
  have same: "same_streams w ?u" using assms(3) by (simp add: same_streams_def)
  have "room ?u q rid cs" using assms(17) same_streams_room [OF same] by simp
  from sendLocal_room [OF this, of cmd] obtain w' where l: "run_state (sendLocal q rid cmd) ?u = (Inr (), w')"
    and w': "queues w' = (queues w)(q := (queues w q)(rid \<mapsto> cs @ [cmd]))" using same_streams_queues [OF same] by auto
  have "run_state (DeliverCommand q (rpCredential x) rid cmd) ?u = (Inr DELIVERED, w')"
    using l assms(8,13-16) by (simp add: DeliverCommand_def authenticate_def)
  then have "run_state (call_peer (srAdvertiseAddr y) (rpCredential x) rid cmd) ?v = (Inr DELIVERED, w')"
    using assms(2,12) by (simp add: call_peer_def)
  then have "run_state (cm_SendCommand p rid cmd) w = (Inr (), w')"
    using loc assms(3-5,14) by (simp add: cm_SendCommand_def sendLocal_def Forward_def)
  with w' show ?thesis by blast
qed

end
