(* ===== verification/Replica_Witnesses.thy ===== *)
theory Replica_Witnesses
  imports Replica_Delivery
begin

text \<open>
  Two processes, \<open>A\<close> and \<open>B\<close>; the runner \<open>r-1\<close> has its stream open at \<open>B\<close>, which last proved to be alive
  at time \<open>1\<close>. The clock stands still.
\<close>

definition sample_proc :: "string \<Rightarrow> (string \<rightharpoonup> RunnerConnection) \<Rightarrow> replica_proc" where
  "sample_proc addr conns = \<lparr>rpAdvertiseAddr = addr, rpVersion = ''v1'', rpExpiry = DefaultReplicaExpiry, rpObserved = None,
     rpRegistered = True, rpCache = Map.empty, rpClosed = False, rpConns = conns, rpRouter = True, rpCredential = ''key''\<rparr>"

definition sample_replica :: "string \<Rightarrow> string \<Rightarrow> int \<Rightarrow> ServerReplica" where
  "sample_replica i addr seen = \<lparr>srID = i, srAdvertiseAddr = addr, srVersion = None, srStartedAt = 0, srLastHeartbeatAt = seen\<rparr>"

definition two_replicas :: "int \<Rightarrow> route_world" where
  "two_replicas now = \<lparr>rw_db = \<lparr>server_replicas = [sample_replica ''A'' ''a:1'' 1, sample_replica ''B'' ''b:1'' 1],
       routes = [\<lparr>roRunnerID = ''r-1'', roReplicaID = Some ''B'', roConnectedAt = Some 1\<rparr>]\<rparr>,
     rw_procs = [''A'' \<mapsto> sample_proc ''a:1'' Map.empty, ''B'' \<mapsto> sample_proc ''b:1'' [''r-1'' \<mapsto> newRunnerConnection ''r'' ''h'' 1]],
     rw_tick = 0, re_clock = (\<lambda>_. now), re_fault = (\<lambda>_. None),
     re_listener = [''a:1'' \<mapsto> ''A'', ''b:1'' \<mapsto> ''B''], re_hop = (\<lambda>_. HopAnswered), re_stream_err = (\<lambda>_. False),
     re_select = (\<lambda>_. False), re_hostname = None\<rparr>"

definition sample_command :: ServerCommand where
  "sample_command = KillTask ''t-1'' ''tr-1'' ''stop''"

lemma two_replicas_ok:
  "route_ok (rw_db (two_replicas now))"
  "X \<le> DefaultReplicaExpiry \<Longrightarrow> \<forall>p x. rw_procs (two_replicas now) p = Some x \<longrightarrow> proc_ok X p x"
  by (auto simp: two_replicas_def route_ok_def sample_replica_def sample_proc_def proc_ok_def newRunnerConnection_def)

lemma expiry_positive: "1 \<le> DefaultReplicaExpiry"
  by (simp add: DefaultReplicaExpiry_def DefaultReplicaHeartbeatInterval_def duration_defs)

text \<open>A stalled \<open>B\<close> is reaped by \<open>A\<close>, registers again, and still holds the stream.\<close>

definition reaped :: route_world where
  "reaped = snd (run_state (serve_route (RtTick ''A'')) (two_replicas (31 * Second)))"

definition back_again :: route_world where
  "back_again = snd (run_state (for_each serve_route [RtTick ''B'', RtTick ''B'']) reaped)"

lemma reaped_holder: "holder (rw_db reaped) ''r-1'' = None" "holder (rw_db (two_replicas now)) ''r-1'' = Some ''B''"
  by code_simp (simp add: two_replicas_def holder_def)

lemma back_again_state:
  "(case rw_procs back_again ''B'' of None \<Rightarrow> False | Some x \<Rightarrow> rpRegistered x) \<and> queues back_again ''B'' ''r-1'' = Some []"
  "(case rw_procs back_again ''A'' of None \<Rightarrow> False | Some x \<Rightarrow> rpConns x ''r-1'' = None \<and> rpCache x ''r-1'' = None)"
  by code_simp+

lemma reaped_procs: "\<forall>p x. rw_procs reaped p = Some x \<longrightarrow> proc_ok 1 p x"
proof -
  have "run_state (for_each serve_route [RtTick ''A'']) (two_replicas (31 * Second)) = ((), reaped)"
    by (simp add: reaped_def prod_eq_iff)
  from table.invariant_history [OF _ _ this] two_replicas_ok(1) two_replicas_ok(2) [OF expiry_positive] show ?thesis
    by (simp add: deployed_def)
qed

theorem lost_pointer_stays_lost_witness:
  "holder (rw_db (two_replicas (31 * Second))) ''r-1'' = Some ''B'' \<and> queues back_again ''B'' ''r-1'' = Some [] \<and>
   fst (run_state (cm_SendCommand ''A'' ''r-1'' sample_command) back_again) = Inl ErrRunnerNotFound"
proof -
  have run: "run_state (for_each serve_route [RtTick ''B'', RtTick ''B'']) reaped = ((), back_again)"
    by (simp only: back_again_def prod_eq_iff unit_eq snd_conv fst_conv)
  obtain x where x: "rw_procs back_again ''A'' = Some x" "rpConns x ''r-1'' = None" "rpCache x ''r-1'' = None"
    using back_again_state(2) by (auto split: option.splits)
  have "list_all (\<lambda>q. \<not> binds ''r-1'' q) [RtTick ''B'', RtTick ''B'']" by simp
  from lost_pointer_stays_lost [OF reaped_holder(1) reaped_procs this run x(1,2)] x(3) back_again_state(1) reaped_holder(2) show ?thesis by simp
qed

theorem routing_keeps_table_witness:
  "\<exists>w'. run_state (for_each serve_route [RtTick ''A'', RtSend ''A'' ''r-1'' sample_command, RtCrash ''B'']) (two_replicas 5) = ((), w') \<and>
     route_ok (rw_db w')"
proof -
  obtain w' where r: "run_state (for_each serve_route [RtTick ''A'', RtSend ''A'' ''r-1'' sample_command, RtCrash ''B'']) (two_replicas 5) = ((), w')"
    by (metis (full_types) old.unit.exhaust surj_pair)
  from routing_keeps_table [OF two_replicas_ok(1) two_replicas_ok(2) [OF expiry_positive] r] r show ?thesis by blast
qed

theorem pointer_leased_witness:
  "\<exists>w'. run_state (for_each serve_route [RtRelease ''A'' ''r-1'', RtTick ''A'', RtUnregister ''A'' ''r-1'']) (two_replicas 5) = ((), w') \<and>
     holder (rw_db w') ''r-1'' = Some ''B''"
proof -
  let ?qs = "[RtRelease ''A'' ''r-1'', RtTick ''A'', RtUnregister ''A'' ''r-1'']"
  obtain w' where r: "run_state (for_each serve_route ?qs) (two_replicas 5) = ((), w')"
    by (metis (full_types) old.unit.exhaust surj_pair)
  have clock: "\<forall>x \<in> set (server_replicas (rw_db (two_replicas 5))). srID x = ''B'' \<longrightarrow> 1 \<le> srLastHeartbeatAt x"
    "\<forall>k. 1 \<le> re_clock (two_replicas 5) k \<and> re_clock (two_replicas 5) k \<le> 1 + DefaultReplicaExpiry"
    by (auto simp: two_replicas_def sample_replica_def DefaultReplicaExpiry_def DefaultReplicaHeartbeatInterval_def duration_defs)
  have "list_all (leaves_pointer DefaultReplicaExpiry ''B'' ''r-1'') ?qs" by simp
  from pointer_leased [OF reaped_holder(2) clock two_replicas_ok(2) [OF order_refl] this r] r show ?thesis by blast
qed

lemma sample_room: "room (two_replicas now) ''B'' ''r-1'' []"
  by (simp add: room_def two_replicas_def sample_proc_def newRunnerConnection_def commandBufferSize_def)

theorem send_at_most_once_witness:
  "\<exists>w' q. run_state (cm_SendCommand ''B'' ''r-1'' sample_command) (two_replicas 5) = (Inr (), w') \<and>
     queued (two_replicas 5) q ''r-1'' sample_command w'"
proof -
  obtain w' where r: "run_state (cm_SendCommand ''B'' ''r-1'' sample_command) (two_replicas 5) = (Inr (), w')"
    using sendLocal_room [OF sample_room [of 5], of sample_command] by (auto simp: cm_SendCommand_def)
  from send_at_most_once [OF r] r show ?thesis by auto
qed

theorem routed_to_holder_witness:
  "\<exists>w'. run_state (cm_SendCommand ''A'' ''r-1'' sample_command) (two_replicas 5) = (Inr (), w') \<and>
     queues w' ''B'' ''r-1'' = Some [sample_command]"
proof -
  let ?w = "two_replicas 5" let ?x = "sample_proc ''a:1'' Map.empty" let ?y = "sample_replica ''B'' ''b:1'' 1"
  let ?z = "sample_proc ''b:1'' [''r-1'' \<mapsto> newRunnerConnection ''r'' ''h'' 1]"
  have env: "\<forall>k. re_fault ?w k = None \<and> re_hop ?w k = HopAnswered" "rw_procs ?w ''A'' = Some ?x" "rpRouter ?x"
    "rpConns ?x ''r-1'' = None" "rpCache ?x ''r-1'' = None" "?y \<in> set (server_replicas (rw_db ?w))" "srID ?y = ''B''"
    "\<forall>k. re_clock ?w k - srLastHeartbeatAt ?y \<le> rpExpiry ?x" "re_listener ?w (srAdvertiseAddr ?y) = Some ''B''" "rw_procs ?w ''B'' = Some ?z"
    "rpCredential ?x \<noteq> []" "rpCredential ?z = rpCredential ?x" "''r-1'' \<noteq> ''''" "''B'' \<noteq> ''A''"
    by (simp_all add: two_replicas_def sample_proc_def sample_replica_def DefaultReplicaExpiry_def DefaultReplicaHeartbeatInterval_def duration_defs)
  from routed_to_holder [OF two_replicas_ok(1) env(1-5) reaped_holder(2) env(14,6-13) sample_room, of sample_command]
  show ?thesis by auto
qed

end
