(* ===== verification/Spec2Isabelle.thy ===== *)
theory Spec2Isabelle
  imports Witnesses Server_Witnesses Auth_Witnesses Webhook_Witnesses Schedule_Witnesses Replica_Witnesses
begin

text \<open>
  A verification development for \<^bold>\<open>marionette\<close>, a server that runs coding agents on remote
  runners. It models the server's core, the package \<^verbatim>\<open>pkg/server/core\<close>, on top of the
  PostgreSQL store \<^verbatim>\<open>pkg/store\<close>, \<^verbatim>\<open>pkg/store/postgres\<close>, its credentials, \<^verbatim>\<open>pkg/auth\<close>, its webhooks, \<^verbatim>\<open>pkg/webhook\<close>, and the content addressed storage of
  workspaces, \<^verbatim>\<open>pkg/storage/cas\<close>, with its tables and its garbage collector.

  \<^bold>\<open>The program.\<close> A \<^emph>\<open>session\<close> (\<^verbatim>\<open>session_manager.go\<close>) is a durable conversation in a
  workspace; it is attached to at most one \<^emph>\<open>runner\<close> at a time. A \<^emph>\<open>task\<close>
  (\<^verbatim>\<open>task_manager.go\<close>, \<^verbatim>\<open>redispatch.go\<close>) is one prompt of a session; each attempt to run it is a
  \<^emph>\<open>task run\<close>. The managers keep no state of their own: everything durable is a row of the
  database, commands go to runners over a stream, and follow-up work is a job of a bounded
  background pool (\<^verbatim>\<open>background.go\<close>). Several server processes share the database, so every
  guarantee rests on transactions, compare-and-set updates, unique indexes and claims.
  A workspace is saved as a \<^emph>\<open>manifest\<close>, a blob that lists its entries, and \<^emph>\<open>chunks\<close>, blobs named
  by the hash of their content. A sync walks the tree against the parent manifest and uploads the
  chunks that are missing; the database counts how many manifests name a chunk; a collector marks
  chunks nobody names and deletes them after a grace period.

  \<^bold>\<open>The theories.\<close>
  \<^item> \<open>Prelude\<close>: the error/state monad of the handlers (Go's \<^verbatim>\<open>if err != nil\<close>), its
    weakest-precondition and error calculi, the locale \<open>state_preorder\<close> of relations preserved by
    handlers, and lemmas on keyed rows.
  \<^item> \<open>Store_Types\<close>, \<open>Store_Base\<close>, \<open>Store_Statements\<close>: the rows and update records of
    \<^verbatim>\<open>models.go\<close>, contexts and row level security (\<^verbatim>\<open>tenant.go\<close>, migration 011), sorting and
    cursors (\<^verbatim>\<open>sorting.go\<close>), and one pure function per SQL statement with the CHECK, UNIQUE and
    foreign key constraints of the migrations.
  \<^item> \<open>Store_Laws\<close>: the database invariant \<open>db_inv\<close> and that every statement keeps it;
    \<open>Store_Tables\<close>: the locale \<open>tenant_table\<close> (lookup after insert and update, tenant isolation)
    interpreted on the five tables; \<open>Store_Paging\<close>: cursor pagination.
  \<^item> \<open>World\<close>: the world of a handler (database, sent commands, jobs, recorded effects, and an
    adversarial environment: any statement, send, provider call or pool submission may fail; clock,
    ids and jitter are arbitrary), \<^verbatim>\<open>WithTx\<close>, the statement-level step relation \<open>db_step\<close>, and
    the locale \<open>server_contract\<close> of what a relation needs to be respected by every handler.
  \<^item> \<open>Core_Base\<close>: tenant checks, backoff schedules; \<open>Context_Snapshot\<close>: \<^verbatim>\<open>context_snapshot.go\<close>.
  \<^item> \<open>Task_Manager\<close>: \<^verbatim>\<open>task_manager.go\<close> and the dispatch budget of \<^verbatim>\<open>redispatch.go\<close>;
    \<open>Task_Laws\<close>, \<open>Task_Dispatch\<close>, \<open>Task_Queue\<close>: its theorems.
  \<^item> \<open>Session_Manager\<close>: \<^verbatim>\<open>session_manager.go\<close> and the workspace operations it calls;
    \<open>Session_Laws\<close>, \<open>Session_Lifecycle\<close>, \<open>Runner_Allocation\<close>, \<open>Availability\<close>: its theorems.
  \<^item> \<open>Permission_Manager\<close>: \<^verbatim>\<open>permission_manager.go\<close>, \<^verbatim>\<open>permission_timeout_enforcer.go\<close>;
    \<open>Runner_Manager\<close>: \<^verbatim>\<open>runner_manager.go\<close> with the stale detector, \<^verbatim>\<open>reaper.go\<close>;
    \<open>Dispatch_Waker\<close>: \<^verbatim>\<open>TaskManager.Create\<close>, \<^verbatim>\<open>redispatch_waker.go\<close> and the bodies of the background
    jobs. \<open>Manager_Laws\<close> joins the contracts of all managers in the locale \<open>manager_client\<close> and
    lists the entry points of the server as \<open>request\<close>; \<open>Permission_Laws\<close>, \<open>Runner_Laws\<close>,
    \<open>Waker_Laws\<close>: their theorems.
  \<^item> \<open>Auth_Store\<close>: the statements of \<^verbatim>\<open>postgres/auth.go\<close> on API keys and runner tokens and the deletion of
    a runner with its cascades; \<open>Auth_Service\<close>: \<^verbatim>\<open>cryptoutil/token.go\<close>, \<^verbatim>\<open>auth/runnertoken.go\<close>,
    \<^verbatim>\<open>auth/apikey.go\<close>, in a world that extends the one of the managers by these tables, the random
    source, the digest and the calls of the provider; \<open>Provisioner\<close>: \<^verbatim>\<open>runner_provisioner.go\<close>,
    \<^verbatim>\<open>runner_registry.go\<close>, \<^verbatim>\<open>autospawn.go\<close> and the managed branch of \<^verbatim>\<open>requestRunnerForResume\<close>;
    \<open>Auth_Gate\<close>: \<^verbatim>\<open>api/middleware.go\<close> and the authentication of \<^verbatim>\<open>grpc/control_channel.go\<close>.
    \<open>Auth_Laws\<close>: the statement-level step relation \<open>auth_step\<close>, the locale \<open>auth_contract\<close> of what every
    operation on credentials respects; \<open>Credential_Laws\<close>: the locale \<open>credential\<close>, interpreted on keys
    and on tokens; \<open>Provision_Laws\<close>: spawning step by step; \<open>Runner_Claims\<close>: what the statements of
    every process, the deletion of a runner included, do to the claim of a session.
  \<^item> \<open>Webhook_Text\<close>: \<^verbatim>\<open>webhook/matcher.go\<close>, \<^verbatim>\<open>signature.go\<close>, \<^verbatim>\<open>types.go\<close> and the retry schedule;
    \<open>Webhook_Store\<close>: \<^verbatim>\<open>postgres/webhooks.go\<close>; \<open>Webhook_Manager\<close>: \<^verbatim>\<open>webhook_manager.go\<close>,
    \<^verbatim>\<open>webhook_integration.go\<close>, the request of \<^verbatim>\<open>webhook/dispatcher.go\<close> and \<^verbatim>\<open>jobs/webhook_delivery.go\<close>.
    \<open>Webhook_Text_Laws\<close>: headers, base64, decimals; \<open>Webhook_Laws\<close>: the step relation \<open>hook_step\<close> and the
    locale \<open>hook_contract\<close>; \<open>Webhook_Delivery\<close>: secrets, signatures, the schedule; \<open>Webhook_Runs\<close>: the locale
    \<open>delivery_invariant\<close> of what every delivery run keeps, and queueing.
  \<^item> \<open>Schedule_Store\<close>: the statements on scheduled tasks of \<^verbatim>\<open>postgres/tasks.go\<close> and the query of due
    sessions; \<open>Schedule_Service\<close>: \<^verbatim>\<open>scheduled_task_service.go\<close>, \<^verbatim>\<open>scheduled_task_executor.go\<close>,
    \<^verbatim>\<open>scheduled_session_activator.go\<close>. \<open>Schedule_Laws\<close>: the locale
    \<open>schedule_invariant\<close> of what an invariant must withstand, interpreted on the schema and on a tick
    that is past; \<open>Schedule_Failures\<close>: failure policies and ticks that cannot be taken.
  \<^item> \<open>Replica_Routing\<close>: \<^verbatim>\<open>postgres/replicas.go\<close>, \<^verbatim>\<open>replica_registry.go\<close>, \<^verbatim>\<open>grpc/connection.go\<close>, the hop of
    \<^verbatim>\<open>grpc/command_router.go\<close> and the ends of a stream in \<^verbatim>\<open>grpc/control_channel.go\<close>, for any number of
    processes on one database. \<open>Triples\<close>: Hoare triples for handlers; \<open>Replica_Laws\<close>: the steps of a
    deployment, the locale \<open>route_invariant\<close>, interpreted on the routing table, on a held and on a lost
    pointer; \<open>Replica_Delivery\<close>: where a command is queued.
  \<^item> \<open>Run_Ledger\<close>: the agent's \<^verbatim>\<open>run_ledger.go\<close> and the gate of \<^verbatim>\<open>task_runner.go\<close>, with the log it
    refines.
  \<^item> \<open>Cas_Types\<close> (\<^verbatim>\<open>types.go\<close>, \<^verbatim>\<open>config.go\<close>, \<^verbatim>\<open>diff.go\<close>), \<open>Cas_Frames\<close> (\<^verbatim>\<open>manifest.go\<close>,
    \<^verbatim>\<open>manifest_stream.go\<close>: the framed manifest object, its writer and its cursor), \<open>Cas_Paths\<close> and
    \<open>Cas_Sync\<close> (\<^verbatim>\<open>cdc.go\<close>, \<^verbatim>\<open>sync.go\<close>: path order, parent lookup, the uploading sink, the walk, the
    commit, reading back); \<open>Cas_Frame_Laws\<close> (the locale \<open>manifest_cursor\<close>, interpreted on \<open>Next\<close>),
    \<open>Cas_Roundtrip\<close>, \<open>Cas_Sync_Laws\<close>: their theorems.
  \<^item> \<open>Chunk_Store\<close>: \<^verbatim>\<open>postgres/cas.go\<close>; \<open>Chunk_Refs\<close>: the reachable states of its tables;
    \<open>Cas_GC\<close>: \<^verbatim>\<open>gc.go\<close> and \<^verbatim>\<open>jobs/chunk_gc.go\<close>; \<open>Cas_GC_Laws\<close>: its theorems.
  \<^item> \<open>Sample\<close>, \<open>Cas_Sample\<close>, \<open>Witnesses\<close>, \<open>Server_Witnesses\<close>, \<open>Auth_Witnesses\<close>, \<open>Webhook_Witnesses\<close>,
    \<open>Schedule_Witnesses\<close>, \<open>Replica_Witnesses\<close>: concrete states and each property applied to them.

  \<^bold>\<open>How code is rendered.\<close> A method of a manager is a function of the same name returning a
  computation over \<open>world\<close>; an \<^verbatim>\<open>error\<close> result is the left summand \<open>gerr\<close>. Log lines are
  dropped; audit events, webhooks, wakes and provider calls are recorded. Times are nanoseconds as
  unbounded integers; durations computed from stored 32 bit values wrap as 64 bit integers.
  Concurrency between server processes is expressed by \<open>db_step\<close> (the statements on the core tables)
  and \<open>auth_step\<close> (these, the statements on credentials, and the deletion of a runner): a claim about
  any interleaving is a claim about every statement. Within one process handlers are sequential runs.
  An error of a remote call does not say that nothing happened: a command whose send failed may be
  with the runner (\<open>w_unacked\<close>), an instance whose start failed may run (\<open>aw_strays\<close>), and a call
  to a provider is recorded whether it reports success or not. For the
  session manager, provisioning a fresh runner is a parameter; \<open>Provisioner\<close> models what the program
  passes for it, on the larger world with credentials. There the digest, the random bytes, the
  registered providers and the instances they start are fields of the environment.
  Webhooks add their tables and the requests posted; the answers of receivers, HMAC, AES-GCM and the
  rows other transactions hold locked are fields of the environment (\<open>gcm_ok\<close> states what is needed of the cipher).
  Scheduled tasks add their table; cron expressions, time zones and prompt templates are fields of
  the environment, and the goroutines of one pass of the executor run one after another.
  Routing has its own world, with the processes of a deployment; clocks, database faults, who listens
  at an address, and lost requests and replies are its environment, and every step of a process is a
  request of its own, so a history is any interleaving. The managers see one connection table.
  The storage has its own world \<open>cas_world\<close>: the blobs and an environment in which every operation
  may fail, with or without effect. The encryptor, zstd, the JSON text, the hash and the splitter
  are fields of that environment; what the theorems need of them are the hypotheses \<open>encryptor_ok\<close>,
  \<open>file_codec_ok\<close>, \<open>header_codec_ok\<close>. Times of the collector are database times.

  \<^bold>\<open>What is shown.\<close> Dispatch: a command is sent only for a run the database recorded, errors
  other than that of the send are atomic and that one leaves at most the one command in doubt, an
  undelivered dispatch is unwound, a session runs its tasks one at a time and oldest
  first. Sessions: activation is exclusive and available, claims are exclusive across
  processes, the search for an idle runner is sound and complete. Snapshots survive the
  database; paging enumerates every row once. Some theorems state defects: a dispatch that failed
  to reach its runner blocks every later dispatch of the task; an active session without a runner
  is never given one; merging into a reloaded snapshot panics.
  The server as a whole: every history of requests keeps the schema. Permissions: an answer is
  recorded before it is sent and marked delivered only after. The reaper destroys managed orphans only;
  wakes are folded into passes without loss; delays are bounded; the agent's ledger refines a log
  and executes no run twice. The defects here are a disconnect that strands the running task of the
  runner and a late answer that overwrites an earlier one.
  Credentials and provisioning: every history of requests keeps the schema of keys, tokens and
  runners; a revoked credential never validates again; a failed spawn leaves no trace in the tables and
  disowns an instance its provider left running; a spawned
  agent registers as the runner prepared for it. The defects here are that a request is looked up
  under row level security before it has a tenant, that a rotation cuts the old token off at once,
  that a token cannot be unbound, that the reaper skips every provisioned runner, and that a session
  gets a fresh instance for a resume only once.
  Webhooks: a claimed event is leased to one process; the secret shown at creation verifies every
  request; an event reaches every subscriber's queue and is posted a bounded number of times
  while the database answers. The defects are a backoff that overflows into the past and an event that is never given up because its
  secret cannot be decrypted.
  Scheduled tasks: a tick that one replica executed is refused to every other one, every history of
  requests keeps the schema, and recorded failures reach the policy of the task. The defects are an
  expression without a next run, whose tick every replica executes at every poll, and an activator
  that sees no session when tenants are isolated.
  Routing: pointers to replicas are leases with a fence, a command is queued at most once in the
  deployment, and it reaches the process that holds the stream. The defects are pointers that a
  replica taken for dead never restores, and disconnects that are reported without a fence and
  without access to the rows of tenants.
  Storage: a successful sync committed one entry per item of the tree, made from its content or
  copied from a parent entry that looks the same, and stored every chunk the parent had not lost; what it
  chunked is read back byte by byte; manifest objects round trip; the streaming lookup equals the index;
  reference counts are exact in every interleaving, and the collector ends and spares what is
  referenced. Here the defects are a sweep that takes the blob of a chunk committed meanwhile, a
  truncated manifest that loads as complete, and a dry run that does not end.

  \<^bold>\<open>Bounds and fuel.\<close> Handlers are total functions; loops are structural recursions over the rows a
  query returned. Only \<open>walk_pages\<close> takes fuel, and one more than the number of rows is enough.
  The readers of manifests terminate because every frame consumes bytes. The loops of the collector
  are partial functions, for which ending (or not) is a theorem.

  \<^bold>\<open>Not modelled.\<close> Transport (gRPC, HTTP, WebSocket) but for its authentication, tunnel tokens, fan-out of logs and events, the agent process but for its run ledger, providers and their
  cloud interfaces, log archival, metrics and configuration. Of the content addressed storage: the
  tar based single chunk mode, writing restored files to disk, the backends (local, memory, S3),
  row level security of the chunk tables, and the parallelism of uploads.
\<close>

end
